(* ===== verification/Prelude.thy ===== *)
theory Prelude
  imports Main "HOL-Library.AList" "HOL-Library.List_Lexorder" "HOL-Library.Char_ord"
    "HOL-Library.Multiset" "HOL-Library.Word" "HOL-Library.Signed_Division"
begin

text \<open>
  Prelude of the development: how the Go constructs that every package uses are represented,
  and the lemmas about them that the component theories share.

  \<^item> A Go \<open>string\<close> is a byte string; it is a HOL \<open>string\<close> (a list of 8-bit characters).
    \<open><\<close> on strings is the byte-wise lexicographic order, as in Go.
  \<^item> An \<open>error\<close> is a value of \<open>go_error\<close>: the format string and the operands that
    \<open>fmt.Errorf\<close> is given, unrendered, or the error of the operating system.
  \<^item> A fallible function returns \<open>go_error + 'a\<close>: \<open>Inl\<close> is a non-nil error.
  \<^item> A Go map is \<open>'k \<rightharpoonup> 'v\<close>. A \<open>range\<close> over a map visits the keys in an order the language
    leaves open: the model takes the order as an argument (\<open>range_order\<close>) and the theorems
    hold for every order.
  \<^item> \<open>time.Now()\<close> is read from a \<open>clock\<close>: the argument \<open>clk i\<close> is the i-th reading that an
    operation makes. An \<open>instant\<close> holds what the code uses of a reading.
  \<^item> An operation that holds its mutex from entry to exit is one atomic step; interleavings of
    callers are sequences of such steps (\<open>reachable\<close>).
\<close>

named_theorems go_frame \<open>what an operation leaves unchanged\<close>
named_theorems go_inv \<open>operations preserve the invariant of their component\<close>
named_theorems go_eval \<open>equations that evaluate the model on closed terms\<close>

section \<open>Errors and results\<close>

datatype go_error =
    Errorf string "string list"
  | Wrapf string "string list" go_error
  | SysError string

type_synonym 'a result = "go_error + 'a"

fun is_ok :: "'e + 'a \<Rightarrow> bool" where
  "is_ok (Inl _) = False"
| "is_ok (Inr _) = True"

lemma is_ok_iff: "is_ok r \<longleftrightarrow> (\<exists>x. r = Inr x)"
  by (cases r) auto

lemma not_is_ok_iff: "\<not> is_ok r \<longleftrightarrow> (\<exists>e. r = Inl e)"
  by (cases r) auto

text \<open>
  Steps that change a state and may fail: an error ends the sequence and keeps the state that the
  failing step left.
\<close>

definition bindE :: "('s \<Rightarrow> 'a result \<times> 's) \<Rightarrow> ('a \<Rightarrow> 's \<Rightarrow> 'b result \<times> 's) \<Rightarrow> 's \<Rightarrow> 'b result \<times> 's" where
  "bindE f g s = (case f s of (Inl e, s') \<Rightarrow> (Inl e, s') | (Inr x, s') \<Rightarrow> g x s')"

definition returnE :: "'a \<Rightarrow> 's \<Rightarrow> 'a result \<times> 's" where
  "returnE x s = (Inr x, s)"

definition failE :: "go_error \<Rightarrow> 's \<Rightarrow> 'a result \<times> 's" where
  "failE e s = (Inl e, s)"

fun eachE :: "('a \<Rightarrow> 's \<Rightarrow> unit result \<times> 's) \<Rightarrow> 'a list \<Rightarrow> 's \<Rightarrow> unit result \<times> 's" where
  "eachE f [] s = (Inr (), s)"
| "eachE f (x # xs) s = (case f x s of (Inl e, s') \<Rightarrow> (Inl e, s') | (Inr _, s') \<Rightarrow> eachE f xs s')"

lemma bindE_ok: "f s = (Inr x, s') \<Longrightarrow> bindE f g s = g x s'"
  by (simp add: bindE_def)

lemma bindE_fail: "f s = (Inl e, s') \<Longrightarrow> bindE f g s = (Inl e, s')"
  by (simp add: bindE_def)

lemma bindE_Inr:
  assumes "bindE f g s = (Inr y, t)"
  obtains x s' where "f s = (Inr x, s')" and "g x s' = (Inr y, t)"
  using assms by (auto simp: bindE_def split: prod.splits sum.splits)

lemma returnE_Inr: "returnE x s = (Inr y, t) \<longleftrightarrow> x = y \<and> s = t"
  by (simp add: returnE_def)

lemma failE_Inr: "failE e s \<noteq> (Inr y, t)"
  by (simp add: failE_def)

section \<open>Clock\<close>

record instant =
  unix_ms :: int          \<comment> \<open>\<open>time.Time.UnixMilli\<close>\<close>
  stamp :: string         \<comment> \<open>\<open>time.Time.Format("20060102150405.000000000")\<close>\<close>
  rfc3339 :: string       \<comment> \<open>\<open>UTC().Format(time.RFC3339Nano)\<close>\<close>
  unix_nano :: int        \<comment> \<open>\<open>time.Time.UnixNano\<close>\<close>

type_synonym clock = "nat \<Rightarrow> instant"

definition at_ms :: "int \<Rightarrow> instant" where
  "at_ms n = \<lparr>unix_ms = n, stamp = [], rfc3339 = [], unix_nano = n * 1000000\<rparr>"

lemma unix_ms_at_ms [simp]: "unix_ms (at_ms n) = n"
  by (simp add: at_ms_def)

definition later :: "nat \<Rightarrow> clock \<Rightarrow> clock" where
  "later n clk = (\<lambda>i. clk (n + i))"

section \<open>Ranging over maps\<close>

definition range_order :: "('k \<rightharpoonup> 'v) \<Rightarrow> 'k list \<Rightarrow> bool" where
  "range_order m ks \<longleftrightarrow> distinct ks \<and> set ks = dom m"

definition range_values :: "('k \<rightharpoonup> 'v) \<Rightarrow> 'k list \<Rightarrow> 'v list" where
  "range_values m ks = List.map_filter m ks"

lemma range_values_simps [simp]:
  "range_values m [] = []"
  "range_values m (k # ks) = (case m k of None \<Rightarrow> range_values m ks | Some v \<Rightarrow> v # range_values m ks)"
  by (auto simp: range_values_def List.map_filter_simps split: option.splits)

lemma set_range_values: "set (range_values m ks) = {v. \<exists>k \<in> set ks. m k = Some v}"
  by (induction ks) (auto split: option.splits)

lemma range_values_upd: "k \<notin> set ks \<Longrightarrow> range_values (m(k \<mapsto> v)) ks = range_values m ks"
  by (induction ks) (auto split: option.splits)

lemma range_order_distinct: "range_order m ks \<Longrightarrow> distinct ks"
  by (simp add: range_order_def)

lemma range_order_set: "range_order m ks \<Longrightarrow> set ks = dom m"
  by (simp add: range_order_def)

lemma range_order_mem: "range_order m ks \<Longrightarrow> k \<in> set ks \<longleftrightarrow> (\<exists>v. m k = Some v)"
  by (auto simp: range_order_def)

lemma set_range_values_order: "range_order m ks \<Longrightarrow> set (range_values m ks) = ran m"
  by (auto simp: set_range_values ran_def range_order_mem)

lemma length_range_values: "range_order m ks \<Longrightarrow> length (range_values m ks) = card (dom m)"
proof -
  assume ord: "range_order m ks"
  have "set ks \<subseteq> dom m \<Longrightarrow> length (range_values m ks) = length ks" for ks :: "'a list"
    by (induction ks) auto
  with ord show ?thesis
    by (metis distinct_card order_refl range_order_def)
qed

lemma range_order_finite: "range_order m ks \<Longrightarrow> finite (dom m)"
  by (metis List.finite_set range_order_def)

lemma range_order_empty [simp]: "range_order Map.empty ks \<longleftrightarrow> ks = []"
  by (auto simp: range_order_def)

section \<open>Lists\<close>

lemma ball_tl: "\<forall>x \<in> set xs. P x \<Longrightarrow> \<forall>x \<in> set (tl xs). P x"
  by (cases xs) auto

lemma sum_list_filter_le:
  fixes f :: "'a \<Rightarrow> int"
  assumes "\<And>x. x \<in> set xs \<Longrightarrow> 0 \<le> f x"
  shows "sum_list (map f (filter P xs)) \<le> sum_list (map f xs)"
  using assms by (induction xs) (auto simp: add_increasing)

lemma sum_list_nonneg_map:
  fixes f :: "'a \<Rightarrow> int"
  shows "(\<And>x. x \<in> set xs \<Longrightarrow> 0 \<le> f x) \<Longrightarrow> 0 \<le> sum_list (map f xs)"
  by (induction xs) auto

text \<open>
  \<open>sort.SliceStable\<close> with the comparison \<open>less\<close>: insertion into the sorted rest, before the
  first element that is not smaller, keeps equal elements in their order. \<open>sort.Slice\<close> may
  return any sorted permutation; each of them is the stable sort of some order of its input,
  so where the input comes from a \<open>range\<close> over a map the same function covers it.
\<close>

fun insert_by :: "('a \<Rightarrow> 'a \<Rightarrow> bool) \<Rightarrow> 'a \<Rightarrow> 'a list \<Rightarrow> 'a list" where
  "insert_by lt x [] = [x]"
| "insert_by lt x (y # ys) = (if lt y x then y # insert_by lt x ys else x # y # ys)"

fun sort_by :: "('a \<Rightarrow> 'a \<Rightarrow> bool) \<Rightarrow> 'a list \<Rightarrow> 'a list" where
  "sort_by lt [] = []"
| "sort_by lt (x # xs) = insert_by lt x (sort_by lt xs)"

lemma mset_insert_by [simp]: "mset (insert_by lt x ys) = add_mset x (mset ys)"
  by (induction ys) auto

lemma mset_sort_by [simp]: "mset (sort_by lt xs) = mset xs"
  by (induction xs) auto

lemma set_sort_by [simp]: "set (sort_by lt xs) = set xs"
  by (metis mset_sort_by set_mset_mset)

lemma length_sort_by [simp]: "length (sort_by lt xs) = length xs"
  by (metis mset_sort_by size_mset)

lemma sort_by_Nil_iff [simp]: "sort_by lt xs = [] \<longleftrightarrow> xs = []"
  by (metis length_0_conv length_sort_by)

lemma set_insert_by [simp]: "set (insert_by lt x ys) = insert x (set ys)"
  by (induction ys) auto

text \<open>
  The contract of a comparison function, as the \<open>sort\<close> package states it: a strict weak
  order. A client of a sort relies on these laws only.
\<close>

locale strict_weak =
  fixes lt :: "'a \<Rightarrow> 'a \<Rightarrow> bool"
  assumes asym: "lt x y \<Longrightarrow> \<not> lt y x"
    and ntrans: "\<not> lt x y \<Longrightarrow> \<not> lt y z \<Longrightarrow> \<not> lt x z"
begin

abbreviation ordered :: "'a list \<Rightarrow> bool" where
  "ordered \<equiv> sorted_wrt (\<lambda>x y. \<not> lt y x)"

lemma ordered_insert_by: "ordered ys \<Longrightarrow> ordered (insert_by lt x ys)"
  by (induction ys) (auto dest: asym ntrans)

lemma ordered_sort_by: "ordered (sort_by lt xs)"
  by (induction xs) (auto intro: ordered_insert_by)

lemma hd_insert_by_min:
  assumes "ordered ys" and "y \<in> insert x (set ys)"
  shows "\<not> lt y (hd (insert_by lt x ys))"
proof -
  have srt: "ordered (insert_by lt x ys)" using assms(1) by (rule ordered_insert_by)
  have "y \<in> set (insert_by lt x ys)" using assms(2) by simp
  then show ?thesis using srt asym by (cases "insert_by lt x ys") auto
qed

text \<open>The head of the sorted list is a minimum of the input.\<close>

lemma hd_sort_by_min:
  assumes "y \<in> set xs"
  shows "\<not> lt y (hd (sort_by lt xs))"
proof -
  have mem: "y \<in> set (sort_by lt xs)" using assms by simp
  have srt: "ordered (sort_by lt xs)" by (rule ordered_sort_by)
  show ?thesis
  proof (cases "sort_by lt xs")
    case Nil
    with mem show ?thesis by simp
  next
    case (Cons z zs)
    with mem srt show ?thesis by (auto dest: asym)
  qed
qed

text \<open>It is the first of the minima: the sort is stable.\<close>

lemma hd_sort_by_Cons:
  "hd (sort_by lt (x # xs)) = (if xs = [] then x else if lt (hd (sort_by lt xs)) x then hd (sort_by lt xs) else x)"
proof (cases "sort_by lt xs")
  case Nil
  moreover from Nil have "xs = []" by (metis sort_by_Nil_iff)
  ultimately show ?thesis by simp
next
  case (Cons y ys)
  moreover from Cons have "xs \<noteq> []" by auto
  ultimately show ?thesis by simp
qed

lemma hd_sort_by_first:
  "xs \<noteq> [] \<Longrightarrow> \<exists>i < length xs. hd (sort_by lt xs) = xs ! i \<and> (\<forall>j < i. lt (xs ! i) (xs ! j))"
proof (induction xs)
  case (Cons x xs)
  show ?case
  proof (cases "xs \<noteq> [] \<and> lt (hd (sort_by lt xs)) x")
    case True
    then obtain i where i: "i < length xs" "hd (sort_by lt xs) = xs ! i" "\<forall>j < i. lt (xs ! i) (xs ! j)"
      using Cons.IH by blast
    have "\<forall>j < Suc i. lt ((x # xs) ! Suc i) ((x # xs) ! j)"
      using True i by (auto simp: nth_Cons split: nat.splits)
    then show ?thesis using True i by (intro exI [of _ "Suc i"]) (simp add: hd_sort_by_Cons del: sort_by.simps)
  next
    case False
    then have "hd (sort_by lt (x # xs)) = x" by (auto simp: hd_sort_by_Cons simp del: sort_by.simps)
    then show ?thesis by (intro exI [of _ 0]) simp
  qed
qed simp

lemma hd_sort_by_in: "xs \<noteq> [] \<Longrightarrow> hd (sort_by lt xs) \<in> set xs"
  by (metis hd_in_set set_sort_by sort_by_Nil_iff)

end

section \<open>Reachable states and invariants\<close>

inductive reachable :: "('s \<Rightarrow> bool) \<Rightarrow> ('s \<Rightarrow> 's \<Rightarrow> bool) \<Rightarrow> 's \<Rightarrow> bool"
  for init :: "'s \<Rightarrow> bool" and step :: "'s \<Rightarrow> 's \<Rightarrow> bool" where
  reachable_init: "init s \<Longrightarrow> reachable init step s"
| reachable_step: "reachable init step s \<Longrightarrow> step s t \<Longrightarrow> reachable init step t"

text \<open>
  The contract between a component's step relation and its invariant. Each component
  interprets it once; the reachable states then satisfy the invariant.
\<close>

locale invariant_system =
  fixes init :: "'s \<Rightarrow> bool" and step :: "'s \<Rightarrow> 's \<Rightarrow> bool" and inv :: "'s \<Rightarrow> bool"
  assumes inv_init: "init s \<Longrightarrow> inv s"
    and inv_step: "inv s \<Longrightarrow> step s t \<Longrightarrow> inv t"
begin

lemma reachable_inv: "reachable init step s \<Longrightarrow> inv s"
  by (induction rule: reachable.induct) (auto intro: inv_init inv_step)

lemma steps_inv: "step\<^sup>*\<^sup>* s t \<Longrightarrow> inv s \<Longrightarrow> inv t"
  by (induction rule: rtranclp_induct) (auto intro: inv_step)

end

section \<open>Go integers\<close>

text \<open>
  \<open>int\<close> is 64 bits wide on the platforms the code targets. A counter that grows by one per
  operation is a HOL \<open>int\<close>; \<open>uint64\<close> values that are computed with are words.
\<close>

type_synonym u64 = "64 word"

definition int_in_range :: "int \<Rightarrow> bool" where
  "int_in_range z \<longleftrightarrow> - (2 ^ 63) \<le> z \<and> z < 2 ^ 63"

text \<open>Integer division truncates towards zero.\<close>

definition go_div :: "int \<Rightarrow> int \<Rightarrow> int" where
  "go_div a b = a sdiv b"

lemma go_div_nonneg: "0 \<le> a \<Longrightarrow> 0 < b \<Longrightarrow> go_div a b = a div b"
  by (auto simp: go_div_def signed_divide_int_def sgn_if)

end
