(* ===== verification/Float64.thy ===== *)
theory Float64
  imports Prelude Complex_Main
begin

text \<open>
  Go's \<open>float64\<close>: IEEE 754 double precision with rounding to nearest, ties to even. A value is
  an infinity, a NaN or a rational number; every arithmetic operation computes the exact rational
  result and rounds it (\<open>round64\<close>). The sign of a zero is not represented: no operation of the
  modelled code tells the two zeros apart. Everything is executable.

  The scheduler and the samplers rely on two laws of rounding only, monotonicity and the exactness
  on representable numbers: they are the locale \<open>rounding\<close>, interpreted at the end on the
  executable rounding function.
\<close>

section \<open>Powers of two and binary logarithm\<close>

definition pow2 :: "int \<Rightarrow> rat" where
  "pow2 e = (if 0 \<le> e then 2 ^ nat e else 1 / 2 ^ nat (- e))"

lemma pow2_pos [simp]: "0 < pow2 e"
  by (simp add: pow2_def)

lemma pow2_nonneg [simp]: "0 \<le> pow2 e" and pow2_neq0 [simp]: "pow2 e \<noteq> 0"
  using pow2_pos [of e] by (simp_all add: less_le)

lemma pow2_powi: "pow2 e = 2 powi e"
  by (simp add: pow2_def power_int_def field_simps)

lemma pow2_add: "pow2 (a + b) = pow2 a * pow2 b"
  by (simp add: pow2_powi power_int_add)

lemma pow2_mono: "a \<le> b \<Longrightarrow> pow2 a \<le> pow2 b"
  by (simp add: pow2_powi power_int_increasing)

lemma pow2_less_cancel: "pow2 a < pow2 b \<Longrightarrow> a < b"
  by (meson linorder_not_less pow2_mono)

lemma pow2_nat: "0 \<le> e \<Longrightarrow> pow2 e = of_int (2 ^ nat e)"
  by (simp add: pow2_def)

lemma pow2_diff_int: "b \<le> a \<Longrightarrow> pow2 a / pow2 b = of_int (2 ^ nat (a - b))"
  using pow2_add [of "a - b" b] pow2_nat [of "a - b"] by simp

fun bit_len :: "int \<Rightarrow> nat" where
  "bit_len n = (if n \<le> 0 then 0 else Suc (bit_len (n div 2)))"

declare bit_len.simps [simp del]

lemma bit_len_bounds: "0 < n \<Longrightarrow> 2 ^ (bit_len n - 1) \<le> n \<and> n < 2 ^ bit_len n \<and> 0 < bit_len n"
proof (induction n rule: bit_len.induct)
  case (1 n)
  show ?case
  proof (cases "n = 1")
    case True
    then show ?thesis by (simp add: bit_len.simps)
  next
    case False
    with 1 have "0 < n div 2" by auto
    with 1 have IH: "2 ^ (bit_len (n div 2) - 1) \<le> n div 2" "n div 2 < 2 ^ bit_len (n div 2)"
      "0 < bit_len (n div 2)" by auto
    have eq: "bit_len n = Suc (bit_len (n div 2))" using 1(2) by (subst bit_len.simps) simp
    obtain k where k: "bit_len (n div 2) = Suc k" using IH(3) by (cases "bit_len (n div 2)") auto
    from IH k have "2 * 2 ^ k \<le> n" "n < 2 * (2 * 2 ^ k)" by auto
    then show ?thesis using eq k by simp
  qed
qed

text \<open>\<open>ilog q\<close> is the exponent of the binade of \<open>q > 0\<close>: the largest \<open>e\<close> with \<open>2^e \<le> q\<close>.\<close>

definition ilog :: "rat \<Rightarrow> int" where
  "ilog q = (let (a, b) = quotient_of q; e = int (bit_len a) - int (bit_len b)
             in if pow2 e \<le> q then e else e - 1)"

lemma ilog_bounds:
  assumes "0 < q"
  shows "pow2 (ilog q) \<le> q" and "q < pow2 (ilog q + 1)"
proof -
  obtain a b where ab: "quotient_of q = (a, b)" by fastforce
  have b: "0 < b" using ab by (rule quotient_of_denom_pos)
  have q: "q = of_int a / of_int b" using ab by (rule quotient_of_div)
  have a: "0 < a" using assms b q by (simp add: zero_less_divide_iff)
  define la where "la = int (bit_len a)"
  define lb where "lb = int (bit_len b)"
  note A = bit_len_bounds [OF a] and B = bit_len_bounds [OF b]
  have "0 \<le> la - 1" "0 \<le> lb - 1" using A B by (auto simp: la_def lb_def)
  then have nats: "nat (la - 1) = bit_len a - 1" "nat la = bit_len a"
    "nat (lb - 1) = bit_len b - 1" "nat lb = bit_len b" by (auto simp: la_def lb_def)
  have pw: "pow2 (la - 1) = of_int (2 ^ (bit_len a - 1))" "pow2 la = of_int (2 ^ bit_len a)"
    "pow2 (lb - 1) = of_int (2 ^ (bit_len b - 1))" "pow2 lb = of_int (2 ^ bit_len b)"
    using \<open>0 \<le> la - 1\<close> \<open>0 \<le> lb - 1\<close> by (simp_all add: pow2_nat nats)
  have a1: "pow2 (la - 1) \<le> of_int a" and a2: "of_int a < pow2 la"
    and b1: "pow2 (lb - 1) \<le> of_int b" and b2: "of_int b < pow2 lb"
    unfolding pw of_int_le_iff of_int_less_iff using A B by auto
  have "q * of_int b = of_int a" using b q by simp
  have up: "q < pow2 (la - lb + 1)"
  proof -
    have "pow2 la = pow2 (la - lb + 1) * pow2 (lb - 1)" by (simp flip: pow2_add)
    also have "\<dots> \<le> pow2 (la - lb + 1) * of_int b" using b1 by simp
    finally have "q * of_int b < pow2 (la - lb + 1) * of_int b"
      using a2 \<open>q * of_int b = of_int a\<close> by simp
    then show ?thesis using b by simp
  qed
  have low: "pow2 (la - lb - 1) \<le> q"
  proof -
    have "pow2 (la - lb - 1) * of_int b \<le> pow2 (la - lb - 1) * pow2 lb" using b2 by simp
    also have "\<dots> = pow2 (la - 1)" by (simp flip: pow2_add)
    finally have "pow2 (la - lb - 1) * of_int b \<le> q * of_int b"
      using a1 \<open>q * of_int b = of_int a\<close> by simp
    then show ?thesis using b by simp
  qed
  have il: "ilog q = (if pow2 (la - lb) \<le> q then la - lb else la - lb - 1)"
    by (simp add: ilog_def ab Let_def la_def lb_def)
  show "pow2 (ilog q) \<le> q" using low by (simp add: il)
  show "q < pow2 (ilog q + 1)" using up by (auto simp: il)
qed

lemma ilog_mono: "0 < p \<Longrightarrow> p \<le> q \<Longrightarrow> ilog p \<le> ilog q"
proof -
  assume "0 < p" "p \<le> q"
  then have "pow2 (ilog p) < pow2 (ilog q + 1)"
    using ilog_bounds [of p] ilog_bounds [of q] by linarith
  then show ?thesis using pow2_less_cancel by fastforce
qed

lemma ilog_less: "0 < q \<Longrightarrow> q < pow2 e \<Longrightarrow> ilog q < e"
  using ilog_bounds(1) [of q] pow2_less_cancel [of "ilog q" e] by simp

lemma ilog_ge: "pow2 e \<le> q \<Longrightarrow> e \<le> ilog q"
proof -
  assume le: "pow2 e \<le> q"
  then have "0 < q" using pow2_pos less_le_trans by blast
  then have "pow2 e < pow2 (ilog q + 1)" using ilog_bounds(2) [of q] le by linarith
  then show ?thesis using pow2_less_cancel by fastforce
qed

section \<open>Rounding to nearest, ties to even\<close>

definition half_even :: "rat \<Rightarrow> int" where
  "half_even x = (let f = \<lfloor>x\<rfloor>; d = x - of_int f in
     if d < 1 / 2 then f else if 1 / 2 < d then f + 1 else if even f then f else f + 1)"

lemma half_even_of_int [simp]: "half_even (of_int n) = n"
  by (simp add: half_even_def)

lemma half_even_floor: "\<lfloor>x\<rfloor> \<le> half_even x" "half_even x \<le> \<lfloor>x\<rfloor> + 1"
  by (simp_all add: half_even_def Let_def)

lemma half_even_mono: "x \<le> y \<Longrightarrow> half_even x \<le> half_even y"
proof -
  assume le: "x \<le> y"
  then have fl: "\<lfloor>x\<rfloor> \<le> \<lfloor>y\<rfloor>" by (rule floor_mono)
  show ?thesis
  proof (cases "\<lfloor>x\<rfloor> = \<lfloor>y\<rfloor>")
    case True
    with le show ?thesis by (auto simp: half_even_def Let_def)
  next
    case False
    with fl half_even_floor [of x] half_even_floor [of y] show ?thesis by linarith
  qed
qed

lemma half_even_le: "x \<le> of_int n \<Longrightarrow> half_even x \<le> n"
  using half_even_mono [of x "of_int n"] by simp

lemma half_even_ge: "of_int n \<le> x \<Longrightarrow> n \<le> half_even x"
  using half_even_mono [of "of_int n" x] by simp

lemma half_even_error: "\<bar>of_int (half_even x) - x\<bar> \<le> 1 / 2"
  by (simp add: half_even_def Let_def abs_if) linarith

text \<open>The exponent of the last place of \<open>q\<close>: 52 below its binade, subnormals at -1074.\<close>

definition ulp_exp :: "rat \<Rightarrow> int" where
  "ulp_exp q = max (ilog q - 52) (- 1074)"

definition rnd_pos :: "rat \<Rightarrow> rat" where
  "rnd_pos q = (let u = pow2 (ulp_exp q) in of_int (half_even (q / u)) * u)"

definition rnd :: "rat \<Rightarrow> rat" where
  "rnd q = (if q = 0 then 0 else if 0 < q then rnd_pos q else - rnd_pos (- q))"

definition representable :: "rat \<Rightarrow> bool" where
  "representable q \<longleftrightarrow> (\<exists>m e. q = of_int m * pow2 e \<and> \<bar>m\<bar> < 2 ^ 53 \<and> - 1074 \<le> e)"

lemma rnd_pos_nonneg: "0 \<le> q \<Longrightarrow> 0 \<le> rnd_pos q"
proof -
  assume "0 \<le> q"
  then have "0 \<le> half_even (q / pow2 (ulp_exp q))" by (intro half_even_ge) simp
  then show ?thesis by (simp add: rnd_pos_def Let_def)
qed

lemma rnd_pos_mono_binade:
  assumes "0 < p" "p \<le> q" "ulp_exp p < ulp_exp q"
  shows "rnd_pos p \<le> rnd_pos q"
proof -
  have uq: "ulp_exp q = ilog q - 52" using assms(3) by (auto simp: ulp_exp_def split: if_splits)
  have "ilog p - 52 \<le> ulp_exp p" by (simp add: ulp_exp_def)
  with assms(3) uq have "ilog p + 1 \<le> ilog q" by linarith
  then have "p \<le> pow2 (ilog q)"
    using ilog_bounds(2) [OF assms(1)] pow2_mono [of "ilog p + 1" "ilog q"] by linarith
  then have "p / pow2 (ulp_exp p) \<le> pow2 (ilog q) / pow2 (ulp_exp p)"
    by (simp add: divide_right_mono)
  also have int1: "pow2 (ilog q) / pow2 (ulp_exp p) = of_int (2 ^ nat (ilog q - ulp_exp p))"
    using assms(3) uq by (intro pow2_diff_int) linarith
  finally have "half_even (p / pow2 (ulp_exp p)) \<le> 2 ^ nat (ilog q - ulp_exp p)"
    by (rule half_even_le)
  then have "of_int (half_even (p / pow2 (ulp_exp p))) \<le> pow2 (ilog q) / pow2 (ulp_exp p)"
    unfolding int1 by (simp only: of_int_le_iff)
  then have 1: "rnd_pos p \<le> pow2 (ilog q)"
    by (simp add: rnd_pos_def Let_def pos_le_divide_eq)
  have "pow2 (ilog q) / pow2 (ulp_exp q) \<le> q / pow2 (ulp_exp q)"
    using ilog_bounds(1) [of q] assms by (simp add: divide_right_mono)
  moreover have int2: "pow2 (ilog q) / pow2 (ulp_exp q) = of_int (2 ^ nat (ilog q - ulp_exp q))"
    using uq by (intro pow2_diff_int) linarith
  ultimately have "2 ^ nat (ilog q - ulp_exp q) \<le> half_even (q / pow2 (ulp_exp q))"
    by (intro half_even_ge) simp
  then have "pow2 (ilog q) / pow2 (ulp_exp q) \<le> of_int (half_even (q / pow2 (ulp_exp q)))"
    unfolding int2 by (simp only: of_int_le_iff)
  then have 2: "pow2 (ilog q) \<le> rnd_pos q"
    by (simp add: rnd_pos_def Let_def pos_divide_le_eq)
  from 1 2 show ?thesis by simp
qed

lemma rnd_pos_mono: "0 < p \<Longrightarrow> p \<le> q \<Longrightarrow> rnd_pos p \<le> rnd_pos q"
proof -
  assume p: "0 < p" and le: "p \<le> q"
  have ule: "ulp_exp p \<le> ulp_exp q"
    using ilog_mono [OF p le] by (auto simp: ulp_exp_def)
  show ?thesis
  proof (cases "ulp_exp p = ulp_exp q")
    case True
    have "p / pow2 (ulp_exp q) \<le> q / pow2 (ulp_exp q)" using le by (simp add: divide_right_mono)
    then show ?thesis by (simp add: rnd_pos_def Let_def True half_even_mono)
  next
    case False
    with ule p le show ?thesis by (intro rnd_pos_mono_binade) auto
  qed
qed

lemma rnd_mono: "p \<le> q \<Longrightarrow> rnd p \<le> rnd q"
proof -
  assume le: "p \<le> q"
  consider "0 < p" | "p \<le> 0" "0 \<le> q" | "q < 0" using le by linarith
  then show ?thesis
  proof cases
    case 1
    with le show ?thesis by (simp add: rnd_def rnd_pos_mono)
  next
    case 2
    then have "rnd p \<le> 0" "0 \<le> rnd q"
      using rnd_pos_nonneg [of "- p"] rnd_pos_nonneg [of q] by (auto simp: rnd_def)
    then show ?thesis by linarith
  next
    case 3
    with le rnd_pos_mono [of "- q" "- p"] show ?thesis by (simp add: rnd_def)
  qed
qed

lemma rnd_pos_exact:
  assumes q: "0 < q" "q = of_int m * pow2 e" and m: "\<bar>m\<bar> < 2 ^ 53" and e: "- 1074 \<le> e"
  shows "rnd_pos q = q"
proof -
  have "of_int m < (2 ^ 53 :: rat)"
    using m by (metis abs_le_D1 abs_less_iff of_int_less_iff of_int_numeral of_int_power)
  then have "of_int m * pow2 e < 2 ^ 53 * pow2 e" by (intro mult_strict_right_mono) simp_all
  moreover have "pow2 53 = 2 ^ 53" by (simp add: pow2_def)
  ultimately have "q < pow2 53 * pow2 e" by (simp only: q(2))
  then have "ilog q < 53 + e" using q(1) by (intro ilog_less) (simp_all add: pow2_add)
  then have ule: "ulp_exp q \<le> e" using e by (simp add: ulp_exp_def)
  have "q / pow2 (ulp_exp q) = of_int m * (pow2 e / pow2 (ulp_exp q))" by (simp add: q(2))
  also have "\<dots> = of_int (m * 2 ^ nat (e - ulp_exp q))"
    by (simp add: pow2_diff_int [OF ule])
  finally have "of_int (half_even (q / pow2 (ulp_exp q))) = q / pow2 (ulp_exp q)"
    by (simp only: half_even_of_int)
  then show ?thesis by (simp add: rnd_pos_def Let_def)
qed

lemma representable_uminus: "representable (- q) \<longleftrightarrow> representable q"
proof -
  have "representable q \<Longrightarrow> representable (- q)" for q
    unfolding representable_def by (metis abs_minus_cancel mult_minus_left of_int_minus)
  from this [of q] this [of "- q"] show ?thesis by auto
qed

lemma rnd_exact: "representable q \<Longrightarrow> rnd q = q"
proof -
  assume rep: "representable q"
  consider "q = 0" | "0 < q" | "q < 0" by linarith
  then show ?thesis
  proof cases
    case 2
    with rep show ?thesis by (auto simp: representable_def rnd_def intro: rnd_pos_exact)
  next
    case 3
    from rep have "representable (- q)" by (simp add: representable_uminus)
    with 3 have "rnd_pos (- q) = - q"
      by (auto simp only: representable_def neg_0_less_iff_less intro: rnd_pos_exact)
    with 3 show ?thesis by (simp add: rnd_def)
  qed (simp add: rnd_def)
qed

lemma representable_of_int: "\<bar>n\<bar> < 2 ^ 53 \<Longrightarrow> representable (of_int n)"
  unfolding representable_def by (intro exI [of _ n] exI [of _ 0]) (simp add: pow2_def)

lemma rnd_rel_error:
  assumes "pow2 (- 1022) \<le> q"
  shows "\<bar>rnd q - q\<bar> \<le> q * pow2 (- 53)"
proof -
  have q: "0 < q" using assms pow2_pos less_le_trans by blast
  have "- 1022 \<le> ilog q" using assms by (rule ilog_ge)
  then have u: "ulp_exp q = ilog q - 52" by (simp add: ulp_exp_def)
  let ?u = "pow2 (ulp_exp q)"
  have "rnd q - q = (of_int (half_even (q / ?u)) - q / ?u) * ?u"
    using q by (simp add: rnd_def rnd_pos_def Let_def left_diff_distrib)
  then have "\<bar>rnd q - q\<bar> = \<bar>of_int (half_even (q / ?u)) - q / ?u\<bar> * ?u"
    by (simp add: abs_mult)
  also have "\<dots> \<le> 1 / 2 * ?u"
    using half_even_error [of "q / ?u"] by (intro mult_right_mono) auto
  also have "\<dots> = pow2 (ilog q) * pow2 (- 53)"
    by (simp add: u pow2_def [of "-1"] flip: pow2_add)
       (simp add: pow2_add [of "ilog q - 53" 1, simplified] pow2_def [of 1])
  also have "\<dots> \<le> q * pow2 (- 53)" using ilog_bounds(1) [OF q] by simp
  finally show ?thesis .
qed

text \<open>
  The laws of rounding that the clients below use. They are proved here for any rounding
  function with the two laws, and hold for \<open>rnd\<close> by the interpretation that follows.
\<close>

locale rounding =
  fixes r :: "rat \<Rightarrow> rat" and repr :: "rat \<Rightarrow> bool"
  assumes mono: "p \<le> q \<Longrightarrow> r p \<le> r q"
    and exact: "repr q \<Longrightarrow> r q = q"
begin

lemma upper: "q \<le> b \<Longrightarrow> repr b \<Longrightarrow> r q \<le> b"
  using mono [of q b] by (simp add: exact)

lemma lower: "b \<le> q \<Longrightarrow> repr b \<Longrightarrow> b \<le> r q"
  using mono [of b q] by (simp add: exact)

lemma between: "a \<le> q \<Longrightarrow> q \<le> b \<Longrightarrow> repr a \<Longrightarrow> repr b \<Longrightarrow> a \<le> r q \<and> r q \<le> b"
  by (simp add: upper lower)

end

interpretation dbl: rounding rnd representable
  by unfold_locales (auto intro: rnd_mono rnd_exact)

lemma representable_numerals [simp, intro]:
  "representable 0" "representable 1" "representable 1000"
  using representable_of_int [of 0] representable_of_int [of 1] representable_of_int [of 1000]
  by simp_all

section \<open>The type float64 and its operations\<close>

datatype f64 = NaN | PInf | NInf | Fin rat

definition round64 :: "rat \<Rightarrow> f64" where
  "round64 q = (let r = rnd q in
     if 2 ^ 1024 \<le> r then PInf else if r \<le> - (2 ^ 1024) then NInf else Fin r)"

definition f64_of_int :: "int \<Rightarrow> f64" where
  "f64_of_int z = round64 (of_int z)"

fun f64_neg :: "f64 \<Rightarrow> f64" where
  "f64_neg NaN = NaN"
| "f64_neg PInf = NInf"
| "f64_neg NInf = PInf"
| "f64_neg (Fin p) = Fin (- p)"

fun f64_add :: "f64 \<Rightarrow> f64 \<Rightarrow> f64" where
  "f64_add (Fin p) (Fin q) = round64 (p + q)"
| "f64_add NaN _ = NaN"
| "f64_add _ NaN = NaN"
| "f64_add PInf NInf = NaN"
| "f64_add NInf PInf = NaN"
| "f64_add PInf _ = PInf"
| "f64_add _ PInf = PInf"
| "f64_add NInf _ = NInf"
| "f64_add _ NInf = NInf"

fun f64_sgn :: "f64 \<Rightarrow> int" where
  "f64_sgn NaN = 0"
| "f64_sgn PInf = 1"
| "f64_sgn NInf = - 1"
| "f64_sgn (Fin p) = (if p = 0 then 0 else if 0 < p then 1 else - 1)"

definition f64_signed_inf :: "int \<Rightarrow> f64" where
  "f64_signed_inf s = (if s = 0 then NaN else if 0 < s then PInf else NInf)"

fun f64_mul :: "f64 \<Rightarrow> f64 \<Rightarrow> f64" where
  "f64_mul (Fin p) (Fin q) = round64 (p * q)"
| "f64_mul NaN _ = NaN"
| "f64_mul _ NaN = NaN"
| "f64_mul x y = f64_signed_inf (f64_sgn x * f64_sgn y)"

text \<open>
  Division by a zero gives an infinity of the sign of the dividend: the divisors of the modelled
  code are never a negative zero.
\<close>

fun f64_div :: "f64 \<Rightarrow> f64 \<Rightarrow> f64" where
  "f64_div (Fin p) (Fin q) = (if q = 0 then f64_signed_inf (f64_sgn (Fin p)) else round64 (p / q))"
| "f64_div NaN _ = NaN"
| "f64_div _ NaN = NaN"
| "f64_div (Fin p) _ = Fin 0"
| "f64_div x (Fin q) = (if q < 0 then f64_neg x else x)"
| "f64_div _ _ = NaN"

fun f64_less :: "f64 \<Rightarrow> f64 \<Rightarrow> bool" where
  "f64_less (Fin p) (Fin q) = (p < q)"
| "f64_less NaN _ = False"
| "f64_less _ NaN = False"
| "f64_less NInf y = (y \<noteq> NInf)"
| "f64_less _ NInf = False"
| "f64_less PInf _ = False"
| "f64_less (Fin _) PInf = True"

text \<open>Go's \<open>==\<close> on floats: a NaN is equal to nothing.\<close>

definition f64_eq :: "f64 \<Rightarrow> f64 \<Rightarrow> bool" where
  "f64_eq x y \<longleftrightarrow> x = y \<and> x \<noteq> NaN"

instantiation f64 :: "{zero, one, plus, minus, uminus, times, divide, ord}"
begin

definition zero_f64_def: "0 = Fin 0"
definition one_f64_def: "1 = Fin 1"
definition plus_f64_def: "x + y = f64_add x y"
definition uminus_f64_def: "- x = f64_neg x"
definition minus_f64_def: "x - y = f64_add x (f64_neg y)"
definition times_f64_def: "x * y = f64_mul x y"
definition divide_f64_def: "x div y = f64_div x y"
definition less_f64_def: "x < y \<longleftrightarrow> f64_less x y"
definition less_eq_f64_def: "x \<le> y \<longleftrightarrow> f64_less x y \<or> f64_eq x y"

instance ..

end

lemmas f64_ops = zero_f64_def one_f64_def plus_f64_def uminus_f64_def minus_f64_def
  times_f64_def divide_f64_def less_f64_def less_eq_f64_def

lemma f64_less_Fin [simp]: "Fin p < Fin q \<longleftrightarrow> p < q" "Fin p \<le> Fin q \<longleftrightarrow> p \<le> q"
  by (auto simp: less_f64_def less_eq_f64_def f64_eq_def)

lemma f64_irrefl [simp]: "\<not> (x :: f64) < x"
  by (cases x) (auto simp: less_f64_def)

lemma f64_trans: "(x :: f64) < y \<Longrightarrow> y < z \<Longrightarrow> x < z"
  by (cases x; cases y; cases z) (auto simp: less_f64_def)

lemma f64_NaN_less [simp]: "\<not> NaN < x" "\<not> x < NaN"
  by (cases x; simp add: less_f64_def)+

text \<open>On the values that are not NaN the order is linear.\<close>

lemma f64_linear: "x \<noteq> NaN \<Longrightarrow> y \<noteq> NaN \<Longrightarrow> x < y \<or> x = y \<or> (y :: f64) < x"
  by (cases x; cases y) (auto simp: less_f64_def)

lemma f64_not_less_trans:
  "y \<noteq> NaN \<Longrightarrow> \<not> (x :: f64) < y \<Longrightarrow> \<not> y < z \<Longrightarrow> \<not> x < z"
  by (cases x; cases y; cases z) (auto simp: less_f64_def)

lemma NInf_less: "NInf < x \<longleftrightarrow> x \<noteq> NInf \<and> x \<noteq> NaN"
  by (cases x) (auto simp: less_f64_def)

section \<open>The functions of package math and the conversions\<close>

fun f64_abs :: "f64 \<Rightarrow> f64" where
  "f64_abs (Fin p) = Fin \<bar>p\<bar>"
| "f64_abs NInf = PInf"
| "f64_abs x = x"

text \<open>\<open>math.Round\<close>: half away from zero. Beyond \<open>2^52\<close> every double is an integer.\<close>

fun f64_round :: "f64 \<Rightarrow> f64" where
  "f64_round (Fin p) = Fin (of_int (if 0 \<le> p then \<lfloor>p + 1 / 2\<rfloor> else - \<lfloor>- p + 1 / 2\<rfloor>))"
| "f64_round x = x"

definition f64_max :: "f64 \<Rightarrow> f64 \<Rightarrow> f64" where   \<comment> \<open>\<open>math.Max\<close>\<close>
  "f64_max x y = (if x = PInf \<or> y = PInf then PInf else if x = NaN \<or> y = NaN then NaN
     else if y < x then x else y)"

text \<open>
  Conversions to integers truncate. Out of range the result is what the amd64 instructions
  give: \<open>-2^63\<close> for \<open>int\<close>, \<open>2^63\<close> for \<open>uint64\<close>.
\<close>

definition rat_trunc :: "rat \<Rightarrow> int" where
  "rat_trunc p = (if 0 \<le> p then \<lfloor>p\<rfloor> else - \<lfloor>- p\<rfloor>)"

definition f64_to_int :: "f64 \<Rightarrow> int" where
  "f64_to_int x = (case x of
       Fin p \<Rightarrow> (if int_in_range (rat_trunc p) then rat_trunc p else - (2 ^ 63))
     | _ \<Rightarrow> - (2 ^ 63))"

definition f64_to_u64 :: "f64 \<Rightarrow> u64" where
  "f64_to_u64 x = (case x of
       Fin p \<Rightarrow> (if - 1 < p \<and> p < 2 ^ 64 then of_int (rat_trunc p) else 2 ^ 63)
     | _ \<Rightarrow> 2 ^ 63)"

text \<open>
  The three helpers \<open>clamp\<close>, \<open>maxFloat\<close> and \<open>round3\<close> that \<open>internal/scheduler\<close> and
  \<open>internal/resource\<close> share.
\<close>

definition clamp :: "f64 \<Rightarrow> f64 \<Rightarrow> f64 \<Rightarrow> f64" where
  "clamp value minValue maxValue =
     (if value < minValue then minValue else if maxValue < value then maxValue else value)"

definition maxFloat :: "f64 \<Rightarrow> f64 \<Rightarrow> f64" where
  "maxFloat left right = (if right < left then left else right)"

definition round3 :: "f64 \<Rightarrow> f64" where
  "round3 value = f64_round (value * Fin 1000) div Fin 1000"

definition unit_range :: "f64 \<Rightarrow> bool" where
  "unit_range x \<longleftrightarrow> 0 \<le> x \<and> x \<le> 1"

lemma unit_range_iff: "unit_range x \<longleftrightarrow> (\<exists>p. x = Fin p \<and> 0 \<le> p \<and> p \<le> 1)"
  by (cases x) (auto simp: unit_range_def f64_ops f64_eq_def)

lemma clamp_unit: "x \<noteq> NaN \<Longrightarrow> unit_range (clamp x 0 1)"
  by (cases x) (auto simp: clamp_def unit_range_iff f64_ops)

lemma clamp_unit_id: "unit_range x \<Longrightarrow> clamp x 0 1 = x"
  by (auto simp: unit_range_iff clamp_def f64_ops)

lemma clamp_NaN [simp]: "clamp NaN a b = NaN"
  by (simp add: clamp_def)

lemma maxFloat_unit: "unit_range x \<Longrightarrow> unit_range y \<Longrightarrow> unit_range (maxFloat x y)"
  by (simp add: maxFloat_def)

lemma maxFloat_unit_bounds:
  "unit_range x \<Longrightarrow> unit_range y \<Longrightarrow> x \<le> maxFloat x y \<and> y \<le> maxFloat x y"
  by (auto simp: unit_range_iff maxFloat_def)

lemma round64_small: "0 \<le> p \<Longrightarrow> p \<le> 1000 \<Longrightarrow> round64 p = Fin (rnd p)"
proof -
  assume "0 \<le> p" "p \<le> 1000"
  then have "0 \<le> rnd p \<and> rnd p \<le> 1000" by (intro dbl.between) auto
  moreover have "(1000 :: rat) < 2 ^ 1024" by simp
  ultimately have "rnd p < 2 ^ 1024" "- (2 ^ 1024) < rnd p" by linarith+
  then show ?thesis by (simp add: round64_def Let_def)
qed

text \<open>\<open>round3\<close> of a value in the unit interval is the double nearest to \<open>n / 1000\<close>.\<close>

definition milli :: "rat \<Rightarrow> int" where
  "milli p = \<lfloor>rnd (p * 1000) + 1 / 2\<rfloor>"

lemma milli_bounds: "0 \<le> p \<Longrightarrow> p \<le> 1 \<Longrightarrow> 0 \<le> milli p \<and> milli p \<le> 1000"
proof -
  assume "0 \<le> p" "p \<le> 1"
  then have "0 \<le> rnd (p * 1000) \<and> rnd (p * 1000) \<le> 1000" by (intro dbl.between) auto
  then show ?thesis by (simp add: milli_def)
qed

lemma round3_eq: "0 \<le> p \<Longrightarrow> p \<le> 1 \<Longrightarrow> round3 (Fin p) = Fin (rnd (of_int (milli p) / 1000))"
proof -
  assume p: "0 \<le> p" "p \<le> 1"
  have "0 \<le> rnd (p * 1000)" using p by (intro dbl.lower) auto
  moreover have "(0 :: rat) \<le> of_int (milli p)" "of_int (milli p) \<le> (1000 :: rat)"
    using milli_bounds [OF p] by auto
  moreover have "round64 (p * 1000) = Fin (rnd (p * 1000))" using p by (intro round64_small) auto
  ultimately show ?thesis
    by (simp add: round3_def times_f64_def divide_f64_def milli_def [symmetric] round64_small)
qed

lemma round3_unit: "unit_range x \<Longrightarrow> unit_range (round3 x)"
proof -
  assume "unit_range x"
  then obtain p where p: "x = Fin p" "0 \<le> p" "p \<le> 1" by (auto simp: unit_range_iff)
  with milli_bounds [of p] have "0 \<le> rnd (of_int (milli p) / 1000) \<and> rnd (of_int (milli p) / 1000) \<le> 1"
    by (intro dbl.between) auto
  with p show ?thesis by (simp add: round3_eq unit_range_iff)
qed

lemma milli_rnd:
  assumes "0 \<le> n" "n \<le> 1000"
  shows "milli (rnd (of_int n / 1000)) = n"
proof (cases "n = 0")
  case True
  then show ?thesis by (simp add: milli_def dbl.exact floor_eq_iff)
next
  case False
  define y :: rat where "y = of_int n / 1000"
  have n: "1 \<le> (of_int n :: rat)" "of_int n \<le> (1000 :: rat)" using assms False by auto
  have tiny: "pow2 (- 1022) \<le> pow2 (- 10)" by (rule pow2_mono) simp
  have p10: "pow2 (- 10) = 1 / 1024" and p53: "pow2 (- 53) = 1 / 2 ^ 53"
    by (simp_all add: pow2_def)
  have "pow2 (- 1022) \<le> y" using tiny n by (simp add: p10 y_def)
  from rnd_rel_error [OF this] have e1: "\<bar>rnd y - y\<bar> \<le> y * (1 / 2 ^ 53)" by (simp only: p53)
  define z where "z = rnd y * 1000"
  have "\<bar>z - of_int n\<bar> = \<bar>rnd y - y\<bar> * 1000" by (simp add: z_def y_def abs_if field_simps)
  also have "\<dots> \<le> y * (1 / 2 ^ 53) * 1000" using e1 by simp
  also have "\<dots> \<le> 1 / 2 ^ 40" using n by (simp add: y_def)
  finally have e2: "\<bar>z - of_int n\<bar> \<le> 1 / 2 ^ 40" .
  moreover have "(1 / 2 ^ 40 :: rat) \<le> 1 / 2" by simp
  ultimately have "\<bar>z - of_int n\<bar> \<le> 1 / 2" by (rule order_trans)
  then have z: "1 / 2 \<le> z" "z \<le> 1001" using n by (simp_all only: abs_le_iff, linarith+)
  have "pow2 (- 1022) \<le> z" using tiny z by (simp add: p10)
  from rnd_rel_error [OF this] have "\<bar>rnd z - z\<bar> \<le> z * (1 / 2 ^ 53)" by (simp only: p53)
  also have "\<dots> \<le> 1 / 2 ^ 40" using z by simp
  finally have "\<bar>rnd z - of_int n\<bar> < 1 / 2" using e2 by (simp add: abs_if split: if_splits)
  then have "\<lfloor>rnd z + 1 / 2\<rfloor> = n" by (intro floor_unique; linarith)
  then show ?thesis by (simp add: milli_def z_def y_def)
qed

text \<open>Rounding to three decimals is idempotent on the unit interval, with all its roundings.\<close>

lemma round3_idem: "unit_range x \<Longrightarrow> round3 (round3 x) = round3 x"
proof -
  assume "unit_range x"
  then obtain p where p: "x = Fin p" "0 \<le> p" "p \<le> 1" by (auto simp: unit_range_iff)
  have b: "0 \<le> rnd (of_int (milli p) / 1000) \<and> rnd (of_int (milli p) / 1000) \<le> 1"
    using milli_bounds [of p] p by (intro dbl.between) auto
  then have "round3 (Fin (rnd (of_int (milli p) / 1000)))
      = Fin (rnd (of_int (milli (rnd (of_int (milli p) / 1000))) / 1000))"
    by (intro round3_eq) auto
  then show ?thesis using p milli_bounds [of p] by (simp add: round3_eq milli_rnd)
qed

section \<open>Bounded values\<close>

text \<open>Sums and products of bounded values are finite: neither an infinity nor a \<open>NaN\<close>.\<close>

definition bnd :: "nat \<Rightarrow> f64 \<Rightarrow> bool" where
  "bnd k x \<longleftrightarrow> (\<exists>p. x = Fin p \<and> \<bar>p\<bar> \<le> 2 ^ k)"

lemma bndE: "bnd k x \<Longrightarrow> (\<And>p. x = Fin p \<Longrightarrow> \<bar>p\<bar> \<le> 2 ^ k \<Longrightarrow> thesis) \<Longrightarrow> thesis"
  by (auto simp: bnd_def)

lemma bnd_Fin [simp]: "bnd k (Fin p) \<longleftrightarrow> \<bar>p\<bar> \<le> 2 ^ k"
  by (simp add: bnd_def)

lemma bnd_not_NaN: "bnd k x \<Longrightarrow> x \<noteq> NaN"
  by (auto simp: bnd_def)

lemma bnd_mono: "bnd j x \<Longrightarrow> j \<le> k \<Longrightarrow> bnd k x"
proof (elim bndE)
  fix p assume "j \<le> k" "x = Fin p" "\<bar>p\<bar> \<le> 2 ^ j"
  moreover from \<open>j \<le> k\<close> have "(2 ^ j :: rat) \<le> 2 ^ k" by (intro power_increasing) simp_all
  ultimately have "\<bar>p\<bar> \<le> 2 ^ k" by linarith
  with \<open>x = Fin p\<close> show ?thesis by simp
qed

lemma representable_power: "representable (2 ^ k)"
  unfolding representable_def by (intro exI [of _ 1] exI [of _ "int k"]) (simp add: pow2_nat)

lemma round64_bnd:
  assumes "\<bar>p\<bar> \<le> 2 ^ k" and "k \<le> 1000"
  shows "round64 p = Fin (rnd p) \<and> \<bar>rnd p\<bar> \<le> 2 ^ k"
proof -
  have "- (2 ^ k) \<le> rnd p \<and> rnd p \<le> 2 ^ k"
    using assms(1) representable_power [of k] representable_uminus [of "2 ^ k"]
    by (intro dbl.between) (auto simp: abs_le_iff)
  moreover have "(2 ^ k :: rat) < 2 ^ 1024" using assms(2) by (intro power_strict_increasing) simp_all
  ultimately have "rnd p < 2 ^ 1024" "- (2 ^ 1024) < rnd p" "\<bar>rnd p\<bar> \<le> 2 ^ k" by linarith+
  then show ?thesis by (simp add: round64_def Let_def)
qed

lemma bnd_round64: "\<bar>p\<bar> \<le> 2 ^ k \<Longrightarrow> k \<le> 1000 \<Longrightarrow> bnd k (round64 p)"
  using round64_bnd by (auto simp: bnd_def)

lemma bnd_of_int: "\<bar>z\<bar> \<le> 2 ^ k \<Longrightarrow> k \<le> 1000 \<Longrightarrow> bnd k (f64_of_int z)"
  unfolding f64_of_int_def
  by (rule bnd_round64) (metis of_int_abs of_int_le_iff of_int_numeral of_int_power)

lemma bnd_add: "bnd k x \<Longrightarrow> bnd k y \<Longrightarrow> k < 1000 \<Longrightarrow> bnd (Suc k) (x + y)"
proof (elim bndE)
  fix p q assume xy: "x = Fin p" "y = Fin q" "\<bar>p\<bar> \<le> 2 ^ k" "\<bar>q\<bar> \<le> 2 ^ k" "k < 1000"
  then have "\<bar>p + q\<bar> \<le> 2 ^ Suc k" using abs_triangle_ineq [of p q] by simp
  then show ?thesis using xy bnd_round64 [of "p + q" "Suc k"] by (simp add: plus_f64_def)
qed

lemma bnd_uminus: "bnd k x \<Longrightarrow> bnd k (f64_neg x)"
  by (auto simp: bnd_def)

lemma bnd_minus: "bnd k x \<Longrightarrow> bnd k y \<Longrightarrow> k < 1000 \<Longrightarrow> bnd (Suc k) (x - y)"
  using bnd_add [OF _ bnd_uminus] by (simp add: minus_f64_def plus_f64_def)

lemma bnd_mult: "bnd j x \<Longrightarrow> bnd k y \<Longrightarrow> j + k \<le> 1000 \<Longrightarrow> bnd (j + k) (x * y)"
proof (elim bndE)
  fix p q assume xy: "x = Fin p" "y = Fin q" "\<bar>p\<bar> \<le> 2 ^ j" "\<bar>q\<bar> \<le> 2 ^ k" "j + k \<le> 1000"
  then have "\<bar>p * q\<bar> \<le> 2 ^ (j + k)" by (simp add: abs_mult power_add mult_mono)
  then show ?thesis using xy bnd_round64 [of "p * q" "j + k"] by (simp add: times_f64_def)
qed

lemma bnd_div: "bnd k x \<Longrightarrow> 1 \<le> q \<Longrightarrow> k \<le> 1000 \<Longrightarrow> bnd k (x div Fin q)"
proof (elim bndE)
  fix p assume xy: "x = Fin p" "\<bar>p\<bar> \<le> 2 ^ k" "1 \<le> q" "k \<le> 1000"
  have "(2 ^ k :: rat) * 1 \<le> 2 ^ k * q" using xy by (intro mult_left_mono) simp_all
  then have "\<bar>p\<bar> \<le> 2 ^ k * q" using xy by linarith
  then have "\<bar>p / q\<bar> \<le> 2 ^ k" using xy by (simp add: abs_divide divide_le_eq)
  then show ?thesis using xy bnd_round64 [of "p / q" k] by (simp add: divide_f64_def)
qed

lemma bnd_round: "bnd k x \<Longrightarrow> bnd (Suc k) (f64_round x)"
proof (elim bndE)
  fix p assume p: "x = Fin p" "\<bar>p\<bar> \<le> 2 ^ k"
  have one: "(1 :: rat) \<le> 2 ^ k" by simp
  have b: "of_int \<lfloor>q + 1 / 2\<rfloor> \<le> q + 1 \<and> (0 :: rat) \<le> of_int \<lfloor>q + 1 / 2\<rfloor>" if "0 \<le> q" for q :: rat
  proof -
    have "of_int \<lfloor>q + 1 / 2\<rfloor> \<le> q + 1 / 2" by (rule of_int_floor_le)
    then have "of_int \<lfloor>q + 1 / 2\<rfloor> \<le> q + 1" by linarith
    then show ?thesis using that by simp
  qed
  show ?thesis
  proof (cases "0 \<le> p")
    case True
    then have "of_int \<lfloor>p + 1 / 2\<rfloor> \<le> (2 ^ Suc k :: rat)" using p one b [OF True] by (simp only: power_Suc) linarith
    then show ?thesis using p True b [OF True] by simp
  next
    case False
    then have "0 \<le> - p" by simp
    then have "of_int \<lfloor>- p + 1 / 2\<rfloor> \<le> (2 ^ Suc k :: rat)" using p one b [OF \<open>0 \<le> - p\<close>] by (simp only: power_Suc) linarith
    then show ?thesis using p False b [OF \<open>0 \<le> - p\<close>] by simp
  qed
qed

lemma bnd_round3: "bnd k x \<Longrightarrow> k < 900 \<Longrightarrow> bnd (k + 11) (round3 x)"
  unfolding round3_def
proof -
  assume x: "bnd k x" "k < 900"
  have "bnd (k + 10) (x * Fin 1000)" using x by (intro bnd_mult) simp_all
  then have "bnd (Suc (k + 10)) (f64_round (x * Fin 1000))" by (rule bnd_round)
  then have "bnd (Suc (k + 10)) (f64_round (x * Fin 1000) div Fin 1000)" using x by (intro bnd_div) simp_all
  then show "bnd (k + 11) (f64_round (x * Fin 1000) div Fin 1000)" by (simp add: add.commute)
qed

lemma bnd_unit: "unit_range x \<Longrightarrow> bnd 0 x"
  by (auto simp: unit_range_iff)

end
