(* ===== verification/GoStrings.thy ===== *)
theory GoStrings
  imports Prelude
begin

text \<open>
  The functions of Go's \<open>strings\<close>, \<open>unicode/utf8\<close>, \<open>strconv\<close> and \<open>fmt\<close> packages that the code
  uses, on byte strings, and \<open>estimateTokens\<close>, which four packages of the repository share.
\<close>

section \<open>Package strings\<close>

definition HasPrefix :: "string \<Rightarrow> string \<Rightarrow> bool" where
  "HasPrefix s p \<longleftrightarrow> take (length p) s = p"

lemma HasPrefix_append [simp]: "HasPrefix (p @ s) p"
  by (simp add: HasPrefix_def)

lemma HasPrefix_iff: "HasPrefix s p \<longleftrightarrow> (\<exists>t. s = p @ t)"
  by (metis HasPrefix_append HasPrefix_def append_take_drop_id)

definition TrimPrefix :: "string \<Rightarrow> string \<Rightarrow> string" where
  "TrimPrefix s p = (if HasPrefix s p then drop (length p) s else s)"

fun Contains :: "string \<Rightarrow> string \<Rightarrow> bool" where
  "Contains [] sub = (sub = [])"
| "Contains (c # cs) sub = (HasPrefix (c # cs) sub \<or> Contains cs sub)"

lemma Contains_iff: "Contains s sub \<longleftrightarrow> (\<exists>a b. s = a @ sub @ b)"
proof (induction s)
  case (Cons c cs)
  have "(\<exists>a b. c # cs = a @ sub @ b) \<longleftrightarrow> HasPrefix (c # cs) sub \<or> (\<exists>a b. cs = a @ sub @ b)"
    unfolding HasPrefix_iff by (metis Cons_eq_append_conv append_Cons)
  with Cons show ?case by simp
qed simp

text \<open>\<open>ToLower\<close> maps the ASCII letters; the strings it is applied to are role names.\<close>

definition lower_char :: "char \<Rightarrow> char" where
  "lower_char c = (let n = of_char c :: nat in if 65 \<le> n \<and> n \<le> 90 then char_of (n + 32) else c)"

definition ToLower :: "string \<Rightarrow> string" where
  "ToLower s = map lower_char s"

text \<open>\<open>strings.Cut(s, "c")\<close>: the text before and after the first separator, and whether there is one.\<close>

fun Cut :: "string \<Rightarrow> char \<Rightarrow> string \<times> string \<times> bool" where
  "Cut [] c = ([], [], False)"
| "Cut (x # xs) c = (if x = c then ([], xs, True)
     else case Cut xs c of (a, b, ok) \<Rightarrow> (x # a, b, ok))"

lemma Cut_ok: "Cut s c = (a, b, True) \<Longrightarrow> s = a @ c # b \<and> c \<notin> set a"
  by (induction s arbitrary: a) (auto split: if_splits prod.splits)

lemma Cut_none: "Cut s c = (a, b, False) \<Longrightarrow> a = s \<and> b = [] \<and> c \<notin> set s"
  by (induction s arbitrary: a) (auto split: if_splits prod.splits)

fun split_on :: "char \<Rightarrow> string \<Rightarrow> string list" where     \<comment> \<open>\<open>strings.Split\<close>\<close>
  "split_on c [] = [[]]"
| "split_on c (x # xs) = (if x = c then [] # split_on c xs
     else case split_on c xs of [] \<Rightarrow> [[x]] | w # ws \<Rightarrow> (x # w) # ws)"

fun join_on :: "char \<Rightarrow> string list \<Rightarrow> string" where    \<comment> \<open>\<open>strings.Join\<close>\<close>
  "join_on c [] = []"
| "join_on c [w] = w"
| "join_on c (w # ws) = w @ c # join_on c ws"

lemma split_on_neq_Nil [simp]: "split_on c s \<noteq> []"
  by (induction s) (auto split: list.splits)

lemma join_split: "join_on c (split_on c s) = s"
proof (induction s)
  case (Cons x xs)
  obtain w ws where w: "split_on c xs = w # ws" by (cases "split_on c xs") auto
  with Cons show ?case by (cases ws) auto
qed simp

lemma split_on_words: "w \<in> set (split_on c s) \<Longrightarrow> c \<notin> set w"
  by (induction s arbitrary: w) (auto split: if_splits list.splits)

lemma split_on_append: "c \<notin> set w \<Longrightarrow> split_on c (w @ c # s) = w # split_on c s"
  by (induction w) auto

lemma split_on_single: "c \<notin> set w \<Longrightarrow> split_on c w = [w]"
  by (induction w) auto

lemma split_join: "ws \<noteq> [] \<Longrightarrow> \<forall>w \<in> set ws. c \<notin> set w \<Longrightarrow> split_on c (join_on c ws) = ws"
  by (induction c ws rule: join_on.induct) (auto simp: split_on_append split_on_single)

text \<open>
  \<open>strings.NewReplacer(pairs).Replace\<close>: at each position the first pair whose old string
  matches is taken, its new string is written and the match is skipped.
\<close>

fun first_match :: "(string \<times> string) list \<Rightarrow> string \<Rightarrow> (string \<times> string) option" where
  "first_match [] s = None"
| "first_match ((old, new) # ps) s = (if HasPrefix s old then Some (old, new) else first_match ps s)"

fun Replace :: "(string \<times> string) list \<Rightarrow> string \<Rightarrow> string" where
  "Replace ps [] = []"
| "Replace ps (c # cs) = (case first_match ps (c # cs) of
       None \<Rightarrow> c # Replace ps cs
     | Some (old, new) \<Rightarrow> new @ Replace ps (drop (length old - 1) cs))"

lemma first_match_Some: "first_match ps s = Some (old, new) \<Longrightarrow> (old, new) \<in> set ps \<and> HasPrefix s old"
  by (induction ps s rule: first_match.induct) (auto split: if_splits)

lemma first_match_None: "first_match ps s = None \<longleftrightarrow> (\<forall>(old, new) \<in> set ps. \<not> HasPrefix s old)"
  by (induction ps s rule: first_match.induct) auto

text \<open>A character that is an old string and occurs in no new string does not occur in the result.\<close>

lemma Replace_removes:
  assumes "([c], n) \<in> set ps" and "\<forall>(old, new) \<in> set ps. c \<notin> set new"
  shows "c \<notin> set (Replace ps s)"
  using assms
proof (induction ps s rule: Replace.induct)
  case (2 ps x xs)
  show ?case
  proof (cases "first_match ps (x # xs)")
    case None
    then have "x \<noteq> c" using 2(3) by (auto simp: first_match_None HasPrefix_def)
    with None 2 show ?thesis by simp
  next
    case (Some p)
    then obtain old new where p: "p = (old, new)" by (cases p)
    with Some have "(old, new) \<in> set ps" by (auto dest: first_match_Some)
    with Some p 2 show ?thesis by auto
  qed
qed simp

section \<open>Runes\<close>

definition cont :: "nat \<Rightarrow> nat \<Rightarrow> string \<Rightarrow> nat \<Rightarrow> bool" where
  "cont lo hi s i \<longleftrightarrow> i < length s \<and> lo \<le> (of_char (s ! i) :: nat) \<and> (of_char (s ! i) :: nat) \<le> hi"

text \<open>
  The width of the first rune as \<open>utf8.DecodeRuneInString\<close> takes it: a byte that starts no valid
  sequence is a rune of width 1.
\<close>

definition rune_width :: "string \<Rightarrow> nat" where
  "rune_width s = (let b = (of_char (hd s) :: nat) in
     if 194 \<le> b \<and> b \<le> 223 \<and> cont 128 191 s 1 then 2
     else if ((b = 224 \<and> cont 160 191 s 1) \<or> (225 \<le> b \<and> b \<le> 236 \<and> cont 128 191 s 1)
              \<or> (b = 237 \<and> cont 128 159 s 1) \<or> (238 \<le> b \<and> b \<le> 239 \<and> cont 128 191 s 1))
             \<and> cont 128 191 s 2 then 3
     else if ((b = 240 \<and> cont 144 191 s 1) \<or> (241 \<le> b \<and> b \<le> 243 \<and> cont 128 191 s 1)
              \<or> (b = 244 \<and> cont 128 143 s 1))
             \<and> cont 128 191 s 2 \<and> cont 128 191 s 3 then 4
     else 1)"

lemma rune_width_pos: "0 < rune_width s"
  by (simp add: rune_width_def Let_def)

function rune_count :: "string \<Rightarrow> nat" where     \<comment> \<open>\<open>len([]rune(s))\<close>\<close>
  "rune_count s = (if s = [] then 0 else Suc (rune_count (drop (rune_width s) s)))"
  by pat_completeness auto
termination
  by (relation "measure length") (auto simp: rune_width_pos)

declare rune_count.simps [simp del]

lemma rune_count_Nil [simp]: "rune_count [] = 0"
  by (simp add: rune_count.simps)

lemma rune_count_le: "rune_count s \<le> length s"
proof (induction s rule: rune_count.induct)
  case (1 s)
  show ?case
  proof (cases "s = []")
    case False
    with 1 have "rune_count (drop (rune_width s) s) \<le> length s - rune_width s" by simp
    moreover have "rune_width s > 0" "length s > 0" using False by (auto simp: rune_width_pos)
    ultimately have "Suc (rune_count (drop (rune_width s) s)) \<le> length s" by linarith
    then show ?thesis using False by (subst rune_count.simps) simp
  qed simp
qed

text \<open>
  \<open>estimateTokens\<close> (\<open>internal/cvm/store.go\<close>, and word for word in \<open>internal/syscall\<close>,
  \<open>internal/llm\<close> and \<open>internal/experiment\<close>): a quarter of the runes, at least 1 for a
  string that is not empty.
\<close>

definition estimateTokens :: "string \<Rightarrow> int" where
  "estimateTokens content = (let tokens = int (rune_count content div 4) in
     if tokens = 0 \<and> content \<noteq> [] then 1 else tokens)"

lemma estimateTokens_nonneg: "0 \<le> estimateTokens s"
  by (simp add: estimateTokens_def Let_def)

lemma estimateTokens_pos_iff: "0 < estimateTokens s \<longleftrightarrow> s \<noteq> []"
  by (auto simp: estimateTokens_def Let_def)

lemma estimateTokens_le: "estimateTokens s \<le> int (length s)"
proof (cases "s = []")
  case False
  then have "1 \<le> length s" by (cases s) auto
  moreover have "rune_count s div 4 \<le> length s" using rune_count_le [of s] by linarith
  ultimately show ?thesis by (simp add: estimateTokens_def Let_def)
qed (simp add: estimateTokens_def)

section \<open>Decimal numbers\<close>

definition digit_char :: "nat \<Rightarrow> char" where
  "digit_char d = char_of (48 + d)"

lemma digit_char_eval [go_eval]:
  "digit_char 0 = CHR ''0''" "digit_char 1 = CHR ''1''" "digit_char (Suc 0) = CHR ''1''"
  "digit_char 2 = CHR ''2''" "digit_char 3 = CHR ''3''" "digit_char 4 = CHR ''4''"
  "digit_char 5 = CHR ''5''" "digit_char 6 = CHR ''6''" "digit_char 7 = CHR ''7''"
  "digit_char 8 = CHR ''8''" "digit_char 9 = CHR ''9''"
  by (simp_all add: digit_char_def char_of_def bit_0)

fun nat_str :: "nat \<Rightarrow> string" where
  "nat_str n = (if n < 10 then [digit_char n] else nat_str (n div 10) @ [digit_char (n mod 10)])"

declare nat_str.simps [simp del]

definition Itoa :: "int \<Rightarrow> string" where
  "Itoa z = (if z < 0 then CHR ''-'' # nat_str (nat (- z)) else nat_str (nat z))"

definition digit_val :: "char \<Rightarrow> nat option" where
  "digit_val c = (let n = of_char c :: nat in if 48 \<le> n \<and> n \<le> 57 then Some (n - 48) else None)"

fun digits_val :: "nat \<Rightarrow> string \<Rightarrow> nat option" where
  "digits_val acc [] = Some acc"
| "digits_val acc (c # cs) = (case digit_val c of None \<Rightarrow> None
     | Some d \<Rightarrow> digits_val (acc * 10 + d) cs)"

text \<open>
  \<open>strconv.Atoi\<close> with its error ignored, as the code calls it: 0 on a syntax error, the nearest
  bound of the range of \<open>int\<close> on a range error.
\<close>

definition Atoi :: "string \<Rightarrow> int" where
  "Atoi s = (let (neg, ds) = (case s of c # cs \<Rightarrow> if c = CHR ''-'' then (True, cs)
                 else if c = CHR ''+'' then (False, cs) else (False, s) | [] \<Rightarrow> (False, s)) in
     if ds = [] then 0 else
     case digits_val 0 ds of None \<Rightarrow> 0
     | Some n \<Rightarrow> if neg then max (- int n) (- (2 ^ 63)) else min (int n) (2 ^ 63 - 1))"

lemma digit_val_char: "d < 10 \<Longrightarrow> digit_val (digit_char d) = Some d"
  by (simp add: digit_val_def digit_char_def)

lemma digit_char_not_minus: "d < 10 \<Longrightarrow> digit_char d \<noteq> CHR ''-''"
  using digit_val_char [of d] by (auto simp: digit_val_def)

lemma nat_str_no_minus: "CHR ''-'' \<notin> set (nat_str n)"
proof (induction n rule: nat_str.induct)
  case (1 n)
  have "digit_char (n mod 10) \<noteq> CHR ''-''" by (rule digit_char_not_minus) simp
  with 1 show ?case
    by (cases "n < 10") (auto simp: nat_str.simps [of n] dest: digit_char_not_minus)
qed

lemma digits_val_append: "digits_val a (s @ t) = Option.bind (digits_val a s) (\<lambda>b. digits_val b t)"
  by (induction s arbitrary: a) (auto split: option.splits)

lemma digits_val_nat_str: "digits_val 0 (nat_str n) = Some n"
proof (induction n rule: nat_str.induct)
  case (1 n)
  then show ?case
    by (cases "n < 10") (simp_all add: nat_str.simps [of n] digit_val_char digits_val_append)
qed

lemma nat_str_inj: "nat_str m = nat_str n \<Longrightarrow> m = n"
  by (metis digits_val_nat_str option.inject)

text \<open>\<open>fmt.Sprintf("%0wd", n)\<close> for \<open>n \<ge> 0\<close>: zeros up to the width.\<close>

definition pad_nat :: "nat \<Rightarrow> nat \<Rightarrow> string" where
  "pad_nat w n = (let s = nat_str n in replicate (w - length s) (CHR ''0'') @ s)"

lemma digits_val_zeros: "digits_val 0 (replicate k (CHR ''0'') @ s) = digits_val 0 s"
  by (induction k) (auto simp: digit_val_def)

lemma pad_nat_inj: "pad_nat w m = pad_nat w n \<Longrightarrow> m = n"
  by (metis digits_val_zeros digits_val_nat_str option.inject pad_nat_def)

section \<open>White space\<close>

text \<open>\<open>unicode.IsSpace\<close> on the ASCII characters: tab, newline, vertical tab, form feed, return, blank.\<close>

definition is_space :: "char \<Rightarrow> bool" where
  "is_space c = (let n = of_char c :: nat in n = 32 \<or> (9 \<le> n \<and> n \<le> 13))"

definition TrimSpace :: "string \<Rightarrow> string" where
  "TrimSpace s = rev (dropWhile is_space (rev (dropWhile is_space s)))"

text \<open>\<open>strings.Fields\<close>: the maximal runs of characters that are not white space.\<close>

function Fields :: "string \<Rightarrow> string list" where
  "Fields s = (case dropWhile is_space s of [] \<Rightarrow> []
     | c # cs \<Rightarrow> takeWhile (\<lambda>x. \<not> is_space x) (c # cs) # Fields (dropWhile (\<lambda>x. \<not> is_space x) (c # cs)))"
  by auto
termination
proof (relation "measure length")
  fix s c cs assume s: "dropWhile is_space s = c # cs"
  then have "\<not> is_space c" by (metis dropWhile_eq_Cons_conv)
  moreover have "length (dropWhile (\<lambda>x. \<not> is_space x) cs) \<le> length cs" by (rule length_dropWhile_le)
  moreover have "length (c # cs) \<le> length s" using length_dropWhile_le [of is_space s] s by simp
  ultimately show "(dropWhile (\<lambda>x. \<not> is_space x) (c # cs), s) \<in> measure length" by simp
qed simp

declare Fields.simps [simp del]

text \<open>A string with no white space at its ends, such as a printed setting.\<close>

definition trimmed :: "string \<Rightarrow> bool" where
  "trimmed s \<longleftrightarrow> s = [] \<or> (\<not> is_space (hd s) \<and> \<not> is_space (last s))"

lemma TrimSpace_trimmed: "trimmed s \<Longrightarrow> TrimSpace s = s"
proof (cases "s = []")
  case False
  assume "trimmed s"
  with False have "\<not> is_space (hd s)" "\<not> is_space (hd (rev s))" by (auto simp: trimmed_def hd_rev)
  then have "dropWhile is_space s = s" "dropWhile is_space (rev s) = rev s"
    using False by (simp_all add: dropWhile_eq_self_iff)
  then show ?thesis by (simp add: TrimSpace_def)
qed (simp add: TrimSpace_def)

lemma TrimSpace_space: "TrimSpace (CHR '' '' # s) = TrimSpace s"
  by (simp add: TrimSpace_def is_space_def)

end
