(* ===== verification/GoPath.thy ===== *)
theory GoPath
  imports GoStrings "HOL-Library.Sublist"
begin

text \<open>
  Lexical path handling: \<open>filepath.Clean\<close>, \<open>Join\<close>, \<open>IsAbs\<close>, \<open>Abs\<close> and \<open>Rel\<close> on Unix, and the
  repository's functions that rest on them: \<open>confinedPath\<close> of \<open>internal/syscall/gateway.go\<close> and
  of \<open>internal/workspace/manager.go\<close>, \<open>isUnder\<close>, and the four \<open>safeName\<close> substitutions. A path is
  a string; \<open>words\<close> are its elements. The theorems say what confinement means: an accepted path
  has the elements of the root as a prefix and no element \<open>..\<close> after it.
\<close>

section \<open>Package path/filepath\<close>

abbreviation sep :: char where "sep \<equiv> CHR ''/''"

definition IsAbs :: "string \<Rightarrow> bool" where
  "IsAbs p \<longleftrightarrow> HasPrefix p ''/''"

lemma IsAbs_simps [simp]: "IsAbs (c # cs) \<longleftrightarrow> c = sep" "\<not> IsAbs []"
  by (auto simp: IsAbs_def HasPrefix_def)

definition words :: "string \<Rightarrow> string list" where
  "words p = filter (\<lambda>w. w \<noteq> []) (split_on sep p)"

text \<open>
  One element of the path is consumed at a time; \<open>acc\<close> holds the elements kept so far in reverse.
  An element \<open>..\<close> drops the one before it; at the root it is dropped, in a relative path it stays.
\<close>

definition clean_step :: "bool \<Rightarrow> string list \<Rightarrow> string \<Rightarrow> string list" where
  "clean_step rooted acc w =
     (if w = [] \<or> w = ''.'' then acc
      else if w = ''..'' then
        (case acc of [] \<Rightarrow> (if rooted then [] else [''..''])
         | a # as \<Rightarrow> if a = ''..'' then ''..'' # acc else as)
      else w # acc)"

definition clean_words :: "bool \<Rightarrow> string list \<Rightarrow> string list" where
  "clean_words rooted ws = rev (foldl (clean_step rooted) [] ws)"

definition Clean :: "string \<Rightarrow> string" where
  "Clean p = (let ws = clean_words (IsAbs p) (split_on sep p) in
     if IsAbs p then sep # join_on sep ws
     else if ws = [] then ''.'' else join_on sep ws)"

fun Join :: "string list \<Rightarrow> string" where
  "Join [] = []"
| "Join (e # es) = (if e = [] then Join es else Clean (join_on sep (e # es)))"

declare Join.simps [simp del]

text \<open>\<open>filepath.Abs\<close>; \<open>cwd\<close> is what \<open>os.Getwd\<close> returns.\<close>

definition Abs :: "string \<Rightarrow> string \<Rightarrow> string" where
  "Abs cwd p = (if IsAbs p then Clean p else Join [cwd, p])"

fun strip_common :: "string list \<Rightarrow> string list \<Rightarrow> string list \<times> string list" where
  "strip_common (b # bs) (t # ts) = (if b = t then strip_common bs ts else (b # bs, t # ts))"
| "strip_common bs ts = (bs, ts)"

definition Rel :: "string \<Rightarrow> string \<Rightarrow> string result" where
  "Rel basepath targpath = (let base = Clean basepath; targ = Clean targpath in
     if targ = base then Inr ''.''
     else let base' = (if base = ''.'' then [] else base) in
     if IsAbs base' \<noteq> IsAbs targ then Inl (Errorf ''Rel: can't make %s relative to %s'' [targpath, basepath])
     else case strip_common (words base') (words targ) of (bs, ts) \<Rightarrow>
       if bs \<noteq> [] \<and> hd bs = ''..'' then Inl (Errorf ''Rel: can't make %s relative to %s'' [targpath, basepath])
       else Inr (join_on sep (replicate (length bs) ''..'' @ ts)))"

section \<open>Cleaned absolute paths\<close>

definition plain_word :: "string \<Rightarrow> bool" where
  "plain_word w \<longleftrightarrow> w \<noteq> [] \<and> w \<noteq> ''.'' \<and> w \<noteq> ''..'' \<and> sep \<notin> set w"

definition abs_path :: "string list \<Rightarrow> string" where
  "abs_path ws = sep # join_on sep ws"

lemma IsAbs_abs_path [simp]: "IsAbs (abs_path ws)"
  by (simp add: abs_path_def)

lemma join_on_sep_neq_Nil: "ws \<noteq> [] \<Longrightarrow> hd ws \<noteq> [] \<Longrightarrow> join_on c ws \<noteq> []"
  by (cases ws rule: remdups_adj.cases) auto

lemma split_abs_path:
  "\<forall>w \<in> set ws. plain_word w \<Longrightarrow> split_on sep (abs_path ws) = (if ws = [] then [[], []] else [] # ws)"
  by (auto simp: abs_path_def plain_word_def split_join)

lemma words_abs_path: "\<forall>w \<in> set ws. plain_word w \<Longrightarrow> words (abs_path ws) = ws"
  by (auto simp: words_def split_abs_path plain_word_def filter_id_conv)

lemma clean_step_cases:
  "clean_step r acc w = acc \<or> clean_step r acc w = w # acc \<and> w \<noteq> [] \<and> w \<noteq> ''.'' \<and> w \<noteq> ''..''
   \<or> clean_step r acc w = tl acc \<or> clean_step r acc w = ''..'' # acc \<and> (r \<longrightarrow> ''..'' \<in> set acc)"
  by (cases acc) (simp_all add: clean_step_def)

text \<open>What holds of every element kept so far and of the next element holds after the step.\<close>

lemma clean_step_all:
  assumes acc: "\<forall>v \<in> set acc. P v"
    and w: "w \<noteq> [] \<Longrightarrow> w \<noteq> ''.'' \<Longrightarrow> w \<noteq> ''..'' \<Longrightarrow> P w"
    and up: "\<not> r \<Longrightarrow> P ''..''"
  shows "\<forall>v \<in> set (clean_step r acc w). P v"
  using clean_step_cases [of r acc w]
proof (elim disjE conjE)
  assume "clean_step r acc w = tl acc"
  with ball_tl [OF acc] show ?thesis by (simp only:)
next
  assume "clean_step r acc w = ''..'' # acc" "r \<longrightarrow> ''..'' \<in> set acc"
  then show ?thesis using acc up by (cases r) (simp_all only: list.set, blast+)
qed (use acc w in simp_all)

lemma foldl_clean_all:
  assumes "\<forall>v \<in> set acc. P v" and "\<forall>w \<in> set ws. w \<noteq> [] \<longrightarrow> w \<noteq> ''.'' \<longrightarrow> w \<noteq> ''..'' \<longrightarrow> P w"
    and "\<not> r \<Longrightarrow> P ''..''"
  shows "\<forall>v \<in> set (foldl (clean_step r) acc ws). P v"
  using assms
proof (induction ws arbitrary: acc)
  case (Cons w ws)
  have "\<forall>v \<in> set (clean_step r acc w). P v"
    using Cons.prems by (intro clean_step_all) auto
  from Cons.IH [OF this] Cons.prems show ?case by (simp only: foldl_Cons list.set) blast
qed simp

lemma foldl_clean_plain:
  assumes "\<forall>w \<in> set acc. plain_word w" and "\<forall>w \<in> set ws. sep \<notin> set w"
  shows "\<forall>w \<in> set (foldl (clean_step True) acc ws). plain_word w"
  by (rule foldl_clean_all [where P = plain_word])
     (use assms in \<open>simp_all add: plain_word_def\<close>)

lemma foldl_clean_relative:
  assumes "\<forall>w \<in> set ws. sep \<notin> set w"
  shows "\<forall>w \<in> set (foldl (clean_step r) [] ws). w \<noteq> [] \<and> sep \<notin> set w"
  by (rule foldl_clean_all [where P = "\<lambda>w. w \<noteq> [] \<and> sep \<notin> set w"]) (use assms in simp_all)

lemma clean_words_plain: "\<forall>w \<in> set (clean_words True (split_on sep p)). plain_word w"
  using foldl_clean_plain [of "[]" "split_on sep p"] by (simp add: clean_words_def split_on_words)

lemma Clean_abs:
  assumes "IsAbs p"
  obtains ws where "Clean p = abs_path ws" and "\<forall>w \<in> set ws. plain_word w"
    and "ws = clean_words True (split_on sep p)"
  using assms clean_words_plain by (simp add: Clean_def abs_path_def)

lemma foldl_clean_id:
  "\<forall>w \<in> set ws. plain_word w \<Longrightarrow> foldl (clean_step r) acc ws = rev ws @ acc"
  by (induction ws arbitrary: acc) (auto simp: clean_step_def plain_word_def)

lemma clean_words_split_abs:
  "\<forall>w \<in> set ws. plain_word w \<Longrightarrow> clean_words True (split_on sep (abs_path ws)) = ws"
  by (simp add: split_abs_path clean_words_def foldl_clean_id clean_step_def)

lemma Clean_abs_path: "\<forall>w \<in> set ws. plain_word w \<Longrightarrow> Clean (abs_path ws) = abs_path ws"
  by (simp add: Clean_def clean_words_split_abs) (simp add: abs_path_def)

lemma words_Clean_plain: "IsAbs p \<Longrightarrow> \<forall>w \<in> set (words (Clean p)). plain_word w"
  by (metis Clean_abs words_abs_path)

lemma Clean_abs_words: "IsAbs p \<Longrightarrow> Clean p = abs_path (words (Clean p))"
  by (metis Clean_abs words_abs_path)

lemma IsAbs_Clean [simp]: "IsAbs (Clean p) \<longleftrightarrow> IsAbs p"
proof (cases "IsAbs p")
  case True
  then show ?thesis by (metis Clean_abs IsAbs_abs_path)
next
  case False
  define ws where "ws = clean_words False (split_on sep p)"
  have ws: "\<forall>w \<in> set ws. w \<noteq> [] \<and> sep \<notin> set w"
    using foldl_clean_relative [of "split_on sep p" False]
    by (simp add: ws_def clean_words_def split_on_words)
  have "\<not> IsAbs (join_on sep ws)"
  proof (cases ws rule: remdups_adj.cases)
    case (2 w)
    with ws show ?thesis by (cases w) auto
  next
    case (3 w v vs)
    with ws show ?thesis by (cases w) auto
  qed simp
  with False show ?thesis by (simp add: Clean_def ws_def [symmetric] Let_def)
qed

lemma Clean_idem: "IsAbs p \<Longrightarrow> Clean (Clean p) = Clean p"
  by (metis Clean_abs Clean_abs_path)

text \<open>Joining relative elements to an absolute root continues the element scan.\<close>

lemma foldl_skip_empty: "foldl (clean_step r) acc (filter (\<lambda>w. w \<noteq> []) ws) = foldl (clean_step r) acc ws"
  by (induction ws arbitrary: acc) (auto simp: clean_step_def)

lemma split_on_append_sep: "split_on c (s @ c # t) = split_on c s @ split_on c t"
  by (induction s) (auto split: list.splits)

lemma Join_abs:
  assumes "\<forall>w \<in> set ws. plain_word w"
  shows "Join [abs_path ws, req] = abs_path (rev (foldl (clean_step True) (rev ws) (split_on sep req)))"
proof -
  have "Join [abs_path ws, req] = Clean (abs_path ws @ sep # req)"
    by (simp add: abs_path_def Join.simps)
  moreover have "IsAbs (abs_path ws @ sep # req)" by (simp add: abs_path_def)
  moreover have "clean_words True (split_on sep (abs_path ws @ sep # req))
      = rev (foldl (clean_step True) (rev ws) (split_on sep req))"
    using assms by (simp add: split_on_append_sep clean_words_def split_abs_path foldl_clean_id clean_step_def)
  ultimately show ?thesis by (simp add: Clean_def abs_path_def)
qed

lemma Join_abs_word:
  assumes "\<forall>w \<in> set ws. plain_word w" and "plain_word w"
  shows "Join [abs_path ws, w] = abs_path (ws @ [w])"
  using assms(2) Join_abs [OF assms(1), of w]
  by (simp add: split_on_single plain_word_def clean_step_def)

lemma Join_abs_plain:
  assumes "\<forall>w \<in> set ws. plain_word w"
  obtains vs where "Join [abs_path ws, req] = abs_path vs" and "\<forall>w \<in> set vs. plain_word w"
proof -
  have "\<forall>w \<in> set (foldl (clean_step True) (rev ws) (split_on sep req)). plain_word w"
    using assms by (intro foldl_clean_plain) (auto dest: split_on_words)
  then show ?thesis using that Join_abs [OF assms] by simp
qed

section \<open>Containment\<close>

lemma strip_common_prefix: "strip_common bs ts = (bs', ts') \<Longrightarrow> bs' = [] \<longleftrightarrow> prefix bs ts"
  by (induction bs ts rule: strip_common.induct) (auto split: if_splits)

lemma strip_common_set: "strip_common bs ts = (bs', ts') \<Longrightarrow> set bs' \<subseteq> set bs \<and> set ts' \<subseteq> set ts"
  by (induction bs ts rule: strip_common.induct) (auto split: if_splits)

text \<open>The test that \<open>confinedPath\<close> and \<open>isUnder\<close> make on the relative path.\<close>

definition rel_escapes :: "string \<Rightarrow> bool" where
  "rel_escapes rel \<longleftrightarrow> rel = ''..'' \<or> HasPrefix rel ''../'' \<or> IsAbs rel"

lemma rel_escapes_up: "rel_escapes (join_on sep (replicate (Suc n) ''..'' @ ts))"
proof (cases "replicate n ''..'' @ ts")
  case Nil
  then show ?thesis by (simp add: rel_escapes_def)
next
  case (Cons w ws)
  then show ?thesis by (simp add: rel_escapes_def HasPrefix_def)
qed

lemma rel_escapes_down:
  assumes "\<forall>w \<in> set ts. plain_word w" "ts \<noteq> []"
  shows "\<not> rel_escapes (join_on sep ts)"
proof -
  obtain w ws where ts: "ts = w # ws" using assms(2) by (cases ts) auto
  have w: "w \<noteq> []" "w \<noteq> ''..''" "sep \<notin> set w" using assms(1) ts by (auto simp: plain_word_def)
  have "w \<noteq> ''..'' @ sep # v" for v using w(3) by auto
  then have "\<not> HasPrefix (join_on sep ts) ''../''"
  proof (cases ws)
    case Nil
    with w ts show ?thesis by (auto simp: HasPrefix_iff)
  next
    case (Cons v vs)
    have "w @ sep # join_on sep (v # vs) \<noteq> ''../'' @ t" for t
    proof
      assume eq: "w @ sep # join_on sep (v # vs) = ''../'' @ t"
      then have "split_on sep (w @ sep # join_on sep (v # vs)) = split_on sep (''..'' @ sep # t)" by simp
      then show False using w by (simp add: split_on_append del: append_Cons)
    qed
    with Cons ts show ?thesis by (auto simp: HasPrefix_iff)
  qed
  moreover have "join_on sep ts \<noteq> ''..''"
  proof
    assume "join_on sep ts = ''..''"
    then have "split_on sep (join_on sep ts) = split_on sep ''..''" by simp
    then show False using assms ts w by (simp add: split_join plain_word_def)
  qed
  moreover have "\<not> IsAbs (join_on sep ts)"
    using w ts by (cases ws; cases w) auto
  ultimately show ?thesis by (simp add: rel_escapes_def)
qed

lemma Rel_abs:
  assumes r: "\<forall>w \<in> set rs. plain_word w" and t: "\<forall>w \<in> set ts. plain_word w"
  obtains rel where "Rel (abs_path rs) (abs_path ts) = Inr rel"
    and "rel_escapes rel \<longleftrightarrow> \<not> prefix rs ts"
proof (cases "abs_path ts = abs_path rs")
  case True
  then have "ts = rs" using r t by (metis words_abs_path)
  then have "Rel (abs_path rs) (abs_path ts) = Inr ''.''" by (simp add: Rel_def)
  moreover have "\<not> rel_escapes ''.''" by (simp add: rel_escapes_def HasPrefix_def)
  ultimately show ?thesis using that \<open>ts = rs\<close> by simp
next
  case False
  obtain bs us where st: "strip_common rs ts = (bs, us)" by fastforce
  have sub: "set bs \<subseteq> set rs" "set us \<subseteq> set ts" using strip_common_set [OF st] by auto
  have dot: "abs_path rs \<noteq> ''.''" by (simp add: abs_path_def)
  have up: "bs \<noteq> [] \<Longrightarrow> hd bs \<noteq> ''..''" using sub r by (metis hd_in_set plain_word_def subsetD)
  then have rel: "Rel (abs_path rs) (abs_path ts) = Inr (join_on sep (replicate (length bs) ''..'' @ us))"
    using r t False dot by (auto simp: Rel_def Clean_abs_path words_abs_path st Let_def)
  show ?thesis
  proof (cases "bs = []")
    case True
    then have pre: "prefix rs ts" using strip_common_prefix [OF st] by simp
    have "us \<noteq> []"
    proof
      assume "us = []"
      then have "rs = ts" using st True by (induction rs ts rule: strip_common.induct) (auto split: if_splits)
      then show False using False by simp
    qed
    then have "\<not> rel_escapes (join_on sep us)" using sub t by (intro rel_escapes_down) auto
    then show ?thesis using that rel True pre by simp
  next
    case notNil: False
    then obtain n where "length bs = Suc n" by (cases bs) auto
    then have "rel_escapes (join_on sep (replicate (length bs) ''..'' @ us))"
      by (simp only: rel_escapes_up)
    then show ?thesis using that rel notNil strip_common_prefix [OF st] by simp
  qed
qed

section \<open>filepath.Ext\<close>

definition Ext :: "string \<Rightarrow> string" where
  "Ext path = (let r = takeWhile (\<lambda>c. c \<noteq> CHR ''.'' \<and> c \<noteq> CHR ''/'') (rev path) in
     if length r < length path \<and> rev path ! length r = CHR ''.'' then CHR ''.'' # rev r else [])"

lemma Ext_json: "Ext (x @ ''.json'') = ''.json''"
  by (simp add: Ext_def)

section \<open>filepath.Dir\<close>

text \<open>Everything up to the last separator, cleaned.\<close>

definition filepath_Dir :: "string \<Rightarrow> string" where
  "filepath_Dir p = Clean (rev (dropWhile (\<lambda>c. c \<noteq> sep) (rev p)))"

text \<open>The length of words with a separator after each of them.\<close>

definition words_length :: "string list \<Rightarrow> nat" where
  "words_length ws = sum_list (map (\<lambda>w. length w + 1) ws)"

lemma words_length_simps [simp]: "words_length [] = 0" "words_length (w # ws) = length w + 1 + words_length ws"
  "words_length (xs @ ys) = words_length xs + words_length ys" "words_length (rev xs) = words_length xs"
  by (simp_all add: words_length_def rev_map [symmetric])

lemma words_length_split: "words_length (split_on c s) = length s + 1"
proof (induction s)
  case (Cons x xs)
  obtain w ws where "split_on c xs = w # ws" by (cases "split_on c xs") simp_all
  with Cons show ?case by simp
qed simp

lemma join_on_length: "length (join_on c ws) = words_length ws - 1"
  by (induction ws rule: induct_list012) simp_all

lemma clean_step_length: "words_length (clean_step r acc w) \<le> words_length acc + words_length (filter (\<lambda>w. w \<noteq> []) [w])"
  by (cases acc) (auto simp: clean_step_def)

lemma clean_words_length: "words_length (clean_words r ws) \<le> words_length (filter (\<lambda>w. w \<noteq> []) ws)"
proof -
  have "words_length (foldl (clean_step r) acc ws) \<le> words_length acc + words_length (filter (\<lambda>w. w \<noteq> []) ws)" for acc
  proof (induction ws arbitrary: acc)
    case (Cons w ws)
    from Cons [of "clean_step r acc w"] clean_step_length [of r acc w] show ?case by (auto split: if_splits)
  qed simp
  from this [of "[]"] show ?thesis by (simp add: clean_words_def)
qed

lemma split_on_last: "split_on c (s @ [c]) = split_on c s @ [[]]"
proof (induction s)
  case (Cons x xs)
  obtain w ws where "split_on c xs = w # ws" by (cases "split_on c xs") simp_all
  with Cons show ?case by simp
qed simp

lemma filter_words_length: "words_length (filter (\<lambda>w. w \<noteq> []) ws) \<le> words_length ws"
  by (induction ws) auto

text \<open>Cleaning a path that ends with a separator shortens it, except for the root.\<close>

lemma Clean_dir_length: "Clean (s @ [sep]) \<in> {''.'', ''/''} \<or> length (Clean (s @ [sep])) \<le> length s"
proof (cases s)
  case Nil
  then show ?thesis by (simp add: Clean_def clean_words_def clean_step_def)
next
  case (Cons x xs)
  let ?ws = "clean_words (IsAbs (s @ [sep])) (split_on sep (s @ [sep]))"
  have all: "words_length ?ws \<le> words_length (filter (\<lambda>w. w \<noteq> []) (split_on sep s))"
    using clean_words_length [of "IsAbs (s @ [sep])" "split_on sep (s @ [sep])"] by (simp add: split_on_last)
  show ?thesis
  proof (cases "x = sep")
    case True
    then have "words_length (filter (\<lambda>w. w \<noteq> []) (split_on sep s)) \<le> words_length (split_on sep xs)"
      using filter_words_length [of "split_on sep xs"] by (simp add: Cons)
    with all have "words_length ?ws \<le> length s" by (simp add: words_length_split Cons)
    moreover have "Clean (s @ [sep]) = sep # join_on sep ?ws" using True by (simp add: Clean_def Cons)
    ultimately show ?thesis by (cases "?ws = []") (auto simp: join_on_length Cons)
  next
    case False
    have "words_length ?ws \<le> length s + 1"
      using all filter_words_length [of "split_on sep s"] by (simp add: words_length_split)
    moreover have "Clean (s @ [sep]) = (if ?ws = [] then ''.'' else join_on sep ?ws)" using False by (simp add: Clean_def Cons)
    moreover have "length (join_on sep ?ws) \<le> words_length ?ws - 1" by (simp add: join_on_length)
    ultimately show ?thesis by (cases "?ws = []") auto
  qed
qed

lemma filepath_Dir_shorter: "filepath_Dir p \<in> {''.'', ''/''} \<or> length (filepath_Dir p) < length p"
proof (cases "dropWhile (\<lambda>c. c \<noteq> sep) (rev p)")
  case Nil
  then have "filepath_Dir p = Clean []" by (simp only: filepath_Dir_def rev.simps)
  also have "Clean [] = ''.''" by (simp add: Clean_def clean_words_def clean_step_def)
  finally show ?thesis by simp
next
  case (Cons c s)
  then have "c = sep" using hd_dropWhile [of "\<lambda>c. c \<noteq> sep" "rev p"] by simp
  then have "filepath_Dir p = Clean (rev s @ [sep])" by (simp only: filepath_Dir_def Cons rev.simps)
  moreover have "length s < length p" using length_dropWhile_le [of "\<lambda>c. c \<noteq> sep" "rev p"] Cons by simp
  ultimately show ?thesis using Clean_dir_length [of "rev s"] by auto
qed

text \<open>Going up ends: the rank of a path falls until its parent is the path itself.\<close>

definition dir_rank :: "string \<Rightarrow> nat" where
  "dir_rank p = (if p = ''.'' \<or> p = ''/'' then 0 else length p + 1)"

lemma filepath_Dir_fixed: "filepath_Dir ''.'' = ''.''" "filepath_Dir ''/'' = ''/''"
  by code_simp+

lemma dir_rank_Dir: "filepath_Dir p \<noteq> p \<Longrightarrow> dir_rank (filepath_Dir p) < dir_rank p"
  using filepath_Dir_shorter [of p] filepath_Dir_fixed by (auto simp: dir_rank_def)

section \<open>The root of the repository\<close>

text \<open>\<open>repoRoot\<close>: the nearest directory upwards that has a \<open>go.mod\<close>, or a dot.\<close>

function root_search :: "(string \<Rightarrow> bool) \<Rightarrow> string list \<Rightarrow> string" where
  "root_search exists_at ws = (if exists_at (Join [abs_path ws, ''go.mod'']) then abs_path ws
     else if ws = [] then ''.'' else root_search exists_at (butlast ws))"
  by pat_completeness auto
termination
  by (relation "measure (\<lambda>(e, ws). length ws)") auto

declare root_search.simps [simp del]

definition repoRoot :: "(string \<Rightarrow> bool) \<Rightarrow> string result \<Rightarrow> string" where
  "repoRoot exists_at wd = (case wd of Inl _ \<Rightarrow> ''.'' | Inr p \<Rightarrow> root_search exists_at (words p))"

end
