(* ===== verification/Confinement.thy ===== *)
theory Confinement
  imports GoPath
begin

text \<open>
  The path guards of the runtime: \<open>confinedPath\<close> of the syscall gateway (the working directory a
  tool may ask for) and of the workspace manager (the files of a base snapshot), \<open>isUnder\<close>,
  \<open>EnsureUnderRoot\<close> and the target \<open>safeRemoveAll\<close> accepts, and the name substitutions
  (\<open>safeName\<close>) that turn an identifier into one path element. \<open>cwd\<close> is the process's working
  directory, \<open>eval\<close> is \<open>filepath.EvalSymlinks\<close> on the file system of the moment (\<open>None\<close>: an error).
\<close>

section \<open>Absolute roots\<close>

lemma Abs_plain:
  assumes "IsAbs cwd"
  obtains ws where "Abs cwd p = abs_path ws" and "\<forall>w \<in> set ws. plain_word w"
proof (cases "IsAbs p")
  case True
  then show ?thesis using that Clean_abs [OF True] by (metis Abs_def)
next
  case False
  obtain c cs where cwd: "cwd = c # cs" using assms by (cases cwd) auto
  have "IsAbs (join_on sep [cwd, p])" using assms cwd by simp
  then obtain ws where "Clean (join_on sep [cwd, p]) = abs_path ws" "\<forall>w \<in> set ws. plain_word w"
    by (rule Clean_abs)
  then show ?thesis using that False cwd by (simp add: Abs_def Join.simps)
qed

lemma IsAbs_Abs: "IsAbs cwd \<Longrightarrow> IsAbs (Abs cwd p)"
  by (metis Abs_plain IsAbs_abs_path)

lemma words_Abs_plain: "IsAbs cwd \<Longrightarrow> \<forall>w \<in> set (words (Abs cwd p)). plain_word w"
  by (metis Abs_plain words_abs_path)

lemma Abs_words: "IsAbs cwd \<Longrightarrow> Abs cwd p = abs_path (words (Abs cwd p))"
  by (metis Abs_plain words_abs_path)

section \<open>confinedPath\<close>

definition confined_candidate :: "string \<Rightarrow> string \<Rightarrow> string" where
  "confined_candidate rootAbs requested =
     (if IsAbs requested then Clean requested else Join [rootAbs, requested])"

definition gateway_confinedPath :: "string \<Rightarrow> string \<Rightarrow> string \<Rightarrow> string result" where
  "gateway_confinedPath cwd root requested = (let rootAbs = Abs cwd root;
       candidate = confined_candidate rootAbs requested in
     case Rel rootAbs candidate of Inl e \<Rightarrow> Inl e
     | Inr rel \<Rightarrow> if rel_escapes rel then Inl (Errorf ''cwd %q escapes agent workspace'' [requested])
                 else Inr candidate)"

definition workspace_confinedPath :: "string \<Rightarrow> string \<Rightarrow> string \<Rightarrow> string result" where
  "workspace_confinedPath cwd root requested = (let rootAbs = Abs cwd root;
       candidate = Join [rootAbs, requested] in
     case Rel rootAbs candidate of Inl e \<Rightarrow> Inl e
     | Inr rel \<Rightarrow> if rel_escapes rel then Inl (Errorf ''path %q escapes workspace'' [requested])
                 else Inr candidate)"

text \<open>The verdict of both functions is the element-wise prefix test.\<close>

lemma Rel_verdict:
  assumes "IsAbs cwd" and "c = abs_path ts" and "\<forall>w \<in> set ts. plain_word w"
  shows "(case Rel (Abs cwd root) c of Inl e \<Rightarrow> Inl e
          | Inr rel \<Rightarrow> if rel_escapes rel then Inl err else Inr c)
         = (if prefix (words (Abs cwd root)) (words c) then Inr c else Inl err)"
proof -
  obtain rs where rs: "Abs cwd root = abs_path rs" "\<forall>w \<in> set rs. plain_word w"
    using assms(1) by (rule Abs_plain)
  obtain rel where rel: "Rel (abs_path rs) (abs_path ts) = Inr rel" "rel_escapes rel \<longleftrightarrow> \<not> prefix rs ts"
    using rs(2) assms(3) by (rule Rel_abs)
  show ?thesis using rel rs assms(2,3) by (simp add: words_abs_path)
qed

lemma confined_candidate_plain:
  assumes "IsAbs cwd"
  obtains ts where "confined_candidate (Abs cwd root) req = abs_path ts" and "\<forall>w \<in> set ts. plain_word w"
proof (cases "IsAbs req")
  case True
  then show ?thesis using that Clean_abs [OF True] by (metis confined_candidate_def)
next
  case False
  obtain rs where "Abs cwd root = abs_path rs" "\<forall>w \<in> set rs. plain_word w"
    using assms by (rule Abs_plain)
  then show ?thesis using that False Join_abs_plain [of rs req] by (metis confined_candidate_def)
qed

lemma gateway_confinedPath_eq:
  assumes "IsAbs cwd"
  shows "gateway_confinedPath cwd root req =
    (if prefix (words (Abs cwd root)) (words (confined_candidate (Abs cwd root) req))
     then Inr (confined_candidate (Abs cwd root) req)
     else Inl (Errorf ''cwd %q escapes agent workspace'' [req]))"
  unfolding gateway_confinedPath_def Let_def
  by (rule confined_candidate_plain [OF assms, of root req], rule Rel_verdict [OF assms])

lemma workspace_confinedPath_eq:
  assumes "IsAbs cwd"
  shows "workspace_confinedPath cwd root req =
    (if prefix (words (Abs cwd root)) (words (Join [Abs cwd root, req]))
     then Inr (Join [Abs cwd root, req])
     else Inl (Errorf ''path %q escapes workspace'' [req]))"
proof -
  obtain rs where "Abs cwd root = abs_path rs" "\<forall>w \<in> set rs. plain_word w"
    using assms by (rule Abs_plain)
  then obtain ts where "Join [Abs cwd root, req] = abs_path ts" "\<forall>w \<in> set ts. plain_word w"
    using Join_abs_plain [of rs req] by metis
  from Rel_verdict [OF assms this] show ?thesis
    by (simp only: workspace_confinedPath_def Let_def)
qed

text \<open>C2. A working directory the gateway accepts lies in the agent's workspace: it is absolute,
  its elements start with the elements of the workspace root, and none of them is \<open>..\<close> (nor
  \<open>.\<close>, nor empty). This holds for absolute and for relative requests.\<close>

theorem gateway_confined:
  assumes "IsAbs cwd" and "gateway_confinedPath cwd root req = Inr cand"
  shows "IsAbs cand \<and> prefix (words (Abs cwd root)) (words cand) \<and> (\<forall>w \<in> set (words cand). plain_word w)"
proof -
  have cand: "cand = confined_candidate (Abs cwd root) req" "prefix (words (Abs cwd root)) (words cand)"
    using assms by (auto simp: gateway_confinedPath_eq split: if_splits)
  obtain ts where "confined_candidate (Abs cwd root) req = abs_path ts" "\<forall>w \<in> set ts. plain_word w"
    using assms(1) by (rule confined_candidate_plain)
  with cand show ?thesis by (simp add: words_abs_path)
qed

lemma gateway_confined_witness:
  "gateway_confinedPath ''/'' ''/ws/a'' ''../a/./src'' = Inr ''/ws/a/src''
   \<and> prefix (words (Abs ''/'' ''/ws/a'')) (words ''/ws/a/src'') \<and> list_all plain_word (words ''/ws/a/src'')"
proof -
  have run: "gateway_confinedPath ''/'' ''/ws/a'' ''../a/./src'' = Inr ''/ws/a/src''" by code_simp
  from gateway_confined [OF _ this] run show ?thesis by (simp add: list_all_iff)
qed

lemma foldl_clean_descends:
  "\<forall>w \<in> set ws. w \<noteq> ''..'' \<Longrightarrow> \<exists>us. foldl (clean_step r) acc ws = us @ acc"
proof (induction ws arbitrary: acc)
  case (Cons w ws)
  from Cons.prems have w: "clean_step r acc w = acc \<or> clean_step r acc w = [w] @ acc"
    by (simp add: clean_step_def)
  from Cons.prems obtain us where "foldl (clean_step r) (clean_step r acc w) ws = us @ clean_step r acc w"
    using Cons.IH by (metis list.set_intros(2))
  with w show ?case by (metis append.assoc foldl_Cons)
qed simp

text \<open>Confinement does not refuse what stays inside: a relative request without a \<open>..\<close>
  element is accepted by both versions of \<open>confinedPath\<close> and gives the path joined to the root.\<close>

theorem confinedPath_accepts:
  assumes "IsAbs cwd" and "\<not> IsAbs req" and "''..'' \<notin> set (split_on sep req)"
  shows "gateway_confinedPath cwd root req = Inr (Join [Abs cwd root, req])
       \<and> workspace_confinedPath cwd root req = Inr (Join [Abs cwd root, req])"
proof -
  obtain rs where rs: "Abs cwd root = abs_path rs" "\<forall>w \<in> set rs. plain_word w"
    using assms(1) by (rule Abs_plain)
  obtain us where us: "foldl (clean_step True) (rev rs) (split_on sep req) = us @ rev rs"
    using foldl_clean_descends [of "split_on sep req" True "rev rs"] assms(3) by auto
  have J: "Join [Abs cwd root, req] = abs_path (rs @ rev us)"
    using Join_abs [OF rs(2), of req] rs(1) us by simp
  have "\<forall>w \<in> set (us @ rev rs). plain_word w"
    unfolding us [symmetric] using rs(2) by (intro foldl_clean_plain) (auto dest: split_on_words)
  then have "\<forall>w \<in> set (rs @ rev us). plain_word w" by auto
  then have "words (Join [Abs cwd root, req]) = rs @ rev us" unfolding J by (rule words_abs_path)
  moreover have "words (Abs cwd root) = rs" using rs by (simp add: words_abs_path)
  ultimately show ?thesis using assms(1,2)
    by (simp add: gateway_confinedPath_eq workspace_confinedPath_eq confined_candidate_def)
qed

lemma confinedPath_accepts_witness:
  "gateway_confinedPath ''/'' ''/ws/a'' ''src/./x'' = Inr (Join [Abs ''/'' ''/ws/a'', ''src/./x''])
   \<and> workspace_confinedPath ''/'' ''/ws/a'' ''src/./x'' = Inr (Join [Abs ''/'' ''/ws/a'', ''src/./x''])"
  by (rule confinedPath_accepts) simp_all

section \<open>EnsureUnderRoot, safeRemoveAll\<close>

definition isUnder :: "string \<Rightarrow> string \<Rightarrow> bool" where
  "isUnder rootAbs targetAbs = (case Rel rootAbs targetAbs of Inl _ \<Rightarrow> False
     | Inr rel \<Rightarrow> rel = ''.'' \<or> \<not> rel_escapes rel)"

definition EnsureUnderRoot :: "string \<Rightarrow> (string \<Rightarrow> string option) \<Rightarrow> string \<Rightarrow> string \<Rightarrow> unit result" where
  "EnsureUnderRoot cwd eval root target = (let rootAbs = Abs cwd (Clean root);
       targetAbs = Abs cwd (Clean target) in
     if \<not> isUnder rootAbs targetAbs
     then Inl (Errorf ''path %q escapes runtime root %q'' [target, root])
     else let rootReal = (case eval rootAbs of Some r \<Rightarrow> r | None \<Rightarrow> rootAbs) in
       case eval targetAbs of
         Some evaluated \<Rightarrow>
           if \<not> isUnder rootReal evaluated
           then Inl (Errorf ''path %q follows symlink outside runtime root %q'' [target, root])
           else Inr ()
       | None \<Rightarrow> Inr ())"

text \<open>The path that \<open>safeRemoveAll\<close> hands to \<open>os.RemoveAll\<close>, or its refusal.\<close>

definition safeRemoveAll_target ::
    "string \<Rightarrow> (string \<Rightarrow> string option) \<Rightarrow> string \<Rightarrow> string \<Rightarrow> string result" where
  "safeRemoveAll_target cwd eval root target =
     (case EnsureUnderRoot cwd eval root target of Inl e \<Rightarrow> Inl e
      | Inr _ \<Rightarrow> let rootAbs = Abs cwd (Clean root); targetAbs = Abs cwd (Clean target) in
          if rootAbs = targetAbs then Inl (Errorf ''refusing to remove runtime root %q'' [root])
          else Inr targetAbs)"

lemma isUnder_iff:
  assumes "\<forall>w \<in> set rs. plain_word w" "\<forall>w \<in> set ts. plain_word w"
  shows "isUnder (abs_path rs) (abs_path ts) \<longleftrightarrow> prefix rs ts"
proof -
  obtain rel where "Rel (abs_path rs) (abs_path ts) = Inr rel" "rel_escapes rel \<longleftrightarrow> \<not> prefix rs ts"
    using assms by (rule Rel_abs)
  moreover have "\<not> rel_escapes ''.''" by (simp add: rel_escapes_def HasPrefix_def)
  ultimately show ?thesis by (auto simp: isUnder_def)
qed

lemma isUnder_Abs:
  "IsAbs cwd \<Longrightarrow> isUnder (Abs cwd p) (Abs cwd q) \<longleftrightarrow> prefix (words (Abs cwd p)) (words (Abs cwd q))"
  by (metis Abs_words isUnder_iff words_Abs_plain)

lemma EnsureUnderRoot_ok_iff:
  "EnsureUnderRoot cwd eval root target = Inr () \<longleftrightarrow>
     isUnder (Abs cwd (Clean root)) (Abs cwd (Clean target)) \<and>
     (\<forall>real. eval (Abs cwd (Clean target)) = Some real \<longrightarrow>
        isUnder (case eval (Abs cwd (Clean root)) of Some r \<Rightarrow> r | None \<Rightarrow> Abs cwd (Clean root)) real)"
  by (cases "eval (Abs cwd (Clean target))") (simp_all add: EnsureUnderRoot_def Let_def)

lemma safeRemoveAll_target_ok:
  assumes "safeRemoveAll_target cwd eval root target = Inr t"
  shows "EnsureUnderRoot cwd eval root target = Inr ()" and "t = Abs cwd (Clean target)"
    and "Abs cwd (Clean root) \<noteq> t"
proof -
  have "EnsureUnderRoot cwd eval root target = Inr () \<and> t = Abs cwd (Clean target)
      \<and> Abs cwd (Clean root) \<noteq> t"
  proof (cases "EnsureUnderRoot cwd eval root target")
    case (Inl e)
    with assms show ?thesis by (simp add: safeRemoveAll_target_def)
  next
    case (Inr u)
    with assms show ?thesis
      by (cases u) (auto simp only: safeRemoveAll_target_def Let_def sum.case sum.inject
          sum.distinct simp_thms split: if_splits)
  qed
  then show "EnsureUnderRoot cwd eval root target = Inr ()" and "t = Abs cwd (Clean target)"
    and "Abs cwd (Clean root) \<noteq> t" by auto
qed

text \<open>What \<open>safeRemoveAll\<close> removes is strictly below the runtime root, lexically and, where the
  target exists, after its symbolic links are resolved: the root itself and everything outside
  it are refused.\<close>

theorem safeRemoveAll_strictly_below:
  assumes "IsAbs cwd" and "safeRemoveAll_target cwd eval root target = Inr t"
  shows "strict_prefix (words (Abs cwd (Clean root))) (words t)
       \<and> (\<forall>real. eval t = Some real \<longrightarrow>
            isUnder (case eval (Abs cwd (Clean root)) of Some r \<Rightarrow> r | None \<Rightarrow> Abs cwd (Clean root)) real)"
proof -
  note t = safeRemoveAll_target_ok [OF assms(2)]
  note ok = t(1) [unfolded EnsureUnderRoot_ok_iff]
  have "prefix (words (Abs cwd (Clean root))) (words t)"
    using ok t(2) assms(1) by (simp add: isUnder_Abs)
  moreover have "words (Abs cwd (Clean root)) \<noteq> words t"
    using t(2,3) assms(1) by (metis Abs_words)
  ultimately show ?thesis using ok t(2) by (simp add: strict_prefix_def)
qed

lemma safeRemoveAll_strictly_below_witness:
  "safeRemoveAll_target ''/'' Some ''/rt'' ''/rt/b/../a'' = Inr ''/rt/a''
   \<and> strict_prefix (words (Abs ''/'' (Clean ''/rt''))) (words ''/rt/a'')
   \<and> isUnder (Abs ''/'' (Clean ''/rt'')) ''/rt/a''"
proof -
  have run: "safeRemoveAll_target ''/'' Some ''/rt'' ''/rt/b/../a'' = Inr ''/rt/a''" by code_simp
  from safeRemoveAll_strictly_below [OF _ this] run show ?thesis by simp
qed

section \<open>safeName\<close>

definition gateway_cleanAgentID :: "string \<Rightarrow> string" where
  "gateway_cleanAgentID = Replace [(''/'', ''_''), ([CHR 92], ''_''), ('':'', ''_'')]"

definition checkpoint_safeName :: "string \<Rightarrow> string" where
  "checkpoint_safeName = Replace [(''/'', ''_''), ([CHR 92], ''_''), ('':'', ''_''), (''..'', ''_'')]"

definition workspace_safeName :: "string \<Rightarrow> string" where
  "workspace_safeName =
     Replace [(''/'', ''_''), ([CHR 92], ''_''), ('':'', ''_''), (''..'', ''_''), ('' '', ''_'')]"

definition capsule_safeName :: "string \<Rightarrow> string" where
  "capsule_safeName = Replace [(''/'', ''_''), ('':'', ''_''), ('' '', ''_'')]"

lemma safeName_no_sep:
  "sep \<notin> set (gateway_cleanAgentID s)" "sep \<notin> set (checkpoint_safeName s)"
  "sep \<notin> set (workspace_safeName s)" "sep \<notin> set (capsule_safeName s)"
  unfolding gateway_cleanAgentID_def checkpoint_safeName_def workspace_safeName_def capsule_safeName_def
  by (rule Replace_removes [of _ "''_''"]; simp)+

end
