(* ===== verification/Events.thy ===== *)
theory Events
  imports Prelude Float64
begin

text \<open>
  Events and the event hub (\<open>internal/events/hub.go\<close>), and the values that fill event payloads
  and syscall arguments (\<open>map[string]any\<close>). A channel is named by a number; \<open>chans c\<close> is what is
  buffered in channel \<open>c\<close>. A send to a channel whose buffer is full is dropped (\<open>select\<close> with a
  \<open>default\<close> branch). \<open>event_sink\<close> is the contract of every \<open>EventSink\<close>: a bounded log.
\<close>

section \<open>Dynamic values\<close>

datatype gval =
    GNil | GBool bool | GInt int | GInt64 int | GUint64 u64 | GFloat f64 | GStr string
  | GNumber string                               \<comment> \<open>\<open>json.Number\<close>\<close>
  | GStrs "string list" | GList "gval list" | GMap "(string \<times> gval) list"
  | GIntMap "string \<rightharpoonup> int" | GUintMap "string \<rightharpoonup> u64"

type_synonym payload = "(string \<times> gval) list"

section \<open>Events\<close>

record Event =
  ev_ID :: string
  ev_TaskID :: string
  ev_AgentID :: string
  ev_Type :: string
  ev_Source :: string
  ev_Timestamp :: int
  ev_Payload :: payload

definition new_event :: "clock \<Rightarrow> string \<Rightarrow> string \<Rightarrow> string \<Rightarrow> string \<Rightarrow> payload \<Rightarrow> Event" where
  "new_event clk eventType taskID agentID source payload =
     \<lparr>ev_ID = stamp (clk 0), ev_TaskID = taskID, ev_AgentID = agentID, ev_Type = eventType,
      ev_Source = source, ev_Timestamp = unix_ms (clk 1), ev_Payload = payload\<rparr>"

lemma new_event_simps [simp]:
  "ev_Type (new_event clk ty task agent src p) = ty"
  "ev_TaskID (new_event clk ty task agent src p) = task"
  "ev_AgentID (new_event clk ty task agent src p) = agent"
  "ev_Source (new_event clk ty task agent src p) = src"
  "ev_Payload (new_event clk ty task agent src p) = p"
  by (simp_all add: new_event_def)

section \<open>The contract of an event sink\<close>

definition take_last :: "nat \<Rightarrow> 'a list \<Rightarrow> 'a list" where
  "take_last n xs = drop (length xs - n) xs"

lemma take_last_le [simp]: "length xs \<le> n \<Longrightarrow> take_last n xs = xs"
  by (simp add: take_last_def)

lemma length_take_last: "length (take_last n xs) = min n (length xs)"
  by (simp add: take_last_def)

lemma take_last_append: "take_last n (take_last n xs @ ys) = take_last n (xs @ ys)"
proof (cases "length xs \<le> n")
  case False
  then show ?thesis
    by (cases "length ys \<le> n") (simp_all add: take_last_def drop_drop add.commute)
qed simp

locale event_sink =
  fixes publish :: "'s \<Rightarrow> Event \<Rightarrow> 's" and log :: "'s \<Rightarrow> Event list" and cap :: "'s \<Rightarrow> nat"
  assumes log_publish: "length (log s) \<le> cap s \<Longrightarrow> log (publish s e) = take_last (cap s) (log s @ [e])"
    and cap_publish: "cap (publish s e) = cap s"
begin

lemma log_bound: "length (log s) \<le> cap s \<Longrightarrow> length (log (publish s e)) \<le> cap (publish s e)"
  by (simp add: log_publish cap_publish length_take_last)

text \<open>Any sequence of publications leaves the newest \<open>cap\<close> events, in order.\<close>

lemma log_publish_all:
  "length (log s) \<le> cap s \<Longrightarrow> log (foldl publish s es) = take_last (cap s) (log s @ es)"
proof (induction es arbitrary: s)
  case (Cons e es)
  then have "log (foldl publish (publish s e) es) = take_last (cap s) (log (publish s e) @ es)"
    using log_bound by (simp add: cap_publish)
  with Cons.prems show ?case by (simp add: log_publish take_last_append)
qed simp

end

section \<open>Hub\<close>

record Hub =
  hub_buffer :: nat
  hub_historySize :: nat
  hub_history :: "Event list"
  hub_subscribers :: "nat set"
  hub_chans :: "nat \<Rightarrow> Event list"
  hub_next :: nat                  \<comment> \<open>the next channel \<open>make\<close> returns\<close>

definition NewHub :: "int \<Rightarrow> Hub" where
  "NewHub buffer = \<lparr>hub_buffer = nat (if buffer < 256 then 256 else buffer), hub_historySize = 256,
     hub_history = [], hub_subscribers = {}, hub_chans = (\<lambda>_. []), hub_next = 0\<rparr>"

text \<open>A non-blocking send into a buffer of the given capacity.\<close>

definition send :: "nat \<Rightarrow> Event list \<Rightarrow> Event \<Rightarrow> Event list" where
  "send n q e = (if length q < n then q @ [e] else q)"

definition Subscribe :: "Hub \<Rightarrow> nat \<times> Hub" where
  "Subscribe h = (let ch = hub_next h in
     (ch, h\<lparr>hub_subscribers := insert ch (hub_subscribers h),
            hub_chans := (hub_chans h)(ch := foldl (send (hub_buffer h)) [] (hub_history h)),
            hub_next := Suc ch\<rparr>))"

text \<open>The function that \<open>Subscribe\<close> returns beside the channel.\<close>

definition hub_cancel :: "Hub \<Rightarrow> nat \<Rightarrow> Hub" where
  "hub_cancel h ch = (if ch \<in> hub_subscribers h
     then h\<lparr>hub_subscribers := hub_subscribers h - {ch}\<rparr> else h)"

definition hub_Publish :: "Hub \<Rightarrow> Event \<Rightarrow> Hub" where
  "hub_Publish h event = (let hist = hub_history h @ [event];
       hist' = (if hub_historySize h < length hist then drop (length hist - hub_historySize h) hist else hist)
     in h\<lparr>hub_history := hist',
          hub_chans := (\<lambda>ch. if ch \<in> hub_subscribers h then send (hub_buffer h) (hub_chans h ch) event
                             else hub_chans h ch)\<rparr>)"

definition SubscriberCount :: "Hub \<Rightarrow> nat" where
  "SubscriberCount h = card (hub_subscribers h)"

text \<open>A receive by the holder of the channel.\<close>

definition hub_receive :: "Hub \<Rightarrow> nat \<Rightarrow> (Event \<times> Hub) option" where
  "hub_receive h ch = (case hub_chans h ch of [] \<Rightarrow> None
     | e # q \<Rightarrow> Some (e, h\<lparr>hub_chans := (hub_chans h)(ch := q)\<rparr>))"

inductive hub_step :: "Hub \<Rightarrow> Hub \<Rightarrow> bool" where
  step_subscribe: "hub_step h (snd (Subscribe h))"
| step_cancel: "hub_step h (hub_cancel h ch)"
| step_publish: "hub_step h (hub_Publish h e)"
| step_receive: "hub_receive h ch = Some (e, h') \<Longrightarrow> hub_step h h'"

inductive_cases hub_stepE: "hub_step h h'"

definition hub_inv :: "Hub \<Rightarrow> bool" where
  "hub_inv h \<longleftrightarrow> hub_historySize h = 256 \<and> 256 \<le> hub_buffer h \<and> length (hub_history h) \<le> 256
     \<and> finite (hub_subscribers h) \<and> (\<forall>ch \<in> hub_subscribers h. ch < hub_next h)
     \<and> (\<forall>ch. length (hub_chans h ch) \<le> hub_buffer h)"

lemma length_send: "length q \<le> n \<Longrightarrow> length (send n q e) \<le> n"
  by (simp add: send_def)

lemma foldl_send: "length q \<le> n \<Longrightarrow> foldl (send n) q es = q @ take (n - length q) es"
proof (induction es arbitrary: q)
  case (Cons e es)
  then show ?case by (cases "length q < n") (simp_all add: send_def Suc_diff_Suc take_Cons')
qed simp

lemma hub_inv_NewHub [go_inv]: "hub_inv (NewHub b)"
  by (auto simp: hub_inv_def NewHub_def)

lemma hub_inv_Subscribe [go_inv]: "hub_inv h \<Longrightarrow> hub_inv (snd (Subscribe h))"
  by (auto simp: hub_inv_def Subscribe_def Let_def foldl_send less_Suc_eq)

lemma hub_inv_cancel [go_inv]: "hub_inv h \<Longrightarrow> hub_inv (hub_cancel h ch)"
  by (simp add: hub_inv_def hub_cancel_def)

lemma hub_inv_Publish [go_inv]: "hub_inv h \<Longrightarrow> hub_inv (hub_Publish h e)"
  by (simp add: hub_inv_def hub_Publish_def Let_def length_send)

lemma hub_inv_receive [go_inv]: "hub_inv h \<Longrightarrow> hub_receive h ch = Some (e, h') \<Longrightarrow> hub_inv h'"
  by (auto simp: hub_inv_def hub_receive_def split: list.splits)
     (metis Suc_leD length_Cons)

interpretation hubs: invariant_system "\<lambda>h. \<exists>b. h = NewHub b" hub_step hub_inv
  by unfold_locales (auto intro: go_inv elim!: hub_stepE)

lemma hub_historySize_inv: "hub_inv h \<Longrightarrow> hub_historySize h = 256"
  by (simp add: hub_inv_def)

interpretation hub_sink: event_sink hub_Publish hub_history hub_historySize
  by unfold_locales (simp_all add: hub_Publish_def Let_def take_last_def)

lemma hub_Publish_frame [go_frame]:
  "hub_subscribers (hub_Publish h e) = hub_subscribers h"
  "hub_buffer (hub_Publish h e) = hub_buffer h"
  "hub_historySize (hub_Publish h e) = hub_historySize h"
  by (simp_all add: hub_Publish_def Let_def)

lemma hub_chans_Publish_all:
  "ch \<in> hub_subscribers h \<Longrightarrow>
   hub_chans (foldl hub_Publish h es) ch = foldl (send (hub_buffer h)) (hub_chans h ch) es"
  by (induction es arbitrary: h) (simp_all add: go_frame, simp add: hub_Publish_def Let_def)

lemma hub_next_fresh: "hub_inv h \<Longrightarrow> hub_next h \<notin> hub_subscribers h"
  by (auto simp: hub_inv_def)

text \<open>C24. In every state the hub can reach, a subscriber that joins now is sent the whole retained
  history first and then, in order, every event published after it joined, as long as its buffer
  has room; once the buffer is full the newest events are the ones dropped.\<close>

theorem hub_subscriber_stream:
  assumes "reachable (\<lambda>h. \<exists>b. h = NewHub b) hub_step h" and "Subscribe h = (ch, h')"
  shows "hub_chans (foldl hub_Publish h' es) ch
       = hub_history h @ take (hub_buffer h - length (hub_history h)) es"
proof -
  have inv: "hub_inv h" using assms(1) by (rule hubs.reachable_inv)
  then have len: "length (hub_history h) \<le> hub_buffer h" by (simp add: hub_inv_def)
  have h': "ch \<in> hub_subscribers h'" "hub_buffer h' = hub_buffer h" "hub_chans h' ch = hub_history h"
    using assms(2) len by (auto simp: Subscribe_def Let_def foldl_send)
  then show ?thesis using len by (simp add: hub_chans_Publish_all foldl_send)
qed

lemma hub_subscriber_stream_witness:
  "\<exists>h ch h'. Subscribe h = (ch, h') \<and> hub_history h \<noteq> [] \<and>
     (\<forall>es. hub_chans (foldl hub_Publish h' es) ch
       = hub_history h @ take (hub_buffer h - length (hub_history h)) es)"
proof -
  define e where "e = new_event (\<lambda>_. at_ms 1) ''t'' ''a'' ''b'' ''c'' []"
  define h where "h = hub_Publish (NewHub 0) e"
  have reach: "reachable (\<lambda>h. \<exists>b. h = NewHub b) hub_step h"
    unfolding h_def by (rule reachable_step) (auto intro: reachable_init step_publish)
  obtain ch h' where sub: "Subscribe h = (ch, h')" by fastforce
  have "hub_history h \<noteq> []" by (simp add: h_def hub_Publish_def NewHub_def)
  with hub_subscriber_stream [OF reach sub] sub show ?thesis by blast
qed

text \<open>C25. The hub retains exactly the newest 256 events, in publication order, whatever it held
  before.\<close>

theorem hub_history_newest:
  assumes "reachable (\<lambda>h. \<exists>b. h = NewHub b) hub_step h"
  shows "hub_history (foldl hub_Publish h es) = take_last 256 (hub_history h @ es)"
proof -
  have inv: "hub_inv h" using assms by (rule hubs.reachable_inv)
  then have "length (hub_history h) \<le> hub_historySize h" by (simp add: hub_inv_def)
  from hub_sink.log_publish_all [OF this] show ?thesis by (simp add: hub_historySize_inv [OF inv])
qed

lemma hub_history_newest_witness:
  "hub_history (foldl hub_Publish (NewHub 32) [new_event (\<lambda>_. at_ms 1) ''t'' ''a'' ''b'' ''c'' []])
     = [new_event (\<lambda>_. at_ms 1) ''t'' ''a'' ''b'' ''c'' []]"
proof -
  have "reachable (\<lambda>h. \<exists>b. h = NewHub b) hub_step (NewHub 32)" by (auto intro: reachable_init)
  from hub_history_newest [OF this, of "[new_event (\<lambda>_. at_ms 1) ''t'' ''a'' ''b'' ''c'' []]"]
  show ?thesis by (simp add: NewHub_def take_last_def)
qed

end
