(* ===== verification/Evidence.thy ===== *)
theory Evidence
  imports Prelude
begin

text \<open>
  Evidence modes (\<open>internal/evidence/evidence.go\<close>): the labels with which every component says
  how its results were obtained. A \<open>Mode\<close> is a Go string type, so any string can occur; \<open>IsValid\<close>
  looks it up in the table \<open>validModes\<close>.
\<close>

type_synonym Mode = string

definition ModeReal :: Mode where "ModeReal = ''real''"
definition ModeRealCgroupV2 :: Mode where "ModeRealCgroupV2 = ''real-cgroup-v2''"
definition ModeRealRuntime :: Mode where "ModeRealRuntime = ''real-runtime''"
definition ModeRealAPI :: Mode where "ModeRealAPI = ''real-api''"
definition ModeRealPartial :: Mode where "ModeRealPartial = ''real-partial''"
definition ModeRealOverlayFS :: Mode where "ModeRealOverlayFS = ''real-overlayfs''"
definition ModeRealEBPF :: Mode where "ModeRealEBPF = ''real-ebpf''"
definition ModeRealShmIPC :: Mode where "ModeRealShmIPC = ''real-shm-ipc''"
definition ModeDegraded :: Mode where "ModeDegraded = ''degraded''"
definition ModeDegradedCopy :: Mode where "ModeDegradedCopy = ''degraded-copy''"
definition ModeMock :: Mode where "ModeMock = ''mock''"
definition ModeSimulation :: Mode where "ModeSimulation = ''simulation''"
definition ModePlanned :: Mode where "ModePlanned = ''planned''"
definition ModeMissing :: Mode where "ModeMissing = ''missing''"

lemmas mode_defs = ModeReal_def ModeRealCgroupV2_def ModeRealRuntime_def ModeRealAPI_def
  ModeRealPartial_def ModeRealOverlayFS_def ModeRealEBPF_def ModeRealShmIPC_def ModeDegraded_def
  ModeDegradedCopy_def ModeMock_def ModeSimulation_def ModePlanned_def ModeMissing_def

definition validModes :: "Mode \<rightharpoonup> unit" where
  "validModes = [ModeReal \<mapsto> (), ModeRealCgroupV2 \<mapsto> (), ModeRealRuntime \<mapsto> (), ModeRealAPI \<mapsto> (),
     ModeRealPartial \<mapsto> (), ModeRealOverlayFS \<mapsto> (), ModeRealEBPF \<mapsto> (), ModeRealShmIPC \<mapsto> (),
     ModeDegraded \<mapsto> (), ModeDegradedCopy \<mapsto> (), ModeMock \<mapsto> (), ModeSimulation \<mapsto> (),
     ModePlanned \<mapsto> (), ModeMissing \<mapsto> ()]"

definition IsValid :: "Mode \<Rightarrow> bool" where
  "IsValid mode \<longleftrightarrow> validModes mode \<noteq> None"

definition AllModes :: "Mode list" where
  "AllModes = [ModeReal, ModeRealCgroupV2, ModeRealRuntime, ModeRealAPI, ModeRealPartial,
     ModeRealOverlayFS, ModeRealEBPF, ModeRealShmIPC, ModeDegraded, ModeDegradedCopy, ModeMock,
     ModeSimulation, ModePlanned, ModeMissing]"

text \<open>\<open>goos\<close> is \<open>runtime.GOOS\<close>; \<open>has_controllers\<close> says that \<open>cgroup.controllers\<close> can be stat'ed.\<close>

definition cgroupMode :: "string \<Rightarrow> bool \<Rightarrow> Mode" where
  "cgroupMode goos has_controllers = (if goos \<noteq> ''linux'' then ModeDegraded
     else if \<not> has_controllers then ModeDegraded else ModeRealCgroupV2)"

definition CompetitionSummary :: "string \<Rightarrow> bool \<Rightarrow> string \<rightharpoonup> Mode" where
  "CompetitionSummary goos has_controllers =
     [''cgroup_capsule'' \<mapsto> cgroupMode goos has_controllers, ''worker_process'' \<mapsto> ModeRealRuntime,
      ''cvm'' \<mapsto> ModeRealPartial, ''ipc'' \<mapsto> ModeRealPartial, ''llm'' \<mapsto> ModeMock,
      ''ebpf'' \<mapsto> ModeDegraded, ''ipc_shm'' \<mapsto> ModeDegraded, ''replay'' \<mapsto> ModeRealRuntime,
      ''overlayfs'' \<mapsto> ModeDegradedCopy]"

lemma IsValid_iff: "IsValid m \<longleftrightarrow> m \<in> set AllModes"
  by (auto simp: IsValid_def validModes_def AllModes_def)

lemma distinct_AllModes: "distinct AllModes"
  by (simp add: AllModes_def mode_defs)

lemma IsValid_known [simp]:
  "IsValid ModeDegraded" "IsValid ModeRealCgroupV2" "IsValid ModeRealPartial" "IsValid ModeRealRuntime"
  by (simp_all add: IsValid_iff AllModes_def)

lemma cgroupMode_valid: "IsValid (cgroupMode g h)"
  by (simp add: cgroupMode_def)

end
