(* ===== verification/Avp.thy ===== *)
theory Avp
  imports GoStrings Events
begin

text \<open>
  Agents as virtual processes (\<open>internal/avp/types.go\<close>, \<open>manager.go\<close>): the life-cycle states, the
  \<open>AVP\<close> record and the manager that creates agents and moves them along the transition table.
  The state is a Go string type: \<open>StateOther\<close> is a string that is none of the ten constants, which
  a worker's report can produce.
\<close>

section \<open>Types\<close>

datatype AgentState = StateCreated | StateReady | StateRunning | StateWaitingLLM | StateWaitingTool
  | StateWaitingIPC | StateSuspended | StateCompleted | StateFailed | StateKilled
  | StateOther string

fun state_str :: "AgentState \<Rightarrow> string" where
  "state_str StateCreated = ''CREATED''"
| "state_str StateReady = ''READY''"
| "state_str StateRunning = ''RUNNING''"
| "state_str StateWaitingLLM = ''WAITING_LLM''"
| "state_str StateWaitingTool = ''WAITING_TOOL''"
| "state_str StateWaitingIPC = ''WAITING_IPC''"
| "state_str StateSuspended = ''SUSPENDED''"
| "state_str StateCompleted = ''COMPLETED''"
| "state_str StateFailed = ''FAILED''"
| "state_str StateKilled = ''KILLED''"
| "state_str (StateOther s) = s"

definition named_states :: "AgentState list" where
  "named_states = [StateCreated, StateReady, StateRunning, StateWaitingLLM, StateWaitingTool,
     StateWaitingIPC, StateSuspended, StateCompleted, StateFailed, StateKilled]"

text \<open>The conversion \<open>AgentState(s)\<close>.\<close>

definition state_of :: "string \<Rightarrow> AgentState" where
  "state_of s = (case find (\<lambda>st. state_str st = s) named_states of
     Some st \<Rightarrow> st | None \<Rightarrow> StateOther s)"

lemma state_str_of [simp]: "state_str (state_of s) = s"
proof (cases "find (\<lambda>st. state_str st = s) named_states")
  case (Some st)
  then have "state_str st = s" by (auto simp only: find_Some_iff)
  with Some show ?thesis by (simp add: state_of_def)
qed (simp add: state_of_def)

lemma state_of_named: "\<forall>st \<in> set named_states. state_of (state_str st) = st"
  by code_simp

lemma state_of_str: "st \<in> set named_states \<Longrightarrow> state_of (state_str st) = st"
  using state_of_named by blast

record AVP =
  avp_AgentID :: string
  avp_TaskID :: string
  avp_Role :: string
  avp_State :: AgentState
  avp_Priority :: int
  avp_Weight :: int
  avp_VRuntime :: u64
  avp_ConsumedTokens :: int
  avp_Dependencies :: "string list"
  avp_PageTable :: "string list"
  avp_ContextPages :: "string list"
  avp_PID :: int
  avp_CgroupPath :: string
  avp_CapsuleMode :: string
  avp_MemoryCurrent :: int
  avp_PidsCurrent :: int
  avp_CPUStat :: "(string \<rightharpoonup> u64) option"      \<comment> \<open>\<open>None\<close>: the nil map\<close>
  avp_WorkspacePath :: string
  avp_RetryCount :: int
  avp_CreatedAt :: int
  avp_UpdatedAt :: int
  avp_LastSeen :: int

text \<open>The zero value \<open>avp.AVP{}\<close>; its state is the empty string.\<close>

definition zero_AVP :: AVP where
  "zero_AVP = \<lparr>avp_AgentID = [], avp_TaskID = [], avp_Role = [], avp_State = StateOther [],
     avp_Priority = 0, avp_Weight = 0, avp_VRuntime = 0, avp_ConsumedTokens = 0,
     avp_Dependencies = [], avp_PageTable = [], avp_ContextPages = [], avp_PID = 0,
     avp_CgroupPath = [], avp_CapsuleMode = [], avp_MemoryCurrent = 0, avp_PidsCurrent = 0,
     avp_CPUStat = None, avp_WorkspacePath = [], avp_RetryCount = 0, avp_CreatedAt = 0,
     avp_UpdatedAt = 0, avp_LastSeen = 0\<rparr>"

section \<open>Manager\<close>

record Manager =
  mgr_nextID :: int
  mgr_agents :: "string \<rightharpoonup> AVP"

definition NewManager :: Manager where
  "NewManager = \<lparr>mgr_nextID = 0, mgr_agents = Map.empty\<rparr>"

definition avp_Create :: "clock \<Rightarrow> string \<Rightarrow> string \<Rightarrow> string list \<Rightarrow> Manager \<Rightarrow> AVP \<times> Manager" where
  "avp_Create clk taskID role deps m = (let n = mgr_nextID m + 1;
       agentID = role @ ''-'' @ Itoa n;
       agent = zero_AVP\<lparr>avp_AgentID := agentID, avp_TaskID := taskID, avp_Role := role,
         avp_State := StateCreated, avp_Priority := 100, avp_Weight := 100,
         avp_Dependencies := deps, avp_CreatedAt := unix_ms (clk 0), avp_UpdatedAt := unix_ms (clk 1)\<rparr>
     in (agent, m\<lparr>mgr_nextID := n, mgr_agents := (mgr_agents m)(agentID \<mapsto> agent)\<rparr>))"

definition avp_Get :: "string \<Rightarrow> Manager \<Rightarrow> AVP option" where
  "avp_Get agentID m = mgr_agents m agentID"

definition avp_List :: "string list \<Rightarrow> Manager \<Rightarrow> AVP list" where
  "avp_List ks m = range_values (mgr_agents m) ks"

definition valid_table :: "AgentState \<Rightarrow> AgentState list" where
  "valid_table s = (case s of
       StateCreated \<Rightarrow> [StateReady]
     | StateReady \<Rightarrow> [StateRunning]
     | StateRunning \<Rightarrow> [StateWaitingLLM, StateWaitingTool, StateWaitingIPC, StateSuspended,
                       StateCompleted, StateFailed]
     | StateWaitingLLM \<Rightarrow> [StateReady]
     | StateWaitingTool \<Rightarrow> [StateReady]
     | StateWaitingIPC \<Rightarrow> [StateReady]
     | StateSuspended \<Rightarrow> [StateReady]
     | StateFailed \<Rightarrow> [StateReady, StateKilled]
     | _ \<Rightarrow> [])"

definition validTransition :: "AgentState \<Rightarrow> AgentState \<Rightarrow> bool" where
  "validTransition from to \<longleftrightarrow> to \<in> set (valid_table from)"

definition avp_Transition :: "clock \<Rightarrow> string \<Rightarrow> AgentState \<Rightarrow> Manager \<Rightarrow> Manager result" where
  "avp_Transition clk agentID next m = (case mgr_agents m agentID of
       None \<Rightarrow> Inl (Errorf ''unknown agent %q'' [agentID])
     | Some agent \<Rightarrow>
         if \<not> validTransition (avp_State agent) next
         then Inl (Errorf ''invalid transition %s -> %s'' [state_str (avp_State agent), state_str next])
         else Inr (m\<lparr>mgr_agents := (mgr_agents m)(agentID \<mapsto>
                agent\<lparr>avp_State := next, avp_UpdatedAt := unix_ms (clk 0)\<rparr>)\<rparr>))"

inductive mgr_step :: "Manager \<Rightarrow> Manager \<Rightarrow> bool" where
  mgr_create: "mgr_step m (snd (avp_Create clk task role deps m))"
| mgr_transition: "avp_Transition clk a s m = Inr m' \<Longrightarrow> mgr_step m m'"

inductive_cases mgr_stepE: "mgr_step m m'"

section \<open>Identifiers are unique\<close>

lemma last_sep_unique: "c \<notin> set x \<Longrightarrow> c \<notin> set y \<Longrightarrow> a @ c # x = b @ c # y \<Longrightarrow> x = y"
  by (auto simp: append_eq_append_conv2 Cons_eq_append_conv append_eq_Cons_conv)

lemma agent_id_inj:
  "0 \<le> m \<Longrightarrow> 0 \<le> n \<Longrightarrow> r @ ''-'' @ Itoa m = r' @ ''-'' @ Itoa n \<Longrightarrow> m = n"
proof -
  assume mn: "0 \<le> m" "0 \<le> n" and eq: "r @ ''-'' @ Itoa m = r' @ ''-'' @ Itoa n"
  then have "r @ CHR ''-'' # nat_str (nat m) = r' @ CHR ''-'' # nat_str (nat n)"
    by (simp add: Itoa_def)
  then have "nat_str (nat m) = nat_str (nat n)"
    by (rule last_sep_unique [rotated 2]) (rule nat_str_no_minus)+
  with mn show "m = n" by (metis eq_nat_nat_iff nat_str_inj)
qed

definition mgr_inv :: "Manager \<Rightarrow> bool" where
  "mgr_inv m \<longleftrightarrow> 0 \<le> mgr_nextID m \<and> (\<forall>k a. mgr_agents m k = Some a \<longrightarrow>
     avp_AgentID a = k \<and> (\<exists>n. 1 \<le> n \<and> n \<le> mgr_nextID m \<and> k = avp_Role a @ ''-'' @ Itoa n))"

lemma mgr_inv_New [go_inv]: "mgr_inv NewManager"
  by (simp add: mgr_inv_def NewManager_def)

lemma mgr_inv_Create [go_inv]: "mgr_inv m \<Longrightarrow> mgr_inv (snd (avp_Create clk task role deps m))"
proof -
  assume inv: "mgr_inv m"
  let ?id = "role @ ''-'' @ Itoa (mgr_nextID m + 1)"
  define a where "a = fst (avp_Create clk task role deps m)"
  then have a: "avp_AgentID a = ?id" "avp_Role a = role"
    and m': "snd (avp_Create clk task role deps m)
       = m\<lparr>mgr_nextID := mgr_nextID m + 1, mgr_agents := (mgr_agents m)(?id \<mapsto> a)\<rparr>"
    by (simp_all add: avp_Create_def Let_def)
  have old: "\<exists>n. 1 \<le> n \<and> n \<le> mgr_nextID m + 1 \<and> k = avp_Role b @ ''-'' @ Itoa n"
    if "mgr_agents m k = Some b" for k b
    using inv that unfolding mgr_inv_def by (metis add_increasing2 zero_le_one)
  have new: "\<exists>n. 1 \<le> n \<and> n \<le> mgr_nextID m + 1 \<and> ?id = avp_Role a @ ''-'' @ Itoa n"
    using inv a by (intro exI [of _ "mgr_nextID m + 1"]) (simp add: mgr_inv_def)
  show ?thesis unfolding mgr_inv_def m'
    using inv old new a by (simp only: mgr_inv_def Manager.simps fun_upd_apply) (auto split: if_splits)
qed

lemma mgr_inv_Transition [go_inv]:
  "mgr_inv m \<Longrightarrow> avp_Transition clk a s m = Inr m' \<Longrightarrow> mgr_inv m'"
proof -
  assume inv: "mgr_inv m" and t: "avp_Transition clk a s m = Inr m'"
  obtain b where b: "mgr_agents m a = Some b" using t by (auto simp: avp_Transition_def split: option.splits)
  with t have "m' = m\<lparr>mgr_agents := (mgr_agents m)(a \<mapsto> b\<lparr>avp_State := s, avp_UpdatedAt := unix_ms (clk 0)\<rparr>)\<rparr>"
    by (auto simp: avp_Transition_def split: if_splits)
  with b inv show "mgr_inv m'" by (simp add: mgr_inv_def)
qed

interpretation agents: invariant_system "\<lambda>m. m = NewManager" mgr_step mgr_inv
  by unfold_locales (auto intro: go_inv elim!: mgr_stepE)

text \<open>\<open>Create\<close> never reuses an identifier: in every reachable state the new agent's identifier
  was free, whatever the role names are, so no agent is overwritten; every other agent keeps its
  record.\<close>

theorem Create_fresh:
  assumes "reachable (\<lambda>m. m = NewManager) mgr_step m" and "avp_Create clk task role deps m = (a, m')"
  shows "mgr_agents m (avp_AgentID a) = None \<and> mgr_agents m' (avp_AgentID a) = Some a
     \<and> (\<forall>k. k \<noteq> avp_AgentID a \<longrightarrow> mgr_agents m' k = mgr_agents m k)"
proof -
  have inv: "mgr_inv m" using assms(1) by (rule agents.reachable_inv)
  have a: "avp_AgentID a = role @ ''-'' @ Itoa (mgr_nextID m + 1)"
    and m': "mgr_agents m' = (mgr_agents m)(avp_AgentID a \<mapsto> a)"
    using assms(2) by (auto simp: avp_Create_def Let_def)
  have "mgr_agents m (avp_AgentID a) = None"
  proof (rule ccontr)
    assume "mgr_agents m (avp_AgentID a) \<noteq> None"
    then obtain b where "mgr_agents m (avp_AgentID a) = Some b" by auto
    with inv obtain n where "avp_AgentID a = avp_Role b @ ''-'' @ Itoa n" "1 \<le> n" "n \<le> mgr_nextID m"
      unfolding mgr_inv_def by metis
    with a agent_id_inj [of "mgr_nextID m + 1" n role "avp_Role b"] inv show False
      by (simp add: mgr_inv_def)
  qed
  with m' show ?thesis by simp
qed

lemma Create_fresh_witness:
  "\<exists>a m'. avp_Create (\<lambda>_. at_ms 5) ''t'' ''coder'' [] NewManager = (a, m')
     \<and> avp_AgentID a = ''coder-1'' \<and> mgr_agents m' (avp_AgentID a) = Some a"
proof -
  obtain a m' where c: "avp_Create (\<lambda>_. at_ms 5) ''t'' ''coder'' [] NewManager = (a, m')" by fastforce
  then have "avp_AgentID a = ''coder-1''"
    by (auto simp: avp_Create_def Let_def NewManager_def Itoa_def nat_str.simps go_eval)
  with Create_fresh [OF reachable_init c] c show ?thesis by auto
qed

section \<open>The life cycle\<close>

lemma validTransition_cases:
  "validTransition s t \<Longrightarrow>
     (s = StateCreated \<and> t = StateReady) \<or> (s = StateReady \<and> t = StateRunning)
   \<or> (s = StateRunning \<and> t \<in> {StateWaitingLLM, StateWaitingTool, StateWaitingIPC, StateSuspended,
        StateCompleted, StateFailed})
   \<or> (s \<in> {StateWaitingLLM, StateWaitingTool, StateWaitingIPC, StateSuspended, StateFailed} \<and> t = StateReady)
   \<or> (s = StateFailed \<and> t = StateKilled)"
  by (cases s) (auto simp: validTransition_def valid_table_def)

lemma mgr_step_state:
  assumes "mgr_inv m" and "mgr_step m m'" and "mgr_agents m k = Some a"
  obtains b where "mgr_agents m' k = Some b"
    and "avp_State b = avp_State a \<or> validTransition (avp_State a) (avp_State b)"
  using assms(2)
proof (cases rule: mgr_step.cases)
  case (mgr_create clk task role deps)
  obtain n where n: "k = avp_Role a @ ''-'' @ Itoa n" "1 \<le> n" "n \<le> mgr_nextID m"
    using assms(1,3) unfolding mgr_inv_def by metis
  have "k \<noteq> role @ ''-'' @ Itoa (mgr_nextID m + 1)"
    using n agent_id_inj [of "mgr_nextID m + 1" n role "avp_Role a"] by auto
  then show ?thesis using that mgr_create assms(3) by (auto simp: avp_Create_def Let_def)
next
  case (mgr_transition clk a' s)
  then show ?thesis using that assms(3)
    by (cases "k = a'") (auto simp: avp_Transition_def split: option.splits if_splits)
qed

lemma mgr_steps_terminal:
  assumes "mgr_step\<^sup>*\<^sup>* m m'" and "mgr_inv m" and "mgr_agents m k = Some a"
    and "avp_State a \<in> {StateCompleted, StateKilled}"
  shows "\<exists>b. mgr_agents m' k = Some b \<and> avp_State b = avp_State a"
  using assms(1)
proof (induction rule: rtranclp_induct)
  case base
  with assms show ?case by simp
next
  case (step y z)
  then obtain b where b: "mgr_agents y k = Some b" "avp_State b = avp_State a" by auto
  have "mgr_inv y" using step(1) assms(2) by (rule agents.steps_inv)
  from this step(2) b(1) obtain c where "mgr_agents z k = Some c"
    "avp_State c = avp_State b \<or> validTransition (avp_State b) (avp_State c)" by (rule mgr_step_state)
  with b assms(4) show ?case by (auto dest: validTransition_cases)
qed

text \<open>C26. Completed and killed agents are final: from any reachable state of the manager no further
  sequence of operations moves such an agent to another state or removes it.\<close>

theorem terminal_states_final:
  assumes "reachable (\<lambda>m. m = NewManager) mgr_step m" and "mgr_step\<^sup>*\<^sup>* m m'"
    and "mgr_agents m k = Some a" and "avp_State a \<in> {StateCompleted, StateKilled}"
  shows "\<exists>b. mgr_agents m' k = Some b \<and> avp_State b = avp_State a"
  by (rule mgr_steps_terminal [OF assms(2) agents.reachable_inv [OF assms(1)] assms(3,4)])

definition demo_manager :: "AgentState list \<Rightarrow> Manager" where
  "demo_manager ss = foldl (\<lambda>m s. case avp_Transition (\<lambda>_. at_ms 9) ''c-1'' s m of Inr m' \<Rightarrow> m' | Inl _ \<Rightarrow> m)
     (snd (avp_Create (\<lambda>_. at_ms 5) ''t'' ''c'' [] NewManager)) ss"

lemma demo_manager_reachable: "reachable (\<lambda>m. m = NewManager) mgr_step (demo_manager ss)"
proof (induction ss rule: rev_induct)
  case Nil
  show ?case unfolding demo_manager_def
    by (rule reachable_step) (auto intro: reachable_init mgr_create)
next
  case (snoc s ss)
  then show ?case
    by (auto simp: demo_manager_def split: sum.splits intro: reachable_step mgr_transition)
qed

lemma terminal_states_final_witness:
  "\<exists>m a. mgr_agents m ''c-1'' = Some a \<and> avp_State a = StateCompleted \<and>
     (\<forall>m'. mgr_step\<^sup>*\<^sup>* m m' \<longrightarrow> (\<exists>b. mgr_agents m' ''c-1'' = Some b \<and> avp_State b = avp_State a))"
proof -
  define m where "m = demo_manager [StateReady, StateRunning, StateCompleted]"
  have "\<exists>a. mgr_agents m ''c-1'' = Some a \<and> avp_State a = StateCompleted"
    by (simp add: m_def demo_manager_def avp_Create_def NewManager_def avp_Transition_def Let_def
        Itoa_def nat_str.simps go_eval validTransition_def valid_table_def)
  then obtain a where a: "mgr_agents m ''c-1'' = Some a" "avp_State a = StateCompleted" by auto
  have "\<exists>b. mgr_agents m' ''c-1'' = Some b \<and> avp_State b = avp_State a" if "mgr_step\<^sup>*\<^sup>* m m'" for m'
    using terminal_states_final [OF _ that a(1)] a(2) demo_manager_reachable by (simp add: m_def)
  with a show ?thesis by blast
qed

end
