(* ===== verification/Dag.thy ===== *)
theory Dag
  imports Prelude
begin

text \<open>
  The task graph (\<open>internal/dag/dag.go\<close>): \<open>AddNode\<close> records the dependencies of a node, \<open>Ready\<close>
  lists, sorted, the nodes that are not completed and whose dependencies all are. A node that
  \<open>completed\<close> maps to \<open>false\<close> or does not hold is not completed.
\<close>

record Graph =
  deps :: "string \<rightharpoonup> string list"

definition NewGraph :: Graph where
  "NewGraph = \<lparr>deps = Map.empty\<rparr>"

definition AddNode :: "string \<Rightarrow> string list \<Rightarrow> Graph \<Rightarrow> Graph" where
  "AddNode node ds g = g\<lparr>deps := (deps g)(node \<mapsto> ds)\<rparr>"

definition map_true :: "(string \<rightharpoonup> bool) \<Rightarrow> string \<Rightarrow> bool" where
  "map_true m k \<longleftrightarrow> m k = Some True"

definition Ready :: "string list \<Rightarrow> (string \<rightharpoonup> bool) \<Rightarrow> Graph \<Rightarrow> string list" where
  "Ready order completed g = sort (filter (\<lambda>node. \<not> map_true completed node \<and>
     (case deps g node of None \<Rightarrow> False | Some ds \<Rightarrow> list_all (map_true completed) ds)) order)"

lemma set_Ready:
  "range_order (deps g) order \<Longrightarrow> set (Ready order completed g) =
     {n. \<not> map_true completed n \<and> (\<exists>ds. deps g n = Some ds \<and> (\<forall>d \<in> set ds. map_true completed d))}"
  by (auto simp: Ready_def range_order_mem list_all_iff split: option.splits)

text \<open>C27. \<open>Ready\<close> is deterministic although it ranges over a map: for every iteration order it
  returns, without duplicates and in ascending order, exactly the uncompleted nodes all of whose
  dependencies are completed.\<close>

theorem Ready_exact:
  assumes "range_order (deps g) order"
  shows "Ready order completed g = sorted_list_of_set
     {n. \<not> map_true completed n \<and> (\<exists>ds. deps g n = Some ds \<and> (\<forall>d \<in> set ds. map_true completed d))}"
proof -
  have "distinct (Ready order completed g)" "sorted (Ready order completed g)"
    using assms by (simp_all add: Ready_def range_order_def)
  then have "sorted_list_of_set (set (Ready order completed g)) = Ready order completed g"
    by (rule sorted_list_of_set.idem_if_sorted_distinct [rotated])
  with set_Ready [OF assms, of completed] show ?thesis by simp
qed

definition demo_graph :: Graph where
  "demo_graph = AddNode ''c'' [''b''] (AddNode ''b'' [''a''] (AddNode ''a'' [] NewGraph))"

lemma demo_graph_order: "range_order (deps demo_graph) [''b'', ''c'', ''a'']"
  by (auto simp: range_order_def demo_graph_def AddNode_def NewGraph_def)

lemma Ready_exact_witness:
  "Ready [''b'', ''c'', ''a''] [''a'' \<mapsto> True] demo_graph = sorted_list_of_set
     {n. \<not> map_true [''a'' \<mapsto> True] n \<and>
         (\<exists>ds. deps demo_graph n = Some ds \<and> (\<forall>d \<in> set ds. map_true [''a'' \<mapsto> True] d))}"
  by (rule Ready_exact [OF demo_graph_order])

text \<open>
  A graph is acyclic when its nodes can be ranked so that every dependency has a smaller rank, and
  closed when every dependency is a node.
\<close>

definition ranked :: "(string \<Rightarrow> nat) \<Rightarrow> Graph \<Rightarrow> bool" where
  "ranked rk g \<longleftrightarrow> (\<forall>n ds. deps g n = Some ds \<longrightarrow> (\<forall>d \<in> set ds. rk d < rk n \<and> deps g d \<noteq> None))"



end
