(* ===== verification/Cvm.thy ===== *)
theory Cvm
  imports GoStrings Events Evidence
begin

text \<open>
  The context virtual memory (\<open>internal/cvm/store.go\<close>): content-addressed pages shared by agents,
  page tables, reference counts, compression and eviction of cold pages.

  \<open>crypto/sha256\<close> and \<open>compress/gzip\<close> are the functions of a \<open>codec\<close>; a theorem that decodes what
  was encoded says so with \<open>codec_ok\<close>. Every operation returns its result, the new store and the
  events it publishes, in order. Where the code ranges over \<open>s.pages\<close> the iteration order \<open>ks\<close> is
  an argument. The store is locked for the whole of each operation except \<open>WriteDelta\<close>, which
  is \<open>CreatePage\<close> and then \<open>MountPage\<close>; \<open>cvm_step\<close> has one rule per locked operation.
\<close>

section \<open>Types\<close>

record codec =
  sha256_hex :: "string \<Rightarrow> string"
  gzip_bytes :: "string \<Rightarrow> string result"
  gunzip_bytes :: "string \<Rightarrow> string result"

definition codec_ok :: "codec \<Rightarrow> bool" where
  "codec_ok cd \<longleftrightarrow> (\<forall>x y. gzip_bytes cd x = Inr y \<longrightarrow> gunzip_bytes cd y = Inr x)"

type_synonym PageKind = string

record Page =
  pg_ID :: string
  pg_PageID :: string
  pg_Kind :: PageKind
  pg_Content :: string
  pg_Hash :: string
  pg_Bytes :: int
  pg_SizeBytes :: int
  pg_TokenCount :: int
  pg_RefCount :: int
  pg_Pinned :: bool
  pg_Compressed :: bool
  pg_CompressedSizeBytes :: int
  pg_LastAccessTime :: int
  pg_AccessCount :: int
  pg_OwnerAgents :: "string list"
  pg_CreatedAt :: int
  pg_UpdatedAt :: int
  pg_compressedData :: string

definition zero_Page :: Page where
  "zero_Page = \<lparr>pg_ID = [], pg_PageID = [], pg_Kind = [], pg_Content = [], pg_Hash = [],
     pg_Bytes = 0, pg_SizeBytes = 0, pg_TokenCount = 0, pg_RefCount = 0, pg_Pinned = False,
     pg_Compressed = False, pg_CompressedSizeBytes = 0, pg_LastAccessTime = 0, pg_AccessCount = 0,
     pg_OwnerAgents = [], pg_CreatedAt = 0, pg_UpdatedAt = 0, pg_compressedData = []\<rparr>"

record Store =
  st_pages :: "string \<rightharpoonup> Page"
  st_pageTables :: "string \<rightharpoonup> string list"
  st_savedBytes :: int
  st_savedTokens :: int
  st_compressionSavedBytes :: int
  st_evictedPages :: int
  st_sink :: bool            \<comment> \<open>whether a sink is configured\<close>

type_synonym 'a cvm_out = "'a \<times> Store \<times> Event list"

definition NewStore :: "bool \<Rightarrow> Store" where
  "NewStore sink = \<lparr>st_pages = Map.empty, st_pageTables = Map.empty, st_savedBytes = 0,
     st_savedTokens = 0, st_compressionSavedBytes = 0, st_evictedPages = 0, st_sink = sink\<rparr>"

text \<open>Reading a missing key of \<open>s.pageTables\<close> gives the nil slice.\<close>

definition table :: "Store \<Rightarrow> string \<Rightarrow> string list" where
  "table s agentID = (case st_pageTables s agentID of None \<Rightarrow> [] | Some ids \<Rightarrow> ids)"

section \<open>Helpers\<close>

definition appendUniqueString :: "string list \<Rightarrow> string \<Rightarrow> string list" where
  "appendUniqueString values value =
     (if value = [] then values else if value \<in> set values then values else values @ [value])"

definition removeString :: "string list \<Rightarrow> string \<Rightarrow> string list" where
  "removeString values value = filter (\<lambda>existing. existing \<noteq> value) values"

definition materializedContent :: "codec \<Rightarrow> Page \<Rightarrow> string result" where
  "materializedContent cd p =
     (if \<not> pg_Compressed p then Inr (pg_Content p)
      else if int (length (pg_compressedData p)) = pg_Bytes p then Inr (pg_compressedData p)
      else gunzip_bytes cd (pg_compressedData p))"

definition residentBytes :: "Page \<Rightarrow> int" where
  "residentBytes p = (if pg_Compressed p then pg_CompressedSizeBytes p else pg_Bytes p)"

definition currentBytes :: "string list \<Rightarrow> Store \<Rightarrow> int" where
  "currentBytes ks s = sum_list (map residentBytes (range_values (st_pages s) ks))"

definition publishLocked :: "clock \<Rightarrow> string \<Rightarrow> string \<Rightarrow> Page \<Rightarrow> payload \<Rightarrow> Store \<Rightarrow> Event list" where
  "publishLocked clk eventType agentID page payload s =
     (if \<not> st_sink s then []
      else [new_event clk eventType [] agentID ''runtime''
              (if pg_ID page \<noteq> [] then payload @ [(''page_id'', GStr (pg_ID page)),
                 (''kind'', GStr (pg_Kind page)), (''ref_count'', GInt (pg_RefCount page))]
               else payload)])"

section \<open>Operations\<close>

definition CreatePage :: "codec \<Rightarrow> clock \<Rightarrow> PageKind \<Rightarrow> string \<Rightarrow> Store \<Rightarrow> (Page result) cvm_out" where
  "CreatePage cd clk kind content s =
     (if kind = [] then (Inl (Errorf ''page kind is required'' []), s, [])
      else let pid = sha256_hex cd content; tokens = estimateTokens content in
        case st_pages s pid of
          Some page0 \<Rightarrow>
            let page = page0\<lparr>pg_RefCount := pg_RefCount page0 + 1\<rparr>;
                s' = s\<lparr>st_pages := (st_pages s)(pid \<mapsto> page),
                       st_savedBytes := st_savedBytes s + pg_Bytes page,
                       st_savedTokens := st_savedTokens s + pg_TokenCount page\<rparr>
            in (Inr page, s', publishLocked clk ''context.page.reused'' [] page
                  [(''saved_bytes'', GInt (pg_Bytes page)), (''saved_tokens'', GInt (pg_TokenCount page))] s')
        | None \<Rightarrow>
            let page = zero_Page\<lparr>pg_ID := pid, pg_PageID := pid, pg_Kind := kind, pg_Content := content,
                  pg_Hash := pid, pg_Bytes := int (length content), pg_SizeBytes := int (length content),
                  pg_TokenCount := tokens, pg_RefCount := 1, pg_LastAccessTime := unix_ms (clk 0),
                  pg_AccessCount := 1, pg_CreatedAt := unix_ms (clk 1), pg_UpdatedAt := unix_ms (clk 2)\<rparr>;
                s' = s\<lparr>st_pages := (st_pages s)(pid \<mapsto> page)\<rparr>
            in (Inr page, s', publishLocked (later 3 clk) ''context.page.created'' [] page [] s'))"

definition touched :: "int \<Rightarrow> Page \<Rightarrow> Page" where
  "touched now page = page\<lparr>pg_AccessCount := pg_AccessCount page + 1, pg_LastAccessTime := now,
     pg_UpdatedAt := now\<rparr>"

definition MountPage :: "clock \<Rightarrow> string \<Rightarrow> string \<Rightarrow> Store \<Rightarrow> (unit result) cvm_out" where
  "MountPage clk agentID pageID s =
     (case st_pages s pageID of
        None \<Rightarrow> (Inl (Errorf ''unknown page %q'' [pageID]), s, [])
      | Some page0 \<Rightarrow>
          if pageID \<in> set (table s agentID) then (Inr (), s, [])
          else let shared = 1 < pg_RefCount page0;
                 page = touched (unix_ms (clk 0)) (page0\<lparr>pg_RefCount := pg_RefCount page0 + 1,
                   pg_OwnerAgents := appendUniqueString (pg_OwnerAgents page0) agentID\<rparr>);
                 s' = s\<lparr>st_pageTables := (st_pageTables s)(agentID \<mapsto> table s agentID @ [pageID]),
                   st_savedBytes := st_savedBytes s + (if shared then pg_Bytes page0 else 0),
                   st_savedTokens := st_savedTokens s + (if shared then pg_TokenCount page0 else 0),
                   st_pages := (st_pages s)(pageID \<mapsto> page)\<rparr>
               in (Inr (), s', publishLocked (later 1 clk) ''context.page.mounted'' agentID page [] s'))"

definition WriteDelta :: "codec \<Rightarrow> clock \<Rightarrow> string \<Rightarrow> string \<Rightarrow> Store \<Rightarrow> (Page result) cvm_out" where
  "WriteDelta cd clk agentID content s =
     (case CreatePage cd clk ''delta'' content s of
        (Inl e, s1, ev1) \<Rightarrow> (Inl e, s1, ev1)
      | (Inr page, s1, ev1) \<Rightarrow>
          (case MountPage (later 5 clk) agentID (pg_ID page) s1 of
             (Inl e, s2, ev2) \<Rightarrow> (Inl e, s2, ev1 @ ev2)
           | (Inr _, s2, ev2) \<Rightarrow> (Inr page, s2, ev1 @ ev2)))"

text \<open>The loop of \<open>Materialize\<close>: the text so far and the pages, touched as they are read.\<close>

fun materialize_loop ::
    "codec \<Rightarrow> clock \<Rightarrow> string list \<Rightarrow> string \<Rightarrow> (string \<rightharpoonup> Page) \<Rightarrow> string result \<times> (string \<rightharpoonup> Page)" where
  "materialize_loop cd clk [] out pages = (Inr out, pages)"
| "materialize_loop cd clk (pageID # ids) out pages =
     (case pages pageID of
        None \<Rightarrow> (Inl (Errorf ''page %q missing from store'' [pageID]), pages)
      | Some page \<Rightarrow>
          (case materializedContent cd page of
             Inl e \<Rightarrow> (Inl e, pages)
           | Inr content \<Rightarrow> materialize_loop cd (later 1 clk) ids (out @ content)
               (pages(pageID \<mapsto> touched (unix_ms (clk 0)) page))))"

definition Materialize :: "codec \<Rightarrow> clock \<Rightarrow> string \<Rightarrow> Store \<Rightarrow> (string result) cvm_out" where
  "Materialize cd clk agentID s =
     (case materialize_loop cd clk (table s agentID) [] (st_pages s) of
        (Inl e, pages) \<Rightarrow> (Inl e, s\<lparr>st_pages := pages\<rparr>, [])
      | (Inr out, pages) \<Rightarrow> let s' = s\<lparr>st_pages := pages\<rparr> in
          (Inr out, s', publishLocked (later (length (table s agentID)) clk) ''context.materialized'' agentID
             zero_Page [(''bytes'', GInt (int (length out))), (''tokens'', GInt (estimateTokens out))] s'))"

definition TouchPage :: "clock \<Rightarrow> string \<Rightarrow> Store \<Rightarrow> (unit result) cvm_out" where
  "TouchPage clk pageID s =
     (case st_pages s pageID of
        None \<Rightarrow> (Inl (Errorf ''unknown page %q'' [pageID]), s, [])
      | Some page \<Rightarrow> (Inr (), s\<lparr>st_pages := (st_pages s)(pageID \<mapsto> touched (unix_ms (clk 0)) page)\<rparr>, []))"

definition PinPage :: "clock \<Rightarrow> string \<Rightarrow> Store \<Rightarrow> (unit result) cvm_out" where
  "PinPage clk pageID s =
     (case st_pages s pageID of
        None \<Rightarrow> (Inl (Errorf ''unknown page %q'' [pageID]), s, [])
      | Some page \<Rightarrow> (Inr (), s\<lparr>st_pages := (st_pages s)(pageID \<mapsto>
            page\<lparr>pg_Pinned := True, pg_UpdatedAt := unix_ms (clk 0)\<rparr>)\<rparr>, []))"

definition ReleasePage :: "clock \<Rightarrow> string \<Rightarrow> string \<Rightarrow> Store \<Rightarrow> (unit result) cvm_out" where
  "ReleasePage clk agentID pageID s =
     (case st_pages s pageID of
        None \<Rightarrow> (Inl (Errorf ''unknown page %q'' [pageID]), s, [])
      | Some page0 \<Rightarrow>
          let page1 = (if 0 < pg_RefCount page0 then page0\<lparr>pg_RefCount := pg_RefCount page0 - 1\<rparr> else page0);
              tables = (if agentID \<noteq> []
                then (st_pageTables s)(agentID \<mapsto> removeString (table s agentID) pageID)
                else st_pageTables s);
              page2 = (if agentID \<noteq> []
                then page1\<lparr>pg_OwnerAgents := removeString (pg_OwnerAgents page1) agentID\<rparr> else page1);
              page = page2\<lparr>pg_UpdatedAt := unix_ms (clk 0)\<rparr>
          in (Inr (), s\<lparr>st_pageTables := tables, st_pages := (st_pages s)(pageID \<mapsto> page)\<rparr>, []))"

text \<open>The compression of one page: \<open>None\<close> when it is skipped.\<close>

definition compress_page :: "codec \<Rightarrow> int \<Rightarrow> int \<Rightarrow> Page \<Rightarrow> (Page \<times> int) result option" where
  "compress_page cd now maxAccessCount page =
     (if pg_Pinned page \<or> pg_Compressed page \<or> maxAccessCount < pg_AccessCount page then None
      else if pg_Content page = [] then None
      else case gzip_bytes cd (pg_Content page) of
          Inl e \<Rightarrow> Some (Inl e)
        | Inr data0 \<Rightarrow>
            let data = (if length (pg_Content page) \<le> length data0 then pg_Content page else data0)
            in Some (Inr (page\<lparr>pg_compressedData := data, pg_Compressed := True,
                   pg_CompressedSizeBytes := int (length data), pg_Content := [], pg_UpdatedAt := now\<rparr>,
                 max 0 (pg_Bytes page - int (length data)))))"

fun compress_loop ::
    "codec \<Rightarrow> clock \<Rightarrow> int \<Rightarrow> string list \<Rightarrow> int \<Rightarrow> int \<Rightarrow> Store \<Rightarrow> go_error option \<times> int \<times> int \<times> Store" where
  "compress_loop cd clk maxAccess [] compressed saved s = (None, compressed, saved, s)"
| "compress_loop cd clk maxAccess (k # ks) compressed saved s =
     (case st_pages s k of
        None \<Rightarrow> compress_loop cd clk maxAccess ks compressed saved s
      | Some page \<Rightarrow>
          (case compress_page cd (unix_ms (clk 0)) maxAccess page of
             None \<Rightarrow> compress_loop cd clk maxAccess ks compressed saved s
           | Some (Inl e) \<Rightarrow> (Some e, compressed, saved, s)
           | Some (Inr (page', pageSaved)) \<Rightarrow>
               compress_loop cd (later 1 clk) maxAccess ks (compressed + 1) (saved + pageSaved)
                 (s\<lparr>st_compressionSavedBytes := st_compressionSavedBytes s + pageSaved,
                    st_pages := (st_pages s)(k \<mapsto> page')\<rparr>)))"

definition CompressColdPages ::
    "codec \<Rightarrow> clock \<Rightarrow> string list \<Rightarrow> int \<Rightarrow> Store \<Rightarrow> (go_error option \<times> int \<times> int) cvm_out" where
  "CompressColdPages cd clk ks maxAccessCount s =
     (case compress_loop cd clk (if maxAccessCount \<le> 0 then 1 else maxAccessCount) ks 0 0 s of
        (err, compressed, saved, s') \<Rightarrow> ((err, compressed, saved), s', []))"

definition evictable :: "Page \<Rightarrow> bool" where
  "evictable page \<longleftrightarrow> pg_RefCount page = 0 \<and> \<not> pg_Pinned page"

text \<open>The order in which candidates are evicted.\<close>

definition colder :: "Page \<Rightarrow> Page \<Rightarrow> bool" where
  "colder a b = (if pg_AccessCount a = pg_AccessCount b
     then pg_LastAccessTime a < pg_LastAccessTime b
     else pg_AccessCount a < pg_AccessCount b)"

definition evict_one :: "Page \<Rightarrow> Store \<Rightarrow> Store" where
  "evict_one page s = s\<lparr>st_pages := (st_pages s)(pg_ID page := None),
     st_pageTables := (\<lambda>agentID. map_option (\<lambda>ids. removeString ids (pg_ID page)) (st_pageTables s agentID))\<rparr>"

fun evict_loop :: "int \<Rightarrow> Page list \<Rightarrow> int \<Rightarrow> int \<Rightarrow> int \<Rightarrow> Store \<Rightarrow> int \<times> int \<times> int \<times> Store" where
  "evict_loop maxBytes [] current evicted freed s = (current, evicted, freed, s)"
| "evict_loop maxBytes (page # cs) current evicted freed s =
     (if current \<le> maxBytes then (current, evicted, freed, s)
      else evict_loop maxBytes cs (current - residentBytes page) (evicted + 1)
             (freed + residentBytes page) (evict_one page s))"

definition EvictColdPages :: "string list \<Rightarrow> int \<Rightarrow> Store \<Rightarrow> (int \<times> int) cvm_out" where
  "EvictColdPages ks maxBytes s = (let current = currentBytes ks s in
     if maxBytes < 0 \<or> current \<le> maxBytes then ((0, 0), s, [])
     else let candidates = sort_by colder (filter evictable (range_values (st_pages s) ks)) in
       case evict_loop maxBytes candidates current 0 0 s of
         (_, evicted, freed, s') \<Rightarrow>
           ((evicted, freed), s'\<lparr>st_evictedPages := st_evictedPages s' + evicted\<rparr>, []))"

definition cvm_Page :: "string \<Rightarrow> Store \<Rightarrow> Page option" where
  "cvm_Page pageID s = st_pages s pageID"

definition cvm_Pages :: "string list \<Rightarrow> Store \<Rightarrow> Page list" where
  "cvm_Pages ks s = range_values (st_pages s) ks"

record PageTable =
  pt_AgentID :: string
  pt_PageIDs :: "string list"

definition cvm_PageTable :: "string \<Rightarrow> Store \<Rightarrow> PageTable" where
  "cvm_PageTable agentID s = \<lparr>pt_AgentID = agentID, pt_PageIDs = table s agentID\<rparr>"

record Stats =
  stats_EvidenceMode :: Mode
  stats_TotalPages :: int
  stats_SharedPages :: int
  stats_HotPages :: int
  stats_ColdPages :: int
  stats_CompressedPages :: int
  stats_EvictedPages :: int
  stats_PinnedPages :: int
  stats_RefCountedPages :: int
  stats_SavedBytes :: int
  stats_SavedTokens :: int
  stats_MemorySavedBytes :: int
  stats_CompressionSavedBytes :: int
  stats_DedupSavedBytes :: int
  stats_DedupSavedTokens :: int

definition count_pages :: "(Page \<Rightarrow> bool) \<Rightarrow> Page list \<Rightarrow> int" where
  "count_pages P ps = int (length (filter P ps))"

definition cvm_Stats :: "string list \<Rightarrow> Store \<Rightarrow> Stats" where
  "cvm_Stats ks s = (let ps = range_values (st_pages s) ks in
     \<lparr>stats_EvidenceMode = ModeRealPartial, stats_TotalPages = int (length ps),
      stats_SharedPages = count_pages (\<lambda>p. 1 < pg_RefCount p) ps,
      stats_HotPages = count_pages (\<lambda>p. 4 \<le> pg_AccessCount p) ps,
      stats_ColdPages = count_pages (\<lambda>p. \<not> 4 \<le> pg_AccessCount p \<and> pg_RefCount p = 0 \<and> \<not> pg_Pinned p) ps,
      stats_CompressedPages = count_pages pg_Compressed ps,
      stats_EvictedPages = st_evictedPages s,
      stats_PinnedPages = count_pages pg_Pinned ps,
      stats_RefCountedPages = count_pages (\<lambda>p. 0 < pg_RefCount p) ps,
      stats_SavedBytes = st_savedBytes s, stats_SavedTokens = st_savedTokens s,
      stats_MemorySavedBytes = st_savedBytes s + st_compressionSavedBytes s,
      stats_CompressionSavedBytes = st_compressionSavedBytes s,
      stats_DedupSavedBytes = st_savedBytes s, stats_DedupSavedTokens = st_savedTokens s\<rparr>)"

end
