(* ===== verification/CvmCorrect.thy ===== *)
theory CvmCorrect
  imports Cvm
begin

text \<open>
  Correctness of the context virtual memory: the store invariant, its preservation by every locked
  operation (\<open>cvm_step\<close>), and the properties that follow in every reachable state. The invariant
  says that a page is stored under its identifier, decodes to bytes that hash to it and have the
  recorded length, and that every page table lists live pages, each once.
\<close>

section \<open>Invariant\<close>

definition page_holds :: "codec \<Rightarrow> Page \<Rightarrow> string \<Rightarrow> bool" where
  "page_holds cd p c \<longleftrightarrow> pg_ID p = sha256_hex cd c \<and> pg_Bytes p = int (length c)
     \<and> pg_TokenCount p = estimateTokens c \<and> materializedContent cd p = Inr c
     \<and> (\<not> pg_Compressed p \<longrightarrow> pg_Content p = c)"

definition page_ok :: "codec \<Rightarrow> string \<Rightarrow> Page \<Rightarrow> bool" where
  "page_ok cd k p \<longleftrightarrow> pg_ID p = k \<and> (\<exists>c. page_holds cd p c) \<and> 0 \<le> pg_RefCount p
     \<and> 0 \<le> residentBytes p \<and> residentBytes p \<le> pg_Bytes p"

definition pages_ok :: "codec \<Rightarrow> (string \<rightharpoonup> Page) \<Rightarrow> bool" where
  "pages_ok cd m \<longleftrightarrow> (\<forall>k p. m k = Some p \<longrightarrow> page_ok cd k p)"

definition tables_ok :: "(string \<rightharpoonup> Page) \<Rightarrow> (string \<Rightarrow> string list) \<Rightarrow> bool" where
  "tables_ok m tab \<longleftrightarrow> (\<forall>a. distinct (tab a) \<and> set (tab a) \<subseteq> dom m)"

definition cvm_inv :: "codec \<Rightarrow> Store \<Rightarrow> bool" where
  "cvm_inv cd s \<longleftrightarrow> pages_ok cd (st_pages s) \<and> tables_ok (st_pages s) (table s)"

lemma cvm_invI: "pages_ok cd (st_pages s) \<Longrightarrow> tables_ok (st_pages s) (table s) \<Longrightarrow> cvm_inv cd s"
  by (simp add: cvm_inv_def)

lemma cvm_invD:
  assumes "cvm_inv cd s"
  shows "pages_ok cd (st_pages s)" and "tables_ok (st_pages s) (table s)"
  using assms by (simp_all add: cvm_inv_def)

lemma pages_okD: "pages_ok cd m \<Longrightarrow> m k = Some p \<Longrightarrow> page_ok cd k p"
  by (simp add: pages_ok_def)

lemma tables_okD:
  assumes "tables_ok m tab"
  shows "distinct (tab a)" and "set (tab a) \<subseteq> dom m"
  using assms by (simp_all add: tables_ok_def)

lemma pages_ok_upd: "pages_ok cd m \<Longrightarrow> page_ok cd k p \<Longrightarrow> pages_ok cd (m(k \<mapsto> p))"
  by (simp add: pages_ok_def)

lemma tables_ok_upd: "tables_ok m tab \<Longrightarrow> tables_ok (m(k \<mapsto> p)) tab"
  by (auto simp: tables_ok_def)

lemma tables_ok_table:
  "tables_ok m tab \<Longrightarrow> distinct ids \<Longrightarrow> set ids \<subseteq> dom m \<Longrightarrow> tables_ok m (tab(a := ids))"
  by (simp add: tables_ok_def)

lemma page_okE:
  assumes "page_ok cd k p"
  obtains c where "page_holds cd p c" "k = sha256_hex cd c"
  using assms by (auto simp: page_ok_def page_holds_def)

lemma page_ok_content: "page_ok cd k p \<Longrightarrow> \<exists>c. materializedContent cd p = Inr c \<and> sha256_hex cd c = k"
  by (auto simp: page_ok_def page_holds_def)

lemma page_ok_sel: "page_ok cd k p \<Longrightarrow> pg_ID p = k" "page_ok cd k p \<Longrightarrow> 0 \<le> pg_RefCount p"
  by (simp_all add: page_ok_def)

text \<open>Changes of a page that keep its data.\<close>

definition same_data :: "Page \<Rightarrow> Page \<Rightarrow> bool" where
  "same_data p q \<longleftrightarrow> pg_ID q = pg_ID p \<and> pg_Bytes q = pg_Bytes p \<and> pg_TokenCount q = pg_TokenCount p
     \<and> pg_Content q = pg_Content p \<and> pg_Compressed q = pg_Compressed p
     \<and> pg_CompressedSizeBytes q = pg_CompressedSizeBytes p \<and> pg_compressedData q = pg_compressedData p"

lemma same_data_refl [simp]: "same_data p p"
  by (simp add: same_data_def)

lemma same_data_trans: "same_data p q \<Longrightarrow> same_data q r \<Longrightarrow> same_data p r"
  by (simp add: same_data_def)

lemma same_data_content: "same_data p q \<Longrightarrow> materializedContent cd q = materializedContent cd p"
  by (simp add: same_data_def materializedContent_def)

lemma same_data_resident: "same_data p q \<Longrightarrow> residentBytes q = residentBytes p"
  by (simp add: same_data_def residentBytes_def)

lemma same_data_ok:
  assumes "page_ok cd k p" and "same_data p q" and "0 \<le> pg_RefCount q"
  shows "page_ok cd k q"
proof -
  obtain c where "page_holds cd p c" using assms(1) by (rule page_okE)
  then have "page_holds cd q c"
    using assms(2) same_data_content [OF assms(2), of cd] by (simp add: page_holds_def same_data_def)
  moreover have "pg_ID q = pg_ID p" "pg_Bytes q = pg_Bytes p" using assms(2) by (simp_all add: same_data_def)
  ultimately show ?thesis
    using assms(1,3) same_data_resident [OF assms(2)] by (auto simp: page_ok_def)
qed

lemma same_data_touched [simp]: "same_data p (touched t p)"
  by (simp add: same_data_def touched_def)

lemma touched_sel [simp]:
  "pg_RefCount (touched t p) = pg_RefCount p" "pg_Pinned (touched t p) = pg_Pinned p"
  "pg_ID (touched t p) = pg_ID p" "pg_OwnerAgents (touched t p) = pg_OwnerAgents p"
  by (simp_all add: touched_def)

lemma table_pages [simp]: "table (s\<lparr>st_pages := m\<rparr>) = table s"
  by (simp add: table_def fun_eq_iff)

lemma table_same: "st_pageTables s' = st_pageTables s \<Longrightarrow> table s' = table s"
  by (simp add: table_def fun_eq_iff)

lemma table_upd: "st_pageTables s' = (st_pageTables s)(a \<mapsto> ids) \<Longrightarrow> table s' = (table s)(a := ids)"
  by (simp add: table_def fun_eq_iff)

text \<open>An operation that changes one page and no table, and one that also changes a table.\<close>

lemma cvm_inv_put:
  assumes "cvm_inv cd s" and "page_ok cd k p" and "st_pageTables s' = st_pageTables s"
    and "st_pages s' = (st_pages s)(k \<mapsto> p)"
  shows "cvm_inv cd s'"
  using pages_ok_upd [OF cvm_invD(1) [OF assms(1)] assms(2)] tables_ok_upd [OF cvm_invD(2) [OF assms(1)]]
  unfolding cvm_inv_def assms(4) table_same [OF assms(3)] by blast

lemma cvm_inv_put_table:
  assumes "cvm_inv cd s" and "page_ok cd k p" and "st_pageTables s' = (st_pageTables s)(a \<mapsto> ids)"
    and "st_pages s' = (st_pages s)(k \<mapsto> p)" and "distinct ids" and "set ids \<subseteq> insert k (dom (st_pages s))"
  shows "cvm_inv cd s'"
proof (rule cvm_invI)
  show "pages_ok cd (st_pages s')"
    using pages_ok_upd [OF cvm_invD(1) [OF assms(1)] assms(2)] by (simp only: assms(4))
  have "tables_ok ((st_pages s)(k \<mapsto> p)) ((table s)(a := ids))"
    using tables_ok_upd [OF cvm_invD(2) [OF assms(1)]] assms(5,6) by (intro tables_ok_table) simp_all
  then show "tables_ok (st_pages s') (table s')"
    by (simp only: assms(4) table_upd [OF assms(3)])
qed

section \<open>What each operation does to the store\<close>

lemma cvm_inv_New [go_inv]: "cvm_inv cd (NewStore b)"
  by (simp add: cvm_inv_def pages_ok_def tables_ok_def NewStore_def table_def)

definition fresh_page :: "codec \<Rightarrow> clock \<Rightarrow> PageKind \<Rightarrow> string \<Rightarrow> Page" where
  "fresh_page cd clk kind content = zero_Page\<lparr>pg_ID := sha256_hex cd content,
     pg_PageID := sha256_hex cd content, pg_Kind := kind, pg_Content := content,
     pg_Hash := sha256_hex cd content, pg_Bytes := int (length content),
     pg_SizeBytes := int (length content), pg_TokenCount := estimateTokens content, pg_RefCount := 1,
     pg_LastAccessTime := unix_ms (clk 0), pg_AccessCount := 1, pg_CreatedAt := unix_ms (clk 1),
     pg_UpdatedAt := unix_ms (clk 2)\<rparr>"

lemma fresh_page_sel [simp]:
  "pg_ID (fresh_page cd clk kind c) = sha256_hex cd c" "pg_RefCount (fresh_page cd clk kind c) = 1"
  "materializedContent cd (fresh_page cd clk kind c) = Inr c" "pg_Pinned (fresh_page cd clk kind c) = False"
  by (simp_all add: fresh_page_def zero_Page_def materializedContent_def)

lemma fresh_page_ok: "page_ok cd (sha256_hex cd c) (fresh_page cd clk kind c)"
  unfolding page_ok_def
  by (auto intro!: exI [of _ c]
        simp: page_holds_def fresh_page_def zero_Page_def materializedContent_def residentBytes_def)

text \<open>\<open>CreatePage\<close> stores a new page, or raises the reference count of the page with that hash.\<close>

lemma CreatePage_cases:
  assumes "CreatePage cd clk kind content s = (r, s', ev)"
  obtains (no_kind) "kind = []" "r = Inl (Errorf ''page kind is required'' [])" "s' = s" "ev = []"
  | (created) "kind \<noteq> []" "st_pages s (sha256_hex cd content) = None"
      "r = Inr (fresh_page cd clk kind content)"
      "st_pages s' = (st_pages s)(sha256_hex cd content \<mapsto> fresh_page cd clk kind content)"
      "st_pageTables s' = st_pageTables s"
  | (reused) q where "kind \<noteq> []" "st_pages s (sha256_hex cd content) = Some q"
      "r = Inr (q\<lparr>pg_RefCount := pg_RefCount q + 1\<rparr>)"
      "st_pages s' = (st_pages s)(sha256_hex cd content \<mapsto> q\<lparr>pg_RefCount := pg_RefCount q + 1\<rparr>)"
      "st_pageTables s' = st_pageTables s"
proof (cases "kind = []")
  case True
  with assms show ?thesis by (intro no_kind) (simp_all add: CreatePage_def)
next
  case kind: False
  show ?thesis
  proof (cases "st_pages s (sha256_hex cd content)")
    case None
    from assms show ?thesis unfolding CreatePage_def
      by (intro created) (use kind None in \<open>simp_all add: Let_def fresh_page_def split: prod.splits\<close>, auto)
  next
    case (Some q)
    from assms show ?thesis unfolding CreatePage_def
      by (intro reused [of q]) (use kind Some in \<open>simp_all add: Let_def split: prod.splits\<close>, auto)
  qed
qed

lemma same_data_ref [simp]: "same_data q (q\<lparr>pg_RefCount := n\<rparr>)"
  by (simp add: same_data_def)

lemma cvm_inv_CreatePage [go_inv]:
  assumes inv: "cvm_inv cd s" and "CreatePage cd clk kind content s = (r, s', ev)"
  shows "cvm_inv cd s'"
  using assms(2)
proof (cases rule: CreatePage_cases)
  case no_kind
  with inv show ?thesis by simp
next
  case created
  show ?thesis by (rule cvm_inv_put [OF inv fresh_page_ok created(5,4)])
next
  case (reused q)
  have ok: "page_ok cd (sha256_hex cd content) q" using pages_okD [OF cvm_invD(1) [OF inv] reused(2)] .
  have "page_ok cd (sha256_hex cd content) (q\<lparr>pg_RefCount := pg_RefCount q + 1\<rparr>)"
    by (rule same_data_ok [OF ok]) (use page_ok_sel(2) [OF ok] in simp_all)
  then show ?thesis by (rule cvm_inv_put [OF inv _ reused(5,4)])
qed

lemma MountPage_cases:
  assumes "MountPage clk a p s = (r, s', ev)"
  obtains (unknown) "st_pages s p = None" "r = Inl (Errorf ''unknown page %q'' [p])" "s' = s" "ev = []"
  | (mounted) q where "st_pages s p = Some q" "p \<in> set (table s a)" "r = Inr ()" "s' = s" "ev = []"
  | (mounts) q q' where "st_pages s p = Some q" "p \<notin> set (table s a)" "r = Inr ()"
      "st_pages s' = (st_pages s)(p \<mapsto> q')" "same_data q q'" "pg_RefCount q' = pg_RefCount q + 1"
      "st_pageTables s' = (st_pageTables s)(a \<mapsto> table s a @ [p])"
proof (cases "st_pages s p")
  case None
  with assms show ?thesis by (intro unknown) (simp_all add: MountPage_def)
next
  case (Some q)
  show ?thesis
  proof (cases "p \<in> set (table s a)")
    case True
    with assms Some show ?thesis by (intro mounted) (simp_all add: MountPage_def)
  next
    case False
    let ?q' = "touched (unix_ms (clk 0)) (q\<lparr>pg_RefCount := pg_RefCount q + 1,
                   pg_OwnerAgents := appendUniqueString (pg_OwnerAgents q) a\<rparr>)"
    have "same_data q ?q'" by (simp add: same_data_def touched_def)
    with False assms Some show ?thesis
      by (intro mounts [of q ?q']) (simp_all add: MountPage_def Let_def, auto)
  qed
qed

lemma cvm_inv_MountPage [go_inv]:
  assumes inv: "cvm_inv cd s" and m: "MountPage clk a p s = (r, s', ev)"
  shows "cvm_inv cd s'"
  using m
proof (cases rule: MountPage_cases)
  case (mounts q q')
  have q: "page_ok cd p q" using pages_okD [OF cvm_invD(1) [OF inv] mounts(1)] .
  have "page_ok cd p q'"
    by (rule same_data_ok [OF q mounts(5)]) (use mounts(6) page_ok_sel(2) [OF q] in simp)
  then show ?thesis
    by (rule cvm_inv_put_table [OF inv _ mounts(7,4)])
       (use tables_okD [OF cvm_invD(2) [OF inv], of a] mounts(2) in auto)
qed (use inv in simp_all)

text \<open>
  The loop of \<open>Materialize\<close> on live pages: it reads each of them in turn and only touches them.
\<close>

definition pages_touched :: "(string \<rightharpoonup> Page) \<Rightarrow> (string \<rightharpoonup> Page) \<Rightarrow> bool" where
  "pages_touched m m' \<longleftrightarrow> dom m' = dom m \<and> (\<forall>k p p'. m k = Some p \<longrightarrow> m' k = Some p' \<longrightarrow>
     same_data p p' \<and> pg_RefCount p' = pg_RefCount p \<and> pg_Pinned p' = pg_Pinned p)"

lemma pages_touched_refl: "pages_touched m m"
  by (simp add: pages_touched_def)

lemma pages_touched_upd:
  "m k = Some p \<Longrightarrow> pages_touched (m(k \<mapsto> touched t p)) m' \<Longrightarrow> pages_touched m m'"
proof -
  assume p: "m k = Some p" and t: "pages_touched (m(k \<mapsto> touched t p)) m'"
  have dom: "dom m' = dom m" using t p by (auto simp: pages_touched_def)
  have "same_data q q' \<and> pg_RefCount q' = pg_RefCount q \<and> pg_Pinned q' = pg_Pinned q"
    if "m j = Some q" "m' j = Some q'" for j q q'
  proof (cases "j = k")
    case True
    with that p have q: "q = p" by simp
    have "same_data (touched t p) q' \<and> pg_RefCount q' = pg_RefCount (touched t p)
        \<and> pg_Pinned q' = pg_Pinned (touched t p)"
      using t that(2) True unfolding pages_touched_def by (metis fun_upd_same)
    then show ?thesis unfolding q using same_data_trans [OF same_data_touched] by (metis touched_sel(1,2))
  next
    case False
    then show ?thesis using t that unfolding pages_touched_def by (metis fun_upd_other)
  qed
  with dom show ?thesis unfolding pages_touched_def by blast
qed

lemma pages_touched_ok:
  assumes "pages_ok cd m" and t: "pages_touched m m'"
  shows "pages_ok cd m'"
  unfolding pages_ok_def
proof (intro allI impI)
  fix k p' assume p': "m' k = Some p'"
  then have "k \<in> dom m" using t by (auto simp: pages_touched_def)
  then obtain p where p: "m k = Some p" by blast
  then have "same_data p p'" "pg_RefCount p' = pg_RefCount p" using t p' by (simp_all add: pages_touched_def)
  then show "page_ok cd k p'" using same_data_ok page_ok_sel(2) pages_okD [OF assms(1) p] by metis
qed

definition page_content :: "codec \<Rightarrow> (string \<rightharpoonup> Page) \<Rightarrow> string \<Rightarrow> string result" where
  "page_content cd m k = (case m k of None \<Rightarrow> Inl (Errorf ''page %q missing from store'' [k])
     | Some p \<Rightarrow> materializedContent cd p)"

lemma page_content_touched: "m k = Some p \<Longrightarrow> page_content cd (m(k \<mapsto> touched t p)) = page_content cd m"
  by (rule ext) (simp add: page_content_def same_data_content [OF same_data_touched])

lemma materialize_loop_touched:
  "materialize_loop cd clk ids out m = (r, m') \<Longrightarrow> pages_touched m m'"
proof (induction ids arbitrary: clk out m)
  case Nil
  then show ?case by (simp add: pages_touched_refl)
next
  case (Cons i ids)
  show ?case
  proof (cases "m i")
    case None
    with Cons.prems show ?thesis by (simp add: pages_touched_refl)
  next
    case (Some p)
    show ?thesis
    proof (cases "materializedContent cd p")
      case (Inl e)
      with Some Cons.prems show ?thesis by (simp add: pages_touched_refl)
    next
      case (Inr c)
      with Some Cons.prems have "materialize_loop cd (later 1 clk) ids (out @ c)
          (m(i \<mapsto> touched (unix_ms (clk 0)) p)) = (r, m')" by simp
      from pages_touched_upd [where m = m, OF Some Cons.IH [OF this]] show ?thesis .
    qed
  qed
qed

lemma materialize_loop_ok:
  "list_all2 (\<lambda>i c. page_content cd m i = Inr c) ids cs
     \<Longrightarrow> fst (materialize_loop cd clk ids out m) = Inr (out @ concat cs)"
proof (induction ids arbitrary: clk out m cs)
  case Nil
  then show ?case by simp
next
  case (Cons i ids)
  obtain c cs' where cs: "cs = c # cs'" and c: "page_content cd m i = Inr c"
    and rest: "list_all2 (\<lambda>i c. page_content cd m i = Inr c) ids cs'"
    using Cons.prems by (auto simp: list_all2_Cons1)
  obtain p where p: "m i = Some p" "materializedContent cd p = Inr c"
    using c by (auto simp: page_content_def split: option.splits)
  let ?m = "m(i \<mapsto> touched (unix_ms (clk 0)) p)"
  have "list_all2 (\<lambda>i c. page_content cd ?m i = Inr c) ids cs'"
    using rest by (simp only: page_content_touched [where m = m, OF p(1)])
  from Cons.IH [OF this, of "later 1 clk" "out @ c"] show ?case using p cs by (simp del: fun_upd_apply)
qed

lemma Materialize_state:
  assumes "Materialize cd clk a s = (r, s', ev)"
  obtains m where "s' = s\<lparr>st_pages := m\<rparr>" "pages_touched (st_pages s) m"
    "r = fst (materialize_loop cd clk (table s a) [] (st_pages s))"
proof -
  obtain r0 m where m: "materialize_loop cd clk (table s a) [] (st_pages s) = (r0, m)" by fastforce
  then have "s' = s\<lparr>st_pages := m\<rparr>" "r = r0"
    using assms by (cases r0; auto simp: Materialize_def Let_def)+
  then show ?thesis using that materialize_loop_touched [OF m] m by simp
qed

lemma cvm_inv_Materialize [go_inv]:
  assumes "cvm_inv cd s" and "Materialize cd' clk a s = (r, s', ev)"
  shows "cvm_inv cd s'"
proof -
  obtain m where m: "s' = s\<lparr>st_pages := m\<rparr>" "pages_touched (st_pages s) m"
    using Materialize_state [OF assms(2)] by metis
  have "tables_ok m (table s)"
    using cvm_invD(2) [OF assms(1)] m(2) by (simp add: tables_ok_def pages_touched_def)
  then show ?thesis
    using pages_touched_ok [OF cvm_invD(1) [OF assms(1)] m(2)] m(1) by (simp add: cvm_inv_def)
qed

lemma cvm_inv_update_one:
  assumes inv: "cvm_inv cd s" and p: "st_pages s k = Some p" and "same_data p q"
    and "pg_RefCount q = pg_RefCount p"
  shows "cvm_inv cd (s\<lparr>st_pages := (st_pages s)(k \<mapsto> q)\<rparr>)"
proof -
  have ok: "page_ok cd k p" using pages_okD [OF cvm_invD(1) [OF inv] p] .
  have "page_ok cd k q" by (rule same_data_ok [OF ok assms(3)]) (use assms(4) page_ok_sel(2) [OF ok] in simp)
  then show ?thesis by (rule cvm_inv_put [OF inv]) simp_all
qed

lemma cvm_inv_TouchPage [go_inv]:
  assumes "cvm_inv cd s" and "TouchPage clk p s = (r, s', ev)"
  shows "cvm_inv cd s'"
proof (cases "st_pages s p")
  case (Some q)
  then show ?thesis using cvm_inv_update_one [OF assms(1) Some, of "touched (unix_ms (clk 0)) q"] assms(2)
    by (simp add: TouchPage_def)
qed (use assms in \<open>simp add: TouchPage_def\<close>)

lemma cvm_inv_PinPage [go_inv]:
  assumes "cvm_inv cd s" and "PinPage clk p s = (r, s', ev)"
  shows "cvm_inv cd s'"
proof (cases "st_pages s p")
  case (Some q)
  have "same_data q (q\<lparr>pg_Pinned := True, pg_UpdatedAt := unix_ms (clk 0)\<rparr>)" by (simp add: same_data_def)
  from cvm_inv_update_one [OF assms(1) Some this] Some assms(2) show ?thesis by (simp add: PinPage_def)
qed (use assms in \<open>simp add: PinPage_def\<close>)

lemma removeString_distinct: "distinct xs \<Longrightarrow> distinct (removeString xs x)"
  by (simp add: removeString_def)

lemma set_removeString: "set (removeString xs x) = set xs - {x}"
  by (auto simp: removeString_def)

lemma ReleasePage_cases:
  assumes "ReleasePage clk a p s = (r, s', ev)"
  obtains (unknown) "st_pages s p = None" "r = Inl (Errorf ''unknown page %q'' [p])" "s' = s"
  | (released) q q' where "st_pages s p = Some q" "r = Inr ()" "st_pages s' = (st_pages s)(p \<mapsto> q')"
      "same_data q q'" "pg_RefCount q' = (if 0 < pg_RefCount q then pg_RefCount q - 1 else pg_RefCount q)"
      "st_pageTables s' = (if a \<noteq> [] then (st_pageTables s)(a \<mapsto> removeString (table s a) p)
         else st_pageTables s)"
proof (cases "st_pages s p")
  case None
  with assms show ?thesis by (intro unknown) (simp_all add: ReleasePage_def)
next
  case (Some q)
  define q1 where "q1 = (if 0 < pg_RefCount q then q\<lparr>pg_RefCount := pg_RefCount q - 1\<rparr> else q)"
  define q' where "q' = (if a \<noteq> [] then q1\<lparr>pg_OwnerAgents := removeString (pg_OwnerAgents q1) a\<rparr> else q1)
      \<lparr>pg_UpdatedAt := unix_ms (clk 0)\<rparr>"
  have eqs: "r = Inr ()" "s' = s\<lparr>st_pageTables := (if a \<noteq> [] then (st_pageTables s)(a \<mapsto>
      removeString (table s a) p) else st_pageTables s), st_pages := (st_pages s)(p \<mapsto> q')\<rparr>"
    using assms [symmetric] by (simp_all only: ReleasePage_def Let_def Some option.case prod.inject q1_def q'_def)
  have "same_data q q'" "pg_RefCount q' = pg_RefCount q1" by (simp_all add: q'_def q1_def same_data_def)
  with Some eqs show ?thesis by (intro released [of q q']) (simp_all add: q1_def)
qed

lemma cvm_inv_ReleasePage [go_inv]:
  assumes inv: "cvm_inv cd s" and m: "ReleasePage clk a p s = (r, s', ev)"
  shows "cvm_inv cd s'"
  using m
proof (cases rule: ReleasePage_cases)
  case (released q q')
  have q: "page_ok cd p q" using pages_okD [OF cvm_invD(1) [OF inv] released(1)] .
  have q': "page_ok cd p q'"
    by (rule same_data_ok [OF q released(4)]) (use released(5) page_ok_sel(2) [OF q] in auto)
  show ?thesis
  proof (cases "a = []")
    case True
    with released(6) show ?thesis by (intro cvm_inv_put [OF inv q' _ released(3)]) simp
  next
    case False
    then have "st_pageTables s' = (st_pageTables s)(a \<mapsto> removeString (table s a) p)" using released(6) by simp
    then show ?thesis
      by (rule cvm_inv_put_table [OF inv q' _ released(3)])
         (use tables_okD [OF cvm_invD(2) [OF inv], of a] in \<open>auto simp: removeString_distinct set_removeString\<close>)
  qed
qed (use inv in simp)

section \<open>Compression\<close>

text \<open>
  Compressing a page keeps what it decodes to: the original bytes are kept when \<open>gzip\<close> does not
  make them shorter, and \<open>materializedContent\<close> recognises that case by the length.
\<close>

lemma compress_page_ok:
  assumes cd: "codec_ok cd" and ok: "page_ok cd k p" and c: "compress_page cd now n p = Some (Inr (p', saved))"
  shows "page_ok cd k p'" and "materializedContent cd p' = materializedContent cd p"
    and "pg_RefCount p' = pg_RefCount p" and "\<not> pg_Pinned p" and "pg_AccessCount p \<le> n"
    and "saved = residentBytes p - residentBytes p'"
proof -
  have np: "\<not> pg_Pinned p" "\<not> pg_Compressed p" "pg_AccessCount p \<le> n" "pg_Content p \<noteq> []"
    using c by (auto simp: compress_page_def split: if_splits)
  obtain data0 where z: "gzip_bytes cd (pg_Content p) = Inr data0"
    using c np by (cases "gzip_bytes cd (pg_Content p)") (simp_all add: compress_page_def)
  define data where "data = (if length (pg_Content p) \<le> length data0 then pg_Content p else data0)"
  have p': "p' = p\<lparr>pg_compressedData := data, pg_Compressed := True,
      pg_CompressedSizeBytes := int (length data), pg_Content := [], pg_UpdatedAt := now\<rparr>"
    and s: "saved = max 0 (pg_Bytes p - int (length data))"
    using c np z by (simp_all add: compress_page_def data_def Let_def)
  obtain x where x: "page_holds cd p x" "k = sha256_hex cd x" using ok by (rule page_okE)
  have content: "pg_Content p = x" "pg_Bytes p = int (length x)" "materializedContent cd p = Inr x"
    using x(1) np by (simp_all add: page_holds_def)
  have len: "int (length data) \<le> pg_Bytes p" using content by (simp add: data_def)
  have mat: "materializedContent cd p' = Inr x"
    using cd z content by (auto simp: p' data_def materializedContent_def codec_ok_def)
  then show "materializedContent cd p' = materializedContent cd p" using content by simp
  have "page_holds cd p' x" using x(1) mat by (simp add: page_holds_def p')
  then show "page_ok cd k p'" using ok len by (auto simp: page_ok_def p' residentBytes_def)
  show "pg_RefCount p' = pg_RefCount p" by (simp add: p')
  show "\<not> pg_Pinned p" "pg_AccessCount p \<le> n" using np by simp_all
  show "saved = residentBytes p - residentBytes p'" using s len np by (simp add: p' residentBytes_def)
qed

lemma compress_loop_inv:
  assumes cd: "codec_ok cd"
  shows "cvm_inv cd s \<Longrightarrow> compress_loop cd clk n ks c0 v0 s = (err, c1, v1, s')
    \<Longrightarrow> cvm_inv cd s' \<and> table s' = table s \<and> page_content cd (st_pages s') = page_content cd (st_pages s)"
proof (induction ks arbitrary: clk c0 v0 s)
  case Nil
  then show ?case by simp
next
  case (Cons k ks)
  show ?case
  proof (cases "st_pages s k")
    case None
    with Cons show ?thesis by simp
  next
    case (Some p)
    show ?thesis
    proof (cases "compress_page cd (unix_ms (clk 0)) n p")
      case None
      with Cons Some show ?thesis by simp
    next
      case (Some res)
      show ?thesis
      proof (cases res)
        case (Inl e)
        with Cons.prems Some \<open>st_pages s k = Some p\<close> show ?thesis by simp
      next
        case (Inr pv)
        obtain p' v where pv: "pv = (p', v)" by fastforce
        have ok: "page_ok cd k p" using pages_okD [OF cvm_invD(1) [OF Cons.prems(1)] \<open>st_pages s k = Some p\<close>] .
        have cp: "compress_page cd (unix_ms (clk 0)) n p = Some (Inr (p', v))"
          using Some Inr pv by simp
        let ?s = "s\<lparr>st_compressionSavedBytes := st_compressionSavedBytes s + v,
          st_pages := (st_pages s)(k \<mapsto> p')\<rparr>"
        have inv: "cvm_inv cd ?s"
          by (rule cvm_inv_put [OF Cons.prems(1) compress_page_ok(1) [OF cd ok cp]]) simp_all
        have run: "compress_loop cd (later 1 clk) n ks (c0 + 1) (v0 + v) ?s = (err, c1, v1, s')"
          using Cons.prems(2) Inr pv Some \<open>st_pages s k = Some p\<close> by simp
        have "page_content cd (st_pages ?s) = page_content cd (st_pages s)"
          using \<open>st_pages s k = Some p\<close> compress_page_ok(2) [OF cd ok cp]
          by (simp add: page_content_def fun_eq_iff)
        moreover have "table ?s = table s" by (rule table_same) simp
        ultimately show ?thesis using Cons.IH [OF inv run] by (simp del: fun_upd_apply)
      qed
    qed
  qed
qed

lemma CompressColdPages_inv:
  assumes "codec_ok cd" and "cvm_inv cd s" and "CompressColdPages cd clk ks n s = (r, s', ev)"
  shows "cvm_inv cd s'" and "table s' = table s"
    and "page_content cd (st_pages s') = page_content cd (st_pages s)"
proof -
  obtain err c v where "compress_loop cd clk (if n \<le> 0 then 1 else n) ks 0 0 s = (err, c, v, s')"
    using assms(3) by (auto simp: CompressColdPages_def split: prod.splits)
  from compress_loop_inv [OF assms(1,2) this]
  show "cvm_inv cd s'" "table s' = table s"
    "page_content cd (st_pages s') = page_content cd (st_pages s)" by simp_all
qed

end
