(* ===== verification/CvmEvict.thy ===== *)
theory CvmEvict
  imports CvmCorrect
begin

text \<open>
  Eviction of cold pages: which pages \<open>EvictColdPages\<close> removes, that it stops as soon as the
  resident bytes are within the bound, and that it keeps the store invariant.
\<close>

section \<open>The eviction order\<close>

interpretation coldness: strict_weak colder
  by unfold_locales (auto simp: colder_def split: if_splits)

section \<open>Resident bytes\<close>

lemma range_values_in: "range_order m ks \<Longrightarrow> p \<in> set (range_values m ks) \<longleftrightarrow> (\<exists>k. m k = Some p)"
  by (auto simp: set_range_values range_order_mem)

lemma sum_range_values:
  fixes f :: "'v \<Rightarrow> int"
  assumes "distinct ks"
  shows "sum_list (map f (range_values m ks)) = (\<Sum>k \<in> set ks. case m k of None \<Rightarrow> 0 | Some v \<Rightarrow> f v)"
  using assms by (induction ks) (auto split: option.splits)

text \<open>The bytes of a set of keys do not depend on the order in which they are visited.\<close>

definition bytes_at :: "(string \<rightharpoonup> Page) \<Rightarrow> string \<Rightarrow> int" where
  "bytes_at m k = (case m k of None \<Rightarrow> 0 | Some p \<Rightarrow> residentBytes p)"

lemma currentBytes_sum:
  "range_order (st_pages s) ks \<Longrightarrow> currentBytes ks s = (\<Sum>k \<in> dom (st_pages s). bytes_at (st_pages s) k)"
  unfolding currentBytes_def range_order_def bytes_at_def by (metis sum_range_values)

section \<open>The eviction loop\<close>

lemma evict_one_sel [simp]:
  "st_pages (evict_one p s) = (st_pages s)(pg_ID p := None)"
  "table (evict_one p s) a = removeString (table s a) (pg_ID p)"
  "st_evictedPages (evict_one p s) = st_evictedPages s"
  by (simp_all add: evict_one_def table_def removeString_def split: option.splits)

text \<open>The loop evicts a prefix of the candidates, the shortest that reaches the bound.\<close>

lemma evict_loop_prefix:
  assumes "evict_loop mx cs cur n0 f0 s = (cur', n, f, s')"
  obtains es where "\<exists>rest. cs = es @ rest" "s' = fold evict_one es s" "n = n0 + int (length es)"
    "f = f0 + sum_list (map residentBytes es)" "cur' = cur - sum_list (map residentBytes es)"
    "cur' \<le> mx \<or> es = cs"
    "\<And>pre p. \<exists>post. es = pre @ p # post \<Longrightarrow> mx < cur - sum_list (map residentBytes pre)"
proof -
  have "\<exists>es. (\<exists>rest. cs = es @ rest) \<and> s' = fold evict_one es s \<and> n = n0 + int (length es)
    \<and> f = f0 + sum_list (map residentBytes es) \<and> cur' = cur - sum_list (map residentBytes es)
    \<and> (cur' \<le> mx \<or> es = cs)
    \<and> (\<forall>pre p post. es = pre @ p # post \<longrightarrow> mx < cur - sum_list (map residentBytes pre))"
    using assms
  proof (induction cs arbitrary: cur n0 f0 s)
    case Nil
    then show ?case by simp
  next
    case (Cons c cs)
    show ?case
    proof (cases "cur \<le> mx")
      case True
      with Cons.prems show ?thesis by (intro exI [of _ "[]"]) simp
    next
      case False
      with Cons.prems have "evict_loop mx cs (cur - residentBytes c) (n0 + 1) (f0 + residentBytes c)
          (evict_one c s) = (cur', n, f, s')" by simp
      from Cons.IH [OF this] obtain es where es: "\<exists>rest. cs = es @ rest"
        "s' = fold evict_one es (evict_one c s)" "n = n0 + 1 + int (length es)"
        "f = f0 + residentBytes c + sum_list (map residentBytes es)"
        "cur' = cur - residentBytes c - sum_list (map residentBytes es)" "cur' \<le> mx \<or> es = cs"
        "\<forall>pre p post. es = pre @ p # post \<longrightarrow> mx < cur - residentBytes c - sum_list (map residentBytes pre)"
        by blast
      have "mx < cur - sum_list (map residentBytes pre)" if "c # es = pre @ p # post" for pre p post
      proof (cases pre)
        case Nil
        with False show ?thesis by simp
      next
        case (Cons d pre')
        then have "mx < cur - residentBytes c - sum_list (map residentBytes pre')"
          using that es(7) by auto
        then show ?thesis using that Cons by simp
      qed
      then show ?thesis using es(1-6) by (intro exI [of _ "c # es"]) simp
    qed
  qed
  then show ?thesis using that by blast
qed

lemma fold_evict_pages:
  "st_pages (fold evict_one es s) = (\<lambda>k. if k \<in> pg_ID ` set es then None else st_pages s k)"
  by (induction es arbitrary: s) (auto simp: fun_eq_iff)

lemma fold_evict_table:
  "table (fold evict_one es s) a = filter (\<lambda>i. i \<notin> pg_ID ` set es) (table s a)"
proof (induction es arbitrary: s)
  case (Cons e es)
  then show ?case by (auto simp: removeString_def intro!: filter_cong)
qed simp

lemma fold_evict_count [simp]: "st_evictedPages (fold evict_one es s) = st_evictedPages s"
  by (induction es arbitrary: s) simp_all

text \<open>
  What a call of \<open>EvictColdPages\<close> does: the evicted pages \<open>es\<close> are the coldest of the evictable ones.
\<close>

definition evicts :: "Store \<Rightarrow> int \<Rightarrow> Page list \<Rightarrow> Store \<Rightarrow> bool" where
  "evicts s maxBytes es s' \<longleftrightarrow>
     (\<forall>p \<in> set es. evictable p \<and> st_pages s (pg_ID p) = Some p)
     \<and> distinct (map pg_ID es)
     \<and> st_pages s' = (\<lambda>k. if k \<in> pg_ID ` set es then None else st_pages s k)
     \<and> (\<forall>a. table s' a = filter (\<lambda>i. i \<notin> pg_ID ` set es) (table s a))
     \<and> (\<forall>p \<in> set es. \<forall>k q. st_pages s' k = Some q \<longrightarrow> evictable q \<longrightarrow> \<not> colder q p)
     \<and> st_evictedPages s' = st_evictedPages s + int (length es)"

lemma range_values_ids:
  assumes "pages_ok cd m"
  shows "map pg_ID (range_values m ks) = filter (\<lambda>k. k \<in> dom m) ks"
  by (induction ks) (auto split: option.splits dest: pages_okD [OF assms] page_ok_sel(1))

lemma distinct_filter_map: "distinct (map f xs) \<Longrightarrow> distinct (map f (filter P xs))"
  by (induction xs) auto

lemma distinct_map_sort_by: "distinct (map f (sort_by lt xs)) \<longleftrightarrow> distinct (map f xs)"
  by (rule mset_eq_imp_distinct_iff) simp

lemma candidates_facts:
  assumes inv: "cvm_inv cd s" and ord: "range_order (st_pages s) ks"
    and cs: "cs = sort_by colder (filter evictable (range_values (st_pages s) ks))"
  shows "distinct (map pg_ID cs)" and "p \<in> set cs \<longleftrightarrow> evictable p \<and> st_pages s (pg_ID p) = Some p"
proof -
  have ids: "map pg_ID (range_values (st_pages s) ks) = filter (\<lambda>k. k \<in> dom (st_pages s)) ks"
    by (rule range_values_ids [OF cvm_invD(1) [OF inv]])
  have "distinct (map pg_ID (range_values (st_pages s) ks))"
    using range_order_distinct [OF ord] by (simp add: ids)
  then show "distinct (map pg_ID cs)" unfolding cs distinct_map_sort_by by (rule distinct_filter_map)
  have "p \<in> set (range_values (st_pages s) ks) \<longleftrightarrow> st_pages s (pg_ID p) = Some p"
    unfolding range_values_in [OF ord]
    using pages_okD [OF cvm_invD(1) [OF inv]] page_ok_sel(1) by blast
  then show "p \<in> set cs \<longleftrightarrow> evictable p \<and> st_pages s (pg_ID p) = Some p" by (auto simp: cs)
qed

text \<open>Evicting nothing, for the early return.\<close>

lemma evicts_nothing: "evicts s mx [] s"
  by (simp add: evicts_def)

lemma EvictColdPages_evicts:
  assumes inv: "cvm_inv cd s" and ord: "range_order (st_pages s) ks"
    and e: "EvictColdPages ks mx s = ((n, freed), s', ev)"
  obtains es where "evicts s mx es s'" "n = int (length es)" "freed = sum_list (map residentBytes es)"
    "ev = []"
    "0 \<le> mx \<Longrightarrow> currentBytes ks s - freed \<le> mx \<or> (\<forall>k p. st_pages s' k = Some p \<longrightarrow> \<not> evictable p)"
    "\<And>pre p post. es = pre @ p # post \<Longrightarrow> mx < currentBytes ks s - sum_list (map residentBytes pre)"
    "mx < 0 \<or> currentBytes ks s \<le> mx \<Longrightarrow> es = []"
proof (cases "mx < 0 \<or> currentBytes ks s \<le> mx")
  case True
  with e have "s' = s" "n = 0" "freed = 0" "ev = []" by (auto simp: EvictColdPages_def Let_def)
  with True show ?thesis by (intro that [of "[]"]) (auto simp: evicts_nothing)
next
  case False
  define cs where "cs = sort_by colder (filter evictable (range_values (st_pages s) ks))"
  note cand = candidates_facts [OF inv ord cs_def]
  obtain cur' s1 where loop: "evict_loop mx cs (currentBytes ks s) 0 0 s = (cur', n, freed, s1)"
    and s': "s' = s1\<lparr>st_evictedPages := st_evictedPages s1 + n\<rparr>" and ev: "ev = []"
    using e False by (auto simp: EvictColdPages_def Let_def cs_def split: prod.splits)
  obtain es where es: "\<exists>rest. cs = es @ rest" "s1 = fold evict_one es s" "n = 0 + int (length es)"
    "freed = 0 + sum_list (map residentBytes es)" "cur' = currentBytes ks s - sum_list (map residentBytes es)"
    "cur' \<le> mx \<or> es = cs"
    and short: "\<And>pre p. \<exists>post. es = pre @ p # post
        \<Longrightarrow> mx < currentBytes ks s - sum_list (map residentBytes pre)"
    using evict_loop_prefix [OF loop] by metis
  obtain rest where rest: "cs = es @ rest" using es(1) by blast
  have pages: "st_pages s' = (\<lambda>k. if k \<in> pg_ID ` set es then None else st_pages s k)"
    by (simp add: s' es(2) fold_evict_pages)
  have tabs: "table s' a = filter (\<lambda>i. i \<notin> pg_ID ` set es) (table s a)" for a
    using fold_evict_table [of es s a] by (simp add: s' es(2) table_def)
  have mem: "evictable p \<and> st_pages s (pg_ID p) = Some p" if "p \<in> set es" for p
    using cand(2) rest that by auto
  have left: "q \<in> set rest" if "st_pages s' k = Some q" "evictable q" for k q
  proof -
    have q: "st_pages s k = Some q" "k \<notin> pg_ID ` set es" using that(1) by (auto simp: pages split: if_splits)
    then have "pg_ID q = k" using pages_okD [OF cvm_invD(1) [OF inv]] page_ok_sel(1) by blast
    with q that(2) have "q \<in> set cs" "q \<notin> set es" using cand(2) by auto
    then show ?thesis by (simp add: rest)
  qed
  have "coldness.ordered cs" unfolding cs_def by (rule coldness.ordered_sort_by)
  then have cold: "\<not> colder q p" if "p \<in> set es" "q \<in> set rest" for p q
    using that by (auto simp: rest sorted_wrt_append)
  have "evicts s mx es s'"
    unfolding evicts_def
  proof (intro conjI ballI allI impI)
    show "distinct (map pg_ID es)" using cand(1) rest by simp
    show "st_evictedPages s' = st_evictedPages s + int (length es)" by (simp add: s' es(2,3))
  qed (use mem pages tabs left cold in auto)
  moreover have "\<not> evictable q" if "st_pages s' k = Some q" "\<not> currentBytes ks s - freed \<le> mx" for k q
  proof -
    have "rest = []" using es(4,5,6) that(2) rest by auto
    then show ?thesis using left [OF that(1)] by auto
  qed
  ultimately show ?thesis
    using es(3,4) ev short False by (intro that [of es]) auto
qed

lemma evicts_keeps:
  assumes "cvm_inv cd s" and "evicts s mx es s'"
  shows "cvm_inv cd s'"
proof (rule cvm_invI)
  have pages: "st_pages s' = (\<lambda>k. if k \<in> pg_ID ` set es then None else st_pages s k)"
    and tabs: "\<And>a. table s' a = filter (\<lambda>i. i \<notin> pg_ID ` set es) (table s a)"
    using assms(2) by (auto simp: evicts_def)
  show "pages_ok cd (st_pages s')" using cvm_invD(1) [OF assms(1)] by (simp add: pages_ok_def pages)
  have "distinct (table s' a) \<and> set (table s' a) \<subseteq> dom (st_pages s')" for a
    using tables_okD [OF cvm_invD(2) [OF assms(1)], of a] by (auto simp: tabs pages)
  then show "tables_ok (st_pages s') (table s')" by (simp add: tables_ok_def)
qed

lemma cvm_inv_EvictColdPages [go_inv]:
  assumes inv: "cvm_inv cd s" and ord: "range_order (st_pages s) ks"
    and e: "EvictColdPages ks mx s = (r, s', ev)"
  shows "cvm_inv cd s'"
proof -
  obtain n freed where r: "r = (n, freed)" by fastforce
  obtain es where "evicts s mx es s'" using EvictColdPages_evicts [OF inv ord e [unfolded r]] by metis
  then show ?thesis by (rule evicts_keeps [OF inv])
qed

text \<open>The bytes after an eviction are the bytes before it less the freed ones.\<close>

lemma evicts_bytes:
  assumes ev: "evicts s mx es s'" and ord: "range_order (st_pages s) ks" "range_order (st_pages s') ks'"
  shows "currentBytes ks' s' = currentBytes ks s - sum_list (map residentBytes es)"
proof -
  let ?E = "pg_ID ` set es" and ?m = "st_pages s"
  have fin: "finite (dom ?m)" using ord(1) by (rule range_order_finite)
  have pages: "st_pages s' = (\<lambda>k. if k \<in> ?E then None else ?m k)" and dist: "distinct (map pg_ID es)"
    and mem: "\<And>p. p \<in> set es \<Longrightarrow> ?m (pg_ID p) = Some p"
    using ev by (auto simp: evicts_def)
  have sub: "?E \<subseteq> dom ?m" using mem by auto
  have dom: "dom (st_pages s') = dom ?m - ?E" by (auto simp: pages split: if_splits)
  have "sum_list (map residentBytes es) = (\<Sum>p \<in> set es. residentBytes p)"
    using dist by (simp add: distinct_map sum_list_distinct_conv_sum_set)
  also have "\<dots> = (\<Sum>p \<in> set es. bytes_at ?m (pg_ID p))"
    using mem by (intro sum.cong) (simp_all add: bytes_at_def)
  also have "\<dots> = (\<Sum>k \<in> ?E. bytes_at ?m k)"
    using dist by (simp add: distinct_map sum.reindex)
  finally have es: "sum_list (map residentBytes es) = (\<Sum>k \<in> ?E. bytes_at ?m k)" .
  have "(\<Sum>k \<in> dom ?m - ?E. bytes_at (st_pages s') k) = (\<Sum>k \<in> dom ?m - ?E. bytes_at ?m k)"
    by (intro sum.cong) (simp_all add: bytes_at_def pages)
  then show ?thesis
    unfolding currentBytes_sum [OF ord(1)] currentBytes_sum [OF ord(2)] dom es
    using sum_diff [OF fin sub, of "bytes_at ?m"] by simp
qed

section \<open>Steps of the store\<close>

inductive cvm_step :: "codec \<Rightarrow> Store \<Rightarrow> Store \<Rightarrow> bool" for cd where
  step_create: "CreatePage cd clk kind content s = (r, s', ev) \<Longrightarrow> cvm_step cd s s'"
| step_mount: "MountPage clk a p s = (r, s', ev) \<Longrightarrow> cvm_step cd s s'"
| step_materialize: "Materialize cd clk a s = (r, s', ev) \<Longrightarrow> cvm_step cd s s'"
| step_touch: "TouchPage clk p s = (r, s', ev) \<Longrightarrow> cvm_step cd s s'"
| step_pin: "PinPage clk p s = (r, s', ev) \<Longrightarrow> cvm_step cd s s'"
| step_release: "ReleasePage clk a p s = (r, s', ev) \<Longrightarrow> cvm_step cd s s'"
| step_compress: "CompressColdPages cd clk ks n s = (r, s', ev) \<Longrightarrow> cvm_step cd s s'"
| step_evict: "range_order (st_pages s) ks \<Longrightarrow> EvictColdPages ks mx s = (r, s', ev) \<Longrightarrow> cvm_step cd s s'"

definition cvm_init :: "Store \<Rightarrow> bool" where
  "cvm_init s \<longleftrightarrow> (\<exists>sink. s = NewStore sink)"

lemma cvm_step_inv: "codec_ok cd \<Longrightarrow> cvm_step cd s s' \<Longrightarrow> cvm_inv cd s \<Longrightarrow> cvm_inv cd s'"
  by (erule cvm_step.cases)
     (blast intro: cvm_inv_CreatePage cvm_inv_MountPage cvm_inv_Materialize cvm_inv_TouchPage
        cvm_inv_PinPage cvm_inv_ReleasePage CompressColdPages_inv(1) cvm_inv_EvictColdPages)+

interpretation stores: invariant_system cvm_init "cvm_step cd" "\<lambda>s. codec_ok cd \<longrightarrow> cvm_inv cd s" for cd
  by unfold_locales (auto simp: cvm_init_def cvm_inv_New intro: cvm_step_inv)

lemma cvm_reachable_inv: "codec_ok cd \<Longrightarrow> reachable cvm_init (cvm_step cd) s \<Longrightarrow> cvm_inv cd s"
  using stores.reachable_inv by blast

end
