(* ===== verification/CvmProps.thy ===== *)
theory CvmProps
  imports CvmEvict
begin

text \<open>
  The properties of the context virtual memory in every reachable state: what an agent
  materializes, that compression does not change it, how far eviction frees memory and which
  pages it takes, and what a release by an agent that does not hold the page leads to.
\<close>

section \<open>Materialization\<close>

lemma contents_of_live_pages:
  assumes "pages_ok cd m" and "set ids \<subseteq> dom m"
  shows "\<exists>cs. list_all2 (\<lambda>i c. page_content cd m i = Inr c) ids cs \<and> map (sha256_hex cd) cs = ids"
  using assms(2)
proof (induction ids)
  case Nil
  then show ?case by simp
next
  case (Cons i ids)
  then obtain p where p: "m i = Some p" by auto
  obtain c where c: "materializedContent cd p = Inr c" "sha256_hex cd c = i"
    using page_ok_content [OF pages_okD [OF assms(1) p]] by blast
  from Cons obtain cs where "list_all2 (\<lambda>i c. page_content cd m i = Inr c) ids cs" "map (sha256_hex cd) cs = ids"
    by auto
  with p c show ?case by (intro exI [of _ "c # cs"]) (simp add: page_content_def)
qed

lemma Materialize_result:
  "list_all2 (\<lambda>i c. page_content cd (st_pages s) i = Inr c) (table s a) cs
     \<Longrightarrow> fst (Materialize cd clk a s) = Inr (concat cs)"
  using Materialize_state [of cd clk a s] materialize_loop_ok [of cd "st_pages s" "table s a" cs clk "[]"]
  by (metis append_Nil prod.exhaust_sel)

lemma Materialize_contents:
  assumes "cvm_inv cd s"
  obtains cs where "list_all2 (\<lambda>i c. page_content cd (st_pages s) i = Inr c) (table s a) cs"
    "map (sha256_hex cd) cs = table s a" "\<And>clk. fst (Materialize cd clk a s) = Inr (concat cs)"
proof -
  obtain cs where cs: "list_all2 (\<lambda>i c. page_content cd (st_pages s) i = Inr c) (table s a) cs"
    "map (sha256_hex cd) cs = table s a"
    using contents_of_live_pages [OF cvm_invD(1) [OF assms], of "table s a"]
      tables_okD(2) [OF cvm_invD(2) [OF assms], of a] by blast
  from cs show ?thesis by (rule that) (rule Materialize_result [OF cs(1)])
qed

text \<open>A codec for the concrete runs: one text compresses, every other one grows.\<close>

definition small_codec :: codec where
  "small_codec = \<lparr>sha256_hex = (\<lambda>x. CHR ''h'' # x),
     gzip_bytes = (\<lambda>x. Inr (if x = ''aaaaaaaa'' then ''z'' else CHR ''k'' # x)),
     gunzip_bytes = (\<lambda>y. Inr (if y = ''z'' then ''aaaaaaaa'' else tl y))\<rparr>"

lemma small_codec_ok: "codec_ok small_codec"
  by (simp add: codec_ok_def small_codec_def)

definition zero_clock :: clock where
  "zero_clock = (\<lambda>i. at_ms (int i))"

text \<open>A store with two pages, both mounted by the first agent and one by the second.\<close>

definition run_create :: "string \<Rightarrow> Store \<Rightarrow> Store" where
  "run_create c s = fst (snd (CreatePage small_codec zero_clock ''k'' c s))"

definition run_mount :: "string \<Rightarrow> string \<Rightarrow> Store \<Rightarrow> Store" where
  "run_mount a p s = fst (snd (MountPage zero_clock a p s))"

definition run_release :: "string \<Rightarrow> string \<Rightarrow> Store \<Rightarrow> Store" where
  "run_release a p s = fst (snd (ReleasePage zero_clock a p s))"

definition two_pages :: Store where
  "two_pages = run_mount ''b'' ''hx'' (run_mount ''a'' ''hx'' (run_mount ''a'' ''haaaaaaaa''
     (run_create ''x'' (run_create ''aaaaaaaa'' (NewStore True)))))"

lemma reachable_out:
  "(\<And>r s' ev. out = (r, s', ev) \<Longrightarrow> cvm_step cd s s') \<Longrightarrow> reachable cvm_init (cvm_step cd) s
     \<Longrightarrow> reachable cvm_init (cvm_step cd) (fst (snd out))"
  by (cases out) (auto intro: reachable_step)

lemma reachable_runs:
  "reachable cvm_init (cvm_step small_codec) s \<Longrightarrow> reachable cvm_init (cvm_step small_codec) (run_create c s)"
  "reachable cvm_init (cvm_step small_codec) s \<Longrightarrow> reachable cvm_init (cvm_step small_codec) (run_mount a p s)"
  "reachable cvm_init (cvm_step small_codec) s \<Longrightarrow> reachable cvm_init (cvm_step small_codec) (run_release a p s)"
  unfolding run_create_def run_mount_def run_release_def
  by (rule reachable_out, erule step_create step_mount step_release, assumption)+

lemma reachable_NewStore: "reachable cvm_init (cvm_step cd) (NewStore b)"
  by (rule reachable_init) (auto simp: cvm_init_def)

lemma reachable_two_pages: "reachable cvm_init (cvm_step small_codec) two_pages"
  unfolding two_pages_def by (intro reachable_runs reachable_NewStore)

text \<open>
  C15. In every reachable store \<open>Materialize\<close> succeeds for every agent, and returns the
  concatenation of byte strings that hash to the page identifiers of the agent's table, in the
  order of the table: no page of a table is ever missing, and no content other than the one an
  identifier was computed from is delivered.
\<close>

theorem Materialize_total:
  assumes "codec_ok cd" and "reachable cvm_init (cvm_step cd) s"
  shows "\<exists>cs. fst (Materialize cd clk agentID s) = Inr (concat cs) \<and> map (sha256_hex cd) cs = table s agentID"
  using Materialize_contents [OF cvm_reachable_inv [OF assms], of agentID] by metis

lemma Materialize_total_witness:
  "\<exists>cs. fst (Materialize small_codec zero_clock ''a'' two_pages) = Inr (concat cs)
     \<and> map (sha256_hex small_codec) cs = table two_pages ''a''"
  by (rule Materialize_total [OF small_codec_ok reachable_two_pages])

text \<open>
  C20. \<open>CompressColdPages\<close> changes no page table and is invisible to \<open>Materialize\<close>: after it
  every agent reads the same bytes as before it, whatever pages it compressed and even when the
  compressor failed half-way.
\<close>

theorem compression_invisible:
  assumes "codec_ok cd" and "reachable cvm_init (cvm_step cd) s"
    and "CompressColdPages cd clk ks maxAccess s = (res, s', ev)"
  shows "table s' = table s
    \<and> fst (Materialize cd clk2 agentID s') = fst (Materialize cd clk1 agentID s)"
proof -
  have inv: "cvm_inv cd s" using cvm_reachable_inv [OF assms(1,2)] .
  note c = CompressColdPages_inv [OF assms(1) inv assms(3)]
  obtain cs where cs: "list_all2 (\<lambda>i c. page_content cd (st_pages s) i = Inr c) (table s agentID) cs"
    using Materialize_contents [OF inv, of agentID] by metis
  then have "list_all2 (\<lambda>i c. page_content cd (st_pages s') i = Inr c) (table s' agentID) cs"
    by (simp only: c(2,3))
  then show ?thesis using Materialize_result [OF cs] Materialize_result c(2) by simp
qed

lemma two_pages_compress: "fst (CompressColdPages small_codec zero_clock [''hx'', ''haaaaaaaa''] 4 two_pages)
    = (None, 2, 7)"
  by code_simp

lemma compression_invisible_witness:
  "fst (Materialize small_codec zero_clock ''a'' (fst (snd
      (CompressColdPages small_codec zero_clock [''hx'', ''haaaaaaaa''] 4 two_pages))))
   = fst (Materialize small_codec zero_clock ''a'' two_pages)"
  using compression_invisible [OF small_codec_ok reachable_two_pages, of zero_clock "[''hx'', ''haaaaaaaa'']" 4
      "fst (CompressColdPages small_codec zero_clock [''hx'', ''haaaaaaaa''] 4 two_pages)"
      "fst (snd (CompressColdPages small_codec zero_clock [''hx'', ''haaaaaaaa''] 4 two_pages))"
      "snd (snd (CompressColdPages small_codec zero_clock [''hx'', ''haaaaaaaa''] 4 two_pages))"
      zero_clock "''a''" zero_clock]
  by simp

text \<open>
  \<open>EvictColdPages\<close> with a bound \<open>0 \<le> maxBytes\<close> reports exactly the bytes it freed, and
  afterwards the resident bytes are within the bound unless every remaining page is
  referenced or pinned; it evicts nothing when the bound holds already. A negative bound evicts
  nothing.
\<close>

theorem Evict_bound:
  assumes "codec_ok cd" and "reachable cvm_init (cvm_step cd) s"
    and "range_order (st_pages s) ks" and "EvictColdPages ks maxBytes s = ((evicted, freed), s', ev)"
    and "range_order (st_pages s') ks'"
  shows "currentBytes ks' s' = currentBytes ks s - freed
    \<and> (0 \<le> maxBytes \<longrightarrow> currentBytes ks' s' \<le> maxBytes
        \<or> (\<forall>k p. st_pages s' k = Some p \<longrightarrow> 0 < pg_RefCount p \<or> pg_Pinned p))
    \<and> (maxBytes < 0 \<or> currentBytes ks s \<le> maxBytes \<longrightarrow> evicted = 0 \<and> freed = 0)"
proof -
  have inv: "cvm_inv cd s" using cvm_reachable_inv [OF assms(1,2)] .
  obtain es where es: "evicts s maxBytes es s'" "evicted = int (length es)"
    "freed = sum_list (map residentBytes es)" "ev = []"
    "0 \<le> maxBytes \<Longrightarrow> currentBytes ks s - freed \<le> maxBytes \<or> (\<forall>k p. st_pages s' k = Some p \<longrightarrow> \<not> evictable p)"
    "\<And>pre p post. es = pre @ p # post \<Longrightarrow> maxBytes < currentBytes ks s - sum_list (map residentBytes pre)"
    "maxBytes < 0 \<or> currentBytes ks s \<le> maxBytes \<Longrightarrow> es = []"
    by (rule EvictColdPages_evicts [OF inv assms(3,4)]) blast
  have inv': "cvm_inv cd s'" using evicts_keeps [OF inv es(1)] .
  have ref: "0 < pg_RefCount p \<or> pg_Pinned p" if "st_pages s' k = Some p" "\<not> evictable p" for k p
    using that page_ok_sel(2) [OF pages_okD [OF cvm_invD(1) [OF inv'] that(1)]]
    by (auto simp: evictable_def)
  have bytes: "currentBytes ks' s' = currentBytes ks s - freed"
    using evicts_bytes [OF es(1) assms(3,5)] es(3) by simp
  show ?thesis using bytes es(2,3,5,7) ref by auto
qed

definition cold_store :: Store where
  "cold_store = run_release ''a'' ''hx'' (run_release ''b'' ''hx'' (run_release [] ''hx'' two_pages))"

lemma reachable_cold_store: "reachable cvm_init (cvm_step small_codec) cold_store"
  unfolding cold_store_def by (intro reachable_runs reachable_two_pages)

lemma dom_runs [simp]:
  "dom (st_pages (run_create c s)) = insert (CHR ''h'' # c) (dom (st_pages s))"
  "dom (st_pages (run_release a p s)) = dom (st_pages s)"
  by (auto simp: run_create_def run_release_def CreatePage_def ReleasePage_def Let_def small_codec_def
        split: option.splits)

lemma dom_run_mount [simp]: "dom (st_pages (run_mount a p s)) = dom (st_pages s)"
proof -
  obtain r s' ev where m: "MountPage zero_clock a p s = (r, s', ev)" by (rule prod_cases3)
  then show ?thesis by (cases rule: MountPage_cases) (auto simp: run_mount_def m)
qed

lemma cold_store_order: "range_order (st_pages cold_store) [''hx'', ''haaaaaaaa'']"
  by (auto simp: range_order_def cold_store_def two_pages_def NewStore_def)

definition cold_evicted :: Store where
  "cold_evicted = fst (snd (EvictColdPages [''hx'', ''haaaaaaaa''] 8 cold_store))"

lemma cold_evict: "EvictColdPages [''hx'', ''haaaaaaaa''] 8 cold_store = ((1, 1), cold_evicted, [])"
proof -
  have "fst (EvictColdPages [''hx'', ''haaaaaaaa''] 8 cold_store) = (1, 1)" by code_simp
  moreover have "snd (snd (EvictColdPages [''hx'', ''haaaaaaaa''] 8 cold_store)) = []"
    by (simp add: EvictColdPages_def Let_def split: prod.splits)
  ultimately show ?thesis unfolding cold_evicted_def by (metis prod.collapse)
qed

lemma kept_not_evictable: "map_option evictable (st_pages cold_store ''haaaaaaaa'') = Some False"
  by code_simp

lemma cold_store_dom: "dom (st_pages cold_store) = {''hx'', ''haaaaaaaa''}"
  using cold_store_order by (simp add: range_order_def)

lemma cold_evicted_order: "range_order (st_pages cold_evicted) [''haaaaaaaa'']"
proof -
  obtain es where es: "evicts cold_store 8 es cold_evicted" "(1::int) = int (length es)"
    using EvictColdPages_evicts [OF cvm_reachable_inv [OF small_codec_ok reachable_cold_store]
        cold_store_order cold_evict] by metis
  then obtain e where e: "es = [e]" by (cases es) auto
  then have mem: "evictable e" "st_pages cold_store (pg_ID e) = Some e"
    and pages: "st_pages cold_evicted = (\<lambda>k. if k \<in> pg_ID ` set es then None else st_pages cold_store k)"
    using es(1) unfolding evicts_def by auto
  have dom: "dom (st_pages cold_evicted) = dom (st_pages cold_store) - {pg_ID e}"
    unfolding pages e by (auto split: if_splits)
  have "pg_ID e \<in> dom (st_pages cold_store)" using mem(2) by blast
  then have "pg_ID e = ''hx'' \<or> pg_ID e = ''haaaaaaaa''" unfolding cold_store_dom by blast
  moreover have "pg_ID e \<noteq> ''haaaaaaaa''"
  proof
    assume eq: "pg_ID e = ''haaaaaaaa''"
    show False using kept_not_evictable mem unfolding eq by simp
  qed
  ultimately have eq: "pg_ID e = ''hx''" by blast
  have "dom (st_pages cold_evicted) = {''haaaaaaaa''}"
    unfolding dom cold_store_dom eq by simp
  then show ?thesis by (simp add: range_order_def)
qed

lemma Evict_bound_witness:
  "currentBytes [''haaaaaaaa''] cold_evicted = currentBytes [''hx'', ''haaaaaaaa''] cold_store - 1"
  by (rule Evict_bound [OF small_codec_ok reachable_cold_store cold_store_order cold_evict
        cold_evicted_order, THEN conjunct1])

lemma not_colder_iff: "\<not> colder q p \<longleftrightarrow> (pg_AccessCount p < pg_AccessCount q
    \<or> pg_AccessCount p = pg_AccessCount q \<and> pg_LastAccessTime p \<le> pg_LastAccessTime q)"
  by (auto simp: colder_def)

text \<open>
  C21. \<open>EvictColdPages\<close> removes exactly \<open>evicted\<close> pages, each of them unreferenced and not pinned,
  and leaves every other page as it was; every page table loses exactly the removed pages and
  keeps the order of the others; and no unreferenced, unpinned page that survives has fewer accesses, or as
  many and an older last access, than a page that was removed.
\<close>

theorem Evict_coldest:
  assumes "codec_ok cd" and "reachable cvm_init (cvm_step cd) s"
    and "range_order (st_pages s) ks" and "EvictColdPages ks maxBytes s = ((evicted, freed), s', ev)"
  shows "\<exists>gone. int (card gone) = evicted
    \<and> (\<forall>k \<in> gone. \<exists>p. st_pages s k = Some p \<and> pg_RefCount p = 0 \<and> \<not> pg_Pinned p
        \<and> (\<forall>k' q. st_pages s' k' = Some q \<and> pg_RefCount q = 0 \<and> \<not> pg_Pinned q \<longrightarrow> (pg_AccessCount p < pg_AccessCount q
          \<or> pg_AccessCount p = pg_AccessCount q \<and> pg_LastAccessTime p \<le> pg_LastAccessTime q)))
    \<and> (\<forall>k. st_pages s' k = (if k \<in> gone then None else st_pages s k))
    \<and> (\<forall>a. table s' a = filter (\<lambda>k. k \<notin> gone) (table s a))"
proof -
  have inv: "cvm_inv cd s" using cvm_reachable_inv [OF assms(1,2)] .
  obtain es where es: "evicts s maxBytes es s'" "evicted = int (length es)"
    by (rule EvictColdPages_evicts [OF inv assms(3,4)]) blast
  have "card (pg_ID ` set es) = length es"
    using es(1) by (metis evicts_def distinct_card length_map list.set_map)
  moreover have "\<exists>p. st_pages s k = Some p \<and> pg_RefCount p = 0 \<and> \<not> pg_Pinned p
      \<and> (\<forall>k' q. st_pages s' k' = Some q \<and> pg_RefCount q = 0 \<and> \<not> pg_Pinned q \<longrightarrow> (pg_AccessCount p < pg_AccessCount q
          \<or> pg_AccessCount p = pg_AccessCount q \<and> pg_LastAccessTime p \<le> pg_LastAccessTime q))"
    if "k \<in> pg_ID ` set es" for k
  proof -
    from that obtain p where p: "p \<in> set es" "k = pg_ID p" by blast
    then have "evictable p" "st_pages s k = Some p"
      "\<forall>k' q. st_pages s' k' = Some q \<longrightarrow> evictable q \<longrightarrow> \<not> colder q p"
      using es(1) unfolding evicts_def by blast+
    then show ?thesis unfolding evictable_def not_colder_iff by blast
  qed
  moreover have "st_pages s' = (\<lambda>k. if k \<in> pg_ID ` set es then None else st_pages s k)"
    "\<forall>a. table s' a = filter (\<lambda>k. k \<notin> pg_ID ` set es) (table s a)"
    using es(1) unfolding evicts_def by blast+
  ultimately show ?thesis
    using es(2) by (intro exI [of _ "pg_ID ` set es"] conjI) simp_all
qed

lemma Evict_coldest_witness:
  "\<exists>gone. int (card gone) = 1
    \<and> (\<forall>k \<in> gone. \<exists>p. st_pages cold_store k = Some p \<and> pg_RefCount p = 0 \<and> \<not> pg_Pinned p
        \<and> (\<forall>k' q. st_pages cold_evicted k' = Some q \<and> pg_RefCount q = 0 \<and> \<not> pg_Pinned q \<longrightarrow> (pg_AccessCount p < pg_AccessCount q
          \<or> pg_AccessCount p = pg_AccessCount q \<and> pg_LastAccessTime p \<le> pg_LastAccessTime q)))
    \<and> (\<forall>k. st_pages cold_evicted k = (if k \<in> gone then None else st_pages cold_store k))
    \<and> (\<forall>a. table cold_evicted a = filter (\<lambda>k. k \<notin> gone) (table cold_store a))"
  by (rule Evict_coldest [OF small_codec_ok reachable_cold_store cold_store_order cold_evict])

text \<open>
  A release does not check that the caller holds the page: releases by an agent that never
  mounted a page bring its reference count to zero while the page stands in another agent's
  table, and the next eviction then removes it from that table, so the other agent's
  materialized context silently loses the bytes.
\<close>

definition foreign_release :: Store where
  "foreign_release = run_release ''c'' ''hx'' (run_release ''c'' ''hx'' (run_release ''c'' ''hx'' two_pages))"

theorem foreign_release_loses_context:
  "table foreign_release ''b'' = [''hx'']
   \<and> fst (Materialize small_codec zero_clock ''b'' foreign_release) = Inr ''x''
   \<and> fst (EvictColdPages [''hx'', ''haaaaaaaa''] 8 foreign_release) = (1, 1)
   \<and> fst (Materialize small_codec zero_clock ''b''
         (fst (snd (EvictColdPages [''hx'', ''haaaaaaaa''] 8 foreign_release)))) = Inr []"
  by code_simp

section \<open>Writing and reading back\<close>

lemma list_all2_content_cong:
  "list_all2 (\<lambda>i c. page_content cd m i = Inr c) ids cs
     \<Longrightarrow> (\<And>i. i \<in> set ids \<Longrightarrow> page_content cd m' i = page_content cd m i)
     \<Longrightarrow> list_all2 (\<lambda>i c. page_content cd m' i = Inr c) ids cs"
  by (induction ids cs rule: list_all2_induct) auto

text \<open>
  C22. Round trip of a write: writing a delta whose content is not stored yet succeeds, appends
  exactly that content to what the agent materializes, and changes what no other agent
  materializes.
\<close>

theorem WriteDelta_Materialize:
  assumes "codec_ok cd" and "reachable cvm_init (cvm_step cd) s"
    and "st_pages s (sha256_hex cd content) = None"
    and "WriteDelta cd clk agentID content s = (r, s', ev)"
  shows "(\<exists>page. r = Inr page \<and> table s' agentID = table s agentID @ [pg_ID page])
    \<and> (\<exists>old. fst (Materialize cd clk1 agentID s) = Inr old
         \<and> fst (Materialize cd clk2 agentID s') = Inr (old @ content))
    \<and> (\<forall>b. b \<noteq> agentID \<longrightarrow> fst (Materialize cd clk2 b s') = fst (Materialize cd clk1 b s))"
proof -
  let ?k = "sha256_hex cd content"
  have inv: "cvm_inv cd s" using cvm_reachable_inv [OF assms(1,2)] .
  obtain r1 s1 ev1 where c: "CreatePage cd clk ''delta'' content s = (r1, s1, ev1)" by (rule prod_cases3)
  then have create: "r1 = Inr (fresh_page cd clk ''delta'' content)"
    "st_pages s1 = (st_pages s)(?k \<mapsto> fresh_page cd clk ''delta'' content)" "st_pageTables s1 = st_pageTables s"
    using assms(3) by (cases rule: CreatePage_cases; simp)+
  obtain r2 s2 ev2 where m: "MountPage (later 5 clk) agentID ?k s1 = (r2, s2, ev2)" by (rule prod_cases3)
  have notin: "?k \<notin> set (table s b)" for b
    using tables_okD(2) [OF cvm_invD(2) [OF inv], of b] assms(3) by auto
  have tab1: "table s1 = table s" using create(3) by (rule table_same)
  from m obtain q' where mount: "r2 = Inr ()" "st_pages s2 = (st_pages s1)(?k \<mapsto> q')"
    "same_data (fresh_page cd clk ''delta'' content) q'"
    "st_pageTables s2 = (st_pageTables s1)(agentID \<mapsto> table s1 agentID @ [?k])"
    using create(2) notin by (cases rule: MountPage_cases) (auto simp: tab1)
  have out: "r = Inr (fresh_page cd clk ''delta'' content)" "s' = s2"
    using assms(4) c m create(1) mount(1) by (simp_all add: WriteDelta_def)
  have tab: "table s' = (table s)(agentID := table s agentID @ [?k])"
    using table_upd [OF mount(4)] tab1 out(2) by simp
  have pages: "st_pages s' = (st_pages s)(?k \<mapsto> q')" using mount(2) create(2) out(2) by simp
  have new: "page_content cd (st_pages s') ?k = Inr content"
    using same_data_content [OF mount(3), of cd] by (simp add: page_content_def pages)
  have old: "page_content cd (st_pages s') i = page_content cd (st_pages s) i" if "i \<in> set (table s b)" for i b
  proof -
    have "i \<noteq> ?k" using that notin [of b] by auto
    then show ?thesis by (simp add: page_content_def pages)
  qed
  {
    fix b
    obtain cs where cs: "list_all2 (\<lambda>i c. page_content cd (st_pages s) i = Inr c) (table s b) cs"
      "\<And>clk. fst (Materialize cd clk b s) = Inr (concat cs)"
      using Materialize_contents [OF inv, of b] by metis
    have keep: "list_all2 (\<lambda>i c. page_content cd (st_pages s') i = Inr c) (table s b) cs"
      using cs(1) old by (rule list_all2_content_cong)
    have "list_all2 (\<lambda>i c. page_content cd (st_pages s') i = Inr c) (table s b @ [?k]) (cs @ [content])"
      using keep new by (intro list_all2_appendI) simp_all
    then have "b = agentID \<Longrightarrow> fst (Materialize cd clk2 b s') = Inr (concat cs @ content)"
      using Materialize_result [of cd s' b "cs @ [content]"] tab by simp
    moreover have "b \<noteq> agentID \<Longrightarrow> fst (Materialize cd clk2 b s') = Inr (concat cs)"
      using Materialize_result [of cd s' b cs] keep tab by simp
    moreover note cs(2) [of clk1]
    ultimately have "(b = agentID \<longrightarrow> (\<exists>o1. fst (Materialize cd clk1 b s) = Inr o1
        \<and> fst (Materialize cd clk2 b s') = Inr (o1 @ content)))
      \<and> (b \<noteq> agentID \<longrightarrow> fst (Materialize cd clk2 b s') = fst (Materialize cd clk1 b s))" by auto
  }
  note all = this
  have "\<exists>page. r = Inr page \<and> table s' agentID = table s agentID @ [pg_ID page]"
    using out(1) tab by simp
  then show ?thesis using all by blast
qed

lemma WriteDelta_Materialize_witness:
  "\<exists>old. fst (Materialize small_codec zero_clock ''a'' two_pages) = Inr old
     \<and> fst (Materialize small_codec zero_clock ''a''
         (fst (snd (WriteDelta small_codec zero_clock ''a'' ''new'' two_pages)))) = Inr (old @ ''new'')"
proof -
  obtain r s' ev where run: "WriteDelta small_codec zero_clock ''a'' ''new'' two_pages = (r, s', ev)"
    by (rule prod_cases3)
  have "dom (st_pages two_pages) = {''hx'', ''haaaaaaaa''}"
    by (auto simp: two_pages_def NewStore_def)
  then have "''hnew'' \<notin> dom (st_pages two_pages)" by simp
  then have "st_pages two_pages (sha256_hex small_codec ''new'') = None" by (auto simp: small_codec_def)
  from WriteDelta_Materialize [OF small_codec_ok reachable_two_pages this run] run show ?thesis by auto
qed

end
