(* ===== verification/Blackboard.thy ===== *)
theory Blackboard
  imports Evidence
begin

text \<open>
  The blackboard of page references (\<open>internal/ipc/blackboard.go\<close>): topics are append-only message
  logs, and every subscriber of a topic has an offset into it. A nil inner map of \<open>offsets\<close> is
  \<open>None\<close>; reading a missing key gives the zero value.
\<close>

section \<open>Types\<close>

record PublishRequest =
  pr_Topic :: string
  pr_Publisher :: string
  pr_PageID :: string
  pr_SizeBytes :: int
  pr_IPCMode :: string

record Message =
  msg_ID :: string
  msg_Topic :: string
  msg_Publisher :: string
  msg_PageID :: string
  msg_SizeBytes :: int
  msg_IPCMode :: string
  msg_Content :: string
  msg_CreatedAt :: int

record Metric =
  met_EvidenceMode :: Mode
  met_Topic :: string
  met_TotalMessages :: int
  met_DeliveredMessages :: int
  met_TopicDepth :: int
  met_AvoidedCopyBytes :: int
  met_IPCMode :: string

record Blackboard =
  bb_topics :: "string \<rightharpoonup> Message list"
  bb_offsets :: "string \<rightharpoonup> (string \<rightharpoonup> nat)"
  bb_total :: int
  bb_avoidedCopy :: int

section \<open>Operations\<close>

definition NewBlackboard :: Blackboard where
  "NewBlackboard = \<lparr>bb_topics = Map.empty, bb_offsets = Map.empty, bb_total = 0, bb_avoidedCopy = 0\<rparr>"

definition topic_log :: "Blackboard \<Rightarrow> string \<Rightarrow> Message list" where
  "topic_log b topic = (case bb_topics b topic of None \<Rightarrow> [] | Some ms \<Rightarrow> ms)"

definition metricLocked :: "Blackboard \<Rightarrow> string \<Rightarrow> int \<Rightarrow> int \<Rightarrow> Metric" where
  "metricLocked b topic delivered avoided =
     \<lparr>met_EvidenceMode = ModeRealPartial, met_Topic = topic, met_TotalMessages = bb_total b,
      met_DeliveredMessages = delivered, met_TopicDepth = int (length (topic_log b topic)),
      met_AvoidedCopyBytes = avoided, met_IPCMode = []\<rparr>"

definition bb_Publish :: "clock \<Rightarrow> PublishRequest \<Rightarrow> Blackboard \<Rightarrow> Metric \<times> Blackboard" where
  "bb_Publish clk req0 b = (let
       req1 = (if pr_SizeBytes req0 < 0 then req0\<lparr>pr_SizeBytes := 0\<rparr> else req0);
       req = (if pr_IPCMode req1 = [] then req1\<lparr>pr_IPCMode := ''page-reference''\<rparr> else req1);
       message = \<lparr>msg_ID = stamp (clk 0), msg_Topic = pr_Topic req, msg_Publisher = pr_Publisher req,
         msg_PageID = pr_PageID req, msg_SizeBytes = pr_SizeBytes req, msg_IPCMode = pr_IPCMode req,
         msg_Content = [], msg_CreatedAt = unix_ms (clk 1)\<rparr>;
       b' = b\<lparr>bb_topics := (bb_topics b)(pr_Topic req \<mapsto> topic_log b (pr_Topic req) @ [message]),
              bb_total := bb_total b + 1, bb_avoidedCopy := bb_avoidedCopy b + pr_SizeBytes req\<rparr>
     in ((metricLocked b' (pr_Topic req) 0 (pr_SizeBytes req))\<lparr>met_IPCMode := pr_IPCMode req\<rparr>, b'))"

definition offsets_of :: "Blackboard \<Rightarrow> string \<Rightarrow> (string \<rightharpoonup> nat)" where
  "offsets_of b topic = (case bb_offsets b topic of None \<Rightarrow> Map.empty | Some m \<Rightarrow> m)"

definition offset_of :: "Blackboard \<Rightarrow> string \<Rightarrow> string \<Rightarrow> nat" where
  "offset_of b topic subscriber = (case offsets_of b topic subscriber of None \<Rightarrow> 0 | Some n \<Rightarrow> n)"

definition bb_Poll :: "string \<Rightarrow> string \<Rightarrow> Blackboard \<Rightarrow> (Message list \<times> Metric) \<times> Blackboard" where
  "bb_Poll topic subscriber b = (let messages = topic_log b topic;
       start0 = offset_of b topic subscriber;
       start = (if length messages < start0 then length messages else start0);
       delivered = drop start messages;
       b' = b\<lparr>bb_offsets := (bb_offsets b)(topic \<mapsto> (offsets_of b topic)(subscriber \<mapsto> length messages))\<rparr>;
       avoided = sum_list (map msg_SizeBytes delivered);
       metric = metricLocked b' topic (int (length delivered)) avoided
     in ((delivered, if delivered \<noteq> [] then metric\<lparr>met_IPCMode := msg_IPCMode (last delivered)\<rparr> else metric),
         b'))"

definition bb_Metrics :: "Blackboard \<Rightarrow> Metric" where
  "bb_Metrics b = \<lparr>met_EvidenceMode = ModeRealPartial, met_Topic = [], met_TotalMessages = bb_total b,
     met_DeliveredMessages = 0, met_TopicDepth = bb_total b, met_AvoidedCopyBytes = bb_avoidedCopy b,
     met_IPCMode = []\<rparr>"

definition bb_Topics :: "Blackboard \<Rightarrow> string \<rightharpoonup> Message list" where
  "bb_Topics b = bb_topics b"

section \<open>Delivery\<close>

datatype bb_op = BPublish clock PublishRequest | BPoll string string

definition bb_do :: "bb_op \<Rightarrow> Blackboard \<Rightarrow> Blackboard" where
  "bb_do op b = (case op of BPublish clk req \<Rightarrow> snd (bb_Publish clk req b)
     | BPoll topic sub \<Rightarrow> snd (bb_Poll topic sub b))"

definition bb_run :: "bb_op list \<Rightarrow> Blackboard \<Rightarrow> Blackboard" where
  "bb_run ops b = fold bb_do ops b"

text \<open>Everything that the polls of \<open>sub\<close> on \<open>topic\<close> returned during a run, in order.\<close>

fun received :: "string \<Rightarrow> string \<Rightarrow> bb_op list \<Rightarrow> Blackboard \<Rightarrow> Message list" where
  "received topic sub [] b = []"
| "received topic sub (op # ops) b =
     (if op = BPoll topic sub then fst (fst (bb_Poll topic sub b)) else []) @ received topic sub ops (bb_do op b)"

text \<open>The page references published to a topic during a run, in order.\<close>

fun published :: "string \<Rightarrow> bb_op list \<Rightarrow> (string \<times> string) list" where
  "published topic [] = []"
| "published topic (BPublish clk req # ops) =
     (if pr_Topic req = topic then [(pr_Publisher req, pr_PageID req)] else []) @ published topic ops"
| "published topic (BPoll t s # ops) = published topic ops"

definition bb_inv :: "Blackboard \<Rightarrow> bool" where
  "bb_inv b \<longleftrightarrow> (\<forall>t s. offset_of b t s \<le> length (topic_log b t))"

lemma Publish_log:
  "topic_log (snd (bb_Publish clk req b)) t = topic_log b t @
     (if t = pr_Topic req then [\<lparr>msg_ID = stamp (clk 0), msg_Topic = pr_Topic req,
        msg_Publisher = pr_Publisher req, msg_PageID = pr_PageID req,
        msg_SizeBytes = max 0 (pr_SizeBytes req),
        msg_IPCMode = (if pr_IPCMode req = [] then ''page-reference'' else pr_IPCMode req),
        msg_Content = [], msg_CreatedAt = unix_ms (clk 1)\<rparr>] else [])"
  by (simp add: bb_Publish_def Let_def topic_log_def)

lemma Publish_offset [simp]: "offset_of (snd (bb_Publish clk req b)) t s = offset_of b t s"
  by (simp add: bb_Publish_def Let_def offset_of_def offsets_of_def)

lemma Poll_log [simp]: "topic_log (snd (bb_Poll t s b)) t' = topic_log b t'"
  by (simp add: bb_Poll_def Let_def topic_log_def)

lemma Poll_offset: "offset_of (snd (bb_Poll t s b)) t' s' =
    (if t' = t \<and> s' = s then length (topic_log b t) else offset_of b t' s')"
  by (auto simp: bb_Poll_def Let_def offset_of_def offsets_of_def)

lemma Poll_delivered: "bb_inv b \<Longrightarrow> fst (fst (bb_Poll t s b)) = drop (offset_of b t s) (topic_log b t)"
  by (auto simp: bb_Poll_def Let_def bb_inv_def not_less)

lemma bb_inv_New: "bb_inv NewBlackboard"
  by (simp add: bb_inv_def NewBlackboard_def offset_of_def offsets_of_def)

lemma bb_inv_do: "bb_inv b \<Longrightarrow> bb_inv (bb_do op b)"
  by (cases op) (auto simp: bb_inv_def bb_do_def Publish_log Poll_offset intro: le_SucI)

interpretation boards: invariant_system "\<lambda>b. b = NewBlackboard" "\<lambda>b b'. \<exists>op. b' = bb_do op b" bb_inv
  by unfold_locales (auto intro: bb_inv_New bb_inv_do)

lemma offset_mono_do: "bb_inv b \<Longrightarrow> offset_of b t s \<le> offset_of (bb_do op b) t s"
  by (cases op) (auto simp: bb_do_def Poll_offset bb_inv_def)

text \<open>A run from any state delivers the log from the old offset up to the new one.\<close>

lemma received_run:
  assumes "bb_inv b"
  shows "take (offset_of b t s) (topic_log b t) @ received t s ops b
     = take (offset_of (bb_run ops b) t s) (topic_log (bb_run ops b) t) \<and> bb_inv (bb_run ops b)"
  using assms
proof (induction ops arbitrary: b)
  case Nil
  then show ?case by (simp add: bb_run_def)
next
  case (Cons op ops)
  have le: "offset_of b t s \<le> length (topic_log b t)" using Cons.prems by (simp add: bb_inv_def)
  have "take (offset_of b t s) (topic_log b t)
      @ (if op = BPoll t s then fst (fst (bb_Poll t s b)) else [])
    = take (offset_of (bb_do op b) t s) (topic_log (bb_do op b) t)"
  proof (cases op)
    case (BPublish clk req)
    with le show ?thesis by (simp add: bb_do_def Publish_log)
  next
    case (BPoll t' s')
    with Poll_delivered [OF Cons.prems, of t s] show ?thesis by (auto simp: bb_do_def Poll_offset)
  qed
  with Cons.IH [OF bb_inv_do [OF Cons.prems, of op]] show ?case
    by (simp only: bb_run_def fold_simps received.simps append_assoc [symmetric])
qed

lemma log_run: "map (\<lambda>m. (msg_Publisher m, msg_PageID m)) (topic_log (bb_run ops b) t)
    = map (\<lambda>m. (msg_Publisher m, msg_PageID m)) (topic_log b t) @ published t ops"
proof (induction ops arbitrary: b)
  case (Cons op ops)
  then show ?case by (cases op) (simp_all add: bb_run_def bb_do_def Publish_log)
qed (simp add: bb_run_def)

text \<open>
  C23. Exactly-once, in-order delivery: after any sequence of publications and polls by any
  agents, what the polls of a subscriber on a topic have returned, followed by what its next
  poll returns, is the topic's whole message log, each message once and in the order of
  publication; the log holds the publisher and page of every publication to that topic.
\<close>

theorem poll_exactly_once:
  "received topic sub ops NewBlackboard @ fst (fst (bb_Poll topic sub (bb_run ops NewBlackboard)))
     = topic_log (bb_run ops NewBlackboard) topic
   \<and> map (\<lambda>m. (msg_Publisher m, msg_PageID m)) (topic_log (bb_run ops NewBlackboard) topic)
     = published topic ops"
proof -
  have "received topic sub ops NewBlackboard
      = take (offset_of (bb_run ops NewBlackboard) topic sub) (topic_log (bb_run ops NewBlackboard) topic)"
    and "bb_inv (bb_run ops NewBlackboard)"
    using received_run [OF bb_inv_New, of topic sub ops]
    by (simp_all add: NewBlackboard_def topic_log_def)
  moreover have "topic_log NewBlackboard topic = []" by (simp add: NewBlackboard_def topic_log_def)
  ultimately show ?thesis by (simp add: Poll_delivered log_run)
qed

end
