(* ===== verification/Scheduler.thy ===== *)
theory Scheduler
  imports Avp Evidence
begin

text \<open>
  The agent scheduler (\<open>internal/scheduler/scheduler.go\<close>): the four policies, the score of the
  resource-aware policy in IEEE double arithmetic, and the decision log. A Go map that only
  this code reads by key is a partial map; reading a missing key gives the zero value. The
  floating-point expressions are evaluated operation by operation, as on amd64 (no fused
  multiply-add).
\<close>

section \<open>Types\<close>

definition PolicyFIFO :: string where "PolicyFIFO = ''fifo''"
definition PolicyTokenCFS :: string where "PolicyTokenCFS = ''token-cfs''"
definition PolicyTokenCFSPrefixAffinity :: string where
  "PolicyTokenCFSPrefixAffinity = ''token-cfs-prefix-affinity''"
definition PolicyTokenCFSPrefixAffinityResourceAware :: string where
  "PolicyTokenCFSPrefixAffinityResourceAware = ''token-cfs-prefix-affinity-resource-aware''"

lemmas policy_defs = PolicyFIFO_def PolicyTokenCFS_def PolicyTokenCFSPrefixAffinity_def
  PolicyTokenCFSPrefixAffinityResourceAware_def

record CandidateDecision =
  cand_AgentID :: string
  cand_TaskID :: string
  cand_VRuntimeScore :: f64
  cand_ContextAffinityScore :: f64
  cand_MemoryPressure :: f64
  cand_PidsPressure :: f64
  cand_CPUThrottlePressure :: f64
  cand_PSIPressure :: f64
  cand_DependencyReady :: bool
  cand_SpawnPriority :: f64
  cand_FinalScore :: f64

definition zero_CandidateDecision :: CandidateDecision where
  "zero_CandidateDecision = \<lparr>cand_AgentID = [], cand_TaskID = [], cand_VRuntimeScore = 0,
     cand_ContextAffinityScore = 0, cand_MemoryPressure = 0, cand_PidsPressure = 0,
     cand_CPUThrottlePressure = 0, cand_PSIPressure = 0, cand_DependencyReady = False,
     cand_SpawnPriority = 0, cand_FinalScore = 0\<rparr>"

record ResourcePressure =
  rp_MemoryPressure :: f64
  rp_PidsPressure :: f64
  rp_CPUThrottlePressure :: f64
  rp_PSIPressure :: f64
  rp_EvidenceMode :: Mode
  rp_FallbackReason :: string

definition zero_ResourcePressure :: ResourcePressure where
  "zero_ResourcePressure = \<lparr>rp_MemoryPressure = 0, rp_PidsPressure = 0, rp_CPUThrottlePressure = 0,
     rp_PSIPressure = 0, rp_EvidenceMode = [], rp_FallbackReason = []\<rparr>"

record DecisionLog =
  dl_ID :: string
  dl_DecisionID :: string
  dl_Timestamp :: string
  dl_TaskID :: string
  dl_SelectedTask :: string
  dl_Candidates :: "string list"
  dl_CandidateDetails :: "CandidateDecision list"
  dl_SelectedAgent :: string
  dl_Policy :: string
  dl_Reason :: string
  dl_VRuntimeBefore :: "string \<rightharpoonup> u64"
  dl_VRuntimeAfter :: "string \<rightharpoonup> u64"
  dl_SharedPages :: "string \<rightharpoonup> int"
  dl_VRuntimeScore :: f64
  dl_ContextAffinityScore :: f64
  dl_MemoryPressure :: f64
  dl_PidsPressure :: f64
  dl_CPUThrottlePressure :: f64
  dl_PSIPressure :: f64
  dl_DependencyReady :: bool
  dl_SpawnPriority :: f64
  dl_FinalScore :: f64
  dl_EvidenceMode :: Mode
  dl_FallbackReason :: string
  dl_ResourcePressure :: ResourcePressure
  dl_ScoreByAgent :: "(string \<rightharpoonup> CandidateDecision) option"      \<comment> \<open>\<open>None\<close>: the nil map\<close>
  dl_CreatedAt :: int

record Scheduler =
  sch_policy :: string
  sch_affinityThreshold :: u64
  sch_last :: "AVP option"
  sch_decisions :: "DecisionLog list"
  sch_resourcePressure :: ResourcePressure

section \<open>Settings\<close>

definition scheduler_New :: "string \<Rightarrow> Scheduler" where
  "scheduler_New policy = \<lparr>sch_policy = (if policy = [] then PolicyFIFO else policy),
     sch_affinityThreshold = 50, sch_last = None, sch_decisions = [],
     sch_resourcePressure = zero_ResourcePressure\<rparr>"

definition Policies :: "string list" where
  "Policies = [PolicyFIFO, PolicyTokenCFS, PolicyTokenCFSPrefixAffinity,
     PolicyTokenCFSPrefixAffinityResourceAware]"

definition SetPolicy :: "string \<Rightarrow> Scheduler \<Rightarrow> Scheduler result" where
  "SetPolicy policy s = (if policy = PolicyFIFO \<or> policy = PolicyTokenCFS
       \<or> policy = PolicyTokenCFSPrefixAffinity \<or> policy = PolicyTokenCFSPrefixAffinityResourceAware
     then Inr (s\<lparr>sch_policy := policy\<rparr>)
     else Inl (Errorf ''unsupported scheduler policy %q'' [policy]))"

definition sched_Policy :: "Scheduler \<Rightarrow> string" where
  "sched_Policy s = sch_policy s"

definition normalizeResourcePressure :: "ResourcePressure \<Rightarrow> ResourcePressure" where
  "normalizeResourcePressure p0 = (let
       p1 = p0\<lparr>rp_MemoryPressure := round3 (clamp (rp_MemoryPressure p0) 0 1),
               rp_PidsPressure := round3 (clamp (rp_PidsPressure p0) 0 1),
               rp_CPUThrottlePressure := round3 (clamp (rp_CPUThrottlePressure p0) 0 1),
               rp_PSIPressure := round3 (clamp (rp_PSIPressure p0) 0 1)\<rparr>;
       p2 = (if rp_EvidenceMode p1 = [] then p1\<lparr>rp_EvidenceMode := ModeDegraded\<rparr> else p1);
       p3 = (if \<not> IsValid (rp_EvidenceMode p2) then p2\<lparr>rp_EvidenceMode := ModeDegraded\<rparr> else p2)
     in if rp_EvidenceMode p3 = ModeDegraded \<and> rp_FallbackReason p3 = []
        then p3\<lparr>rp_FallbackReason := ''resource pressure sampler not configured or local cgroup pressure files unavailable''\<rparr>
        else p3)"

definition SetResourcePressure :: "ResourcePressure \<Rightarrow> Scheduler \<Rightarrow> Scheduler" where
  "SetResourcePressure pressure s = s\<lparr>sch_resourcePressure := normalizeResourcePressure pressure\<rparr>"

definition sched_ResourcePressure :: "Scheduler \<Rightarrow> ResourcePressure" where
  "sched_ResourcePressure s = normalizeResourcePressure (sch_resourcePressure s)"

definition SetAffinityThreshold :: "u64 \<Rightarrow> Scheduler \<Rightarrow> Scheduler" where
  "SetAffinityThreshold threshold s = s\<lparr>sch_affinityThreshold := threshold\<rparr>"

definition RememberLast :: "AVP \<Rightarrow> Scheduler \<Rightarrow> Scheduler" where
  "RememberLast agent s = s\<lparr>sch_last := Some agent\<rparr>"

definition sched_Decisions :: "Scheduler \<Rightarrow> DecisionLog list" where
  "sched_Decisions s = sch_decisions s"

section \<open>Policies\<close>

definition readyAgents :: "AVP list \<Rightarrow> AVP list" where
  "readyAgents candidates = filter (\<lambda>c. avp_State c = StateReady) candidates"

definition created_before :: "AVP \<Rightarrow> AVP \<Rightarrow> bool" where
  "created_before a b \<longleftrightarrow> avp_CreatedAt a < avp_CreatedAt b"

definition vruntime_before :: "AVP \<Rightarrow> AVP \<Rightarrow> bool" where
  "vruntime_before a b = (if avp_VRuntime a = avp_VRuntime b then avp_CreatedAt a < avp_CreatedAt b
     else avp_VRuntime a < avp_VRuntime b)"

definition fifo :: "AVP list \<Rightarrow> AVP" where
  "fifo candidates = hd (sort_by created_before candidates)"

definition minVRuntime :: "AVP list \<Rightarrow> AVP" where
  "minVRuntime candidates = hd (sort_by vruntime_before candidates)"

definition vruntimeDistance :: "u64 \<Rightarrow> u64 \<Rightarrow> u64" where
  "vruntimeDistance left right = f64_to_u64 (f64_abs (f64_of_int (uint left) - f64_of_int (uint right)))"

definition get0 :: "(string \<rightharpoonup> int) \<Rightarrow> string \<Rightarrow> int" where
  "get0 m k = (case m k of None \<Rightarrow> 0 | Some v \<Rightarrow> v)"

definition sharedPages :: "AVP list \<Rightarrow> Scheduler \<Rightarrow> string \<rightharpoonup> int" where
  "sharedPages candidates s = (case sch_last s of None \<Rightarrow> Map.empty
     | Some prev \<Rightarrow> let lastPages = set (avp_PageTable prev @ avp_ContextPages prev) in
         foldl (\<lambda>out candidate. foldl (\<lambda>out page.
             if page \<in> lastPages then out(avp_AgentID candidate \<mapsto> get0 out (avp_AgentID candidate) + 1) else out)
           out (avp_PageTable candidate @ avp_ContextPages candidate)) Map.empty candidates)"

fun affinity_loop :: "u64 \<Rightarrow> u64 \<Rightarrow> (string \<rightharpoonup> int) \<Rightarrow> AVP list \<Rightarrow> AVP \<Rightarrow> int \<Rightarrow> AVP \<times> int" where
  "affinity_loop threshold baseV shared [] best bestShared = (best, bestShared)"
| "affinity_loop threshold baseV shared (candidate # cs) best bestShared =
     (if get0 shared (avp_AgentID candidate) \<le> bestShared
      then affinity_loop threshold baseV shared cs best bestShared
      else if vruntimeDistance (avp_VRuntime candidate) baseV \<le> threshold
      then affinity_loop threshold baseV shared cs candidate (get0 shared (avp_AgentID candidate))
      else affinity_loop threshold baseV shared cs best bestShared)"

definition selectPrefixAffinity :: "AVP list \<Rightarrow> Scheduler \<Rightarrow> AVP \<times> string \<times> (string \<rightharpoonup> int)" where
  "selectPrefixAffinity candidates s = (let base = minVRuntime candidates; shared = sharedPages candidates s in
     if sch_last s = None then (base, ''lowest vruntime; no previous prefix group'', shared)
     else case affinity_loop (sch_affinityThreshold s) (avp_VRuntime base) shared candidates base
                 (get0 shared (avp_AgentID base)) of
       (best, bestShared) \<Rightarrow>
         if avp_AgentID best \<noteq> avp_AgentID base
         then (best, ''prefix affinity shared_pages='' @ Itoa bestShared @ '' within threshold=''
                 @ Itoa (uint (sch_affinityThreshold s)), shared)
         else (base, ''lowest vruntime; no affinity candidate within threshold'', shared))"

text \<open>\<open>candidate.CPUStat[key]\<close>, read of a map that is not nil.\<close>

definition cpu_stat :: "(string \<rightharpoonup> u64) \<Rightarrow> string \<Rightarrow> f64" where
  "cpu_stat m key = f64_of_int (uint (case m key of None \<Rightarrow> 0 | Some v \<Rightarrow> v))"

definition resourceAwareScore :: "ResourcePressure \<Rightarrow> AVP \<Rightarrow> int \<Rightarrow> CandidateDecision" where
  "resourceAwareScore pressure candidate shared = (let
       global = normalizeResourcePressure pressure;
       memoryPressure = maxFloat (rp_MemoryPressure global)
         (clamp (f64_of_int (avp_MemoryCurrent candidate) div Fin (1024 * 1024 * 1024)) 0 1);
       pidsPressure = maxFloat (rp_PidsPressure global)
         (clamp (f64_of_int (avp_PidsCurrent candidate) div Fin 64) 0 1);
       cpuThrottle = (case avp_CPUStat candidate of None \<Rightarrow> rp_CPUThrottlePressure global
         | Some m \<Rightarrow> maxFloat (maxFloat (rp_CPUThrottlePressure global)
               (clamp (cpu_stat m ''nr_throttled'' div Fin 100) 0 1))
             (clamp (cpu_stat m ''throttled_usec'' div Fin 10000000) 0 1));
       vruntimeScore = Fin 1000 div (Fin 1 + f64_of_int (uint (avp_VRuntime candidate)));
       contextScore = f64_of_int shared;
       spawnPriority = f64_of_int (avp_Priority candidate);
       finalScore = vruntimeScore + contextScore * Fin 30 + spawnPriority * Fin 5
         - memoryPressure * Fin 180 - pidsPressure * Fin 160 - cpuThrottle * Fin 120
         - rp_PSIPressure global * Fin 90
     in \<lparr>cand_AgentID = avp_AgentID candidate, cand_TaskID = avp_TaskID candidate,
         cand_VRuntimeScore = round3 vruntimeScore, cand_ContextAffinityScore = round3 contextScore,
         cand_MemoryPressure = round3 memoryPressure, cand_PidsPressure = round3 pidsPressure,
         cand_CPUThrottlePressure = round3 cpuThrottle, cand_PSIPressure = round3 (rp_PSIPressure global),
         cand_DependencyReady = (avp_State candidate = StateReady),
         cand_SpawnPriority = round3 spawnPriority, cand_FinalScore = round3 finalScore\<rparr>)"

fun aware_loop ::
    "ResourcePressure \<Rightarrow> (string \<rightharpoonup> int) \<Rightarrow> AVP list \<Rightarrow> AVP \<Rightarrow> f64 \<Rightarrow> (string \<rightharpoonup> CandidateDecision)
     \<Rightarrow> AVP \<times> (string \<rightharpoonup> CandidateDecision)" where
  "aware_loop p shared [] best bestScore scores = (best, scores)"
| "aware_loop p shared (candidate # cs) best bestScore scores =
     (let score = resourceAwareScore p candidate (get0 shared (avp_AgentID candidate));
          scores' = scores(avp_AgentID candidate \<mapsto> score);
          final = cand_FinalScore score
      in if bestScore < final \<or> (f64_eq final bestScore \<and> avp_CreatedAt candidate < avp_CreatedAt best)
         then aware_loop p shared cs candidate final scores'
         else aware_loop p shared cs best bestScore scores')"

definition selectResourceAware ::
    "AVP list \<Rightarrow> Scheduler \<Rightarrow> AVP \<times> string \<times> (string \<rightharpoonup> int) \<times> (string \<rightharpoonup> CandidateDecision)" where
  "selectResourceAware candidates s = (let shared = sharedPages candidates s in
     case aware_loop (sch_resourcePressure s) shared candidates (hd candidates) NInf Map.empty of
       (best, scores) \<Rightarrow> (best,
         ''selected due to low vruntime + high context affinity + low resource pressure'', shared, scores))"

text \<open>\<open>None\<close> stands for the nil maps that the first two policies return.\<close>

definition selectLocked ::
    "AVP list \<Rightarrow> Scheduler \<Rightarrow> AVP \<times> string \<times> (string \<rightharpoonup> int) option \<times> (string \<rightharpoonup> CandidateDecision) option" where
  "selectLocked candidates s = (
     if sch_policy s = PolicyTokenCFS then (minVRuntime candidates, ''lowest vruntime'', None, None)
     else if sch_policy s = PolicyTokenCFSPrefixAffinity
     then (case selectPrefixAffinity candidates s of (selected, reason, shared) \<Rightarrow>
             (selected, reason, Some shared, None))
     else if sch_policy s = PolicyTokenCFSPrefixAffinityResourceAware
     then (case selectResourceAware candidates s of (selected, reason, shared, scores) \<Rightarrow>
             (selected, reason, Some shared, Some scores))
     else (fifo candidates, ''earliest ready agent'', None, None))"

section \<open>Decisions\<close>

definition score_of :: "(string \<rightharpoonup> CandidateDecision) \<Rightarrow> AVP \<Rightarrow> CandidateDecision" where
  "score_of scores candidate = (case scores (avp_AgentID candidate) of
     None \<Rightarrow> zero_CandidateDecision | Some c \<Rightarrow> c)"

definition raise_pressure :: "ResourcePressure \<Rightarrow> CandidateDecision \<Rightarrow> ResourcePressure" where
  "raise_pressure p score = p\<lparr>rp_MemoryPressure := maxFloat (rp_MemoryPressure p) (cand_MemoryPressure score),
     rp_PidsPressure := maxFloat (rp_PidsPressure p) (cand_PidsPressure score),
     rp_CPUThrottlePressure := maxFloat (rp_CPUThrottlePressure p) (cand_CPUThrottlePressure score),
     rp_PSIPressure := maxFloat (rp_PSIPressure p) (cand_PSIPressure score)\<rparr>"

definition makeDecisionLocked ::
    "clock \<Rightarrow> string \<Rightarrow> AVP list \<Rightarrow> AVP \<Rightarrow> string \<Rightarrow> (string \<rightharpoonup> int) option
     \<Rightarrow> (string \<rightharpoonup> CandidateDecision) option \<Rightarrow> Scheduler \<Rightarrow> DecisionLog" where
  "makeDecisionLocked clk taskID candidates selected reason shared scoreByAgent s = (let
       ids = map avp_AgentID candidates;
       before = foldl (\<lambda>m c. m(avp_AgentID c \<mapsto> avp_VRuntime c)) Map.empty candidates;
       pressure0 = normalizeResourcePressure (sch_resourcePressure s);
       selected0 = zero_CandidateDecision\<lparr>cand_AgentID := avp_AgentID selected,
         cand_TaskID := avp_TaskID selected, cand_DependencyReady := (avp_State selected = StateReady)\<rparr>;
       details = (case scoreByAgent of None \<Rightarrow> [] | Some m \<Rightarrow> map (score_of m) candidates);
       selectedScore = (case scoreByAgent of None \<Rightarrow> selected0
         | Some m \<Rightarrow> foldl (\<lambda>sc c. if avp_AgentID c = avp_AgentID selected then score_of m c else sc)
             selected0 candidates);
       pressure = (case scoreByAgent of None \<Rightarrow> pressure0
         | Some m \<Rightarrow> foldl (\<lambda>p c. raise_pressure p (score_of m c)) pressure0 candidates)
     in \<lparr>dl_ID = stamp (clk 0), dl_DecisionID = stamp (clk 0), dl_Timestamp = rfc3339 (clk 0),
         dl_TaskID = taskID, dl_SelectedTask = taskID, dl_Candidates = ids,
         dl_CandidateDetails = details, dl_SelectedAgent = avp_AgentID selected,
         dl_Policy = sch_policy s, dl_Reason = reason,
         dl_VRuntimeBefore = before, dl_VRuntimeAfter = before,
         dl_SharedPages = (case shared of None \<Rightarrow> Map.empty | Some m \<Rightarrow> m),
         dl_VRuntimeScore = cand_VRuntimeScore selectedScore,
         dl_ContextAffinityScore = cand_ContextAffinityScore selectedScore,
         dl_MemoryPressure = round3 (rp_MemoryPressure pressure),
         dl_PidsPressure = round3 (rp_PidsPressure pressure),
         dl_CPUThrottlePressure = round3 (rp_CPUThrottlePressure pressure),
         dl_PSIPressure = round3 (rp_PSIPressure pressure),
         dl_DependencyReady = cand_DependencyReady selectedScore,
         dl_SpawnPriority = cand_SpawnPriority selectedScore,
         dl_FinalScore = cand_FinalScore selectedScore,
         dl_EvidenceMode = rp_EvidenceMode pressure, dl_FallbackReason = rp_FallbackReason pressure,
         dl_ResourcePressure = pressure, dl_ScoreByAgent = scoreByAgent,
         dl_CreatedAt = unix_ms (clk 0)\<rparr>)"

text \<open>\<open>Select\<close>; \<open>None\<close> is the result with \<open>ok = false\<close> and zero values.\<close>

definition Select :: "clock \<Rightarrow> string \<Rightarrow> AVP list \<Rightarrow> Scheduler \<Rightarrow> (AVP \<times> DecisionLog) option \<times> Scheduler" where
  "Select clk taskID candidates s = (let ready = readyAgents candidates in
     if ready = [] then (None, s)
     else case selectLocked ready s of (selected, reason, shared, scores) \<Rightarrow>
       let decision = makeDecisionLocked clk taskID ready selected reason shared scores s in
         (Some (selected, decision),
          s\<lparr>sch_last := Some selected, sch_decisions := sch_decisions s @ [decision]\<rparr>))"

text \<open>
  \<open>ChargeTokens\<close>: \<open>consumedTokens / weight\<close> truncates towards zero, the conversion to
  \<open>uint64\<close> and the additions to it wrap around.
\<close>

definition ChargeTokens :: "AVP \<Rightarrow> int \<Rightarrow> AVP" where
  "ChargeTokens agent consumedTokens = (let
       weight = (if avp_Weight agent \<le> 0 then 100 else avp_Weight agent);
       v = avp_VRuntime agent + word_of_int (go_div consumedTokens weight)
     in agent\<lparr>avp_ConsumedTokens := avp_ConsumedTokens agent + consumedTokens,
          avp_VRuntime := (if 0 < consumedTokens \<and> go_div consumedTokens weight = 0 then v + 1 else v)\<rparr>)"

end
