(* ===== verification/SchedulerCorrect.thy ===== *)
theory SchedulerCorrect
  imports Scheduler
begin

text \<open>
  Correctness of the scheduler: what each policy selects, that the resource-aware score is always a
  finite number so that its maximum exists, that recorded pressures are normalized, and how far the
  distance of two virtual runtimes is exact.
\<close>

section \<open>The comparison functions\<close>

interpretation creation: strict_weak created_before
  by unfold_locales (auto simp: created_before_def)

interpretation vruntimes: strict_weak vruntime_before
  by unfold_locales (auto simp: vruntime_before_def split: if_splits)

lemma readyAgents_mem: "a \<in> set (readyAgents cs) \<longleftrightarrow> a \<in> set cs \<and> avp_State a = StateReady"
  by (auto simp: readyAgents_def)

section \<open>Selection\<close>

lemma affinity_loop_spec:
  assumes "affinity_loop t v shared cs best n = (best', n')"
  shows "n \<le> n' \<and> (best' = best \<and> n' = n
      \<or> best' \<in> set cs \<and> n < n' \<and> n' = get0 shared (avp_AgentID best') \<and> vruntimeDistance (avp_VRuntime best') v \<le> t)
    \<and> (\<forall>c \<in> set cs. vruntimeDistance (avp_VRuntime c) v \<le> t \<longrightarrow> get0 shared (avp_AgentID c) \<le> n')"
  using assms
proof (induction cs arbitrary: best n)
  case (Cons c cs)
  show ?case
  proof (cases "get0 shared (avp_AgentID c) \<le> n")
    case True
    with Cons show ?thesis by fastforce
  next
    case False
    show ?thesis
    proof (cases "vruntimeDistance (avp_VRuntime c) v \<le> t")
      case True
      with False Cons.prems have "affinity_loop t v shared cs c (get0 shared (avp_AgentID c)) = (best', n')" by simp
      from Cons.IH [OF this] False True show ?thesis by fastforce
    next
      case far: False
      with False Cons.prems have "affinity_loop t v shared cs best n = (best', n')" by simp
      from Cons.IH [OF this] far show ?thesis by fastforce
    qed
  qed
qed simp

text \<open>
  The loop of the resource-aware policy, for a scoring function \<open>f\<close>: the best candidate so far,
  unless no score so far is a number above \<open>-Inf\<close>.
\<close>

definition best_so_far :: "(AVP \<Rightarrow> f64) \<Rightarrow> AVP list \<Rightarrow> AVP \<Rightarrow> f64 \<Rightarrow> bool" where
  "best_so_far f seen best bs \<longleftrightarrow> bs \<noteq> NaN \<and> (\<forall>c \<in> set seen. \<not> bs < f c)
     \<and> (\<forall>c \<in> set seen. f c = bs \<longrightarrow> avp_CreatedAt best \<le> avp_CreatedAt c)
     \<and> (bs \<noteq> NInf \<longrightarrow> f best = bs)"

lemma best_so_far_raise:
  assumes inv: "best_so_far f seen best bs" and up: "bs < f c"
  shows "best_so_far f (seen @ [c]) c (f c)"
proof -
  have "f c \<noteq> NaN" using up by auto
  moreover have "\<not> f c < f d" "f d \<noteq> f c" if "d \<in> set seen" for d
    using that up inv f64_trans [of bs "f c" "f d"] by (auto simp: best_so_far_def)
  ultimately show ?thesis by (auto simp: best_so_far_def)
qed

lemma best_so_far_tie:
  assumes inv: "best_so_far f seen best bs" and up: "f64_eq (f c) bs" "avp_CreatedAt c < avp_CreatedAt best"
  shows "best_so_far f (seen @ [c]) c (f c)"
  using assms by (fastforce simp: best_so_far_def f64_eq_def)

lemma best_so_far_keep:
  assumes "best_so_far f seen best bs"
    and "\<not> (bs < f c \<or> (f64_eq (f c) bs \<and> avp_CreatedAt c < avp_CreatedAt best))"
  shows "best_so_far f (seen @ [c]) best bs"
  using assms by (auto simp: best_so_far_def f64_eq_def)

definition final_score :: "ResourcePressure \<Rightarrow> (string \<rightharpoonup> int) \<Rightarrow> AVP \<Rightarrow> f64" where
  "final_score p shared c = cand_FinalScore (resourceAwareScore p c (get0 shared (avp_AgentID c)))"

lemma aware_loop_best:
  assumes "aware_loop p shared cs best bs scores = (best', scores')"
    and "best_so_far (final_score p shared) seen best bs"
  shows "\<exists>bs'. best_so_far (final_score p shared) (seen @ cs) best' bs' \<and> (best' = best \<or> best' \<in> set cs)"
  using assms
proof (induction cs arbitrary: best bs scores seen)
  case Nil
  then show ?case by auto
next
  case (Cons c cs)
  let ?f = "final_score p shared"
  show ?case
  proof (cases "bs < ?f c \<or> (f64_eq (?f c) bs \<and> avp_CreatedAt c < avp_CreatedAt best)")
    case True
    then have "best_so_far ?f (seen @ [c]) c (?f c)"
      using best_so_far_raise best_so_far_tie Cons.prems(2) by blast
    moreover have "aware_loop p shared cs c (?f c)
        (scores(avp_AgentID c \<mapsto> resourceAwareScore p c (get0 shared (avp_AgentID c)))) = (best', scores')"
      using Cons.prems(1) True by (simp add: Let_def final_score_def split: if_splits)
    ultimately show ?thesis using Cons.IH by fastforce
  next
    case False
    have "best_so_far ?f (seen @ [c]) best bs" by (rule best_so_far_keep [OF Cons.prems(2) False])
    moreover have "aware_loop p shared cs best bs
        (scores(avp_AgentID c \<mapsto> resourceAwareScore p c (get0 shared (avp_AgentID c)))) = (best', scores')"
      using Cons.prems(1) False by (simp add: Let_def final_score_def split: if_splits)
    ultimately show ?thesis using Cons.IH by fastforce
  qed
qed

lemma selectLocked_mem:
  assumes "ready \<noteq> []" and "selectLocked ready s = (a, reason, shared, scores)"
  shows "a \<in> set ready"
proof -
  have min: "minVRuntime ready \<in> set ready" "fifo ready \<in> set ready"
    using vruntimes.hd_sort_by_in creation.hd_sort_by_in assms(1) by (auto simp: minVRuntime_def fifo_def)
  have "fst (selectPrefixAffinity ready s) \<in> set ready"
  proof -
    obtain best n where loop: "affinity_loop (sch_affinityThreshold s) (avp_VRuntime (minVRuntime ready))
        (sharedPages ready s) ready (minVRuntime ready)
        (get0 (sharedPages ready s) (avp_AgentID (minVRuntime ready))) = (best, n)" by fastforce
    from affinity_loop_spec [OF loop] min have "best \<in> set ready" by blast
    with loop min show ?thesis by (auto simp: selectPrefixAffinity_def Let_def)
  qed
  moreover have "fst (selectResourceAware ready s) \<in> set ready"
  proof -
    obtain best m where loop: "aware_loop (sch_resourcePressure s) (sharedPages ready s) ready (hd ready) NInf Map.empty
        = (best, m)" by fastforce
    have "best_so_far f [] (hd ready) NInf" for f by (simp add: best_so_far_def)
    from aware_loop_best [OF loop this] assms(1) have "best \<in> set ready" by auto
    with loop show ?thesis by (simp add: selectResourceAware_def Let_def)
  qed
  ultimately show ?thesis
    using assms(2) min by (auto simp: selectLocked_def split: if_splits prod.splits)
qed

lemma Select_cases:
  assumes "Select clk taskID cands s = (res, s')"
  obtains (idle) "readyAgents cands = []" "res = None" "s' = s"
  | (picks) a d reason shared scores where "readyAgents cands \<noteq> []" "res = Some (a, d)"
      "selectLocked (readyAgents cands) s = (a, reason, shared, scores)"
      "d = makeDecisionLocked clk taskID (readyAgents cands) a reason shared scores s"
      "s' = s\<lparr>sch_last := Some a, sch_decisions := sch_decisions s @ [d]\<rparr>"
proof (cases "readyAgents cands = []")
  case True
  with assms show ?thesis by (intro idle) (simp_all add: Select_def)
next
  case False
  obtain a reason shared scores where l: "selectLocked (readyAgents cands) s = (a, reason, shared, scores)"
    by (rule prod_cases4)
  with False assms show ?thesis by (intro picks [OF False _ l refl]) (simp_all add: Select_def Let_def)
qed

section \<open>Pressures and scores are numbers\<close>

definition pressure_number :: "ResourcePressure \<Rightarrow> bool" where
  "pressure_number p \<longleftrightarrow> rp_MemoryPressure p \<noteq> NaN \<and> rp_PidsPressure p \<noteq> NaN
     \<and> rp_CPUThrottlePressure p \<noteq> NaN \<and> rp_PSIPressure p \<noteq> NaN"

definition pressure_normal :: "ResourcePressure \<Rightarrow> bool" where
  "pressure_normal p \<longleftrightarrow> unit_range (rp_MemoryPressure p) \<and> unit_range (rp_PidsPressure p)
     \<and> unit_range (rp_CPUThrottlePressure p) \<and> unit_range (rp_PSIPressure p)
     \<and> IsValid (rp_EvidenceMode p) \<and> (rp_EvidenceMode p = ModeDegraded \<longrightarrow> rp_FallbackReason p \<noteq> [])"

lemma normalize_sel:
  "rp_MemoryPressure (normalizeResourcePressure p) = round3 (clamp (rp_MemoryPressure p) 0 1)"
  "rp_PidsPressure (normalizeResourcePressure p) = round3 (clamp (rp_PidsPressure p) 0 1)"
  "rp_CPUThrottlePressure (normalizeResourcePressure p) = round3 (clamp (rp_CPUThrottlePressure p) 0 1)"
  "rp_PSIPressure (normalizeResourcePressure p) = round3 (clamp (rp_PSIPressure p) 0 1)"
  by (simp_all add: normalizeResourcePressure_def Let_def)

lemma normalize_mode:
  "rp_EvidenceMode (normalizeResourcePressure p)
     = (if IsValid (rp_EvidenceMode p) then rp_EvidenceMode p else ModeDegraded)"
  "rp_FallbackReason (normalizeResourcePressure p)
     = (if (IsValid (rp_EvidenceMode p) \<longrightarrow> rp_EvidenceMode p = ModeDegraded) \<and> rp_FallbackReason p = []
        then ''resource pressure sampler not configured or local cgroup pressure files unavailable''
        else rp_FallbackReason p)"
proof -
  have "\<not> IsValid []" by (simp add: IsValid_iff AllModes_def mode_defs)
  then show "rp_EvidenceMode (normalizeResourcePressure p)
     = (if IsValid (rp_EvidenceMode p) then rp_EvidenceMode p else ModeDegraded)"
    and "rp_FallbackReason (normalizeResourcePressure p)
     = (if (IsValid (rp_EvidenceMode p) \<longrightarrow> rp_EvidenceMode p = ModeDegraded) \<and> rp_FallbackReason p = []
        then ''resource pressure sampler not configured or local cgroup pressure files unavailable''
        else rp_FallbackReason p)"
    by (auto simp: normalizeResourcePressure_def Let_def)
qed

lemma normalize_normal: "pressure_number p \<Longrightarrow> pressure_normal (normalizeResourcePressure p)"
  by (auto simp: pressure_normal_def pressure_number_def normalize_sel normalize_mode
        intro!: round3_unit clamp_unit)

lemma round3_clamp_idem: "x \<noteq> NaN \<Longrightarrow> round3 (clamp (round3 (clamp x 0 1)) 0 1) = round3 (clamp x 0 1)"
  by (simp add: clamp_unit_id [OF round3_unit [OF clamp_unit]] round3_idem [OF clamp_unit])

lemma normalize_idem:
  "pressure_number p \<Longrightarrow>
     normalizeResourcePressure (normalizeResourcePressure p) = normalizeResourcePressure p"
  by (rule ResourcePressure.equality)
     (simp_all add: normalize_sel normalize_mode round3_clamp_idem pressure_number_def)

text \<open>The integers of a candidate are Go integers.\<close>

definition agent_in_range :: "AVP \<Rightarrow> bool" where
  "agent_in_range a \<longleftrightarrow> int_in_range (avp_MemoryCurrent a) \<and> int_in_range (avp_PidsCurrent a)
     \<and> int_in_range (avp_Priority a)"

lemma bnd_go_int: "int_in_range z \<Longrightarrow> bnd 63 (f64_of_int z)"
  by (rule bnd_of_int) (auto simp: int_in_range_def abs_le_iff)

lemma bnd_u64: "bnd 64 (f64_of_int (uint (w :: u64)))"
proof (rule bnd_of_int)
  have "0 \<le> uint w" "uint w < 2 ^ 64" using uint_lt2p [of w] by simp_all
  then show "\<bar>uint w\<bar> \<le> 2 ^ 64" by linarith
qed simp

lemma clamp_ratio_unit: "bnd k x \<Longrightarrow> 1 \<le> q \<Longrightarrow> k \<le> 1000 \<Longrightarrow> unit_range (clamp (x div Fin q) 0 1)"
  by (rule clamp_unit) (rule bnd_not_NaN [OF bnd_div])

lemma vruntime_score_bnd: "bnd 10 (Fin 1000 div (Fin 1 + f64_of_int (uint (w :: u64))))"
proof -
  have nonneg: "0 \<le> uint w" and "uint w < 2 ^ 64" using uint_lt2p [of w] by simp_all
  then have "\<bar>uint w\<bar> \<le> 2 ^ 64" by linarith
  then have u: "\<bar>of_int (uint w) :: rat\<bar> \<le> 2 ^ 64"
    by (metis of_int_abs of_int_le_iff of_int_numeral of_int_power)
  then obtain p where p: "f64_of_int (uint w) = Fin p" "p = rnd (of_int (uint w))"
    using round64_bnd [OF u] by (simp add: f64_of_int_def)
  have "(0 :: rat) \<le> of_int (uint w)" using nonneg by (simp only: of_int_0_le_iff)
  then have "0 \<le> p" unfolding p(2) by (rule dbl.lower) simp
  moreover have "\<bar>p\<bar> \<le> 2 ^ 64" using round64_bnd [OF u] p(2) by simp
  ultimately have "\<bar>1 + p\<bar> \<le> 2 ^ 65" by simp
  then have sum: "Fin 1 + Fin p = Fin (rnd (1 + p))" using round64_bnd [of "1 + p" 65] by (simp add: plus_f64_def)
  have "1 \<le> rnd (1 + p)" using \<open>0 \<le> p\<close> by (intro dbl.lower) simp_all
  then have "bnd 10 (Fin 1000 div Fin (rnd (1 + p)))" by (intro bnd_div) simp_all
  then show ?thesis by (simp add: p(1) sum)
qed

lemma final_score_bnd:
  assumes p: "pressure_number p" and a: "agent_in_range a" and sh: "int_in_range sh"
  shows "bnd 85 (cand_FinalScore (resourceAwareScore p a sh))"
proof -
  let ?g = "normalizeResourcePressure p"
  have g: "unit_range (rp_MemoryPressure ?g)" "unit_range (rp_PidsPressure ?g)"
    "unit_range (rp_CPUThrottlePressure ?g)" "unit_range (rp_PSIPressure ?g)"
    using normalize_normal [OF p] by (simp_all add: pressure_normal_def)
  have ints: "bnd 63 (f64_of_int (avp_MemoryCurrent a))" "bnd 63 (f64_of_int (avp_PidsCurrent a))"
    "bnd 63 (f64_of_int (avp_Priority a))" "bnd 63 (f64_of_int sh)"
    using a sh by (simp_all add: agent_in_range_def bnd_go_int)
  define mem where "mem = maxFloat (rp_MemoryPressure ?g)
      (clamp (f64_of_int (avp_MemoryCurrent a) div Fin (1024 * 1024 * 1024)) 0 1)"
  define pids where "pids = maxFloat (rp_PidsPressure ?g) (clamp (f64_of_int (avp_PidsCurrent a) div Fin 64) 0 1)"
  define cpu where "cpu = (case avp_CPUStat a of None \<Rightarrow> rp_CPUThrottlePressure ?g
         | Some m \<Rightarrow> maxFloat (maxFloat (rp_CPUThrottlePressure ?g)
               (clamp (cpu_stat m ''nr_throttled'' div Fin 100) 0 1))
             (clamp (cpu_stat m ''throttled_usec'' div Fin 10000000) 0 1))"
  define vr where "vr = Fin 1000 div (Fin 1 + f64_of_int (uint (avp_VRuntime a)))"
  have "unit_range mem" unfolding mem_def
    by (rule maxFloat_unit [OF g(1)], rule clamp_ratio_unit [OF ints(1)]) simp_all
  moreover have "unit_range pids" unfolding pids_def
    by (rule maxFloat_unit [OF g(2)], rule clamp_ratio_unit [OF ints(2)]) simp_all
  moreover have "unit_range cpu"
  proof (cases "avp_CPUStat a")
    case (Some m)
    have "unit_range (clamp (cpu_stat m k div Fin q) 0 1)" if "1 \<le> q" for k q
      unfolding cpu_stat_def by (rule clamp_ratio_unit [OF bnd_u64 that]) simp
    then show ?thesis using g(3) Some by (simp add: cpu_def maxFloat_unit)
  qed (use g(3) in \<open>simp add: cpu_def\<close>)
  ultimately have units: "bnd 0 mem" "bnd 0 pids" "bnd 0 cpu" "bnd 0 (rp_PSIPressure ?g)"
    using g(4) by (simp_all add: bnd_unit)
  have terms: "bnd 8 (mem * Fin 180)" "bnd 8 (pids * Fin 160)" "bnd 8 (cpu * Fin 120)"
    "bnd 8 (rp_PSIPressure ?g * Fin 90)" "bnd 68 (f64_of_int sh * Fin 30)"
    "bnd 66 (f64_of_int (avp_Priority a) * Fin 5)"
    using bnd_mult [OF units(1), of 8 "Fin 180"] bnd_mult [OF units(2), of 8 "Fin 160"]
      bnd_mult [OF units(3), of 8 "Fin 120"] bnd_mult [OF units(4), of 8 "Fin 90"]
      bnd_mult [OF ints(4), of 5 "Fin 30"] bnd_mult [OF ints(3), of 3 "Fin 5"] by simp_all
  have "bnd 69 (vr + f64_of_int sh * Fin 30)"
    using bnd_add [of 68 vr "f64_of_int sh * Fin 30"] vruntime_score_bnd [of "avp_VRuntime a"] terms(5)
    by (simp add: vr_def bnd_mono [of 10])
  then have "bnd 70 (vr + f64_of_int sh * Fin 30 + f64_of_int (avp_Priority a) * Fin 5)"
    using bnd_add [of 69 "vr + f64_of_int sh * Fin 30" "f64_of_int (avp_Priority a) * Fin 5"] terms(6)
    by (simp add: bnd_mono [of 66])
  then have "bnd 71 (vr + f64_of_int sh * Fin 30 + f64_of_int (avp_Priority a) * Fin 5 - mem * Fin 180)"
    using bnd_minus [of 70 _ "mem * Fin 180"] terms(1) by (simp add: bnd_mono [of 8])
  then have "bnd 72 (vr + f64_of_int sh * Fin 30 + f64_of_int (avp_Priority a) * Fin 5 - mem * Fin 180
      - pids * Fin 160)"
    using bnd_minus [of 71 _ "pids * Fin 160"] terms(2) by (simp add: bnd_mono [of 8])
  then have "bnd 73 (vr + f64_of_int sh * Fin 30 + f64_of_int (avp_Priority a) * Fin 5 - mem * Fin 180
      - pids * Fin 160 - cpu * Fin 120)"
    using bnd_minus [of 72 _ "cpu * Fin 120"] terms(3) by (simp add: bnd_mono [of 8])
  then have "bnd 74 (vr + f64_of_int sh * Fin 30 + f64_of_int (avp_Priority a) * Fin 5 - mem * Fin 180
      - pids * Fin 160 - cpu * Fin 120 - rp_PSIPressure ?g * Fin 90)"
    using bnd_minus [of 73 _ "rp_PSIPressure ?g * Fin 90"] terms(4) by (simp add: bnd_mono [of 8])
  from bnd_round3 [OF this] show ?thesis
    by (simp add: resourceAwareScore_def Let_def mem_def pids_def cpu_def vr_def)
qed

section \<open>Properties\<close>

definition zero_rp :: ResourcePressure where "zero_rp = zero_ResourcePressure"

text \<open>Agents for the concrete runs.\<close>

definition some_agent :: "string \<Rightarrow> AgentState \<Rightarrow> u64 \<Rightarrow> string list \<Rightarrow> int \<Rightarrow> AVP" where
  "some_agent i st v pages t = zero_AVP\<lparr>avp_AgentID := i, avp_State := st, avp_VRuntime := v,
     avp_PageTable := pages, avp_CreatedAt := t, avp_Priority := 100, avp_Weight := 100\<rparr>"

definition some_agents :: "AVP list" where
  "some_agents = [some_agent ''a'' StateReady 40 [''p''] 1, some_agent ''b'' StateRunning 0 [] 2,
     some_agent ''c'' StateReady 10 [] 3, some_agent ''d'' StateReady 30 [''p'', ''q''] 2]"

definition prefix_scheduler :: "string \<Rightarrow> Scheduler" where
  "prefix_scheduler policy = RememberLast (some_agent ''last'' StateReady 0 [''p'', ''q''] 0) (scheduler_New policy)"

text \<open>
  C29. \<open>Select\<close> returns an agent exactly when some candidate is READY; the agent is then one of
  the READY candidates, the scheduler remembers it and appends one decision to its log, and the
  decision names that agent, the task, the policy in force and the READY candidates in their
  order. Otherwise the scheduler is unchanged.
\<close>

theorem Select_sound:
  "case Select clk taskID cands s of
      (None, s') \<Rightarrow> filter (\<lambda>c. avp_State c = StateReady) cands = [] \<and> s' = s
    | (Some (a, d), s') \<Rightarrow> a \<in> set cands \<and> avp_State a = StateReady
        \<and> s' = s\<lparr>sch_last := Some a, sch_decisions := sch_decisions s @ [d]\<rparr>
        \<and> dl_SelectedAgent d = avp_AgentID a \<and> dl_SelectedTask d = taskID \<and> dl_Policy d = sch_policy s
        \<and> dl_Candidates d = map avp_AgentID (filter (\<lambda>c. avp_State c = StateReady) cands)"
proof -
  obtain res s' where sel: "Select clk taskID cands s = (res, s')" by fastforce
  then show ?thesis
  proof (cases rule: Select_cases)
    case idle
    with sel show ?thesis by (simp add: readyAgents_def)
  next
    case (picks a d reason shared scores)
    have "a \<in> set (readyAgents cands)" by (rule selectLocked_mem [OF picks(1,3)])
    with sel picks show ?thesis
      by (simp add: readyAgents_mem makeDecisionLocked_def Let_def flip: readyAgents_def)
  qed
qed

text \<open>
  Under \<open>token-cfs\<close> the selected agent has the least virtual runtime of the READY candidates,
  then the earliest creation time, then the first place in the list; under \<open>fifo\<close> the earliest
  creation time, then the first place.
\<close>

lemma vruntime_before_alt: "vruntime_before = (\<lambda>a b. avp_VRuntime a < avp_VRuntime b
    \<or> avp_VRuntime a = avp_VRuntime b \<and> avp_CreatedAt a < avp_CreatedAt b)"
  by (auto simp: fun_eq_iff vruntime_before_def)

lemma created_before_alt: "created_before = (\<lambda>a b. avp_CreatedAt a < avp_CreatedAt b)"
  by (simp add: fun_eq_iff created_before_def)

theorem Select_first_minimum:
  assumes "Select clk taskID cands s = (Some (a, d), s')"
    and "sch_policy s = PolicyTokenCFS \<and> lt = (\<lambda>a b. avp_VRuntime a < avp_VRuntime b
            \<or> avp_VRuntime a = avp_VRuntime b \<and> avp_CreatedAt a < avp_CreatedAt b)
      \<or> sch_policy s = PolicyFIFO \<and> lt = (\<lambda>a b. avp_CreatedAt a < avp_CreatedAt b)"
    and "ready = filter (\<lambda>c. avp_State c = StateReady) cands"
  shows "\<exists>i < length ready. a = ready ! i \<and> (\<forall>c \<in> set ready. \<not> lt c a) \<and> (\<forall>j < i. lt a (ready ! j))"
  using assms(1)
proof (cases rule: Select_cases)
  case (picks a' d' reason shared scores)
  have ready: "ready = readyAgents cands" by (simp add: assms(3) readyAgents_def)
  have lt: "sch_policy s = PolicyTokenCFS \<and> lt = vruntime_before \<or> sch_policy s = PolicyFIFO \<and> lt = created_before"
    using assms(2) unfolding vruntime_before_alt created_before_alt .
  have ne: "PolicyFIFO \<noteq> PolicyTokenCFS" "PolicyFIFO \<noteq> PolicyTokenCFSPrefixAffinity"
    "PolicyFIFO \<noteq> PolicyTokenCFSPrefixAffinityResourceAware"
    by (simp_all add: policy_defs)
  have a: "a = hd (sort_by lt (readyAgents cands))"
    using picks(2,3) lt ne by (auto simp: selectLocked_def minVRuntime_def fifo_def)
  have "strict_weak lt"
    using lt vruntimes.strict_weak_axioms creation.strict_weak_axioms by blast
  from strict_weak.hd_sort_by_first [OF this picks(1)] strict_weak.hd_sort_by_min [OF this, of _ "readyAgents cands"]
  show ?thesis unfolding a ready by metis
qed simp

definition zero_clk :: clock where "zero_clk = (\<lambda>i. at_ms 0)"

lemma some_ready: "readyAgents some_agents = [some_agents ! 0, some_agents ! 2, some_agents ! 3]"
  by (simp add: readyAgents_def some_agents_def some_agent_def)

lemma some_min: "minVRuntime (readyAgents some_agents) = some_agents ! 2"
  by (simp add: some_ready minVRuntime_def) (simp add: some_agents_def some_agent_def vruntime_before_def)

lemma Select_first_minimum_witness:
  "\<exists>i < length (filter (\<lambda>c. avp_State c = StateReady) some_agents).
     some_agents ! 2 = filter (\<lambda>c. avp_State c = StateReady) some_agents ! i
     \<and> (\<forall>c \<in> set (filter (\<lambda>c. avp_State c = StateReady) some_agents).
          \<not> avp_VRuntime c < avp_VRuntime (some_agents ! 2))"
proof -
  let ?s = "prefix_scheduler PolicyTokenCFS"
  have pol: "sch_policy ?s = PolicyTokenCFS"
    by (simp add: prefix_scheduler_def RememberLast_def scheduler_New_def policy_defs)
  have "fst (Select zero_clk ''t'' some_agents ?s) = Some (some_agents ! 2, makeDecisionLocked zero_clk ''t''
      (readyAgents some_agents) (some_agents ! 2) ''lowest vruntime'' None None ?s)"
    by (simp add: Select_def Let_def selectLocked_def pol some_min) (simp add: some_ready)
  then obtain d s' where sel: "Select zero_clk ''t'' some_agents ?s = (Some (some_agents ! 2, d), s')"
    by (metis prod.collapse)
  from Select_first_minimum [OF sel disjI1 [OF conjI [OF pol refl]] refl] show ?thesis by blast
qed

text \<open>
  C30. Bounded unfairness of prefix affinity: the selected agent is the one with the least
  virtual runtime, or it shares more pages with the previously selected agent than that one does,
  and its virtual runtime is within the threshold of the least; and no READY candidate within
  the threshold shares more pages than the selected one.
\<close>

theorem prefix_affinity_bounded:
  assumes "Select clk taskID cands s = (Some (a, d), s')"
    and "ready = filter (\<lambda>c. avp_State c = StateReady) cands"
    and "sch_policy s = PolicyTokenCFSPrefixAffinity" and "sch_last s \<noteq> None"
    and "base = minVRuntime ready"
    and "shared = (\<lambda>c. get0 (sharedPages ready s) (avp_AgentID c))"
  shows "(a = base \<or> shared base < shared a
        \<and> vruntimeDistance (avp_VRuntime a) (avp_VRuntime base) \<le> sch_affinityThreshold s)
    \<and> (\<forall>c \<in> set ready.
          vruntimeDistance (avp_VRuntime c) (avp_VRuntime base) \<le> sch_affinityThreshold s \<longrightarrow> shared c \<le> shared a)"
  using assms(1)
proof (cases rule: Select_cases)
  case (picks a' d' reason sh scores)
  have ready: "readyAgents cands = ready" by (simp add: assms(2) readyAgents_def)
  obtain best n where loop: "affinity_loop (sch_affinityThreshold s) (avp_VRuntime base)
      (sharedPages ready s) ready base (shared base) = (best, n)" by fastforce
  have a: "a = (if avp_AgentID best \<noteq> avp_AgentID base then best else base)"
    using picks(2,3) assms(3,4) loop
    by (auto simp: selectLocked_def selectPrefixAffinity_def Let_def assms(5,6) policy_defs ready split: if_splits)
  note spec = affinity_loop_spec [OF loop]
  have n: "n = shared best" using spec assms(6) by auto
  have "shared a = shared best" using a assms(6) by simp
  then show ?thesis using spec n a assms(6) by auto
qed simp

lemma Select_some:
  assumes "readyAgents cands \<noteq> []"
  obtains a d s' where "Select clk taskID cands s = (Some (a, d), s')"
proof -
  obtain res s' where sel: "Select clk taskID cands s = (res, s')" by fastforce
  then show ?thesis by (cases rule: Select_cases) (use assms sel that in auto)
qed

lemma prefix_affinity_bounded_witness:
  "\<exists>a. (a = some_agents ! 2 \<or> vruntimeDistance (avp_VRuntime a) (avp_VRuntime (some_agents ! 2)) \<le> 50)"
proof -
  let ?s = "prefix_scheduler PolicyTokenCFSPrefixAffinity"
  have s: "sch_policy ?s = PolicyTokenCFSPrefixAffinity" "sch_last ?s \<noteq> None" "sch_affinityThreshold ?s = 50"
    by (simp_all add: prefix_scheduler_def RememberLast_def scheduler_New_def policy_defs)
  have "readyAgents some_agents \<noteq> []" by (simp add: some_ready)
  then obtain a d s' where sel: "Select zero_clk ''t'' some_agents ?s = (Some (a, d), s')"
    by (rule Select_some)
  from prefix_affinity_bounded [OF sel refl s(1,2) some_min [unfolded readyAgents_def, symmetric] refl] show ?thesis
    unfolding s(3) by blast
qed




definition odd_pressure :: ResourcePressure where
  "odd_pressure = \<lparr>rp_MemoryPressure = PInf, rp_PidsPressure = Fin (- 3), rp_CPUThrottlePressure = Fin (1 / 4),
     rp_PSIPressure = Fin (1 / 1024), rp_EvidenceMode = ''guess'', rp_FallbackReason = []\<rparr>"


text \<open>
  The virtual runtime that \<open>ChargeTokens\<close> adds for a positive number of tokens is the whole
  number of weights, and at least one: with a weight that is not positive replaced by 100, and
  exact as long as the sum stays below \<open>2^64\<close>.
\<close>

theorem ChargeTokens_advances:
  assumes "0 < tokens" and "w = (if avp_Weight a \<le> 0 then 100 else avp_Weight a)"
    and "uint (avp_VRuntime a) + max 1 (tokens div w) < 2 ^ 64"
  shows "uint (avp_VRuntime (ChargeTokens a tokens)) = uint (avp_VRuntime a) + max 1 (tokens div w)
    \<and> avp_ConsumedTokens (ChargeTokens a tokens) = avp_ConsumedTokens a + tokens
    \<and> avp_AgentID (ChargeTokens a tokens) = avp_AgentID a \<and> avp_State (ChargeTokens a tokens) = avp_State a"
proof -
  have w: "0 < w" using assms(2) by (simp split: if_splits)
  have q: "go_div tokens w = tokens div w" using assms(1) w by (simp add: go_div_nonneg)
  have nn: "0 \<le> tokens div w" using assms(1) w by (simp add: pos_imp_zdiv_nonneg_iff)
  define n where "n = max 1 (tokens div w)"
  have v: "avp_VRuntime (ChargeTokens a tokens) = avp_VRuntime a + word_of_int n"
    using assms(1) nn by (auto simp: ChargeTokens_def Let_def q n_def max_def simp flip: assms(2))
  have "0 \<le> uint (avp_VRuntime a)" by simp
  then have n: "0 \<le> n" "n < 2 ^ 64" using nn assms(3) unfolding n_def by linarith+
  have "uint (avp_VRuntime a + word_of_int n) = uint (avp_VRuntime a) + n"
    using assms(3) n by (simp add: uint_word_ariths take_bit_int_eq_self uint_word_of_int n_def)
  then show ?thesis unfolding v n_def by (simp add: ChargeTokens_def Let_def)
qed

lemma ChargeTokens_advances_witness:
  "uint (avp_VRuntime (ChargeTokens (some_agent ''a'' StateReady 5 [] 0) 250)) = 7
   \<and> uint (avp_VRuntime (ChargeTokens (some_agent ''a'' StateReady 5 [] 0) 3)) = 6"
  using ChargeTokens_advances [of 250 100 "some_agent ''a'' StateReady 5 [] 0"]
    ChargeTokens_advances [of 3 100 "some_agent ''a'' StateReady 5 [] 0"]
  by (simp add: some_agent_def)

lemma f64_of_int_exact:
  assumes "\<bar>z\<bar> \<le> 2 ^ 53"
  shows "f64_of_int z = Fin (of_int z)" and "round64 (of_int z) = Fin (of_int z)"
proof -
  have "representable (of_int z)"
  proof (cases "\<bar>z\<bar> < 2 ^ 53")
    case True
    then show ?thesis by (rule representable_of_int)
  next
    case False
    with assms have "z = 2 ^ 53 \<or> z = - (2 ^ 53)" by linarith
    moreover have "representable (2 ^ 53)" by (rule representable_power)
    ultimately show ?thesis using representable_uminus [of "2 ^ 53"] by auto
  qed
  then have r: "rnd (of_int z) = of_int z" by (rule rnd_exact)
  have "\<bar>of_int z :: rat\<bar> \<le> 2 ^ 53" using assms by (metis of_int_abs of_int_le_iff of_int_numeral of_int_power)
  then show "round64 (of_int z) = Fin (of_int z)" using round64_bnd [of "of_int z" 53] r by simp
  then show "f64_of_int z = Fin (of_int z)" by (simp only: f64_of_int_def)
qed

lemma vruntimeDistance_small:
  assumes "uint v \<le> 2 ^ 53" and "uint w \<le> 2 ^ 53"
  shows "vruntimeDistance v w = word_of_int \<bar>uint v - uint w\<bar>"
proof -
  define a b where "a = uint v" and "b = uint w"
  have nn: "0 \<le> a" "0 \<le> b" by (simp_all add: a_def b_def)
  then have le: "\<bar>a\<bar> \<le> 2 ^ 53" "\<bar>b\<bar> \<le> 2 ^ 53" "\<bar>a - b\<bar> \<le> 2 ^ 53"
    using assms unfolding a_def [symmetric] b_def [symmetric] by linarith+
  have "Fin (of_int a) - Fin (of_int b) = round64 (of_int (a - b))"
    by (simp add: minus_f64_def)
  then have diff: "f64_of_int a - f64_of_int b = Fin (of_int (a - b))"
    using f64_of_int_exact [OF le(1)] f64_of_int_exact [OF le(2)] f64_of_int_exact [OF le(3)] by simp
  define d where "d = \<bar>a - b\<bar>"
  have d: "0 \<le> d" "d \<le> 2 ^ 53" using le(3) by (simp_all add: d_def)
  have abs: "f64_abs (f64_of_int a - f64_of_int b) = Fin (of_int d)" by (simp add: diff d_def)
  have "(of_int d :: rat) \<le> of_int (2 ^ 53)" using d(2) by (simp only: of_int_le_iff)
  then have "(of_int d :: rat) < 2 ^ 64" by simp
  moreover have "(0 :: rat) \<le> of_int d" using d(1) by simp
  ultimately have "f64_to_u64 (Fin (of_int d)) = word_of_int d"
    by (simp add: f64_to_u64_def rat_trunc_def)
  then show ?thesis by (simp only: vruntimeDistance_def abs a_def [symmetric] b_def [symmetric] d_def [symmetric])
qed

lemma vruntimeDistance_loses_units: "vruntimeDistance (2 ^ 53 + 1) (2 ^ 53) = 0"
proof -
  have u: "uint (2 ^ 53 + 1 :: u64) = 9007199254740993" "uint (2 ^ 53 :: u64) = 9007199254740992" by simp_all
  have "ilog 9007199254740993 = 53" "half_even (9007199254740993 / 2) = 4503599627370496" by code_simp+
  then have "rnd 9007199254740993 = 9007199254740992"
    by (simp add: rnd_def rnd_pos_def ulp_exp_def pow2_def)
  then have "f64_of_int 9007199254740993 = Fin 9007199254740992"
    using round64_bnd [of 9007199254740993 54] by (simp add: f64_of_int_def)
  moreover have "f64_of_int 9007199254740992 = Fin 9007199254740992"
    using f64_of_int_exact(1) [of 9007199254740992] by simp
  moreover have "round64 0 = Fin 0" using f64_of_int_exact(2) [of 0] by simp
  ultimately have "f64_of_int 9007199254740993 - f64_of_int 9007199254740992 = Fin 0"
    by (simp add: minus_f64_def)
  then show ?thesis unfolding vruntimeDistance_def u by (simp add: f64_to_u64_def rat_trunc_def)
qed

text \<open>
  \<open>vruntimeDistance\<close> goes through \<open>float64\<close>: it is the exact distance of two virtual
  runtimes up to \<open>2^53\<close>, but beyond that it loses units: the distance of \<open>2^53 + 1\<close> and \<open>2^53\<close>
  is reported as zero.
\<close>

theorem vruntimeDistance_exact:
  assumes "uint v \<le> 2 ^ 53" and "uint w \<le> 2 ^ 53"
  shows "uint (vruntimeDistance v w) = \<bar>uint v - uint w\<bar>
    \<and> vruntimeDistance (2 ^ 53 + 1) (2 ^ 53) = 0"
proof -
  define d where "d = \<bar>uint v - uint w\<bar>"
  have "(2 ^ 53 :: int) < 2 ^ 64" "0 \<le> uint v" "0 \<le> uint w" by simp_all
  then have d: "0 \<le> d" "d < 2 ^ 64" using assms unfolding d_def by linarith+
  have "uint (word_of_int d :: u64) = d" using d by (simp add: uint_word_of_int take_bit_int_eq_self)
  moreover have "vruntimeDistance v w = word_of_int d" unfolding d_def by (rule vruntimeDistance_small [OF assms])
  ultimately show ?thesis using vruntimeDistance_loses_units unfolding d_def by simp
qed

lemma vruntimeDistance_exact_witness: "uint (vruntimeDistance 7 90) = 83"
  using vruntimeDistance_exact [of 7 90] by simp

end
