(* ===== verification/Supervisor.thy ===== *)
theory Supervisor
  imports Events
begin

text \<open>
  The fault supervisor (\<open>internal/supervisor/supervisor.go\<close>): an append-only log of fault records,
  each published as a \<open>supervisor.detected\<close> event after the lock is released.
\<close>

definition FaultToolTimeout :: string where "FaultToolTimeout = ''TOOL_TIMEOUT''"
definition FaultToolExitNonZero :: string where "FaultToolExitNonZero = ''TOOL_EXIT_NONZERO''"
definition FaultAgentHeartbeatLost :: string where "FaultAgentHeartbeatLost = ''AGENT_HEARTBEAT_LOST''"
definition FaultPidsLimit :: string where "FaultPidsLimit = ''PIDS_LIMIT''"
definition FaultWorkspaceRollback :: string where "FaultWorkspaceRollback = ''WORKSPACE_ROLLBACK''"
definition FaultRetryLimit :: string where "FaultRetryLimit = ''RETRY_LIMIT''"
definition StatusRecovered :: string where "StatusRecovered = ''RECOVERED''"
definition StatusOpen :: string where "StatusOpen = ''OPEN''"

record Fault =
  flt_Type :: string
  flt_TaskID :: string
  flt_AgentID :: string
  flt_RecoveryAction :: string
  flt_Details :: payload

record FaultRecord =
  frec_ID :: string
  frec_Type :: string
  frec_TaskID :: string
  frec_AgentID :: string
  frec_Status :: string
  frec_RecoveryAction :: string
  frec_Details :: payload
  frec_DetectedAt :: int

record Supervisor =
  sup_sink :: bool
  sup_records :: "FaultRecord list"

definition supervisor_New :: "bool \<Rightarrow> Supervisor" where
  "supervisor_New sink = \<lparr>sup_sink = sink, sup_records = []\<rparr>"

definition sup_Record :: "clock \<Rightarrow> Fault \<Rightarrow> Supervisor \<Rightarrow> FaultRecord \<times> Supervisor \<times> Event list" where
  "sup_Record clk fault m = (let
       status = (if flt_RecoveryAction fault = [] then StatusOpen else StatusRecovered);
       r = \<lparr>frec_ID = stamp (clk 0), frec_Type = flt_Type fault, frec_TaskID = flt_TaskID fault,
         frec_AgentID = flt_AgentID fault, frec_Status = status,
         frec_RecoveryAction = flt_RecoveryAction fault, frec_Details = flt_Details fault,
         frec_DetectedAt = unix_ms (clk 0)\<rparr>
     in (r, m\<lparr>sup_records := sup_records m @ [r]\<rparr>,
         if sup_sink m
         then [new_event (later 1 clk) ''supervisor.detected'' (frec_TaskID r) (frec_AgentID r) ''supervisor''
                [(''fault_type'', GStr (frec_Type r)), (''status'', GStr (frec_Status r)),
                 (''recovery_action'', GStr (frec_RecoveryAction r)), (''details'', GMap (frec_Details r))]]
         else []))"

definition sup_Records :: "Supervisor \<Rightarrow> FaultRecord list" where
  "sup_Records m = sup_records m"

lemma sup_Record_log [go_frame]:
  "sup_Record clk fault m = (r, m', ev) \<Longrightarrow> sup_records m' = sup_records m @ [r] \<and> sup_sink m' = sup_sink m"
  by (auto simp: sup_Record_def Let_def)

end
