(* ===== verification/Registry.thy ===== *)
theory Registry
  imports Avp
begin

text \<open>
  The worker registry and its protocol (\<open>internal/worker/registry.go\<close>, \<open>protocol.go\<close>, \<open>server.go\<close>,
  \<open>launcher.go\<close>). Every operation of the registry holds its mutex throughout; \<open>register\<close> calls the
  \<open>onRegister\<close> callback after releasing it, which the model returns as the agent it is called with.
  The connection handler reads a sequence of decoded messages; the syscall handler behind it is an
  argument, a function on a state of its own.
\<close>

section \<open>Protocol\<close>

definition MessageRegister :: string where "MessageRegister = ''register''"
definition MessageHeartbeat :: string where "MessageHeartbeat = ''heartbeat''"
definition MessageReport :: string where "MessageReport = ''report''"
definition MessageSyscall :: string where "MessageSyscall = ''syscall''"
definition MessageSyscallResult :: string where "MessageSyscallResult = ''syscall.result''"

lemmas message_defs = MessageRegister_def MessageHeartbeat_def MessageReport_def MessageSyscall_def
  MessageSyscallResult_def

record WMessage =
  wm_Type :: string
  wm_RequestID :: string
  wm_AgentID :: string
  wm_Role :: string
  wm_TaskID :: string
  wm_PID :: int
  wm_Status :: string
  wm_Name :: string
  wm_Args :: "payload option"
  wm_Payload :: "payload option"

record WResponse =
  wr_Type :: string
  wr_RequestID :: string
  wr_AgentID :: string
  wr_TaskID :: string
  wr_Status :: string
  wr_Error :: string
  wr_Payload :: "payload option"

section \<open>Registry\<close>

record Registry =
  reg_agents :: "string \<rightharpoonup> AVP"
  reg_sink :: bool
  reg_onRegister :: bool           \<comment> \<open>whether a callback is set\<close>

definition NewRegistry :: "bool \<Rightarrow> Registry" where
  "NewRegistry sink = \<lparr>reg_agents = Map.empty, reg_sink = sink, reg_onRegister = False\<rparr>"

definition reg_publish :: "clock \<Rightarrow> string \<Rightarrow> AVP \<Rightarrow> payload \<Rightarrow> Registry \<Rightarrow> Event list" where
  "reg_publish clk eventType agent payload r = (if \<not> reg_sink r then []
     else [new_event clk eventType (avp_TaskID agent) (avp_AgentID agent) ''runtime'' payload])"

text \<open>The read \<open>r.agents[agentID]\<close>: the zero \<open>AVP\<close> for an unknown agent.\<close>

definition reg_read :: "Registry \<Rightarrow> string \<Rightarrow> AVP" where
  "reg_read r agentID = (case reg_agents r agentID of None \<Rightarrow> zero_AVP | Some a \<Rightarrow> a)"

definition reg_put :: "string \<Rightarrow> AVP \<Rightarrow> Registry \<Rightarrow> Registry" where
  "reg_put agentID agent r = r\<lparr>reg_agents := (reg_agents r)(agentID \<mapsto> agent)\<rparr>"

definition new_worker_agent :: "int \<Rightarrow> string \<Rightarrow> string \<Rightarrow> string \<Rightarrow> AVP" where
  "new_worker_agent now agentID role taskID = zero_AVP\<lparr>avp_AgentID := agentID, avp_TaskID := taskID,
     avp_Role := role, avp_State := StateCreated, avp_Priority := 100, avp_Weight := 100,
     avp_CreatedAt := now, avp_UpdatedAt := now\<rparr>"

definition CreateAgent ::
    "clock \<Rightarrow> string \<Rightarrow> string \<Rightarrow> string \<Rightarrow> Registry \<Rightarrow> AVP \<times> Registry \<times> Event list" where
  "CreateAgent clk agentID role taskID r = (let agent = new_worker_agent (unix_ms (clk 0)) agentID role taskID;
       r' = reg_put agentID agent r
     in (agent, r', reg_publish (later 1 clk) ''agent.created'' agent [(''role'', GStr role)] r'))"

definition reg_Get :: "string \<Rightarrow> Registry \<Rightarrow> AVP option" where
  "reg_Get agentID r = reg_agents r agentID"

definition reg_List :: "string list \<Rightarrow> Registry \<Rightarrow> AVP list" where
  "reg_List ks r = range_values (reg_agents r) ks"

definition ListByTask :: "string list \<Rightarrow> string \<Rightarrow> Registry \<Rightarrow> AVP list" where
  "ListByTask ks taskID r = filter (\<lambda>a. avp_TaskID a = taskID) (range_values (reg_agents r) ks)"

definition SetOnRegister :: "Registry \<Rightarrow> Registry" where
  "SetOnRegister r = r\<lparr>reg_onRegister := True\<rparr>"

definition SetCapsule :: "clock \<Rightarrow> string \<Rightarrow> string \<Rightarrow> string \<Rightarrow> Registry \<Rightarrow> Registry \<times> Event list" where
  "SetCapsule clk agentID cgroupPath mode r = (let
       agent = (reg_read r agentID)\<lparr>avp_CgroupPath := cgroupPath, avp_CapsuleMode := mode,
         avp_UpdatedAt := unix_ms (clk 0)\<rparr>;
       r' = reg_put agentID agent r
     in (r', reg_publish (later 1 clk) ''agent.capsule_attached'' agent
               [(''cgroup_path'', GStr cgroupPath), (''mode'', GStr mode)] r'))"

definition SetWorkspace :: "clock \<Rightarrow> string \<Rightarrow> string \<Rightarrow> Registry \<Rightarrow> Registry \<times> Event list" where
  "SetWorkspace clk agentID workspacePath r = (let
       agent = (reg_read r agentID)\<lparr>avp_WorkspacePath := workspacePath, avp_UpdatedAt := unix_ms (clk 0)\<rparr>;
       r' = reg_put agentID agent r
     in (r', reg_publish (later 1 clk) ''agent.workspace_attached'' agent
               [(''workspace_path'', GStr workspacePath)] r'))"

definition SetState :: "clock \<Rightarrow> string \<Rightarrow> AgentState \<Rightarrow> Registry \<Rightarrow> Registry \<times> Event list" where
  "SetState clk agentID state r = (let
       agent = (reg_read r agentID)\<lparr>avp_State := state, avp_UpdatedAt := unix_ms (clk 0)\<rparr>;
       r' = reg_put agentID agent r
     in (r', reg_publish (later 1 clk) ''agent.state_changed'' agent [(''state'', GStr (state_str state))] r'))"

definition RestoreAgent :: "clock \<Rightarrow> AVP \<Rightarrow> Registry \<Rightarrow> Registry \<times> Event list" where
  "RestoreAgent clk agent0 r = (let now = unix_ms (clk 0);
       a1 = (if avp_CreatedAt agent0 = 0 then agent0\<lparr>avp_CreatedAt := now\<rparr> else agent0);
       a2 = (if avp_UpdatedAt a1 = 0 then a1\<lparr>avp_UpdatedAt := now\<rparr> else a1);
       a3 = (if avp_Priority a2 = 0 then a2\<lparr>avp_Priority := 100\<rparr> else a2);
       agent = (if avp_Weight a3 = 0 then a3\<lparr>avp_Weight := 100\<rparr> else a3);
       r' = reg_put (avp_AgentID agent) agent r
     in (r', reg_publish (later 1 clk) ''agent.recovered'' agent
               [(''state'', GStr (state_str (avp_State agent))), (''vruntime'', GUint64 (avp_VRuntime agent))] r'))"

text \<open>
  \<open>MarkHeartbeatLost\<close>: \<open>now\<close> and \<open>timeout\<close> are in nanoseconds, \<open>UnixMilli\<close> rounds down; \<open>ks\<close> is the
  order of the range over the agents.
\<close>

definition heartbeat_lost :: "int \<Rightarrow> AVP \<Rightarrow> bool" where
  "heartbeat_lost threshold agent \<longleftrightarrow> \<not> (avp_PID agent = 0 \<or> avp_LastSeen agent = 0
     \<or> avp_State agent = StateFailed \<or> avp_State agent = StateKilled) \<and> avp_LastSeen agent < threshold"

fun lost_loop :: "clock \<Rightarrow> int \<Rightarrow> int \<Rightarrow> string list \<Rightarrow> AVP list \<Rightarrow> Event list \<Rightarrow> Registry
     \<Rightarrow> AVP list \<times> Registry \<times> Event list" where
  "lost_loop clk nowMs threshold [] failed ev r = (failed, r, ev)"
| "lost_loop clk nowMs threshold (k # ks) failed ev r =
     (case reg_agents r k of
        None \<Rightarrow> lost_loop clk nowMs threshold ks failed ev r
      | Some agent0 \<Rightarrow>
          if heartbeat_lost threshold agent0
          then let agent = agent0\<lparr>avp_State := StateFailed, avp_UpdatedAt := nowMs\<rparr>;
                   r' = reg_put k agent r;
                   ev1 = reg_publish clk ''agent.heartbeat_lost'' agent [(''last_seen'', GInt64 (avp_LastSeen agent))] r';
                   ev2 = reg_publish (later 2 clk) ''agent.state_changed'' agent
                           [(''state'', GStr (state_str (avp_State agent)))] r'
               in lost_loop (later 4 clk) nowMs threshold ks (failed @ [agent]) (ev @ ev1 @ ev2) r'
          else lost_loop clk nowMs threshold ks failed ev r)"

definition MarkHeartbeatLost ::
    "clock \<Rightarrow> string list \<Rightarrow> int \<Rightarrow> int \<Rightarrow> Registry \<Rightarrow> AVP list \<times> Registry \<times> Event list" where
  "MarkHeartbeatLost clk ks now timeout r =
     lost_loop clk (now div 1000000) ((now - timeout) div 1000000) ks [] [] r"

definition agentForMessageLocked :: "clock \<Rightarrow> WMessage \<Rightarrow> Registry \<Rightarrow> AVP" where
  "agentForMessageLocked clk message r = (case reg_agents r (wm_AgentID message) of
       Some agent \<Rightarrow> agent
     | None \<Rightarrow> new_worker_agent (unix_ms (clk 0)) (wm_AgentID message) (wm_Role message) (wm_TaskID message))"

text \<open>The second result of \<open>register\<close> is the argument of the \<open>onRegister\<close> call, if one is made.\<close>

definition register :: "clock \<Rightarrow> WMessage \<Rightarrow> Registry \<Rightarrow> Registry \<times> AVP option \<times> Event list" where
  "register clk message r = (let now = unix_ms (clk 1);
       agent = (agentForMessageLocked clk message r)\<lparr>avp_PID := wm_PID message, avp_State := StateRunning,
         avp_LastSeen := now, avp_UpdatedAt := now\<rparr>;
       r' = reg_put (avp_AgentID agent) agent r;
       ev1 = reg_publish (later 2 clk) ''agent.registered'' agent [(''pid'', GInt (wm_PID message))] r';
       ev2 = reg_publish (later 4 clk) ''agent.state_changed'' agent [(''state'', GStr (state_str (avp_State agent)))] r'
     in (r', if reg_onRegister r' then Some agent else None, ev1 @ ev2))"

definition heartbeat :: "clock \<Rightarrow> WMessage \<Rightarrow> Registry \<Rightarrow> Registry" where
  "heartbeat clk message r = (let now = unix_ms (clk 1);
       a1 = (agentForMessageLocked clk message r)\<lparr>avp_LastSeen := now, avp_UpdatedAt := now\<rparr>;
       agent = (if wm_PID message \<noteq> 0 then a1\<lparr>avp_PID := wm_PID message\<rparr> else a1)
     in reg_put (avp_AgentID agent) agent r)"

definition report :: "clock \<Rightarrow> WMessage \<Rightarrow> Registry \<Rightarrow> Registry \<times> Event list" where
  "report clk message r = (let now = unix_ms (clk 1);
       a0 = agentForMessageLocked clk message r;
       a1 = (if wm_Status message \<noteq> [] then a0\<lparr>avp_State := state_of (wm_Status message)\<rparr> else a0);
       agent = a1\<lparr>avp_UpdatedAt := now, avp_LastSeen := now\<rparr>;
       r' = reg_put (avp_AgentID agent) agent r;
       ev1 = reg_publish (later 2 clk) ''agent.report'' agent [(''status'', GStr (wm_Status message))] r';
       ev2 = reg_publish (later 4 clk) ''agent.state_changed'' agent [(''state'', GStr (state_str (avp_State agent)))] r'
     in (r', ev1 @ ev2))"

definition HandleMessage :: "clock \<Rightarrow> WMessage \<Rightarrow> Registry \<Rightarrow> Registry \<times> AVP option \<times> Event list" where
  "HandleMessage clk message r = (
     if wm_Type message = MessageRegister then register clk message r
     else if wm_Type message = MessageHeartbeat then (heartbeat clk message r, None, [])
     else if wm_Type message = MessageReport
     then (case report clk message r of (r', ev) \<Rightarrow> (r', None, ev))
     else (r, None, []))"

section \<open>Connection handler\<close>

type_synonym 'g syscalls = "WMessage \<Rightarrow> 'g \<Rightarrow> WResponse \<times> 'g"

definition uds_handleSyscall :: "'g syscalls option \<Rightarrow> WMessage \<Rightarrow> 'g \<Rightarrow> WResponse \<times> 'g" where
  "uds_handleSyscall syscalls message g = (case syscalls of
       None \<Rightarrow> (\<lparr>wr_Type = MessageSyscallResult, wr_RequestID = wm_RequestID message,
         wr_AgentID = wm_AgentID message, wr_TaskID = wm_TaskID message, wr_Status = ''ERROR'',
         wr_Error = ''syscall handler is not configured'', wr_Payload = None\<rparr>, g)
     | Some h \<Rightarrow> (case h message g of (response, g') \<Rightarrow>
         let r1 = (if wr_Type response = [] then response\<lparr>wr_Type := MessageSyscallResult\<rparr> else response);
             r2 = (if wr_RequestID r1 = [] then r1\<lparr>wr_RequestID := wm_RequestID message\<rparr> else r1)
         in (r2, g')))"

text \<open>
  \<open>handle\<close> on the messages that the decoder delivers before its first error: the responses it
  encodes, in order, the registry and the handler's state. Message \<open>i\<close> uses the readings
  \<open>clks i\<close> of the clock.
\<close>

fun uds_handle ::
    "'g syscalls option \<Rightarrow> (nat \<Rightarrow> clock) \<Rightarrow> WMessage list \<Rightarrow> WResponse list \<Rightarrow> Registry \<Rightarrow> 'g
     \<Rightarrow> WResponse list \<times> Registry \<times> 'g" where
  "uds_handle syscalls clks [] out r g = (out, r, g)"
| "uds_handle syscalls clks (message # ms) out r g =
     (if wm_Type message = MessageSyscall
      then (case uds_handleSyscall syscalls message g of (response, g') \<Rightarrow>
              uds_handle syscalls (clks \<circ> Suc) ms (out @ [response]) r g')
      else uds_handle syscalls (clks \<circ> Suc) ms out (fst (HandleMessage (clks 0) message r)) g)"

section \<open>Launcher\<close>

record Launcher =
  la_Command :: string
  la_SocketPath :: string

record Spec =
  spec_AgentID :: string
  spec_Role :: string
  spec_TaskID :: string

text \<open>\<open>Launcher.Start\<close> up to \<open>cmd.Start\<close>: the program and its arguments.\<close>

definition launcher_argv :: "Launcher \<Rightarrow> Spec \<Rightarrow> (string \<times> string list) result" where
  "launcher_argv l spec = (case Fields (la_Command l) of
       [] \<Rightarrow> Inl (Errorf ''worker command is empty'' [])
     | program # rest \<Rightarrow> Inr (program, rest @ [''--agent-id'', spec_AgentID spec, ''--role'', spec_Role spec,
         ''--task-id'', spec_TaskID spec, ''--sock'', la_SocketPath l, ''--work-ms'', Itoa 800]))"

end
