(* ===== verification/RegistryCorrect.thy ===== *)
theory RegistryCorrect
  imports Registry
begin

text \<open>
  Correctness of the worker registry: every agent stays under its own identifier as long as the
  attribute setters are called for known agents, the heartbeat sweep fails exactly the silent
  agents, and the connection handler answers every syscall once and in order; and two defects, the
  sweep of finished agents and the agents that a setter invents.
\<close>

section \<open>Agents are stored under their identifier\<close>

definition reg_inv :: "Registry \<Rightarrow> bool" where
  "reg_inv r \<longleftrightarrow> (\<forall>k a. reg_agents r k = Some a \<longrightarrow> avp_AgentID a = k)"

lemma reg_put_sel [simp]:
  "reg_agents (reg_put k a r) = (reg_agents r)(k \<mapsto> a)" "reg_sink (reg_put k a r) = reg_sink r"
  "reg_onRegister (reg_put k a r) = reg_onRegister r"
  by (simp_all add: reg_put_def)

lemma reg_inv_put: "reg_inv r \<Longrightarrow> avp_AgentID a = k \<Longrightarrow> reg_inv (reg_put k a r)"
  by (simp add: reg_inv_def)

lemma reg_read_known: "reg_inv r \<Longrightarrow> k \<in> dom (reg_agents r) \<Longrightarrow> avp_AgentID (reg_read r k) = k"
  by (auto simp: reg_inv_def reg_read_def)

lemma new_worker_agent_id [simp]: "avp_AgentID (new_worker_agent now i role task) = i"
  by (simp add: new_worker_agent_def)

lemma agentForMessage_id: "reg_inv r \<Longrightarrow> avp_AgentID (agentForMessageLocked clk m r) = wm_AgentID m"
  by (auto simp: agentForMessageLocked_def reg_inv_def split: option.splits)

lemma reg_inv_register: "reg_inv r \<Longrightarrow> reg_inv (fst (register clk m r))"
  by (simp add: register_def Let_def reg_inv_put)

lemma reg_inv_heartbeat: "reg_inv r \<Longrightarrow> reg_inv (heartbeat clk m r)"
  by (simp add: heartbeat_def Let_def reg_inv_put)

lemma reg_inv_report: "reg_inv r \<Longrightarrow> reg_inv (fst (report clk m r))"
  by (simp add: report_def Let_def reg_inv_put)

lemma reg_inv_HandleMessage [go_inv]: "reg_inv r \<Longrightarrow> reg_inv (fst (HandleMessage clk m r))"
  using reg_inv_report [of r clk m]
  by (auto simp: HandleMessage_def reg_inv_register reg_inv_heartbeat split: prod.splits)

section \<open>The heartbeat sweep\<close>

definition swept :: "int \<Rightarrow> int \<Rightarrow> AVP \<Rightarrow> AVP" where
  "swept nowMs threshold a = (if heartbeat_lost threshold a
     then a\<lparr>avp_State := StateFailed, avp_UpdatedAt := nowMs\<rparr> else a)"

lemma lost_loop_spec:
  assumes "distinct ks" and "lost_loop clk nowMs threshold ks failed ev r = (failed', r', ev')"
  shows "reg_agents r' = (\<lambda>k. if k \<in> set ks then map_option (swept nowMs threshold) (reg_agents r k) else reg_agents r k)
    \<and> failed' = failed @ map (swept nowMs threshold) (filter (heartbeat_lost threshold) (range_values (reg_agents r) ks))
    \<and> length ev' = length ev + (if reg_sink r then 2 * length (filter (heartbeat_lost threshold) (range_values (reg_agents r) ks)) else 0)"
  using assms
proof (induction ks arbitrary: clk failed ev r)
  case (Cons k ks)
  show ?case
  proof (cases "reg_agents r k")
    case None
    have fresh: "k \<notin> set ks" "distinct ks" using Cons.prems(1) by simp_all
    from None Cons.prems(2) have "lost_loop clk nowMs threshold ks failed ev r = (failed', r', ev')" by simp
    from Cons.IH [OF fresh(2) this] None fresh show ?thesis by auto
  next
    case (Some a)
    have fresh: "k \<notin> set ks" "distinct ks" using Cons.prems(1) by simp_all
    show ?thesis
    proof (cases "heartbeat_lost threshold a")
      case False
      with Some Cons.prems(2) have "lost_loop clk nowMs threshold ks failed ev r = (failed', r', ev')" by simp
      from Cons.IH [OF fresh(2) this] Some False fresh show ?thesis by (auto simp: swept_def)
    next
      case True
      let ?a = "a\<lparr>avp_State := StateFailed, avp_UpdatedAt := nowMs\<rparr>"
      obtain ev2 where run: "lost_loop (later 4 clk) nowMs threshold ks (failed @ [?a]) ev2 (reg_put k ?a r)
          = (failed', r', ev')" and ev2: "length ev2 = length ev + (if reg_sink r then 2 else 0)"
        using Cons.prems(2) Some True by (simp add: Let_def reg_publish_def)
      have sw: "swept nowMs threshold a = ?a" using True by (simp add: swept_def)
      have other: "range_values (reg_agents (reg_put k ?a r)) ks = range_values (reg_agents r) ks"
        using range_values_upd [OF fresh(1)] by simp
      note IH = Cons.IH [OF fresh(2) run, unfolded other]
      have "reg_agents r' = (\<lambda>j. if j \<in> set (k # ks) then map_option (swept nowMs threshold) (reg_agents r j) else reg_agents r j)"
        using IH fresh Some sw by (intro ext) simp
      moreover have "failed' = failed @ map (swept nowMs threshold)
          (filter (heartbeat_lost threshold) (range_values (reg_agents r) (k # ks)))"
        using IH Some True sw by simp
      moreover have "length ev' = length ev + (if reg_sink r then 2 * length (filter (heartbeat_lost threshold)
          (range_values (reg_agents r) (k # ks))) else 0)"
        using IH Some True ev2 by simp
      ultimately show ?thesis by blast
    qed
  qed
qed simp

lemma MarkHeartbeatLost_agents:
  assumes "range_order (reg_agents r) ks" and "MarkHeartbeatLost clk ks now timeout r = (failed, r', ev)"
  shows "reg_agents r' k = map_option (swept (now div 1000000) ((now - timeout) div 1000000)) (reg_agents r k)"
proof -
  have "lost_loop clk (now div 1000000) ((now - timeout) div 1000000) ks [] [] r = (failed, r', ev)"
    using assms(2) by (simp add: MarkHeartbeatLost_def)
  from lost_loop_spec [OF range_order_distinct [OF assms(1)] this] range_order_mem [OF assms(1)]
  show ?thesis by (cases "reg_agents r k") auto
qed

lemma reg_inv_MarkHeartbeatLost:
  assumes "range_order (reg_agents r) ks" and "MarkHeartbeatLost clk ks now timeout r = (failed, r', ev)"
    and "reg_inv r"
  shows "reg_inv r'"
  using assms(3) by (auto simp: reg_inv_def MarkHeartbeatLost_agents [OF assms(1,2)] swept_def)

section \<open>Steps\<close>

inductive reg_step :: "Registry \<Rightarrow> Registry \<Rightarrow> bool" where
  step_create: "CreateAgent clk i role task r = (a, r', ev) \<Longrightarrow> reg_step r r'"
| step_message: "HandleMessage clk m r = (r', cb, ev) \<Longrightarrow> reg_step r r'"
| step_on_register: "reg_step r (SetOnRegister r)"
| step_capsule: "i \<in> dom (reg_agents r) \<Longrightarrow> SetCapsule clk i path mode r = (r', ev) \<Longrightarrow> reg_step r r'"
| step_workspace: "i \<in> dom (reg_agents r) \<Longrightarrow> SetWorkspace clk i path r = (r', ev) \<Longrightarrow> reg_step r r'"
| step_state: "i \<in> dom (reg_agents r) \<Longrightarrow> SetState clk i st r = (r', ev) \<Longrightarrow> reg_step r r'"
| step_restore: "RestoreAgent clk a r = (r', ev) \<Longrightarrow> reg_step r r'"
| step_sweep: "range_order (reg_agents r) ks \<Longrightarrow> MarkHeartbeatLost clk ks now timeout r = (failed, r', ev)
    \<Longrightarrow> reg_step r r'"

lemma reg_inv_step: "reg_step r r' \<Longrightarrow> reg_inv r \<Longrightarrow> reg_inv r'"
proof (induction rule: reg_step.induct)
  case (step_message clk m r r' cb ev)
  then show ?case using reg_inv_HandleMessage [of r clk m] by simp
next
  case (step_sweep r ks clk now timeout failed r' ev)
  then show ?case using reg_inv_MarkHeartbeatLost by blast
qed (auto simp: CreateAgent_def SetOnRegister_def SetCapsule_def SetWorkspace_def SetState_def RestoreAgent_def
      Let_def intro!: reg_inv_put, auto simp: reg_inv_def reg_read_def)

interpretation registries: invariant_system "\<lambda>r. \<exists>sink. r = NewRegistry sink" reg_step reg_inv
proof
  show "reg_inv r" if "\<exists>sink. r = NewRegistry sink" for r
    using that by (auto simp: reg_inv_def NewRegistry_def)
qed (rule reg_inv_step)

section \<open>Properties\<close>


definition done_agent :: AVP where
  "done_agent = zero_AVP\<lparr>avp_AgentID := ''a'', avp_State := StateCompleted, avp_PID := 42, avp_LastSeen := 1000\<rparr>"

definition one_agent :: Registry where
  "one_agent = reg_put ''a'' done_agent (NewRegistry True)"

lemma one_agent_order: "range_order (reg_agents one_agent) [''a'']"
  by (simp add: range_order_def one_agent_def NewRegistry_def)


text \<open>
  A finished agent does not stay finished: once its worker process has exited and its
  heartbeats have stopped, the sweep turns a COMPLETED agent into a FAILED one, a transition that
  the agent state machine forbids.
\<close>

theorem sweep_fails_completed:
  assumes "range_order (reg_agents r) ks" and "MarkHeartbeatLost clk ks now timeout r = (failed, r', ev)"
    and "reg_agents r k = Some a" and "avp_State a = StateCompleted" and "avp_PID a \<noteq> 0"
    and "avp_LastSeen a \<noteq> 0" and "avp_LastSeen a < (now - timeout) div 1000000"
  shows "\<exists>a'. reg_agents r' k = Some a' \<and> avp_State a' = StateFailed \<and> a' \<in> set failed
    \<and> \<not> validTransition (avp_State a) (avp_State a')"
proof -
  let ?th = "(now - timeout) div 1000000"
  have lost: "heartbeat_lost ?th a" using assms(4-7) by (simp add: heartbeat_lost_def)
  have run: "lost_loop clk (now div 1000000) ?th ks [] [] r = (failed, r', ev)"
    using assms(2) by (simp add: MarkHeartbeatLost_def)
  have "a \<in> set (range_values (reg_agents r) ks)"
    using assms(1,3) by (auto simp: set_range_values range_order_mem)
  then have "swept (now div 1000000) ?th a \<in> set failed"
    using lost_loop_spec [OF range_order_distinct [OF assms(1)] run] lost by auto
  then show ?thesis
    using MarkHeartbeatLost_agents [OF assms(1,2), of k] assms(3,4) lost
    by (simp add: swept_def validTransition_def valid_table_def)
qed

lemma sweep_fails_completed_witness:
  "\<exists>failed r' ev a'. MarkHeartbeatLost (\<lambda>i. at_ms 0) [''a''] 9000000000 6000000000 one_agent = (failed, r', ev)
     \<and> reg_agents r' ''a'' = Some a' \<and> avp_State a' = StateFailed"
proof -
  obtain failed r' ev where run: "MarkHeartbeatLost (\<lambda>i. at_ms 0) [''a''] 9000000000 6000000000 one_agent = (failed, r', ev)"
    by (rule prod_cases3)
  have "reg_agents one_agent ''a'' = Some done_agent" by (simp add: one_agent_def)
  from sweep_fails_completed [OF one_agent_order run this] obtain a' where
    "reg_agents r' ''a'' = Some a'" "avp_State a' = StateFailed"
    by (auto simp: done_agent_def zero_AVP_def)
  with run show ?thesis by blast
qed

text \<open>
  \<open>SetState\<close> for an agent that the registry does not know invents an entry with an empty
  identifier; when that agent then registers, its process is recorded under the empty key, and
  the entry under its own key still has no process.
\<close>

theorem SetState_unknown_agent:
  assumes "reg_agents r i = None" and "i \<noteq> []" and "wm_AgentID m = i" and "wm_Type m = MessageRegister"
    and "r1 = fst (SetState clk1 i st r)" and "r2 = fst (HandleMessage clk2 m r1)"
  shows "(\<exists>a. reg_agents r2 [] = Some a \<and> avp_PID a = wm_PID m \<and> avp_State a = StateRunning)
    \<and> (\<exists>a. reg_agents r2 i = Some a \<and> avp_PID a = 0 \<and> avp_AgentID a = [])"
  using assms(1-4) unfolding assms(5,6)
  by (simp add: SetState_def HandleMessage_def register_def agentForMessageLocked_def Let_def reg_read_def
      zero_AVP_def)

definition register_message :: WMessage where
  "register_message = \<lparr>wm_Type = MessageRegister, wm_RequestID = [], wm_AgentID = ''a'', wm_Role = ''coder'',
     wm_TaskID = ''t'', wm_PID = 7, wm_Status = [], wm_Name = [], wm_Args = None, wm_Payload = None\<rparr>"

lemma SetState_unknown_agent_witness:
  "\<exists>a. reg_agents (fst (HandleMessage (\<lambda>i. at_ms 0) register_message
      (fst (SetState (\<lambda>i. at_ms 0) ''a'' StateReady (NewRegistry True))))) [] = Some a \<and> avp_PID a = 7"
proof -
  have "reg_agents (NewRegistry True) ''a'' = None" "''a'' \<noteq> []" "wm_AgentID register_message = ''a''"
    "wm_Type register_message = MessageRegister" "wm_PID register_message = 7"
    by (simp_all add: NewRegistry_def register_message_def)
  then show ?thesis using SetState_unknown_agent [OF _ _ _ _ refl refl] by metis
qed

text \<open>
  C34. In every registry reached by steps that set attributes of known agents only, each agent is
  stored under its own identifier, and a register message of any agent makes that agent, and no
  other, RUNNING with the reported process.
\<close>

theorem register_reachable:
  assumes "reachable (\<lambda>r. \<exists>sink. r = NewRegistry sink) reg_step r" and "wm_Type m = MessageRegister"
    and "HandleMessage clk m r = (r', cb, ev)"
  shows "(\<forall>k a. reg_agents r k = Some a \<longrightarrow> avp_AgentID a = k)
    \<and> (\<exists>a. reg_agents r' = (reg_agents r)(wm_AgentID m \<mapsto> a) \<and> avp_AgentID a = wm_AgentID m
         \<and> avp_State a = StateRunning \<and> avp_PID a = wm_PID m \<and> cb = (if reg_onRegister r then Some a else None))"
proof -
  have inv: "reg_inv r" by (rule registries.reachable_inv [OF assms(1)])
  then have "avp_AgentID (agentForMessageLocked clk m r) = wm_AgentID m" by (rule agentForMessage_id)
  then show ?thesis
    using assms(2,3) inv by (auto simp: HandleMessage_def register_def Let_def reg_inv_def)
qed

lemma register_reachable_witness:
  "\<exists>a. reg_agents (fst (HandleMessage (\<lambda>i. at_ms 0) register_message (NewRegistry True))) ''a'' = Some a
     \<and> avp_State a = StateRunning"
proof -
  have "reachable (\<lambda>r. \<exists>sink. r = NewRegistry sink) reg_step (NewRegistry True)"
    by (rule reachable_init) blast
  from register_reachable [OF this, of register_message "\<lambda>i. at_ms 0"
      "fst (HandleMessage (\<lambda>i. at_ms 0) register_message (NewRegistry True))"
      "fst (snd (HandleMessage (\<lambda>i. at_ms 0) register_message (NewRegistry True)))"
      "snd (snd (HandleMessage (\<lambda>i. at_ms 0) register_message (NewRegistry True)))"]
  show ?thesis by (auto simp: register_message_def)
qed

text \<open>
  The connection handler answers every syscall message exactly once, in the order of arrival,
  whatever other messages are interleaved: each answer has a type, and carries the request
  identifier of its message unless the syscall handler chose its own.
\<close>

theorem uds_handle_answers:
  assumes "uds_handle syscalls clks ms [] r g = (out, r', g')"
  shows "list_all2 (\<lambda>m resp. wr_Type resp \<noteq> []
      \<and> (wr_RequestID resp = wm_RequestID m \<or> (\<exists>h gm. syscalls = Some h \<and> wr_RequestID resp = wr_RequestID (fst (h m gm)))))
    (filter (\<lambda>m. wm_Type m = MessageSyscall) ms) out"
proof -
  let ?P = "\<lambda>m resp. wr_Type resp \<noteq> []
      \<and> (wr_RequestID resp = wm_RequestID m \<or> (\<exists>h gm. syscalls = Some h \<and> wr_RequestID resp = wr_RequestID (fst (h m gm))))"
  have one: "?P m (fst (uds_handleSyscall syscalls m g))" for m g
  proof (cases syscalls)
    case (Some h)
    obtain resp g1 where h: "h m g = (resp, g1)" by fastforce
    then have "wr_RequestID (fst (h m g)) = wr_RequestID resp" by simp
    then have "\<exists>gm. wr_RequestID resp = wr_RequestID (fst (h m gm))" by metis
    with Some h show ?thesis by (auto simp: uds_handleSyscall_def Let_def message_defs)
  qed (simp add: uds_handleSyscall_def message_defs)
  have "\<exists>new. out = out0 @ new \<and> list_all2 ?P (filter (\<lambda>m. wm_Type m = MessageSyscall) ms) new"
    if "uds_handle syscalls clks ms out0 r g = (out, r', g')" for out0
    using that
  proof (induction ms arbitrary: clks out0 r g)
    case (Cons m ms)
    show ?case
    proof (cases "wm_Type m = MessageSyscall")
      case True
      obtain resp g1 where hs: "uds_handleSyscall syscalls m g = (resp, g1)" by fastforce
      with True Cons.prems have "uds_handle syscalls (clks \<circ> Suc) ms (out0 @ [resp]) r g1 = (out, r', g')" by simp
      from Cons.IH [OF this] one [of m g] hs True show ?thesis by auto
    next
      case False
      with Cons.prems have "uds_handle syscalls (clks \<circ> Suc) ms out0 (fst (HandleMessage (clks 0) m r)) g
          = (out, r', g')" by simp
      from Cons.IH [OF this] False show ?thesis by simp
    qed
  qed simp
  from this [of "[]"] assms show ?thesis by auto
qed

definition syscall_message :: WMessage where
  "syscall_message = register_message\<lparr>wm_Type := MessageSyscall, wm_RequestID := ''r1''\<rparr>"

lemma uds_handle_answers_witness:
  "length (fst (uds_handle (None :: unit syscalls option) (\<lambda>i j. at_ms 0)
      [register_message, syscall_message] [] (NewRegistry True) ())) = 1"
proof -
  obtain out r' g' where run: "uds_handle (None :: unit syscalls option) (\<lambda>i j. at_ms 0)
      [register_message, syscall_message] [] (NewRegistry True) () = (out, r', g')"
    by (rule prod_cases3)
  have "filter (\<lambda>m. wm_Type m = MessageSyscall) [register_message, syscall_message] = [syscall_message]"
    by (simp add: syscall_message_def register_message_def message_defs)
  then have "length [syscall_message] = length out"
    using list_all2_lengthD [OF uds_handle_answers [OF run]] by simp
  then show ?thesis using run by simp
qed

end
