(* ===== verification/Checkpoint.thy ===== *)
theory Checkpoint
  imports Confinement Avp
begin

text \<open>
  Checkpoints (\<open>internal/checkpoint/checkpoint.go\<close>): snapshots of a task, one JSON file each in the
  task's directory, the latest snapshot of a task and the recovery report over all of them.

  The store's root directory is a map from directory names to a map from file names to files; a
  file is the snapshot it decodes to, or the error that reading or decoding it gives
  (\<open>encoding/json\<close> returns what it was given). Errors of the operating system are arguments. A
  \<open>range\<close> over a map and a directory walk take the order of the visit as an argument.
\<close>

section \<open>Types\<close>

record Snapshot =
  snap_TaskID :: string
  snap_Sequence :: int
  snap_Agents :: "AVP list"
  snap_PageTables :: "string \<rightharpoonup> string list"
  snap_SchedulerVRuntime :: "string \<rightharpoonup> u64"
  snap_TraceOffset :: int
  snap_Mode :: string
  snap_CreatedAt :: int

record RecoveredTask =
  rt_TaskID :: string
  rt_Sequence :: int
  rt_Status :: string
  rt_AgentCount :: int
  rt_CompletedAgents :: "string list"
  rt_ReadyAgents :: "string list"
  rt_PageTableRefs :: int
  rt_SchedulerVRuntime :: "string \<rightharpoonup> u64"
  rt_CreatedAt :: int

record RecoveryReport =
  rr_Mode :: string
  rr_Degraded :: bool
  rr_Reason :: string
  rr_TaskCount :: int
  rr_RecoveredAt :: int
  rr_RecoveredTasks :: "RecoveredTask list"

type_synonym disk = "string \<rightharpoonup> (string \<rightharpoonup> Snapshot result)"

text \<open>\<open>NewStore\<close>: the root directory; \<open>tmp\<close> is \<open>os.TempDir()\<close>.\<close>

definition checkpoint_NewStore :: "string \<Rightarrow> string \<Rightarrow> string" where
  "checkpoint_NewStore tmp rootDir = (if rootDir = [] then Join [tmp, ''aort-checkpoints''] else rootDir)"

section \<open>Save\<close>

definition snapshot_file :: "int \<Rightarrow> string" where
  "snapshot_file n = pad_nat 6 (nat n) @ ''.json''"

definition with_defaults :: "clock \<Rightarrow> Snapshot \<Rightarrow> Snapshot" where
  "with_defaults clk s0 = (let
       s1 = (if snap_Sequence s0 \<le> 0 then s0\<lparr>snap_Sequence := 1\<rparr> else s0);
       s2 = (if snap_Mode s1 = [] then s1\<lparr>snap_Mode := ''runtime-state''\<rparr> else s1)
     in if snap_CreatedAt s2 = 0 then s2\<lparr>snap_CreatedAt := unix_ms (clk 0)\<rparr> else s2)"

definition files_in :: "disk \<Rightarrow> string \<Rightarrow> string \<rightharpoonup> Snapshot result" where
  "files_in d dir = (case d dir of None \<Rightarrow> Map.empty | Some fs \<Rightarrow> fs)"

text \<open>
  \<open>mkdir\<close> and \<open>write\<close> are the errors of \<open>os.MkdirAll\<close> and \<open>os.WriteFile\<close>; a failed write leaves the
  file \<open>left\<close> behind.
\<close>

definition Save ::
    "clock \<Rightarrow> go_error option \<Rightarrow> (go_error \<times> Snapshot result) option \<Rightarrow> Snapshot \<Rightarrow> disk \<Rightarrow> unit result \<times> disk" where
  "Save clk mkdir write snapshot d = (
     if snap_TaskID snapshot = [] then (Inl (Errorf ''task_id is required'' []), d)
     else let s = with_defaults clk snapshot; dir = checkpoint_safeName (snap_TaskID s) in
       case mkdir of Some e \<Rightarrow> (Inl e, d)
       | None \<Rightarrow>
           (case write of
              Some (e, left) \<Rightarrow> (Inl e, d(dir \<mapsto> (files_in d dir)(snapshot_file (snap_Sequence s) \<mapsto> left)))
            | None \<Rightarrow> (Inr (), d(dir \<mapsto> (files_in d dir)(snapshot_file (snap_Sequence s) \<mapsto> Inr s)))))"

section \<open>Reading\<close>

definition snap_before :: "Snapshot \<Rightarrow> Snapshot \<Rightarrow> bool" where
  "snap_before a b = (if snap_TaskID a \<noteq> snap_TaskID b then snap_TaskID a < snap_TaskID b
     else if snap_Sequence a \<noteq> snap_Sequence b then snap_Sequence a < snap_Sequence b
     else snap_CreatedAt a < snap_CreatedAt b)"

definition sortSnapshots :: "Snapshot list \<Rightarrow> Snapshot list" where
  "sortSnapshots = sort_by snap_before"

fun readSnapshots :: "(string \<times> Snapshot result) list \<Rightarrow> Snapshot list result" where
  "readSnapshots [] = Inr []"
| "readSnapshots ((name, file) # fs) =
     (if Ext name \<noteq> ''.json'' then readSnapshots fs
      else case file of Inl e \<Rightarrow> Inl e
        | Inr s \<Rightarrow> (case readSnapshots fs of Inl e \<Rightarrow> Inl e | Inr ss \<Rightarrow> Inr (s # ss)))"

text \<open>\<open>readdir\<close> is an error of \<open>os.ReadDir\<close> other than a missing directory; \<open>ks\<close> the entries' order.\<close>

definition listTask :: "go_error option \<Rightarrow> string list \<Rightarrow> string \<Rightarrow> disk \<Rightarrow> Snapshot list result" where
  "listTask readdir ks taskID d = (case d (checkpoint_safeName taskID) of
       None \<Rightarrow> Inr []
     | Some files \<Rightarrow> (case readdir of Some e \<Rightarrow> Inl e
         | None \<Rightarrow> (case readSnapshots (range_values (\<lambda>k. map_option (Pair k) (files k)) ks) of
             Inl e \<Rightarrow> Inl e | Inr ss \<Rightarrow> Inr (sortSnapshots ss))))"

definition LoadLatest :: "go_error option \<Rightarrow> string list \<Rightarrow> string \<Rightarrow> disk \<Rightarrow> Snapshot result" where
  "LoadLatest readdir ks taskID d = (
     if taskID = [] then Inl (Errorf ''task_id is required'' [])
     else case listTask readdir ks taskID d of
       Inl e \<Rightarrow> Inl e
     | Inr ss \<Rightarrow> if ss = [] then Inl (Errorf ''no checkpoint for task %q'' [taskID]) else Inr (last ss))"

text \<open>
  \<open>List\<close>: \<open>fs\<close> are the files of the walk with their contents; \<open>walk\<close> an error of the walk other than a
  missing root.
\<close>

definition checkpoint_List :: "go_error option \<Rightarrow> (string \<times> Snapshot result) list \<Rightarrow> Snapshot list result" where
  "checkpoint_List walk fs = (case walk of Some e \<Rightarrow> Inl e
     | None \<Rightarrow> (case readSnapshots fs of Inl e \<Rightarrow> Inl e | Inr ss \<Rightarrow> Inr (sortSnapshots ss)))"

section \<open>Recovery\<close>

definition latestByTask :: "Snapshot list \<Rightarrow> string \<rightharpoonup> Snapshot" where
  "latestByTask ss = foldl (\<lambda>m s. if snap_TaskID s = [] then m else m(snap_TaskID s \<mapsto> s)) Map.empty ss"

definition isTerminal :: "AgentState \<Rightarrow> bool" where
  "isTerminal st \<longleftrightarrow> st = StateCompleted \<or> st = StateFailed \<or> st = StateKilled"

definition copyVRuntime :: "(string \<rightharpoonup> u64) \<Rightarrow> string \<rightharpoonup> u64" where
  "copyVRuntime input = input"

definition sort_strings :: "string list \<Rightarrow> string list" where     \<comment> \<open>\<open>sort.Strings\<close>\<close>
  "sort_strings = sort_by (<)"

definition summarize_agent :: "AVP \<Rightarrow> RecoveredTask \<Rightarrow> RecoveredTask" where
  "summarize_agent a task = (
     if isTerminal (avp_State a)
     then (if avp_State a = StateCompleted
           then task\<lparr>rt_CompletedAgents := rt_CompletedAgents task @ [avp_AgentID a]\<rparr> else task)
     else task\<lparr>rt_Status := ''recovered'', rt_ReadyAgents := rt_ReadyAgents task @ [avp_AgentID a]\<rparr>)"

text \<open>\<open>ks\<close> is the order of the range over the page tables.\<close>

definition summarizeRecovery :: "string list \<Rightarrow> Snapshot \<Rightarrow> RecoveredTask" where
  "summarizeRecovery ks s = (let
       refs = sum_list (map (\<lambda>k. case snap_PageTables s k of None \<Rightarrow> 0
         | Some pages \<Rightarrow> if k = [] then 0 else int (length pages)) ks);
       task0 = \<lparr>rt_TaskID = snap_TaskID s, rt_Sequence = snap_Sequence s, rt_Status = ''completed'',
         rt_AgentCount = int (length (snap_Agents s)), rt_CompletedAgents = [], rt_ReadyAgents = [],
         rt_PageTableRefs = refs, rt_SchedulerVRuntime = copyVRuntime (snap_SchedulerVRuntime s),
         rt_CreatedAt = snap_CreatedAt s\<rparr>;
       task = fold summarize_agent (snap_Agents s) task0
     in task\<lparr>rt_CompletedAgents := sort_strings (rt_CompletedAgents task),
             rt_ReadyAgents := sort_strings (rt_ReadyAgents task)\<rparr>)"

text \<open>\<open>ids\<close> is the order of the range over \<open>latest\<close>, \<open>pks\<close> the orders over the page tables.\<close>

definition RecoverAll ::
    "clock \<Rightarrow> go_error option \<Rightarrow> (string \<times> Snapshot result) list \<Rightarrow> string list \<Rightarrow> (Snapshot \<Rightarrow> string list)
     \<Rightarrow> RecoveryReport result" where
  "RecoverAll clk walk fs ids pks = (case checkpoint_List walk fs of
       Inl e \<Rightarrow> Inl e
     | Inr snapshots \<Rightarrow> let latest = latestByTask snapshots;
         tasks = map (\<lambda>s. summarizeRecovery (pks s) s) (range_values latest (sort_strings ids))
       in Inr \<lparr>rr_Mode = ''checkpoint-light'', rr_Degraded = True,
           rr_Reason = ''restored AVP table, scheduler vruntime, and CVM page references; page contents require the live CVM store or future durable page backing'',
           rr_TaskCount = int (length tasks), rr_RecoveredAt = unix_ms (clk 0), rr_RecoveredTasks = tasks\<rparr>)"

section \<open>The snapshot order\<close>

interpretation snaps: strict_weak snap_before
  by unfold_locales (auto simp: snap_before_def split: if_splits)

interpretation strings: strict_weak "(<) :: string \<Rightarrow> string \<Rightarrow> bool"
  by unfold_locales auto

lemma latest_append: "latestByTask (ss @ [s])
    = (if snap_TaskID s = [] then latestByTask ss else (latestByTask ss)(snap_TaskID s \<mapsto> s))"
  by (simp add: latestByTask_def)

text \<open>In a sorted list the map holds, for each task, a snapshot that none of that task follows.\<close>

lemma latestByTask_max:
  "snaps.ordered ss \<Longrightarrow> latestByTask ss k = Some s \<Longrightarrow> k \<noteq> [] \<and> snap_TaskID s = k \<and> s \<in> set ss
      \<and> (\<forall>s' \<in> set ss. snap_TaskID s' = k \<longrightarrow> \<not> snap_before s s')"
proof (induction ss arbitrary: s rule: rev_induct)
  case Nil
  then show ?case by (simp add: latestByTask_def)
next
  case (snoc x ss)
  have ord: "snaps.ordered ss" "\<And>y. y \<in> set ss \<Longrightarrow> \<not> snap_before x y" "\<not> snap_before x x"
    using snoc.prems(1) by (auto simp: sorted_wrt_append dest: snaps.asym)
  show ?case
  proof (cases "snap_TaskID x = k \<and> k \<noteq> []")
    case True
    with snoc.prems(2) have "s = x" by (simp add: latest_append)
    with True ord show ?thesis by auto
  next
    case False
    with snoc.prems(2) have old: "latestByTask ss k = Some s"
      by (simp add: latest_append split: if_splits)
    from snoc.IH [OF ord(1) old] False show ?thesis by auto
  qed
qed

lemma latestByTask_dom: "dom (latestByTask ss) = {k. k \<noteq> [] \<and> (\<exists>s \<in> set ss. snap_TaskID s = k)}"
proof (induction ss rule: rev_induct)
  case Nil
  then show ?case by (simp add: latestByTask_def)
next
  case (snoc x ss)
  then show ?case by (auto simp: latest_append)
qed

lemma readSnapshots_set:
  "readSnapshots fs = Inr ss \<Longrightarrow> set ss = {s. \<exists>name. (name, Inr s) \<in> set fs \<and> Ext name = ''.json''}"
  by (induction fs arbitrary: ss rule: readSnapshots.induct) (auto split: if_splits sum.splits)

lemma sort_strings_set [simp]: "set (sort_strings ks) = set ks"
  by (simp add: sort_strings_def)

lemma sort_strings_sorted: "distinct ks \<Longrightarrow> sorted_wrt (<) (sort_strings ks)"
proof -
  assume d: "distinct ks"
  have "mset (sort_strings ks) = mset ks" by (simp add: sort_strings_def)
  then have "distinct (sort_strings ks)" using d by (metis mset_eq_imp_distinct_iff)
  moreover have "strings.ordered (sort_strings ks)" unfolding sort_strings_def by (rule strings.ordered_sort_by)
  ultimately show ?thesis by (induction "sort_strings ks") (auto simp: sorted_wrt_iff_nth_less distinct_conv_nth not_less order_le_less)
qed

lemma summarize_fold_sel [simp]:
  "rt_TaskID (fold summarize_agent as t) = rt_TaskID t" "rt_Sequence (fold summarize_agent as t) = rt_Sequence t"
  by (induction as arbitrary: t) (auto simp: summarize_agent_def)

lemma summarize_sel [simp]:
  "rt_TaskID (summarizeRecovery ks s) = snap_TaskID s" "rt_Sequence (summarizeRecovery ks s) = snap_Sequence s"
  by (simp_all add: summarizeRecovery_def Let_def)

lemma summarize_fold_status:
  "rt_Status (fold summarize_agent as t) =
     (if \<forall>a \<in> set as. isTerminal (avp_State a) then rt_Status t else ''recovered'')"
  by (induction as arbitrary: t) (auto simp: summarize_agent_def)

lemma summarize_fold_ready:
  "rt_ReadyAgents (fold summarize_agent as t)
     = rt_ReadyAgents t @ map avp_AgentID (filter (\<lambda>a. \<not> isTerminal (avp_State a)) as)"
  by (induction as arbitrary: t) (auto simp: summarize_agent_def)

section \<open>Properties\<close>


definition some_snapshot :: "string \<Rightarrow> int \<Rightarrow> Snapshot" where
  "some_snapshot task n = \<lparr>snap_TaskID = task, snap_Sequence = n, snap_Agents = [], snap_PageTables = Map.empty,
     snap_SchedulerVRuntime = Map.empty, snap_TraceOffset = 0, snap_Mode = ''m'', snap_CreatedAt = 5\<rparr>"


lemma readSnapshots_ok:
  "(\<And>name f. (name, f) \<in> set fs \<Longrightarrow> Ext name = ''.json'' \<Longrightarrow> is_ok f) \<Longrightarrow> \<exists>ss. readSnapshots fs = Inr ss"
proof (induction fs rule: readSnapshots.induct)
  case (2 name f fs)
  show ?case
  proof (cases "Ext name = ''.json''")
    case True
    then obtain s where s: "f = Inr s" using "2.prems" [of name f] by (auto simp: is_ok_iff)
    with "2.IH"(2) [of s] True "2.prems" show ?thesis by fastforce
  next
    case False
    with "2.IH"(1) "2.prems" show ?thesis by auto
  qed
qed simp

lemma with_defaults_task [simp]: "snap_TaskID (with_defaults clk s) = snap_TaskID s"
  by (simp add: with_defaults_def Let_def)

lemma last_ordered: "snaps.ordered xs \<Longrightarrow> y \<in> set xs \<Longrightarrow> \<not> snap_before (last xs) y"
proof (induction xs rule: rev_induct)
  case (snoc x xs)
  then show ?case by (auto simp: sorted_wrt_append dest: snaps.asym)
qed simp

text \<open>
  Round trip: after a successful \<open>Save\<close> of a snapshot whose sequence number is above those of
  the snapshots in the task's directory, all readable and of that task, \<open>LoadLatest\<close> returns
  that snapshot with its defaults filled in.
\<close>

theorem Save_LoadLatest:
  assumes "Save clk None None s d = (Inr (), d')" and "s' = with_defaults clk s"
    and "range_order (files_in d' (checkpoint_safeName (snap_TaskID s))) ks"
    and "\<forall>k f. files_in d (checkpoint_safeName (snap_TaskID s)) k = Some f \<longrightarrow> Ext k = ''.json'' \<longrightarrow>
           (\<exists>old. f = Inr old \<and> snap_TaskID old = snap_TaskID s \<and> snap_Sequence old < snap_Sequence s')"
  shows "LoadLatest None ks (snap_TaskID s) d' = Inr s'"
proof -
  let ?dir = "checkpoint_safeName (snap_TaskID s)" and ?name = "snapshot_file (snap_Sequence s')"
  have task: "snap_TaskID s \<noteq> []" using assms(1) by (auto simp: Save_def split: if_splits)
  let ?files = "(files_in d ?dir)(?name \<mapsto> Inr s')"
  have dir: "d' ?dir = Some ?files"
    using assms(1) task by (auto simp: Save_def Let_def assms(2))
  let ?fs = "range_values (\<lambda>k. map_option (Pair k) (?files k)) ks"
  have keys: "range_order ?files ks" using assms(3) dir by (simp add: files_in_def)
  have mem: "(name, f) \<in> set ?fs \<longleftrightarrow> ?files name = Some f" for name f
    using keys by (auto simp: set_range_values range_order_mem)
  have read: "\<exists>old. f = Inr old \<and> snap_TaskID old = snap_TaskID s
      \<and> (old = s' \<or> snap_Sequence old < snap_Sequence s')"
    if "(name, f) \<in> set ?fs" "Ext name = ''.json''" for name f
  proof (cases "name = ?name")
    note lookup = that(1) [unfolded mem]
    case True
    with lookup have "f = Inr s'" by simp
    then show ?thesis by (simp add: assms(2))
  next
    case False
    with that(1) [unfolded mem] have "files_in d ?dir name = Some f" by simp
    then show ?thesis using assms(4) that(2) by blast
  qed
  obtain ss where ss: "readSnapshots ?fs = Inr ss"
  proof -
    have ok: "is_ok f" if "(name, f) \<in> set ?fs" "Ext name = ''.json''" for name f
      using read [OF that] by (auto simp: is_ok_iff)
    have "\<exists>ss. readSnapshots ?fs = Inr ss" by (rule readSnapshots_ok) (rule ok)
    then show ?thesis using that by blast
  qed
  have "(?name, Inr s') \<in> set ?fs" unfolding mem by (rule fun_upd_same)
  moreover have "Ext ?name = ''.json''" unfolding snapshot_file_def by (rule Ext_json)
  ultimately have in_ss: "s' \<in> set (sortSnapshots ss)"
    unfolding sortSnapshots_def set_sort_by readSnapshots_set [OF ss] by blast
  have others: "snap_TaskID x = snap_TaskID s \<and> (x = s' \<or> snap_Sequence x < snap_Sequence s')"
    if "x \<in> set (sortSnapshots ss)" for x
  proof -
    from that obtain name where name: "(name, Inr x) \<in> set ?fs" "Ext name = ''.json''"
      unfolding sortSnapshots_def set_sort_by readSnapshots_set [OF ss] by blast
    from read [OF this] show ?thesis by (metis sum.inject(2))
  qed
  have "snaps.ordered (sortSnapshots ss)" unfolding sortSnapshots_def by (rule snaps.ordered_sort_by)
  then have not_before: "\<not> snap_before (last (sortSnapshots ss)) s'" using in_ss by (rule last_ordered)
  have "last (sortSnapshots ss) \<in> set (sortSnapshots ss)" using in_ss by (intro last_in_set) auto
  note others_last = others [OF this]
  have last: "last (sortSnapshots ss) = s'"
  proof (rule ccontr)
    assume "last (sortSnapshots ss) \<noteq> s'"
    with others_last have "snap_Sequence (last (sortSnapshots ss)) < snap_Sequence s'" by blast
    moreover have "snap_TaskID s' = snap_TaskID s" by (simp add: assms(2))
    ultimately show False using not_before others_last by (simp add: snap_before_def)
  qed
  have "sortSnapshots ss \<noteq> []" using in_ss by auto
  then show ?thesis using task last ss dir by (simp add: LoadLatest_def listTask_def)
qed

lemma Save_LoadLatest_witness:
  "LoadLatest None [''000007.json''] ''a/b''
     (snd (Save (\<lambda>i. at_ms 0) None None (some_snapshot ''a/b'' 7) Map.empty)) = Inr (some_snapshot ''a/b'' 7)"
proof -
  let ?d = "snd (Save (\<lambda>i. at_ms 0) None None (some_snapshot ''a/b'' 7) Map.empty)"
  have d: "with_defaults (\<lambda>i. at_ms 0) (some_snapshot ''a/b'' 7) = some_snapshot ''a/b'' 7"
    by (simp add: with_defaults_def some_snapshot_def)
  have fileq: "snapshot_file 7 = ''000007.json''" by code_simp
  have save: "Save (\<lambda>i. at_ms 0) None None (some_snapshot ''a/b'' 7) Map.empty = (Inr (), ?d)"
    and dir: "files_in ?d (checkpoint_safeName ''a/b'') = [''000007.json'' \<mapsto> Inr (some_snapshot ''a/b'' 7)]"
    by (simp_all add: Save_def Let_def d files_in_def) (simp_all add: some_snapshot_def fileq)
  have sel: "snap_TaskID (some_snapshot ''a/b'' 7) = ''a/b''" by (simp add: some_snapshot_def)
  have "range_order (files_in ?d (checkpoint_safeName (snap_TaskID (some_snapshot ''a/b'' 7)))) [''000007.json'']"
    unfolding sel dir by (simp add: range_order_def)
  from Save_LoadLatest [OF save d [symmetric] this] show ?thesis by (simp add: sel files_in_def)
qed

text \<open>
  Two tasks can share a directory: the snapshots of task \<open>a/b\<close> and of task \<open>a_b\<close> are written to
  the same files, so saving the second overwrites the first, and loading the latest snapshot of
  \<open>a/b\<close> then returns a snapshot of the other task.
\<close>

definition shared_disk :: disk where
  "shared_disk = snd (Save (\<lambda>i. at_ms 0) None None (some_snapshot ''a_b'' 1)
     (snd (Save (\<lambda>i. at_ms 0) None None (some_snapshot ''a/b'' 1) Map.empty)))"

theorem safeName_collision:
  "checkpoint_safeName ''a/b'' = checkpoint_safeName ''a_b''
   \<and> LoadLatest None [''000001.json''] ''a/b'' shared_disk = Inr (some_snapshot ''a_b'' 1)"
proof -
  have "checkpoint_safeName ''a/b'' = ''a_b''" "checkpoint_safeName ''a_b'' = ''a_b''"
    "snapshot_file 1 = ''000001.json''" by code_simp+
  then show ?thesis
    by (simp add: shared_disk_def Save_def Let_def with_defaults_def some_snapshot_def files_in_def
        LoadLatest_def listTask_def Ext_def sortSnapshots_def)
qed

end
