(* ===== verification/Replay.thy ===== *)
theory Replay
  imports GoPath Confinement Events Evidence
begin

text \<open>
  The trace recorder (\<open>internal/trace/recorder.go\<close>) and the replay of a trace
  (\<open>internal/replay/replay.go\<close>). \<open>time.Parse(time.RFC3339Nano, s)\<close> is the argument \<open>parse\<close>: the text of
  its error or the instant. The file system is a map from paths to lines; the errors of the
  operating system are arguments.
\<close>

section \<open>Recorder\<close>

record TraceEvent =
  te_EventID :: string
  te_Timestamp :: string
  te_Type :: string
  te_AgentID :: string
  te_TaskID :: string
  te_Payload :: "payload option"       \<comment> \<open>\<open>None\<close>: the nil map\<close>

type_synonym logs = "string \<rightharpoonup> Event list"

definition trace_path :: "string \<Rightarrow> Event \<Rightarrow> string" where
  "trace_path dir event = Join [dir, ev_TaskID event @ ''.jsonl'']"

text \<open>
  \<open>Append\<close> adds one line; \<open>opened\<close> and \<open>written\<close> are the errors of opening the file and of writing
  the encoded event (a failed write is taken to add nothing).
\<close>

definition Append :: "go_error option \<Rightarrow> go_error option \<Rightarrow> string \<Rightarrow> Event \<Rightarrow> logs \<Rightarrow> unit result \<times> logs" where
  "Append opened written dir event fs = (
     if ev_TaskID event = [] then (Inl (Errorf ''trace event missing task id'' []), fs)
     else let path = trace_path dir event; old = (case fs path of None \<Rightarrow> [] | Some es \<Rightarrow> es) in
       case opened of Some e \<Rightarrow> (Inl e, fs)
       | None \<Rightarrow> (case written of Some e \<Rightarrow> (Inl e, fs(path \<mapsto> old))
           | None \<Rightarrow> (Inr (), fs(path \<mapsto> old @ [event]))))"

text \<open>
  \<open>ReadTrace\<close>: \<open>file\<close> is the outcome of \<open>os.ReadFile\<close> (\<open>None\<close>: the file does not exist) and \<open>decode\<close> is
  \<open>json.Unmarshal\<close>.
\<close>

definition ReadTrace ::
    "(string \<Rightarrow> TraceEvent list result) \<Rightarrow> string \<Rightarrow> string result option \<Rightarrow> TraceEvent list result" where
  "ReadTrace decode path readfile = (case readfile of
       None \<Rightarrow> Inl (Errorf ''trace not found: %s'' [path])
     | Some (Inl e) \<Rightarrow> Inl e
     | Some (Inr data) \<Rightarrow> (case decode data of Inl e \<Rightarrow> Inl e
         | Inr evs \<Rightarrow> Inr (map (\<lambda>e. if te_Payload e = None then e\<lparr>te_Payload := Some []\<rparr> else e) evs)))"

section \<open>Replay\<close>

record ReplayResult =
  rep_ReplaySuccess :: bool
  rep_EventCount :: int
  rep_Divergence :: bool
  rep_DivergenceReason :: string
  rep_OriginalFinalStatus :: string
  rep_ReplayFinalStatus :: string
  rep_EvidenceMode :: Mode

definition payload_get :: "payload option \<Rightarrow> string \<Rightarrow> gval option" where
  "payload_get p key = (case p of None \<Rightarrow> None | Some kvs \<Rightarrow> map_of kvs key)"

definition payload_str :: "payload option \<Rightarrow> string \<Rightarrow> string" where     \<comment> \<open>\<open>""\<close> when absent or no string\<close>
  "payload_str p key = (case payload_get p key of Some (GStr s) \<Rightarrow> s | _ \<Rightarrow> [])"

definition statusFromEvent :: "TraceEvent \<Rightarrow> string" where
  "statusFromEvent event = (
     if payload_str (te_Payload event) ''final_status'' \<noteq> [] then payload_str (te_Payload event) ''final_status''
     else if payload_str (te_Payload event) ''status'' \<noteq> []
       \<and> (Contains (te_Type event) ''completed'' \<or> Contains (te_Type event) ''failed''
          \<or> Contains (te_Type event) ''recovery'')
     then payload_str (te_Payload event) ''status''
     else if te_Type event = ''task_completed'' \<or> te_Type event = ''completed'' then ''completed''
     else if te_Type event = ''task_failed'' \<or> te_Type event = ''failed'' then ''failed''
     else [])"

definition diverged :: "ReplayResult \<Rightarrow> string \<Rightarrow> ReplayResult" where
  "diverged r reason = (let r1 = r\<lparr>rep_Divergence := True, rep_DivergenceReason := reason,
       rep_ReplaySuccess := False, rep_ReplayFinalStatus := ''diverged''\<rparr>
     in if rep_OriginalFinalStatus r1 = [] then r1\<lparr>rep_OriginalFinalStatus := ''unknown''\<rparr> else r1)"

definition fallbackID :: "TraceEvent \<Rightarrow> nat \<Rightarrow> string" where
  "fallbackID event i = (if te_EventID event \<noteq> [] then te_EventID event else ''index-'' @ Itoa (int i))"

text \<open>
  The loop: the result so far, the instant of the previous event (read when \<open>i > 0\<close>) and the index.
  \<open>Inl\<close> is the early return of \<open>diverged\<close>. The map \<open>state\<close> is written and never read.
\<close>

fun replay_loop ::
    "(string \<Rightarrow> string + int) \<Rightarrow> nat \<Rightarrow> int \<Rightarrow> TraceEvent list \<Rightarrow> ReplayResult \<Rightarrow> ReplayResult + ReplayResult" where
  "replay_loop parse i previous [] result = Inr result"
| "replay_loop parse i previous (event # es) result =
     (case parse (te_Timestamp event) of
        Inl err \<Rightarrow> Inl (diverged result (''invalid timestamp for event '' @ fallbackID event i @ '': '' @ err))
      | Inr parsed \<Rightarrow>
          if 0 < i \<and> parsed < previous
          then Inl (diverged result (''event order violation at '' @ fallbackID event i))
          else let status = statusFromEvent event in
            replay_loop parse (Suc i) parsed es
              (if status \<noteq> [] then result\<lparr>rep_OriginalFinalStatus := status\<rparr> else result))"

definition ReplayEvents :: "(string \<Rightarrow> string + int) \<Rightarrow> TraceEvent list \<Rightarrow> ReplayResult" where
  "ReplayEvents parse evs = (let
       result0 = \<lparr>rep_ReplaySuccess = False, rep_EventCount = int (length evs), rep_Divergence = False,
         rep_DivergenceReason = [], rep_OriginalFinalStatus = ''unknown'', rep_ReplayFinalStatus = ''unknown'',
         rep_EvidenceMode = ModeRealRuntime\<rparr>
     in case replay_loop parse 0 0 evs result0 of
          Inl r \<Rightarrow> r
        | Inr r1 \<Rightarrow> let
              r2 = (if rep_OriginalFinalStatus r1 = ''unknown'' \<and> 0 < length evs
                    then r1\<lparr>rep_OriginalFinalStatus := ''completed''\<rparr> else r1);
              r3 = r2\<lparr>rep_ReplayFinalStatus := rep_OriginalFinalStatus r2\<rparr>
            in r3\<lparr>rep_ReplaySuccess := \<not> rep_Divergence r3\<rparr>)"

section \<open>What a replay decides\<close>

fun ordered_from :: "(string \<Rightarrow> string + int) \<Rightarrow> int option \<Rightarrow> TraceEvent list \<Rightarrow> bool" where
  "ordered_from parse prev [] = True"
| "ordered_from parse prev (e # es) = (case parse (te_Timestamp e) of Inl _ \<Rightarrow> False
     | Inr t \<Rightarrow> (case prev of None \<Rightarrow> True | Some p \<Rightarrow> p \<le> t) \<and> ordered_from parse (Some t) es)"

lemma ordered_from_iff:
  "ordered_from parse prev es \<longleftrightarrow> (\<exists>ts. map (\<lambda>e. parse (te_Timestamp e)) es = map Inr ts
     \<and> sorted (case prev of None \<Rightarrow> ts | Some p \<Rightarrow> p # ts))"
proof (induction es arbitrary: prev)
  case Nil
  then show ?case by (cases prev) auto
next
  case (Cons e es)
  show ?case
  proof (cases "parse (te_Timestamp e)")
    case (Inl x)
    then show ?thesis by (auto simp: Cons_eq_map_conv)
  next
    case (Inr t)
    then show ?thesis
      using Cons.IH [of "Some t"] by (cases prev) (auto simp: Cons_eq_map_conv, meson order_trans)
  qed
qed

lemma replay_loop_spec:
  "case replay_loop parse i p es r of
      Inl r' \<Rightarrow> \<not> ordered_from parse (if i = 0 then None else Some p) es
        \<and> (rep_Divergence r' \<and> \<not> rep_ReplaySuccess r' \<and> rep_ReplayFinalStatus r' = ''diverged''
        \<and> rep_EventCount r' = rep_EventCount r)
    | Inr r' \<Rightarrow> ordered_from parse (if i = 0 then None else Some p) es
        \<and> r' = r\<lparr>rep_OriginalFinalStatus := last (rep_OriginalFinalStatus r # filter (\<lambda>s. s \<noteq> []) (map statusFromEvent es))\<rparr>"
proof (induction parse i p es r rule: replay_loop.induct)
  case (2 parse i p e es r)
  show ?case
  proof (cases "parse (te_Timestamp e)")
    case (Inl err)
    then show ?thesis by (simp add: diverged_def Let_def)
  next
    case (Inr t)
    show ?thesis
    proof (cases "0 < i \<and> t < p")
      case True
      with Inr show ?thesis by (simp add: diverged_def Let_def)
    next
      case False
      then have ord: "ordered_from parse (if i = 0 then None else Some p) (e # es)
          \<longleftrightarrow> ordered_from parse (Some t) es"
        using Inr by auto
      have run: "replay_loop parse i p (e # es) r = replay_loop parse (Suc i) t es
          (if statusFromEvent e \<noteq> [] then r\<lparr>rep_OriginalFinalStatus := statusFromEvent e\<rparr> else r)"
        using Inr False by (simp only: replay_loop.simps sum.case Let_def if_False)
      from "2.IH" [OF Inr False refl] show ?thesis
        unfolding ord run by (cases "statusFromEvent e = []") (simp_all split: sum.splits)
    qed
  qed
qed simp

text \<open>
  A replay succeeds exactly when every timestamp parses and the events are in the order of
  their timestamps; it then ends with the last status that an event carries (\<open>completed\<close> when none
  does and there is an event), and its final status is that of the original by construction.
  Otherwise it is marked as diverged. The event count is that of the trace in both cases.
\<close>

theorem ReplayEvents_decides:
  "let r = ReplayEvents parse evs;
       ok = (\<exists>ts. map (\<lambda>e. parse (te_Timestamp e)) evs = map Inr ts \<and> sorted ts);
       statuses = filter (\<lambda>s. s \<noteq> []) (map statusFromEvent evs)
   in rep_EventCount r = int (length evs) \<and> rep_ReplaySuccess r = ok \<and> rep_Divergence r = (\<not> ok)
    \<and> rep_ReplayFinalStatus r = (if ok then rep_OriginalFinalStatus r else ''diverged'')
    \<and> (if ok \<and> statuses \<noteq> [] \<and> last statuses \<noteq> ''unknown'' then rep_OriginalFinalStatus r = last statuses
       else if ok \<and> evs \<noteq> [] then rep_OriginalFinalStatus r = ''completed'' else True)"
proof -
  let ?r0 = "\<lparr>rep_ReplaySuccess = False, rep_EventCount = int (length evs), rep_Divergence = False,
         rep_DivergenceReason = [], rep_OriginalFinalStatus = ''unknown'', rep_ReplayFinalStatus = ''unknown'',
         rep_EvidenceMode = ModeRealRuntime\<rparr>"
  let ?ok = "\<exists>ts. map (\<lambda>e. parse (te_Timestamp e)) evs = map Inr ts \<and> sorted ts"
  have ok: "?ok \<longleftrightarrow> ordered_from parse None evs" by (simp add: ordered_from_iff)
  show ?thesis
  proof (cases "replay_loop parse 0 0 evs ?r0")
    case (Inl r')
    then show ?thesis using replay_loop_spec [of parse 0 0 evs ?r0]
      unfolding Let_def ok by (simp add: ReplayEvents_def Let_def)
  next
    case (Inr r')
    define statuses where "statuses = filter (\<lambda>s. s \<noteq> []) (map statusFromEvent evs)"
    from Inr replay_loop_spec [of parse 0 0 evs ?r0] have
      r': "ordered_from parse None evs" "r' = ?r0\<lparr>rep_OriginalFinalStatus := last (''unknown'' # statuses)\<rparr>"
      by (simp_all add: statuses_def)
    show ?thesis
      unfolding Let_def ok statuses_def [symmetric]
      using r' Inr by (cases "statuses = []") (auto simp: ReplayEvents_def Let_def statuses_def)
  qed
qed

text \<open>
  The recorder keeps a trace inside its directory only when the task identifier is a plain
  name: a task identifier is not cleaned, and one with parent references makes the recorder
  append to a file outside the directory.
\<close>

theorem trace_path_escapes:
  "trace_path ''/data/traces'' (new_event (\<lambda>i. at_ms 0) ''t'' ''task-1'' [] [] []) = ''/data/traces/task-1.jsonl''
   \<and> trace_path ''/data/traces'' (new_event (\<lambda>i. at_ms 0) ''t'' ''../../etc/cron'' [] [] []) = ''/etc/cron.jsonl''"
  by code_simp

end
