(* ===== verification/Llm.thy ===== *)
theory Llm
  imports GoStrings Events
begin

text \<open>
  The LLM router and its providers (\<open>internal/llm/router.go\<close>, \<open>deepseek_provider.go\<close>). A provider is
  an interface: a function of the request and of the state \<open>'g\<close> of the world behind it. The HTTP
  client of the DeepSeek provider is an argument; so are the milliseconds that a call took.
\<close>

section \<open>Types\<close>

datatype llm_error =
    Plain go_error
  | ProviderError string "llm_error option"       \<comment> \<open>the struct \<open>ProviderError{Reason, Err}\<close>\<close>
  | Wrapped string llm_error                      \<comment> \<open>\<open>fmt.Errorf("%w" + suffix, err)\<close>\<close>

definition ErrProviderUnavailable :: llm_error where
  "ErrProviderUnavailable = Plain (Errorf ''llm provider unavailable'' [])"

text \<open>\<open>errors.As(err, &target)\<close> for a \<open>ProviderError\<close>: the first one in the chain.\<close>

fun AsProviderError :: "llm_error \<Rightarrow> (string \<times> llm_error option) option" where
  "AsProviderError (Plain e) = None"
| "AsProviderError (ProviderError reason e) = Some (reason, e)"
| "AsProviderError (Wrapped s e) = AsProviderError e"

text \<open>\<open>err.Error()\<close>; \<open>txt\<close> renders the errors of other packages.\<close>

fun llm_error_text :: "(go_error \<Rightarrow> string) \<Rightarrow> llm_error \<Rightarrow> string" where
  "llm_error_text txt (Plain e) = txt e"
| "llm_error_text txt (ProviderError reason None) = reason"
| "llm_error_text txt (ProviderError reason (Some e)) =
     (if reason = [] then llm_error_text txt e else reason @ '': '' @ llm_error_text txt e)"
| "llm_error_text txt (Wrapped suffix e) = llm_error_text txt e @ suffix"

record LRequest =
  lreq_AgentID :: string
  lreq_Role :: string
  lreq_Provider :: string
  lreq_Prompt :: string

record LResponse =
  lresp_Text :: string
  lresp_Provider :: string
  lresp_Model :: string
  lresp_RequestedProvider :: string
  lresp_Fallback :: bool
  lresp_FallbackFrom :: string
  lresp_FallbackReason :: string
  lresp_EvidenceMode :: string

definition zero_LResponse :: LResponse where
  "zero_LResponse = \<lparr>lresp_Text = [], lresp_Provider = [], lresp_Model = [], lresp_RequestedProvider = [],
     lresp_Fallback = False, lresp_FallbackFrom = [], lresp_FallbackReason = [], lresp_EvidenceMode = []\<rparr>"

record Usage =
  us_PromptTokens :: int
  us_CompletionTokens :: int
  us_CachedTokens :: int
  us_PromptMS :: int
  us_TTFTMS :: int
  us_TotalMS :: int
  us_Mode :: string

type_synonym 'g provider = "LRequest \<Rightarrow> 'g \<Rightarrow> (llm_error + LResponse \<times> Usage) \<times> 'g"

record 'g Router =
  rt_providers :: "string \<rightharpoonup> 'g provider"
  rt_roleRoute :: "string \<rightharpoonup> string"
  rt_defaultProvider :: string
  rt_fallbackProvider :: string

section \<open>Configuration\<close>

definition NewRouter :: "'g Router" where
  "NewRouter = \<lparr>rt_providers = Map.empty, rt_roleRoute = Map.empty, rt_defaultProvider = [], rt_fallbackProvider = []\<rparr>"

definition router_Register :: "string \<Rightarrow> 'g provider \<Rightarrow> 'g Router \<Rightarrow> 'g Router" where
  "router_Register name provider r = r\<lparr>rt_providers := (rt_providers r)(name \<mapsto> provider)\<rparr>"

definition SetDefault :: "string \<Rightarrow> 'g Router \<Rightarrow> 'g Router" where
  "SetDefault name r = r\<lparr>rt_defaultProvider := name\<rparr>"

definition SetFallback :: "string \<Rightarrow> 'g Router \<Rightarrow> 'g Router" where
  "SetFallback name r = r\<lparr>rt_fallbackProvider := name\<rparr>"

definition SetRoleProvider :: "string \<Rightarrow> string \<Rightarrow> 'g Router \<Rightarrow> 'g Router" where
  "SetRoleProvider role provider r = r\<lparr>rt_roleRoute := (rt_roleRoute r)(ToLower role \<mapsto> provider)\<rparr>"

section \<open>Completion\<close>

definition valueOr :: "string \<Rightarrow> string \<Rightarrow> string" where
  "valueOr value fallback = (if value \<noteq> [] then value else fallback)"

definition providerErrorReason :: "llm_error \<Rightarrow> string" where
  "providerErrorReason err = (case AsProviderError err of
     Some (reason, _) \<Rightarrow> if reason \<noteq> [] then reason else ''api_error'' | None \<Rightarrow> ''api_error'')"

definition provider_name :: "'g Router \<Rightarrow> LRequest \<Rightarrow> string" where
  "provider_name r req = (let
       name0 = lreq_Provider req;
       name1 = (if name0 = [] \<and> lreq_Role req \<noteq> []
                then (case rt_roleRoute r (ToLower (lreq_Role req)) of None \<Rightarrow> [] | Some p \<Rightarrow> p) else name0)
     in if name1 = [] then rt_defaultProvider r else name1)"

definition selectProvider ::
    "'g Router \<Rightarrow> LRequest \<Rightarrow> string \<times> 'g provider option \<times> string \<times> 'g provider option" where
  "selectProvider r req = (provider_name r req, rt_providers r (provider_name r req),
     rt_fallbackProvider r, rt_providers r (rt_fallbackProvider r))"

definition llm_Complete :: "'g Router \<Rightarrow> LRequest \<Rightarrow> 'g \<Rightarrow> (llm_error + LResponse \<times> Usage) \<times> 'g" where
  "llm_Complete r req g = (case selectProvider r req of (name, provider, fallbackName, fallback) \<Rightarrow>
     (case provider of
        None \<Rightarrow> (Inl (Wrapped ('': '' @ name) ErrProviderUnavailable), g)
      | Some p \<Rightarrow> (case p req g of
          (Inr (resp0, usage), g1) \<Rightarrow> let
              resp1 = resp0\<lparr>lresp_Provider := valueOr (lresp_Provider resp0) name\<rparr>;
              resp2 = resp1\<lparr>lresp_EvidenceMode := valueOr (lresp_EvidenceMode resp1) (us_Mode usage)\<rparr>;
              resp = (if lresp_EvidenceMode resp2 = [] then resp2\<lparr>lresp_EvidenceMode := ''real-api''\<rparr> else resp2)
            in (Inr (resp, usage), g1)
        | (Inl err, g1) \<Rightarrow> (case fallback of
            None \<Rightarrow> (Inl err, g1)
          | Some f \<Rightarrow>
              if fallbackName = [] \<or> fallbackName = name then (Inl err, g1)
              else (case f req g1 of
                  (Inl fallbackErr, g2) \<Rightarrow> (Inl fallbackErr, g2)
                | (Inr (resp, usage), g2) \<Rightarrow>
                    (Inr (resp\<lparr>lresp_Provider := valueOr (lresp_Provider resp) fallbackName,
                        lresp_RequestedProvider := name, lresp_FallbackFrom := name, lresp_Fallback := True,
                        lresp_FallbackReason := providerErrorReason err, lresp_EvidenceMode := ''mock''\<rparr>, usage), g2))))))"

section \<open>Mock provider\<close>

text \<open>\<open>done\<close> is the error of a finished context, \<open>elapsed\<close> the milliseconds since the start.\<close>

definition NewMockProvider :: "string \<Rightarrow> string" where
  "NewMockProvider name = (if name = [] then ''mock'' else name)"

definition mock_Complete :: "llm_error option \<Rightarrow> int \<Rightarrow> string \<Rightarrow> 'g provider" where
  "mock_Complete ctx_done elapsed name req g = (case ctx_done of Some e \<Rightarrow> (Inl e, g)
     | None \<Rightarrow> let promptTokens = estimateTokens (lreq_Prompt req);
           completion = ''mock completion for '' @ lreq_AgentID req @ '': runtime syscall accepted'';
           usage = \<lparr>us_PromptTokens = promptTokens, us_CompletionTokens = estimateTokens completion,
             us_CachedTokens = go_div promptTokens 2, us_PromptMS = 1, us_TTFTMS = 1,
             us_TotalMS = max 1 elapsed, us_Mode = ''mock''\<rparr>
         in (Inr (zero_LResponse\<lparr>lresp_Text := completion, lresp_Provider := name, lresp_Model := name,
                    lresp_EvidenceMode := ''mock''\<rparr>, usage), g))"

section \<open>Usage of a llama.cpp answer\<close>

definition number :: "gval option \<Rightarrow> int" where
  "number value = (case value of Some (GInt n) \<Rightarrow> n | Some (GInt64 n) \<Rightarrow> n | Some (GFloat x) \<Rightarrow> f64_to_int x
     | _ \<Rightarrow> 0)"

definition ParseLlamaTimingUsage :: "payload \<Rightarrow> Usage" where
  "ParseLlamaTimingUsage raw = \<lparr>us_PromptTokens = number (map_of raw ''prompt_n''),
     us_CompletionTokens = number (map_of raw ''predicted_n''),
     us_CachedTokens = number (map_of raw ''cached_tokens''), us_PromptMS = number (map_of raw ''prompt_ms''),
     us_TTFTMS = number (map_of raw ''time_to_first_ms''), us_TotalMS = number (map_of raw ''total_ms''),
     us_Mode = ''llamacpp-local''\<rparr>"

section \<open>DeepSeek provider\<close>

record DeepSeek =
  ds_apiKey :: string
  ds_baseURL :: string
  ds_model :: string

definition TrimRight :: "char \<Rightarrow> string \<Rightarrow> string" where
  "TrimRight c s = rev (dropWhile (\<lambda>x. x = c) (rev s))"

definition NewDeepSeekProvider :: "string \<Rightarrow> string \<Rightarrow> string \<Rightarrow> DeepSeek" where
  "NewDeepSeekProvider apiKey baseURL model = (let url = TrimRight (CHR ''/'') baseURL in
     \<lparr>ds_apiKey = apiKey, ds_baseURL = (if url = [] then ''https://api.deepseek.com'' else url),
      ds_model = (if model = [] then ''deepseek-v4-flash'' else model)\<rparr>)"

text \<open>A decoded body: the contents of the choices, prompt and completion tokens.\<close>

type_synonym decoded = "string list \<times> int \<times> int"

record HttpRequest =
  hr_URL :: string
  hr_Authorization :: string
  hr_Model :: string
  hr_Prompt :: string

text \<open>
  The client answers with an error, or with the status code and the decoding of the body. A body
  that \<open>json.Marshal\<close> builds from strings never fails; \<open>newreq\<close> is the error of building the request.
\<close>

type_synonym 'g http = "HttpRequest \<Rightarrow> 'g \<Rightarrow> (llm_error + int \<times> (llm_error + decoded)) \<times> 'g"

definition deepseek_Complete :: "llm_error option \<Rightarrow> 'g http \<Rightarrow> int \<Rightarrow> DeepSeek \<Rightarrow> 'g provider" where
  "deepseek_Complete newreq client elapsed p req g = (
     if ds_apiKey p = [] then (Inl (ProviderError ''no_api_key'' (Some ErrProviderUnavailable)), g)
     else case newreq of Some e \<Rightarrow> (Inl (ProviderError ''api_error'' (Some e)), g)
     | None \<Rightarrow> (case client \<lparr>hr_URL = ds_baseURL p @ ''/chat/completions'', hr_Authorization = ''Bearer '' @ ds_apiKey p,
             hr_Model = ds_model p, hr_Prompt = lreq_Prompt req\<rparr> g of
         (Inl e, g1) \<Rightarrow> (Inl (ProviderError ''api_error'' (Some e)), g1)
       | (Inr (code, body), g1) \<Rightarrow>
           if code < 200 \<or> 300 \<le> code
           then (Inl (ProviderError ''api_error'' (Some (Plain (Errorf ''deepseek status %d'' [Itoa code])))), g1)
           else (case body of
               Inl e \<Rightarrow> (Inl (ProviderError ''api_error'' (Some e)), g1)
             | Inr (choices, promptTokens, completionTokens) \<Rightarrow>
                 (case choices of
                    [] \<Rightarrow> (Inl (ProviderError ''api_error'' (Some (Plain (Errorf ''deepseek returned no choices'' [])))), g1)
                  | content # _ \<Rightarrow>
                      (Inr (zero_LResponse\<lparr>lresp_Text := content, lresp_Provider := ''deepseek'', lresp_Model := ds_model p,
                              lresp_EvidenceMode := ''real-api''\<rparr>,
                            \<lparr>us_PromptTokens = promptTokens, us_CompletionTokens = completionTokens,
                             us_CachedTokens = 0, us_PromptMS = 0, us_TTFTMS = 0,
                             us_TotalMS = (if elapsed = 0 then 1 else elapsed), us_Mode = ''real-api''\<rparr>), g1)))))"

section \<open>Properties\<close>

text \<open>
  C39. The router never passes off a substitute: a completion it returns comes either from the
  selected provider, called once, with that provider's text, a provider name and a non-empty
  evidence mode; or, only after the selected provider failed, from a different fallback
  provider, and is then marked as a fallback from the selected one with evidence mode \<open>mock\<close>
  and a non-empty reason.
\<close>

theorem Complete_labels:
  assumes "llm_Complete r req g = (Inr (resp, usage), g')" and "name = provider_name r req"
  shows "\<exists>p. rt_providers r name = Some p \<and>
    ((\<exists>resp0. p req g = (Inr (resp0, usage), g') \<and> lresp_Text resp = lresp_Text resp0
        \<and> lresp_Fallback resp = lresp_Fallback resp0 \<and> lresp_EvidenceMode resp \<noteq> []
        \<and> (lresp_EvidenceMode resp0 \<noteq> [] \<longrightarrow> lresp_EvidenceMode resp = lresp_EvidenceMode resp0)
        \<and> lresp_Provider resp = (if lresp_Provider resp0 = [] then name else lresp_Provider resp0))
   \<or> (\<exists>err g1 f resp0. p req g = (Inl err, g1) \<and> rt_providers r (rt_fallbackProvider r) = Some f
        \<and> rt_fallbackProvider r \<noteq> name \<and> f req g1 = (Inr (resp0, usage), g') \<and> lresp_Text resp = lresp_Text resp0
        \<and> lresp_Fallback resp \<and> lresp_FallbackFrom resp = name \<and> lresp_RequestedProvider resp = name
        \<and> lresp_EvidenceMode resp = ''mock'' \<and> lresp_FallbackReason resp \<noteq> []))"
proof -
  obtain p where p: "rt_providers r name = Some p"
    using assms by (cases "rt_providers r name") (simp_all add: llm_Complete_def selectProvider_def)
  note run = assms(1) [unfolded llm_Complete_def selectProvider_def assms(2) [symmetric] p prod.case option.case]
  have reason: "providerErrorReason e \<noteq> []" for e
    by (simp add: providerErrorReason_def split: option.splits)
  obtain res g1 where call: "p req g = (res, g1)" by fastforce
  show ?thesis
  proof (cases res)
    case (Inr ru)
    obtain resp0 u where ru: "ru = (resp0, u)" by fastforce
    show ?thesis
      using run call Inr ru p by (auto simp: Let_def valueOr_def split: if_splits)
  next
    case (Inl err)
    obtain f where f: "rt_providers r (rt_fallbackProvider r) = Some f" "rt_fallbackProvider r \<noteq> name"
      using run call Inl by (auto split: option.splits if_splits)
    obtain res2 g2 where call2: "f req g1 = (res2, g2)" by fastforce
    then obtain resp0 where ok: "res2 = Inr (resp0, usage)" "g2 = g'"
      "resp = resp0\<lparr>lresp_Provider := valueOr (lresp_Provider resp0) (rt_fallbackProvider r),
          lresp_RequestedProvider := name, lresp_FallbackFrom := name, lresp_Fallback := True,
          lresp_FallbackReason := providerErrorReason err, lresp_EvidenceMode := ''mock''\<rparr>"
      using run call Inl f by (cases res2) (auto split: if_splits)
    show ?thesis using p call Inl f call2 ok reason by auto
  qed
qed

definition fallback_router :: "unit Router" where
  "fallback_router = SetFallback ''mock'' (SetDefault ''deepseek''
     (router_Register ''mock'' (mock_Complete None 3 ''mock'') (router_Register ''deepseek''
       (deepseek_Complete None (\<lambda>q g. (Inr (500, Inr ([], 0, 0)), g)) 9 (NewDeepSeekProvider ''k'' [] [])) NewRouter)))"

definition some_request :: LRequest where
  "some_request = \<lparr>lreq_AgentID = ''a'', lreq_Role = ''coder'', lreq_Provider = [], lreq_Prompt = ''hello''\<rparr>"

lemma Complete_labels_witness:
  "\<exists>resp usage. llm_Complete fallback_router some_request () = (Inr (resp, usage), ()) \<and> lresp_Fallback resp
     \<and> lresp_EvidenceMode resp = ''mock''"
proof -
  have name: "provider_name fallback_router some_request = ''deepseek''"
    by (simp add: provider_name_def fallback_router_def some_request_def SetFallback_def SetDefault_def
        router_Register_def NewRouter_def)
  have provs: "rt_providers fallback_router ''deepseek'' = Some (deepseek_Complete None
      (\<lambda>q g. (Inr (500, Inr ([], 0, 0)), g)) 9 (NewDeepSeekProvider ''k'' [] []))"
    "rt_providers fallback_router ''mock'' = Some (mock_Complete None 3 ''mock'')"
    "rt_fallbackProvider fallback_router = ''mock''"
    by (simp_all add: fallback_router_def SetFallback_def SetDefault_def router_Register_def)
  have fails: "\<exists>e. deepseek_Complete None (\<lambda>q g. (Inr (500, Inr ([], 0, 0)), g)) 9
      (NewDeepSeekProvider ''k'' [] []) some_request () = (Inl e, ())"
    by (simp add: deepseek_Complete_def NewDeepSeekProvider_def Let_def)
  then obtain e where e: "deepseek_Complete None (\<lambda>q g. (Inr (500, Inr ([], 0, 0)), g)) 9
      (NewDeepSeekProvider ''k'' [] []) some_request () = (Inl e, ())" by blast
  obtain resp usage where run: "llm_Complete fallback_router some_request () = (Inr (resp, usage), ())"
    by (simp add: llm_Complete_def selectProvider_def name provs e mock_Complete_def Let_def)
  from Complete_labels [OF run name [symmetric]] run show ?thesis by (auto simp: provs e)
qed

end
