(* ===== verification/Setup.thy ===== *)
theory Setup
  imports GoStrings Events Dag
begin

text \<open>
  The configuration file (\<open>internal/config/config.go\<close>), the canned demo task
  (\<open>internal/demo/software_demo.go\<close>) and the degraded kernel observer (\<open>internal/kernel/observer.go\<close>).
\<close>

section \<open>Configuration\<close>

record Config =
  cfg_HTTPAddr :: string
  cfg_Mode :: string
  cfg_DataDir :: string
  cfg_SocketPath :: string
  cfg_WorkerCommand :: string
  cfg_HeartbeatTimeoutMS :: int
  cfg_CgroupRoot :: string

definition default_config :: Config where
  "default_config = \<lparr>cfg_HTTPAddr = ''127.0.0.1:8080'', cfg_Mode = ''mock'', cfg_DataDir = ''.aort-dev'',
     cfg_SocketPath = [], cfg_WorkerCommand = [], cfg_HeartbeatTimeoutMS = 6000, cfg_CgroupRoot = []\<rparr>"

text \<open>
  \<open>fmt.Sscanf(value, "%d", &timeout)\<close> on a value without leading white space: an optional sign and
  the longest run of digits; what follows is not looked at. \<open>None\<close>: no digits, or out of range.
\<close>

definition Sscan_d :: "string \<Rightarrow> int option" where
  "Sscan_d s = (let (neg, ds) = (case s of c # cs \<Rightarrow> if c = CHR ''-'' then (True, cs)
                 else if c = CHR ''+'' then (False, cs) else (False, s) | [] \<Rightarrow> (False, s));
       digits = takeWhile (\<lambda>c. digit_val c \<noteq> None) ds
     in if digits = [] then None
        else case digits_val 0 digits of None \<Rightarrow> None
          | Some n \<Rightarrow> let z = (if neg then - int n else int n) in if int_in_range z then Some z else None)"

text \<open>One line of the file.\<close>

definition load_line :: "string \<Rightarrow> Config \<Rightarrow> Config result" where
  "load_line text0 cfg = (let line = TrimSpace text0 in
     if line = [] \<or> HasPrefix line ''#'' then Inr cfg
     else case Cut line (CHR '':'') of (key0, value0, found) \<Rightarrow>
       if \<not> found then Inl (Errorf ''invalid config line %q'' [line])
       else let value = TrimSpace value0; key = TrimSpace key0 in
         if key = ''http_addr'' then Inr (cfg\<lparr>cfg_HTTPAddr := value\<rparr>)
         else if key = ''mode'' then Inr (cfg\<lparr>cfg_Mode := value\<rparr>)
         else if key = ''data_dir'' then Inr (cfg\<lparr>cfg_DataDir := value\<rparr>)
         else if key = ''socket_path'' then Inr (cfg\<lparr>cfg_SocketPath := value\<rparr>)
         else if key = ''worker_command'' then Inr (cfg\<lparr>cfg_WorkerCommand := value\<rparr>)
         else if key = ''heartbeat_timeout_ms''
         then (case Sscan_d value of None \<Rightarrow> Inl (Errorf ''invalid heartbeat_timeout_ms %q'' [value])
             | Some timeout \<Rightarrow> Inr (cfg\<lparr>cfg_HeartbeatTimeoutMS := timeout\<rparr>))
         else if key = ''cgroup_root'' then Inr (cfg\<lparr>cfg_CgroupRoot := value\<rparr>)
         else Inl (Errorf ''unknown config key %q'' [key]))"

fun load_lines :: "string list \<Rightarrow> Config \<Rightarrow> Config result" where
  "load_lines [] cfg = Inr cfg"
| "load_lines (l # ls) cfg = (case load_line l cfg of Inl e \<Rightarrow> Inl e | Inr cfg' \<Rightarrow> load_lines ls cfg')"

text \<open>
  \<open>Load\<close>: the outcome of \<open>os.Open\<close>, the lines that the scanner delivers and the error it ends with.
\<close>

definition config_Load :: "go_error option \<Rightarrow> string list \<Rightarrow> go_error option \<Rightarrow> Config result" where
  "config_Load opened scanned scan_err = (case opened of Some e \<Rightarrow> Inl e
     | None \<Rightarrow> (case load_lines scanned default_config of Inl e \<Rightarrow> Inl e
         | Inr cfg \<Rightarrow> (case scan_err of Some e \<Rightarrow> Inl e | None \<Rightarrow> Inr cfg)))"

lemma Sscan_trailing: "Sscan_d ''6000ms'' = Some 6000" "Sscan_d ''ms'' = None"
  by code_simp+

section \<open>Demo\<close>

record DemoAgent =
  da_ID :: string
  da_Role :: string
  da_State :: string
  da_PID :: int
  da_LastSeen :: int
  da_CapsuleMode :: string
  da_CapsuleEvidenceMode :: string
  da_CgroupPath :: string

definition demo_agent :: "string \<Rightarrow> string \<Rightarrow> string \<Rightarrow> DemoAgent" where
  "demo_agent agentID role state = \<lparr>da_ID = agentID, da_Role = role, da_State = state, da_PID = 0,
     da_LastSeen = 0, da_CapsuleMode = [], da_CapsuleEvidenceMode = [], da_CgroupPath = []\<rparr>"

record DAGNode =
  dn_ID :: string
  dn_Role :: string
  dn_Dependencies :: "string list"

record DemoResult =
  dr_TaskID :: string
  dr_Status :: string
  dr_Agents :: "DemoAgent list"
  dr_DAG :: "DAGNode list"
  dr_Events :: "Event list"

definition demo_rows :: "(string \<times> string \<times> payload) list" where
  "demo_rows = [
     (''task.created'', [], [(''requirement'', GStr ''Todo Web API'')]),
     (''agent.created'', ''planner-1'', [(''role'', GStr ''planner'')]),
     (''agent.state_changed'', ''planner-1'', [(''state'', GStr ''READY'')]),
     (''scheduler.selected'', ''planner-1'', [(''strategy'', GStr ''mock''), (''decision_reason'', GStr ''root DAG node'')]),
     (''syscall.finished'', ''planner-1'', [(''name'', GStr ''context.materialize''), (''exit_code'', GInt 0)]),
     (''agent.state_changed'', ''planner-1'', [(''state'', GStr ''COMPLETED'')]),
     (''agent.created'', ''coder-a-1'', [(''role'', GStr ''coder-a'')]),
     (''agent.created'', ''coder-b-1'', [(''role'', GStr ''coder-b'')]),
     (''agent.state_changed'', ''coder-a-1'', [(''state'', GStr ''COMPLETED'')]),
     (''agent.state_changed'', ''coder-b-1'', [(''state'', GStr ''COMPLETED'')]),
     (''agent.created'', ''tester-1'', [(''role'', GStr ''tester'')]),
     (''syscall.finished'', ''tester-1'', [(''name'', GStr ''tool.go_test''), (''exit_code'', GInt 1)]),
     (''agent.created'', ''reviewer-1'', [(''role'', GStr ''reviewer'')]),
     (''agent.created'', ''fixer-1'', [(''role'', GStr ''fixer'')]),
     (''agent.state_changed'', ''fixer-1'', [(''state'', GStr ''COMPLETED'')]),
     (''syscall.finished'', ''tester-1'', [(''name'', GStr ''tool.go_test''), (''exit_code'', GInt 0)]),
     (''task.completed'', [], [(''status'', GStr ''completed'')])]"

definition demoEvents :: "string \<Rightarrow> Event list" where
  "demoEvents taskID = map (\<lambda>(i, eventType, agentID, payload).
     \<lparr>ev_ID = taskID @ ''-e-'' @ pad_nat 3 (i + 1), ev_TaskID = taskID, ev_AgentID = agentID, ev_Type = eventType,
      ev_Source = ''runtime'', ev_Timestamp = int (i + 1), ev_Payload = payload\<rparr>) (enumerate 0 demo_rows)"

definition demo_agents :: "DemoAgent list" where
  "demo_agents = [
     demo_agent ''planner-1'' ''planner'' ''COMPLETED'',
     demo_agent ''coder-a-1'' ''coder-a'' ''COMPLETED'',
     demo_agent ''coder-b-1'' ''coder-b'' ''COMPLETED'',
     demo_agent ''tester-1'' ''tester'' ''COMPLETED'',
     demo_agent ''reviewer-1'' ''reviewer'' ''COMPLETED'',
     demo_agent ''fixer-1'' ''fixer'' ''COMPLETED'']"

definition demo_dag :: "DAGNode list" where
  "demo_dag = [
     \<lparr>dn_ID = ''planner'', dn_Role = ''planner'', dn_Dependencies = []\<rparr>,
     \<lparr>dn_ID = ''coder-a'', dn_Role = ''coder-a'', dn_Dependencies = [''planner'']\<rparr>,
     \<lparr>dn_ID = ''coder-b'', dn_Role = ''coder-b'', dn_Dependencies = [''planner'']\<rparr>,
     \<lparr>dn_ID = ''tester'', dn_Role = ''tester'', dn_Dependencies = [''coder-a'', ''coder-b'']\<rparr>,
     \<lparr>dn_ID = ''reviewer'', dn_Role = ''reviewer'', dn_Dependencies = [''tester'']\<rparr>,
     \<lparr>dn_ID = ''fixer'', dn_Role = ''fixer'', dn_Dependencies = [''reviewer'']\<rparr>]"

text \<open>\<open>Run\<close>: the atomic counter of tasks; \<open>ctx\<close> is the error of a finished context.\<close>

definition demo_Run :: "go_error option \<Rightarrow> u64 \<Rightarrow> DemoResult result \<times> u64" where
  "demo_Run ctx nextTask = (case ctx of Some e \<Rightarrow> (Inl e, nextTask)
     | None \<Rightarrow> let n = nextTask + 1; taskID = ''task-'' @ Itoa (uint n) in
         (Inr \<lparr>dr_TaskID = taskID, dr_Status = ''completed'', dr_Agents = demo_agents, dr_DAG = demo_dag,
            dr_Events = demoEvents taskID\<rparr>, n))"

definition demo_Roles :: "DemoResult \<Rightarrow> string list" where
  "demo_Roles r = map da_Role (dr_Agents r)"

text \<open>The demo lists its DAG in a topological order, so \<open>Dag.Ready\<close> can finish it.\<close>

fun topological :: "string list \<Rightarrow> DAGNode list \<Rightarrow> bool" where
  "topological done_nodes [] = True"
| "topological done_nodes (n # ns) = (set (dn_Dependencies n) \<subseteq> set done_nodes \<and> topological (dn_ID n # done_nodes) ns)"

lemma demo_dag_topological: "topological [] demo_dag"
  by (simp add: demo_dag_def)

lemma demoEvents_ordered: "map ev_Timestamp (demoEvents t) = [1..17]"
  by (simp add: demoEvents_def demo_rows_def upto.simps)

section \<open>Kernel observer\<close>

definition kernel_ModeDegraded :: string where "kernel_ModeDegraded = ''degraded''"
definition ProbeSyscallGatewayProxy :: string where "ProbeSyscallGatewayProxy = ''syscall-gateway-proxy''"

record KStatus =
  ks_Enabled :: bool
  ks_Mode :: string
  ks_Probe :: string
  ks_Reason :: string
  ks_BTFAvailable :: bool
  ks_BPFFSReady :: bool
  ks_EventCount :: int

record ExecObservation =
  eo_TaskID :: string
  eo_AgentID :: string
  eo_PID :: int
  eo_Command :: string
  eo_Args :: "string list"
  eo_CgroupPath :: string
  eo_Workspace :: string
  eo_Status :: string

record ExecEvent =
  ee_ID :: string
  ee_Type :: string
  ee_Source :: string
  ee_TaskID :: string
  ee_AgentID :: string
  ee_PID :: int
  ee_Command :: string
  ee_Args :: "string list"
  ee_CgroupPath :: string
  ee_Workspace :: string
  ee_Status :: string
  ee_Mode :: string
  ee_Probe :: string
  ee_Timestamp :: int

record Observer =
  ob_sink :: bool
  ob_BTFPath :: string
  ob_BPFFS :: string
  ob_status :: KStatus
  ob_events :: "ExecEvent list"

definition NewObserver :: "bool \<Rightarrow> string \<Rightarrow> string \<Rightarrow> Observer" where
  "NewObserver sink btf bpffs = \<lparr>ob_sink = sink,
     ob_BTFPath = (if btf = [] then ''/sys/kernel/btf/vmlinux'' else btf),
     ob_BPFFS = (if bpffs = [] then ''/sys/fs/bpf'' else bpffs),
     ob_status = \<lparr>ks_Enabled = False, ks_Mode = kernel_ModeDegraded, ks_Probe = ProbeSyscallGatewayProxy,
       ks_Reason = [], ks_BTFAvailable = False, ks_BPFFSReady = False, ks_EventCount = 0\<rparr>,
     ob_events = []\<rparr>"

text \<open>\<open>file_exists\<close> and \<open>dir_exists\<close> are \<open>os.Stat\<close> on the file system of the moment.\<close>

definition observer_Start ::
    "clock \<Rightarrow> go_error option \<Rightarrow> string \<Rightarrow> (string \<Rightarrow> bool) \<Rightarrow> (string \<Rightarrow> bool) \<Rightarrow> Observer
     \<Rightarrow> go_error option \<times> Observer \<times> Event list" where
  "observer_Start clk ctx goos file_exists dir_exists o0 = (case ctx of Some e \<Rightarrow> (Some e, o0, [])
     | None \<Rightarrow> let btf = file_exists (ob_BTFPath o0); bpffs = dir_exists (ob_BPFFS o0);
         reason = (if goos \<noteq> ''linux'' then ''real eBPF requires Linux; using syscall gateway proxy events''
           else if \<not> btf then ''kernel BTF vmlinux is unavailable; using syscall gateway proxy events''
           else if \<not> bpffs then ''bpffs is unavailable; using syscall gateway proxy events''
           else ''real eBPF sched_process_exec observer is not attached in this build; using '' @ ProbeSyscallGatewayProxy);
         status = \<lparr>ks_Enabled = False, ks_Mode = kernel_ModeDegraded, ks_Probe = ProbeSyscallGatewayProxy,
           ks_Reason = reason, ks_BTFAvailable = btf, ks_BPFFSReady = bpffs,
           ks_EventCount = int (length (ob_events o0))\<rparr>
       in (None, o0\<lparr>ob_status := status\<rparr>,
           if \<not> ob_sink o0 then []
           else [new_event clk ''kernel.observer_disabled'' [] [] ''kernel''
              [(''enabled'', GBool (ks_Enabled status)), (''mode'', GStr (ks_Mode status)),
               (''probe'', GStr (ks_Probe status)), (''reason'', GStr (ks_Reason status)),
               (''btf_available'', GBool (ks_BTFAvailable status)), (''bpffs_ready'', GBool (ks_BPFFSReady status))]]))"

definition ObserveExec :: "clock \<Rightarrow> ExecObservation \<Rightarrow> Observer \<Rightarrow> Event \<times> Observer \<times> Event list" where
  "ObserveExec clk x o0 = (let
       r = \<lparr>ee_ID = stamp (clk 1), ee_Type = ''kernel.exec'', ee_Source = ''kernel'', ee_TaskID = eo_TaskID x,
         ee_AgentID = eo_AgentID x, ee_PID = eo_PID x, ee_Command = eo_Command x, ee_Args = eo_Args x,
         ee_CgroupPath = eo_CgroupPath x, ee_Workspace = eo_Workspace x, ee_Status = eo_Status x,
         ee_Mode = kernel_ModeDegraded, ee_Probe = ProbeSyscallGatewayProxy, ee_Timestamp = unix_ms (clk 0)\<rparr>;
       evs = ob_events o0 @ [r];
       o1 = o0\<lparr>ob_events := evs, ob_status := (ob_status o0)\<lparr>ks_EventCount := int (length evs)\<rparr>\<rparr>;
       event = \<lparr>ev_ID = ee_ID r, ev_TaskID = ee_TaskID r, ev_AgentID = ee_AgentID r, ev_Type = ee_Type r,
         ev_Source = ee_Source r, ev_Timestamp = ee_Timestamp r,
         ev_Payload = [(''pid'', GInt (ee_PID r)), (''command'', GStr (ee_Command r)), (''args'', GStrs (ee_Args r)),
           (''cgroup_path'', GStr (ee_CgroupPath r)), (''workspace'', GStr (ee_Workspace r)),
           (''status'', GStr (ee_Status r)), (''mode'', GStr (ee_Mode r)), (''probe'', GStr (ee_Probe r))]\<rparr>
     in (event, o1, if ob_sink o0 then [event] else []))"

definition observer_Status :: "Observer \<Rightarrow> KStatus" where
  "observer_Status o0 = ob_status o0"

definition observer_Events :: "Observer \<Rightarrow> ExecEvent list" where
  "observer_Events o0 = ob_events o0"

text \<open>The reported count is the number of recorded events.\<close>

lemma observer_count: "ks_EventCount (ob_status (fst (snd (ObserveExec clk x o0))))
    = int (length (ob_events (fst (snd (ObserveExec clk x o0)))))"
  by (simp add: ObserveExec_def Let_def)

end
