(* ===== verification/Gateway.thy ===== *)
theory Gateway
  imports CvmEvict Blackboard Llm Confinement
begin

text \<open>
  The syscall gateway (\<open>internal/syscall/gateway.go\<close>): every request of an agent goes through
  \<open>Handle\<close>, which publishes its start, executes one of eight operations, appends a record and
  publishes its end.

  The gateway's state is a record that holds the components it calls (\<open>None\<close> where one is not
  configured), the events published so far (\<open>gw_out\<close>) and the state \<open>'g\<close> of the world outside. That
  world - the workspace runtime, processes, directories, shared memory and the callbacks of the
  server - is the record \<open>'g env\<close> of functions. \<open>clks i\<close> is the clock of the i-th operation of a
  handler; \<open>pages_order\<close> the order in which the store's pages are ranged over. A syscall's
  components have locks of their own, so another agent's syscall can come between two operations
  of a handler; what a handler does between them is what these definitions compute.
\<close>

section \<open>Types\<close>

definition StatusOK :: string where "StatusOK = ''OK''"
definition StatusError :: string where "StatusError = ''ERROR''"
definition StatusTimeout :: string where "StatusTimeout = ''TIMEOUT''"
definition StatusDenied :: string where "StatusDenied = ''DENIED''"

lemmas status_defs = StatusOK_def StatusError_def StatusTimeout_def StatusDenied_def

record GRequest =
  gq_RequestID :: string
  gq_AgentID :: string
  gq_TaskID :: string
  gq_Name :: string
  gq_Args :: "payload option"

record GResponse =
  gr_RequestID :: string
  gr_Status :: string
  gr_Error :: string
  gr_Payload :: "payload option"

record GRecord =
  grec_ID :: string
  grec_AgentID :: string
  grec_Name :: string
  grec_StartTime :: int
  grec_EndTime :: int
  grec_DurationMS :: int
  grec_Status :: string
  grec_Error :: string
  grec_InputSize :: int
  grec_OutputSize :: int
  grec_Evidence :: "payload option"

record Report =
  rpt_AgentID :: string
  rpt_TaskID :: string
  rpt_Status :: string
  rpt_Payload :: "payload option"

record SpawnRequest =
  sq_AgentID :: string
  sq_TaskID :: string
  sq_ParentAgentID :: string
  sq_Role :: string
  sq_Reason :: string
  sq_Dependencies :: "string list"

record SpawnResult =
  sr_AgentID :: string
  sr_Role :: string
  sr_TaskID :: string
  sr_State :: string

record GExecObservation =
  geo_TaskID :: string
  geo_AgentID :: string
  geo_PID :: int
  geo_Command :: string
  geo_Args :: "string list"
  geo_CgroupPath :: string
  geo_Workspace :: string
  geo_Status :: string

record SmokeResult =
  shm_IPCMode :: string
  shm_EvidenceMode :: string
  shm_MemfdCreateSuccess :: bool
  shm_MmapSuccess :: bool
  shm_FDPassingSuccess :: bool
  shm_WorkerMmapSuccess :: bool
  shm_SharedPages :: int
  shm_PayloadBytesSent :: int
  shm_ReferencedContextBytes :: int
  shm_AvoidedCopyBytes :: int
  shm_DataIntegrityOK :: bool
  shm_CleanupSuccess :: bool
  shm_FallbackReason :: string

definition zero_SmokeResult :: SmokeResult where
  "zero_SmokeResult = \<lparr>shm_IPCMode = [], shm_EvidenceMode = [], shm_MemfdCreateSuccess = False, shm_MmapSuccess = False,
     shm_FDPassingSuccess = False, shm_WorkerMmapSuccess = False, shm_SharedPages = 0, shm_PayloadBytesSent = 0,
     shm_ReferencedContextBytes = 0, shm_AvoidedCopyBytes = 0, shm_DataIntegrityOK = False, shm_CleanupSuccess = False,
     shm_FallbackReason = []\<rparr>"

text \<open>
  The outcome of \<open>cmd.Run\<close>: the error is an \<open>exec.ExitError\<close> with its code, or another one;
  \<open>timed_out\<close> says that the deadline of the tool's context has passed.
\<close>

datatype run_error = ExitError int string | OtherError string

record ToolOutcome =
  to_pid :: int
  to_stdout :: string
  to_stderr :: string
  to_timed_out :: bool
  to_err :: "run_error option"

text \<open>The world outside, as functions on its state.\<close>

record 'g env =
  env_marshal :: "payload \<Rightarrow> int"              \<comment> \<open>\<open>len(json.Marshal(m))\<close>, 0 on an error\<close>
  env_text :: "go_error \<Rightarrow> string"              \<comment> \<open>\<open>err.Error()\<close>\<close>
  env_cwd :: string                            \<comment> \<open>the working directory of the process\<close>
  env_order :: "Store \<Rightarrow> string list"           \<comment> \<open>the order of a range over the pages\<close>
  env_WorkspaceDir :: "string \<Rightarrow> 'g \<Rightarrow> string result \<times> 'g"
  env_Commit :: "string \<Rightarrow> 'g \<Rightarrow> go_error option \<times> 'g"
  env_Rollback :: "string \<Rightarrow> 'g \<Rightarrow> go_error option \<times> 'g"
  env_Destroy :: "string \<Rightarrow> 'g \<Rightarrow> go_error option \<times> 'g"
  env_MkdirAll :: "string \<Rightarrow> 'g \<Rightarrow> go_error option \<times> 'g"
  env_run :: "string \<Rightarrow> string list \<Rightarrow> string \<Rightarrow> int \<Rightarrow> 'g \<Rightarrow> ToolOutcome \<times> 'g"
  env_Transfer :: "string \<Rightarrow> int \<Rightarrow> 'g \<Rightarrow> (go_error option \<times> SmokeResult) \<times> 'g"
  env_spawner :: "SpawnRequest \<Rightarrow> Store option \<Rightarrow> 'g \<Rightarrow> SpawnResult result \<times> Store option \<times> Event list \<times> 'g"
  env_reporter :: "Report \<Rightarrow> 'g \<Rightarrow> 'g"
  env_observer :: "GExecObservation \<Rightarrow> 'g \<Rightarrow> 'g"

record 'g Gateway =
  gw_cvm :: "Store option"
  gw_ipc :: "Blackboard option"
  gw_llm :: "'g Router option"
  gw_sink :: bool
  gw_workspaceRoot :: string
  gw_workspaceRuntime :: bool
  gw_toolTimeout :: int                        \<comment> \<open>nanoseconds\<close>
  gw_reporter :: bool
  gw_spawner :: bool
  gw_execObserver :: bool
  gw_records :: "GRecord list"
  gw_out :: "Event list"
  gw_world :: 'g

text \<open>\<open>NewGateway\<close> fills in the timeout and the workspace root; \<open>tmp\<close> is \<open>os.TempDir()\<close>.\<close>

definition NewGateway :: "string \<Rightarrow> 'g Gateway \<Rightarrow> 'g Gateway" where
  "NewGateway tmp cfg = cfg\<lparr>
     gw_toolTimeout := (if gw_toolTimeout cfg \<le> 0 then 3000000000 else gw_toolTimeout cfg),
     gw_workspaceRoot := (if gw_workspaceRoot cfg = [] then Join [tmp, ''aort-workspaces''] else gw_workspaceRoot cfg),
     gw_records := [], gw_out := []\<rparr>"

section \<open>Arguments\<close>

definition args_get :: "payload option \<Rightarrow> string \<Rightarrow> gval option" where
  "args_get args key = (case args of None \<Rightarrow> None | Some kvs \<Rightarrow> map_of kvs key)"

definition stringArg :: "payload option \<Rightarrow> string \<Rightarrow> string \<times> bool" where
  "stringArg args key = (case args_get args key of Some (GStr s) \<Rightarrow> (s, True) | _ \<Rightarrow> ([], False))"

definition stringSliceArg :: "payload option \<Rightarrow> string \<Rightarrow> string list" where
  "stringSliceArg args key = (case args_get args key of
       Some (GStrs ss) \<Rightarrow> ss
     | Some (GList xs) \<Rightarrow> List.map_filter (\<lambda>x. case x of GStr s \<Rightarrow> Some s | _ \<Rightarrow> None) xs
     | _ \<Rightarrow> [])"

definition intArg :: "payload option \<Rightarrow> string \<Rightarrow> int" where
  "intArg args key = (case args_get args key of
       Some (GInt n) \<Rightarrow> n | Some (GInt64 n) \<Rightarrow> n | Some (GFloat x) \<Rightarrow> f64_to_int x
     | Some (GNumber s) \<Rightarrow> Atoi s | _ \<Rightarrow> 0)"

definition boolArg :: "payload option \<Rightarrow> string \<Rightarrow> bool" where
  "boolArg args key = (case args_get args key of
       Some (GBool b) \<Rightarrow> b | Some (GStr s) \<Rightarrow> s = ''true'' | _ \<Rightarrow> False)"

text \<open>
  \<open>jsonSize\<close> of a map: a nil map inside an \<open>any\<close> is not the nil value, so the test for nil does
  not catch it and it is marshalled to \<open>null\<close>.
\<close>

definition jsonSize :: "(payload \<Rightarrow> int) \<Rightarrow> payload option \<Rightarrow> int" where
  "jsonSize marshal value = (case value of None \<Rightarrow> int (length ''null'') | Some kvs \<Rightarrow> marshal kvs)"

definition exitCode :: "run_error \<Rightarrow> int" where
  "exitCode err = (case err of ExitError code _ \<Rightarrow> code | OtherError _ \<Rightarrow> -1)"

definition run_error_text :: "run_error \<Rightarrow> string" where
  "run_error_text err = (case err of ExitError _ s \<Rightarrow> s | OtherError s \<Rightarrow> s)"

definition usagePayload :: "Usage \<Rightarrow> payload" where
  "usagePayload u = [(''prompt_tokens'', GInt (us_PromptTokens u)), (''completion_tokens'', GInt (us_CompletionTokens u)),
     (''cached_tokens'', GInt (us_CachedTokens u)), (''prompt_ms'', GInt64 (us_PromptMS u)),
     (''ttft_ms'', GInt64 (us_TTFTMS u)), (''total_ms'', GInt64 (us_TotalMS u)), (''mode'', GStr (us_Mode u))]"

section \<open>Responses and effects\<close>

definition ok_resp :: "GRequest \<Rightarrow> payload \<Rightarrow> GResponse" where
  "ok_resp req p = \<lparr>gr_RequestID = gq_RequestID req, gr_Status = StatusOK, gr_Error = [], gr_Payload = Some p\<rparr>"

definition err_resp :: "GRequest \<Rightarrow> string \<Rightarrow> string \<Rightarrow> GResponse" where
  "err_resp req status msg = \<lparr>gr_RequestID = gq_RequestID req, gr_Status = status, gr_Error = msg, gr_Payload = None\<rparr>"

definition gw_publish :: "clock \<Rightarrow> string \<Rightarrow> GRequest \<Rightarrow> payload \<Rightarrow> 'g Gateway \<Rightarrow> 'g Gateway" where
  "gw_publish clk eventType req payload g = (if \<not> gw_sink g then g
     else g\<lparr>gw_out := gw_out g @ [new_event clk eventType (gq_TaskID req) (gq_AgentID req) ''syscall'' payload]\<rparr>)"

text \<open>An operation of the store, whose events go to the same log.\<close>

definition on_cvm :: "(Store \<Rightarrow> 'a \<times> Store \<times> Event list) \<Rightarrow> Store \<Rightarrow> 'g Gateway \<Rightarrow> 'a \<times> 'g Gateway" where
  "on_cvm f s g = (case f s of (r, s', ev) \<Rightarrow> (r, g\<lparr>gw_cvm := Some s', gw_out := gw_out g @ ev\<rparr>))"

text \<open>
  A spawn: the callback works on the page store that the gateway has, too, and publishes to the same
  sink; it cannot give the gateway a store or take it away.
\<close>

definition on_spawner :: "'g env \<Rightarrow> SpawnRequest \<Rightarrow> 'g Gateway \<Rightarrow> SpawnResult result \<times> 'g Gateway" where
  "on_spawner env q g = (case env_spawner env q (gw_cvm g) (gw_world g) of (r, s, ev, w) \<Rightarrow>
     (r, g\<lparr>gw_cvm := (if gw_cvm g = None \<or> s = None then gw_cvm g else s), gw_out := gw_out g @ ev, gw_world := w\<rparr>))"

definition on_world :: "('g \<Rightarrow> 'a \<times> 'g) \<Rightarrow> 'g Gateway \<Rightarrow> 'a \<times> 'g Gateway" where
  "on_world f g = (case f (gw_world g) of (r, w) \<Rightarrow> (r, g\<lparr>gw_world := w\<rparr>))"

section \<open>Context\<close>

fun pin_pages :: "(nat \<Rightarrow> clock) \<Rightarrow> string list \<Rightarrow> 'g Gateway \<Rightarrow> go_error option \<times> 'g Gateway" where
  "pin_pages clks [] g = (None, g)"
| "pin_pages clks (pageID # ids) g = (case gw_cvm g of
       None \<Rightarrow> (None, g)
     | Some s \<Rightarrow> (case on_cvm (PinPage (clks 0) pageID) s g of
         (Inl e, g') \<Rightarrow> (Some e, g') | (Inr _, g') \<Rightarrow> pin_pages (clks \<circ> Suc) ids g'))"

definition applyCVMControls ::
    "codec \<Rightarrow> 'g env \<Rightarrow> (nat \<Rightarrow> clock) \<Rightarrow> GRequest \<Rightarrow> 'g Gateway \<Rightarrow> go_error option \<times> 'g Gateway" where
  "applyCVMControls cd env clks req g = (if gq_Args req = None then (None, g)
     else case pin_pages (\<lambda>i. clks (i + 2)) (stringSliceArg (gq_Args req) ''pin_page_ids'') g of
       (Some e, g1) \<Rightarrow> (Some e, g1)
     | (None, g1) \<Rightarrow>
         (case (case gw_cvm g1 of None \<Rightarrow> (None, g1) | Some s1 \<Rightarrow>
                 if boolArg (gq_Args req) ''compress_cold''
                 then (case on_cvm (CompressColdPages cd (clks 0) (env_order env s1)
                         (max 1 (intArg (gq_Args req) ''compress_max_access_count''))) s1 g1 of
                       ((err, _, _), g2) \<Rightarrow> (err, g2))
                 else (None, g1)) of
            (Some e, g2) \<Rightarrow> (Some e, g2)
          | (None, g2) \<Rightarrow>
              let maxBytes = intArg (gq_Args req) ''evict_max_bytes'' in
              (None, if 0 < maxBytes then (case gw_cvm g2 of None \<Rightarrow> g2
                 | Some s2 \<Rightarrow> snd (on_cvm (EvictColdPages (env_order env s2) maxBytes) s2 g2)) else g2)))"

definition contextMaterialize ::
    "codec \<Rightarrow> 'g env \<Rightarrow> (nat \<Rightarrow> clock) \<Rightarrow> GRequest \<Rightarrow> 'g Gateway \<Rightarrow> GResponse \<times> 'g Gateway" where
  "contextMaterialize cd env clks req g = (if gw_cvm g = None
     then (err_resp req StatusError ''cvm store is not configured'', g)
     else case applyCVMControls cd env (clks \<circ> Suc) req g of
       (Some e, g1) \<Rightarrow> (err_resp req StatusError (env_text env e), g1)
     | (None, g1) \<Rightarrow> (case gw_cvm g1 of None \<Rightarrow> (err_resp req StatusError [], g1)
         | Some s1 \<Rightarrow> (case on_cvm (Materialize cd (clks 0) (gq_AgentID req)) s1 g1 of
             (Inl e, g2) \<Rightarrow> (err_resp req StatusError (env_text env e), g2)
           | (Inr content, g2) \<Rightarrow> (case gw_cvm g2 of None \<Rightarrow> (err_resp req StatusError [], g2)
               | Some s2 \<Rightarrow> let stats = cvm_Stats (env_order env s2) s2 in
                   (ok_resp req [(''content'', GStr content), (''bytes'', GInt (int (length content))),
                      (''tokens'', GInt (estimateTokens content)), (''total_pages'', GInt (stats_TotalPages stats)),
                      (''shared_pages'', GInt (stats_SharedPages stats)), (''hot_pages'', GInt (stats_HotPages stats)),
                      (''cold_pages'', GInt (stats_ColdPages stats)),
                      (''compressed_pages'', GInt (stats_CompressedPages stats)),
                      (''evicted_pages'', GInt (stats_EvictedPages stats)),
                      (''pinned_pages'', GInt (stats_PinnedPages stats)),
                      (''ref_counted_pages'', GInt (stats_RefCountedPages stats)),
                      (''memory_saved_bytes'', GInt (stats_MemorySavedBytes stats)),
                      (''compression_saved_bytes'', GInt (stats_CompressionSavedBytes stats)),
                      (''dedup_saved_bytes'', GInt (stats_DedupSavedBytes stats))], g2)))))"

definition contextWriteDelta ::
    "codec \<Rightarrow> 'g env \<Rightarrow> (nat \<Rightarrow> clock) \<Rightarrow> GRequest \<Rightarrow> 'g Gateway \<Rightarrow> GResponse \<times> 'g Gateway" where
  "contextWriteDelta cd env clks req g = (case gw_cvm g of
       None \<Rightarrow> (err_resp req StatusError ''cvm store is not configured'', g)
     | Some s \<Rightarrow> (case stringArg (gq_Args req) ''content'' of (content, ok) \<Rightarrow>
         if \<not> ok then (err_resp req StatusDenied ''content is required'', g)
         else (case on_cvm (WriteDelta cd (clks 0) (gq_AgentID req) content) s g of
             (Inl e, g1) \<Rightarrow> (err_resp req StatusError (env_text env e), g1)
           | (Inr page, g1) \<Rightarrow> (ok_resp req [(''page_id'', GStr (pg_ID page)), (''bytes'', GInt (pg_Bytes page)),
                (''tokens'', GInt (pg_TokenCount page))], g1))))"

section \<open>Blackboard\<close>

text \<open>
  The transfer that \<open>ipc.publish\<close> makes for the mode \<open>memfd-mmap\<close>: the mode that was used, the
  reason of a fallback and the result of the transfer.
\<close>

definition publish_transfer ::
    "'g env \<Rightarrow> Page \<Rightarrow> 'g Gateway \<Rightarrow> (string \<times> string \<times> SmokeResult) \<times> 'g Gateway" where
  "publish_transfer env page g = (let
       payload = (if pg_Content page = [] then pg_ID page else pg_Content page)
     in case on_world (env_Transfer env payload 1) g of
          ((Some e, res), g1) \<Rightarrow> ((''page-reference'', env_text env e, res), g1)
        | ((None, res), g1) \<Rightarrow>
            if shm_EvidenceMode res = ''degraded''
            then ((''page-reference'', shm_FallbackReason res, res), g1)
            else ((''memfd-mmap'', [], res), g1))"

definition ipcPublish :: "'g env \<Rightarrow> (nat \<Rightarrow> clock) \<Rightarrow> GRequest \<Rightarrow> 'g Gateway \<Rightarrow> GResponse \<times> 'g Gateway" where
  "ipcPublish env clks req g = (case gw_ipc g of
       None \<Rightarrow> (err_resp req StatusError ''ipc blackboard is not configured'', g)
     | Some b \<Rightarrow>
       let (topic, topic_ok) = stringArg (gq_Args req) ''topic'';
           (pageID, page_ok) = stringArg (gq_Args req) ''page_id'' in
       if \<not> topic_ok \<or> topic = [] then (err_resp req StatusDenied ''topic is required'', g)
       else if \<not> page_ok \<or> pageID = [] then (err_resp req StatusDenied ''page_id is required'', g)
       else let size0 = intArg (gq_Args req) ''size_bytes'';
           mode0 = fst (stringArg (gq_Args req) ''ipc_mode'');
           requestedMode = (if mode0 = [] then ''page-reference'' else mode0);
           lookup = (case gw_cvm g of None \<Rightarrow> None | Some s \<Rightarrow> Some (cvm_Page pageID s)) in
       case lookup of
         Some None \<Rightarrow> (err_resp req StatusDenied (''unknown page_id '' @ pageID), g)
       | _ \<Rightarrow>
         let page = (case lookup of Some (Some p) \<Rightarrow> Some p | _ \<Rightarrow> None);
             sizeBytes = (case page of Some p \<Rightarrow> if size0 \<le> 0 then pg_Bytes p else size0 | None \<Rightarrow> size0);
             ((actualMode, fallbackReason, res), g1) =
               (case page of Some p \<Rightarrow> if requestedMode = ''memfd-mmap'' then publish_transfer env p g
                                       else ((''page-reference'', [], zero_SmokeResult), g)
                | None \<Rightarrow> ((''page-reference'', [], zero_SmokeResult), g));
             (metric, b') = bb_Publish (clks 0) \<lparr>pr_Topic = topic, pr_Publisher = gq_AgentID req, pr_PageID = pageID,
               pr_SizeBytes = sizeBytes, pr_IPCMode = actualMode\<rparr> b;
             g2 = gw_publish (clks 1) ''ipc.published'' req
               [(''topic'', GStr topic), (''page_id'', GStr pageID), (''requested_ipc_mode'', GStr requestedMode),
                (''ipc_mode'', GStr actualMode), (''fallback_reason'', GStr fallbackReason),
                (''avoided_copy_bytes'', GInt (met_AvoidedCopyBytes metric)),
                (''topic_depth'', GInt (met_TopicDepth metric))] (g1\<lparr>gw_ipc := Some b'\<rparr>)
         in (ok_resp req
               [(''topic'', GStr topic), (''page_id'', GStr pageID), (''requested_ipc_mode'', GStr requestedMode),
                (''ipc_mode'', GStr actualMode), (''shm_evidence_mode'', GStr (shm_EvidenceMode res)),
                (''fallback_reason'', GStr fallbackReason),
                (''avoided_copy_bytes'', GInt (met_AvoidedCopyBytes metric)),
                (''topic_depth'', GInt (met_TopicDepth metric)),
                (''memfd_create_success'', GBool (shm_MemfdCreateSuccess res)),
                (''mmap_success'', GBool (shm_MmapSuccess res)),
                (''fd_passing_success'', GBool (shm_FDPassingSuccess res))], g2))"

fun mount_messages ::
    "(nat \<Rightarrow> clock) \<Rightarrow> string \<Rightarrow> Message list \<Rightarrow> 'g Gateway \<Rightarrow> go_error option \<times> 'g Gateway" where
  "mount_messages clks agentID [] g = (None, g)"
| "mount_messages clks agentID (m # ms) g = (case gw_cvm g of
       None \<Rightarrow> mount_messages (clks \<circ> Suc) agentID ms g
     | Some s \<Rightarrow> (case on_cvm (MountPage (clks 0) agentID (msg_PageID m)) s g of
         (Inl e, g1) \<Rightarrow> (Some e, g1)
       | (Inr _, g1) \<Rightarrow> mount_messages (clks \<circ> Suc) agentID ms g1))"

definition ipcPoll :: "'g env \<Rightarrow> (nat \<Rightarrow> clock) \<Rightarrow> GRequest \<Rightarrow> 'g Gateway \<Rightarrow> GResponse \<times> 'g Gateway" where
  "ipcPoll env clks req g = (case gw_ipc g of
       None \<Rightarrow> (err_resp req StatusError ''ipc blackboard is not configured'', g)
     | Some b \<Rightarrow> (case stringArg (gq_Args req) ''topic'' of (topic, ok) \<Rightarrow>
         if \<not> ok \<or> topic = [] then (err_resp req StatusDenied ''topic is required'', g)
         else (case bb_Poll topic (gq_AgentID req) b of ((messages, metric), b') \<Rightarrow>
           (case mount_messages (clks \<circ> Suc) (gq_AgentID req) messages (g\<lparr>gw_ipc := Some b'\<rparr>) of
              (Some e, g1) \<Rightarrow> (err_resp req StatusError (env_text env e), g1)
            | (None, g1) \<Rightarrow>
                let p = [(''topic'', GStr topic), (''page_ids'', GStrs (map msg_PageID messages)),
                    (''ipc_modes'', GStrs (map msg_IPCMode messages)),
                    (''delivered_messages'', GInt (met_DeliveredMessages metric)),
                    (''avoided_copy_bytes'', GInt (met_AvoidedCopyBytes metric))]
                in (ok_resp req p, gw_publish (clks 0) ''ipc.polled'' req p g1)))))"

section \<open>LLM\<close>

definition llmCall ::
    "codec \<Rightarrow> 'g env \<Rightarrow> (nat \<Rightarrow> clock) \<Rightarrow> GRequest \<Rightarrow> 'g Gateway \<Rightarrow> GResponse \<times> 'g Gateway" where
  "llmCall cd env clks req g = (case gw_llm g of
       None \<Rightarrow> (err_resp req StatusError ''llm router is not configured'', g)
     | Some router \<Rightarrow>
       let prompt0 = fst (stringArg (gq_Args req) ''prompt'');
           (prompt, g1) = (case gw_cvm g of
               Some s \<Rightarrow> if prompt0 = [] then on_cvm (Materialize cd (clks 0) (gq_AgentID req)) s g else (Inr prompt0, g)
             | None \<Rightarrow> (Inr prompt0, g)) in
       case prompt of Inl e \<Rightarrow> (err_resp req StatusError (env_text env e), g1)
       | Inr text1 \<Rightarrow>
         if text1 = [] then (err_resp req StatusDenied ''prompt is required'', g1)
         else (case on_world (llm_Complete router \<lparr>lreq_AgentID = gq_AgentID req,
                   lreq_Role = fst (stringArg (gq_Args req) ''role''),
                   lreq_Provider = fst (stringArg (gq_Args req) ''provider''), lreq_Prompt = text1\<rparr>) g1 of
             (Inl e, g2) \<Rightarrow> (err_resp req StatusError (llm_error_text (env_text env) e), g2)
           | (Inr (resp, usage), g2) \<Rightarrow>
               (ok_resp req
                 [(''text'', GStr (lresp_Text resp)), (''provider'', GStr (lresp_Provider resp)),
                  (''requested_provider'', GStr (lresp_RequestedProvider resp)), (''model'', GStr (lresp_Model resp)),
                  (''fallback'', GBool (lresp_Fallback resp)), (''fallback_from'', GStr (lresp_FallbackFrom resp)),
                  (''fallback_reason'', GStr (lresp_FallbackReason resp)),
                  (''evidence_mode'', GStr (lresp_EvidenceMode resp)),
                  (''tokens'', GInt (us_PromptTokens usage + us_CompletionTokens usage)),
                  (''usage'', GMap (usagePayload usage))],
                gw_publish (clks 1) ''llm.called'' req
                 [(''provider'', GStr (lresp_Provider resp)),
                  (''requested_provider'', GStr (lresp_RequestedProvider resp)), (''model'', GStr (lresp_Model resp)),
                  (''fallback'', GBool (lresp_Fallback resp)), (''fallback_reason'', GStr (lresp_FallbackReason resp)),
                  (''fallback_from'', GStr (lresp_FallbackFrom resp)), (''prompt_tokens'', GInt (us_PromptTokens usage)),
                  (''cached_tokens'', GInt (us_CachedTokens usage)), (''ttft_ms'', GInt64 (us_TTFTMS usage)),
                  (''mode'', GStr (us_Mode usage)), (''evidence_mode'', GStr (lresp_EvidenceMode resp))] g2)))"

definition payload_value :: "payload \<Rightarrow> string \<Rightarrow> gval" where     \<comment> \<open>\<open>payload[key]\<close>, nil when absent\<close>
  "payload_value p key = (case map_of p key of None \<Rightarrow> GNil | Some v \<Rightarrow> v)"

definition syscallEvidence :: "string \<Rightarrow> payload option \<Rightarrow> int \<Rightarrow> payload option" where
  "syscallEvidence name payload durationMS = (case payload of None \<Rightarrow> None
     | Some p \<Rightarrow> if name \<noteq> ''llm.call'' then None
         else Some [(''provider'', payload_value p ''provider''),
           (''requested_provider'', payload_value p ''requested_provider''), (''model'', payload_value p ''model''),
           (''duration_ms'', GInt64 durationMS), (''tokens'', payload_value p ''tokens''),
           (''fallback'', payload_value p ''fallback''), (''fallback_reason'', payload_value p ''fallback_reason''),
           (''evidence_mode'', payload_value p ''evidence_mode'')])"

end
