(* ===== verification/GatewayExec.thy ===== *)
theory GatewayExec
  imports Gateway
begin

text \<open>
  The rest of the syscall gateway: \<open>tool.exec\<close> with the workspace life cycle around it,
  \<open>agent.report\<close>, \<open>agent.spawn\<close>, the dispatch in \<open>execute\<close> and \<open>Handle\<close>.
\<close>

section \<open>Tools\<close>

definition workspaceForAgent :: "'g env \<Rightarrow> string \<Rightarrow> 'g Gateway \<Rightarrow> string result \<times> 'g Gateway" where
  "workspaceForAgent env agentID g = (
     if agentID = [] then (Inl (Errorf ''agent_id is required'' []), g)
     else if gw_workspaceRuntime g then on_world (env_WorkspaceDir env agentID) g
     else let workspace = Join [Abs (env_cwd env) (gw_workspaceRoot g), gateway_cleanAgentID agentID, ''merged''] in
       case on_world (env_MkdirAll env workspace) g of
         (Some e, g1) \<Rightarrow> (Inl e, g1) | (None, g1) \<Rightarrow> (Inr workspace, g1))"

definition commitWorkspace :: "'g env \<Rightarrow> string \<Rightarrow> 'g Gateway \<Rightarrow> go_error option \<times> 'g Gateway" where
  "commitWorkspace env agentID g =
     (if \<not> gw_workspaceRuntime g then (None, g) else on_world (env_Commit env agentID) g)"

definition rollbackWorkspace :: "'g env \<Rightarrow> string \<Rightarrow> 'g Gateway \<Rightarrow> go_error option \<times> 'g Gateway" where
  "rollbackWorkspace env agentID g =
     (if \<not> gw_workspaceRuntime g then (None, g) else on_world (env_Rollback env agentID) g)"

definition DestroyAgent :: "'g env \<Rightarrow> string \<Rightarrow> 'g Gateway \<Rightarrow> go_error option \<times> 'g Gateway" where
  "DestroyAgent env agentID g =
     (if \<not> gw_workspaceRuntime g then (None, g) else on_world (env_Destroy env agentID) g)"

definition observeExec ::
    "'g env \<Rightarrow> GRequest \<Rightarrow> int \<Rightarrow> string \<Rightarrow> string list \<Rightarrow> string \<Rightarrow> string \<Rightarrow> 'g Gateway \<Rightarrow> 'g Gateway" where
  "observeExec env req pid command args workspace status g = (if \<not> gw_execObserver g then g
     else g\<lparr>gw_world := env_observer env \<lparr>geo_TaskID = gq_TaskID req, geo_AgentID = gq_AgentID req,
       geo_PID = pid, geo_Command = command, geo_Args = args, geo_CgroupPath = [], geo_Workspace = workspace,
       geo_Status = status\<rparr> (gw_world g)\<rparr>)"

text \<open>The payload with the exit code and, after a failed commit or rollback, its error.\<close>

definition tool_payload ::
    "'g env \<Rightarrow> string \<Rightarrow> string list \<Rightarrow> string \<Rightarrow> ToolOutcome \<Rightarrow> int \<Rightarrow> go_error option \<Rightarrow> payload" where
  "tool_payload env command args cwd outcome code lifecycle =
     [(''command'', GStr command), (''args'', GStrs args), (''cwd'', GStr cwd), (''stdout'', GStr (to_stdout outcome)),
      (''stderr'', GStr (to_stderr outcome)), (''exit_code'', GInt code)]
     @ (case lifecycle of None \<Rightarrow> [] | Some e \<Rightarrow> [(''workspace_error'', GStr (env_text env e))])"

text \<open>The directory in which the tool runs.\<close>

definition tool_cwd :: "'g env \<Rightarrow> GRequest \<Rightarrow> string \<Rightarrow> string result" where
  "tool_cwd env req workspace = (case stringArg (gq_Args req) ''cwd'' of (requested, ok) \<Rightarrow>
     if ok \<and> requested \<noteq> [] then gateway_confinedPath (env_cwd env) workspace requested else Inr workspace)"

definition tool_timeout :: "GRequest \<Rightarrow> 'g Gateway \<Rightarrow> int" where
  "tool_timeout req g = (let ms = intArg (gq_Args req) ''timeout_ms'' in
     if 0 < ms then sint (word_of_int (ms * 1000000) :: u64) else gw_toolTimeout g)"

text \<open>What follows \<open>cmd.Run\<close>.\<close>

definition tool_finish ::
    "'g env \<Rightarrow> GRequest \<Rightarrow> string \<Rightarrow> string list \<Rightarrow> string \<Rightarrow> ToolOutcome \<Rightarrow> 'g Gateway \<Rightarrow> GResponse \<times> 'g Gateway" where
  "tool_finish env req command args cwd outcome g = (
     if to_timed_out outcome
     then (case rollbackWorkspace env (gq_AgentID req) g of (err, g1) \<Rightarrow>
       ((err_resp req StatusTimeout ''tool timeout'')
          \<lparr>gr_Payload := Some (tool_payload env command args cwd outcome (-1) err)\<rparr>,
        observeExec env req (to_pid outcome) command args cwd StatusTimeout g1))
     else case to_err outcome of
       Some e \<Rightarrow> (case rollbackWorkspace env (gq_AgentID req) g of (err, g1) \<Rightarrow>
         ((err_resp req StatusError (run_error_text e))
            \<lparr>gr_Payload := Some (tool_payload env command args cwd outcome (exitCode e) err)\<rparr>,
          observeExec env req (to_pid outcome) command args cwd StatusError g1))
     | None \<Rightarrow> (case commitWorkspace env (gq_AgentID req) g of
         (Some err, g1) \<Rightarrow>
           ((err_resp req StatusError (env_text env err))
              \<lparr>gr_Payload := Some (tool_payload env command args cwd outcome 0 (Some err))\<rparr>,
            observeExec env req (to_pid outcome) command args cwd StatusError g1)
       | (None, g1) \<Rightarrow>
           (ok_resp req (tool_payload env command args cwd outcome 0 None),
            observeExec env req (to_pid outcome) command args cwd StatusOK g1)))"

definition toolExec :: "'g env \<Rightarrow> GRequest \<Rightarrow> 'g Gateway \<Rightarrow> GResponse \<times> 'g Gateway" where
  "toolExec env req g = (case stringArg (gq_Args req) ''command'' of (command, ok) \<Rightarrow>
     if \<not> ok \<or> command = [] then (err_resp req StatusDenied ''command is required'', g)
     else let args = stringSliceArg (gq_Args req) ''args'' in
       case workspaceForAgent env (gq_AgentID req) g of
         (Inl e, g1) \<Rightarrow> (err_resp req StatusError (env_text env e), g1)
       | (Inr workspace, g1) \<Rightarrow>
           (case tool_cwd env req workspace of
              Inl e \<Rightarrow> (err_resp req StatusDenied (env_text env e), g1)
            | Inr cwd \<Rightarrow>
                (case on_world (env_MkdirAll env cwd) g1 of
                   (Some e, g2) \<Rightarrow> (err_resp req StatusError (env_text env e), g2)
                 | (None, g2) \<Rightarrow>
                     (case on_world (env_run env command args cwd (tool_timeout req g2)) g2 of
                        (outcome, g3) \<Rightarrow> tool_finish env req command args cwd outcome g3))))"

section \<open>Reports and spawns\<close>

definition agentReport :: "'g env \<Rightarrow> GRequest \<Rightarrow> 'g Gateway \<Rightarrow> GResponse \<times> 'g Gateway" where
  "agentReport env req g = (case stringArg (gq_Args req) ''status'' of (status, ok) \<Rightarrow>
     if \<not> ok \<or> status = [] then (err_resp req StatusDenied ''status is required'', g)
     else (ok_resp req [(''status'', GStr status)],
       if gw_reporter g
       then g\<lparr>gw_world := env_reporter env \<lparr>rpt_AgentID = gq_AgentID req, rpt_TaskID = gq_TaskID req,
              rpt_Status = status, rpt_Payload = gq_Args req\<rparr> (gw_world g)\<rparr>
       else g))"

definition agentSpawn :: "'g env \<Rightarrow> (nat \<Rightarrow> clock) \<Rightarrow> GRequest \<Rightarrow> 'g Gateway \<Rightarrow> GResponse \<times> 'g Gateway" where
  "agentSpawn env clks req g = (
     if \<not> gw_spawner g then (err_resp req StatusError ''agent spawner is not configured'', g)
     else case stringArg (gq_Args req) ''role'' of (role, ok) \<Rightarrow>
       if \<not> ok \<or> role = [] then (err_resp req StatusDenied ''role is required'', g)
       else let agentID = fst (stringArg (gq_Args req) ''agent_id'');
           reason = fst (stringArg (gq_Args req) ''reason'');
           deps = stringSliceArg (gq_Args req) ''dependencies'';
           g1 = gw_publish (clks 0) ''agent.spawn.requested'' req
             [(''agent_id'', GStr agentID), (''role'', GStr role), (''reason'', GStr reason),
              (''dependencies'', GStrs deps)] g
         in case on_spawner env \<lparr>sq_AgentID = agentID, sq_TaskID = gq_TaskID req,
               sq_ParentAgentID = gq_AgentID req, sq_Role = role, sq_Reason = reason, sq_Dependencies = deps\<rparr> g1 of
             (Inl e, g2) \<Rightarrow> (err_resp req StatusError (env_text env e), g2)
           | (Inr result, g2) \<Rightarrow>
               (ok_resp req [(''agent_id'', GStr (sr_AgentID result)), (''role'', GStr (sr_Role result)),
                  (''task_id'', GStr (sr_TaskID result)), (''state'', GStr (sr_State result))],
                gw_publish (clks 1) ''agent.spawned'' req
                  [(''agent_id'', GStr (sr_AgentID result)), (''role'', GStr (sr_Role result)),
                   (''state'', GStr (sr_State result)), (''parent_agent_id'', GStr (gq_AgentID req)),
                   (''reason'', GStr reason)] g2))"

section \<open>Dispatch\<close>

definition syscall_names :: "string list" where
  "syscall_names = [''context.materialize'', ''context.write_delta'', ''ipc.publish'', ''ipc.poll'', ''llm.call'',
     ''tool.exec'', ''agent.spawn'', ''agent.report'']"

definition gw_execute ::
    "codec \<Rightarrow> 'g env \<Rightarrow> (nat \<Rightarrow> clock) \<Rightarrow> GRequest \<Rightarrow> 'g Gateway \<Rightarrow> GResponse \<times> 'g Gateway" where
  "gw_execute cd env clks req g = (
     if gq_Name req = ''context.materialize'' then contextMaterialize cd env clks req g
     else if gq_Name req = ''context.write_delta'' then contextWriteDelta cd env clks req g
     else if gq_Name req = ''ipc.publish'' then ipcPublish env clks req g
     else if gq_Name req = ''ipc.poll'' then ipcPoll env clks req g
     else if gq_Name req = ''llm.call'' then llmCall cd env clks req g
     else if gq_Name req = ''tool.exec'' then toolExec env req g
     else if gq_Name req = ''agent.spawn'' then agentSpawn env clks req g
     else if gq_Name req = ''agent.report'' then agentReport env req g
     else (err_resp req StatusDenied (''unsupported syscall '' @ gq_Name req), g))"

text \<open>
  \<open>Handle\<close>: \<open>clks 0\<close> gives the request identifier and the start, \<open>clks 1\<close> the end; \<open>elapsed\<close> is the
  whole number of milliseconds between the two on the monotonic clock.
\<close>

definition gw_Handle ::
    "codec \<Rightarrow> 'g env \<Rightarrow> (nat \<Rightarrow> clock) \<Rightarrow> int \<Rightarrow> GRequest \<Rightarrow> 'g Gateway \<Rightarrow> GResponse \<times> 'g Gateway" where
  "gw_Handle cd env clks elapsed req0 g = (let
       req = (if gq_RequestID req0 = [] then req0\<lparr>gq_RequestID := stamp (clks 0 0)\<rparr> else req0);
       inputSize = jsonSize (env_marshal env) (gq_Args req);
       g1 = gw_publish (clks 2) ''syscall.started'' req
         [(''name'', GStr (gq_Name req)), (''request_id'', GStr (gq_RequestID req)), (''input_size'', GInt inputSize)] g;
       (resp, g2) = gw_execute cd env (\<lambda>i. clks (i + 4)) req g1;
       outputSize = jsonSize (env_marshal env) (gr_Payload resp);
       duration = (if elapsed = 0 then 1 else elapsed);
       r = \<lparr>grec_ID = gq_RequestID req, grec_AgentID = gq_AgentID req, grec_Name = gq_Name req,
         grec_StartTime = unix_ms (clks 0 1), grec_EndTime = unix_ms (clks 1 0), grec_DurationMS = duration,
         grec_Status = gr_Status resp, grec_Error = gr_Error resp, grec_InputSize = inputSize,
         grec_OutputSize = outputSize, grec_Evidence = syscallEvidence (gq_Name req) (gr_Payload resp) duration\<rparr>;
       g3 = gw_publish (clks 3) ''syscall.finished'' req
         [(''name'', GStr (gq_Name req)), (''request_id'', GStr (gq_RequestID req)), (''duration_ms'', GInt64 duration),
          (''status'', GStr (gr_Status resp)), (''error'', GStr (gr_Error resp)), (''input_size'', GInt inputSize),
          (''output_size'', GInt outputSize)] (g2\<lparr>gw_records := gw_records g2 @ [r]\<rparr>)
     in (resp, g3))"

definition gw_Records :: "'g Gateway \<Rightarrow> GRecord list" where
  "gw_Records g = gw_records g"

section \<open>What no operation does\<close>

text \<open>
  The frame of an operation: it appends no record, only adds events, does not touch the settings,
  and answers with the identifier of the request and one of the four states.
\<close>

definition frame :: "'g Gateway \<Rightarrow> 'g Gateway \<Rightarrow> bool" where
  "frame g g' \<longleftrightarrow> gw_records g' = gw_records g \<and> (\<exists>ev. gw_out g' = gw_out g @ ev) \<and> gw_sink g' = gw_sink g
     \<and> gw_llm g' = gw_llm g \<and> gw_workspaceRoot g' = gw_workspaceRoot g
     \<and> gw_workspaceRuntime g' = gw_workspaceRuntime g \<and> gw_toolTimeout g' = gw_toolTimeout g
     \<and> (gw_cvm g' = None \<longleftrightarrow> gw_cvm g = None) \<and> (gw_ipc g' = None \<longleftrightarrow> gw_ipc g = None)"

definition statuses :: "string set" where
  "statuses = {StatusOK, StatusError, StatusTimeout, StatusDenied}"

definition answers :: "GRequest \<Rightarrow> 'g Gateway \<Rightarrow> GResponse \<times> 'g Gateway \<Rightarrow> bool" where
  "answers req g out \<longleftrightarrow> frame g (snd out) \<and> gr_RequestID (fst out) = gq_RequestID req
     \<and> gr_Status (fst out) \<in> statuses"

lemma frame_refl [simp, go_frame]: "frame g g"
  by (simp add: frame_def)

lemma frame_trans: "frame g g1 \<Longrightarrow> frame g1 g2 \<Longrightarrow> frame g g2"
  by (auto simp: frame_def)

lemma frame_publish [go_frame]: "frame g (gw_publish clk ty req p g)"
  by (auto simp: frame_def gw_publish_def)

lemma frame_on_cvm [go_frame]: "gw_cvm g = Some s \<Longrightarrow> on_cvm f s g = (r, g') \<Longrightarrow> frame g g'"
  by (auto simp: frame_def on_cvm_def split: prod.splits)

lemma frame_on_world [go_frame]: "on_world f g = (r, g') \<Longrightarrow> frame g g'"
  by (auto simp: frame_def on_world_def split: prod.splits)

lemma frame_on_spawner [go_frame]: "on_spawner env q g = (r, g') \<Longrightarrow> frame g g'"
  by (auto simp: frame_def on_spawner_def split: prod.splits if_splits)

lemma frame_ipc [go_frame]: "gw_ipc g \<noteq> None \<Longrightarrow> frame g (g\<lparr>gw_ipc := Some b\<rparr>)"
  by (simp add: frame_def)

lemma frame_observe [go_frame]: "frame g (observeExec env req pid c args w st g)"
  by (simp add: frame_def observeExec_def)

lemma resp_status [simp]:
  "gr_Status (ok_resp req p) \<in> statuses" "gr_RequestID (ok_resp req p) = gq_RequestID req"
  "gr_RequestID (err_resp req st m) = gq_RequestID req" "gr_Status (err_resp req st m) = st"
  "StatusError \<in> statuses" "StatusDenied \<in> statuses" "StatusTimeout \<in> statuses"
  by (simp_all add: ok_resp_def err_resp_def statuses_def)

lemma answers_err [simp]: "st \<in> statuses \<Longrightarrow> answers req g (err_resp req st m, g') \<longleftrightarrow> frame g g'"
  by (simp add: answers_def)

lemma answers_ok [simp]: "answers req g (ok_resp req p, g') \<longleftrightarrow> frame g g'"
  by (simp add: answers_def)

end
