(* ===== verification/GoFS.thy ===== *)
theory GoFS
  imports Confinement
begin

text \<open>
  The file system as the Go functions of package \<open>os\<close> and \<open>path/filepath\<close> see it on Linux: a tree
  of directories, files and symbolic links, kept as an association list from the elements of a
  path to a node. Permissions, times and file modes are left out. \<open>walk\<close> resolves a path the way
  the kernel does; its first argument bounds the number of links followed (40 in the kernel, 255
  in \<open>filepath.EvalSymlinks\<close>). The operations are those that \<open>internal/workspace/manager.go\<close> uses.
\<close>

section \<open>Nodes and paths\<close>

datatype node = Dir | File string | Link string

datatype errno = ENOENT | ENOTDIR | EEXIST | EISDIR | ELOOP

type_synonym fs = "(string list \<times> node) list"

definition sys :: "errno \<Rightarrow> go_error" where
  "sys e = SysError (case e of ENOENT \<Rightarrow> ''no such file or directory'' | ENOTDIR \<Rightarrow> ''not a directory''
     | EEXIST \<Rightarrow> ''file exists'' | EISDIR \<Rightarrow> ''is a directory'' | ELOOP \<Rightarrow> ''too many levels of symbolic links'')"

definition lookup :: "fs \<Rightarrow> string list \<Rightarrow> node option" where
  "lookup d p = (if p = [] then Some Dir else map_of d p)"

definition put :: "fs \<Rightarrow> string list \<Rightarrow> node \<Rightarrow> fs" where
  "put d p n = AList.update p n d"

definition remove_tree :: "fs \<Rightarrow> string list \<Rightarrow> fs" where
  "remove_tree d p = filter (\<lambda>(k, _). \<not> prefix p k) d"

definition fs_ok :: "fs \<Rightarrow> bool" where
  "fs_ok d \<longleftrightarrow> distinct (map fst d) \<and>
     (\<forall>p \<in> fst ` set d. p \<noteq> [] \<and> (\<forall>w \<in> set p. plain_word w) \<and> lookup d (butlast p) = Some Dir)"

lemma lookup_Nil [simp]: "lookup d [] = Some Dir"
  by (simp add: lookup_def)

lemma lookup_put [simp]: "p \<noteq> [] \<Longrightarrow> lookup (put d p n) q = (if q = p then Some n else lookup d q)"
  by (simp add: lookup_def put_def update_conv')

lemma map_of_filter_keys: "map_of (filter (\<lambda>(k, _). P k) d) q = (if P q then map_of d q else None)"
  by (induction d) auto

lemma lookup_remove_tree [simp]:
  "p \<noteq> [] \<Longrightarrow> lookup (remove_tree d p) q = (if prefix p q then None else lookup d q)"
  by (simp add: lookup_def remove_tree_def map_of_filter_keys)

lemma lookup_key: "lookup d p = Some n \<Longrightarrow> p \<noteq> [] \<Longrightarrow> p \<in> fst ` set d"
  by (metis lookup_def map_of_SomeD fst_conv imageI)

lemma fs_ok_key: "fs_ok d \<Longrightarrow> p \<noteq> [] \<Longrightarrow> (p \<in> fst ` set d) = (lookup d p \<noteq> None)"
  by (auto simp: lookup_def map_of_eq_None_iff)

lemma fs_ok_plain: "fs_ok d \<Longrightarrow> lookup d p = Some n \<Longrightarrow> \<forall>w \<in> set p. plain_word w"
  by (cases "p = []") (auto dest!: lookup_key simp: fs_ok_def)

lemma fs_ok_parent: "fs_ok d \<Longrightarrow> lookup d p = Some n \<Longrightarrow> lookup d (butlast p) = Some Dir"
  by (cases "p = []") (auto dest!: lookup_key simp: fs_ok_def)

lemma fs_ok_prefix:
  assumes "fs_ok d" and "lookup d p = Some n" and "strict_prefix q p"
  shows "lookup d q = Some Dir"
  using assms(2,3)
proof (induction p arbitrary: n rule: rev_induct)
  case (snoc w p)
  from snoc.prems(2) have "q = p \<or> strict_prefix q p" by (auto simp: strict_prefix_def)
  with snoc.IH fs_ok_parent [OF assms(1) snoc.prems(1)] show ?case by auto
qed simp

lemma fs_ok_put:
  assumes "fs_ok d" and "p \<noteq> []" and "\<forall>w \<in> set p. plain_word w" and "lookup d (butlast p) = Some Dir"
    and "n = Dir \<or> lookup d p \<noteq> Some Dir"
  shows "fs_ok (put d p n)"
proof -
  have keep: "lookup (put d p n) (butlast q) = Some Dir" if "lookup d (butlast q) = Some Dir" for q
    using that assms(2,5) by auto
  have keys: "fst ` set (put d p n) = insert p (fst ` set d)"
    unfolding put_def by (simp add: dom_update)
  have "distinct (map fst (put d p n))"
    using assms(1) unfolding put_def fs_ok_def by (metis distinct_update)
  moreover have "\<forall>q \<in> fst ` set (put d p n). q \<noteq> [] \<and> (\<forall>w \<in> set q. plain_word w)
      \<and> lookup (put d p n) (butlast q) = Some Dir"
    unfolding keys using assms(1-4) keep unfolding fs_ok_def by blast
  ultimately show ?thesis unfolding fs_ok_def by blast
qed

lemma fs_ok_remove_tree:
  assumes "fs_ok d" and "p \<noteq> []"
  shows "fs_ok (remove_tree d p)"
proof -
  have "lookup (remove_tree d p) (butlast q) = Some Dir"
    if "\<not> prefix p q" "lookup d (butlast q) = Some Dir" for q
    using that assms(2) prefix_order.trans [OF _ prefixeq_butlast] by auto
  moreover have "distinct (map fst (remove_tree d p))"
    using assms(1) unfolding fs_ok_def remove_tree_def by (simp add: distinct_map_filter)
  ultimately show ?thesis
    using assms(1) unfolding fs_ok_def by (auto simp: remove_tree_def)
qed

section \<open>Resolution\<close>

fun walk :: "nat \<Rightarrow> fs \<Rightarrow> string list \<Rightarrow> string list \<Rightarrow> errno + string list" where
  "walk n d base [] = Inr base"
| "walk n d base (w # ws) =
     (if w = ''.'' then walk n d base ws
      else if w = ''..'' then walk n d (butlast base) ws
      else case lookup d (base @ [w]) of
          None \<Rightarrow> if ws = [] then Inr (base @ [w]) else Inl ENOENT
        | Some Dir \<Rightarrow> walk n d (base @ [w]) ws
        | Some (File _) \<Rightarrow> if ws = [] then Inr (base @ [w]) else Inl ENOTDIR
        | Some (Link t) \<Rightarrow> (case n of 0 \<Rightarrow> Inl ELOOP
            | Suc m \<Rightarrow> walk m d (if IsAbs t then [] else base) (words t @ ws)))"

text \<open>On a path whose directories are all real, resolution is the identity.\<close>

lemma walk_real:
  assumes "fs_ok d" and "\<forall>w \<in> set ws. plain_word w"
    and "ws \<noteq> [] \<longrightarrow> lookup d (base @ butlast ws) = Some Dir" and "\<forall>t. lookup d (base @ ws) \<noteq> Some (Link t)"
  shows "walk n d base ws = Inr (base @ ws)"
  using assms(2-4)
proof (induction ws arbitrary: base)
  case (Cons w ws)
  have w: "w \<noteq> ''.''" "w \<noteq> ''..''" using Cons.prems(1) by (simp_all add: plain_word_def)
  show ?case
  proof (cases "ws = []")
    case True
    with w Cons.prems show ?thesis by (auto split: option.splits node.splits)
  next
    case False
    then have dir: "lookup d ((base @ [w]) @ butlast ws) = Some Dir" using Cons.prems(2) by simp
    have "prefix (base @ [w]) ((base @ [w]) @ butlast ws)" by (rule prefixI) simp
    then have "lookup d (base @ [w]) = Some Dir"
      using fs_ok_prefix [OF assms(1) dir] dir by (metis strict_prefixI)
    with w Cons.IH [of "base @ [w]"] Cons.prems dir show ?thesis by simp
  qed
qed simp

definition elems :: "string \<Rightarrow> string list" where     \<comment> \<open>the elements of an absolute path\<close>
  "elems p = words p"

text \<open>Where a path leads, its last element followed or not; the parent must be a directory.\<close>

definition follow :: "fs \<Rightarrow> string list \<Rightarrow> errno + string list" where
  "follow d ws = walk 40 d [] ws"

definition place :: "fs \<Rightarrow> string list \<Rightarrow> errno + string list" where
  "place d ws = (if ws = [] then Inr [] else case walk 40 d [] (butlast ws) of Inl e \<Rightarrow> Inl e
     | Inr q \<Rightarrow> (case lookup d q of None \<Rightarrow> Inl ENOENT | Some Dir \<Rightarrow> Inr (q @ [last ws]) | Some _ \<Rightarrow> Inl ENOTDIR))"

lemma follow_real:
  assumes "fs_ok d" and "\<forall>w \<in> set ws. plain_word w" and "lookup d (butlast ws) = Some Dir"
    and "\<forall>t. lookup d ws \<noteq> Some (Link t)"
  shows "follow d ws = Inr ws"
  using walk_real [OF assms(1,2), of "[]"] assms(3,4) by (simp add: follow_def)

lemma place_real:
  assumes "fs_ok d" and "\<forall>w \<in> set ws. plain_word w" and "lookup d (butlast ws) = Some Dir"
  shows "place d ws = Inr ws"
proof (cases "ws = []")
  case False
  have "\<forall>w \<in> set (butlast ws). plain_word w" using assms(2) by (meson in_set_butlastD)
  moreover have "lookup d (butlast (butlast ws)) = Some Dir" by (rule fs_ok_parent [OF assms(1,3)])
  ultimately have "walk 40 d [] (butlast ws) = Inr (butlast ws)"
    using walk_real [OF assms(1), of "butlast ws" "[]" 40] assms(3) by simp
  with False assms(3) show ?thesis by (simp add: place_def)
qed (simp add: place_def)

definition stat :: "fs \<Rightarrow> string list \<Rightarrow> errno + node" where
  "stat d ws = (case follow d ws of Inl e \<Rightarrow> Inl e
     | Inr q \<Rightarrow> (case lookup d q of None \<Rightarrow> Inl ENOENT | Some n \<Rightarrow> Inr n))"

definition EvalSymlinks :: "fs \<Rightarrow> string \<Rightarrow> string option" where
  "EvalSymlinks d p = (case walk 255 d [] (elems p) of Inl _ \<Rightarrow> None
     | Inr q \<Rightarrow> if lookup d q = None then None else Some (abs_path q))"

section \<open>Operations\<close>

text \<open>\<open>os.MkdirAll\<close>, on the reversed elements.\<close>

fun mkdir_rev :: "string list \<Rightarrow> fs \<Rightarrow> unit result \<times> fs" where
  "mkdir_rev [] d = (Inr (), d)"
| "mkdir_rev (w # ws) d = (case stat d (rev (w # ws)) of
       Inr Dir \<Rightarrow> (Inr (), d)
     | Inr _ \<Rightarrow> (Inl (sys ENOTDIR), d)
     | Inl _ \<Rightarrow> (case mkdir_rev ws d of
           (Inl e, d') \<Rightarrow> (Inl e, d')
         | (Inr _, d') \<Rightarrow> (case place d' (rev (w # ws)) of
               Inl e \<Rightarrow> (Inl (sys e), d')
             | Inr q \<Rightarrow> (case lookup d' q of
                   None \<Rightarrow> (Inr (), put d' q Dir)
                 | Some Dir \<Rightarrow> (Inr (), d')
                 | Some _ \<Rightarrow> (Inl (sys EEXIST), d')))))"

definition MkdirAll :: "string \<Rightarrow> fs \<Rightarrow> unit result \<times> fs" where
  "MkdirAll p d = mkdir_rev (rev (elems p)) d"

definition RemoveAll :: "string \<Rightarrow> fs \<Rightarrow> unit result \<times> fs" where
  "RemoveAll p d = (case place d (elems p) of
       Inl ENOENT \<Rightarrow> (Inr (), d)
     | Inl e \<Rightarrow> (Inl (sys e), d)
     | Inr q \<Rightarrow> (Inr (), remove_tree d q))"

definition WriteFile :: "string \<Rightarrow> string \<Rightarrow> fs \<Rightarrow> unit result \<times> fs" where
  "WriteFile p content d = (case follow d (elems p) of Inl e \<Rightarrow> (Inl (sys e), d)
     | Inr q \<Rightarrow> if lookup d q = Some Dir then (Inl (sys EISDIR), d) else (Inr (), put d q (File content)))"

definition ReadFile :: "string \<Rightarrow> fs \<Rightarrow> string result" where
  "ReadFile p d = (case stat d (elems p) of Inl e \<Rightarrow> Inl (sys e) | Inr (File c) \<Rightarrow> Inr c | Inr _ \<Rightarrow> Inl (sys EISDIR))"

text \<open>\<open>os.ReadDir\<close>: the names in a directory, sorted.\<close>

definition names_in :: "fs \<Rightarrow> string list \<Rightarrow> string list" where
  "names_in d q = sort (map last (filter (\<lambda>k. k \<noteq> [] \<and> butlast k = q) (map fst d)))"

definition ReadDir :: "string \<Rightarrow> fs \<Rightarrow> string list result" where
  "ReadDir p d = (case follow d (elems p) of Inl e \<Rightarrow> Inl (sys e)
     | Inr q \<Rightarrow> (case lookup d q of Some Dir \<Rightarrow> Inr (names_in d q) | Some _ \<Rightarrow> Inl (sys ENOTDIR) | None \<Rightarrow> Inl (sys ENOENT)))"

text \<open>
  \<open>filepath.WalkDir\<close>: what it visits, as elements relative to the start, in lexical order with every
  directory before its contents; that is the lexicographic order of the element lists. Links are
  reported and not followed. The visits read the tree as it is at the start of the walk.
\<close>

definition tree_keys :: "fs \<Rightarrow> string list \<Rightarrow> string list list" where
  "tree_keys d q = q # sort (filter (strict_prefix q) (map fst d))"

definition WalkDir :: "string \<Rightarrow> fs \<Rightarrow> (string list \<times> node) list result" where
  "WalkDir p d = (case place d (elems p) of Inl e \<Rightarrow> Inl (sys e)
     | Inr q \<Rightarrow> (case lookup d q of None \<Rightarrow> Inl (sys ENOENT)
         | Some _ \<Rightarrow> Inr (map (\<lambda>k. (drop (length q) k, the (lookup d k))) (tree_keys d q))))"

section \<open>What they do where no link is in the way\<close>

text \<open>\<open>clear d ws\<close>: every existing prefix of the path is a directory.\<close>

definition clear :: "fs \<Rightarrow> string list \<Rightarrow> bool" where
  "clear d ws \<longleftrightarrow> (\<forall>q. prefix q ws \<longrightarrow> lookup d q = None \<or> lookup d q = Some Dir)"

lemma clear_prefix: "clear d ws \<Longrightarrow> prefix q ws \<Longrightarrow> clear d q"
  unfolding clear_def using prefix_order.trans by blast

lemma clear_dir: "fs_ok d \<Longrightarrow> lookup d ws = Some Dir \<Longrightarrow> clear d ws"
  unfolding clear_def using fs_ok_prefix by (metis strict_prefixI)

lemma clear_snoc: "clear d (ws @ [w]) \<longleftrightarrow> clear d ws \<and> (lookup d (ws @ [w]) = None \<or> lookup d (ws @ [w]) = Some Dir)"
  unfolding clear_def by auto

lemma walk_clear:
  assumes "\<forall>q. prefix q ws \<longrightarrow> lookup d (base @ q) = None \<or> lookup d (base @ q) = Some Dir"
    and "fs_ok d" and "\<forall>w \<in> set ws. plain_word w" and "lookup d base = Some Dir"
  shows "walk n d base ws = (if ws = [] \<or> lookup d (base @ butlast ws) = Some Dir then Inr (base @ ws) else Inl ENOENT)"
  using assms(1,3,4)
proof (induction ws arbitrary: base)
  case (Cons w ws)
  have w: "w \<noteq> ''.''" "w \<noteq> ''..''" using Cons.prems(2) by (simp_all add: plain_word_def)
  have here: "lookup d (base @ [w]) = None \<or> lookup d (base @ [w]) = Some Dir"
    using Cons.prems(1) by (metis append_Cons append_Nil prefixI)
  have IH: "lookup d (base @ [w]) = Some Dir \<Longrightarrow> walk n d (base @ [w]) ws =
      (if ws = [] \<or> lookup d ((base @ [w]) @ butlast ws) = Some Dir then Inr ((base @ [w]) @ ws) else Inl ENOENT)"
    using Cons.IH [of "base @ [w]"] Cons.prems by simp
  have up: "lookup d (base @ [w]) = Some Dir" if "lookup d (base @ w # butlast ws) = Some Dir"
    using fs_ok_prefix [OF assms(2) that, of "base @ [w]"] that
    by (metis append.assoc append_Cons append_Nil prefixI strict_prefixI)
  show ?case
  proof (cases "lookup d (base @ [w])")
    case None
    with w up Cons.prems(3) show ?thesis by (cases "ws = []") (auto split: if_splits)
  next
    case (Some n)
    with w here IH Cons.prems(3) show ?thesis by (cases "ws = []") auto
  qed
qed simp

lemma follow_clear:
  assumes "clear d ws" and "fs_ok d" and "\<forall>w \<in> set ws. plain_word w"
  shows "follow d ws = (if lookup d (butlast ws) = Some Dir then Inr ws else Inl ENOENT)"
  using walk_clear [of ws d "[]"] assms by (simp add: follow_def clear_def)

lemma stat_clear:
  assumes "clear d ws" and "fs_ok d" and "\<forall>w \<in> set ws. plain_word w"
  shows "stat d ws = (case lookup d ws of None \<Rightarrow> Inl ENOENT | Some n \<Rightarrow> Inr n)"
  using follow_clear [OF assms] fs_ok_parent [OF assms(2), of ws] by (auto simp: stat_def split: option.splits)

lemma place_clear:
  assumes "clear d (butlast ws)" and "fs_ok d" and "\<forall>w \<in> set ws. plain_word w"
  shows "place d ws = (if lookup d (butlast ws) = Some Dir then Inr ws else Inl ENOENT)"
proof (cases "ws = []")
  case False
  have plain: "\<forall>w \<in> set (butlast ws). plain_word w" using assms(3) by (meson in_set_butlastD)
  have "lookup d (butlast ws) = None \<or> lookup d (butlast ws) = Some Dir"
    using assms(1) by (simp add: clear_def)
  with False follow_clear [OF assms(1,2) plain] fs_ok_parent [OF assms(2), of "butlast ws"] show ?thesis
    by (auto simp: place_def follow_def)
qed (simp add: place_def)

lemma mkdir_rev_clear:
  assumes "clear d ws" and "fs_ok d" and "\<forall>w \<in> set ws. plain_word w"
  shows "\<exists>d'. mkdir_rev (rev ws) d = (Inr (), d') \<and> fs_ok d'
    \<and> (\<forall>q. lookup d' q = (if prefix q ws then Some Dir else lookup d q))"
  using assms(1,3)
proof (induction ws rule: rev_induct)
  case (snoc w ws)
  show ?case
  proof (cases "lookup d (ws @ [w])")
    case None
    from snoc.prems obtain d' where d': "mkdir_rev (rev ws) d = (Inr (), d')" "fs_ok d'"
      "\<And>q. lookup d' q = (if prefix q ws then Some Dir else lookup d q)"
      using snoc.IH by (auto simp: clear_snoc)
    have "clear d' ws" using d'(3) by (simp add: clear_def)
    then have pl: "place d' (ws @ [w]) = Inr (ws @ [w])"
      using place_clear [of d' "ws @ [w]"] d'(2,3) snoc.prems(2) by simp
    have "\<not> prefix (ws @ [w]) ws" by (metis append.right_neutral prefix_order.antisym prefixI not_Cons_self2 same_append_eq)
    then have none: "lookup d' (ws @ [w]) = None" using d'(3) None by simp
    have ok: "fs_ok (put d' (ws @ [w]) Dir)"
      by (rule fs_ok_put) (use d' snoc.prems(2) in simp_all)
    have "mkdir_rev (rev (ws @ [w])) d = (Inr (), put d' (ws @ [w]) Dir)"
      using stat_clear [OF snoc.prems(1) assms(2) snoc.prems(2)] None d'(1) pl none by simp
    moreover have "lookup (put d' (ws @ [w]) Dir) q = (if prefix q (ws @ [w]) then Some Dir else lookup d q)" for q
      using d'(3) by simp
    ultimately show ?thesis using ok by blast
  next
    case (Some n)
    then have dir: "lookup d (ws @ [w]) = Some Dir" using snoc.prems(1) by (auto simp: clear_snoc)
    have "mkdir_rev (rev (ws @ [w])) d = (Inr (), d)"
      using stat_clear [OF snoc.prems(1) assms(2) snoc.prems(2)] dir by simp
    moreover have "lookup d q = Some Dir" if "prefix q (ws @ [w])" for q
      using that dir fs_ok_prefix [OF assms(2) dir] by (metis strict_prefixI)
    ultimately show ?thesis using assms(2) by auto
  qed
qed (use assms(2) in simp)

lemma MkdirAll_clear:
  assumes "clear d (elems p)" and "fs_ok d" and "\<forall>w \<in> set (elems p). plain_word w"
  obtains d' where "MkdirAll p d = (Inr (), d')" and "fs_ok d'"
    and "\<And>q. lookup d' q = (if prefix q (elems p) then Some Dir else lookup d q)"
  using mkdir_rev_clear [OF assms] unfolding MkdirAll_def by auto

lemma RemoveAll_clear:
  assumes "clear d (butlast (elems p))" and "fs_ok d" and "\<forall>w \<in> set (elems p). plain_word w" and "elems p \<noteq> []"
  obtains d' where "RemoveAll p d = (Inr (), d')" and "fs_ok d'"
    and "\<And>q. lookup d' q = (if prefix (elems p) q then None else lookup d q)"
proof (cases "lookup d (butlast (elems p)) = Some Dir")
  case True
  with place_clear [OF assms(1-3)] have "RemoveAll p d = (Inr (), remove_tree d (elems p))"
    by (simp add: RemoveAll_def)
  then show ?thesis using that assms(2,4) by (simp add: fs_ok_remove_tree)
next
  case False
  with place_clear [OF assms(1-3)] have "RemoveAll p d = (Inr (), d)" by (simp add: RemoveAll_def)
  moreover have "lookup d q = None" if "prefix (elems p) q" for q
  proof (rule ccontr)
    assume "lookup d q \<noteq> None"
    then obtain n where n: "lookup d q = Some n" by auto
    have "strict_prefix (butlast (elems p)) q"
      using that assms(4) by (metis append_butlast_last_id prefix_order.less_le_trans strict_prefixI' append_Nil2 prefix_bot.bot_less list.distinct(1) strict_prefix_simps(1) prefixI prefix_order.not_eq_order_implies_strict not_Cons_self2 self_append_conv)
    with fs_ok_prefix [OF assms(2) n] False show False by blast
  qed
  ultimately show ?thesis using that assms(2) by metis
qed

lemma WriteFile_clear:
  assumes "fs_ok d" and "\<forall>w \<in> set (elems p). plain_word w" and "lookup d (butlast (elems p)) = Some Dir"
    and "elems p \<noteq> []" and "lookup d (elems p) = None \<or> (\<exists>c. lookup d (elems p) = Some (File c))"
  obtains d' where "WriteFile p content d = (Inr (), d')" and "fs_ok d'"
    and "\<And>q. lookup d' q = (if q = elems p then Some (File content) else lookup d q)"
proof -
  have "follow d (elems p) = Inr (elems p)" by (rule follow_real) (use assms in auto)
  then have "WriteFile p content d = (Inr (), put d (elems p) (File content))"
    using assms(5) by (auto simp: WriteFile_def)
  moreover have "fs_ok (put d (elems p) (File content))" by (rule fs_ok_put) (use assms in auto)
  ultimately show ?thesis using that assms(4) by simp
qed

lemma set_names_in: "fs_ok d \<Longrightarrow> set (names_in d q) = {w. lookup d (q @ [w]) \<noteq> None}"
proof -
  assume ok: "fs_ok d"
  have "w \<in> set (names_in d q) \<longleftrightarrow> q @ [w] \<in> fst ` set d" for w
  proof
    assume "w \<in> set (names_in d q)"
    then obtain k where "k \<in> fst ` set d" "k \<noteq> []" "butlast k = q" "w = last k" by (auto simp: names_in_def)
    then show "q @ [w] \<in> fst ` set d" by (metis append_butlast_last_id)
  next
    assume "q @ [w] \<in> fst ` set d"
    then have "q @ [w] \<in> set (filter (\<lambda>k. k \<noteq> [] \<and> butlast k = q) (map fst d))" by auto
    then show "w \<in> set (names_in d q)" unfolding names_in_def by force
  qed
  then show ?thesis using fs_ok_key [OF ok] by auto
qed

lemma distinct_names_in: "fs_ok d \<Longrightarrow> distinct (names_in d q)"
proof -
  assume "fs_ok d"
  then have "distinct (filter (\<lambda>k. k \<noteq> [] \<and> butlast k = q) (map fst d))" by (simp add: fs_ok_def)
  moreover have "inj_on last {k. k \<noteq> [] \<and> butlast k = q}"
    by (rule inj_onI) (metis (mono_tags, lifting) append_butlast_last_id mem_Collect_eq)
  ultimately show ?thesis
    unfolding names_in_def by (simp add: distinct_map) (metis (mono_tags, lifting) inj_on_subset mem_Collect_eq subsetI)
qed

lemma ReadDir_real:
  assumes "fs_ok d" and "lookup d (elems p) = Some Dir"
  shows "ReadDir p d = Inr (names_in d (elems p))"
  using follow_real [OF assms(1) fs_ok_plain [OF assms] fs_ok_parent [OF assms]] assms(2)
  by (simp add: ReadDir_def)

lemma tree_keys_set:
  assumes "fs_ok d" and "lookup d q \<noteq> None"
  shows "set (tree_keys d q) = {k. prefix q k \<and> lookup d k \<noteq> None}"
proof -
  have "k \<in> fst ` set d \<longleftrightarrow> lookup d k \<noteq> None" if "strict_prefix q k" for k
    using that fs_ok_key [OF assms(1)] by (metis strict_prefix_simps(1))
  then show ?thesis using assms(2) by (auto simp: tree_keys_def strict_prefix_def)
qed

lemma butlast_less: "k \<noteq> [] \<Longrightarrow> butlast k < (k :: string list)"
  by (metis append_butlast_last_id lexord_append_rightI list.distinct(1) list_less_def not_Cons_self2)

lemma tree_keys_parent_first:
  assumes "fs_ok d" and "lookup d q \<noteq> None" and "tree_keys d q = xs @ k # ys" and "k \<noteq> q"
  shows "butlast k \<in> set xs"
proof -
  let ?s = "sort (filter (strict_prefix q) (map fst d))"
  obtain xs' where xs: "xs = q # xs'" and s: "?s = xs' @ k # ys"
    using assms(3,4) by (cases xs) (simp_all add: tree_keys_def)
  have "k \<in> set ?s" using s by simp
  then have k: "strict_prefix q k" "k \<in> fst ` set d" by auto
  then have "k \<noteq> []" by auto
  have par: "lookup d (butlast k) = Some Dir" using assms(1) k(2) unfolding fs_ok_def by blast
  show ?thesis
  proof (cases "butlast k = q")
    case False
    have "prefix q (butlast k)"
      using k(1) \<open>k \<noteq> []\<close> by (metis append_butlast_last_id prefix_snoc strict_prefix_def)
    then have "butlast k \<in> set (tree_keys d q)" using tree_keys_set [OF assms(1,2)] par by simp
    then have "butlast k \<in> set ?s" using False by (simp add: tree_keys_def)
    moreover have "butlast k \<notin> set (k # ys)"
    proof -
      have "sorted (xs' @ k # ys)" unfolding s [symmetric] by simp
      then have "\<forall>y \<in> set (k # ys). k \<le> y" by (simp add: sorted_append)
      then show ?thesis using butlast_less [OF \<open>k \<noteq> []\<close>] by force
    qed
    ultimately show ?thesis unfolding s xs by auto
  qed (simp add: xs)
qed

lemma WalkDir_real:
  assumes "fs_ok d" and "lookup d (elems p) \<noteq> None"
  shows "WalkDir p d = Inr (map (\<lambda>k. (drop (length (elems p)) k, the (lookup d k))) (tree_keys d (elems p)))"
proof -
  obtain n where n: "lookup d (elems p) = Some n" using assms(2) by auto
  have "place d (elems p) = Inr (elems p)"
    by (rule place_real [OF assms(1) fs_ok_plain [OF assms(1) n] fs_ok_parent [OF assms(1) n]])
  then show ?thesis using n by (simp add: WalkDir_def)
qed

end
