(* ===== verification/Workspace.thy ===== *)
theory Workspace
  imports GoFS Evidence Events
begin

text \<open>
  The workspace manager (\<open>internal/workspace/manager.go\<close>): every agent gets a directory with a
  read-only base (\<open>lower\<close>), a working copy (\<open>merged\<close>) and an \<open>output\<close>; \<open>Commit\<close> copies the working
  copy to the output, \<open>Rollback\<close> makes the working copy the base again, \<open>Destroy\<close> removes the
  directory. Where overlayfs cannot be mounted the working copy is a plain copy of the base. The
  state is the manager's maps together with the file system it works on. The commands \<open>mount\<close> and
  \<open>umount\<close>, the JSON coding and the texts of errors are fields of \<open>wenv\<close>. Each operation is one
  step; the code does not lock the file system.
\<close>

section \<open>Types\<close>

definition ModeOverlayFS :: string where "ModeOverlayFS = ''overlayfs''"
definition ws_ModeDegradedCopy :: string where "ws_ModeDegradedCopy = ''degraded-copy''"

record BaseSnapshot =
  bs_TaskID :: string
  bs_BasePath :: string
  bs_Mode :: string

record WRuntime =
  wrt_TaskID :: string
  wrt_AgentID :: string
  wrt_Mode :: string
  wrt_BasePath :: string
  wrt_WorkspacePath :: string
  wrt_CreatedAt :: int
  wrt_EvidenceMode :: Mode
  wrt_FallbackReason :: string

record Workspace =
  ws_AgentID :: string
  ws_Mode :: string
  ws_RuntimeRoot :: string
  ws_LowerDir :: string
  ws_UpperDir :: string
  ws_WorkDir :: string
  ws_MergedDir :: string
  ws_OutputDir :: string
  ws_EvidenceDir :: string
  ws_EvidenceMode :: Mode
  ws_CreatedAt :: int
  ws_FallbackReason :: string
  ws_Mounted :: bool

record WorkspaceStatus =
  wst_Success :: bool
  wst_AgentID :: string
  wst_Mode :: string
  wst_EvidenceMode :: Mode
  wst_FallbackReason :: string
  wst_Workspace :: Workspace
  wst_Error :: string

record RollbackResult =
  rb_TaskID :: string
  rb_AgentID :: string
  rb_Mode :: string
  rb_EvidenceMode :: Mode
  rb_FallbackReason :: string
  rb_BasePath :: string
  rb_WorkspacePath :: string
  rb_RemovedEntries :: int
  rb_RollbackSuccess :: bool
  rb_BaseIntact :: bool

record CommitManifest =
  cm_AgentID :: string
  cm_Mode :: string
  cm_EvidenceMode :: Mode
  cm_Files :: "string list"
  cm_CommittedAt :: string

record WManager =
  wsm_root :: string
  wsm_sink :: bool
  wsm_ForceDegraded :: bool
  wsm_workspaces :: "string \<rightharpoonup> Workspace"
  wsm_tasks :: "string \<rightharpoonup> string"
  wsm_taskByAgent :: "string \<rightharpoonup> string"
  wsm_disk :: fs
  wsm_out :: "Event list"

text \<open>
  What the process finds around it: working and temporary directory, \<open>runtime.GOOS\<close>, the effective
  user, two files under \<open>/proc\<close>, external commands with their combined output, the order in which
  \<open>writeDefaultLower\<close> ranges over its map, \<open>err.Error()\<close> and \<open>json.MarshalIndent\<close>.
\<close>

record wenv =
  we_cwd :: string
  we_tempdir :: string
  we_goos :: string
  we_euid :: int
  we_proc_filesystems :: "string result"
  we_mountinfo :: "fs \<Rightarrow> string result"
  we_run :: "string \<Rightarrow> string list \<Rightarrow> fs \<Rightarrow> (go_error option \<times> string) \<times> fs"
  we_lower_order :: "string list"
  we_text :: "go_error \<Rightarrow> string"
  we_json :: "CommitManifest \<Rightarrow> string"

definition zero_Workspace :: Workspace where
  "zero_Workspace = \<lparr>ws_AgentID = [], ws_Mode = [], ws_RuntimeRoot = [], ws_LowerDir = [], ws_UpperDir = [],
     ws_WorkDir = [], ws_MergedDir = [], ws_OutputDir = [], ws_EvidenceDir = [], ws_EvidenceMode = [],
     ws_CreatedAt = 0, ws_FallbackReason = [], ws_Mounted = False\<rparr>"

section \<open>Files\<close>

definition EnsureUnder :: "wenv \<Rightarrow> string \<Rightarrow> string \<Rightarrow> fs \<Rightarrow> unit result \<times> fs" where
  "EnsureUnder env rt target d = (EnsureUnderRoot (we_cwd env) (EvalSymlinks d) rt target, d)"

definition safeRemoveAll :: "wenv \<Rightarrow> string \<Rightarrow> string \<Rightarrow> fs \<Rightarrow> unit result \<times> fs" where
  "safeRemoveAll env rt target d =
     (case safeRemoveAll_target (we_cwd env) (EvalSymlinks d) rt target of
        Inl e \<Rightarrow> (Inl e, d) | Inr t \<Rightarrow> RemoveAll t d)"

definition path_Dir :: "string \<Rightarrow> string" where     \<comment> \<open>\<open>filepath.Dir\<close> of a cleaned absolute path\<close>
  "path_Dir p = abs_path (butlast (elems p))"

definition copyFile :: "string \<Rightarrow> string \<Rightarrow> fs \<Rightarrow> unit result \<times> fs" where
  "copyFile src dst = bindE (\<lambda>d. (ReadFile src d, d)) (\<lambda>content.
     bindE (MkdirAll (path_Dir dst)) (\<lambda>_. WriteFile dst content))"

definition copy_entry :: "string \<Rightarrow> string \<Rightarrow> string list \<times> node \<Rightarrow> fs \<Rightarrow> unit result \<times> fs" where
  "copy_entry src dst entry = (case entry of (rel, n) \<Rightarrow>
     let path = abs_path (elems src @ rel); target = abs_path (elems dst @ rel) in
     case n of
       Link _ \<Rightarrow> failE (Errorf ''symlink escape blocked: %s'' [path])
     | Dir \<Rightarrow> MkdirAll target
     | File _ \<Rightarrow> copyFile path target)"

definition copyTree :: "wenv \<Rightarrow> string \<Rightarrow> string \<Rightarrow> string \<Rightarrow> fs \<Rightarrow> unit result \<times> fs" where
  "copyTree env rt src dst =
     bindE (EnsureUnder env rt src) (\<lambda>_. bindE (EnsureUnder env rt dst) (\<lambda>_ d.
       case WalkDir src d of Inl e \<Rightarrow> (Inl e, d) | Inr entries \<Rightarrow> eachE (copy_entry src dst) entries d))"

text \<open>The number of removed entries is used only when there is no error.\<close>

definition remove_child :: "wenv \<Rightarrow> string \<Rightarrow> string \<Rightarrow> string \<Rightarrow> fs \<Rightarrow> unit result \<times> fs" where
  "remove_child env rt path name = (let target = Join [path, name] in
     bindE (EnsureUnder env rt target) (\<lambda>_. RemoveAll target))"

definition removeChildren :: "wenv \<Rightarrow> string \<Rightarrow> string \<Rightarrow> fs \<Rightarrow> int result \<times> fs" where
  "removeChildren env rt path = bindE (EnsureUnder env rt path) (\<lambda>_ d.
     case ReadDir path d of Inl e \<Rightarrow> (Inl e, d)
     | Inr names \<Rightarrow> bindE (eachE (remove_child env rt path) names) (\<lambda>_. returnE (int (length names))) d)"

definition directoryHasFiles :: "string \<Rightarrow> fs \<Rightarrow> bool" where
  "directoryHasFiles path d = (case WalkDir path d of Inl _ \<Rightarrow> False
     | Inr entries \<Rightarrow> list_ex (\<lambda>(_, n). n \<noteq> Dir) entries)"

definition fileExists :: "string \<Rightarrow> fs \<Rightarrow> bool" where
  "fileExists path d = (case stat d (elems path) of Inl _ \<Rightarrow> False | Inr _ \<Rightarrow> True)"

definition rel_path :: "string list \<Rightarrow> string" where     \<comment> \<open>\<open>filepath.Rel\<close> of a path that the walk visits\<close>
  "rel_path rel = (if rel = [] then ''.'' else join_on sep rel)"

fun collect_files :: "string \<Rightarrow> (string list \<times> node) list \<Rightarrow> string list result" where
  "collect_files rt [] = Inr []"
| "collect_files rt ((rel, n) # entries) = (case n of
       Dir \<Rightarrow> collect_files rt entries
     | Link _ \<Rightarrow> Inl (Errorf ''symlink escape blocked: %s'' [abs_path (elems rt @ rel)])
     | File _ \<Rightarrow> (case collect_files rt entries of Inl e \<Rightarrow> Inl e | Inr files \<Rightarrow> Inr (rel_path rel # files)))"

definition listFiles :: "string \<Rightarrow> fs \<Rightarrow> string list result" where
  "listFiles rt d = (case WalkDir rt d of Inl e \<Rightarrow> Inl e
     | Inr entries \<Rightarrow> (case collect_files rt entries of Inl e \<Rightarrow> Inl e | Inr files \<Rightarrow> Inr (sort files)))"

definition default_lower :: "string \<rightharpoonup> string" where
  "default_lower = [''README.txt'' \<mapsto> ''AORT-R workspace lowerdir fixture'' @ [CHR 10],
     ''src/main.txt'' \<mapsto> ''base source for isolated agent workspace'' @ [CHR 10],
     ''config/runtime.json'' \<mapsto> ''{'' @ [CHR 10] @ ''  '' @ [CHR 34] @ ''runtime'' @ [CHR 34] @ '': '' @ [CHR 34]
       @ ''aort-r'' @ [CHR 34] @ '','' @ [CHR 10] @ ''  '' @ [CHR 34] @ ''workspace'' @ [CHR 34] @ '': '' @ [CHR 34]
       @ ''lower'' @ [CHR 34, CHR 10] @ ''}'' @ [CHR 10]]"

definition write_in :: "string \<Rightarrow> string \<times> string \<Rightarrow> fs \<Rightarrow> unit result \<times> fs" where
  "write_in lower = (\<lambda>(name, content). let path = Join [lower, name] in
     bindE (MkdirAll (path_Dir path)) (\<lambda>_. WriteFile path content))"

definition writeDefaultLower :: "wenv \<Rightarrow> string \<Rightarrow> fs \<Rightarrow> unit result \<times> fs" where
  "writeDefaultLower env lower =
     eachE (write_in lower) (map (\<lambda>name. (name, the (default_lower name))) (we_lower_order env))"

section \<open>Overlay mounts\<close>

definition overlayUnavailableReason :: "wenv \<Rightarrow> bool \<Rightarrow> string" where
  "overlayUnavailableReason env force = (if force then ''forced degraded-copy mode''
     else if we_goos env \<noteq> ''linux'' then ''overlayfs requires linux, got '' @ we_goos env
     else if we_euid env \<noteq> 0 then ''overlayfs mount requires root privileges''
     else case we_proc_filesystems env of
         Inl e \<Rightarrow> ''cannot read /proc/filesystems: '' @ we_text env e
       | Inr data \<Rightarrow> if \<not> Contains data ''overlay'' then ''overlayfs is not listed in /proc/filesystems'' else [])"

definition overlayInProcFilesystems :: "wenv \<Rightarrow> bool" where
  "overlayInProcFilesystems env = (if we_goos env \<noteq> ''linux'' then False
     else case we_proc_filesystems env of Inl _ \<Rightarrow> False
       | Inr data \<Rightarrow> list_ex (\<lambda>line. Fields line \<noteq> [] \<and> last (Fields line) = ''overlay'') (split_on (CHR 10) data))"

definition mountInfoUnescape :: "string \<Rightarrow> string" where
  "mountInfoUnescape = Replace [(CHR 92 # ''040'', '' ''), (CHR 92 # ''011'', [CHR 9]), (CHR 92 # ''012'', [CHR 10]),
     (CHR 92 # ''134'', [CHR 92])]"

definition isMountPoint :: "wenv \<Rightarrow> string \<Rightarrow> fs \<Rightarrow> bool" where
  "isMountPoint env path d = (if we_goos env \<noteq> ''linux'' then False
     else let target = Abs (we_cwd env) (Clean path) in
       case we_mountinfo env d of Inl _ \<Rightarrow> False
       | Inr data \<Rightarrow> list_ex (\<lambda>line. 5 \<le> length (Fields line) \<and> mountInfoUnescape (Fields line ! 4) = target)
           (split_on (CHR 10) data))"

definition run_command :: "wenv \<Rightarrow> string \<Rightarrow> string list \<Rightarrow> fs \<Rightarrow> unit result \<times> fs" where
  "run_command env command args d = (case we_run env command args d of
       ((None, _), d') \<Rightarrow> (Inr (), d')
     | ((Some e, output), d') \<Rightarrow> (Inl (Wrapf ''%w: %s'' [TrimSpace output] e), d'))"

definition mountOverlay :: "wenv \<Rightarrow> Workspace \<Rightarrow> fs \<Rightarrow> unit result \<times> fs" where
  "mountOverlay env ws = run_command env ''mount'' [''-t'', ''overlay'', ''overlay'', ''-o'',
     ''lowerdir='' @ ws_LowerDir ws @ '',upperdir='' @ ws_UpperDir ws @ '',workdir='' @ ws_WorkDir ws, ws_MergedDir ws]"

definition unmount :: "wenv \<Rightarrow> string \<Rightarrow> fs \<Rightarrow> unit result \<times> fs" where
  "unmount env path = run_command env ''umount'' [path]"

section \<open>The manager\<close>

definition DefaultRoot :: "wenv \<Rightarrow> string" where
  "DefaultRoot env = Join [we_tempdir env, ''aort-runtime'', ''workspaces'']"

definition wsm_New :: "wenv \<Rightarrow> string \<Rightarrow> bool \<Rightarrow> bool \<Rightarrow> fs \<Rightarrow> WManager" where
  "wsm_New env rt sink force d =
     \<lparr>wsm_root = Abs (we_cwd env) (Clean (if rt = [] then DefaultRoot env else rt)), wsm_sink = sink,
      wsm_ForceDegraded = force, wsm_workspaces = Map.empty, wsm_tasks = Map.empty,
      wsm_taskByAgent = Map.empty, wsm_disk = d, wsm_out = []\<rparr>"

definition on_disk :: "(fs \<Rightarrow> 'a result \<times> fs) \<Rightarrow> WManager \<Rightarrow> 'a result \<times> WManager" where
  "on_disk f m = (case f (wsm_disk m) of (r, d) \<Rightarrow> (r, m\<lparr>wsm_disk := d\<rparr>))"

definition wsm_publish :: "clock \<Rightarrow> string \<Rightarrow> string \<Rightarrow> string \<Rightarrow> payload \<Rightarrow> WManager \<Rightarrow> WManager" where
  "wsm_publish clk eventType taskID agentID p m = (if wsm_sink m
     then m\<lparr>wsm_out := wsm_out m @ [new_event clk eventType taskID agentID ''workspace'' p]\<rparr> else m)"

definition wsm_workspace :: "string \<Rightarrow> WManager \<Rightarrow> Workspace result" where
  "wsm_workspace agentID m = (case wsm_workspaces m agentID of
       None \<Rightarrow> Inl (Errorf ''workspace missing for %s'' [agentID]) | Some ws \<Rightarrow> Inr ws)"

definition setWorkspace :: "Workspace \<Rightarrow> WManager \<Rightarrow> WManager" where
  "setWorkspace ws m = m\<lparr>wsm_workspaces := (wsm_workspaces m)(ws_AgentID ws \<mapsto> ws)\<rparr>"

definition taskForAgent :: "string \<Rightarrow> WManager \<Rightarrow> string" where
  "taskForAgent agentID m = (case wsm_taskByAgent m agentID of None \<Rightarrow> [] | Some t \<Rightarrow> t)"

text \<open>The directories of a new workspace.\<close>

definition new_workspace :: "clock \<Rightarrow> string \<Rightarrow> string \<Rightarrow> Workspace" where
  "new_workspace clk agentID runtimeRoot = zero_Workspace\<lparr>ws_AgentID := agentID, ws_RuntimeRoot := runtimeRoot,
     ws_LowerDir := Join [runtimeRoot, ''lower''], ws_UpperDir := Join [runtimeRoot, ''upper''],
     ws_WorkDir := Join [runtimeRoot, ''work''], ws_MergedDir := Join [runtimeRoot, ''merged''],
     ws_OutputDir := Join [runtimeRoot, ''output''], ws_EvidenceDir := Join [runtimeRoot, ''evidence''],
     ws_CreatedAt := unix_ms (clk 0)\<rparr>"

text \<open>The overlay is mounted where it can be; otherwise the base is copied to the working copy.\<close>

definition select_mode :: "wenv \<Rightarrow> string \<Rightarrow> bool \<Rightarrow> Workspace \<Rightarrow> fs \<Rightarrow> Workspace result \<times> fs" where
  "select_mode env rt force ws d = (let
       reason0 = overlayUnavailableReason env force;
       (mounted, d1) = (if reason0 = [] then mountOverlay env ws d else (Inl (sys ENOENT), d));
       reason = (if reason0 = [] then (case mounted of Inl e \<Rightarrow> ''overlayfs mount failed: '' @ we_text env e | Inr _ \<Rightarrow> [])
                 else reason0)
     in if reason0 = [] \<and> is_ok mounted
        then (Inr (ws\<lparr>ws_Mode := ModeOverlayFS, ws_EvidenceMode := ModeRealOverlayFS, ws_Mounted := True\<rparr>), d1)
        else bindE (copyTree env rt (ws_LowerDir ws) (ws_MergedDir ws)) (\<lambda>_. returnE
          (ws\<lparr>ws_Mode := ws_ModeDegradedCopy, ws_EvidenceMode := ModeDegradedCopy,
              ws_FallbackReason := (if reason = [] then ''overlayfs unavailable; using degraded-copy'' else reason)\<rparr>)) d1)"

definition build_workspace :: "wenv \<Rightarrow> string \<Rightarrow> bool \<Rightarrow> Workspace \<Rightarrow> string \<Rightarrow> fs \<Rightarrow> Workspace result \<times> fs" where
  "build_workspace env rt force ws seedDir =
     bindE (MkdirAll rt) (\<lambda>_. bindE (safeRemoveAll env rt (ws_RuntimeRoot ws)) (\<lambda>_.
     bindE (eachE MkdirAll [ws_LowerDir ws, ws_UpperDir ws, ws_WorkDir ws, ws_MergedDir ws, ws_OutputDir ws,
              ws_EvidenceDir ws]) (\<lambda>_.
     bindE (if seedDir \<noteq> [] then copyTree env rt seedDir (ws_LowerDir ws) else writeDefaultLower env (ws_LowerDir ws))
       (\<lambda>_. select_mode env rt force ws))))"

definition wsm_create :: "wenv \<Rightarrow> clock \<Rightarrow> string \<Rightarrow> string \<Rightarrow> WManager \<Rightarrow> Workspace result \<times> WManager" where
  "wsm_create env clk agentID seedDir m = (if agentID = [] then failE (Errorf ''agent_id is required'' []) m
     else let runtimeRoot = Join [wsm_root m, workspace_safeName agentID] in
       bindE (on_disk (build_workspace env (wsm_root m) (wsm_ForceDegraded m) (new_workspace clk agentID runtimeRoot) seedDir))
         (\<lambda>ws m1. returnE ws (wsm_publish (later 1 clk) ''workspace.created'' [] agentID
            [(''success'', GBool True), (''workspace_mode'', GStr (ws_Mode ws)), (''mode'', GStr (ws_Mode ws)),
             (''evidence_mode'', GStr (ws_EvidenceMode ws)), (''fallback_reason'', GStr (ws_FallbackReason ws)),
             (''lower_dir'', GStr (ws_LowerDir ws)), (''upper_dir'', GStr (ws_UpperDir ws)),
             (''work_dir'', GStr (ws_WorkDir ws)), (''merged_dir'', GStr (ws_MergedDir ws)),
             (''output_dir'', GStr (ws_OutputDir ws))] (setWorkspace ws m1))) m)"

definition wsm_Create :: "wenv \<Rightarrow> clock \<Rightarrow> string \<Rightarrow> WManager \<Rightarrow> Workspace result \<times> WManager" where
  "wsm_Create env clk agentID = wsm_create env clk agentID []"

end
