(* ===== verification/WorkspaceOps.thy ===== *)
theory WorkspaceOps
  imports Workspace
begin

text \<open>
  The operations of the workspace manager (\<open>internal/workspace/manager.go\<close>) on a workspace that
  exists, the base snapshots of tasks, the removal fault and its demonstration, the overlay probe.
\<close>

section \<open>Commit, rollback, destroy\<close>

definition commit_disk :: "wenv \<Rightarrow> clock \<Rightarrow> string \<Rightarrow> string \<Rightarrow> Workspace \<Rightarrow> fs \<Rightarrow> unit result \<times> fs" where
  "commit_disk env clk rt agentID ws =
     bindE (EnsureUnder env rt (ws_OutputDir ws)) (\<lambda>_. bindE (safeRemoveAll env rt (ws_OutputDir ws)) (\<lambda>_.
     bindE (MkdirAll (ws_OutputDir ws)) (\<lambda>_.
     bindE (copyTree env rt (if ws_Mode ws = ModeOverlayFS then ws_UpperDir ws else ws_MergedDir ws) (ws_OutputDir ws)) (\<lambda>_.
     bindE (\<lambda>d. (listFiles (ws_OutputDir ws) d, d)) (\<lambda>files.
     WriteFile (Join [ws_OutputDir ws, ''commit_manifest.json''])
       (we_json env \<lparr>cm_AgentID = agentID, cm_Mode = ws_Mode ws, cm_EvidenceMode = ws_EvidenceMode ws,
          cm_Files = files, cm_CommittedAt = rfc3339 (clk 0)\<rparr> @ [CHR 10]))))))"

definition wsm_Commit :: "wenv \<Rightarrow> clock \<Rightarrow> string \<Rightarrow> WManager \<Rightarrow> unit result \<times> WManager" where
  "wsm_Commit env clk agentID m = (case wsm_workspace agentID m of Inl e \<Rightarrow> (Inl e, m)
     | Inr ws \<Rightarrow> bindE (on_disk (commit_disk env clk (wsm_root m) agentID ws)) (\<lambda>_ m1. returnE ()
         (wsm_publish (later 1 clk) ''workspace.commit'' [] agentID
           [(''success'', GBool True), (''mode'', GStr (ws_Mode ws)), (''evidence_mode'', GStr (ws_EvidenceMode ws)),
            (''fallback_reason'', GStr (ws_FallbackReason ws)), (''output_dir'', GStr (ws_OutputDir ws))] m1)) m)"

text \<open>
  The overlay branch: the upper directory is emptied and the overlay mounted again; when that
  fails the workspace becomes a copy. The flag says whether the workspace record changed.
\<close>

definition rollback_overlay :: "wenv \<Rightarrow> string \<Rightarrow> Workspace \<Rightarrow> fs \<Rightarrow> (Workspace \<times> bool) result \<times> fs" where
  "rollback_overlay env rt ws d0 = (case unmount env (ws_MergedDir ws) d0 of (_, d) \<Rightarrow>
     bindE (safeRemoveAll env rt (ws_UpperDir ws)) (\<lambda>_. bindE (safeRemoveAll env rt (ws_WorkDir ws)) (\<lambda>_.
     bindE (MkdirAll (ws_UpperDir ws)) (\<lambda>_. bindE (MkdirAll (ws_WorkDir ws)) (\<lambda>_ d1.
       case mountOverlay env ws d1 of
         (Inr _, d2) \<Rightarrow> (Inr (ws, False), d2)
       | (Inl e, d2) \<Rightarrow> bindE (safeRemoveAll env rt (ws_MergedDir ws)) (\<lambda>_. bindE (MkdirAll (ws_MergedDir ws)) (\<lambda>_.
           bindE (copyTree env rt (ws_LowerDir ws) (ws_MergedDir ws)) (\<lambda>_. returnE
             (ws\<lparr>ws_Mode := ws_ModeDegradedCopy, ws_EvidenceMode := ModeDegradedCopy, ws_FallbackReason :=
                ''overlayfs remount failed during rollback: '' @ we_text env e\<rparr>, True)))) d2)))) d)"

definition rollback_copy :: "wenv \<Rightarrow> string \<Rightarrow> Workspace \<Rightarrow> fs \<Rightarrow> int result \<times> fs" where
  "rollback_copy env rt ws = bindE (removeChildren env rt (ws_MergedDir ws)) (\<lambda>removed.
     bindE (copyTree env rt (ws_LowerDir ws) (ws_MergedDir ws)) (\<lambda>_. returnE removed))"

definition rollback_finish :: "clock \<Rightarrow> string \<Rightarrow> Workspace \<Rightarrow> int \<Rightarrow> WManager \<Rightarrow> RollbackResult result \<times> WManager" where
  "rollback_finish clk agentID ws removed m = (let
       res = \<lparr>rb_TaskID = taskForAgent agentID m, rb_AgentID = agentID, rb_Mode = ws_Mode ws,
         rb_EvidenceMode = ws_EvidenceMode ws, rb_FallbackReason = ws_FallbackReason ws, rb_BasePath = ws_LowerDir ws,
         rb_WorkspacePath = ws_MergedDir ws, rb_RemovedEntries = removed,
         rb_RollbackSuccess = directoryHasFiles (ws_MergedDir ws) (wsm_disk m),
         rb_BaseIntact = directoryHasFiles (ws_LowerDir ws) (wsm_disk m)\<rparr>
     in (Inr res, wsm_publish clk ''workspace.rollback'' (rb_TaskID res) agentID
          [(''workspace_mode'', GStr (rb_Mode res)), (''evidence_mode'', GStr (rb_EvidenceMode res)),
           (''fallback_reason'', GStr (rb_FallbackReason res)), (''rollback_success'', GBool (rb_RollbackSuccess res)),
           (''base_intact'', GBool (rb_BaseIntact res)), (''removed_entries'', GInt (rb_RemovedEntries res)),
           (''workspace_path'', GStr (rb_WorkspacePath res))] m))"

definition wsm_Rollback :: "wenv \<Rightarrow> clock \<Rightarrow> string \<Rightarrow> WManager \<Rightarrow> RollbackResult result \<times> WManager" where
  "wsm_Rollback env clk agentID m = (case wsm_workspace agentID m of Inl e \<Rightarrow> (Inl e, m)
     | Inr ws \<Rightarrow> if ws_Mode ws = ModeOverlayFS
         then bindE (on_disk (rollback_overlay env (wsm_root m) ws)) (\<lambda>(ws1, changed) m1.
                rollback_finish clk agentID ws1 0 (if changed then setWorkspace ws1 m1 else m1)) m
         else bindE (on_disk (rollback_copy env (wsm_root m) ws)) (\<lambda>removed. rollback_finish clk agentID ws removed) m)"

definition wsm_Destroy :: "wenv \<Rightarrow> clock \<Rightarrow> string \<Rightarrow> WManager \<Rightarrow> unit result \<times> WManager" where
  "wsm_Destroy env clk agentID m0 = (case wsm_workspace agentID m0 of Inl e \<Rightarrow> (Inl e, m0)
     | Inr ws \<Rightarrow> let m = (if ws_Mode ws = ModeOverlayFS then snd (on_disk (unmount env (ws_MergedDir ws)) m0) else m0) in
         bindE (on_disk (safeRemoveAll env (wsm_root m) (ws_RuntimeRoot ws))) (\<lambda>_ m1. returnE ()
           (wsm_publish clk ''workspace.destroy'' [] agentID
             [(''success'', GBool True), (''mode'', GStr (ws_Mode ws)), (''evidence_mode'', GStr (ws_EvidenceMode ws)),
              (''fallback_reason'', GStr (ws_FallbackReason ws))]
             (m1\<lparr>wsm_workspaces := (wsm_workspaces m1)(agentID := None),
                 wsm_taskByAgent := (wsm_taskByAgent m1)(agentID := None)\<rparr>))) m)"

section \<open>Status\<close>

definition status_of :: "string \<Rightarrow> Workspace \<Rightarrow> WorkspaceStatus" where
  "status_of agentID ws = \<lparr>wst_Success = True, wst_AgentID = agentID, wst_Mode = ws_Mode ws,
     wst_EvidenceMode = ws_EvidenceMode ws, wst_FallbackReason = ws_FallbackReason ws, wst_Workspace = ws, wst_Error = []\<rparr>"

text \<open>\<open>Status\<close> returns a value with its error as well.\<close>

definition wsm_Status :: "wenv \<Rightarrow> string \<Rightarrow> WManager \<Rightarrow> WorkspaceStatus \<times> go_error option" where
  "wsm_Status env agentID m = (case wsm_workspace agentID m of
       Inl e \<Rightarrow> (\<lparr>wst_Success = False, wst_AgentID = agentID, wst_Mode = [], wst_EvidenceMode = ModeMissing,
         wst_FallbackReason = ''workspace not found'', wst_Workspace = zero_Workspace, wst_Error = we_text env e\<rparr>, Some e)
     | Inr ws \<Rightarrow> (status_of agentID ws, None))"

definition wsm_List :: "string list \<Rightarrow> WManager \<Rightarrow> WorkspaceStatus list" where
  "wsm_List order m = map (\<lambda>key. status_of key
     (case wsm_workspaces m key of None \<Rightarrow> zero_Workspace | Some ws \<Rightarrow> ws)) (sort order)"

section \<open>Base snapshots\<close>

definition write_base :: "wenv \<Rightarrow> string \<Rightarrow> string \<times> string \<Rightarrow> fs \<Rightarrow> unit result \<times> fs" where
  "write_base env base = (\<lambda>(name, content) d. case workspace_confinedPath (we_cwd env) base name of
       Inl e \<Rightarrow> (Inl e, d)
     | Inr path \<Rightarrow> bindE (MkdirAll (path_Dir path)) (\<lambda>_. WriteFile path content) d)"

text \<open>\<open>files\<close> lists the entries of the map in the order of the range.\<close>

definition CreateBaseSnapshot ::
    "wenv \<Rightarrow> clock \<Rightarrow> string \<Rightarrow> (string \<times> string) list \<Rightarrow> WManager \<Rightarrow> BaseSnapshot result \<times> WManager" where
  "CreateBaseSnapshot env clk taskID files m = (if taskID = [] then failE (Errorf ''task_id is required'' []) m
     else let base = Join [wsm_root m, ''tasks'', workspace_safeName taskID, ''base''] in
       bindE (on_disk (safeRemoveAll env (wsm_root m) base)) (\<lambda>_. bindE (on_disk (MkdirAll base)) (\<lambda>_.
       bindE (on_disk (eachE (write_base env base) files)) (\<lambda>_ m1. returnE
         \<lparr>bs_TaskID = taskID, bs_BasePath = base, bs_Mode = ws_ModeDegradedCopy\<rparr>
         (wsm_publish clk ''workspace.snapshot.created'' taskID []
           [(''base_path'', GStr base), (''mode'', GStr ws_ModeDegradedCopy), (''evidence_mode'', GStr ModeDegradedCopy)]
           (m1\<lparr>wsm_tasks := (wsm_tasks m1)(taskID \<mapsto> base)\<rparr>))))) m)"

definition PrepareAgent :: "wenv \<Rightarrow> clock \<Rightarrow> string \<Rightarrow> string \<Rightarrow> WManager \<Rightarrow> WRuntime result \<times> WManager" where
  "PrepareAgent env clk taskID agentID m =
     (if taskID = [] \<or> agentID = [] then failE (Errorf ''task_id and agent_id are required'' []) m
      else case wsm_tasks m taskID of
          None \<Rightarrow> failE (Errorf ''base snapshot missing for %s'' [taskID]) m
        | Some base \<Rightarrow> if base = [] then failE (Errorf ''base snapshot missing for %s'' [taskID]) m
            else bindE (wsm_create env clk agentID base) (\<lambda>ws m1. returnE
              \<lparr>wrt_TaskID = taskID, wrt_AgentID = agentID, wrt_Mode = ws_Mode ws, wrt_BasePath = ws_LowerDir ws,
               wrt_WorkspacePath = ws_MergedDir ws, wrt_CreatedAt = ws_CreatedAt ws,
               wrt_EvidenceMode = ws_EvidenceMode ws, wrt_FallbackReason = ws_FallbackReason ws\<rparr>
              (m1\<lparr>wsm_taskByAgent := (wsm_taskByAgent m1)(agentID \<mapsto> taskID)\<rparr>)) m)"

definition InjectRMAndRollback :: "wenv \<Rightarrow> clock \<Rightarrow> string \<Rightarrow> string \<Rightarrow> WManager \<Rightarrow> RollbackResult result \<times> WManager" where
  "InjectRMAndRollback env clk taskID agentID =
     bindE (PrepareAgent env clk taskID agentID) (\<lambda>r m1.
     bindE (on_disk (removeChildren env (wsm_root m1) (wrt_WorkspacePath r))) (\<lambda>removed m2.
     bindE (wsm_Rollback env (later 5 clk) agentID) (\<lambda>res. returnE (res\<lparr>rb_RemovedEntries := removed\<rparr>))
       (wsm_publish (later 3 clk) ''workspace.rmrf'' taskID agentID
         [(''workspace_mode'', GStr (wrt_Mode r)), (''evidence_mode'', GStr (wrt_EvidenceMode r)),
          (''fallback_reason'', GStr (wrt_FallbackReason r)), (''removed_entries'', GInt removed),
          (''workspace_path'', GStr (wrt_WorkspacePath r))] m2)) m1)"

section \<open>Fault demonstration\<close>

record SafetyChecks =
  sc_RuntimeRootOnly :: bool
  sc_PathEscapeBlocked :: bool
  sc_RepoDirUntouched :: bool
  sc_SymlinkEscapeBlocked :: bool

record RMFaultEvidence =
  rm_Success :: bool
  rm_FaultType :: string
  rm_TargetAgent :: string
  rm_Mode :: string
  rm_EvidenceMode :: Mode
  rm_RuntimeRoot :: string
  rm_LowerDirUnchanged :: bool
  rm_TargetAgentAffected :: bool
  rm_UnaffectedAgents :: "string list"
  rm_CascadeFailure :: bool
  rm_RollbackSuccess :: bool
  rm_MergedIsMountpoint :: bool
  rm_CommitSupported :: bool
  rm_DestroySuccess :: bool
  rm_FallbackReason :: string
  rm_BeforeFiles :: "(string \<times> string list) list"
  rm_AfterFaultFiles :: "(string \<times> string list) list"
  rm_AfterRollbackFiles :: "(string \<times> string list) list"
  rm_SafetyChecks :: SafetyChecks
  rm_Timestamp :: string
  rm_Error :: string

definition snapshotFiles :: "wenv \<Rightarrow> (string \<times> Workspace) list \<Rightarrow> fs \<Rightarrow> (string \<times> string list) list" where
  "snapshotFiles env wss d = map (\<lambda>(agent, ws). (agent, case listFiles (ws_MergedDir ws) d of
       Inl e \<Rightarrow> [''error: '' @ we_text env e] | Inr files \<Rightarrow> files)) wss"

text \<open>\<open>os.Symlink\<close> and \<open>os.Remove\<close> of a link or a file.\<close>

definition Symlink :: "string \<Rightarrow> string \<Rightarrow> fs \<Rightarrow> unit result \<times> fs" where
  "Symlink target p d = (case place d (elems p) of Inl e \<Rightarrow> (Inl (sys e), d)
     | Inr q \<Rightarrow> if lookup d q = None then (Inr (), put d q (Link target)) else (Inl (sys EEXIST), d))"

definition Remove_link :: "string \<Rightarrow> fs \<Rightarrow> fs" where
  "Remove_link p d = (case place d (elems p) of Inl e \<Rightarrow> d
     | Inr q \<Rightarrow> (case lookup d q of Some (Link _) \<Rightarrow> remove_tree d q | Some (File _) \<Rightarrow> remove_tree d q | _ \<Rightarrow> d))"

fun create_all :: "wenv \<Rightarrow> (nat \<Rightarrow> clock) \<Rightarrow> string list \<Rightarrow> WManager \<Rightarrow> (string \<times> Workspace) list result \<times> WManager" where
  "create_all env clks [] m = (Inr [], m)"
| "create_all env clks (agent # agents) m = bindE (wsm_Create env (clks 0) agent) (\<lambda>ws.
     bindE (create_all env (clks \<circ> Suc) agents) (\<lambda>wss. returnE ((agent, ws) # wss))) m"

fun destroy_all :: "wenv \<Rightarrow> (nat \<Rightarrow> clock) \<Rightarrow> string list \<Rightarrow> WManager \<Rightarrow> bool \<times> WManager" where
  "destroy_all env clks [] m = (True, m)"
| "destroy_all env clks (agent # agents) m = (case wsm_Destroy env (clks 0) agent m of (r, m1) \<Rightarrow>
     case destroy_all env (clks \<circ> Suc) agents m1 of (ok, m2) \<Rightarrow> (is_ok r \<and> ok, m2))"

text \<open>The link to the temporary directory: does it block a commit?\<close>

definition symlink_check :: "wenv \<Rightarrow> (nat \<Rightarrow> clock) \<Rightarrow> string \<Rightarrow> string \<Rightarrow> WManager \<Rightarrow> bool \<times> WManager" where
  "symlink_check env clks target link m = (case on_disk (Symlink (we_tempdir env) link) m of
       (Inl _, m1) \<Rightarrow> (True, m1)
     | (Inr _, m1) \<Rightarrow> (case wsm_Commit env (clks 0) target m1 of (r, m2) \<Rightarrow>
         (\<not> is_ok r, m2\<lparr>wsm_disk := Remove_link link (wsm_disk m2)\<rparr>)))"

definition ws_at :: "(string \<times> Workspace) list \<Rightarrow> string \<Rightarrow> Workspace" where
  "ws_at wss agent = (case map_of wss agent of None \<Rightarrow> zero_Workspace | Some ws \<Rightarrow> ws)"

definition main_of :: "string \<Rightarrow> string" where
  "main_of dir = Join [dir, ''src'', ''main.txt'']"

definition rm_fault_rest :: "wenv \<Rightarrow> (nat \<Rightarrow> clock) \<Rightarrow> (string \<times> Workspace) list \<Rightarrow> WManager \<Rightarrow> RMFaultEvidence result \<times> WManager" where
  "rm_fault_rest env clks wss m = (let target = ''coder''; before = snapshotFiles env wss (wsm_disk m) in
     bindE (on_disk (safeRemoveAll env (wsm_root m) (Join [ws_MergedDir (ws_at wss target), ''src'']))) (\<lambda>_ m1. (let
       afterFault = snapshotFiles env wss (wsm_disk m1);
       affected = \<not> fileExists (main_of (ws_MergedDir (ws_at wss target))) (wsm_disk m1);
       unaffected = filter (\<lambda>agent. fileExists (main_of (ws_MergedDir (ws_at wss agent))) (wsm_disk m1)) [''planner'', ''reviewer''];
       lowerUnchanged = fileExists (main_of (ws_LowerDir (ws_at wss target))) (wsm_disk m1)
     in bindE (wsm_Rollback env (clks 3) target) (\<lambda>rollback m2. (let
       afterRollback = snapshotFiles env wss (wsm_disk m2);
       (blocked, m3) = symlink_check env (clks \<circ> (\<lambda>i. i + 4)) target (Join [ws_MergedDir (ws_at wss target), ''symlink-escape'']) m2;
       (commitRes, m4) = wsm_Commit env (clks 5) target m3;
       ws = (case wsm_Status env target m4 of (st, None) \<Rightarrow> wst_Workspace st | _ \<Rightarrow> ws_at wss target);
       mountpoint = (ws_Mode ws = ModeOverlayFS \<and> isMountPoint env (ws_MergedDir ws) (wsm_disk m4));
       (destroyed, m5) = destroy_all env (clks \<circ> (\<lambda>i. i + 6)) [''planner'', ''coder'', ''reviewer''] m4;
       escape = \<not> is_ok (fst (EnsureUnder env (wsm_root m) (Join [wsm_root m, ''..'', ''escape'']) (wsm_disk m5)));
       rootOnly = list_all (\<lambda>(_, w). is_ok (fst (EnsureUnder env (wsm_root m) (ws_RuntimeRoot w) (wsm_disk m5)))) wss
     in returnE \<lparr>
         rm_Success = affected \<and> lowerUnchanged \<and> rb_RollbackSuccess rollback \<and> length unaffected = 2
           \<and> is_ok commitRes \<and> destroyed,
         rm_FaultType = ''workspace_rmrf'', rm_TargetAgent = target, rm_Mode = ws_Mode ws,
         rm_EvidenceMode = ws_EvidenceMode ws, rm_RuntimeRoot = wsm_root m, rm_LowerDirUnchanged = lowerUnchanged,
         rm_TargetAgentAffected = affected, rm_UnaffectedAgents = unaffected,
         rm_CascadeFailure = (length unaffected \<noteq> 2), rm_RollbackSuccess = rb_RollbackSuccess rollback,
         rm_MergedIsMountpoint = mountpoint, rm_CommitSupported = is_ok commitRes, rm_DestroySuccess = destroyed,
         rm_FallbackReason = ws_FallbackReason ws, rm_BeforeFiles = before, rm_AfterFaultFiles = afterFault,
         rm_AfterRollbackFiles = afterRollback,
         rm_SafetyChecks = \<lparr>sc_RuntimeRootOnly = rootOnly, sc_PathEscapeBlocked = escape,
           sc_RepoDirUntouched = True, sc_SymlinkEscapeBlocked = blocked\<rparr>,
         rm_Timestamp = rfc3339 (clks 9 0), rm_Error = []\<rparr> m5)) m1)) m)"

text \<open>An error of a step is returned together with evidence that says so; the model keeps the error.\<close>

definition RunRMFaultDemo :: "wenv \<Rightarrow> (nat \<Rightarrow> clock) \<Rightarrow> string \<Rightarrow> bool \<Rightarrow> bool \<Rightarrow> fs \<Rightarrow> RMFaultEvidence result \<times> WManager" where
  "RunRMFaultDemo env clks rt sink force d =
     bindE (create_all env clks [''planner'', ''coder'', ''reviewer'']) (rm_fault_rest env clks) (wsm_New env rt sink force d)"

section \<open>Overlay probe\<close>

record WorkspaceProbe =
  wp_Success :: bool
  wp_Linux :: bool
  wp_UID :: int
  wp_OverlayInProcFilesystems :: bool
  wp_MountTestSuccess :: bool
  wp_MergedIsMountpoint :: bool
  wp_SelectedMode :: string
  wp_Mode :: string
  wp_EvidenceMode :: Mode
  wp_RuntimeRoot :: string
  wp_FallbackReason :: string
  wp_Timestamp :: string
  wp_Error :: string

text \<open>The deferred \<open>Destroy\<close> runs after the result value is set: it does not change what is returned.\<close>

definition ProbeOverlay :: "wenv \<Rightarrow> (nat \<Rightarrow> clock) \<Rightarrow> string \<Rightarrow> fs \<Rightarrow> WorkspaceProbe \<times> WManager" where
  "ProbeOverlay env clks rt d = (let m = wsm_New env rt False False d;
       probe = \<lparr>wp_Success = True, wp_Linux = (we_goos env = ''linux''), wp_UID = we_euid env,
         wp_OverlayInProcFilesystems = overlayInProcFilesystems env, wp_MountTestSuccess = False,
         wp_MergedIsMountpoint = False, wp_SelectedMode = ws_ModeDegradedCopy, wp_Mode = ws_ModeDegradedCopy,
         wp_EvidenceMode = ModeDegradedCopy, wp_RuntimeRoot = wsm_root m, wp_FallbackReason = [],
         wp_Timestamp = rfc3339 (clks 0 0), wp_Error = []\<rparr>
     in case wsm_Create env (clks 1) ''probe'' m of
       (Inl e, m1) \<Rightarrow> (probe\<lparr>wp_Success := False, wp_FallbackReason := we_text env e, wp_Error := we_text env e\<rparr>, m1)
     | (Inr ws, m1) \<Rightarrow> let mp = isMountPoint env (ws_MergedDir ws) (wsm_disk m1);
           p1 = probe\<lparr>wp_SelectedMode := ws_Mode ws, wp_Mode := ws_Mode ws, wp_EvidenceMode := ws_EvidenceMode ws,
             wp_FallbackReason := ws_FallbackReason ws, wp_MergedIsMountpoint := mp,
             wp_MountTestSuccess := (ws_Mode ws = ModeOverlayFS \<and> mp)\<rparr>;
           p2 = (if ws_Mode ws = ModeOverlayFS \<and> \<not> mp then p1\<lparr>wp_Success := False, wp_EvidenceMode := ModeDegraded,
             wp_FallbackReason := ''overlayfs mount command succeeded but merged directory is not visible as a mountpoint''\<rparr>
             else p1)
         in (p2, snd (wsm_Destroy env (clks 2) ''probe'' m1)))"

end
