(* ===== verification/WorkspaceProps.thy ===== *)
theory WorkspaceProps
  imports WorkspaceCorrect
begin

text \<open>
  Properties of the workspace manager in degraded-copy mode: \<open>Create\<close> succeeds and builds a
  working copy of the base, \<open>Rollback\<close> undoes everything that was done to it, \<open>Commit\<close> copies it out.
\<close>

section \<open>Rollback and commit of one workspace\<close>

text \<open>A base and a working copy below the root, in directories of their own.\<close>

definition ws_dirs :: "fs \<Rightarrow> string list \<Rightarrow> string list \<Rightarrow> string list \<Rightarrow> bool" where
  "ws_dirs d r s t \<longleftrightarrow> fs_ok d \<and> lookup d s = Some Dir \<and> lookup d t = Some Dir \<and> \<not> prefix s t \<and> \<not> prefix t s
     \<and> prefix r s \<and> prefix r t"

lemma ws_dirs_emptied:
  assumes "ws_dirs d r s t" and "fs_ok d'" and "\<And>q. lookup d' q = (if strict_prefix t q then None else lookup d q)"
  shows "copy_ready d' s t"
  using assms by (auto simp: ws_dirs_def copy_ready_def strict_prefix_def)

lemma rollback_copy_run:
  assumes W: "ws_dirs d r s t" and "ws_LowerDir ws = abs_path s" and "ws_MergedDir ws = abs_path t"
    and "rollback_copy env (abs_path r) ws d = (Inr n, d')"
  shows "fs_ok d' \<and> (\<forall>q. lookup d' q = (if prefix t q then lookup d (s @ drop (length t) q) else lookup d q))
    \<and> no_link d s"
proof -
  obtain d1 u where rem: "removeChildren env (abs_path r) (abs_path t) d = (Inr n, d1)"
    and cp: "copyTree env (abs_path r) (abs_path s) (abs_path t) d1 = (Inr u, d')"
    using assms(4) unfolding rollback_copy_def assms(2,3)
    by (auto elim!: bindE_Inr simp: returnE_Inr)
  have dt: "fs_ok d" "lookup d t = Some Dir" and pre: "prefix r s" "prefix r t" and st: "\<not> prefix t s"
    using W by (simp_all add: ws_dirs_def)
  note d1 = removeChildren_run [OF rem dt]
  have rdy: "copy_ready d1 s t" by (rule ws_dirs_emptied [OF W]) (use d1 in auto)
  have nl: "no_link d1 s" by (rule copyTree_no_link [OF rdy pre cp])
  have off: "lookup d1 (s @ x) = lookup d (s @ x)" for x
    using d1 apart [OF _ st] W by (simp add: ws_dirs_def strict_prefix_def)
  obtain d2 where "copyTree env (abs_path r) (abs_path s) (abs_path t) d1 = (Inr (), d2)" "fs_ok d2"
    "\<And>q. lookup d2 q = (if prefix t q then lookup d1 (s @ drop (length t) q) else lookup d1 q)"
    using copyTree_clear [OF rdy pre nl] by metis
  moreover have "lookup d1 q = lookup d q" if "\<not> prefix t q" for q
    using d1 that by (simp add: strict_prefix_def)
  moreover have "no_link d s" using nl off unfolding no_link_def by (metis prefix_def)
  ultimately show ?thesis using cp off by auto
qed

lemma rollback_copy_clear:
  assumes W: "ws_dirs d r s t" and "ws_LowerDir ws = abs_path s" and "ws_MergedDir ws = abs_path t"
    and "no_link d s" and "no_link d t"
  shows "\<exists>n d'. rollback_copy env (abs_path r) ws d = (Inr n, d')"
proof -
  have dt: "fs_ok d" "lookup d t = Some Dir" and pre: "prefix r s" "prefix r t" and st: "\<not> prefix t s"
    using W by (simp_all add: ws_dirs_def)
  obtain n d1 where rem: "removeChildren env (abs_path r) (abs_path t) d = (Inr n, d1)"
    using removeChildren_clear [OF dt assms(5) pre(2)] by blast
  note d1 = removeChildren_run [OF rem dt]
  have rdy: "copy_ready d1 s t" by (rule ws_dirs_emptied [OF W]) (use d1 in auto)
  have "no_link d1 s" using assms(4) d1 by (simp add: no_link_def)
  then obtain d2 where "copyTree env (abs_path r) (abs_path s) (abs_path t) d1 = (Inr (), d2)"
    using copyTree_clear [OF rdy pre] by metis
  then show ?thesis by (simp add: rollback_copy_def assms(2,3) bindE_def rem returnE_def)
qed

section \<open>Building a workspace\<close>

lemma Join_words:
  assumes "\<forall>w \<in> set L. plain_word w" and "\<forall>w \<in> set (words name). plain_word w"
  shows "Join [abs_path L, name] = abs_path (L @ words name)"
  using Join_abs [OF assms(1), of name] foldl_skip_empty [of True "rev L" "split_on sep name"]
    foldl_clean_id [OF assms(2), of True "rev L"] by (simp add: words_def)

lemma eachE_mkdir:
  assumes "fs_ok d" and "\<forall>w \<in> set R. plain_word w" and "\<forall>w \<in> set xs. plain_word w" and "clear d R"
    and "\<And>q. strict_prefix R q \<Longrightarrow> lookup d q = None \<or> lookup d q = Some Dir"
  shows "\<exists>d'. eachE MkdirAll (map (\<lambda>x. abs_path (R @ [x])) xs) d = (Inr (), d') \<and> fs_ok d'
    \<and> (\<forall>q. lookup d' q = (if \<exists>x \<in> set xs. prefix q (R @ [x]) then Some Dir else lookup d q))"
  using assms(1,3-5)
proof (induction xs arbitrary: d)
  case (Cons x xs)
  have plain: "\<forall>w \<in> set (R @ [x]). plain_word w" using assms(2) Cons.prems(2) by auto
  have "clear d (R @ [x])" using Cons.prems(3,4) by (simp add: clear_snoc strict_prefix_def)
  then obtain d1 where d1: "MkdirAll (abs_path (R @ [x])) d = (Inr (), d1)" "fs_ok d1"
    "\<And>q. lookup d1 q = (if prefix q (R @ [x]) then Some Dir else lookup d q)"
    using MkdirAll_clear [of d "abs_path (R @ [x])"] Cons.prems(1) plain unfolding elems_abs_path [OF plain] by metis
  have "clear d1 R" using Cons.prems(3) d1(3) by (simp add: clear_def)
  moreover have "strict_prefix R q \<Longrightarrow> lookup d1 q = None \<or> lookup d1 q = Some Dir" for q
    using Cons.prems(4) d1(3) by simp
  ultimately obtain d' where d': "eachE MkdirAll (map (\<lambda>x. abs_path (R @ [x])) xs) d1 = (Inr (), d')" "fs_ok d'"
    "\<And>q. lookup d' q = (if \<exists>x \<in> set xs. prefix q (R @ [x]) then Some Dir else lookup d1 q)"
    using Cons.IH [OF d1(2)] Cons.prems(2) by auto
  have "lookup d' q = (if \<exists>x \<in> set (x # xs). prefix q (R @ [x]) then Some Dir else lookup d q)" for q
    using d'(3) d1(3) by simp
  then show ?case using d1(1) d'(1,2) by simp
qed simp

lemma write_files:
  assumes "fs_ok d" and "lookup d L = Some Dir" and "no_link d L"
    and "\<And>f. f \<in> set fs \<Longrightarrow> words (fst f) \<noteq> [] \<and> (\<forall>w \<in> set (words (fst f)). plain_word w)"
    and "\<And>f. f \<in> set fs \<Longrightarrow> clear d (L @ butlast (words (fst f))) \<and> lookup d (L @ words (fst f)) = None"
    and "sorted_wrt (\<lambda>f g. \<not> prefix (words (fst f)) (words (fst g)) \<and> \<not> prefix (words (fst g)) (words (fst f))) fs"
  shows "\<exists>d'. eachE (write_in (abs_path L)) fs d = (Inr (), d') \<and> fs_ok d' \<and> no_link d' L \<and> lookup d' L = Some Dir
    \<and> (\<forall>q. \<not> strict_prefix L q \<longrightarrow> lookup d' q = lookup d q)"
  using assms
proof (induction fs arbitrary: d)
  case (Cons f fs)
  obtain name content where f: "f = (name, content)" by fastforce
  define ns where "ns = words name"
  have L: "\<forall>w \<in> set L. plain_word w" by (rule fs_ok_plain [OF Cons.prems(1,2)])
  have ns: "ns \<noteq> []" "\<forall>w \<in> set (words name). plain_word w" using Cons.prems(4) [of f] by (simp_all add: f ns_def)
  have plain: "\<forall>w \<in> set (L @ ns). plain_word w" "\<forall>w \<in> set (L @ butlast ns). plain_word w"
    using L ns by (auto simp: ns_def dest: in_set_butlastD)
  have up: "butlast (L @ ns) = L @ butlast ns" using ns(1) by (simp add: butlast_append)
  note e = elems_abs_path [OF plain(1)] elems_abs_path [OF plain(2)]
  have clr: "clear d (L @ butlast ns)" and none: "lookup d (L @ ns) = None"
    using Cons.prems(5) [of f] by (simp_all add: f ns_def)
  obtain d1 where d1: "MkdirAll (abs_path (L @ butlast ns)) d = (Inr (), d1)" "fs_ok d1"
    "\<And>q. lookup d1 q = (if prefix q (L @ butlast ns) then Some Dir else lookup d q)"
    using MkdirAll_clear [of d "abs_path (L @ butlast ns)"] clr Cons.prems(1) plain(2) unfolding e by metis
  have "strict_prefix (L @ butlast ns) (L @ ns)" using ns(1) by (metis append_butlast_last_id append_assoc strict_prefixI')
  then have none1: "lookup d1 (L @ ns) = None" unfolding d1(3) by (simp add: none prefix_order.less_le_not_le)
  obtain d2 where d2: "WriteFile (abs_path (L @ ns)) content d1 = (Inr (), d2)" "fs_ok d2"
    "\<And>q. lookup d2 q = (if q = L @ ns then Some (File content) else lookup d1 q)"
    using WriteFile_clear [of d1 "abs_path (L @ ns)" content] d1(2,3) plain(1) ns(1) none1 unfolding e up by auto
  have run: "write_in (abs_path L) f d = (Inr (), d2)"
    using d1(1) d2(1) by (simp add: write_in_def f Join_words [OF L ns(2)] flip: ns_def)
      (simp add: Let_def bindE_def path_Dir_def e up)
  have L2: "lookup d2 L = Some Dir" using d2(3) d1(3) Cons.prems(2) ns(1) by simp
  have nl2: "no_link d2 L" using Cons.prems(3) d1(3) d2(3) unfolding no_link_def by simp
  have off: "lookup d2 q = lookup d q" if "\<not> strict_prefix L q" for q
  proof (cases "prefix q (L @ butlast ns)")
    case True
    then have "prefix q L" using that by (metis append_Nil2 prefix_append prefix_order.less_le prefix_same_cases prefixI)
    then have "lookup d q = Some Dir" using Cons.prems(2) fs_ok_prefix [OF Cons.prems(1,2)] by (metis strict_prefixI)
    moreover have "q \<noteq> L @ ns" using that ns(1) by (auto simp: strict_prefix_def)
    ultimately show ?thesis using d2(3) d1(3) True by simp
  next
    case False
    moreover have "q \<noteq> L @ ns" using that ns(1) by (auto simp: strict_prefix_def)
    ultimately show ?thesis using d2(3) d1(3) by simp
  qed
  have later: "clear d2 (L @ butlast (words (fst g))) \<and> lookup d2 (L @ words (fst g)) = None" if g: "g \<in> set fs" for g
  proof -
    have np: "\<not> prefix ns (words (fst g))" "\<not> prefix (words (fst g)) ns"
      using Cons.prems(6) g by (simp_all add: f ns_def)
    have old: "clear d (L @ butlast (words (fst g)))" "lookup d (L @ words (fst g)) = None" using Cons.prems(5) g by auto
    have "\<not> prefix (L @ ns) (L @ butlast (words (fst g)))"
      using np(1) by (metis prefixeq_butlast prefix_order.trans same_prefix_prefix)
    then have "clear d2 (L @ butlast (words (fst g)))"
      using old(1) d2(3) d1(3) unfolding clear_def by metis
    moreover have "\<not> prefix (L @ words (fst g)) (L @ butlast ns)"
      using np(2) by (metis prefixeq_butlast prefix_order.trans same_prefix_prefix)
    moreover have "L @ words (fst g) \<noteq> L @ ns" using np by auto
    ultimately show ?thesis using old(2) d2(3) d1(3) by simp
  qed
  obtain d' where d': "eachE (write_in (abs_path L)) fs d2 = (Inr (), d')" "fs_ok d'" "no_link d' L"
    "lookup d' L = Some Dir" "\<forall>q. \<not> strict_prefix L q \<longrightarrow> lookup d' q = lookup d2 q"
    using Cons.IH [OF d2(2) L2 nl2 Cons.prems(4) [OF list.set_intros(2)] later] Cons.prems(6) by auto
  then show ?case using run off by simp
qed simp

lemma sorted_wrt_pairs:
  "distinct xs \<Longrightarrow> (\<And>x y. x \<in> set xs \<Longrightarrow> y \<in> set xs \<Longrightarrow> x \<noteq> y \<Longrightarrow> P x y) \<Longrightarrow> sorted_wrt P xs"
  by (induction xs) auto

lemma default_lower_words:
  "words ''README.txt'' = [''README.txt'']" "words ''src/main.txt'' = [''src'', ''main.txt'']"
  "words ''config/runtime.json'' = [''config'', ''runtime.json'']"
  by (simp_all add: words_def)

lemma dom_default_lower: "dom default_lower = {''README.txt'', ''src/main.txt'', ''config/runtime.json''}"
  by (auto simp: default_lower_def)

lemma default_lower_apart:
  "x \<in> dom default_lower \<Longrightarrow> y \<in> dom default_lower \<Longrightarrow> x \<noteq> y \<Longrightarrow> \<not> prefix (words x) (words y)"
  unfolding dom_default_lower by (elim insertE emptyE; simp add: default_lower_words)

lemma no_link_empty:
  assumes "lookup d L = Some Dir" and "\<And>q. strict_prefix L q \<Longrightarrow> lookup d q = None"
  shows "no_link d L"
proof -
  have "lookup d q \<noteq> Some (Link l)" if "prefix L q" for q l
    using that assms by (cases "q = L") (simp_all add: strict_prefix_def)
  then show ?thesis by (simp add: no_link_def)
qed

lemma writeDefaultLower_clear:
  assumes "range_order default_lower (we_lower_order env)" and "fs_ok d" and "lookup d L = Some Dir"
    and "\<And>q. strict_prefix L q \<Longrightarrow> lookup d q = None"
  shows "\<exists>d'. writeDefaultLower env (abs_path L) d = (Inr (), d') \<and> fs_ok d' \<and> no_link d' L \<and> lookup d' L = Some Dir
    \<and> (\<forall>q. \<not> strict_prefix L q \<longrightarrow> lookup d' q = lookup d q)"
proof -
  let ?fs = "map (\<lambda>name. (name, the (default_lower name))) (we_lower_order env)"
  have order: "distinct (we_lower_order env)" "set (we_lower_order env) = dom default_lower"
    using assms(1) by (simp_all add: range_order_def)
  have names: "fst f = ''README.txt'' \<or> fst f = ''src/main.txt'' \<or> fst f = ''config/runtime.json''" if "f \<in> set ?fs" for f
  proof -
    have "fst f \<in> set (we_lower_order env)" using that by auto
    then show ?thesis unfolding order(2) dom_default_lower by blast
  qed
  have nl: "no_link d L" by (rule no_link_empty [OF assms(3,4)])
  have good: "words (fst f) \<noteq> [] \<and> (\<forall>w \<in> set (words (fst f)). plain_word w)" if "f \<in> set ?fs" for f
    using names [OF that] by (elim disjE) (simp_all add: default_lower_words plain_word_def)
  have clr: "clear d L" by (rule clear_dir [OF assms(2,3)])
  have free: "clear d (L @ butlast (words (fst f))) \<and> lookup d (L @ words (fst f)) = None" if "f \<in> set ?fs" for f
    using names [OF that] clr assms(4) by (elim disjE) (simp_all add: default_lower_words clear_snoc strict_prefix_def)
  have apart: "sorted_wrt (\<lambda>f g. \<not> prefix (words (fst f)) (words (fst g)) \<and> \<not> prefix (words (fst g)) (words (fst f))) ?fs"
    unfolding sorted_wrt_map fst_conv
    by (rule sorted_wrt_pairs [OF order(1)]) (simp add: order(2) default_lower_apart)
  show ?thesis
    unfolding writeDefaultLower_def by (rule write_files [OF assms(2,3) nl good free apart])
qed

text \<open>The six directories, and what \<open>Create\<close> makes of a disk without links on the way.\<close>

definition ws_names :: "string list" where
  "ws_names = [''lower'', ''upper'', ''work'', ''merged'', ''output'', ''evidence'']"

definition made_dirs :: "fs \<Rightarrow> string list \<Rightarrow> string list \<Rightarrow> fs \<Rightarrow> bool" where
  "made_dirs d r R d3 \<longleftrightarrow> fs_ok d3 \<and> (\<forall>q. lookup d3 q = (if \<exists>x \<in> set ws_names. prefix q (R @ [x]) then Some Dir
     else if prefix R q then None else if prefix q r then Some Dir else lookup d q))"

lemma made_dirs_at:
  assumes "made_dirs d r R d3"
  shows "x \<in> set ws_names \<Longrightarrow> lookup d3 (R @ [x]) = Some Dir"
    and "x \<in> set ws_names \<Longrightarrow> strict_prefix (R @ [x]) q \<Longrightarrow> lookup d3 q = None"
    and "prefix r R \<Longrightarrow> \<not> prefix R q \<Longrightarrow> lookup d3 q = (if prefix q R then Some Dir else if prefix q r then Some Dir else lookup d q)"
proof -
  have eq: "lookup d3 q = (if \<exists>x \<in> set ws_names. prefix q (R @ [x]) then Some Dir
     else if prefix R q then None else if prefix q r then Some Dir else lookup d q)" for q
    using assms by (simp add: made_dirs_def)
  show "x \<in> set ws_names \<Longrightarrow> lookup d3 (R @ [x]) = Some Dir" unfolding eq by auto
  show "lookup d3 q = None" if "x \<in> set ws_names" "strict_prefix (R @ [x]) q"
  proof -
    from that(2) obtain zs where zs: "q = (R @ [x]) @ zs" "zs \<noteq> []" by (auto simp: strict_prefix_def prefix_def)
    then obtain v vs where q: "q = R @ x # v # vs" by (cases zs) auto
    have "\<not> prefix q (R @ [y])" for y unfolding q by (simp add: prefix_Cons)
    then show ?thesis unfolding eq by (simp add: q)
  qed
  show "lookup d3 q = (if prefix q R then Some Dir else if prefix q r then Some Dir else lookup d q)"
    if "prefix r R" "\<not> prefix R q"
  proof -
    have "prefix q (R @ [x]) \<longleftrightarrow> prefix q R" for x using that(2) by auto
    moreover have "ws_names \<noteq> []" by (simp add: ws_names_def)
    ultimately have "(\<exists>x \<in> set ws_names. prefix q (R @ [x])) \<longleftrightarrow> prefix q R" by (simp add: ex_in_conv)
    then show ?thesis unfolding eq using that(2) by simp
  qed
qed

lemma plain_ws_names: "x \<in> set ws_names \<Longrightarrow> plain_word x"
  by (auto simp: ws_names_def plain_word_def)

lemma make_dirs:
  assumes "fs_ok d" and "clear d R" and "\<forall>w \<in> set R. plain_word w" and "strict_prefix r R"
  obtains d1 d2 d3 where "MkdirAll (abs_path r) d = (Inr (), d1)"
    and "safeRemoveAll env (abs_path r) (abs_path R) d1 = (Inr (), d2)"
    and "eachE MkdirAll (map (\<lambda>x. abs_path (R @ [x])) ws_names) d2 = (Inr (), d3)" and "made_dirs d r R d3"
proof -
  have rR: "prefix r R" using assms(4) by (simp add: strict_prefix_def)
  have r: "\<forall>w \<in> set r. plain_word w" using assms(3) rR by (auto simp: prefix_def)
  obtain d1 where d1: "MkdirAll (abs_path r) d = (Inr (), d1)" "fs_ok d1"
    "\<And>q. lookup d1 q = (if prefix q r then Some Dir else lookup d q)"
    using MkdirAll_clear [of d "abs_path r"] clear_prefix [OF assms(2) rR] assms(1) r
    unfolding elems_abs_path [OF r] by metis
  have "clear d1 R" using assms(2) d1(3) by (simp add: clear_def)
  then obtain d2 where d2: "safeRemoveAll env (abs_path r) (abs_path R) d1 = (Inr (), d2)" "fs_ok d2"
    "\<And>q. lookup d2 q = (if prefix R q then None else lookup d1 q)"
    using safeRemoveAll_clear [OF d1(2) _ assms(3,4)] by metis
  have clr: "clear d2 R" using \<open>clear d1 R\<close> d2(3) by (simp add: clear_def)
  have below: "strict_prefix R q \<Longrightarrow> lookup d2 q = None \<or> lookup d2 q = Some Dir" for q
    using d2(3) by (simp add: strict_prefix_def)
  have "\<forall>x \<in> set ws_names. plain_word x" using plain_ws_names by blast
  from eachE_mkdir [OF d2(2) assms(3) this clr below] obtain d3 where
    d3: "eachE MkdirAll (map (\<lambda>x. abs_path (R @ [x])) ws_names) d2 = (Inr (), d3)" "fs_ok d3"
      "\<And>q. lookup d3 q = (if \<exists>x \<in> set ws_names. prefix q (R @ [x]) then Some Dir else lookup d2 q)" by blast
  have "made_dirs d r R d3" using d3(2,3) d2(3) d1(3) by (simp add: made_dirs_def)
  with that d1(1) d2(1) d3(1) show ?thesis by blast
qed

definition seed_ok :: "wenv \<Rightarrow> fs \<Rightarrow> string list \<Rightarrow> string list \<Rightarrow> string \<Rightarrow> bool" where
  "seed_ok env d r R seed \<longleftrightarrow> (if seed = [] then range_order default_lower (we_lower_order env)
     else \<exists>s. seed = abs_path s \<and> lookup d s = Some Dir \<and> \<not> prefix s R \<and> \<not> prefix R s \<and> prefix r s \<and> no_link d s)"

lemma fill_lower:
  assumes M: "made_dirs d r R d3" and "seed_ok env d r R seed" and rR: "prefix r R"
  defines "L \<equiv> R @ [''lower'']"
  obtains d4 where "(if seed \<noteq> [] then copyTree env (abs_path r) seed (abs_path L) else writeDefaultLower env (abs_path L)) d3 = (Inr (), d4)"
    and "fs_ok d4" and "no_link d4 L" and "\<And>q. \<not> strict_prefix L q \<Longrightarrow> lookup d4 q = lookup d3 q"
    and "\<And>s x. seed = abs_path s \<Longrightarrow> \<forall>w \<in> set s. plain_word w \<Longrightarrow> lookup d4 (L @ x) = lookup d (s @ x)"
proof -
  have ok3: "fs_ok d3" using M by (simp add: made_dirs_def)
  have mem: "''lower'' \<in> set ws_names" by (simp add: ws_names_def)
  have L: "lookup d3 L = Some Dir" "strict_prefix L q \<Longrightarrow> lookup d3 q = None" for q
    unfolding L_def using made_dirs_at(1,2) [OF M mem] by blast+
  have nl3: "no_link d3 L" by (rule no_link_empty [OF L])
  show ?thesis
  proof (cases "seed = []")
    case True
    then obtain d4 where "writeDefaultLower env (abs_path L) d3 = (Inr (), d4)" "fs_ok d4" "no_link d4 L"
      "\<forall>q. \<not> strict_prefix L q \<longrightarrow> lookup d4 q = lookup d3 q"
      using writeDefaultLower_clear [OF _ ok3 L, of env] assms(2) by (auto simp: seed_ok_def)
    then show ?thesis using that True by (simp add: abs_path_def)
  next
    case False
    then obtain s where s: "seed = abs_path s" "lookup d s = Some Dir" "\<not> prefix s R" "\<not> prefix R s" "prefix r s"
      "no_link d s" using assms(2) by (auto simp: seed_ok_def)
    have same: "lookup d3 (s @ x) = lookup d (s @ x)" for x
    proof -
      have "\<not> prefix R (s @ x)" by (rule apart [OF s(3,4)])
      moreover have "\<not> prefix (s @ x) R" using s(3) by (meson append_prefixD)
      moreover have "\<not> prefix (s @ x) r" using s(3) rR by (meson append_prefixD prefix_order.trans)
      ultimately show ?thesis using made_dirs_at(3) [OF M rR, of "s @ x"] by simp
    qed
    have dir: "lookup d3 s = Some Dir" using same [of "[]"] s(2) by simp
    have "\<not> prefix s L" using s(3,4) unfolding L_def by auto
    moreover have "\<not> prefix L s" using s(4) unfolding L_def by (meson append_prefixD)
    ultimately have rdy: "copy_ready d3 s L" using ok3 dir L by (simp add: copy_ready_def)
    have nls: "no_link d3 s" using s(6) same unfolding no_link_def by (metis prefix_def)
    have rL: "prefix r L" using rR by (simp add: L_def)
    obtain d4 where d4: "copyTree env (abs_path r) (abs_path s) (abs_path L) d3 = (Inr (), d4)" "fs_ok d4"
      "\<And>q. lookup d4 q = (if prefix L q then lookup d3 (s @ drop (length L) q) else lookup d3 q)"
      using copyTree_clear [OF rdy s(5) rL nls] by metis
    have nl4: "no_link d4 L" using nls d4(3) unfolding no_link_def by simp
    have off: "lookup d4 q = lookup d3 q" if "\<not> strict_prefix L q" for q
      using that d4(3) L(1) dir by (cases "q = L") (simp_all add: strict_prefix_def)
    have "s' = s" if "seed = abs_path s'" "\<forall>w \<in> set s'. plain_word w" for s'
      using that s(1) copy_readyD(7) [OF rdy] by (metis elems_abs_path)
    then have seed: "lookup d4 (L @ x) = lookup d (s' @ x)"
      if "seed = abs_path s'" "\<forall>w \<in> set s'. plain_word w" for s' x
      using that d4(3) same by simp
    show ?thesis
      by (rule that [of d4]) (use d4(1,2) nl4 off seed False s(1) in simp_all)
  qed
qed

lemma new_workspace_dirs:
  assumes "\<forall>w \<in> set R. plain_word w"
  shows "ws_RuntimeRoot (new_workspace clk a (abs_path R)) = abs_path R"
    "ws_LowerDir (new_workspace clk a (abs_path R)) = abs_path (R @ [''lower''])"
    "ws_UpperDir (new_workspace clk a (abs_path R)) = abs_path (R @ [''upper''])"
    "ws_WorkDir (new_workspace clk a (abs_path R)) = abs_path (R @ [''work''])"
    "ws_MergedDir (new_workspace clk a (abs_path R)) = abs_path (R @ [''merged''])"
    "ws_OutputDir (new_workspace clk a (abs_path R)) = abs_path (R @ [''output''])"
    "ws_EvidenceDir (new_workspace clk a (abs_path R)) = abs_path (R @ [''evidence''])"
    "ws_AgentID (new_workspace clk a (abs_path R)) = a"
  using Join_abs_word [OF assms plain_ws_names] by (simp_all add: new_workspace_def ws_names_def)

text \<open>A workspace as \<open>Create\<close> leaves it, on a disk \<open>d'\<close> made from the disk \<open>d\<close>.\<close>

definition fresh_ws :: "fs \<Rightarrow> string list \<Rightarrow> string list \<Rightarrow> fs \<Rightarrow> Workspace \<Rightarrow> bool" where
  "fresh_ws d r R d' ws \<longleftrightarrow> ws_dirs d' r (R @ [''lower'']) (R @ [''merged'']) \<and> no_link d' (R @ [''lower''])
     \<and> (\<forall>x. lookup d' (R @ [''merged''] @ x) = lookup d' (R @ [''lower''] @ x))
     \<and> lookup d' (R @ [''output'']) = Some Dir \<and> (\<forall>w x. w \<notin> set ws_names \<longrightarrow> lookup d' (R @ w # x) = None)
     \<and> (\<forall>q. \<not> prefix R q \<longrightarrow> lookup d' q = (if prefix q R \<or> prefix q r then Some Dir else lookup d q))
     \<and> ws_Mode ws = ws_ModeDegradedCopy \<and> ws_EvidenceMode ws = ModeDegradedCopy \<and> ws_FallbackReason ws \<noteq> []
     \<and> ws_LowerDir ws = abs_path (R @ [''lower'']) \<and> ws_MergedDir ws = abs_path (R @ [''merged''])
     \<and> ws_OutputDir ws = abs_path (R @ [''output'']) \<and> ws_RuntimeRoot ws = abs_path R"

lemma build_workspace_clear:
  assumes "fs_ok d" and "clear d R" and R: "\<forall>w \<in> set R. plain_word w" and rR: "strict_prefix r R"
    and reason: "overlayUnavailableReason env force \<noteq> []" and seed: "seed_ok env d r R seed"
  obtains ws d' where "build_workspace env (abs_path r) force (new_workspace clk a (abs_path R)) seed d = (Inr ws, d')"
    and "fresh_ws d r R d' ws" and "ws_AgentID ws = a"
    and "\<And>s x. seed = abs_path s \<Longrightarrow> \<forall>w \<in> set s. plain_word w \<Longrightarrow> lookup d' (R @ [''lower''] @ x) = lookup d (s @ x)"
proof -
  have pre: "prefix r R" using rR by (simp add: strict_prefix_def)
  let ?ws = "new_workspace clk a (abs_path R)"
  let ?L = "R @ [''lower'']" and ?T = "R @ [''merged'']"
  obtain d1 d2 d3 where d1: "MkdirAll (abs_path r) d = (Inr (), d1)"
    and d2: "safeRemoveAll env (abs_path r) (abs_path R) d1 = (Inr (), d2)"
    and d3: "eachE MkdirAll (map (\<lambda>x. abs_path (R @ [x])) ws_names) d2 = (Inr (), d3)" and M: "made_dirs d r R d3"
    by (rule make_dirs [OF assms(1,2) R rR])
  obtain d4 where d4: "(if seed \<noteq> [] then copyTree env (abs_path r) seed (abs_path ?L) else writeDefaultLower env (abs_path ?L)) d3 = (Inr (), d4)"
    "fs_ok d4" "no_link d4 ?L" "\<And>q. \<not> strict_prefix ?L q \<Longrightarrow> lookup d4 q = lookup d3 q"
    "\<And>s x. seed = abs_path s \<Longrightarrow> \<forall>w \<in> set s. plain_word w \<Longrightarrow> lookup d4 (?L @ x) = lookup d (s @ x)"
    by (rule fill_lower [OF M seed pre]) blast
  have names: "''lower'' \<in> set ws_names" "''merged'' \<in> set ws_names" "''output'' \<in> set ws_names"
    by (simp_all add: ws_names_def)
  have side: "\<not> strict_prefix ?L (R @ [x] @ y)" if "x \<noteq> ''lower''" for x y
    using that by (simp add: strict_prefix_def)
  have rdy: "copy_ready d4 ?L ?T"
    unfolding copy_ready_def
  proof (intro conjI allI impI)
    show "lookup d4 ?L = Some Dir" using d4(4) [of ?L] made_dirs_at(1) [OF M names(1)] by simp
    show "lookup d4 ?T = Some Dir" using d4(4) [of ?T] side [of "''merged''" "[]"] made_dirs_at(1) [OF M names(2)] by simp
    show "lookup d4 q = None" if q: "strict_prefix ?T q" for q
    proof -
      obtain y where "q = R @ [''merged''] @ y" using q by (auto simp: strict_prefix_def prefix_def)
      then show ?thesis using d4(4) [of q] side [of "''merged''"] made_dirs_at(2) [OF M names(2) q] by simp
    qed
  qed (use d4(2) in simp_all)
  obtain d5 where d5: "copyTree env (abs_path r) (abs_path ?L) (abs_path ?T) d4 = (Inr (), d5)" "fs_ok d5"
    "\<And>q. lookup d5 q = (if prefix ?T q then lookup d4 (?L @ drop (length ?T) q) else lookup d4 q)"
    using copyTree_clear [OF rdy _ _ d4(3), of r env] pre by auto
  define ws where "ws = ?ws\<lparr>ws_Mode := ws_ModeDegradedCopy, ws_EvidenceMode := ModeDegradedCopy,
      ws_FallbackReason := overlayUnavailableReason env force\<rparr>"
  have "build_workspace env (abs_path r) force ?ws seed d = (Inr ws, d5)"
    unfolding build_workspace_def new_workspace_dirs [OF R]
    using d1 d2 d3 d4(1) d5(1) reason
    by (simp add: bindE_def ws_names_def select_mode_def Let_def returnE_def new_workspace_dirs [OF R] ws_def
        split: if_splits)
  moreover have "fresh_ws d r R d5 ws"
    unfolding fresh_ws_def
  proof (intro conjI allI impI)
    show "ws_dirs d5 r ?L ?T"
      using copy_readyD(2,3) [OF rdy] d5(2,3) pre by (simp add: ws_dirs_def)
    show "no_link d5 ?L" using d4(3) d5(3) by (simp add: no_link_def prefix_def)
    show "lookup d5 (R @ [''merged''] @ x) = lookup d5 (R @ [''lower''] @ x)" for x
      using d5(3) by simp
    show "lookup d5 (R @ [''output'']) = Some Dir"
      using d5(3) d4(4) [of "R @ [''output'']"] side [of "''output''" "[]"] made_dirs_at(1) [OF M names(3)] by simp
    show "lookup d5 (R @ w # x) = None" if "w \<notin> set ws_names" for w x
    proof -
      have "w \<noteq> ''lower''" "w \<noteq> ''merged''" using that by (auto simp: ws_names_def)
      moreover have "\<not> (\<exists>y \<in> set ws_names. prefix (R @ w # x) (R @ [y]))" using that by auto
      then have "lookup d3 (R @ w # x) = None" using M by (simp add: made_dirs_def)
      ultimately show ?thesis using d5(3) [of "R @ w # x"] d4(4) [of "R @ w # x"] side [of w x] by simp
    qed
    show "lookup d5 q = (if prefix q R \<or> prefix q r then Some Dir else lookup d q)" if "\<not> prefix R q" for q
    proof -
      have "\<not> prefix ?T q" "\<not> strict_prefix ?L q" using that by (auto dest: append_prefixD simp: strict_prefix_def)
      then show ?thesis using d5(3) d4(4) made_dirs_at(3) [OF M pre that] by simp
    qed
  qed (use reason in \<open>simp_all add: ws_def new_workspace_dirs [OF R]\<close>)
  moreover have "ws_AgentID ws = a" by (simp add: ws_def new_workspace_dirs [OF R])
  moreover have "lookup d5 (R @ [''lower''] @ x) = lookup d4 (?L @ x)" for x
    using d5(3) by simp
  ultimately show ?thesis using that d4(5) by metis
qed

section \<open>The operations\<close>

lemma wsm_create_clear:
  assumes ok: "fs_ok (wsm_disk m)" and root: "wsm_root m = abs_path r" "\<forall>w \<in> set r. plain_word w"
    and a: "a \<noteq> []" "plain_word (workspace_safeName a)" and clr: "clear (wsm_disk m) (r @ [workspace_safeName a])"
    and reason: "overlayUnavailableReason env (wsm_ForceDegraded m) \<noteq> []"
    and seed: "seed_ok env (wsm_disk m) r (r @ [workspace_safeName a]) seed"
  obtains ws m1 where "wsm_create env clk a seed m = (Inr ws, m1)"
    and "fresh_ws (wsm_disk m) r (r @ [workspace_safeName a]) (wsm_disk m1) ws"
    and "wsm_workspaces m1 = (wsm_workspaces m)(a \<mapsto> ws)" and "wsm_root m1 = wsm_root m"
    and "\<And>s x. seed = abs_path s \<Longrightarrow> \<forall>w \<in> set s. plain_word w \<Longrightarrow>
          lookup (wsm_disk m1) (r @ [workspace_safeName a] @ ''lower'' # x) = lookup (wsm_disk m) (s @ x)"
proof -
  let ?R = "r @ [workspace_safeName a]"
  have R: "\<forall>w \<in> set ?R. plain_word w" using root(2) a(2) by auto
  have rR: "strict_prefix r ?R" by (simp add: strict_prefix_def)
  obtain ws d' where b: "build_workspace env (abs_path r) (wsm_ForceDegraded m) (new_workspace clk a (abs_path ?R)) seed (wsm_disk m)
      = (Inr ws, d')" and f: "fresh_ws (wsm_disk m) r ?R d' ws" and aid: "ws_AgentID ws = a"
    and l: "\<And>s x. seed = abs_path s \<Longrightarrow> \<forall>w \<in> set s. plain_word w \<Longrightarrow> lookup d' (?R @ [''lower''] @ x) = lookup (wsm_disk m) (s @ x)"
    by (rule build_workspace_clear [OF ok clr R rR reason seed]) blast
  obtain m1 where m1: "wsm_create env clk a seed m = (Inr ws, m1)" "wsm_disk m1 = d'"
    "wsm_workspaces m1 = (wsm_workspaces m)(a \<mapsto> ws)" "wsm_root m1 = wsm_root m"
    using b aid a(1) by (simp add: wsm_create_def root(1) Join_abs_word [OF root(2) a(2)] bindE_def on_disk_def Let_def
        returnE_def wsm_publish_def setWorkspace_def)
  from that [OF m1(1) _ m1(3,4)] f l show ?thesis unfolding m1(2) by simp
qed

lemma fresh_ws_dirs:
  assumes "fresh_ws d r R d' ws"
  shows "ws_dirs d' r (R @ [''lower'']) (R @ [''merged''])" "no_link d' (R @ [''lower''])" "ws_Mode ws \<noteq> ModeOverlayFS"
    "ws_LowerDir ws = abs_path (R @ [''lower''])" "ws_MergedDir ws = abs_path (R @ [''merged''])"
    "ws_OutputDir ws = abs_path (R @ [''output''])"
  using assms by (simp_all add: fresh_ws_def ModeOverlayFS_def ws_ModeDegradedCopy_def)

lemma wsm_Rollback_copy:
  assumes "wsm_workspaces m a = Some ws" and "ws_Mode ws \<noteq> ModeOverlayFS"
  shows "wsm_Rollback env clk a m = bindE (on_disk (rollback_copy env (wsm_root m) ws)) (\<lambda>n. rollback_finish clk a ws n) m"
  using assms by (simp add: wsm_Rollback_def wsm_workspace_def)

lemma rollback_finish_disk: "rollback_finish clk a ws n m = (res, m') \<Longrightarrow> wsm_disk m' = wsm_disk m \<and> is_ok res"
  by (auto simp: rollback_finish_def Let_def wsm_publish_def split: if_splits)

end
