(* ===== verification/WorkspaceFrame.thy ===== *)
theory WorkspaceFrame
  imports WorkspaceProps
begin

text \<open>
  What the file operations of the workspace manager leave alone, whether they succeed or fail, and
  what \<open>Commit\<close> makes of the output directory.
\<close>

section \<open>What an operation may change, whether it fails or not\<close>

text \<open>Only what is strictly below \<open>t\<close>.\<close>

definition only_in :: "string list \<Rightarrow> fs \<Rightarrow> fs \<Rightarrow> bool" where
  "only_in t d d' \<longleftrightarrow> fs_ok d' \<and> (\<forall>q. \<not> strict_prefix t q \<longrightarrow> lookup d' q = lookup d q)"

lemma only_in_refl: "fs_ok d \<Longrightarrow> only_in t d d"
  by (simp add: only_in_def)

lemma only_in_trans: "only_in t d d' \<Longrightarrow> only_in t d' d'' \<Longrightarrow> only_in t d d''"
  by (simp add: only_in_def)

lemma only_in_below: "only_in t d d' \<Longrightarrow> prefix s t \<Longrightarrow> only_in s d d'"
  by (auto simp: only_in_def dest: prefix_order.strict_trans1 prefix_order.le_less_trans)

lemma only_in_at: "only_in t d d' \<Longrightarrow> lookup d' t = lookup d t"
  by (simp add: only_in_def)

lemma eachE_append: "eachE f (xs @ ys) d = (case eachE f xs d of (Inl e, d') \<Rightarrow> (Inl e, d') | (Inr _, d') \<Rightarrow> eachE f ys d')"
  by (induction xs arbitrary: d) (auto split: prod.splits sum.splits)

lemma remove_child_cases:
  assumes "fs_ok d" and "lookup d t = Some Dir" and "plain_word w"
  obtains e where "remove_child env rt (abs_path t) w d = (Inl e, d)"
    | d1 where "remove_child env rt (abs_path t) w d = (Inr (), d1)" and "fs_ok d1"
      and "\<And>q. lookup d1 q = (if prefix (t @ [w]) q then None else lookup d q)"
proof -
  have t: "\<forall>w \<in> set t. plain_word w" by (rule fs_ok_plain [OF assms(1,2)])
  have tw: "\<forall>x \<in> set (t @ [w]). plain_word x" using t assms(3) by simp
  have "clear d (butlast (t @ [w]))" using clear_dir [OF assms(1,2)] by simp
  then obtain d1 where d1: "RemoveAll (abs_path (t @ [w])) d = (Inr (), d1)" "fs_ok d1"
    "\<And>q. lookup d1 q = (if prefix (t @ [w]) q then None else lookup d q)"
    using RemoveAll_clear [of d "abs_path (t @ [w])"] assms(1) tw unfolding elems_abs_path [OF tw] by auto
  obtain r0 where r0: "EnsureUnder env rt (abs_path (t @ [w])) d = (r0, d)" by (metis EnsureUnder_def)
  have run: "remove_child env rt (abs_path t) w d = (case r0 of Inl e \<Rightarrow> (Inl e, d) | Inr _ \<Rightarrow> (Inr (), d1))"
    by (simp add: remove_child_def Let_def Join_abs_word [OF t assms(3)] bindE_def r0 d1(1) split: sum.splits)
  show ?thesis
  proof (cases r0)
    case (Inl e)
    then show ?thesis using run that(1) by simp
  next
    case (Inr u)
    then show ?thesis using run that(2) d1(2,3) by simp
  qed
qed

lemma remove_child_state:
  assumes "fs_ok d" and "lookup d t = Some Dir" and "plain_word w"
    and "remove_child env rt (abs_path t) w d = (res, d')"
  shows "only_in t d d'"
proof (cases rule: remove_child_cases [OF assms(1-3), of env rt, case_names fail removed])
  case (fail e)
  then show ?thesis using assms(1,4) by (simp add: only_in_refl)
next
  case (removed d1)
  have "strict_prefix t q" if "prefix (t @ [w]) q" for q
    using that by (metis append_Cons append_assoc prefix_def strict_prefixI')
  with removed assms(4) show ?thesis unfolding only_in_def by auto
qed

lemma removeChildren_state:
  assumes "removeChildren env rt (abs_path t) d = (res, d')" and "fs_ok d" and "lookup d t = Some Dir"
  shows "only_in t d d'"
proof -
  have t: "\<forall>w \<in> set t. plain_word w" by (rule fs_ok_plain [OF assms(2,3)])
  have rd: "ReadDir (abs_path t) d = Inr (names_in d t)"
    using ReadDir_real [of d "abs_path t"] assms(2,3) t by simp
  have each: "only_in t d d'" if "eachE (remove_child env rt (abs_path t)) names d = (res, d')" "fs_ok d"
    "lookup d t = Some Dir" "\<forall>w \<in> set names. plain_word w" for names res d d'
    using that
  proof (induction names arbitrary: d)
    case (Cons w names)
    obtain r1 d1 where d1: "remove_child env rt (abs_path t) w d = (r1, d1)" by fastforce
    have step: "only_in t d d1" by (rule remove_child_state [OF Cons.prems(2,3) _ d1]) (use Cons.prems(4) in simp)
    show ?case
    proof (cases r1)
      case (Inl e)
      with Cons.prems(1) d1 step show ?thesis by simp
    next
      case (Inr u)
      then have "only_in t d1 d'"
        using Cons.IH [of d1] Cons.prems d1 step by (simp add: only_in_def)
      then show ?thesis by (rule only_in_trans [OF step])
    qed
  qed (simp add: only_in_refl)
  have plain: "\<forall>w \<in> set (names_in d t). plain_word w"
    using set_names_in [OF assms(2)] fs_ok_plain [OF assms(2)] by fastforce
  obtain r0 where en: "EnsureUnder env rt (abs_path t) d = (r0, d)" by (metis EnsureUnder_def)
  obtain r1 d1 where run: "eachE (remove_child env rt (abs_path t)) (names_in d t) d = (r1, d1)" by fastforce
  have d1: "only_in t d d1" by (rule each [OF run assms(2,3) plain])
  have "d' = d \<or> d' = d1"
    using assms(1) by (auto simp: removeChildren_def bindE_def en rd run returnE_def split: sum.splits)
  then show ?thesis using d1 only_in_refl [OF assms(2)] by blast
qed

lemma copied_only_in:
  assumes "copy_ready d s t" and "copied d s t R d'"
  shows "only_in t d d'"
  unfolding only_in_def
proof (intro conjI allI impI)
  show "fs_ok d'" using assms(2) by (simp add: copied_def)
  show "lookup d' q = lookup d q" if "\<not> strict_prefix t q" for q
  proof (cases "prefix t q")
    case True
    then have "q = t" using that by (simp add: strict_prefix_def)
    then show ?thesis using copied_at [OF assms(2), of "[]"] copied_new [OF assms(2), of "[]"] copy_readyD(2,3) [OF assms(1)]
      by (cases "[] \<in> R") simp_all
  qed (rule copied_off [OF assms(2)])
qed

text \<open>A copy that fails has copied some of the entries.\<close>

lemma copyTree_copied:
  assumes rdy: "copy_ready d s t" and "prefix r s" and "prefix r t"
    and "copyTree env (abs_path r) (abs_path s) (abs_path t) d = (res, d')"
  shows "\<exists>R. copied d s t R d'"
proof -
  let ?link = "\<lambda>k. \<exists>l. lookup d k = Some (Link l)"
  let ?e = "\<lambda>k. (drop (length s) k, the (lookup d k))" and ?f = "copy_entry (abs_path s) (abs_path t)"
  have start: "copied d s t (rels (length s) []) d" using copy_readyD(1) [OF rdy] by (simp add: copied_def rels_def)
  note run = assms(4) [unfolded copyTree_run [OF assms(1-3)]]
  show ?thesis
  proof (cases "\<exists>k \<in> set (tree_keys d s). ?link k")
    case True
    then obtain xs k ys l where keys: "tree_keys d s = xs @ k # ys" and k: "lookup d k = Some (Link l)"
      and xs: "\<forall>x \<in> set xs. \<not> ?link x" using split_list_first_prop [of "tree_keys d s" ?link] by blast
    have "tree_keys d s = [] @ xs @ k # ys" using keys by simp
    then obtain d1 where d1: "eachE ?f (map ?e xs) d = (Inr (), d1)" "copied d s t (rels (length s) xs) d1"
      using copy_all [OF rdy _ start, of xs "k # ys"] xs by auto
    have "eachE ?f (map ?e (k # ys)) d1 = (Inl (Errorf ''symlink escape blocked: %s'' [abs_path (elems (abs_path s) @ drop (length s) k)]), d1)"
      by (simp add: k copy_entry_def Let_def failE_def)
    then have "d' = d1" using run d1(1) unfolding keys map_append eachE_append by simp
    with d1(2) show ?thesis by blast
  next
    case False
    then obtain d1 where "eachE ?f (map ?e (tree_keys d s)) d = (Inr (), d1)" "copied d s t (rels (length s) (tree_keys d s)) d1"
      using copy_all [OF rdy _ start, of "tree_keys d s" "[]"] by auto
    with run show ?thesis by auto
  qed
qed

lemma copied_part:
  assumes "copy_ready d s t" and "copied d s t R d'"
  shows "lookup d' (t @ x) = None \<or> lookup d' (t @ x) = lookup d (s @ x)"
proof (cases "x \<in> R")
  case False
  then have "lookup d' (t @ x) = lookup d (t @ x)" by (rule copied_new [OF assms(2)])
  then show ?thesis using copy_readyD(2,3,6) [OF assms(1)] by (cases "x = []") (auto simp: strict_prefix_def)
qed (simp add: copied_at [OF assms(2)])

lemma copyTree_state:
  assumes rdy: "copy_ready d s t" and "prefix r s" and "prefix r t"
    and "copyTree env (abs_path r) (abs_path s) (abs_path t) d = (res, d')"
  shows "only_in t d d'"
  using copyTree_copied [OF assms] copied_only_in [OF rdy] by blast

section \<open>Commit\<close>

lemma collect_files_no_link:
  "(\<And>rel l. (rel, Link l) \<notin> set es) \<Longrightarrow>
   collect_files rt es = Inr (map (\<lambda>(rel, _). rel_path rel) (filter (\<lambda>(_, n). n \<noteq> Dir) es))"
proof (induction es)
  case (Cons e es)
  obtain rel n where e: "e = (rel, n)" by fastforce
  have "collect_files rt es = Inr (map (\<lambda>(rel, _). rel_path rel) (filter (\<lambda>(_, n). n \<noteq> Dir) es))"
    by (rule Cons.IH) (use Cons.prems in auto)
  moreover have "\<nexists>l. n = Link l" using Cons.prems e by auto
  ultimately show ?case by (cases n) (simp_all add: e)
qed simp

lemma listFiles_real:
  assumes "fs_ok d" and "lookup d p = Some Dir" and "no_link d p"
  obtains files where "listFiles (abs_path p) d = Inr files" and "sorted files"
    and "set files = {join_on sep x | x c. lookup d (p @ x) = Some (File c)}"
proof -
  let ?es = "map (\<lambda>k. (drop (length p) k, the (lookup d k))) (tree_keys d p)"
  have p: "\<forall>w \<in> set p. plain_word w" by (rule fs_ok_plain [OF assms(1,2)])
  have walk: "WalkDir (abs_path p) d = Inr ?es" using WalkDir_real [of d "abs_path p"] assms(1,2) p by simp
  have keys: "set (tree_keys d p) = {k. prefix p k \<and> lookup d k \<noteq> None}"
    using tree_keys_set [OF assms(1), of p] assms(2) by simp
  have es: "(rel, n) \<in> set ?es \<longleftrightarrow> lookup d (p @ rel) = Some n" for rel n
    unfolding set_map keys by (force simp: prefix_def image_iff)
  have "(rel, Link l) \<notin> set ?es" for rel l
    unfolding es using assms(3) by (simp add: no_link_def)
  then have "collect_files (abs_path p) ?es
      = Inr (map (\<lambda>(rel, _). rel_path rel) (filter (\<lambda>(_, n). n \<noteq> Dir) ?es))" by (rule collect_files_no_link)
  then have run: "listFiles (abs_path p) d
      = Inr (sort (map (\<lambda>(rel, _). rel_path rel) (filter (\<lambda>(_, n). n \<noteq> Dir) ?es)))"
    by (simp add: listFiles_def walk)
  have "set (map (\<lambda>(rel, _). rel_path rel) (filter (\<lambda>(_, n). n \<noteq> Dir) ?es))
      = {rel_path x | x n. (x, n) \<in> set ?es \<and> n \<noteq> Dir}" by force
  also have "\<dots> = {join_on sep x | x c. lookup d (p @ x) = Some (File c)}"
  proof -
    have "(n \<noteq> Dir \<and> lookup d (p @ x) = Some n) \<longleftrightarrow> (\<exists>c. n = File c \<and> lookup d (p @ x) = Some (File c))" for x n
      using assms(3) unfolding no_link_def by (metis node.distinct(1) node.exhaust prefixI)
    moreover have "rel_path x = join_on sep x" if "lookup d (p @ x) = Some (File c)" for x c
      using that assms(2) by (auto simp: rel_path_def)
    ultimately show ?thesis unfolding es by (metis (no_types, lifting))
  qed
  finally show ?thesis using that [OF run] by simp
qed


text \<open>\<open>Commit\<close> in degraded-copy mode, on a disk where working copy and output are directories.\<close>

abbreviation manifest_name :: string where "manifest_name \<equiv> ''commit_manifest.json''"

lemma commit_start:
  assumes W: "ws_dirs d r M U" and rO: "strict_prefix r U"
  obtains d2 where "\<And>f. bindE (EnsureUnder env (abs_path r) (abs_path U)) (\<lambda>_. bindE (safeRemoveAll env (abs_path r) (abs_path U)) (\<lambda>_.
      bindE (MkdirAll (abs_path U)) (\<lambda>_. f))) d = f d2" and "copy_ready d2 M U" and "only_in U d d2"
    and "\<And>q. lookup d2 q = (if strict_prefix U q then None else lookup d q)"
proof -
  have ok: "fs_ok d" and dM: "lookup d M = Some Dir" and dU: "lookup d U = Some Dir" and ap: "\<not> prefix M U" "\<not> prefix U M"
    and rM: "prefix r M" using W by (simp_all add: ws_dirs_def)
  have U: "\<forall>w \<in> set U. plain_word w" by (rule fs_ok_plain [OF ok dU])
  have clr: "clear d U" by (rule clear_dir [OF ok dU])
  have rU: "prefix r U" using rO by (simp add: strict_prefix_def)
  obtain d1 where d1: "safeRemoveAll env (abs_path r) (abs_path U) d = (Inr (), d1)" "fs_ok d1"
    "\<And>q. lookup d1 q = (if prefix U q then None else lookup d q)"
    by (rule safeRemoveAll_clear [OF ok clr U rO, of env]) blast
  have "clear d1 U" using clr d1(3) by (simp add: clear_def)
  then obtain d2 where d2: "MkdirAll (abs_path U) d1 = (Inr (), d2)" "fs_ok d2"
    "\<And>q. lookup d2 q = (if prefix q U then Some Dir else lookup d1 q)"
    using MkdirAll_clear [of d1 "abs_path U"] d1(2) U unfolding elems_abs_path [OF U] by metis
  have at2: "lookup d2 q = (if strict_prefix U q then None else lookup d q)" for q
  proof (cases "prefix q U")
    case True
    then have "lookup d q = Some Dir" using fs_ok_prefix [OF ok dU, of q] dU by (metis strict_prefixI)
    then show ?thesis using True d2(3) by (auto simp: strict_prefix_def dest: prefix_order.antisym)
  next
    case False
    then show ?thesis using d2(3) d1(3) by (auto simp: strict_prefix_def)
  qed
  show ?thesis
  proof (rule that [of d2])
    show "bindE (EnsureUnder env (abs_path r) (abs_path U)) (\<lambda>_. bindE (safeRemoveAll env (abs_path r) (abs_path U)) (\<lambda>_.
      bindE (MkdirAll (abs_path U)) (\<lambda>_. f))) d = f d2" for f :: "fs \<Rightarrow> 'b result \<times> fs"
      by (simp add: bindE_def EnsureUnder_clear [OF ok clr U rU] d1(1) d2(1))
    show "copy_ready d2 M U" using at2 d2(2) dM dU ap by (auto simp: copy_ready_def strict_prefix_def)
    show "only_in U d d2" using at2 d2(2) by (simp add: only_in_def)
  qed (rule at2)
qed


text \<open>What the manifest of a commit says, given the list of files.\<close>

definition manifest_text :: "wenv \<Rightarrow> clock \<Rightarrow> string \<Rightarrow> Workspace \<Rightarrow> string list \<Rightarrow> string" where
  "manifest_text env clk a ws files = we_json env \<lparr>cm_AgentID = a, cm_Mode = ws_Mode ws,
     cm_EvidenceMode = ws_EvidenceMode ws, cm_Files = files, cm_CommittedAt = rfc3339 (clk 0)\<rparr> @ [CHR 10]"

lemma plain_manifest_name: "plain_word manifest_name"
  by (simp add: plain_word_def)

lemma commit_disk_rest:
  assumes W: "ws_dirs d r M U" and rO: "strict_prefix r U" and "ws_MergedDir ws = abs_path M" "ws_OutputDir ws = abs_path U"
    and "ws_Mode ws \<noteq> ModeOverlayFS"
  obtains d2 where "copy_ready d2 M U" and "\<And>q. lookup d2 q = (if strict_prefix U q then None else lookup d q)"
    and "commit_disk env clk (abs_path r) a ws d = bindE (copyTree env (abs_path r) (abs_path M) (abs_path U)) (\<lambda>_.
      bindE (\<lambda>d. (listFiles (abs_path U) d, d)) (\<lambda>files. WriteFile (abs_path (U @ [manifest_name])) (manifest_text env clk a ws files))) d2"
proof -
  have U: "\<forall>w \<in> set U. plain_word w" using W fs_ok_plain unfolding ws_dirs_def by blast
  obtain d2 where "copy_ready d2 M U" "\<And>q. lookup d2 q = (if strict_prefix U q then None else lookup d q)"
    and c: "\<And>f. bindE (EnsureUnder env (abs_path r) (abs_path U)) (\<lambda>_. bindE (safeRemoveAll env (abs_path r) (abs_path U)) (\<lambda>_.
      bindE (MkdirAll (abs_path U)) (\<lambda>_. f :: fs \<Rightarrow> unit result \<times> fs))) d = f d2"
    by (rule commit_start [OF W rO, of env]) blast
  then show ?thesis using assms(5)
    by (intro that [of d2]) (simp_all add: commit_disk_def assms(3,4) c Join_abs_word [OF U plain_manifest_name] flip: manifest_text_def)
qed


lemma commit_disk_no_link:
  assumes W: "ws_dirs d r M U" and rO: "strict_prefix r U" and "ws_MergedDir ws = abs_path M" "ws_OutputDir ws = abs_path U"
    and "ws_Mode ws \<noteq> ModeOverlayFS" and nl: "no_link d M"
  obtains files d3 where "sorted files" and "set files = {join_on sep x | x c. lookup d (M @ x) = Some (File c)}"
    and "fs_ok d3" and "\<And>q. lookup d3 q = (if prefix U q then lookup d (M @ drop (length U) q) else lookup d q)"
    and "commit_disk env clk (abs_path r) a ws d = WriteFile (abs_path (U @ [manifest_name])) (manifest_text env clk a ws files) d3"
proof -
  obtain d2 where rdy: "copy_ready d2 M U" and at2: "\<And>q. lookup d2 q = (if strict_prefix U q then None else lookup d q)"
    and run: "commit_disk env clk (abs_path r) a ws d = bindE (copyTree env (abs_path r) (abs_path M) (abs_path U)) (\<lambda>_.
      bindE (\<lambda>d. (listFiles (abs_path U) d, d)) (\<lambda>files. WriteFile (abs_path (U @ [manifest_name])) (manifest_text env clk a ws files))) d2"
    by (rule commit_disk_rest [OF assms(1-5), of env clk a]) blast
  have pre: "prefix r M" "prefix r U" using W rO by (simp_all add: ws_dirs_def strict_prefix_def)
  have off: "lookup d2 (M @ x) = lookup d (M @ x)" for x
    using at2 apart [OF copy_readyD(4,5) [OF rdy]] by (simp add: strict_prefix_def)
  have "no_link d2 M" using nl off unfolding no_link_def by (metis prefix_def)
  then obtain d3 where d3: "copyTree env (abs_path r) (abs_path M) (abs_path U) d2 = (Inr (), d3)" "fs_ok d3"
    "\<And>q. lookup d3 q = (if prefix U q then lookup d2 (M @ drop (length U) q) else lookup d2 q)"
    using copyTree_clear [OF rdy pre] by metis
  have at3: "lookup d3 q = (if prefix U q then lookup d (M @ drop (length U) q) else lookup d q)" for q
    unfolding d3(3) off by (simp add: at2 strict_prefix_def)
  have nl3: "no_link d3 U" using nl unfolding no_link_def at3 by simp
  have dU3: "lookup d3 U = Some Dir" using off [of "[]"] copy_readyD(2) [OF rdy] unfolding at3 by simp
  obtain files where f: "listFiles (abs_path U) d3 = Inr files" "sorted files"
    "set files = {join_on sep x | x c. lookup d3 (U @ x) = Some (File c)}"
    by (rule listFiles_real [OF d3(2) dU3 nl3])
  have eq: "lookup d3 (U @ x) = lookup d (M @ x)" for x unfolding at3 by simp
  have "commit_disk env clk (abs_path r) a ws d
      = WriteFile (abs_path (U @ [manifest_name])) (manifest_text env clk a ws files) d3"
    unfolding run by (simp add: bindE_def d3(1) f(1))
  then show ?thesis using that [OF f(2) _ d3(2) at3] f(3) [unfolded eq] by blast
qed

lemma commit_disk_total:
  assumes "ws_dirs d r M U" and "strict_prefix r U" and "ws_MergedDir ws = abs_path M" "ws_OutputDir ws = abs_path U"
    and "ws_Mode ws \<noteq> ModeOverlayFS" and nl: "no_link d M" and cm: "lookup d (M @ [manifest_name]) \<noteq> Some Dir"
  obtains files d' where "commit_disk env clk (abs_path r) a ws d = (Inr (), d')" and "fs_ok d'" and "sorted files"
    and "set files = {join_on sep x | x c. lookup d (M @ x) = Some (File c)}"
    and "\<And>q. lookup d' q = (if q = U @ [manifest_name] then Some (File (manifest_text env clk a ws files))
          else if prefix U q then lookup d (M @ drop (length U) q) else lookup d q)"
proof -
  obtain files d3 where f: "sorted files" "set files = {join_on sep x | x c. lookup d (M @ x) = Some (File c)}"
    and d3: "fs_ok d3" "\<And>q. lookup d3 q = (if prefix U q then lookup d (M @ drop (length U) q) else lookup d q)"
    and run: "commit_disk env clk (abs_path r) a ws d = WriteFile (abs_path (U @ [manifest_name])) (manifest_text env clk a ws files) d3"
    by (rule commit_disk_no_link [OF assms(1-6), of env clk a]) blast
  have dU: "lookup d3 U = Some Dir" using d3(2) [of U] assms(1) by (simp add: ws_dirs_def)
  have U: "\<forall>w \<in> set U. plain_word w" by (rule fs_ok_plain [OF d3(1) dU])
  then have pl: "\<forall>w \<in> set (U @ [manifest_name]). plain_word w" using plain_manifest_name by simp
  have "lookup d3 (U @ [manifest_name]) \<noteq> Some (Link l)" for l
    using d3(2) nl by (simp add: no_link_def)
  then have "lookup d3 (U @ [manifest_name]) = None \<or> (\<exists>c. lookup d3 (U @ [manifest_name]) = Some (File c))"
    using d3(2) cm by (metis append_eq_conv_conj node.exhaust option.exhaust prefixI)
  then obtain d' where "WriteFile (abs_path (U @ [manifest_name])) (manifest_text env clk a ws files) d3 = (Inr (), d')" "fs_ok d'"
    "\<And>q. lookup d' q = (if q = U @ [manifest_name] then Some (File (manifest_text env clk a ws files)) else lookup d3 q)"
    using WriteFile_clear [of d3 "abs_path (U @ [manifest_name])" "manifest_text env clk a ws files"] d3(1) dU pl
    unfolding elems_abs_path [OF pl] by auto
  with run f d3(2) show ?thesis by (intro that [of d' files]) simp_all
qed

lemma commit_disk_state:
  assumes "ws_dirs d r M U" and "strict_prefix r U" and "ws_MergedDir ws = abs_path M" "ws_OutputDir ws = abs_path U"
    and "ws_Mode ws \<noteq> ModeOverlayFS" and run: "commit_disk env clk (abs_path r) a ws d = (res, d')"
  shows "only_in U d d' \<and> (is_ok res \<longrightarrow> no_link d M \<and> lookup d (M @ [manifest_name]) \<noteq> Some Dir)
     \<and> (\<not> no_link d M \<longrightarrow> (\<forall>x. lookup d' (U @ x) = None \<or> lookup d' (U @ x) = lookup d (M @ x)))"
proof (cases "no_link d M")
  case True
  obtain files d3 where d3: "fs_ok d3" "\<And>q. lookup d3 q = (if prefix U q then lookup d (M @ drop (length U) q) else lookup d q)"
    and wr: "commit_disk env clk (abs_path r) a ws d = WriteFile (abs_path (U @ [manifest_name])) (manifest_text env clk a ws files) d3"
    by (rule commit_disk_no_link [OF assms(1-5) True, of env clk a]) blast
  have dM: "lookup d M = Some Dir" and dU: "lookup d U = Some Dir" using assms(1) by (simp_all add: ws_dirs_def)
  have "only_in U d d3" using d3 dM dU unfolding only_in_def strict_prefix_def by auto
  moreover have "only_in U d3 d' \<and> (is_ok res \<longrightarrow> lookup d (M @ [manifest_name]) \<noteq> Some Dir)"
  proof (cases "lookup d (M @ [manifest_name]) = Some Dir")
    case True
    have "lookup d3 U = Some Dir" "lookup d3 (U @ [manifest_name]) = Some Dir" using d3(2) True dM by simp_all
    then have "follow d3 (elems (abs_path (U @ [manifest_name]))) = Inr (U @ [manifest_name])"
      using fs_ok_plain [OF d3(1), of "U @ [manifest_name]" Dir] by (simp add: follow_real [OF d3(1)])
    then have "d' = d3 \<and> \<not> is_ok res" using run wr \<open>lookup d3 (U @ [manifest_name]) = Some Dir\<close> by (auto simp: WriteFile_def)
    then show ?thesis using d3(1) by (simp add: only_in_refl)
  next
    case False
    obtain files' d'' where "commit_disk env clk (abs_path r) a ws d = (Inr (), d'')" "fs_ok d''"
      "\<And>q. lookup d'' q = (if q = U @ [manifest_name] then Some (File (manifest_text env clk a ws files'))
          else if prefix U q then lookup d (M @ drop (length U) q) else lookup d q)"
      by (rule commit_disk_total [OF assms(1-5) True False, of env clk a]) blast
    then have "fs_ok d'" "\<And>q. q \<noteq> U @ [manifest_name] \<Longrightarrow> lookup d' q = lookup d3 q" using run d3(2) by simp_all
    moreover have "strict_prefix U (U @ [manifest_name])" by (simp add: strict_prefix_def)
    ultimately show ?thesis using False unfolding only_in_def by metis
  qed
  ultimately show ?thesis using True only_in_trans by blast
next
  case False
  obtain d2 where rdy: "copy_ready d2 M U" and at2: "\<And>q. lookup d2 q = (if strict_prefix U q then None else lookup d q)"
    and c: "commit_disk env clk (abs_path r) a ws d = bindE (copyTree env (abs_path r) (abs_path M) (abs_path U)) (\<lambda>_.
      bindE (\<lambda>d. (listFiles (abs_path U) d, d)) (\<lambda>files. WriteFile (abs_path (U @ [manifest_name])) (manifest_text env clk a ws files))) d2"
    by (rule commit_disk_rest [OF assms(1-5), of env clk a]) blast
  have pre: "prefix r M" "prefix r U" using assms(1,2) by (simp_all add: ws_dirs_def strict_prefix_def)
  have off: "lookup d2 (M @ x) = lookup d (M @ x)" for x
    using at2 apart [OF copy_readyD(4,5) [OF rdy]] by (simp add: strict_prefix_def)
  obtain r1 d3 where cp: "copyTree env (abs_path r) (abs_path M) (abs_path U) d2 = (r1, d3)" by fastforce
  have "\<not> no_link d2 M" using False off unfolding no_link_def by (metis prefix_def)
  then obtain e where "r1 = Inl e" using copyTree_no_link [OF rdy pre] cp by (cases r1) auto
  then have res: "res = Inl e" "d' = d3" using run c cp by (simp_all add: bindE_def)
  obtain R where R: "copied d2 M U R d'" using copyTree_copied [OF rdy pre cp] res(2) by blast
  have "only_in U d d2" using at2 copy_readyD(1) [OF rdy] by (simp add: only_in_def)
  then have "only_in U d d'" using copied_only_in [OF rdy R] only_in_trans by blast
  then show ?thesis using copied_part [OF rdy R] off res(1) by simp
qed

section \<open>A link in the working copy\<close>

lemma EnsureUnder_link:
  assumes ok: "fs_ok d" and t: "lookup d t = Some Dir" and w: "plain_word w" and l: "lookup d (t @ [w]) = Some (Link (abs_path p))"
    and p: "lookup d p = Some Dir" and rt: "prefix r t" and rp: "\<not> prefix r p"
  shows "\<exists>e. EnsureUnder env (abs_path r) (abs_path (t @ [w])) d = (Inl e, d)"
proof -
  have pt: "\<forall>w \<in> set t. plain_word w" and pp: "\<forall>w \<in> set p. plain_word w" using fs_ok_plain [OF ok] t p by blast+
  have ptw: "\<forall>x \<in> set (t @ [w]). plain_word x" using pt w by simp
  have pr: "\<forall>w \<in> set r. plain_word w" using pt rt by (auto simp: prefix_def)
  have clr: "clear d r" by (rule clear_prefix [OF clear_dir [OF ok t] rt])
  have dr: "lookup d r = Some Dir" using fs_ok_prefix [OF ok t, of r] t rt by (metis strict_prefixI)
  have wp: "walk n d [] p = Inr p" for n
    using walk_clear [of p d "[]" n] clear_dir [OF ok p] ok pp fs_ok_parent [OF ok p] by (simp add: clear_def)
  have walk_app: "walk n d base (us @ vs) = walk n d (base @ us) vs"
    if "\<And>q. prefix q us \<Longrightarrow> lookup d (base @ q) = Some Dir" "\<forall>w \<in> set us. plain_word w" for n base us vs
    using that
  proof (induction us arbitrary: base)
    case (Cons u us)
    have "lookup d (base @ [u]) = Some Dir" using Cons.prems(1) [of "[u]"] by simp
    moreover have "u \<noteq> ''.''" "u \<noteq> ''..''" using Cons.prems(2) by (simp_all add: plain_word_def)
    moreover have "lookup d ((base @ [u]) @ q) = Some Dir" if "prefix q us" for q
      using Cons.prems(1) [of "u # q"] that by simp
    ultimately show ?case using Cons.IH [of "base @ [u]"] Cons.prems(2) by simp
  qed simp
  have up: "lookup d ([] @ q) = Some Dir" if "prefix q t" for q
    using fs_ok_prefix [OF ok t, of q] that t by (cases "q = t") (simp_all add: strict_prefix_def)
  have "walk 255 d [] (t @ [w]) = walk 255 d t [w]" using walk_app [OF up pt, of 255 "[w]"] by simp
  also have "\<dots> = walk 254 d [] (words (abs_path p))"
    using w l by (simp add: plain_word_def IsAbs_def abs_path_def HasPrefix_def)
  also have "\<dots> = Inr p" using wp pp by (simp add: words_abs_path)
  finally have ev: "EvalSymlinks d (abs_path (t @ [w])) = Some (abs_path p)"
    using p ptw by (simp add: EvalSymlinks_def)
  have root: "(case EvalSymlinks d (abs_path r) of Some x \<Rightarrow> x | None \<Rightarrow> abs_path r) = abs_path r"
    using EvalSymlinks_clear [OF clr ok pr] by simp
  have "\<not> isUnder (abs_path r) (abs_path p)" using isUnder_iff [OF pr pp] rp by simp
  then have "EnsureUnderRoot (we_cwd env) (EvalSymlinks d) (abs_path r) (abs_path (t @ [w])) \<noteq> Inr ()"
    unfolding EnsureUnderRoot_ok_iff Abs_Clean_abs_path [OF pr] Abs_Clean_abs_path [OF ptw] root ev by simp
  then show ?thesis unfolding EnsureUnder_def by (cases "EnsureUnderRoot (we_cwd env) (EvalSymlinks d) (abs_path r) (abs_path (t @ [w]))") auto
qed


text \<open>A link to a directory outside the root stops \<open>removeChildren\<close>, and stays.\<close>

lemma remove_children_link:
  assumes "fs_ok d" and "lookup d t = Some Dir" and "\<forall>x \<in> set names. plain_word x" and "distinct names" and "w \<in> set names"
    and l: "lookup d (t @ [w]) = Some (Link (abs_path p))" and "lookup d p = Some Dir" and rt: "prefix r t" and rp: "\<not> prefix r p"
  shows "\<exists>e d'. eachE (remove_child env (abs_path r) (abs_path t)) names d = (Inl e, d')
    \<and> lookup d' (t @ [w]) = Some (Link (abs_path p))"
  using assms(1-7)
proof (induction names arbitrary: d)
  case (Cons x names)
  have w: "plain_word w" using Cons.prems(3,5) by auto
  have t: "\<forall>w \<in> set t. plain_word w" by (rule fs_ok_plain [OF Cons.prems(1,2)])
  show ?case
  proof (cases "x = w")
    case True
    obtain e where "EnsureUnder env (abs_path r) (abs_path (t @ [w])) d = (Inl e, d)"
      using EnsureUnder_link [OF Cons.prems(1,2) w Cons.prems(6,7) rt rp] by blast
    then have "remove_child env (abs_path r) (abs_path t) w d = (Inl e, d)"
      by (simp add: remove_child_def Let_def Join_abs_word [OF t w] bindE_def)
    then show ?thesis using True Cons.prems(6) by simp
  next
    case False
    have px: "plain_word x" using Cons.prems(3) by simp
    show ?thesis
    proof (cases rule: remove_child_cases [OF Cons.prems(1,2) px, of env "abs_path r", case_names fail ok])
      case (fail e)
      then show ?thesis using Cons.prems(6) by simp
    next
      case (ok d1)
      have "\<not> prefix (t @ [x]) t" by simp
      then have "lookup d1 t = Some Dir" using ok(3) Cons.prems(2) by simp
      moreover have "lookup d1 (t @ [w]) = Some (Link (abs_path p))" using ok(3) False Cons.prems(6) by simp
      moreover have "\<not> prefix (t @ [x]) p" using rt rp by (meson append_prefixD prefix_order.trans)
      then have "lookup d1 p = Some Dir" using ok(3) Cons.prems(7) by simp
      ultimately show ?thesis using Cons.IH [OF ok(2)] Cons.prems(3-5) False ok(1) by simp
    qed
  qed
qed simp

lemma removeChildren_link:
  assumes ok: "fs_ok d" and t: "lookup d t = Some Dir" and l: "lookup d (t @ [w]) = Some (Link (abs_path p))"
    and p: "lookup d p = Some Dir" and rt: "prefix r t" and rp: "\<not> prefix r p"
  shows "\<exists>e d'. removeChildren env (abs_path r) (abs_path t) d = (Inl e, d')
    \<and> lookup d' (t @ [w]) = Some (Link (abs_path p))"
proof -
  have pt: "\<forall>w \<in> set t. plain_word w" by (rule fs_ok_plain [OF ok t])
  have rd: "ReadDir (abs_path t) d = Inr (names_in d t)" using ReadDir_real [of d "abs_path t"] ok t pt by simp
  have names: "w \<in> set (names_in d t) \<longleftrightarrow> lookup d (t @ [w]) \<noteq> None" for w using set_names_in [OF ok] by simp
  have plain: "\<forall>w \<in> set (names_in d t). plain_word w" using names fs_ok_plain [OF ok] by fastforce
  have "w \<in> set (names_in d t)" using names l by simp
  then obtain e d' where "eachE (remove_child env (abs_path r) (abs_path t)) (names_in d t) d = (Inl e, d')"
    "lookup d' (t @ [w]) = Some (Link (abs_path p))"
    using remove_children_link [OF ok t plain distinct_names_in [OF ok] _ l p rt rp] by blast
  then show ?thesis
    using EnsureUnder_clear [OF ok clear_dir [OF ok t] pt rt] by (simp add: removeChildren_def bindE_def rd)
qed


end
