(* ===== verification/WorkspaceIsolation.thy ===== *)
theory WorkspaceIsolation
  imports WorkspaceFrame
begin

text \<open>
  Several agents on one workspace manager in degraded-copy mode: their operations and their tools as
  a step relation, its invariant, and what no step of another agent can change.
\<close>

section \<open>The workspaces of several agents\<close>

text \<open>The directory of an agent, and the shape of its workspace while it is registered.\<close>

definition ws_home :: "string list \<Rightarrow> string \<Rightarrow> string list" where
  "ws_home r a = r @ [workspace_safeName a]"

definition ws_shape :: "fs \<Rightarrow> string list \<Rightarrow> string \<Rightarrow> Workspace \<Rightarrow> bool" where
  "ws_shape d r a ws \<longleftrightarrow> ws_Mode ws \<noteq> ModeOverlayFS \<and> no_link d (ws_home r a @ [''lower''])
     \<and> ws_dirs d r (ws_home r a @ [''lower'']) (ws_home r a @ [''merged'']) \<and> lookup d (ws_home r a @ [''output'']) = Some Dir
     \<and> ws_LowerDir ws = abs_path (ws_home r a @ [''lower'']) \<and> ws_MergedDir ws = abs_path (ws_home r a @ [''merged''])
     \<and> ws_OutputDir ws = abs_path (ws_home r a @ [''output'']) \<and> ws_RuntimeRoot ws = abs_path (ws_home r a)"

lemma ws_shapeD:
  assumes "ws_shape d r a ws"
  shows "ws_Mode ws \<noteq> ModeOverlayFS" "no_link d (ws_home r a @ [''lower''])"
    "ws_dirs d r (ws_home r a @ [''lower'']) (ws_home r a @ [''merged''])" "lookup d (ws_home r a @ [''output'']) = Some Dir"
    "ws_LowerDir ws = abs_path (ws_home r a @ [''lower''])" "ws_MergedDir ws = abs_path (ws_home r a @ [''merged''])"
    "ws_OutputDir ws = abs_path (ws_home r a @ [''output''])" "ws_RuntimeRoot ws = abs_path (ws_home r a)"
    "ws_dirs d r (ws_home r a @ [''merged'']) (ws_home r a @ [''output''])" "strict_prefix r (ws_home r a @ [''output''])"
    "fs_ok d" "lookup d (ws_home r a @ [''merged'']) = Some Dir" "prefix r (ws_home r a @ [''merged''])"
  using assms by (auto simp: ws_shape_def ws_dirs_def ws_home_def strict_prefix_def)

text \<open>
  The agents \<open>A\<close> have directories of their own. \<open>ws_inv\<close>: the root is where it was, the directories of
  the agents are directories or absent, and a registered workspace has its shape.
\<close>

definition ws_agents :: "string list \<Rightarrow> string set \<Rightarrow> bool" where
  "ws_agents r A \<longleftrightarrow> (\<forall>w \<in> set r. plain_word w) \<and> inj_on workspace_safeName A
     \<and> (\<forall>a \<in> A. a \<noteq> [] \<and> plain_word (workspace_safeName a))"

definition ws_inv :: "wenv \<Rightarrow> string list \<Rightarrow> string set \<Rightarrow> WManager \<Rightarrow> bool" where
  "ws_inv env r A m \<longleftrightarrow> fs_ok (wsm_disk m) \<and> wsm_root m = abs_path r
     \<and> overlayUnavailableReason env (wsm_ForceDegraded m) \<noteq> [] \<and> range_order default_lower (we_lower_order env)
     \<and> (\<forall>a \<in> A. clear (wsm_disk m) (ws_home r a))
     \<and> (\<forall>a \<in> A. \<forall>ws. wsm_workspaces m a = Some ws \<longrightarrow> ws_shape (wsm_disk m) r a ws)"

text \<open>How an agent uses its workspace; a tool changes the working copy in any way. And all it can do.\<close>

inductive ws_use :: "wenv \<Rightarrow> string \<Rightarrow> WManager \<Rightarrow> WManager \<Rightarrow> bool" for env :: wenv and a :: string and m :: WManager where
  use_commit: "ws_use env a m (snd (wsm_Commit env clk a m))"
| use_rollback: "ws_use env a m (snd (wsm_Rollback env clk a m))"
| use_tool: "wsm_workspaces m a = Some ws \<Longrightarrow> only_in (elems (ws_MergedDir ws)) (wsm_disk m) d
    \<Longrightarrow> ws_use env a m (m\<lparr>wsm_disk := d\<rparr>)"

inductive ws_act :: "wenv \<Rightarrow> string \<Rightarrow> WManager \<Rightarrow> WManager \<Rightarrow> bool" for env :: wenv and a :: string and m :: WManager where
  act_create: "ws_act env a m (snd (wsm_Create env clk a m))"
| act_use: "ws_use env a m m' \<Longrightarrow> ws_act env a m m'"
| act_destroy: "ws_act env a m (snd (wsm_Destroy env clk a m))"

inductive_cases ws_useE: "ws_use env a m m'"
inductive_cases ws_actE: "ws_act env a m m'"

text \<open>What an act of an agent changes: its own directory, its own entry, and it may make the root.\<close>

definition ws_frame :: "string list \<Rightarrow> string \<Rightarrow> WManager \<Rightarrow> WManager \<Rightarrow> bool" where
  "ws_frame r a m m' \<longleftrightarrow> fs_ok (wsm_disk m') \<and> wsm_root m' = wsm_root m \<and> wsm_ForceDegraded m' = wsm_ForceDegraded m
     \<and> (\<forall>b. b \<noteq> a \<longrightarrow> wsm_workspaces m' b = wsm_workspaces m b)
     \<and> (\<forall>q. \<not> prefix (ws_home r a) q \<longrightarrow> \<not> prefix q r \<longrightarrow> lookup (wsm_disk m') q = lookup (wsm_disk m) q)
     \<and> (\<forall>q. prefix q r \<longrightarrow> lookup (wsm_disk m') q = lookup (wsm_disk m) q \<or> lookup (wsm_disk m') q = Some Dir)
     \<and> (lookup (wsm_disk m') (ws_home r a) \<in> {None, Some Dir})
     \<and> (\<forall>ws. wsm_workspaces m' a = Some ws \<longrightarrow> ws_shape (wsm_disk m') r a ws)"

lemma home_apart:
  assumes "ws_agents r A" and "a \<in> A" and "b \<in> A" and "a \<noteq> b"
  shows "\<not> prefix (ws_home r a) (ws_home r b @ x)"
proof -
  have "workspace_safeName a \<noteq> workspace_safeName b" using assms by (auto simp: ws_agents_def inj_on_def)
  then show ?thesis by (simp add: ws_home_def)
qed

lemma home_not_prefix: "\<not> prefix (ws_home r b @ x) r"
  by (simp add: ws_home_def)

lemma ws_shape_frame:
  assumes "ws_shape d r b ws" and "fs_ok d'" and "\<And>x. lookup d' (ws_home r b @ x) = lookup d (ws_home r b @ x)"
  shows "ws_shape d' r b ws"
proof -
  have "no_link d' (ws_home r b @ [''lower''])"
    using ws_shapeD(2) [OF assms(1)] assms(3) unfolding no_link_def by (metis append_assoc prefix_def)
  then show ?thesis using assms by (simp add: ws_shape_def ws_dirs_def)
qed

lemma ws_frame_inv:
  assumes A: "ws_agents r A" and inv: "ws_inv env r A m" and a: "a \<in> A" and f: "ws_frame r a m m'"
  shows "ws_inv env r A m'"
proof -
  have ok: "fs_ok (wsm_disk m')" and keep: "\<And>q. \<not> prefix (ws_home r a) q \<Longrightarrow> \<not> prefix q r \<Longrightarrow> lookup (wsm_disk m') q = lookup (wsm_disk m) q"
    and up: "\<And>q. prefix q r \<Longrightarrow> lookup (wsm_disk m') q = lookup (wsm_disk m) q \<or> lookup (wsm_disk m') q = Some Dir"
    and own: "lookup (wsm_disk m') (ws_home r a) \<in> {None, Some Dir}"
    and oth: "\<And>b. b \<noteq> a \<Longrightarrow> wsm_workspaces m' b = wsm_workspaces m b"
    and shp: "\<And>ws. wsm_workspaces m' a = Some ws \<Longrightarrow> ws_shape (wsm_disk m') r a ws"
    using f unfolding ws_frame_def by blast+
  have same: "lookup (wsm_disk m') (ws_home r b @ x) = lookup (wsm_disk m) (ws_home r b @ x)" if "b \<in> A" "b \<noteq> a" for b x
    by (rule keep [OF home_apart [OF A a that(1)] home_not_prefix]) (use that(2) in blast)
  have clr: "clear (wsm_disk m') (ws_home r b)" if b: "b \<in> A" for b
  proof -
    have old: "clear (wsm_disk m) (r @ [workspace_safeName b])" using inv b by (simp add: ws_inv_def ws_home_def)
    then have "clear (wsm_disk m') r" using up unfolding clear_snoc unfolding clear_def by metis
    moreover have "lookup (wsm_disk m') (ws_home r b) \<in> {None, Some Dir}"
      using own old same [OF b, of "[]"] by (cases "b = a") (auto simp: clear_snoc ws_home_def)
    ultimately show ?thesis by (auto simp: ws_home_def clear_snoc)
  qed
  have "ws_shape (wsm_disk m') r b ws" if "b \<in> A" "wsm_workspaces m' b = Some ws" for b ws
  proof (cases "b = a")
    case False
    then have "wsm_workspaces m b = Some ws" using oth that(2) by simp
    then have "ws_shape (wsm_disk m) r b ws" using inv that(1) by (simp add: ws_inv_def)
    then show ?thesis by (rule ws_shape_frame [OF _ ok same [OF that(1) False]])
  qed (use shp that in blast)
  moreover have "wsm_root m' = wsm_root m" "wsm_ForceDegraded m' = wsm_ForceDegraded m" using f by (simp_all add: ws_frame_def)
  ultimately show ?thesis using inv ok clr unfolding ws_inv_def by simp
qed

text \<open>An operation on the disk that stays inside a directory of a registered workspace.\<close>

lemma ws_frame_inside:
  assumes inv: "ws_inv env r A m" and a: "a \<in> A" and ws: "wsm_workspaces m a = Some ws"
    and x: "x = ''merged'' \<or> x = ''output''" and d: "only_in (ws_home r a @ [x]) (wsm_disk m) d"
    and m': "wsm_disk m' = d" "wsm_root m' = wsm_root m" "wsm_ForceDegraded m' = wsm_ForceDegraded m"
      "wsm_workspaces m' = wsm_workspaces m"
  shows "ws_frame r a m m'"
proof -
  have shp: "ws_shape (wsm_disk m) r a ws" using inv a ws by (simp add: ws_inv_def)
  have ok: "fs_ok d" and keep: "\<And>q. \<not> strict_prefix (ws_home r a @ [x]) q \<Longrightarrow> lookup d q = lookup (wsm_disk m) q"
    using d by (simp_all add: only_in_def)
  have out: "\<not> strict_prefix (ws_home r a @ [x]) q" if "\<not> prefix (ws_home r a) q" for q
    using that by (auto simp: strict_prefix_def dest: append_prefixD)
  have up: "\<not> strict_prefix (ws_home r a @ [x]) q" if "prefix q (ws_home r a)" for q
    using that by (auto simp: strict_prefix_def dest: prefix_order.trans)
  have "prefix q r \<Longrightarrow> prefix q (ws_home r a)" for q by (simp add: ws_home_def)
  moreover have "lookup (wsm_disk m) (ws_home r a) = Some Dir"
    using fs_ok_parent [OF ws_shapeD(11) [OF shp] ws_shapeD(12) [OF shp]] by simp
  moreover have "ws_shape d r a ws"
  proof -
    have low: "lookup d (ws_home r a @ ''lower'' # y) = lookup (wsm_disk m) (ws_home r a @ ''lower'' # y)" for y
      by (rule keep) (use x in \<open>auto simp: strict_prefix_def\<close>)
    have "lookup d (ws_home r a @ [y]) = lookup (wsm_disk m) (ws_home r a @ [y])" for y
      by (rule keep) (simp add: strict_prefix_def)
    moreover have "no_link d (ws_home r a @ [''lower''])"
      using ws_shapeD(2) [OF shp] low unfolding no_link_def prefix_def by auto
    ultimately show ?thesis using shp ok by (simp add: ws_shape_def ws_dirs_def)
  qed
  ultimately show ?thesis
    using ok keep [OF out] keep [OF up] ws unfolding ws_frame_def m' by simp
qed


lemma ws_home_dirs: "r @ [workspace_safeName a] = ws_home r a"
  by (simp add: ws_home_def)

lemma fresh_shape: "fresh_ws d r (ws_home r a) d' ws \<Longrightarrow> ws_shape d' r a ws"
  by (simp add: fresh_ws_def ws_shape_def ModeOverlayFS_def ws_ModeDegradedCopy_def)

lemma create_frame:
  assumes A: "ws_agents r A" and inv: "ws_inv env r A m" and a: "a \<in> A"
  shows "ws_frame r a m (snd (wsm_Create env clk a m))"
proof -
  have m: "fs_ok (wsm_disk m)" "wsm_root m = abs_path r" "\<forall>w \<in> set r. plain_word w" "a \<noteq> []" "plain_word (workspace_safeName a)"
    "clear (wsm_disk m) (r @ [workspace_safeName a])" "overlayUnavailableReason env (wsm_ForceDegraded m) \<noteq> []"
    using inv A a by (simp_all add: ws_inv_def ws_agents_def ws_home_def)
  have "seed_ok env (wsm_disk m) r (r @ [workspace_safeName a]) []" using inv by (simp add: seed_ok_def ws_inv_def)
  then obtain ws m1 where m1: "wsm_create env clk a [] m = (Inr ws, m1)" "fresh_ws (wsm_disk m) r (ws_home r a) (wsm_disk m1) ws"
    "wsm_workspaces m1 = (wsm_workspaces m)(a \<mapsto> ws)" "wsm_root m1 = wsm_root m"
    using wsm_create_clear [OF m, of "[]" clk] unfolding ws_home_dirs by metis
  have shp: "ws_shape (wsm_disk m1) r a ws" by (rule fresh_shape [OF m1(2)])
  have home: "lookup (wsm_disk m1) (ws_home r a) = Some Dir"
    using fs_ok_parent [OF ws_shapeD(11) [OF shp] ws_shapeD(12) [OF shp]] by simp
  have out: "\<not> prefix (ws_home r a) q \<Longrightarrow> lookup (wsm_disk m1) q
      = (if prefix q (ws_home r a) \<or> prefix q r then Some Dir else lookup (wsm_disk m) q)" for q
    using m1(2) by (simp add: fresh_ws_def)
  have up: "prefix q (ws_home r a) \<longleftrightarrow> prefix q r" if "\<not> prefix (ws_home r a) q" for q
    using that unfolding ws_home_def by auto
  have down: "\<not> prefix (ws_home r a) q" if "prefix q r" for q
    using that home_not_prefix [of r a "[]"] prefix_order.trans by auto
  have "wsm_ForceDegraded m1 = wsm_ForceDegraded m" using m1(1)
    by (auto simp: wsm_create_def bindE_def on_disk_def returnE_def failE_def Let_def wsm_publish_def setWorkspace_def
        split: prod.splits sum.splits if_splits)
  then show ?thesis
    using m1 shp out up down home ws_shapeD(11) [OF shp] unfolding ws_frame_def wsm_Create_def by auto
qed

lemma ws_frame_refl:
  assumes "ws_inv env r A m" and "a \<in> A"
  shows "ws_frame r a m m"
proof -
  have "clear (wsm_disk m) (ws_home r a)" using assms by (simp add: ws_inv_def)
  then have "lookup (wsm_disk m) (ws_home r a) \<in> {None, Some Dir}" by (simp add: clear_def)
  with assms show ?thesis by (auto simp: ws_frame_def ws_inv_def)
qed

lemma commit_frame:
  assumes A: "ws_agents r A" and inv: "ws_inv env r A m" and a: "a \<in> A"
  shows "ws_frame r a m (snd (wsm_Commit env clk a m))"
proof (cases "wsm_workspaces m a")
  case None
  then show ?thesis using ws_frame_refl [OF inv a] by (simp add: wsm_Commit_def wsm_workspace_def)
next
  case (Some ws)
  have shp: "ws_shape (wsm_disk m) r a ws" and root: "wsm_root m = abs_path r" using inv a Some by (simp_all add: ws_inv_def)
  obtain res d where run: "commit_disk env clk (abs_path r) a ws (wsm_disk m) = (res, d)" by fastforce
  have "only_in (ws_home r a @ [''output'']) (wsm_disk m) d"
    using commit_disk_state [OF ws_shapeD(9) [OF shp] ws_shapeD(10) [OF shp] ws_shapeD(6) [OF shp] ws_shapeD(7) [OF shp]
        ws_shapeD(1) [OF shp] run] by blast
  then show ?thesis
    by (rule ws_frame_inside [OF inv a Some disjI2 [OF refl]])
      (auto simp: wsm_Commit_def wsm_workspace_def Some bindE_def on_disk_def root run returnE_def wsm_publish_def split: sum.splits)
qed

lemma rollback_copy_state:
  assumes W: "ws_dirs d r s t" and nl: "no_link d s" and "ws_LowerDir ws = abs_path s" "ws_MergedDir ws = abs_path t"
    and run: "rollback_copy env (abs_path r) ws d = (res, d')"
  shows "only_in t d d'"
proof -
  have dt: "fs_ok d" "lookup d t = Some Dir" and pre: "prefix r s" "prefix r t"
    using W by (simp_all add: ws_dirs_def)
  obtain r1 d1 where rem: "removeChildren env (abs_path r) (abs_path t) d = (r1, d1)" by fastforce
  have d1: "only_in t d d1" by (rule removeChildren_state [OF rem dt])
  show ?thesis
  proof (cases r1)
    case (Inl e)
    with run rem d1 show ?thesis by (simp add: rollback_copy_def assms(3,4) bindE_def)
  next
    case (Inr n)
    have "copy_ready d1 s t" by (rule ws_dirs_emptied [OF W]) (use removeChildren_run [OF rem [unfolded Inr] dt] in auto)
    moreover obtain r2 d2 where cp: "copyTree env (abs_path r) (abs_path s) (abs_path t) d1 = (r2, d2)" by fastforce
    ultimately have "only_in t d1 d2" using copyTree_state [OF _ pre cp] by blast
    moreover have "d' = d2" using run cp rem Inr by (auto simp: rollback_copy_def assms(3,4) bindE_def returnE_def split: sum.splits)
    ultimately show ?thesis using only_in_trans [OF d1] by blast
  qed
qed

lemma rollback_frame:
  assumes A: "ws_agents r A" and inv: "ws_inv env r A m" and a: "a \<in> A"
  shows "ws_frame r a m (snd (wsm_Rollback env clk a m))"
proof (cases "wsm_workspaces m a")
  case None
  then show ?thesis using ws_frame_refl [OF inv a] by (simp add: wsm_Rollback_def wsm_workspace_def)
next
  case (Some ws)
  have shp: "ws_shape (wsm_disk m) r a ws" and root: "wsm_root m = abs_path r" using inv a Some by (simp_all add: ws_inv_def)
  obtain res d where run: "rollback_copy env (abs_path r) ws (wsm_disk m) = (res, d)" by fastforce
  have "only_in (ws_home r a @ [''merged'']) (wsm_disk m) d"
    by (rule rollback_copy_state [OF ws_shapeD(3) [OF shp] ws_shapeD(2) [OF shp] ws_shapeD(5) [OF shp] ws_shapeD(6) [OF shp] run])
  then show ?thesis
    by (rule ws_frame_inside [OF inv a Some disjI1 [OF refl]])
      (auto simp: wsm_Rollback_copy [OF Some ws_shapeD(1) [OF shp]] bindE_def on_disk_def root run rollback_finish_def
        Let_def wsm_publish_def split: sum.splits)
qed


lemma tool_frame:
  assumes inv: "ws_inv env r A m" and a: "a \<in> A" and ws: "wsm_workspaces m a = Some ws"
    and d: "only_in (elems (ws_MergedDir ws)) (wsm_disk m) d"
  shows "ws_frame r a m (m\<lparr>wsm_disk := d\<rparr>)"
proof -
  have shp: "ws_shape (wsm_disk m) r a ws" using inv a ws by (simp add: ws_inv_def)
  have "elems (ws_MergedDir ws) = ws_home r a @ [''merged'']"
    unfolding ws_shapeD(6) [OF shp] by (rule elems_abs_path [OF fs_ok_plain [OF ws_shapeD(11) [OF shp] ws_shapeD(12) [OF shp]]])
  then show ?thesis using d by (intro ws_frame_inside [OF inv a ws disjI1 [OF refl]]) simp_all
qed

lemma destroy_frame:
  assumes A: "ws_agents r A" and inv: "ws_inv env r A m" and a: "a \<in> A"
  shows "ws_frame r a m (snd (wsm_Destroy env clk a m))"
proof (cases "wsm_workspaces m a")
  case None
  then show ?thesis using ws_frame_refl [OF inv a] by (simp add: wsm_Destroy_def wsm_workspace_def)
next
  case (Some ws)
  have shp: "ws_shape (wsm_disk m) r a ws" and root: "wsm_root m = abs_path r" and ok: "fs_ok (wsm_disk m)"
    and clr: "clear (wsm_disk m) (ws_home r a)" using inv a Some by (simp_all add: ws_inv_def)
  have plain: "\<forall>w \<in> set (ws_home r a). plain_word w" using A a by (simp add: ws_agents_def ws_home_def)
  have "strict_prefix r (ws_home r a)" by (simp add: ws_home_def strict_prefix_def)
  then obtain d where d: "safeRemoveAll env (abs_path r) (abs_path (ws_home r a)) (wsm_disk m) = (Inr (), d)" "fs_ok d"
    "\<And>q. lookup d q = (if prefix (ws_home r a) q then None else lookup (wsm_disk m) q)"
    by (rule safeRemoveAll_clear [OF ok clr plain, of r env]) blast
  have "wsm_disk (snd (wsm_Destroy env clk a m)) = d" "wsm_root (snd (wsm_Destroy env clk a m)) = wsm_root m"
    "wsm_ForceDegraded (snd (wsm_Destroy env clk a m)) = wsm_ForceDegraded m"
    "wsm_workspaces (snd (wsm_Destroy env clk a m)) = (wsm_workspaces m)(a := None)"
    using ws_shapeD(1) [OF shp] d(1)
    by (simp_all add: wsm_Destroy_def wsm_workspace_def Some bindE_def on_disk_def root ws_shapeD(8) [OF shp] returnE_def wsm_publish_def Let_def)
  moreover have "prefix q r \<Longrightarrow> \<not> prefix (ws_home r a) q" for q
    using home_not_prefix [of r a "[]"] prefix_order.trans by auto
  ultimately show ?thesis using d(2,3) unfolding ws_frame_def by simp
qed

lemma use_frame: "ws_agents r A \<Longrightarrow> ws_inv env r A m \<Longrightarrow> a \<in> A \<Longrightarrow> ws_use env a m m' \<Longrightarrow> ws_frame r a m m'"
  by (elim ws_useE) (auto intro: commit_frame rollback_frame tool_frame)

lemma act_frame: "ws_agents r A \<Longrightarrow> ws_inv env r A m \<Longrightarrow> a \<in> A \<Longrightarrow> ws_act env a m m' \<Longrightarrow> ws_frame r a m m'"
  by (elim ws_actE) (auto intro: create_frame use_frame destroy_frame)

section \<open>Reachable managers\<close>

definition ws_start :: "wenv \<Rightarrow> string list \<Rightarrow> string set \<Rightarrow> WManager \<Rightarrow> bool" where
  "ws_start env r A m \<longleftrightarrow> ws_agents r A \<and> ws_inv env r A m \<and> wsm_workspaces m = Map.empty"

definition ws_step :: "wenv \<Rightarrow> string set \<Rightarrow> WManager \<Rightarrow> WManager \<Rightarrow> bool" where
  "ws_step env A m m' \<longleftrightarrow> (\<exists>a \<in> A. ws_act env a m m')"

interpretation workspaces: invariant_system "ws_start env r A" "ws_step env A" "\<lambda>m. ws_agents r A \<and> ws_inv env r A m"
  for env r A
  by unfold_locales (auto simp: ws_start_def ws_step_def intro: ws_frame_inv act_frame)

text \<open>Steps of other agents.\<close>

lemma other_steps:
  assumes A: "ws_agents r A" and b: "b \<in> A"
  shows "(ws_step env (A - {b}))\<^sup>*\<^sup>* m m' \<Longrightarrow> ws_inv env r A m \<Longrightarrow> ws_inv env r A m' \<and> wsm_workspaces m' b = wsm_workspaces m b
    \<and> (\<forall>x. lookup (wsm_disk m') (ws_home r b @ x) = lookup (wsm_disk m) (ws_home r b @ x))"
proof (induction rule: rtranclp_induct)
  case (step m1 m2)
  obtain a where a: "a \<in> A" "a \<noteq> b" "ws_act env a m1 m2" using step.hyps(2) by (auto simp: ws_step_def)
  have inv1: "ws_inv env r A m1" using step by blast
  have f: "ws_frame r a m1 m2" by (rule act_frame [OF A inv1 a(1,3)])
  have "lookup (wsm_disk m2) (ws_home r b @ x) = lookup (wsm_disk m1) (ws_home r b @ x)" for x
    using f home_apart [OF A a(1) b a(2)] home_not_prefix unfolding ws_frame_def by blast
  moreover have "wsm_workspaces m2 b = wsm_workspaces m1 b" using f a(2) unfolding ws_frame_def by simp
  ultimately show ?case using step ws_frame_inv [OF A inv1 a(1) f] by simp
qed simp

text \<open>An agent that uses its workspace, and whatever the others do.\<close>

definition use_step :: "wenv \<Rightarrow> string set \<Rightarrow> string \<Rightarrow> WManager \<Rightarrow> WManager \<Rightarrow> bool" where
  "use_step env A a m m' \<longleftrightarrow> ws_use env a m m' \<or> ws_step env (A - {a}) m m'"

lemma only_in_lower:
  assumes "only_in (ws_home r a @ [x]) d d'" and "x \<noteq> ''lower''"
  shows "lookup d' (ws_home r a @ ''lower'' # y) = lookup d (ws_home r a @ ''lower'' # y)"
proof -
  have "\<not> strict_prefix (ws_home r a @ [x]) (ws_home r a @ ''lower'' # y)" using assms(2) by (simp add: strict_prefix_def)
  with assms(1) show ?thesis by (simp add: only_in_def)
qed

lemma use_lower:
  assumes inv: "ws_inv env r A m" and a: "a \<in> A" and ws: "wsm_workspaces m a = Some ws" and use: "ws_use env a m m'"
  shows "wsm_workspaces m' a = Some ws
    \<and> lookup (wsm_disk m') (ws_home r a @ ''lower'' # y) = lookup (wsm_disk m) (ws_home r a @ ''lower'' # y)"
proof -
  have shp: "ws_shape (wsm_disk m) r a ws" and root: "wsm_root m = abs_path r" using inv a ws by (simp_all add: ws_inv_def)
  from use show ?thesis
  proof (cases rule: ws_use.cases)
    case (use_commit clk)
    obtain res d where run: "commit_disk env clk (abs_path r) a ws (wsm_disk m) = (res, d)" by fastforce
    have "only_in (ws_home r a @ [''output'']) (wsm_disk m) d"
      using commit_disk_state [OF ws_shapeD(9) [OF shp] ws_shapeD(10) [OF shp] ws_shapeD(6) [OF shp] ws_shapeD(7) [OF shp]
          ws_shapeD(1) [OF shp] run] by blast
    then have "lookup d (ws_home r a @ ''lower'' # y) = lookup (wsm_disk m) (ws_home r a @ ''lower'' # y)" by (rule only_in_lower) simp
    then show ?thesis unfolding use_commit
      by (auto simp: wsm_Commit_def wsm_workspace_def ws bindE_def on_disk_def root run returnE_def wsm_publish_def split: sum.splits)
  next
    case (use_rollback clk)
    obtain res d where run: "rollback_copy env (abs_path r) ws (wsm_disk m) = (res, d)" by fastforce
    have "only_in (ws_home r a @ [''merged'']) (wsm_disk m) d"
      by (rule rollback_copy_state [OF ws_shapeD(3) [OF shp] ws_shapeD(2) [OF shp] ws_shapeD(5) [OF shp] ws_shapeD(6) [OF shp] run])
    then have "lookup d (ws_home r a @ ''lower'' # y) = lookup (wsm_disk m) (ws_home r a @ ''lower'' # y)" by (rule only_in_lower) simp
    then show ?thesis unfolding use_rollback
      by (auto simp: wsm_Rollback_copy [OF ws ws_shapeD(1) [OF shp]] bindE_def on_disk_def root run rollback_finish_def
          Let_def wsm_publish_def ws split: sum.splits)
  next
    case (use_tool ws' d)
    have "elems (ws_MergedDir ws) = ws_home r a @ [''merged'']"
      unfolding ws_shapeD(6) [OF shp] by (rule elems_abs_path [OF fs_ok_plain [OF ws_shapeD(11) [OF shp] ws_shapeD(12) [OF shp]]])
    then have "only_in (ws_home r a @ [''merged'']) (wsm_disk m) d" using use_tool ws by simp
    then have "lookup d (ws_home r a @ ''lower'' # y) = lookup (wsm_disk m) (ws_home r a @ ''lower'' # y)" by (rule only_in_lower) simp
    then show ?thesis unfolding use_tool(1) using ws by simp
  qed
qed

lemma use_steps_lower:
  assumes A: "ws_agents r A" and a: "a \<in> A" and ws: "wsm_workspaces m a = Some ws"
  shows "(use_step env A a)\<^sup>*\<^sup>* m m' \<Longrightarrow> ws_inv env r A m \<Longrightarrow> ws_inv env r A m' \<and> wsm_workspaces m' a = Some ws
    \<and> (\<forall>y. lookup (wsm_disk m') (ws_home r a @ ''lower'' # y) = lookup (wsm_disk m) (ws_home r a @ ''lower'' # y))"
proof (induction rule: rtranclp_induct)
  case base
  then show ?case using ws by simp
next
  case (step m1 m2)
  have inv1: "ws_inv env r A m1" and ws1: "wsm_workspaces m1 a = Some ws"
    and low: "\<And>y. lookup (wsm_disk m1) (ws_home r a @ ''lower'' # y) = lookup (wsm_disk m) (ws_home r a @ ''lower'' # y)"
    using step by blast+
  from step.hyps(2) show ?case unfolding use_step_def
  proof
    assume u: "ws_use env a m1 m2"
    have "ws_inv env r A m2" by (rule ws_frame_inv [OF A inv1 a use_frame [OF A inv1 a u]])
    then show ?thesis using use_lower [OF inv1 a ws1 u] low by simp
  next
    assume "ws_step env (A - {a}) m1 m2"
    then have "(ws_step env (A - {a}))\<^sup>*\<^sup>* m1 m2" by blast
    from other_steps [OF A a this inv1] show ?thesis using ws1 low by simp
  qed
qed

end
