(* ===== verification/WorkspaceContract.thy ===== *)
theory WorkspaceContract
  imports WorkspaceIsolation
begin

text \<open>
  What the workspace manager promises in degraded-copy mode: \<open>Create\<close> builds a working copy of the
  base, \<open>Rollback\<close> makes the working copy the base again, \<open>Commit\<close> copies it to the output, agents do
  not see each other's workspaces. And two places where a symbolic link in the working copy breaks it.
\<close>

section \<open>Rollback\<close>

text \<open>
  Rollback undoes a tool: let the working copy of a new workspace be changed in any way at
  all, outside nothing. When \<open>Rollback\<close> then reports no error, the whole file system is what it was
  right after \<open>Create\<close>; and it reports none when the tool left no symbolic link.
\<close>

theorem rollback_restores_workspace:
  assumes "fs_ok (wsm_disk m)" and "wsm_root m = abs_path r" and "\<forall>w \<in> set r. plain_word w"
    and "a \<noteq> []" and "plain_word (workspace_safeName a)" and "clear (wsm_disk m) (r @ [workspace_safeName a])"
    and "overlayUnavailableReason env (wsm_ForceDegraded m) \<noteq> []"
    and "range_order default_lower (we_lower_order env)"
    and "wsm_Create env clk1 a m = (res1, m1)" and "merged = r @ [workspace_safeName a, ''merged'']"
    and "fs_ok d" and "\<forall>q. \<not> strict_prefix merged q \<longrightarrow> lookup d q = lookup (wsm_disk m1) q"
    and "wsm_Rollback env clk2 a (m1\<lparr>wsm_disk := d\<rparr>) = (res, m2)"
  shows "is_ok res1 \<and> (is_ok res \<longrightarrow> lookup (wsm_disk m2) = lookup (wsm_disk m1)) \<and> (no_link d merged \<longrightarrow> is_ok res)"
proof -
  let ?R = "r @ [workspace_safeName a]"
  let ?L = "?R @ [''lower'']" and ?T = "?R @ [''merged'']"
  have T: "merged = ?T" by (simp add: assms(10))
  have "seed_ok env (wsm_disk m) r ?R []" using assms(8) by (simp add: seed_ok_def)
  then obtain ws where c: "res1 = Inr ws" and fresh: "fresh_ws (wsm_disk m) r ?R (wsm_disk m1) ws"
    and reg: "wsm_workspaces m1 a = Some ws" and root: "wsm_root m1 = abs_path r"
    using wsm_create_clear [OF assms(1-7), of "[]" clk1] assms(2,9) unfolding wsm_Create_def by (metis Pair_inject fun_upd_same)
  note dirs = fresh_ws_dirs [OF fresh]
  have W: "ws_dirs d r ?L ?T"
    using dirs(1) assms(11,12) unfolding T ws_dirs_def by (simp add: strict_prefix_def)
  have low: "lookup d (?L @ x) = lookup (wsm_disk m1) (?L @ x)" for x
    using assms(12) unfolding T by (simp add: strict_prefix_def)
  have nl: "no_link d ?L" using dirs(2) low unfolding no_link_def by (metis prefix_def)
  note run = assms(13) [unfolded wsm_Rollback_copy [of "m1\<lparr>wsm_disk := d\<rparr>" a ws, simplified, OF reg dirs(3)]]
  have restored: "lookup (wsm_disk m2) = lookup (wsm_disk m1)" if ok: "is_ok res"
  proof -
    obtain y where "res = Inr y" using ok by (auto simp: is_ok_iff)
    then obtain n d' where rb: "rollback_copy env (abs_path r) ws d = (Inr n, d')" and m2: "wsm_disk m2 = d'"
      using run by (auto elim!: bindE_Inr simp: on_disk_def root split: prod.splits dest!: rollback_finish_disk)
    have "lookup d' q = lookup (wsm_disk m1) q" for q
    proof (cases "prefix ?T q")
      case True
      then obtain x where "q = ?T @ x" by (auto simp: prefix_def)
      then show ?thesis using rollback_copy_run [OF W dirs(4,5) rb] low fresh by (simp add: fresh_ws_def)
    next
      case False
      then show ?thesis using rollback_copy_run [OF W dirs(4,5) rb] assms(12) T by (auto simp: strict_prefix_def)
    qed
    then show ?thesis using m2 by auto
  qed
  have "is_ok res" if free: "no_link d merged"
  proof -
    obtain n d' where "rollback_copy env (abs_path r) ws d = (Inr n, d')"
      using rollback_copy_clear [OF W dirs(4,5) nl free [unfolded T]] by blast
    then show ?thesis using run by (auto simp: bindE_def on_disk_def root dest!: rollback_finish_disk)
  qed
  then show ?thesis using c restored by simp
qed


text \<open>A host without overlayfs, an empty disk, and the manager that the examples start from.\<close>

definition plain_env :: wenv where
  "plain_env = \<lparr>we_cwd = ''/'', we_tempdir = ''/tmp'', we_goos = ''linux'', we_euid = 1000,
     we_proc_filesystems = Inr [], we_mountinfo = (\<lambda>_. Inr []), we_run = (\<lambda>_ _ d. ((None, []), d)),
     we_lower_order = [''src/main.txt'', ''README.txt'', ''config/runtime.json''], we_text = (\<lambda>_. ''error''),
     we_json = (\<lambda>_. ''{}'')\<rparr>"

definition plain_manager :: "fs \<Rightarrow> WManager" where
  "plain_manager d = wsm_New plain_env ''/rt'' False True d"

lemma plain_manager_facts [simp]:
  "wsm_disk (plain_manager d) = d" "wsm_root (plain_manager d) = abs_path [''rt'']" "wsm_ForceDegraded (plain_manager d)"
  "wsm_workspaces (plain_manager d) = Map.empty" "overlayUnavailableReason plain_env True \<noteq> []"
  "range_order default_lower (we_lower_order plain_env)"
proof -
  show "range_order default_lower (we_lower_order plain_env)"
    unfolding range_order_def dom_default_lower by (auto simp: plain_env_def)
  have "Abs ''/'' (Clean ''/rt'') = abs_path [''rt'']"
    using Abs_Clean_abs_path [of "[''rt'']" "''/''"] by (simp add: abs_path_def plain_word_def)
  then show "wsm_root (plain_manager d) = abs_path [''rt'']" by (simp add: plain_manager_def wsm_New_def plain_env_def)
qed (simp_all add: plain_manager_def wsm_New_def overlayUnavailableReason_def)

text \<open>A tool leaves a file in the working copy; the rollback removes it.\<close>

definition rb_before :: WManager where
  "rb_before = snd (wsm_Create plain_env (\<lambda>_. at_ms 1) ''a'' (plain_manager []))"

definition rb_tool :: fs where
  "rb_tool = put (wsm_disk rb_before) [''rt'', ''a'', ''merged'', ''x''] (File ''1'')"

lemma rb_tool_ok: "fs_ok rb_tool"
  by code_simp

lemma rb_before_new: "lookup (wsm_disk rb_before) [''rt'', ''a'', ''merged'', ''x''] = None"
  by code_simp

lemma rb_rollback_ok: "is_ok (fst (wsm_Rollback plain_env (\<lambda>_. at_ms 2) ''a'' (rb_before\<lparr>wsm_disk := rb_tool\<rparr>)))"
  by code_simp

lemma rb_name: "workspace_safeName ''a'' = ''a''"
  by code_simp

lemmas rb_facts = rb_tool_ok rb_before_new rb_rollback_ok rb_name

lemma rb_elsewhere: "\<not> strict_prefix [''rt'', ''a'', ''merged''] q \<Longrightarrow> lookup rb_tool q = lookup (wsm_disk rb_before) q"
  by (auto simp: rb_tool_def)

lemma empty_disk: "fs_ok []" "clear [] p"
  by (simp_all add: fs_ok_def clear_def lookup_def)

lemma rollback_restores_workspace_witness:
  "lookup rb_tool [''rt'', ''a'', ''merged'', ''x''] = Some (File ''1'') \<and>
   lookup (wsm_disk (snd (wsm_Rollback plain_env (\<lambda>_. at_ms 2) ''a'' (rb_before\<lparr>wsm_disk := rb_tool\<rparr>))))
     [''rt'', ''a'', ''merged'', ''x''] = None"
proof -
  have "lookup (wsm_disk (snd (wsm_Rollback plain_env (\<lambda>_. at_ms 2) ''a'' (rb_before\<lparr>wsm_disk := rb_tool\<rparr>))))
      = lookup (wsm_disk rb_before)"
    using rollback_restores_workspace [of "plain_manager []" "[''rt'']" "''a''" plain_env "\<lambda>_. at_ms 1" _ rb_before
        "[''rt'', ''a'', ''merged'']" rb_tool "\<lambda>_. at_ms 2"] rb_facts rb_elsewhere empty_disk
    by (simp add: prod_eq_iff plain_word_def flip: rb_before_def)
  then show ?thesis using rb_facts(2) by (simp add: rb_tool_def)
qed

section \<open>Several agents\<close>

lemma reachable_shape:
  assumes "reachable (ws_start env r A) (ws_step env A) m" and "a \<in> A" and "wsm_workspaces m a = Some ws"
  shows "ws_agents r A" "ws_inv env r A m" "wsm_root m = abs_path r" "ws_shape (wsm_disk m) r a ws"
  using workspaces.reachable_inv [OF assms(1)] assms(2,3) by (simp_all add: ws_inv_def)




section \<open>Commit, links, snapshots\<close>


text \<open>
  A failed commit destroys the previous one: when the working copy holds a symbolic link, Commit
  reports an error, but it has already emptied the output: every file of an earlier commit that the working
  copy has no longer is gone.
\<close>

theorem failed_commit_loses_output:
  assumes "reachable (ws_start env r A) (ws_step env A) m" and "a \<in> A" and "wsm_workspaces m a = Some ws"
    and "home = r @ [workspace_safeName a]" and "wsm_Commit env clk a m = (res, m1)"
    and "lookup (wsm_disk m) (home @ ''merged'' # y) = Some (Link l)" and "lookup (wsm_disk m) (home @ ''merged'' # x) = None"
  shows "\<not> is_ok res \<and> lookup (wsm_disk m1) (home @ ''output'' # x) = None"
proof -
  note S = reachable_shape [OF assms(1-3)]
  have home: "home = ws_home r a" by (simp add: assms(4) ws_home_def)
  note W = ws_shapeD(9) [OF S(4)] ws_shapeD(10) [OF S(4)] ws_shapeD(6) [OF S(4)] ws_shapeD(7) [OF S(4)] ws_shapeD(1) [OF S(4)]
  obtain r1 d1 where run: "commit_disk env clk (abs_path r) a ws (wsm_disk m) = (r1, d1)" by fastforce
  have end_: "is_ok res = is_ok r1" "wsm_disk m1 = d1"
    using assms(5) by (auto simp: wsm_Commit_def wsm_workspace_def assms(3) bindE_def on_disk_def S(3) run returnE_def wsm_publish_def split: sum.splits)
  have "prefix (ws_home r a @ [''merged'']) (ws_home r a @ ''merged'' # y)" by simp
  then have "\<not> no_link (wsm_disk m) (ws_home r a @ [''merged''])" using assms(6) unfolding no_link_def home by blast
  with commit_disk_state [OF W run] assms(7) show ?thesis unfolding end_ home by auto
qed

text \<open>
  A link blocks the rollback for good: once a tool has left in the working copy a symbolic link to an
  existing directory outside the root, Rollback reports an error and the link stays, so every later Rollback
  fails as well, whatever the other agents do.
\<close>

theorem link_blocks_rollback:
  assumes "reachable (ws_start env r A) (ws_step env A) m" and "a \<in> A" and "wsm_workspaces m a = Some ws"
    and "link = r @ [workspace_safeName a, ''merged'', w]" and "lookup (wsm_disk m) link = Some (Link (abs_path p))"
    and "lookup (wsm_disk m) p = Some Dir" and "\<not> prefix r p" and "wsm_Rollback env clk a m = (res, m1)"
  shows "\<not> is_ok res \<and> lookup (wsm_disk m1) link = Some (Link (abs_path p))"
proof -
  note S = reachable_shape [OF assms(1-3)]
  have link: "link = (ws_home r a @ [''merged'']) @ [w]" by (simp add: assms(4) ws_home_def)
  obtain e d' where "removeChildren env (abs_path r) (abs_path (ws_home r a @ [''merged''])) (wsm_disk m) = (Inl e, d')"
    "lookup d' link = Some (Link (abs_path p))"
    using removeChildren_link [OF ws_shapeD(11) [OF S(4)] ws_shapeD(12) [OF S(4)] assms(5) [unfolded link] assms(6)
        ws_shapeD(13) [OF S(4)] assms(7), of env] unfolding link by blast
  then show ?thesis
    using assms(8) unfolding wsm_Rollback_copy [OF assms(3) ws_shapeD(1) [OF S(4)]]
    by (auto simp: bindE_def on_disk_def S(3) rollback_copy_def ws_shapeD(6) [OF S(4)])
qed


text \<open>
  The directory of the task snapshots is an agent's directory too: creating a workspace for an agent
  with the identifier \<open>tasks\<close> removes the snapshots of all tasks, while the manager still lists them.
\<close>

theorem tasks_agent_wipes_snapshots:
  assumes "ws_agents r A" and "ws_inv env r A m" and "''tasks'' \<in> A"
    and "wsm_Create env clk ''tasks'' m = (res, m1)" and "workspace_safeName t \<notin> {''lower'', ''upper'', ''work'', ''merged'', ''output'', ''evidence''}"
  shows "is_ok res \<and> (\<forall>x. lookup (wsm_disk m1) (r @ ''tasks'' # workspace_safeName t # x) = None) \<and> wsm_tasks m1 = wsm_tasks m"
proof -
  have name: "workspace_safeName ''tasks'' = ''tasks''" by code_simp
  have m: "fs_ok (wsm_disk m)" "wsm_root m = abs_path r" "\<forall>w \<in> set r. plain_word w" "''tasks'' \<noteq> []" "plain_word (workspace_safeName ''tasks'')"
    "clear (wsm_disk m) (r @ [workspace_safeName ''tasks''])" "overlayUnavailableReason env (wsm_ForceDegraded m) \<noteq> []"
    using assms(1-3) by (simp_all add: ws_inv_def ws_agents_def ws_home_def)
  have "seed_ok env (wsm_disk m) r (r @ [workspace_safeName ''tasks'']) []" using assms(2) by (simp add: seed_ok_def ws_inv_def)
  then obtain ws m2 where m2: "wsm_create env clk ''tasks'' [] m = (Inr ws, m2)"
    "fresh_ws (wsm_disk m) r (r @ [''tasks'']) (wsm_disk m2) ws"
    using wsm_create_clear [OF m, of "[]" clk] unfolding name by metis
  have "wsm_tasks m2 = wsm_tasks m" using m2(1)
    by (auto simp: wsm_create_def bindE_def on_disk_def returnE_def failE_def Let_def wsm_publish_def setWorkspace_def
        split: prod.splits sum.splits if_splits)
  moreover have "res = Inr ws" "m1 = m2" using assms(4) m2(1) by (simp_all add: wsm_Create_def)
  ultimately show ?thesis using assms(5) m2(2) by (simp add: fresh_ws_def ws_names_def)
qed


section \<open>Examples\<close>

text \<open>One agent, a second one, a tool that leaves a link, a commit before it, a task's snapshot.\<close>

definition ex_start :: WManager where
  "ex_start = plain_manager [([''tmp''], Dir)]"

definition ex_a :: WManager where
  "ex_a = snd (wsm_Create plain_env (\<lambda>_. at_ms 1) ''a'' ex_start)"

definition ex_ab :: WManager where
  "ex_ab = snd (wsm_Create plain_env (\<lambda>_. at_ms 2) ''b'' ex_a)"

definition ex_commit :: WManager where
  "ex_commit = snd (wsm_Commit plain_env (\<lambda>_. at_ms 3) ''a'' ex_a)"

definition ex_linked :: fs where
  "ex_linked = put (remove_tree (wsm_disk ex_commit) [''rt'', ''a'', ''merged'', ''README.txt''])
     [''rt'', ''a'', ''merged'', ''escape''] (Link ''/tmp'')"

definition ex_link :: WManager where
  "ex_link = ex_commit\<lparr>wsm_disk := ex_linked\<rparr>"

definition ex_task :: WManager where
  "ex_task = snd (CreateBaseSnapshot plain_env (\<lambda>_. at_ms 4) ''t'' [(''f.txt'', ''1'')] ex_start)"

lemma ex_a_ws: "map_option ws_MergedDir (wsm_workspaces ex_a ''a'') = Some (abs_path [''rt'', ''a'', ''merged''])"
  by code_simp

lemma ex_commit_ws: "map_option ws_MergedDir (wsm_workspaces ex_commit ''a'') = Some (abs_path [''rt'', ''a'', ''merged''])"
  by code_simp

lemma ex_a_merged: "lookup (wsm_disk ex_a) [''rt'', ''a'', ''merged'', ''README.txt''] = Some (File (''AORT-R workspace lowerdir fixture'' @ [CHR 10]))"
  by code_simp

lemma ex_commit_output: "lookup (wsm_disk ex_commit) [''rt'', ''a'', ''output'', ''README.txt''] = Some (File (''AORT-R workspace lowerdir fixture'' @ [CHR 10]))"
  by code_simp

lemma ex_commit_ok: "is_ok (fst (wsm_Commit plain_env (\<lambda>_. at_ms 3) ''a'' ex_a))"
  by code_simp

lemma ex_linked_ok: "fs_ok ex_linked"
  by code_simp

lemma ex_linked_tmp: "lookup ex_linked [''tmp''] = Some Dir"
  by code_simp

lemma ex_task_base: "wsm_tasks ex_task ''t'' = Some (abs_path [''rt'', ''tasks'', ''t'', ''base''])"
  by code_simp

lemma ex_task_file: "lookup (wsm_disk ex_task) [''rt'', ''tasks'', ''t'', ''base'', ''f.txt''] = Some (File ''1'')"
  by code_simp

lemma ex_task_disk: "fs_ok (wsm_disk ex_task)" "lookup (wsm_disk ex_task) [''rt'', ''tasks'', ''t'', ''base''] = Some Dir"
  by code_simp+

lemma ex_task_links: "list_all (\<lambda>(_, n). n \<noteq> Link (case n of Link l \<Rightarrow> l | _ \<Rightarrow> [])) (wsm_disk ex_task)"
  by code_simp

lemma ex_names: "workspace_safeName ''a'' = ''a''" "workspace_safeName ''b'' = ''b''" "workspace_safeName ''tasks'' = ''tasks''"
  by code_simp+

lemma ex_agents: "ws_agents [''rt''] {''a'', ''b'', ''tasks''}"
  by (auto simp: ws_agents_def inj_on_def ex_names plain_word_def)

lemma clear_pair: "clear d [x, y] \<longleftrightarrow> lookup d [x] \<in> {None, Some Dir} \<and> lookup d [x, y] \<in> {None, Some Dir}"
  using clear_snoc [of d "[x]" y] clear_snoc [of d "[]" x] by (auto simp: clear_def)

lemma ex_start_inv: "ws_inv plain_env [''rt''] {''a'', ''b'', ''tasks''} ex_start"
  by (simp add: ws_inv_def ex_start_def ws_home_def ex_names clear_pair) (simp add: lookup_def fs_ok_def plain_word_def)

lemma ex_start_reach: "reachable (ws_start plain_env [''rt''] {''a'', ''b'', ''tasks''}) (ws_step plain_env {''a'', ''b'', ''tasks''}) ex_start"
  by (rule reachable_init) (simp add: ws_start_def ex_agents ex_start_inv, simp add: ex_start_def)

lemma ex_a_reach: "reachable (ws_start plain_env [''rt''] {''a'', ''b'', ''tasks''}) (ws_step plain_env {''a'', ''b'', ''tasks''}) ex_a"
  by (rule reachable_step [OF ex_start_reach]) (auto simp: ws_step_def ex_a_def intro: act_create)

lemma ex_commit_reach: "reachable (ws_start plain_env [''rt''] {''a'', ''b'', ''tasks''}) (ws_step plain_env {''a'', ''b'', ''tasks''}) ex_commit"
  by (rule reachable_step [OF ex_a_reach]) (auto simp: ws_step_def ex_commit_def intro: act_use use_commit)

lemma ex_link_reach: "reachable (ws_start plain_env [''rt''] {''a'', ''b'', ''tasks''}) (ws_step plain_env {''a'', ''b'', ''tasks''}) ex_link"
proof (rule reachable_step [OF ex_commit_reach])
  obtain ws where ws: "wsm_workspaces ex_commit ''a'' = Some ws" "ws_MergedDir ws = abs_path [''rt'', ''a'', ''merged'']"
    using ex_commit_ws by auto
  have "only_in (elems (ws_MergedDir ws)) (wsm_disk ex_commit) ex_linked"
    by (simp add: ws(2) elems_abs_path plain_word_def only_in_def ex_linked_ok) (auto simp: ex_linked_def strict_prefix_def prefix_def)
  then have "ws_act plain_env ''a'' ex_commit ex_link"
    unfolding ex_link_def by (intro act_use use_tool [OF ws(1)])
  then show "ws_step plain_env {''a'', ''b'', ''tasks''} ex_commit ex_link" by (auto simp: ws_step_def)
qed


lemma ex_a_lower: "lookup (wsm_disk ex_a) [''rt'', ''a'', ''lower'', ''README.txt''] = Some (File (''AORT-R workspace lowerdir fixture'' @ [CHR 10]))"
  by code_simp

lemma ex_rollback_ok: "is_ok (fst (wsm_Rollback plain_env (\<lambda>_. at_ms 5) ''a'' ex_commit))"
  by code_simp



lemma ex_link_ws: obtains ws where "wsm_workspaces ex_link ''a'' = Some ws"
  using ex_commit_ws by (auto simp: ex_link_def)

lemma failed_commit_loses_output_witness:
  "lookup (wsm_disk ex_link) [''rt'', ''a'', ''output'', ''README.txt''] = Some (File (''AORT-R workspace lowerdir fixture'' @ [CHR 10]))
   \<and> lookup (wsm_disk (snd (wsm_Commit plain_env (\<lambda>_. at_ms 5) ''a'' ex_link))) [''rt'', ''a'', ''output'', ''README.txt''] = None"
proof -
  obtain ws where ws: "wsm_workspaces ex_link ''a'' = Some ws" by (rule ex_link_ws)
  show ?thesis
    using failed_commit_loses_output [OF ex_link_reach _ ws refl prod.collapse [symmetric], of "[''escape'']" "''/tmp''" "[''README.txt'']" "\<lambda>_. at_ms 5"]
      ex_commit_output
    by (simp add: ex_names ex_link_def ex_linked_def)
qed

lemma link_blocks_rollback_witness:
  "\<not> is_ok (fst (wsm_Rollback plain_env (\<lambda>_. at_ms 5) ''a'' ex_link))"
proof -
  obtain ws where ws: "wsm_workspaces ex_link ''a'' = Some ws" by (rule ex_link_ws)
  show ?thesis
    using link_blocks_rollback [OF ex_link_reach _ ws refl _ _ _ prod.collapse [symmetric], of "''escape''" "[''tmp'']" "\<lambda>_. at_ms 5"]
      ex_linked_tmp
    by (simp add: ex_names ex_link_def) (simp add: ex_linked_def abs_path_def)
qed

lemma ex_task_facts: "wsm_root ex_task = abs_path [''rt'']" "wsm_ForceDegraded ex_task" "wsm_workspaces ex_task ''a'' = None"
  "wsm_workspaces ex_task ''tasks'' = None" "lookup (wsm_disk ex_task) [''rt''] = Some Dir"
  "lookup (wsm_disk ex_task) [''rt'', ''tasks''] = Some Dir" "lookup (wsm_disk ex_task) [''rt'', ''a''] = None"
  "workspace_safeName ''t'' = ''t''"
  by code_simp+

lemma ex_task_inv: "ws_inv plain_env [''rt''] {''a'', ''tasks''} ex_task"
  by (simp add: ws_inv_def ws_home_def ex_names clear_pair ex_task_facts ex_task_disk)

lemma ex_task_agents: "ws_agents [''rt''] {''a'', ''tasks''}"
  by (auto simp: ws_agents_def inj_on_def ex_names plain_word_def)

lemma ex_task_no_link: "no_link (wsm_disk ex_task) p"
proof -
  have "lookup (wsm_disk ex_task) q \<noteq> Some (Link l)" for q l
    using ex_task_links by (auto simp: lookup_def list_all_iff dest!: map_of_SomeD)
  then show ?thesis by (simp add: no_link_def)
qed


lemma tasks_agent_wipes_snapshots_witness:
  "lookup (wsm_disk ex_task) [''rt'', ''tasks'', ''t'', ''base'', ''f.txt''] = Some (File ''1'')
   \<and> lookup (wsm_disk (snd (wsm_Create plain_env (\<lambda>_. at_ms 5) ''tasks'' ex_task))) [''rt'', ''tasks'', ''t'', ''base'', ''f.txt''] = None"
  using tasks_agent_wipes_snapshots [where t = "''t''" and clk = "\<lambda>_. at_ms 5", OF ex_task_agents ex_task_inv _ prod.collapse [symmetric]] ex_task_file
  by (simp add: ex_task_facts)

end
