(* ===== verification/GoNum.thy ===== *)
theory GoNum
  imports GoStrings Float64
begin

text \<open>
  The numeric parsing and printing of \<open>strconv\<close> and \<open>fmt\<close> that the samplers of cgroup and pressure files
  use. \<open>strconv.ParseFloat\<close> is not here: it is a parameter of the components that call it.
\<close>

definition num_error :: "string \<Rightarrow> string \<Rightarrow> go_error" where
  "num_error fn s = Errorf ''strconv.%s: parsing %q'' [fn, s]"

text \<open>\<open>strconv.ParseUint(s, 10, 64)\<close>: digits only; beyond 64 bits an error.\<close>

definition ParseUint :: "string \<Rightarrow> u64 result" where
  "ParseUint s = (if s = [] then Inl (num_error ''ParseUint'' s)
     else case digits_val 0 s of None \<Rightarrow> Inl (num_error ''ParseUint'' s)
       | Some n \<Rightarrow> if n < 2 ^ 64 then Inr (of_nat n) else Inl (num_error ''ParseUint'' s))"

text \<open>\<open>strconv.ParseInt(s, 10, 64)\<close>, also \<open>Atoi\<close>: an optional sign; beyond the range an error.\<close>

definition sign_of :: "string \<Rightarrow> bool \<times> string" where
  "sign_of s = (case s of [] \<Rightarrow> (False, [])
     | c # cs \<Rightarrow> if c = CHR ''-'' then (True, cs) else if c = CHR ''+'' then (False, cs) else (False, s))"

definition ParseInt :: "string \<Rightarrow> int result" where
  "ParseInt s = (case sign_of s of (neg, ds) \<Rightarrow>
     if ds = [] then Inl (num_error ''ParseInt'' s)
     else case digits_val 0 ds of None \<Rightarrow> Inl (num_error ''ParseInt'' s)
       | Some n \<Rightarrow> let z = (if neg then - int n else int n) in
           if int_in_range z then Inr z else Inl (num_error ''ParseInt'' s))"

lemma nat_str_nonempty [simp]: "nat_str n \<noteq> []"
  by (subst nat_str.simps) simp

lemma nat_str_hd: "hd (nat_str n) \<noteq> CHR ''-'' \<and> hd (nat_str n) \<noteq> CHR ''+''"
proof (induction n rule: nat_str.induct)
  case (1 n)
  have "digit_char d \<noteq> CHR ''-'' \<and> digit_char d \<noteq> CHR ''+''" if "d < 10" for d
    using digit_val_char [OF that] by (auto simp: digit_val_def)
  with 1 show ?case by (cases "n < 10") (simp_all add: nat_str.simps [of n])
qed

text \<open>What is printed is parsed back.\<close>

lemma ParseUint_nat_str: "n < 2 ^ 64 \<Longrightarrow> ParseUint (nat_str n) = Inr (of_nat n)"
  by (simp add: ParseUint_def digits_val_nat_str)

lemma ParseInt_Itoa:
  assumes "int_in_range z"
  shows "ParseInt (Itoa z) = Inr z"
proof (cases "z < 0")
  case True
  then show ?thesis using assms by (simp add: ParseInt_def Itoa_def sign_of_def digits_val_nat_str Let_def)
next
  case False
  obtain c cs where s: "nat_str (nat z) = c # cs" by (metis list.exhaust nat_str_nonempty)
  have "c \<noteq> CHR ''-'' \<and> c \<noteq> CHR ''+''" using nat_str_hd [of "nat z"] by (simp add: s)
  then have "sign_of (nat_str (nat z)) = (False, nat_str (nat z))" by (simp add: sign_of_def s)
  then show ?thesis using False assms by (simp add: ParseInt_def Itoa_def digits_val_nat_str Let_def)
qed

lemma ParseInt_range: "ParseInt s = Inr z \<Longrightarrow> int_in_range z"
  by (auto simp: ParseInt_def Let_def split: prod.splits if_splits option.splits)

text \<open>\<open>%.2f\<close>: the exact value rounded to two decimals, ties to even.\<close>

definition round_even :: "rat \<Rightarrow> int" where
  "round_even q = (let z = \<lfloor>q\<rfloor>; frac = q - of_int z in
     if frac < 1 / 2 then z else if 1 / 2 < frac then z + 1 else if even z then z else z + 1)"

fun fmt_f2 :: "f64 \<Rightarrow> string" where
  "fmt_f2 NaN = ''NaN''"
| "fmt_f2 PInf = ''+Inf''"
| "fmt_f2 NInf = ''-Inf''"
| "fmt_f2 (Fin q) = (let n = nat (round_even (\<bar>q\<bar> * 100)) in
     (if q < 0 then ''-'' else []) @ nat_str (n div 100) @ ''.'' @ pad_nat 2 (n mod 100))"

text \<open>\<open>strings.Join\<close> with a separator of more than one character.\<close>

fun join_with :: "string \<Rightarrow> string list \<Rightarrow> string" where
  "join_with sp [] = []"
| "join_with sp [s] = s"
| "join_with sp (s # t # ss) = s @ sp @ join_with sp (t # ss)"

text \<open>Lines of the form \<open>key value\<close>; other lines and values that are no numbers are skipped.\<close>

fun kv_lines :: "string list \<Rightarrow> (string \<rightharpoonup> u64) \<Rightarrow> string \<rightharpoonup> u64" where
  "kv_lines [] m = m"
| "kv_lines (line # lines) m = kv_lines lines (case Fields line of
       [key, v] \<Rightarrow> (case ParseUint v of Inl _ \<Rightarrow> m | Inr n \<Rightarrow> m(key \<mapsto> n))
     | _ \<Rightarrow> m)"

definition parse_kv :: "string \<Rightarrow> string \<rightharpoonup> u64" where
  "parse_kv text = kv_lines (split_on (CHR 10) text) Map.empty"

section \<open>Words separated by blanks\<close>

definition word_like :: "string \<Rightarrow> bool" where
  "word_like w \<longleftrightarrow> w \<noteq> [] \<and> (\<forall>c \<in> set w. \<not> is_space c)"

lemma dropWhile_none: "\<forall>c \<in> set w. \<not> P c \<Longrightarrow> dropWhile P w = w"
  by (cases w) simp_all

lemma Fields_word: "word_like w \<Longrightarrow> Fields w = [w]"
proof -
  assume w: "word_like w"
  then obtain c cs where cons: "w = c # cs" "\<not> is_space c" "\<forall>x \<in> set cs. \<not> is_space x"
    by (cases w) (auto simp: word_like_def)
  then have "takeWhile (\<lambda>x. \<not> is_space x) w = w" "dropWhile (\<lambda>x. \<not> is_space x) w = []" "dropWhile is_space w = w"
    by (simp_all add: takeWhile_eq_all_conv dropWhile_eq_Nil_conv)
  moreover have "Fields [] = []" by (simp add: Fields.simps)
  ultimately show ?thesis unfolding cons(1) by (subst Fields.simps) simp
qed

lemma Fields_Cons: "word_like w \<Longrightarrow> is_space sp \<Longrightarrow> Fields (w @ sp # s) = w # Fields s"
proof -
  assume w: "word_like w" and sp: "is_space sp"
  then obtain c cs where cons: "w = c # cs" "\<not> is_space c" "\<forall>x \<in> set cs. \<not> is_space x"
    by (cases w) (auto simp: word_like_def)
  have ns: "\<forall>x \<in> set w. \<not> is_space x" using w by (simp add: word_like_def)
  have "takeWhile (\<lambda>x. \<not> is_space x) (w @ sp # s) = w" "dropWhile (\<lambda>x. \<not> is_space x) (w @ sp # s) = sp # s"
    using ns sp by (simp_all add: takeWhile_append2 dropWhile_append2)
  moreover have "dropWhile is_space (w @ sp # s) = w @ sp # s" using cons(1,2) by simp
  moreover have "Fields (sp # s) = Fields s" using sp by (subst (1 2) Fields.simps) simp
  ultimately show ?thesis by (subst Fields.simps) (simp add: cons(1))
qed

lemma Fields_join: "\<forall>w \<in> set ws. word_like w \<Longrightarrow> Fields (join_on (CHR '' '') ws) = ws"
proof (induction ws rule: induct_list012)
  case 1
  then show ?case by (simp add: Fields.simps)
next
  case (2 w)
  then show ?case by (simp add: Fields_word)
next
  case (3 w v ws)
  then show ?case by (simp add: Fields_Cons is_space_def)
qed

lemma Cut_append: "c \<notin> set a \<Longrightarrow> Cut (a @ c # b) c = (a, b, True)"
  by (induction a) auto

lemma digit_not_space: "d < 10 \<Longrightarrow> \<not> is_space (digit_char d)"
proof -
  assume "d < 10"
  then have "d \<in> {0, 1, 2, 3, 4, 5, 6, 7, 8, 9}" by auto
  then show ?thesis by (elim insertE emptyE) (simp_all, code_simp+)
qed

lemma word_like_nat_str: "word_like (nat_str n)"
proof (induction n rule: nat_str.induct)
  case (1 n)
  then show ?case using digit_not_space by (cases "n < 10") (simp_all add: nat_str.simps [of n] word_like_def)
qed

lemma word_like_Itoa: "word_like (Itoa z)"
  using word_like_nat_str [of "nat \<bar>z\<bar>"] by (simp add: Itoa_def word_like_def is_space_def)

end
