(* ===== verification/Capsule.thy ===== *)
theory Capsule
  imports Confinement Evidence GoNum
begin

text \<open>
  The capsule manager (\<open>internal/capsule/manager.go\<close>): one cgroup per agent, or a degraded record where
  cgroups cannot be used. The kernel behind the cgroup files, the signals and the passing of time is a
  state \<open>'k\<close> with the operations in \<open>cap_env\<close>.
\<close>

definition cap_ModeReal :: string where "cap_ModeReal = ''real''"
definition cap_ModeDegraded :: string where "cap_ModeDegraded = ''degraded''"
definition KillMethodCgroupKill :: string where "KillMethodCgroupKill = ''cgroup.kill''"
definition KillMethodPidSignalFallback :: string where "KillMethodPidSignalFallback = ''pid-signal-fallback''"

lemmas capsule_modes = cap_ModeReal_def cap_ModeDegraded_def KillMethodCgroupKill_def KillMethodPidSignalFallback_def

text \<open>
  \<open>ce_walk\<close> lists what \<open>filepath.WalkDir\<close> visits: a path with whether it is a directory, or with the error
  handed to the callback. \<open>ce_files_order\<close> is the order of the range over the settings of a new cgroup.
\<close>

record 'k cap_env =
  ce_read :: "string \<Rightarrow> 'k \<Rightarrow> string result"
  ce_write :: "string \<Rightarrow> string \<Rightarrow> 'k \<Rightarrow> go_error option \<times> 'k"
  ce_mkdir :: "string \<Rightarrow> 'k \<Rightarrow> go_error option \<times> 'k"
  ce_stat :: "string \<Rightarrow> 'k \<Rightarrow> bool result"
  ce_walk :: "string \<Rightarrow> 'k \<Rightarrow> (string \<times> bool result) list"
  ce_remove :: "string \<Rightarrow> 'k \<Rightarrow> go_error option \<times> 'k"
  ce_signal :: "int \<Rightarrow> int \<Rightarrow> 'k \<Rightarrow> go_error option \<times> 'k"
  ce_wait :: "int \<Rightarrow> 'k \<Rightarrow> 'k"
  ce_goos :: string
  ce_text :: "go_error \<Rightarrow> string"
  ce_not_exist :: "go_error \<Rightarrow> bool"
  ce_files_order :: "string list"

definition ESRCH :: go_error where "ESRCH = SysError ''no such process''"
definition SIGTERM :: int where "SIGTERM = 15"
definition SIGKILL :: int where "SIGKILL = 9"

record CapConfig =
  cc_Root :: string
  cc_ForceReal :: bool
  cc_AllowDegraded :: bool
  cc_MemoryMax :: string
  cc_PidsMax :: string
  cc_CPUMax :: string
  cc_SignalGracePeriod :: int     \<comment> \<open>nanoseconds\<close>

record CapRuntime =
  cr_AgentID :: string
  cr_CgroupPath :: string
  cr_Mode :: string
  cr_Error :: string

record CapStats =
  cs_MemoryCurrent :: int
  cs_PidsCurrent :: int
  cs_CPUStat :: "(string \<rightharpoonup> u64) option"
  cs_Events :: "(string \<rightharpoonup> u64) option"
  cs_Frozen :: bool
  cs_Mode :: string
  cs_Error :: string

record KillResult =
  kr_AgentID :: string
  kr_KillMethod :: string
  kr_EvidenceMode :: Mode
  kr_FallbackReason :: string

record CapManager =
  cap_cfg :: CapConfig
  cap_runtimes :: "string \<rightharpoonup> CapRuntime"
  cap_pids :: "string \<rightharpoonup> int"

definition cap_New :: "CapConfig \<Rightarrow> CapManager" where
  "cap_New cfg = \<lparr>cap_cfg = cfg\<lparr>
       cc_Root := (if cc_Root cfg = [] then ''/sys/fs/cgroup/aort.slice'' else cc_Root cfg),
       cc_MemoryMax := (if cc_MemoryMax cfg = [] then ''256M'' else cc_MemoryMax cfg),
       cc_PidsMax := (if cc_PidsMax cfg = [] then ''64'' else cc_PidsMax cfg),
       cc_CPUMax := (if cc_CPUMax cfg = [] then ''100000 100000'' else cc_CPUMax cfg),
       cc_SignalGracePeriod := (if cc_SignalGracePeriod cfg = 0 then 500000000 else cc_SignalGracePeriod cfg)\<rparr>,
     cap_runtimes = Map.empty, cap_pids = Map.empty\<rparr>"

section \<open>Files\<close>

definition cap_readInt :: "'k cap_env \<Rightarrow> string \<Rightarrow> 'k \<Rightarrow> int" where
  "cap_readInt env path k = (case ce_read env path k of Inl _ \<Rightarrow> 0
     | Inr data \<Rightarrow> (case ParseInt (TrimSpace data) of Inl _ \<Rightarrow> 0 | Inr z \<Rightarrow> z))"

definition cap_readKV :: "'k cap_env \<Rightarrow> string \<Rightarrow> 'k \<Rightarrow> string \<rightharpoonup> u64" where
  "cap_readKV env path k = (case ce_read env path k of Inl _ \<Rightarrow> Map.empty | Inr data \<Rightarrow> parse_kv data)"

definition readCgroupPIDs :: "'k cap_env \<Rightarrow> string \<Rightarrow> 'k \<Rightarrow> int list" where
  "readCgroupPIDs env path k = (case ce_read env path k of Inl _ \<Rightarrow> []
     | Inr data \<Rightarrow> List.map_filter (\<lambda>field. case ParseInt field of Inl _ \<Rightarrow> None
         | Inr pid \<Rightarrow> if 0 < pid then Some pid else None) (Fields data))"

fun unique_loop :: "int list \<Rightarrow> int set \<Rightarrow> int list" where
  "unique_loop [] seen = []"
| "unique_loop (v # vs) seen = (if v \<le> 0 \<or> v \<in> seen then unique_loop vs seen else v # unique_loop vs (insert v seen))"

definition uniquePIDs :: "int list \<Rightarrow> int list" where
  "uniquePIDs vs = unique_loop vs {}"

section \<open>Preparing a capsule\<close>

definition cap_available :: "'k cap_env \<Rightarrow> CapManager \<Rightarrow> 'k \<Rightarrow> go_error option \<times> 'k" where
  "cap_available env m k = (if cc_ForceReal (cap_cfg m) then (None, k)
     else if ce_goos env \<noteq> ''linux'' then (Some (Errorf ''cgroup v2 requires linux, got %s'' [ce_goos env]), k)
     else case ce_stat env ''/sys/fs/cgroup/cgroup.controllers'' k of
         Inl e \<Rightarrow> (Some (Wrapf ''cgroup v2 unavailable: %w'' [] e), k)
       | Inr _ \<Rightarrow> (case ce_mkdir env (cc_Root (cap_cfg m)) k of
           (Some e, k1) \<Rightarrow> (Some (Wrapf ''cannot create cgroup root: %w'' [] e), k1) | (None, k1) \<Rightarrow> (None, k1)))"

definition enableSubtreeControllers :: "'k cap_env \<Rightarrow> string \<Rightarrow> string list \<Rightarrow> 'k \<Rightarrow> go_error option \<times> 'k" where
  "enableSubtreeControllers env rt wanted k = (let
       controllersPath = Join [rt, ''cgroup.controllers'']; subtreePath = Join [rt, ''cgroup.subtree_control'']
     in case ce_read env controllersPath k of
         Inl e \<Rightarrow> (if ce_not_exist env e then None else Some (Wrapf ''read %s: %w'' [controllersPath] e), k)
       | Inr data \<Rightarrow> (case ce_stat env subtreePath k of
           Inl e \<Rightarrow> (if ce_not_exist env e then None else Some (Wrapf ''stat %s: %w'' [subtreePath] e), k)
         | Inr _ \<Rightarrow> let commands = map (\<lambda>c. CHR ''+'' # c) (filter (\<lambda>c. c \<in> set (Fields data)) wanted)
             in if commands = [] then (None, k)
                else case ce_write env subtreePath (join_with '' '' commands @ [CHR 10]) k of
                    (Some e, k1) \<Rightarrow> (Some (Wrapf ''write %s: %w'' [subtreePath] e), k1) | (None, k1) \<Rightarrow> (None, k1)))"

definition cgroup_files :: "CapConfig \<Rightarrow> int \<Rightarrow> string \<rightharpoonup> string" where
  "cgroup_files cfg pid = [''memory.max'' \<mapsto> cc_MemoryMax cfg, ''pids.max'' \<mapsto> cc_PidsMax cfg, ''cpu.max'' \<mapsto> cc_CPUMax cfg,
     ''cgroup.procs'' \<mapsto> Itoa pid]"

fun write_settings :: "'k cap_env \<Rightarrow> string \<Rightarrow> (string \<rightharpoonup> string) \<Rightarrow> string list \<Rightarrow> 'k \<Rightarrow> go_error option \<times> 'k" where
  "write_settings env path files [] k = (None, k)"
| "write_settings env path files (name # names) k =
     (case ce_write env (Join [path, name]) (the (files name) @ [CHR 10]) k of
        (Some e, k1) \<Rightarrow> (Some (Wrapf ''write %s: %w'' [name] e), k1)
      | (None, k1) \<Rightarrow> write_settings env path files names k1)"

definition cap_put :: "string \<Rightarrow> int \<Rightarrow> CapRuntime \<Rightarrow> CapManager \<Rightarrow> CapManager" where
  "cap_put agentID pid rt m = m\<lparr>cap_runtimes := (cap_runtimes m)(agentID \<mapsto> rt), cap_pids := (cap_pids m)(agentID \<mapsto> pid)\<rparr>"

definition degradedOrError :: "'k cap_env \<Rightarrow> string \<Rightarrow> int \<Rightarrow> go_error \<Rightarrow> CapManager \<Rightarrow> CapRuntime result \<times> CapManager" where
  "degradedOrError env agentID pid err m = (if \<not> cc_AllowDegraded (cap_cfg m) then (Inl err, m)
     else let rt = \<lparr>cr_AgentID = agentID, cr_CgroupPath = ''degraded://'' @ capsule_safeName agentID,
            cr_Mode = cap_ModeDegraded, cr_Error = ce_text env err\<rparr>
       in (Inr rt, cap_put agentID pid rt m))"

definition Prepare :: "'k cap_env \<Rightarrow> string \<Rightarrow> int \<Rightarrow> CapManager \<Rightarrow> 'k \<Rightarrow> (CapRuntime result \<times> CapManager) \<times> 'k" where
  "Prepare env agentID pid m k = (let fail = (\<lambda>e k. (degradedOrError env agentID pid e m, k));
       path = Join [cc_Root (cap_cfg m), capsule_safeName agentID]
     in case cap_available env m k of (Some e, k1) \<Rightarrow> fail e k1
     | (None, k1) \<Rightarrow> (case enableSubtreeControllers env (cc_Root (cap_cfg m)) [''cpu'', ''memory'', ''pids''] k1 of
         (Some e, k2) \<Rightarrow> fail (Wrapf ''enable cgroup subtree controllers: %w'' [] e) k2
       | (None, k2) \<Rightarrow> (case ce_mkdir env path k2 of
           (Some e, k3) \<Rightarrow> fail (Wrapf ''create cgroup: %w'' [] e) k3
         | (None, k3) \<Rightarrow> (case write_settings env path (cgroup_files (cap_cfg m) pid) (ce_files_order env) k3 of
             (Some e, k4) \<Rightarrow> fail e k4
           | (None, k4) \<Rightarrow> let rt = \<lparr>cr_AgentID = agentID, cr_CgroupPath = path, cr_Mode = cap_ModeReal, cr_Error = []\<rparr>
               in ((Inr rt, cap_put agentID pid rt m), k4)))))"

section \<open>Reading and freezing\<close>

definition cap_Runtime :: "string \<Rightarrow> CapManager \<Rightarrow> CapRuntime option" where
  "cap_Runtime agentID m = cap_runtimes m agentID"

definition zero_CapStats :: CapStats where
  "zero_CapStats = \<lparr>cs_MemoryCurrent = 0, cs_PidsCurrent = 0, cs_CPUStat = None, cs_Events = None, cs_Frozen = False,
     cs_Mode = [], cs_Error = []\<rparr>"

definition cap_Stats :: "'k cap_env \<Rightarrow> string \<Rightarrow> CapManager \<Rightarrow> 'k \<Rightarrow> CapStats" where
  "cap_Stats env agentID m k = (case cap_Runtime agentID m of
       None \<Rightarrow> zero_CapStats\<lparr>cs_Mode := cap_ModeDegraded, cs_Error := ''capsule not prepared''\<rparr>
     | Some rt \<Rightarrow> if cr_Mode rt \<noteq> cap_ModeReal then zero_CapStats\<lparr>cs_Mode := cr_Mode rt, cs_Error := cr_Error rt\<rparr>
         else let path = (\<lambda>name. Join [cr_CgroupPath rt, name]) in
           \<lparr>cs_MemoryCurrent = cap_readInt env (path ''memory.current'') k,
            cs_PidsCurrent = cap_readInt env (path ''pids.current'') k,
            cs_CPUStat = Some (cap_readKV env (path ''cpu.stat'') k),
            cs_Events = Some (cap_readKV env (path ''cgroup.events'') k),
            cs_Frozen = (cap_readInt env (path ''cgroup.freeze'') k = 1), cs_Mode = cr_Mode rt, cs_Error = []\<rparr>)"

definition writeFreeze :: "'k cap_env \<Rightarrow> string \<Rightarrow> string \<Rightarrow> CapManager \<Rightarrow> 'k \<Rightarrow> go_error option \<times> 'k" where
  "writeFreeze env agentID v m k = (case cap_Runtime agentID m of
       None \<Rightarrow> (Some (Errorf ''agent %q has no capsule'' [agentID]), k)
     | Some rt \<Rightarrow> if cr_Mode rt \<noteq> cap_ModeReal then (Some (Errorf ''capsule degraded: %s'' [cr_Error rt]), k)
         else ce_write env (Join [cr_CgroupPath rt, ''cgroup.freeze'']) (v @ [CHR 10]) k)"

definition Freeze :: "'k cap_env \<Rightarrow> string \<Rightarrow> CapManager \<Rightarrow> 'k \<Rightarrow> go_error option \<times> 'k" where
  "Freeze env agentID = writeFreeze env agentID ''1''"

definition Unfreeze :: "'k cap_env \<Rightarrow> string \<Rightarrow> CapManager \<Rightarrow> 'k \<Rightarrow> go_error option \<times> 'k" where
  "Unfreeze env agentID = writeFreeze env agentID ''0''"

section \<open>Killing\<close>

text \<open>A signal to each process in turn; a process that is gone is no error.\<close>

fun signal_all :: "'k cap_env \<Rightarrow> int \<Rightarrow> int list \<Rightarrow> 'k \<Rightarrow> go_error option \<times> 'k" where
  "signal_all env sig [] k = (None, k)"
| "signal_all env sig (pid # pids) k = (case ce_signal env pid sig k of
       (Some e, k1) \<Rightarrow> if e \<noteq> ESRCH then (Some e, k1) else signal_all env sig pids k1
     | (None, k1) \<Rightarrow> signal_all env sig pids k1)"

definition kill_fallback :: "'k cap_env \<Rightarrow> string \<Rightarrow> KillResult \<Rightarrow> CapManager \<Rightarrow> 'k \<Rightarrow> (KillResult \<times> go_error option) \<times> 'k" where
  "kill_fallback env agentID result m k = (let
       primary = (case cap_pids m agentID of None \<Rightarrow> 0 | Some p \<Rightarrow> p);
       listed = (case cap_Runtime agentID m of None \<Rightarrow> []
         | Some rt \<Rightarrow> if cr_Mode rt = cap_ModeReal then readCgroupPIDs env (Join [cr_CgroupPath rt, ''cgroup.procs'']) k else []);
       pids = uniquePIDs (listed @ (if primary \<noteq> 0 then [primary] else []))
     in if pids = [] then ((result, Some (Errorf ''agent %q has no pid'' [agentID])), k)
     else case signal_all env SIGTERM pids k of (Some e, k1) \<Rightarrow> ((result, Some e), k1)
       | (None, k1) \<Rightarrow> let k2 = (if 0 < cc_SignalGracePeriod (cap_cfg m) then ce_wait env (cc_SignalGracePeriod (cap_cfg m)) k1 else k1)
           in case signal_all env SIGKILL pids k2 of (err, k3) \<Rightarrow> ((result, err), k3))"

definition Kill :: "'k cap_env \<Rightarrow> string \<Rightarrow> CapManager \<Rightarrow> 'k \<Rightarrow> (KillResult \<times> go_error option) \<times> 'k" where
  "Kill env agentID m k = (let
       result = \<lparr>kr_AgentID = agentID, kr_KillMethod = KillMethodPidSignalFallback, kr_EvidenceMode = ModeDegraded,
         kr_FallbackReason = []\<rparr>
     in case cap_Runtime agentID m of
         Some rt \<Rightarrow> if cr_Mode rt = cap_ModeReal
           then (case ce_write env (Join [cr_CgroupPath rt, ''cgroup.kill'']) (''1'' @ [CHR 10]) k of
               (None, k1) \<Rightarrow> ((result\<lparr>kr_KillMethod := KillMethodCgroupKill, kr_EvidenceMode := ModeRealCgroupV2\<rparr>, None), k1)
             | (Some e, k1) \<Rightarrow> kill_fallback env agentID
                 (result\<lparr>kr_FallbackReason := ''cgroup.kill failed: '' @ ce_text env e\<rparr>) m k1)
           else kill_fallback env agentID result m k
       | None \<Rightarrow> kill_fallback env agentID result m k)"

section \<open>Destroying\<close>

fun collect_dirs :: "'k cap_env \<Rightarrow> (string \<times> bool result) list \<Rightarrow> string list result" where
  "collect_dirs env [] = Inr []"
| "collect_dirs env ((path, entry) # visits) = (case entry of
       Inl e \<Rightarrow> if ce_not_exist env e then collect_dirs env visits else Inl e
     | Inr dir \<Rightarrow> (case collect_dirs env visits of Inl e \<Rightarrow> Inl e | Inr dirs \<Rightarrow> Inr (if dir then path # dirs else dirs)))"

definition ErrNotExist :: go_error where "ErrNotExist = SysError ''file does not exist''"

definition cgroupDirs :: "'k cap_env \<Rightarrow> string \<Rightarrow> 'k \<Rightarrow> string list result" where
  "cgroupDirs env rt k = (case collect_dirs env (ce_walk env rt k) of Inl e \<Rightarrow> Inl e
     | Inr dirs \<Rightarrow> if dirs = [] then Inl ErrNotExist else Inr dirs)"

definition deepest_first :: "string list \<Rightarrow> string list" where
  "deepest_first dirs = sort_by (\<lambda>x y. length y < length x) dirs"

fun term_dirs :: "'k cap_env \<Rightarrow> string list \<Rightarrow> 'k \<Rightarrow> go_error option \<times> 'k" where
  "term_dirs env [] k = (None, k)"
| "term_dirs env (dir # dirs) k = (let killFile = Join [dir, ''cgroup.kill''];
       k1 = (if ce_stat env killFile k = Inr False then snd (ce_write env killFile (''1'' @ [CHR 10]) k) else k)
     in case signal_all env SIGTERM (readCgroupPIDs env (Join [dir, ''cgroup.procs'']) k1) k1 of
         (Some e, k2) \<Rightarrow> (Some e, k2) | (None, k2) \<Rightarrow> term_dirs env dirs k2)"

fun kill_dirs :: "'k cap_env \<Rightarrow> string list \<Rightarrow> 'k \<Rightarrow> go_error option \<times> 'k" where
  "kill_dirs env [] k = (None, k)"
| "kill_dirs env (dir # dirs) k = (case signal_all env SIGKILL (readCgroupPIDs env (Join [dir, ''cgroup.procs'']) k) k of
       (Some e, k1) \<Rightarrow> (Some e, k1) | (None, k1) \<Rightarrow> kill_dirs env dirs k1)"

definition drainCgroupTree :: "'k cap_env \<Rightarrow> string \<Rightarrow> 'k \<Rightarrow> go_error option \<times> 'k" where
  "drainCgroupTree env rt k = (case cgroupDirs env rt k of Inl e \<Rightarrow> (Some e, k)
     | Inr dirs \<Rightarrow> (case term_dirs env (deepest_first dirs) k of (Some e, k1) \<Rightarrow> (Some e, k1)
         | (None, k1) \<Rightarrow> kill_dirs env (deepest_first dirs) (ce_wait env 50000000 k1)))"

fun remove_dirs :: "'k cap_env \<Rightarrow> string list \<Rightarrow> go_error option \<Rightarrow> 'k \<Rightarrow> go_error option \<times> 'k" where
  "remove_dirs env [] err k = (err, k)"
| "remove_dirs env (dir # dirs) err k = (case ce_remove env dir k of
       (Some e, k1) \<Rightarrow> remove_dirs env dirs (if ce_not_exist env e then err else Some e) k1
     | (None, k1) \<Rightarrow> remove_dirs env dirs err k1)"

text \<open>One attempt: the result with which the loop returns, or none when a directory could not be removed.\<close>

definition destroy_attempt :: "'k cap_env \<Rightarrow> string \<Rightarrow> 'k \<Rightarrow> go_error option option \<times> 'k" where
  "destroy_attempt env rt k = (let gone = (\<lambda>e. ce_not_exist env e \<or> e = ErrNotExist) in
     case drainCgroupTree env rt k of (err, k1) \<Rightarrow>
       if (case err of None \<Rightarrow> False | Some e \<Rightarrow> \<not> gone e) then (Some err, k1)
       else case cgroupDirs env rt k1 of
           Inl e \<Rightarrow> (Some (if gone e then None else Some e), k1)
         | Inr dirs \<Rightarrow> (case remove_dirs env (deepest_first dirs) None k1 of
               (None, k2) \<Rightarrow> (Some None, k2) | (Some _, k2) \<Rightarrow> (None, k2)))"

text \<open>Attempts 0 to 7; \<open>retries\<close> is how many are left.\<close>

fun destroy_loop :: "'k cap_env \<Rightarrow> string \<Rightarrow> nat \<Rightarrow> 'k \<Rightarrow> go_error option \<times> 'k" where
  "destroy_loop env rt 0 k = (case ce_stat env rt k of
       Inl e \<Rightarrow> (if ce_not_exist env e then None else Some (Errorf ''remove cgroup tree %s after retries'' [rt]), k)
     | Inr _ \<Rightarrow> (Some (Errorf ''remove cgroup tree %s after retries'' [rt]), k))"
| "destroy_loop env rt (Suc retries) k = (case destroy_attempt env rt k of
       (Some err, k1) \<Rightarrow> (err, k1)
     | (None, k1) \<Rightarrow> destroy_loop env rt retries (ce_wait env ((8 - int retries) * 50000000) k1))"

definition destroyCgroupTree :: "'k cap_env \<Rightarrow> string \<Rightarrow> 'k \<Rightarrow> go_error option \<times> 'k" where
  "destroyCgroupTree env rt = destroy_loop env rt 8"

definition cap_forget :: "string \<Rightarrow> CapManager \<Rightarrow> CapManager" where
  "cap_forget agentID m = m\<lparr>cap_runtimes := (cap_runtimes m)(agentID := None), cap_pids := (cap_pids m)(agentID := None)\<rparr>"

definition cap_Destroy :: "'k cap_env \<Rightarrow> string \<Rightarrow> CapManager \<Rightarrow> 'k \<Rightarrow> (go_error option \<times> CapManager) \<times> 'k" where
  "cap_Destroy env agentID m k = (case cap_Runtime agentID m of
       None \<Rightarrow> ((Some (Errorf ''agent %q has no capsule'' [agentID]), m), k)
     | Some rt \<Rightarrow> if cr_Mode rt \<noteq> cap_ModeReal then ((None, cap_forget agentID m), k)
         else (case destroyCgroupTree env (cr_CgroupPath rt) k of
             (Some e, k1) \<Rightarrow> ((Some (Wrapf ''destroy cgroup: %w'' [] e), m), k1)
           | (None, k1) \<Rightarrow> ((None, cap_forget agentID m), k1)))"

end
