(* ===== verification/CapsuleCorrect.thy ===== *)
theory CapsuleCorrect
  imports Capsule
begin

text \<open>
  Correctness of the capsule manager: what the two tables hold after any operations, what a degraded
  configuration guarantees, which processes a kill signals and in which order, and where the
  directory of a capsule lies.
\<close>

section \<open>Processes\<close>

lemma unique_loop_mem: "p \<in> set (unique_loop vs seen) \<longleftrightarrow> p \<in> set vs \<and> 0 < p \<and> p \<notin> seen"
proof (induction vs arbitrary: seen)
  case (Cons v vs)
  show ?case by (cases "v \<le> 0 \<or> v \<in> seen") (auto simp: Cons.IH)
qed simp

lemma unique_loop_distinct: "distinct (unique_loop vs seen)"
  by (induction vs arbitrary: seen) (simp_all add: unique_loop_mem)

lemma uniquePIDs_spec: "set (uniquePIDs vs) = {p \<in> set vs. 0 < p}" "distinct (uniquePIDs vs)"
  by (auto simp: uniquePIDs_def unique_loop_mem unique_loop_distinct)

section \<open>The tables\<close>

text \<open>
  Every agent with a runtime has a process identifier and the other way round; a runtime carries
  its agent's identifier, and either the cgroup of that agent or the reason why there is none.
\<close>

definition runtime_ok :: "CapConfig \<Rightarrow> string \<Rightarrow> CapRuntime \<Rightarrow> bool" where
  "runtime_ok cfg a rt \<longleftrightarrow> cr_AgentID rt = a
     \<and> (if cr_Mode rt = cap_ModeReal then cr_CgroupPath rt = Join [cc_Root cfg, capsule_safeName a] \<and> cr_Error rt = []
        else cr_Mode rt = cap_ModeDegraded \<and> cc_AllowDegraded cfg
          \<and> cr_CgroupPath rt = ''degraded://'' @ capsule_safeName a)"

definition cap_inv :: "CapManager \<Rightarrow> bool" where
  "cap_inv m \<longleftrightarrow> dom (cap_runtimes m) = dom (cap_pids m)
     \<and> (\<forall>a rt. cap_runtimes m a = Some rt \<longrightarrow> runtime_ok (cap_cfg m) a rt)"

lemma cap_inv_put: "cap_inv m \<Longrightarrow> runtime_ok (cap_cfg m) a rt \<Longrightarrow> cap_inv (cap_put a pid rt m)"
  by (auto simp: cap_inv_def cap_put_def)

lemma cap_inv_forget: "cap_inv m \<Longrightarrow> cap_inv (cap_forget a m)"
  by (auto simp: cap_inv_def cap_forget_def)

lemma modes_differ [simp]: "cap_ModeReal \<noteq> cap_ModeDegraded" "cap_ModeDegraded \<noteq> cap_ModeReal"
  by (simp_all add: capsule_modes)

text \<open>Either the capsule is prepared and recorded, or nothing is and degraded capsules are not allowed.\<close>

definition prepared :: "string \<Rightarrow> int \<Rightarrow> CapManager \<Rightarrow> CapRuntime result \<times> CapManager \<Rightarrow> bool" where
  "prepared a pid m out \<longleftrightarrow> (case fst out of
       Inr rt \<Rightarrow> runtime_ok (cap_cfg m) a rt \<and> snd out = cap_put a pid rt m
     | Inl e \<Rightarrow> snd out = m \<and> \<not> cc_AllowDegraded (cap_cfg m))"

lemma degraded_prepared: "prepared a pid m (degradedOrError env a pid err m)"
  by (simp add: prepared_def degradedOrError_def runtime_ok_def Let_def)

lemma Prepare_prepared: "prepared a pid m (fst (Prepare env a pid m k))"
proof -
  obtain e1 k1 where 1: "cap_available env m k = (e1, k1)" by fastforce
  obtain e2 k2 where 2: "enableSubtreeControllers env (cc_Root (cap_cfg m)) [''cpu'', ''memory'', ''pids''] k1 = (e2, k2)"
    by fastforce
  obtain e3 k3 where 3: "ce_mkdir env (Join [cc_Root (cap_cfg m), capsule_safeName a]) k2 = (e3, k3)" by fastforce
  obtain e4 k4 where 4: "write_settings env (Join [cc_Root (cap_cfg m), capsule_safeName a])
      (cgroup_files (cap_cfg m) pid) (ce_files_order env) k3 = (e4, k4)" by fastforce
  note run = Prepare_def Let_def 1 prod.case
  show ?thesis
  proof (cases "e1 = None \<and> e2 = None \<and> e3 = None \<and> e4 = None")
    case True
    then have none: "e1 = None" "e2 = None" "e3 = None" "e4 = None" by blast+
    show ?thesis unfolding run none option.case 2 3 4 by (simp add: prepared_def runtime_ok_def)
  next
    case False
    then show ?thesis
      by (cases e1; cases e2; cases e3; cases e4)
        (simp_all only: run 2 3 4 option.case fst_conv degraded_prepared, simp)
  qed
qed

lemma Prepare_cases:
  assumes "Prepare env a pid m k = ((r, m'), k')"
  obtains (prepared) rt where "r = Inr rt" "runtime_ok (cap_cfg m) a rt" "m' = cap_put a pid rt m"
    | (failed) e where "r = Inl e" "m' = m" "\<not> cc_AllowDegraded (cap_cfg m)"
  using Prepare_prepared [of a pid m env k] that by (cases r) (auto simp: assms prepared_def)

inductive cap_step :: "'k cap_env \<Rightarrow> CapManager \<Rightarrow> CapManager \<Rightarrow> bool" for env where
  prepare: "Prepare env a pid m k = ((r, m'), k') \<Longrightarrow> cap_step env m m'"
| destroy: "cap_Destroy env a m k = ((r, m'), k') \<Longrightarrow> cap_step env m m'"

lemma Destroy_cases:
  assumes run: "cap_Destroy env a m k = ((err, m'), k')"
  obtains (kept) e where "err = Some e" "m' = m" | (forgotten) "err = None" "a \<in> dom (cap_runtimes m)" "m' = cap_forget a m"
proof (cases "cap_runtimes m a")
  case None
  have "err = Some (Errorf ''agent %q has no capsule'' [a])" "m' = m"
    using run unfolding cap_Destroy_def cap_Runtime_def None option.case by (simp_all only: prod.inject)
  then show ?thesis by (rule kept)
next
  case (Some rt)
  obtain e k1 where d: "destroyCgroupTree env (cr_CgroupPath rt) k = (e, k1)" by fastforce
  note run' = run [unfolded cap_Destroy_def cap_Runtime_def Some option.case d prod.case]
  consider "cr_Mode rt \<noteq> cap_ModeReal \<or> e = None" | e' where "cr_Mode rt = cap_ModeReal" "e = Some e'" by blast
  then show ?thesis
  proof cases
    case 1
    then have "err = None \<and> m' = cap_forget a m"
      using run' by (cases "cr_Mode rt \<noteq> cap_ModeReal") (simp_all only: if_True if_False option.case prod.inject simp_thms)
    then show ?thesis using Some by (intro forgotten) auto
  next
    case (2 e')
    then have "err = Some (Wrapf ''destroy cgroup: %w'' [] e')" "m' = m" using run' by simp_all
    then show ?thesis by (rule kept)
  qed
qed

interpretation capsules: invariant_system "\<lambda>m. \<exists>cfg. m = cap_New cfg" "cap_step env" cap_inv for env
proof unfold_locales
  show "cap_inv m" if "\<exists>cfg. m = cap_New cfg" for m using that by (auto simp: cap_inv_def cap_New_def)
  show "cap_inv m'" if "cap_inv m" "cap_step env m m'" for m m'
    using that(2,1) by cases (auto elim!: Prepare_cases Destroy_cases intro: cap_inv_put cap_inv_forget)
qed

text \<open>
  With degraded capsules allowed, preparing a capsule always succeeds and records it: whatever the
  cgroup files do, the agent then has a runtime and its process identifier.
\<close>

theorem Prepare_total:
  assumes "cc_AllowDegraded (cap_cfg m)"
  shows "\<exists>rt m' k'. Prepare env a pid m k = ((Inr rt, m'), k') \<and> cap_runtimes m' a = Some rt
    \<and> cap_pids m' a = Some pid \<and> runtime_ok (cap_cfg m) a rt
    \<and> (\<forall>b. b \<noteq> a \<longrightarrow> cap_runtimes m' b = cap_runtimes m b \<and> cap_pids m' b = cap_pids m b)"
proof -
  obtain r m' k' where run: "Prepare env a pid m k = ((r, m'), k')" by (metis prod.collapse)
  then show ?thesis
  proof (cases rule: Prepare_cases)
    case (prepared rt)
    then have "cap_runtimes m' a = Some rt" "cap_pids m' a = Some pid"
      "\<forall>b. b \<noteq> a \<longrightarrow> cap_runtimes m' b = cap_runtimes m b \<and> cap_pids m' b = cap_pids m b"
      by (simp_all add: cap_put_def)
    with run prepared show ?thesis by blast
  qed (simp add: assms)
qed

section \<open>Killing\<close>

text \<open>
  The kernel's log of signals: \<open>lg\<close> observes them, a signal is appended to it and the other
  operations leave it alone.
\<close>

definition logs_signals :: "'k cap_env \<Rightarrow> ('k \<Rightarrow> (int \<times> int) list) \<Rightarrow> bool" where
  "logs_signals env lg \<longleftrightarrow> (\<forall>p s k. lg (snd (ce_signal env p s k)) = lg k @ [(p, s)])
     \<and> (\<forall>d k. lg (ce_wait env d k) = lg k) \<and> (\<forall>p s k. lg (snd (ce_write env p s k)) = lg k)"

lemma signal_all_log:
  assumes "logs_signals env lg"
  shows "signal_all env sig pids k = (None, k') \<Longrightarrow> lg k' = lg k @ map (\<lambda>p. (p, sig)) pids"
proof (induction pids arbitrary: k)
  case (Cons p pids)
  obtain err k1 where s: "ce_signal env p sig k = (err, k1)" by fastforce
  have "lg k1 = lg k @ [(p, sig)]" using assms s by (metis logs_signals_def snd_conv)
  moreover have "signal_all env sig pids k1 = (None, k')"
    using Cons.prems s by (auto split: option.splits if_splits)
  ultimately show ?case using Cons.IH by auto
qed simp

text \<open>The processes that the fallback signals.\<close>

definition kill_targets :: "'k cap_env \<Rightarrow> string \<Rightarrow> CapManager \<Rightarrow> 'k \<Rightarrow> int set" where
  "kill_targets env a m k = {p. 0 < p \<and> (cap_pids m a = Some p
     \<or> (\<exists>rt. cap_runtimes m a = Some rt \<and> cr_Mode rt = cap_ModeReal
          \<and> p \<in> set (readCgroupPIDs env (Join [cr_CgroupPath rt, ''cgroup.procs'']) k)))}"

lemma kill_fallback_log:
  assumes "logs_signals env lg" and "kill_fallback env a result m k = ((res, None), k')"
  shows "res = result \<and> (\<exists>pids. set pids = kill_targets env a m k \<and> pids \<noteq> [] \<and> distinct pids
    \<and> lg k' = lg k @ map (\<lambda>p. (p, SIGTERM)) pids @ map (\<lambda>p. (p, SIGKILL)) pids)"
proof -
  let ?primary = "case cap_pids m a of None \<Rightarrow> 0 | Some p \<Rightarrow> p"
  let ?listed = "case cap_Runtime a m of None \<Rightarrow> []
         | Some rt \<Rightarrow> if cr_Mode rt = cap_ModeReal then readCgroupPIDs env (Join [cr_CgroupPath rt, ''cgroup.procs'']) k else []"
  define pids where "pids = uniquePIDs (?listed @ (if ?primary \<noteq> 0 then [?primary] else []))"
  have set: "set pids = kill_targets env a m k"
    unfolding pids_def uniquePIDs_spec(1) kill_targets_def cap_Runtime_def
    by (cases "cap_runtimes m a"; cases "cap_pids m a") auto
  obtain e1 k1 where t: "signal_all env SIGTERM pids k = (e1, k1)" by fastforce
  define k2 where "k2 = (if 0 < cc_SignalGracePeriod (cap_cfg m) then ce_wait env (cc_SignalGracePeriod (cap_cfg m)) k1 else k1)"
  obtain e2 k3 where u: "signal_all env SIGKILL pids k2 = (e2, k3)" by fastforce
  have ok: "pids \<noteq> []" "e1 = None" "e2 = None" "res = result" "k' = k3"
    using assms(2) unfolding kill_fallback_def Let_def pids_def [symmetric] t prod.case k2_def [symmetric] u
    by (auto split: if_splits option.splits)
  have "lg k2 = lg k1" using assms(1) by (simp add: k2_def logs_signals_def)
  then have "lg k' = lg k @ map (\<lambda>p. (p, SIGTERM)) pids @ map (\<lambda>p. (p, SIGKILL)) pids"
    using signal_all_log [OF assms(1)] t u ok by simp
  then show ?thesis using ok set uniquePIDs_spec(2) by (auto simp: pids_def)
qed

text \<open>
  C37. A kill that reports success either wrote \<open>cgroup.kill\<close> of the agent's cgroup, without a signal of
  its own, or sent a termination signal to every process of the agent, each once, and then a kill
  signal to every one of them, in the same order and only after the last termination signal.
\<close>

theorem Kill_escalates:
  assumes logs: "logs_signals env lg" and run: "Kill env a m k = ((res, None), k')"
  shows "if kr_KillMethod res = KillMethodCgroupKill
    then lg k' = lg k \<and> (\<exists>rt. cap_runtimes m a = Some rt \<and> cr_Mode rt = cap_ModeReal
      \<and> ce_write env (Join [cr_CgroupPath rt, ''cgroup.kill'']) (''1'' @ [CHR 10]) k = (None, k'))
    else \<exists>pids k1. lg k1 = lg k \<and> set pids = kill_targets env a m k1 \<and> pids \<noteq> [] \<and> distinct pids
      \<and> lg k' = lg k @ map (\<lambda>p. (p, SIGTERM)) pids @ map (\<lambda>p. (p, SIGKILL)) pids"
proof -
  let ?r = "\<lparr>kr_AgentID = a, kr_KillMethod = KillMethodPidSignalFallback, kr_EvidenceMode = ModeDegraded,
         kr_FallbackReason = []\<rparr>"
  have methods: "KillMethodPidSignalFallback \<noteq> KillMethodCgroupKill" by (simp add: capsule_modes)
  have signals: ?thesis if f: "kill_fallback env a result m k1 = ((res, None), k')" and "lg k1 = lg k"
      and "kr_KillMethod result = KillMethodPidSignalFallback" for result k1
    using kill_fallback_log [OF logs f] that(2,3) methods by auto
  show ?thesis
  proof (cases "\<exists>rt. cap_runtimes m a = Some rt \<and> cr_Mode rt = cap_ModeReal")
    case False
    then have "kill_fallback env a ?r m k = ((res, None), k')"
      using run by (cases "cap_runtimes m a") (auto simp: Kill_def cap_Runtime_def)
    then show ?thesis by (rule signals) simp_all
  next
    case True
    then obtain rt where rt: "cap_runtimes m a = Some rt" "cr_Mode rt = cap_ModeReal" by blast
    obtain e k1 where w: "ce_write env (Join [cr_CgroupPath rt, ''cgroup.kill'']) (''1'' @ [CHR 10]) k = (e, k1)"
      by fastforce
    have lg: "lg k1 = lg k" using logs w by (metis logs_signals_def snd_conv)
    show ?thesis
    proof (cases e)
      case None
      then have "res = ?r\<lparr>kr_KillMethod := KillMethodCgroupKill, kr_EvidenceMode := ModeRealCgroupV2\<rparr>" "k' = k1"
        using run rt w by (simp_all add: Kill_def cap_Runtime_def)
      then show ?thesis using lg rt w None by auto
    next
      case (Some err)
      then have "kill_fallback env a (?r\<lparr>kr_FallbackReason := ''cgroup.kill failed: '' @ ce_text env err\<rparr>) m k1 = ((res, None), k')"
        using run rt w by (simp add: Kill_def cap_Runtime_def)
      then show ?thesis by (rule signals) (simp_all add: lg)
    qed
  qed
qed

text \<open>A kernel that logs signals and whose cgroup files cannot be written.\<close>

definition log_kernel :: "(int \<times> int) list cap_env" where
  "log_kernel = \<lparr>ce_read = (\<lambda>p k. Inr ''12 7 12''), ce_write = (\<lambda>p s k. (Some (SysError ''read-only''), k)),
     ce_mkdir = (\<lambda>p k. (None, k)), ce_stat = (\<lambda>p k. Inr True), ce_walk = (\<lambda>p k. [(p, Inr True)]),
     ce_remove = (\<lambda>p k. (None, k)), ce_signal = (\<lambda>p s k. (None, k @ [(p, s)])), ce_wait = (\<lambda>d k. k),
     ce_goos = ''linux'', ce_text = (\<lambda>e. ''error''), ce_not_exist = (\<lambda>e. False), ce_files_order = [''memory.max'']\<rparr>"

definition log_manager :: CapManager where
  "log_manager = cap_put ''a'' 7 \<lparr>cr_AgentID = ''a'', cr_CgroupPath = ''/cg/a'', cr_Mode = cap_ModeReal, cr_Error = []\<rparr>
     (cap_New \<lparr>cc_Root = ''/cg/s'', cc_ForceReal = True, cc_AllowDegraded = True, cc_MemoryMax = [], cc_PidsMax = [],
        cc_CPUMax = [], cc_SignalGracePeriod = 0\<rparr>)"

lemma log_kill: "snd (fst (Kill log_kernel ''a'' log_manager [])) = None"
  "kr_KillMethod (fst (fst (Kill log_kernel ''a'' log_manager []))) \<noteq> KillMethodCgroupKill"
  by code_simp+

theorem Kill_escalates_witness:
  "\<exists>pids k1. k1 = [] \<and> set pids = kill_targets log_kernel ''a'' log_manager k1 \<and> pids \<noteq> [] \<and> distinct pids
     \<and> snd (Kill log_kernel ''a'' log_manager []) = map (\<lambda>p. (p, SIGTERM)) pids @ map (\<lambda>p. (p, SIGKILL)) pids"
proof -
  have logs: "logs_signals log_kernel (\<lambda>k. k)" by (simp add: logs_signals_def log_kernel_def)
  obtain res err k' where run: "Kill log_kernel ''a'' log_manager [] = ((res, err), k')" by (metis prod.collapse)
  have "err = None" "kr_KillMethod res \<noteq> KillMethodCgroupKill" using log_kill by (simp_all add: run)
  then show ?thesis using Kill_escalates [OF logs, of "''a''" log_manager "[]" res k'] run by auto
qed

section \<open>Directories\<close>

text \<open>
  The cgroup of an agent is a directory of its own directly below the root - except for an agent
  called \<open>..\<close>, whose cgroup is the parent of the root: preparing it writes the agent's limits there,
  and destroying it drains the whole parent.
\<close>

theorem capsule_directory:
  assumes plain: "\<forall>x \<in> set (ws @ [w]). plain_word x" and rt: "cc_Root (cap_cfg m) = abs_path (ws @ [w])"
    and name: "capsule_safeName a \<noteq> []" "capsule_safeName a \<noteq> ''.''"
    and run: "Prepare env a pid m k = ((Inr rt, m'), k')" and real: "cr_Mode rt = cap_ModeReal"
  shows "cr_CgroupPath rt = (if capsule_safeName a = ''..'' then abs_path ws else abs_path (ws @ [w, capsule_safeName a]))
    \<and> snd (cap_Destroy env a m' k2) = snd (destroyCgroupTree env (cr_CgroupPath rt) k2)"
proof -
  have path: "cr_CgroupPath rt = Join [abs_path (ws @ [w]), capsule_safeName a]" and m': "cap_runtimes m' a = Some rt"
    using run real by (auto elim!: Prepare_cases simp: runtime_ok_def cap_put_def rt)
  have "cr_CgroupPath rt = (if capsule_safeName a = ''..'' then abs_path ws else abs_path (ws @ [w, capsule_safeName a]))"
  proof (cases "capsule_safeName a = ''..''")
    case True
    have "split_on sep ''..'' = [''..'']" by (rule split_on_single) simp
    then show ?thesis using Join_abs [OF plain, of "''..''"] plain True
      by (simp add: path clean_step_def plain_word_def)
  next
    case False
    then have "plain_word (capsule_safeName a)" using name safeName_no_sep(4) by (simp add: plain_word_def)
    then show ?thesis using Join_abs_word [OF plain] False by (simp add: path)
  qed
  moreover have "snd (cap_Destroy env a m' k2) = snd (destroyCgroupTree env (cr_CgroupPath rt) k2)"
    using real by (simp add: cap_Destroy_def cap_Runtime_def m' split: prod.split option.split)
  ultimately show ?thesis by blast
qed

definition dotdot_kernel :: "(int \<times> int) list cap_env" where
  "dotdot_kernel = log_kernel\<lparr>ce_write := (\<lambda>p s k. (None, k))\<rparr>"

lemma dotdot_prepare:
  "fst (fst (Prepare dotdot_kernel ''..'' 7 log_manager [])) = Inr \<lparr>cr_AgentID = ''..'', cr_CgroupPath = ''/cg'',
     cr_Mode = cap_ModeReal, cr_Error = []\<rparr>"
  by code_simp

theorem capsule_directory_witness:
  "(cap_runtimes (snd (fst (Prepare dotdot_kernel ''..'' 7 log_manager []))) ''..'' \<noteq> None)
   \<and> abs_path [''cg''] = ''/cg'' \<and> snd (cap_Destroy dotdot_kernel ''..'' (snd (fst (Prepare dotdot_kernel ''..'' 7 log_manager []))) [])
       = snd (destroyCgroupTree dotdot_kernel ''/cg'' [])"
proof -
  have plain: "\<forall>x \<in> set ([''cg''] @ [''s'']). plain_word x" by (simp add: plain_word_def)
  have rt: "cc_Root (cap_cfg log_manager) = abs_path ([''cg''] @ [''s''])"
    by (simp add: log_manager_def cap_put_def cap_New_def abs_path_def)
  have name: "capsule_safeName ''..'' = ''..''" by code_simp
  obtain r m' k' where run: "Prepare dotdot_kernel ''..'' 7 log_manager [] = ((r, m'), k')" by (metis prod.collapse)
  have r: "r = Inr \<lparr>cr_AgentID = ''..'', cr_CgroupPath = ''/cg'', cr_Mode = cap_ModeReal, cr_Error = []\<rparr>"
    using dotdot_prepare by (simp add: run)
  have "cap_runtimes m' ''..'' \<noteq> None" using run r by (auto elim!: Prepare_cases simp: cap_put_def)
  then show ?thesis
    using capsule_directory [OF plain rt _ _ run [unfolded r], where ?k2.0 = "[]"] name
    by (simp add: run abs_path_def)
qed

end
