(* ===== verification/Pressure.thy ===== *)
theory Pressure
  imports GoNum Evidence GoPath
begin

text \<open>
  The pressure monitor (\<open>internal/pressure/monitor.go\<close>): the PSI files of the kernel are parsed into a
  status, which is degraded when a file cannot be read or parsed and otherwise says whether a
  threshold is exceeded. Reading a file, \<open>os.Stat\<close>, \<open>strconv.ParseFloat\<close> and the text of an error are
  parameters; a sample reads each file once.
\<close>

definition ModePSI :: string where "ModePSI = ''psi''"
definition psi_ModeDegraded :: string where "psi_ModeDegraded = ''degraded''"

record psi_env =
  pe_read :: "string \<Rightarrow> string result"
  pe_exists :: "string \<Rightarrow> bool"
  pe_float :: "string \<Rightarrow> f64 result"
  pe_text :: "go_error \<Rightarrow> string"

record Line =
  ln_Kind :: string
  ln_Avg10 :: f64
  ln_Avg60 :: f64
  ln_Avg300 :: f64
  ln_Total :: u64

record PResource =
  pr_Some :: Line
  pr_Full :: Line

record PStatus =
  ps_Mode :: string
  ps_Degraded :: bool
  ps_Reason :: string
  ps_CPU :: PResource
  ps_Memory :: PResource
  ps_IO :: PResource
  ps_Throttle :: bool
  ps_ThrottleReason :: string
  ps_SampledAt :: int

record PConfig =
  pc_Root :: string
  pc_CPUPath :: string
  pc_MemoryPath :: string
  pc_IOPath :: string
  pc_CPUAvg10Threshold :: f64
  pc_MemoryAvg10Threshold :: f64
  pc_IOAvg10Threshold :: f64

definition zero_Line :: Line where
  "zero_Line = \<lparr>ln_Kind = [], ln_Avg10 = 0, ln_Avg60 = 0, ln_Avg300 = 0, ln_Total = 0\<rparr>"

definition zero_PResource :: PResource where
  "zero_PResource = \<lparr>pr_Some = zero_Line, pr_Full = zero_Line\<rparr>"

section \<open>Configuration\<close>

definition psi_path :: "psi_env \<Rightarrow> string \<Rightarrow> string \<Rightarrow> string \<Rightarrow> string" where
  "psi_path env rt name path = (if path \<noteq> [] then path
     else let p = Join [rt, name] in if pe_exists env p then p else Join [rt, name @ ''.pressure''])"

definition NewMonitor :: "psi_env \<Rightarrow> PConfig \<Rightarrow> PConfig" where
  "NewMonitor env cfg = (let rt = (if pc_Root cfg = [] then ''/proc/pressure'' else pc_Root cfg) in
     cfg\<lparr>pc_Root := rt, pc_CPUPath := psi_path env rt ''cpu'' (pc_CPUPath cfg),
       pc_MemoryPath := psi_path env rt ''memory'' (pc_MemoryPath cfg), pc_IOPath := psi_path env rt ''io'' (pc_IOPath cfg),
       pc_CPUAvg10Threshold := (if f64_eq (pc_CPUAvg10Threshold cfg) 0 then Fin 50 else pc_CPUAvg10Threshold cfg),
       pc_MemoryAvg10Threshold := (if f64_eq (pc_MemoryAvg10Threshold cfg) 0 then Fin 20 else pc_MemoryAvg10Threshold cfg),
       pc_IOAvg10Threshold := (if f64_eq (pc_IOAvg10Threshold cfg) 0 then Fin 30 else pc_IOAvg10Threshold cfg)\<rparr>)"

section \<open>Parsing\<close>

definition parse_field :: "psi_env \<Rightarrow> string \<Rightarrow> Line \<Rightarrow> Line result" where
  "parse_field env field line = (case Cut field (CHR ''='') of (key, v, ok) \<Rightarrow>
     if \<not> ok then Inl (Errorf ''invalid PSI field %q'' [field])
     else if key = ''avg10'' then map_sum id (\<lambda>x. line\<lparr>ln_Avg10 := x\<rparr>) (pe_float env v)
     else if key = ''avg60'' then map_sum id (\<lambda>x. line\<lparr>ln_Avg60 := x\<rparr>) (pe_float env v)
     else if key = ''avg300'' then map_sum id (\<lambda>x. line\<lparr>ln_Avg300 := x\<rparr>) (pe_float env v)
     else if key = ''total'' then map_sum id (\<lambda>n. line\<lparr>ln_Total := n\<rparr>) (ParseUint v)
     else Inr line)"

fun parse_line_fields :: "psi_env \<Rightarrow> string list \<Rightarrow> Line \<Rightarrow> Line result" where
  "parse_line_fields env [] line = Inr line"
| "parse_line_fields env (field # fs) line = (case parse_field env field line of
       Inl e \<Rightarrow> Inl e | Inr line' \<Rightarrow> parse_line_fields env fs line')"

definition ParseLine :: "psi_env \<Rightarrow> string \<Rightarrow> Line result" where
  "ParseLine env text = (case Fields text of [] \<Rightarrow> Inl (Errorf ''empty PSI line'' [])
     | kind # fs \<Rightarrow> if kind \<noteq> ''some'' \<and> kind \<noteq> ''full'' then Inl (Errorf ''unsupported PSI kind %q'' [kind])
         else parse_line_fields env fs (zero_Line\<lparr>ln_Kind := kind\<rparr>))"

fun parse_resource :: "psi_env \<Rightarrow> string list \<Rightarrow> PResource \<Rightarrow> PResource result" where
  "parse_resource env [] r = Inr r"
| "parse_resource env (raw # raws) r = (if TrimSpace raw = [] then parse_resource env raws r
     else case ParseLine env raw of Inl e \<Rightarrow> Inl e
       | Inr line \<Rightarrow> parse_resource env raws
           (if ln_Kind line = ''some'' then r\<lparr>pr_Some := line\<rparr>
            else if ln_Kind line = ''full'' then r\<lparr>pr_Full := line\<rparr> else r))"

definition readResource :: "psi_env \<Rightarrow> string \<Rightarrow> PResource result" where
  "readResource env path = (case pe_read env path of Inl e \<Rightarrow> Inl e
     | Inr data \<Rightarrow> (case parse_resource env (split_on (CHR 10) (TrimSpace data)) zero_PResource of Inl e \<Rightarrow> Inl e
         | Inr r \<Rightarrow> if ln_Kind (pr_Some r) = [] then Inl (Errorf ''missing some PSI line'' []) else Inr r))"

section \<open>Sampling\<close>

definition failure :: "psi_env \<Rightarrow> string \<Rightarrow> PResource result \<Rightarrow> string list" where
  "failure env name r = (case r of Inl e \<Rightarrow> [name @ '': '' @ pe_text env e] | Inr _ \<Rightarrow> [])"

definition throttle_reasons :: "PConfig \<Rightarrow> PResource \<Rightarrow> PResource \<Rightarrow> PResource \<Rightarrow> string list" where
  "throttle_reasons cfg cpu mem dsk =
     (if pc_CPUAvg10Threshold cfg \<le> ln_Avg10 (pr_Some cpu)
      then [''cpu avg10 '' @ fmt_f2 (ln_Avg10 (pr_Some cpu)) @ '' >= '' @ fmt_f2 (pc_CPUAvg10Threshold cfg)] else [])
   @ (if pc_MemoryAvg10Threshold cfg \<le> ln_Avg10 (pr_Some mem) \<or> pc_MemoryAvg10Threshold cfg \<le> ln_Avg10 (pr_Full mem)
      then [''memory avg10 some='' @ fmt_f2 (ln_Avg10 (pr_Some mem)) @ '' full='' @ fmt_f2 (ln_Avg10 (pr_Full mem))
            @ '' threshold='' @ fmt_f2 (pc_MemoryAvg10Threshold cfg)] else [])
   @ (if pc_IOAvg10Threshold cfg \<le> ln_Avg10 (pr_Some dsk) \<or> pc_IOAvg10Threshold cfg \<le> ln_Avg10 (pr_Full dsk)
      then [''io avg10 some='' @ fmt_f2 (ln_Avg10 (pr_Some dsk)) @ '' full='' @ fmt_f2 (ln_Avg10 (pr_Full dsk))
            @ '' threshold='' @ fmt_f2 (pc_IOAvg10Threshold cfg)] else [])"

definition psi_Sample :: "psi_env \<Rightarrow> clock \<Rightarrow> PConfig \<Rightarrow> PStatus" where
  "psi_Sample env clk cfg = (let
       status = \<lparr>ps_Mode = ModePSI, ps_Degraded = False, ps_Reason = [], ps_CPU = zero_PResource,
         ps_Memory = zero_PResource, ps_IO = zero_PResource, ps_Throttle = False, ps_ThrottleReason = [],
         ps_SampledAt = unix_ms (clk 0)\<rparr>;
       cpu = readResource env (pc_CPUPath cfg); mem = readResource env (pc_MemoryPath cfg);
       dsk = readResource env (pc_IOPath cfg);
       reasons = failure env ''cpu'' cpu @ failure env ''memory'' mem @ failure env ''io'' dsk
     in case (cpu, mem, dsk) of
         (Inr c, Inr m, Inr i) \<Rightarrow> let throttle = throttle_reasons cfg c m i in
           status\<lparr>ps_CPU := c, ps_Memory := m, ps_IO := i, ps_Throttle := (throttle \<noteq> []),
             ps_ThrottleReason := join_with ''; '' throttle\<rparr>
       | _ \<Rightarrow> status\<lparr>ps_Mode := psi_ModeDegraded, ps_Degraded := True, ps_Reason := join_with ''; '' reasons\<rparr>)"

section \<open>What a sample says\<close>

lemma parse_line_kind: "parse_line_fields env fs line = Inr line' \<Longrightarrow> ln_Kind line' = ln_Kind line"
  by (induction fs arbitrary: line) (auto simp: parse_field_def map_sum_def split: prod.splits sum.splits if_splits)

lemma ParseLine_kind: "ParseLine env text = Inr line \<Longrightarrow> ln_Kind line = ''some'' \<or> ln_Kind line = ''full''"
  by (auto simp: ParseLine_def dest: parse_line_kind split: list.splits if_splits)

text \<open>A resource that was read has its \<open>some\<close> line.\<close>

lemma parse_resource_kinds:
  "parse_resource env raws r = Inr r' \<Longrightarrow> ln_Kind (pr_Some r) \<in> {[], ''some''} \<Longrightarrow> ln_Kind (pr_Full r) \<in> {[], ''full''}
   \<Longrightarrow> ln_Kind (pr_Some r') \<in> {[], ''some''} \<and> ln_Kind (pr_Full r') \<in> {[], ''full''}"
proof (induction raws arbitrary: r)
  case (Cons raw raws)
  show ?case
  proof (cases "TrimSpace raw = []")
    case False
    then obtain line where line: "ParseLine env raw = Inr line" using Cons.prems(1) by (auto split: sum.splits)
    let ?r = "if ln_Kind line = ''some'' then r\<lparr>pr_Some := line\<rparr> else if ln_Kind line = ''full'' then r\<lparr>pr_Full := line\<rparr> else r"
    have "parse_resource env raws ?r = Inr r'" using Cons.prems(1) False line by simp
    moreover have "ln_Kind (pr_Some ?r) \<in> {[], ''some''}" "ln_Kind (pr_Full ?r) \<in> {[], ''full''}"
      using Cons.prems(2,3) ParseLine_kind [OF line] by auto
    ultimately show ?thesis by (rule Cons.IH)
  qed (use Cons in simp)
qed simp

lemma readResource_some: "readResource env path = Inr r \<Longrightarrow> ln_Kind (pr_Some r) = ''some''"
  using parse_resource_kinds [of env _ zero_PResource r]
  by (auto simp: readResource_def zero_PResource_def zero_Line_def split: sum.splits if_splits)

end
