(* ===== verification/Sampler.thy ===== *)
theory Sampler
  imports Pressure Scheduler
begin

text \<open>
  The resource sampler (\<open>internal/resource/sampler.go\<close>): the cgroup files of an agent and the PSI files of
  the host become the pressures that the scheduler weighs. The parameters are those of the pressure monitor.
\<close>

definition degradedPressure :: "string \<Rightarrow> ResourcePressure" where
  "degradedPressure reason = zero_ResourcePressure\<lparr>rp_EvidenceMode := ModeDegraded, rp_FallbackReason := reason\<rparr>"

definition readInt64 :: "psi_env \<Rightarrow> string \<Rightarrow> int result" where
  "readInt64 env path = (case pe_read env path of Inl e \<Rightarrow> Inl e | Inr data \<Rightarrow> ParseInt (TrimSpace data))"

definition readMax :: "psi_env \<Rightarrow> string \<Rightarrow> int result" where
  "readMax env path = (case pe_read env path of Inl e \<Rightarrow> Inl e
     | Inr data \<Rightarrow> if TrimSpace data = ''max'' then Inr 0 else ParseInt (TrimSpace data))"

definition sampler_readKV :: "psi_env \<Rightarrow> string \<Rightarrow> (string \<rightharpoonup> u64) result" where
  "sampler_readKV env path = (case pe_read env path of Inl e \<Rightarrow> Inl e | Inr data \<Rightarrow> Inr (parse_kv data))"

fun find_avg10 :: "psi_env \<Rightarrow> string \<Rightarrow> string list \<Rightarrow> f64 result" where
  "find_avg10 env path [] = Inl (Errorf ''avg10 missing in %s'' [path])"
| "find_avg10 env path (field # fs) = (if \<not> HasPrefix field ''avg10='' then find_avg10 env path fs
     else pe_float env (TrimPrefix field ''avg10=''))"

definition readPSIAvg10 :: "psi_env \<Rightarrow> string \<Rightarrow> f64 result" where
  "readPSIAvg10 env path = (case pe_read env path of Inl e \<Rightarrow> Inl e | Inr data \<Rightarrow> find_avg10 env path (Fields data))"

fun psi_loop :: "psi_env \<Rightarrow> string \<Rightarrow> string list \<Rightarrow> f64 \<Rightarrow> f64 result" where
  "psi_loop env rt [] maxAvg = Inr maxAvg"
| "psi_loop env rt (name # names) maxAvg = (case readPSIAvg10 env (Join [rt, name]) of Inl e \<Rightarrow> Inl e
     | Inr avg \<Rightarrow> psi_loop env rt names (if maxAvg < avg then avg else maxAvg))"

definition psiPressure :: "psi_env \<Rightarrow> string \<Rightarrow> f64 result" where
  "psiPressure env rt = map_sum id (\<lambda>m. round3 (m div Fin 100)) (psi_loop env rt [''cpu'', ''memory'', ''io''] 0)"

definition ratio :: "int \<Rightarrow> int \<Rightarrow> f64" where
  "ratio current limit = (if current \<le> 0 \<or> limit \<le> 0 then 0 else round3 (f64_of_int current div f64_of_int limit))"

definition cpuThrottlePressure :: "(string \<rightharpoonup> u64) \<Rightarrow> f64" where
  "cpuThrottlePressure stat = (if dom stat = {} then 0
     else let get = (\<lambda>k. case stat k of None \<Rightarrow> 0 | Some n \<Rightarrow> f64_of_int (uint n));
         byCount = get ''nr_throttled'' div Fin 100; byUsec = get ''throttled_usec'' div Fin 10000000
       in round3 (f64_max (clamp byCount 0 1) (clamp byUsec 0 1)))"

text \<open>\<open>NewCgroupSampler\<close> fills in the directory of the PSI files.\<close>

definition NewCgroupSampler :: "string \<Rightarrow> string" where
  "NewCgroupSampler pressureRoot = (if pressureRoot = [] then ''/proc/pressure'' else pressureRoot)"

text \<open>\<open>Enrich\<close> returns the agent and the pressure also with an error.\<close>

definition Enrich :: "psi_env \<Rightarrow> string \<Rightarrow> AVP \<Rightarrow> AVP \<times> ResourcePressure \<times> go_error option" where
  "Enrich env rt agent = (let path = (\<lambda>name. Join [avp_CgroupPath agent, name]);
       bad = (\<lambda>name e. (agent, degradedPressure (''read '' @ name @ '': '' @ pe_text env e), Some e))
     in if avp_CgroupPath agent = []
     then (agent, degradedPressure ''agent cgroup path is empty'', Some (Errorf ''agent %q cgroup path is empty'' [avp_AgentID agent]))
     else case readInt64 env (path ''memory.current'') of Inl e \<Rightarrow> bad ''memory.current'' e
     | Inr memoryCurrent \<Rightarrow> (case readMax env (path ''memory.max'') of Inl e \<Rightarrow> bad ''memory.max'' e
     | Inr memoryMax \<Rightarrow> (case readInt64 env (path ''pids.current'') of Inl e \<Rightarrow> bad ''pids.current'' e
     | Inr pidsCurrent \<Rightarrow> (case readMax env (path ''pids.max'') of Inl e \<Rightarrow> bad ''pids.max'' e
     | Inr pidsMax \<Rightarrow> (case sampler_readKV env (path ''cpu.stat'') of Inl e \<Rightarrow> bad ''cpu.stat'' e
     | Inr cpuStat \<Rightarrow> let
         agent1 = agent\<lparr>avp_MemoryCurrent := memoryCurrent, avp_PidsCurrent := pidsCurrent, avp_CPUStat := Some cpuStat\<rparr>;
         psi = psiPressure env rt;
         pressure = \<lparr>rp_MemoryPressure = ratio memoryCurrent memoryMax, rp_PidsPressure = ratio pidsCurrent pidsMax,
           rp_CPUThrottlePressure = cpuThrottlePressure cpuStat,
           rp_PSIPressure = (case psi of Inl _ \<Rightarrow> 0 | Inr x \<Rightarrow> x), rp_EvidenceMode = ModeRealCgroupV2,
           rp_FallbackReason = []\<rparr>
       in case psi of
           Inl e \<Rightarrow> (agent1, pressure\<lparr>rp_EvidenceMode := ModeDegraded,
             rp_FallbackReason := ''read PSI pressure: '' @ pe_text env e\<rparr>, Some e)
         | Inr _ \<Rightarrow> (agent1, pressure, None))))))"

definition sampler_Sample :: "psi_env \<Rightarrow> string \<Rightarrow> AVP \<Rightarrow> ResourcePressure \<times> go_error option" where
  "sampler_Sample env rt agent = snd (Enrich env rt agent)"

section \<open>The CPU pressure is in the unit interval\<close>

lemma unit_zero [simp]: "unit_range 0"
  by (simp add: unit_range_iff zero_f64_def)

lemma f64_max_unit: "unit_range x \<Longrightarrow> unit_range y \<Longrightarrow> unit_range (f64_max x y)"
  by (auto simp: unit_range_iff f64_max_def)

lemma throttled_unit:
  assumes "1 \<le> q"
  shows "unit_range (clamp ((case stat k of None \<Rightarrow> 0 | Some (n :: u64) \<Rightarrow> f64_of_int (uint n)) div Fin q) 0 1)"
proof (rule clamp_unit)
  have "bnd 64 (case stat k of None \<Rightarrow> 0 | Some (n :: u64) \<Rightarrow> f64_of_int (uint n))"
  proof (cases "stat k")
    case (Some n)
    have "uint n < 2 ^ LENGTH(64)" by (rule unsigned_less)
    then have "\<bar>uint n\<bar> \<le> 2 ^ 64" by simp
    then show ?thesis using bnd_of_int [of "uint n" 64] Some by simp
  qed (simp add: zero_f64_def)
  then show "(case stat k of None \<Rightarrow> 0 | Some (n :: u64) \<Rightarrow> f64_of_int (uint n)) div Fin q \<noteq> NaN"
    by (rule bnd_not_NaN [OF bnd_div [OF _ assms]]) simp
qed

lemma cpuThrottlePressure_unit: "unit_range (cpuThrottlePressure stat)"
  by (simp add: cpuThrottlePressure_def Let_def round3_unit f64_max_unit throttled_unit)

end
