(* ===== verification/PressureCorrect.thy ===== *)
theory PressureCorrect
  imports Sampler
begin

text \<open>
  Correctness of the pressure monitor and the resource sampler: a line of a pressure file is parsed to
  what the kernel printed, a sample is degraded exactly when a file cannot be used, and throttles exactly
  when a threshold is reached; the sampled pressures of an agent are in the unit interval.
\<close>

section \<open>Printing and parsing\<close>

text \<open>The line that the kernel prints for one kind, with its averages already formatted.\<close>

definition psi_line :: "string \<Rightarrow> string \<Rightarrow> string \<Rightarrow> string \<Rightarrow> nat \<Rightarrow> string" where
  "psi_line kind a b c n = join_on (CHR '' '')
     [kind, ''avg10='' @ a, ''avg60='' @ b, ''avg300='' @ c, ''total='' @ nat_str n]"

text \<open>
  A printed line is parsed back: kind, the three averages as the float parser reads them, and the
  total exactly, for every total of 64 bits.
\<close>

theorem ParseLine_psi_line:
  assumes kind: "kind = ''some'' \<or> kind = ''full''" and n: "n < 2 ^ 64"
    and a: "word_like a" "pe_float env a = Inr x" and b: "word_like b" "pe_float env b = Inr y"
    and c: "word_like c" "pe_float env c = Inr z"
  shows "ParseLine env (psi_line kind a b c n)
    = Inr \<lparr>ln_Kind = kind, ln_Avg10 = x, ln_Avg60 = y, ln_Avg300 = z, ln_Total = of_nat n\<rparr>"
proof -
  have pre: "word_like (''avg10='' @ a)" "word_like (''avg60='' @ b)" "word_like (''avg300='' @ c)"
      "word_like (''total='' @ nat_str n)" "word_like kind"
    using a(1) b(1) c(1) word_like_nat_str [of n] kind by (auto simp: word_like_def is_space_def)
  have fields: "Fields (psi_line kind a b c n)
      = [kind, ''avg10='' @ a, ''avg60='' @ b, ''avg300='' @ c, ''total='' @ nat_str n]"
    unfolding psi_line_def by (rule Fields_join) (use pre in simp)
  have cuts: "Cut (''avg10='' @ a) (CHR ''='') = (''avg10'', a, True)" "Cut (''avg60='' @ b) (CHR ''='') = (''avg60'', b, True)"
    "Cut (''avg300='' @ c) (CHR ''='') = (''avg300'', c, True)"
    "Cut (''total='' @ nat_str n) (CHR ''='') = (''total'', nat_str n, True)"
    by simp_all
  show ?thesis
    using kind a(2) b(2) c(2) ParseUint_nat_str [OF n]
    unfolding ParseLine_def fields list.case parse_line_fields.simps parse_field_def cuts prod.case
    by (auto simp: zero_Line_def)
qed

text \<open>A file with one such line is read as that line.\<close>

lemma join_on_set: "set (join_on c ws) \<subseteq> insert c (\<Union>(set ` set ws))"
  by (induction c ws rule: join_on.induct) auto

lemma readResource_line:
  assumes content: "pe_read env path = Inr (psi_line ''some'' a b c n)" and n: "n < 2 ^ 64"
    and a: "word_like a" "pe_float env a = Inr x" and b: "word_like b" "pe_float env b = Inr y"
    and c: "word_like c" "pe_float env c = Inr z"
  shows "readResource env path = Inr (zero_PResource\<lparr>pr_Some :=
    \<lparr>ln_Kind = ''some'', ln_Avg10 = x, ln_Avg60 = y, ln_Avg300 = z, ln_Total = of_nat n\<rparr>\<rparr>)"
proof -
  let ?l = "psi_line ''some'' a b c n"
  have nl: "is_space (CHR 10)" and blank: "CHR 10 \<noteq> CHR '' ''" by (simp_all add: is_space_def)
  have "set ?l \<subseteq> insert (CHR '' '') (\<Union>(set ` {''some'', ''avg10='' @ a, ''avg60='' @ b, ''avg300='' @ c, ''total='' @ nat_str n}))"
    unfolding psi_line_def using join_on_set [of "CHR '' ''"] by fastforce
  then have "CHR 10 \<notin> set ?l"
    using nl a(1) b(1) c(1) word_like_nat_str [of n] by (auto simp: word_like_def)
  then have split: "split_on (CHR 10) ?l = [?l]" by (rule split_on_single)
  have "?l = ''some'' @ drop 4 ?l" by (simp add: psi_line_def)
  moreover have "\<not> is_space (last ?l)" using word_like_nat_str [of n] by (simp add: psi_line_def word_like_def)
  ultimately have "trimmed ?l" by (simp add: trimmed_def psi_line_def is_space_def)
  then have trim: "TrimSpace ?l = ?l" by (rule TrimSpace_trimmed)
  have "?l \<noteq> []" by (simp add: psi_line_def)
  then show ?thesis
    using ParseLine_psi_line [of "''some''" n a env x b y c z] n a b c
    by (simp add: readResource_def content trim split)
qed

definition psi_files :: psi_env where
  "psi_files = \<lparr>pe_read = (\<lambda>p. if p = ''/p/cpu'' then Inr (psi_line ''some'' ''60.00'' ''1.00'' ''0.50'' 77)
       else if p = ''/p/memory'' then Inr (psi_line ''some'' ''1.00'' ''1.00'' ''0.50'' 5) else Inl (SysError ''missing'')),
     pe_exists = (\<lambda>p. True), pe_float = (\<lambda>s. if s = ''60.00'' then Inr (Fin 60) else Inr (Fin 1)),
     pe_text = (\<lambda>e. ''missing'')\<rparr>"

theorem ParseLine_psi_line_witness:
  "ParseLine psi_files (psi_line ''full'' ''60.00'' ''1.00'' ''0.50'' 77)
    = Inr \<lparr>ln_Kind = ''full'', ln_Avg10 = Fin 60, ln_Avg60 = Fin 1, ln_Avg300 = Fin 1, ln_Total = of_nat 77\<rparr>"
  by (rule ParseLine_psi_line) (simp_all add: word_like_def is_space_def psi_files_def)

section \<open>Samples\<close>

lemma join_with_neq_Nil: "s \<noteq> [] \<Longrightarrow> join_with sp (s # ss) \<noteq> []"
  by (cases ss) simp_all

text \<open>
  A sample is degraded exactly when one of the three files cannot be read as pressure; then it carries
  a reason and never asks to throttle. Otherwise it reports the three files, and throttles exactly
  when the CPU average, or a memory or I/O average of either kind, has reached its threshold.
\<close>

theorem psi_Sample_decides:
  "let s = psi_Sample env clk cfg in
   (ps_Degraded s \<longleftrightarrow> (\<exists>e. readResource env (pc_CPUPath cfg) = Inl e \<or> readResource env (pc_MemoryPath cfg) = Inl e
       \<or> readResource env (pc_IOPath cfg) = Inl e))
   \<and> (ps_Degraded s \<longrightarrow> ps_Mode s = psi_ModeDegraded \<and> ps_Reason s \<noteq> [] \<and> \<not> ps_Throttle s)
   \<and> (\<not> ps_Degraded s \<longrightarrow> ps_Mode s = ModePSI
       \<and> readResource env (pc_CPUPath cfg) = Inr (ps_CPU s) \<and> readResource env (pc_MemoryPath cfg) = Inr (ps_Memory s)
       \<and> readResource env (pc_IOPath cfg) = Inr (ps_IO s)
       \<and> (ps_Throttle s \<longleftrightarrow> pc_CPUAvg10Threshold cfg \<le> ln_Avg10 (pr_Some (ps_CPU s))
           \<or> pc_MemoryAvg10Threshold cfg \<le> ln_Avg10 (pr_Some (ps_Memory s))
           \<or> pc_MemoryAvg10Threshold cfg \<le> ln_Avg10 (pr_Full (ps_Memory s))
           \<or> pc_IOAvg10Threshold cfg \<le> ln_Avg10 (pr_Some (ps_IO s))
           \<or> pc_IOAvg10Threshold cfg \<le> ln_Avg10 (pr_Full (ps_IO s))))"
proof -
  obtain cpu mem dsk where r: "readResource env (pc_CPUPath cfg) = cpu" "readResource env (pc_MemoryPath cfg) = mem"
    "readResource env (pc_IOPath cfg) = dsk" by blast
  have reasons: "join_with ''; '' (failure env ''cpu'' cpu @ failure env ''memory'' mem @ failure env ''io'' dsk) \<noteq> []"
    if "\<exists>e. cpu = Inl e \<or> mem = Inl e \<or> dsk = Inl e"
    using that by (cases cpu; cases mem; cases dsk) (auto simp: failure_def)
  show ?thesis
  proof (cases "\<exists>e. cpu = Inl e \<or> mem = Inl e \<or> dsk = Inl e")
    case True
    then show ?thesis
      using reasons by (cases cpu; cases mem; cases dsk) (simp_all add: psi_Sample_def r Let_def)
  next
    case False
    then obtain c m i where ok: "cpu = Inr c" "mem = Inr m" "dsk = Inr i" by (metis sum.exhaust)
    have "throttle_reasons cfg c m i \<noteq> [] \<longleftrightarrow> pc_CPUAvg10Threshold cfg \<le> ln_Avg10 (pr_Some c)
        \<or> pc_MemoryAvg10Threshold cfg \<le> ln_Avg10 (pr_Some m) \<or> pc_MemoryAvg10Threshold cfg \<le> ln_Avg10 (pr_Full m)
        \<or> pc_IOAvg10Threshold cfg \<le> ln_Avg10 (pr_Some i) \<or> pc_IOAvg10Threshold cfg \<le> ln_Avg10 (pr_Full i)"
      by (auto simp: throttle_reasons_def)
    then show ?thesis by (simp add: psi_Sample_def r ok Let_def)
  qed
qed

definition some_psi :: PConfig where
  "some_psi = \<lparr>pc_Root = ''/p'', pc_CPUPath = ''/p/cpu'', pc_MemoryPath = ''/p/memory'', pc_IOPath = ''/p/memory'',
     pc_CPUAvg10Threshold = Fin 50, pc_MemoryAvg10Threshold = Fin 20, pc_IOAvg10Threshold = Fin 30\<rparr>"

definition no_psi :: PConfig where
  "no_psi = some_psi\<lparr>pc_IOPath := ''/p/io''\<rparr>"

definition psi_clock :: clock where
  "psi_clock i = at_ms (int i)"

lemma some_psi_reads:
  "readResource psi_files ''/p/cpu'' = Inr (zero_PResource\<lparr>pr_Some := \<lparr>ln_Kind = ''some'', ln_Avg10 = Fin 60,
    ln_Avg60 = Fin 1, ln_Avg300 = Fin 1, ln_Total = 77\<rparr>\<rparr>)"
  "readResource psi_files ''/p/memory'' = Inr (zero_PResource\<lparr>pr_Some := \<lparr>ln_Kind = ''some'', ln_Avg10 = Fin 1,
    ln_Avg60 = Fin 1, ln_Avg300 = Fin 1, ln_Total = 5\<rparr>\<rparr>)"
  "readResource psi_files ''/p/io'' = Inl (SysError ''missing'')"
proof -
  show "readResource psi_files ''/p/io'' = Inl (SysError ''missing'')" by (simp add: readResource_def psi_files_def)
  have words: "word_like ''60.00''" "word_like ''1.00''" "word_like ''0.50''" by code_simp+
  note line = readResource_line [where env = psi_files, OF _ _ words(2) _ words(2) _ words(3)]
    and high = readResource_line [where env = psi_files, OF _ _ words(1) _ words(2) _ words(3)]
  show "readResource psi_files ''/p/cpu'' = Inr (zero_PResource\<lparr>pr_Some := \<lparr>ln_Kind = ''some'', ln_Avg10 = Fin 60,
    ln_Avg60 = Fin 1, ln_Avg300 = Fin 1, ln_Total = 77\<rparr>\<rparr>)"
    by (rule high [where n = 77, simplified]) (simp_all add: psi_files_def)
  show "readResource psi_files ''/p/memory'' = Inr (zero_PResource\<lparr>pr_Some := \<lparr>ln_Kind = ''some'', ln_Avg10 = Fin 1,
    ln_Avg60 = Fin 1, ln_Avg300 = Fin 1, ln_Total = 5\<rparr>\<rparr>)"
    by (rule line [where n = 5, simplified]) (simp_all add: psi_files_def)
qed

theorem psi_Sample_decides_witness:
  "ps_Throttle (psi_Sample psi_files psi_clock some_psi) \<and> ps_Degraded (psi_Sample psi_files psi_clock no_psi)
   \<and> ps_Reason (psi_Sample psi_files psi_clock no_psi) \<noteq> []"
proof -
  have paths: "pc_CPUPath some_psi = ''/p/cpu''" "pc_MemoryPath some_psi = ''/p/memory''" "pc_IOPath some_psi = ''/p/memory''"
    "pc_CPUAvg10Threshold some_psi = Fin 50" "pc_IOPath no_psi = ''/p/io''"
    by (simp_all add: some_psi_def no_psi_def)
  define s1 where "s1 = psi_Sample psi_files psi_clock some_psi"
  define s2 where "s2 = psi_Sample psi_files psi_clock no_psi"
  note d1 = psi_Sample_decides [of psi_files psi_clock some_psi, folded s1_def, unfolded Let_def paths]
    and d2 = psi_Sample_decides [of psi_files psi_clock no_psi, folded s2_def, unfolded Let_def paths]
  have ok: "readResource psi_files ''/p/cpu'' \<noteq> Inl e" "readResource psi_files ''/p/memory'' \<noteq> Inl e" for e
    using some_psi_reads by simp_all
  have deg1: "\<not> ps_Degraded s1" using d1 [THEN conjunct1] ok by blast
  have deg2: "ps_Degraded s2" using d2 [THEN conjunct1] some_psi_reads(3) by blast
  have "readResource psi_files ''/p/cpu'' = Inr (ps_CPU s1)" using d1 deg1 by blast
  then have "ln_Avg10 (pr_Some (ps_CPU s1)) = Fin 60"
    unfolding some_psi_reads(1) by (auto dest: arg_cong [where f = "\<lambda>r. ln_Avg10 (pr_Some r)"])
  then have "Fin 50 \<le> ln_Avg10 (pr_Some (ps_CPU s1))" by simp
  then have "ps_Throttle s1" using d1 deg1 by blast
  moreover have "ps_Reason s2 \<noteq> []" using d2 deg2 by blast
  ultimately show ?thesis using deg2 by (simp only: s1_def s2_def simp_thms)
qed

section \<open>The sampler\<close>

text \<open>On an empty map the general formula also gives 0, so the test for it need not be evaluated.\<close>

lemma cpuThrottlePressure_code [code]:
  "cpuThrottlePressure stat = (let get = (\<lambda>k. case stat k of None \<Rightarrow> 0 | Some n \<Rightarrow> f64_of_int (uint n))
     in round3 (f64_max (clamp (get ''nr_throttled'' div Fin 100) 0 1) (clamp (get ''throttled_usec'' div Fin 10000000) 0 1)))"
proof (cases "dom stat = {}")
  case True
  have rnd0: "rnd 0 = 0" using rnd_exact [OF representable_of_int [of 0]] by simp
  have half: "\<lfloor>1 / 2 :: rat\<rfloor> = 0" by (simp add: floor_eq_iff)
  have zero: "0 div Fin q = (0 :: f64)" if "q \<noteq> 0" for q
    using that by (simp add: f64_ops round64_small rnd0)
  have "round3 0 = 0" using round3_eq [of 0] half rnd0 by (simp add: milli_def zero_f64_def)
  then have "round3 (f64_max (clamp (0 div Fin 100) 0 1) (clamp (0 div Fin 10000000) 0 1)) = 0"
    by (simp add: zero clamp_unit_id f64_max_def zero_f64_def [symmetric])
  with True show ?thesis by (simp add: cpuThrottlePressure_def Let_def)
qed (simp add: cpuThrottlePressure_def)

definition labelled :: "AVP \<Rightarrow> AVP \<times> ResourcePressure \<times> go_error option \<Rightarrow> bool" where
  "labelled agent out \<longleftrightarrow> (case out of (agent', p, err) \<Rightarrow>
     (if err = None then rp_EvidenceMode p = ModeRealCgroupV2 \<and> rp_FallbackReason p = []
      else rp_EvidenceMode p = ModeDegraded \<and> rp_FallbackReason p \<noteq> [])
    \<and> agent' = agent\<lparr>avp_MemoryCurrent := avp_MemoryCurrent agent', avp_PidsCurrent := avp_PidsCurrent agent',
        avp_CPUStat := avp_CPUStat agent'\<rparr>
    \<and> unit_range (rp_CPUThrottlePressure p))"

lemma labelled_degraded: "reason \<noteq> [] \<Longrightarrow> labelled agent (agent, degradedPressure reason, Some e)"
  by (simp add: labelled_def degradedPressure_def zero_ResourcePressure_def)

lemma labelled_sampled:
  "labelled agent (agent\<lparr>avp_MemoryCurrent := mc, avp_PidsCurrent := pc, avp_CPUStat := Some st\<rparr>,
     \<lparr>rp_MemoryPressure = mp, rp_PidsPressure = pp, rp_CPUThrottlePressure = cpuThrottlePressure st,
       rp_PSIPressure = x, rp_EvidenceMode = mode, rp_FallbackReason = reason\<rparr>, err)
   \<longleftrightarrow> (if err = None then mode = ModeRealCgroupV2 \<and> reason = [] else mode = ModeDegraded \<and> reason \<noteq> [])"
  by (simp add: labelled_def cpuThrottlePressure_unit)

lemma Enrich_labelled: "labelled agent (Enrich env rt agent)"
proof (cases "avp_CgroupPath agent = []")
  case True
  then show ?thesis by (simp add: Enrich_def Let_def labelled_degraded)
next
  case False
  note run = Enrich_def Let_def False if_False
  let ?p = "\<lambda>name. Join [avp_CgroupPath agent, name]"
  show ?thesis
  proof (cases "readInt64 env (?p ''memory.current'')")
    case (Inl e)
    show ?thesis unfolding run Inl by (simp add: labelled_degraded)
  next
    case (Inr mc)
    note 1 = Inr
    show ?thesis
    proof (cases "readMax env (?p ''memory.max'')")
      case (Inl e)
      show ?thesis unfolding run 1 Inl by (simp add: labelled_degraded)
    next
      case (Inr mm)
      note 2 = Inr
      show ?thesis
      proof (cases "readInt64 env (?p ''pids.current'')")
        case (Inl e)
        show ?thesis unfolding run 1 2 Inl by (simp add: labelled_degraded)
      next
        case (Inr pc)
        note 3 = Inr
        show ?thesis
        proof (cases "readMax env (?p ''pids.max'')")
          case (Inl e)
          show ?thesis unfolding run 1 2 3 Inl by (simp add: labelled_degraded)
        next
          case (Inr pm)
          note 4 = Inr
          show ?thesis
          proof (cases "sampler_readKV env (?p ''cpu.stat'')")
            case (Inl e)
            show ?thesis unfolding run 1 2 3 4 Inl by (simp add: labelled_degraded)
          next
            case (Inr st)
            show ?thesis unfolding run 1 2 3 4 Inr
              by (cases "psiPressure env rt") (simp_all add: labelled_sampled False)
          qed
        qed
      qed
    qed
  qed
qed

text \<open>
  What the sampler returns is labelled: without an error the pressure is real evidence, with one it is
  degraded and has a reason; the agent keeps everything but the three sampled values, and the CPU
  pressure is in the unit interval.
\<close>

theorem Enrich_labels:
  assumes "Enrich env rt agent = (agent', p, err)"
  shows "(if err = None then rp_EvidenceMode p = ModeRealCgroupV2 \<and> rp_FallbackReason p = []
      else rp_EvidenceMode p = ModeDegraded \<and> rp_FallbackReason p \<noteq> [])
    \<and> agent' = agent\<lparr>avp_MemoryCurrent := avp_MemoryCurrent agent', avp_PidsCurrent := avp_PidsCurrent agent',
        avp_CPUStat := avp_CPUStat agent'\<rparr>
    \<and> unit_range (rp_CPUThrottlePressure p)"
  using Enrich_labelled [of agent env rt] by (simp add: assms labelled_def)

theorem Enrich_labels_witness:
  "rp_EvidenceMode (fst (snd (Enrich psi_files ''/p'' zero_AVP))) = ModeDegraded
   \<and> unit_range (rp_CPUThrottlePressure (fst (snd (Enrich psi_files ''/p'' zero_AVP))))"
proof -
  obtain a p e where run: "Enrich psi_files ''/p'' zero_AVP = (a, p, e)" by (metis prod.collapse)
  have "e \<noteq> None" using run by (auto simp: Enrich_def zero_AVP_def)
  then show ?thesis using Enrich_labels [OF run] by (simp add: run)
qed

end
