(* ===== verification/ServerState.thy ===== *)
theory ServerState
  imports Replay GatewayExec Registry Capsule Sampler WorkspaceOps Setup
begin

text \<open>
  The world behind the syscall gateway (\<open>internal/api/server.go\<close>, the adapters): the worker registry, the
  capsules, the workspaces, the tasks and the kernel observer, and the callbacks with which the gateway
  and the worker protocol work on them. \<open>server_env\<close> puts them together as the environment of the
  gateway model.

  The gateway and the page store publish to \<open>gw_out\<close>, the components of this world to \<open>wd_out\<close> and the
  workspace manager to \<open>wsm_out\<close>; in the program all three are one sink, and how their events
  interleave is not modelled.
\<close>

section \<open>State\<close>

record 'k World =
  wd_registry :: "Registry option"
  wd_capsules :: "CapManager option"
  wd_workspace :: WManager
  wd_tasks :: "string \<rightharpoonup> DemoResult"
  wd_kernel :: Observer
  wd_out :: "Event list"
  wd_ext :: 'k

text \<open>
  What the process finds around it. \<open>h_run\<close> runs a tool: it may change files and the kernel;
  \<open>h_start\<close> is \<open>cmd.Start\<close>, with the process identifier; \<open>h_psi\<close> is what the pressure and cgroup files hold at an instant. The
  state \<open>'k\<close> is that of the kernel behind the cgroup files.
\<close>

record 'k host =
  h_capsule :: "'k cap_env"
  h_workspace :: wenv
  h_psi :: "instant \<Rightarrow> psi_env"
  h_codec :: codec
  h_getenv :: "string \<Rightarrow> string"
  h_marshal :: "payload \<Rightarrow> int"
  h_text :: "go_error \<Rightarrow> string"
  h_order :: "Store \<Rightarrow> string list"
  h_run :: "string \<Rightarrow> string list \<Rightarrow> string \<Rightarrow> int \<Rightarrow> fs \<times> 'k \<Rightarrow> ToolOutcome \<times> fs \<times> 'k"
  h_transfer :: "string \<Rightarrow> int \<Rightarrow> 'k \<Rightarrow> (go_error option \<times> SmokeResult) \<times> 'k"
  h_start :: "string \<times> string list \<Rightarrow> 'k \<Rightarrow> int result \<times> 'k"

text \<open>
  The sink itself: the hub, and the trace recorder for events of a task. \<open>newEventSink\<close> has no recorder
  when its directory cannot be made; \<open>opened\<close> and \<open>written\<close> are the errors of the recorder's file.
\<close>

record Sink =
  es_hub :: Hub
  es_recorder :: "string option"
  es_logs :: logs

definition newEventSink :: "string \<Rightarrow> go_error option \<Rightarrow> Hub \<Rightarrow> logs \<Rightarrow> Sink" where
  "newEventSink dataDir mkdir hub l = \<lparr>es_hub = hub, es_recorder = (if dataDir = [] \<or> mkdir \<noteq> None then None
     else Some (Join [dataDir, ''traces''])), es_logs = l\<rparr>"

definition sink_Publish :: "go_error option \<Rightarrow> go_error option \<Rightarrow> Event \<Rightarrow> Sink \<Rightarrow> Sink" where
  "sink_Publish opened written event s = (let s1 = s\<lparr>es_hub := hub_Publish (es_hub s) event\<rparr> in
     case es_recorder s of None \<Rightarrow> s1
     | Some dir \<Rightarrow> if ev_TaskID event = [] then s1
         else s1\<lparr>es_logs := snd (Append opened written dir event (es_logs s1))\<rparr>)"

definition wd_publish :: "Event list \<Rightarrow> 'k World \<Rightarrow> 'k World" where
  "wd_publish ev w = w\<lparr>wd_out := wd_out w @ ev\<rparr>"

definition on_registry :: "(Registry \<Rightarrow> Registry \<times> Event list) \<Rightarrow> 'k World \<Rightarrow> 'k World" where
  "on_registry f w = (case wd_registry w of None \<Rightarrow> w
     | Some r \<Rightarrow> (case f r of (r', ev) \<Rightarrow> wd_publish ev (w\<lparr>wd_registry := Some r'\<rparr>)))"

definition on_workspace :: "(WManager \<Rightarrow> 'a \<times> WManager) \<Rightarrow> 'k World \<Rightarrow> 'a \<times> 'k World" where
  "on_workspace f w = (case f (wd_workspace w) of (r, m) \<Rightarrow> (r, w\<lparr>wd_workspace := m\<rparr>))"

section \<open>Workspaces\<close>

definition ensureAgentWorkspace ::
    "'k host \<Rightarrow> (nat \<Rightarrow> clock) \<Rightarrow> string \<Rightarrow> string \<Rightarrow> 'k World \<Rightarrow> Workspace result \<times> 'k World" where
  "ensureAgentWorkspace h clks taskID agentID w = (case wsm_Status (h_workspace h) agentID (wd_workspace w) of
       (status, None) \<Rightarrow> (Inr (wst_Workspace status), w)
     | (status, Some _) \<Rightarrow> (case on_workspace (wsm_Create (h_workspace h) (clks 0) agentID) w of
         (Inl e, w1) \<Rightarrow> (Inl e, wd_publish [new_event (clks 1) ''agent.workspace_failed'' taskID agentID ''runtime''
            [(''error'', GStr (h_text h e))]] w1)
       | (Inr ws, w1) \<Rightarrow> (Inr ws, wd_publish [new_event (clks 1) ''agent.workspace_attached'' taskID agentID ''runtime''
            [(''workspace_path'', GStr (ws_MergedDir ws)), (''mode'', GStr (ws_Mode ws)),
             (''evidence_mode'', GStr (ws_EvidenceMode ws)), (''fallback_reason'', GStr (ws_FallbackReason ws))]] w1)))"

text \<open>The adapter that the gateway gets as its workspace runtime; the server always has a manager.\<close>

definition adapter_WorkspaceDir :: "'k host \<Rightarrow> clock \<Rightarrow> string \<Rightarrow> 'k World \<Rightarrow> string result \<times> 'k World" where
  "adapter_WorkspaceDir h clk agentID w = (case wsm_Status (h_workspace h) agentID (wd_workspace w) of
       (status, None) \<Rightarrow> (Inr (ws_MergedDir (wst_Workspace status)), w)
     | (status, Some _) \<Rightarrow> (case on_workspace (wsm_Create (h_workspace h) clk agentID) w of
         (Inl e, w1) \<Rightarrow> (Inl e, w1) | (Inr ws, w1) \<Rightarrow> (Inr (ws_MergedDir ws), w1)))"

definition err_of :: "'a result \<Rightarrow> go_error option" where
  "err_of r = (case r of Inl e \<Rightarrow> Some e | Inr _ \<Rightarrow> None)"

definition adapter_Commit :: "'k host \<Rightarrow> clock \<Rightarrow> string \<Rightarrow> 'k World \<Rightarrow> go_error option \<times> 'k World" where
  "adapter_Commit h clk agentID w = (case on_workspace (wsm_Commit (h_workspace h) clk agentID) w of (r, w1) \<Rightarrow> (err_of r, w1))"

definition adapter_Rollback :: "'k host \<Rightarrow> clock \<Rightarrow> string \<Rightarrow> 'k World \<Rightarrow> go_error option \<times> 'k World" where
  "adapter_Rollback h clk agentID w = (case on_workspace (wsm_Rollback (h_workspace h) clk agentID) w of (r, w1) \<Rightarrow> (err_of r, w1))"

definition adapter_Destroy :: "'k host \<Rightarrow> clock \<Rightarrow> string \<Rightarrow> 'k World \<Rightarrow> go_error option \<times> 'k World" where
  "adapter_Destroy h clk agentID w = (case on_workspace (wsm_Destroy (h_workspace h) clk agentID) w of (r, w1) \<Rightarrow> (err_of r, w1))"

section \<open>Workers\<close>

text \<open>The callback that \<open>startWorkerRuntime\<close> registers together with the capsule manager.\<close>

definition onRegister :: "'k host \<Rightarrow> (nat \<Rightarrow> clock) \<Rightarrow> AVP \<Rightarrow> 'k World \<Rightarrow> 'k World" where
  "onRegister h clks agent w = (case wd_capsules w of None \<Rightarrow> w
     | Some m \<Rightarrow> (case Prepare (h_capsule h) (avp_AgentID agent) (avp_PID agent) m (wd_ext w) of ((res, m'), k) \<Rightarrow>
         let w1 = w\<lparr>wd_capsules := Some m', wd_ext := k\<rparr> in
         case res of
           Inl e \<Rightarrow> wd_publish [new_event (clks 0) ''agent.capsule_failed'' (avp_TaskID agent) (avp_AgentID agent) ''runtime''
             [(''error'', GStr (h_text h e))]] w1
         | Inr rt \<Rightarrow> let w2 = on_registry (SetCapsule (clks 0) (avp_AgentID agent) (cr_CgroupPath rt) (cr_Mode rt)) w1 in
             (case ensureAgentWorkspace h (\<lambda>i. clks (i + 1)) (avp_TaskID agent) (avp_AgentID agent) w2 of
                (Inl _, w3) \<Rightarrow> w3
              | (Inr ws, w3) \<Rightarrow> on_registry (SetWorkspace (clks 3) (avp_AgentID agent) (ws_MergedDir ws)) w3)))"

text \<open>\<open>HandleMessage\<close> of the registry with its callback.\<close>

definition world_HandleMessage :: "'k host \<Rightarrow> (nat \<Rightarrow> clock) \<Rightarrow> WMessage \<Rightarrow> 'k World \<Rightarrow> 'k World" where
  "world_HandleMessage h clks message w = (case wd_registry w of None \<Rightarrow> w
     | Some r \<Rightarrow> (case HandleMessage (clks 0) message r of (r', called, ev) \<Rightarrow>
         let w1 = wd_publish ev (w\<lparr>wd_registry := Some r'\<rparr>) in
         case called of None \<Rightarrow> w1 | Some agent \<Rightarrow> onRegister h (clks \<circ> Suc) agent w1))"

definition handleAgentReport :: "'k host \<Rightarrow> (nat \<Rightarrow> clock) \<Rightarrow> Report \<Rightarrow> 'k World \<Rightarrow> 'k World" where
  "handleAgentReport h clks rpt w = (if wd_registry w = None then w
     else world_HandleMessage h clks \<lparr>wm_Type = MessageReport, wm_RequestID = [], wm_AgentID = rpt_AgentID rpt, wm_Role = [],
       wm_TaskID = rpt_TaskID rpt, wm_PID = 0, wm_Status = rpt_Status rpt, wm_Name = [], wm_Args = None,
       wm_Payload = rpt_Payload rpt\<rparr> w)"

definition observeKernelExec :: "clock \<Rightarrow> GExecObservation \<Rightarrow> 'k World \<Rightarrow> 'k World" where
  "observeKernelExec clk x w = (case ObserveExec clk \<lparr>eo_TaskID = geo_TaskID x, eo_AgentID = geo_AgentID x, eo_PID = geo_PID x,
       eo_Command = geo_Command x, eo_Args = geo_Args x, eo_CgroupPath = [], eo_Workspace = geo_Workspace x,
       eo_Status = geo_Status x\<rparr> (wd_kernel w) of (event, obs, ev) \<Rightarrow> wd_publish ev (w\<lparr>wd_kernel := obs\<rparr>))"

section \<open>Spawning\<close>

text \<open>Mounting every page in turn; errors are ignored.\<close>

fun mount_all :: "(nat \<Rightarrow> clock) \<Rightarrow> string \<Rightarrow> string list \<Rightarrow> Store \<Rightarrow> Store \<times> Event list" where
  "mount_all clks agentID [] s = (s, [])"
| "mount_all clks agentID (pageID # ids) s = (case MountPage (clks 0) agentID pageID s of (_, s1, ev) \<Rightarrow>
     (case mount_all (clks \<circ> Suc) agentID ids s1 of (s2, ev') \<Rightarrow> (s2, ev @ ev')))"

definition spawn_registry ::
    "'k host \<Rightarrow> (nat \<Rightarrow> clock) \<Rightarrow> SpawnRequest \<Rightarrow> string \<Rightarrow> 'k World \<Rightarrow> string \<times> 'k World" where
  "spawn_registry h clks q agentID w = (case wd_registry w of None \<Rightarrow> (state_str StateCreated, w)
     | Some r \<Rightarrow>
       let (agent, w1) = (case reg_Get agentID r of Some a \<Rightarrow> (a, w)
             | None \<Rightarrow> (case CreateAgent (clks 0) agentID (sq_Role q) (sq_TaskID q) r of (a, r', ev) \<Rightarrow>
                 (a, wd_publish ev (w\<lparr>wd_registry := Some r'\<rparr>))))
       in (state_str (avp_State agent),
           case ensureAgentWorkspace h (\<lambda>i. clks (i + 1)) (sq_TaskID q) agentID w1 of
             (Inl _, w2) \<Rightarrow> w2
           | (Inr ws, w2) \<Rightarrow> on_registry (SetWorkspace (clks 3) agentID (ws_MergedDir ws)) w2))"

definition spawn_task :: "SpawnRequest \<Rightarrow> string \<Rightarrow> string \<Rightarrow> (string \<rightharpoonup> DemoResult) \<Rightarrow> string \<rightharpoonup> DemoResult" where
  "spawn_task q agentID state tasks = (case tasks (sq_TaskID q) of None \<Rightarrow> tasks
     | Some task \<Rightarrow> tasks(sq_TaskID q \<mapsto> task\<lparr>
         dr_Agents := dr_Agents task @ [demo_agent agentID (sq_Role q) state],
         dr_DAG := dr_DAG task @ [\<lparr>dn_ID = agentID, dn_Role = sq_Role q, dn_Dependencies = sq_Dependencies q\<rparr>]\<rparr>))"

definition spawnAgent ::
    "'k host \<Rightarrow> (nat \<Rightarrow> clock) \<Rightarrow> SpawnRequest \<Rightarrow> Store option \<Rightarrow> 'k World
     \<Rightarrow> SpawnResult result \<times> Store option \<times> Event list \<times> 'k World" where
  "spawnAgent h clks q s w = (let
       agentID = (if sq_AgentID q = []
         then sq_TaskID q @ ''-'' @ ToLower (sq_Role q) @ ''-'' @ Itoa (unix_nano (clks 0 0)) else sq_AgentID q);
       (state, w1) = spawn_registry h (clks \<circ> Suc) q agentID w;
       (s1, ev) = (case s of None \<Rightarrow> (None, [])
         | Some st \<Rightarrow> if sq_ParentAgentID q = [] then (s, [])
             else (case mount_all (\<lambda>i. clks (i + 5)) agentID (pt_PageIDs (cvm_PageTable (sq_ParentAgentID q) st)) st of
               (st', ev) \<Rightarrow> (Some st', ev)))
     in (Inr \<lparr>sr_AgentID = agentID, sr_Role = sq_Role q, sr_TaskID = sq_TaskID q, sr_State = state\<rparr>, s1, ev,
         w1\<lparr>wd_tasks := spawn_task q agentID state (wd_tasks w1)\<rparr>))"

section \<open>The environment of the gateway\<close>

definition server_env :: "'k host \<Rightarrow> (nat \<Rightarrow> clock) \<Rightarrow> 'k World env" where
  "server_env h clks = \<lparr>env_marshal = h_marshal h, env_text = h_text h, env_cwd = we_cwd (h_workspace h), env_order = h_order h,
     env_WorkspaceDir = adapter_WorkspaceDir h (clks 0), env_Commit = adapter_Commit h (clks 1),
     env_Rollback = adapter_Rollback h (clks 1), env_Destroy = adapter_Destroy h (clks 1),
     env_MkdirAll = (\<lambda>p. \<lambda>w. case on_workspace (on_disk (MkdirAll p)) w of (r, w1) \<Rightarrow> (err_of r, w1)),
     env_run = (\<lambda>command args cwd timeout. \<lambda>w. case h_run h command args cwd timeout (wsm_disk (wd_workspace w), wd_ext w) of
       (outcome, d, k) \<Rightarrow> (outcome, w\<lparr>wd_workspace := (wd_workspace w)\<lparr>wsm_disk := d\<rparr>, wd_ext := k\<rparr>)),
     env_Transfer = (\<lambda>p n. \<lambda>w. case h_transfer h p n (wd_ext w) of (r, k) \<Rightarrow> (r, w\<lparr>wd_ext := k\<rparr>)),
     env_spawner = spawnAgent h (\<lambda>i. clks (i + 2)),
     env_reporter = handleAgentReport h (\<lambda>i. clks (i + 2)),
     env_observer = observeKernelExec (clks 2)\<rparr>"

text \<open>
  \<open>HandleSyscall\<close> of the worker's connection: the message becomes a request of the gateway, and the answer
  carries the message's agent and task. \<open>None\<close> is a missing gateway.
\<close>

definition worker_HandleSyscall ::
    "codec \<Rightarrow> 'g env \<Rightarrow> (nat \<Rightarrow> clock) \<Rightarrow> int \<Rightarrow> WMessage \<Rightarrow> 'g Gateway option \<Rightarrow> WResponse \<times> 'g Gateway option" where
  "worker_HandleSyscall cd env clks elapsed message gateway = (case gateway of
       None \<Rightarrow> (\<lparr>wr_Type = MessageSyscallResult, wr_RequestID = wm_RequestID message, wr_AgentID = wm_AgentID message,
         wr_TaskID = wm_TaskID message, wr_Status = StatusError, wr_Error = ''syscall gateway is not configured'',
         wr_Payload = None\<rparr>, None)
     | Some g \<Rightarrow> (case gw_Handle cd env clks elapsed \<lparr>gq_RequestID = wm_RequestID message, gq_AgentID = wm_AgentID message,
           gq_TaskID = wm_TaskID message, gq_Name = wm_Name message, gq_Args = wm_Args message\<rparr> g of (resp, g') \<Rightarrow>
         (\<lparr>wr_Type = MessageSyscallResult, wr_RequestID = gr_RequestID resp, wr_AgentID = wm_AgentID message,
           wr_TaskID = wm_TaskID message, wr_Status = gr_Status resp, wr_Error = gr_Error resp,
           wr_Payload = gr_Payload resp\<rparr>, Some g')))"

end
