(* ===== verification/ServerRun.thy ===== *)
theory ServerRun
  imports ServerState Checkpoint Supervisor
begin

text \<open>
  The server (\<open>internal/api/server.go\<close>): the demo task with its scheduling loop, the checkpoint taken
  before it, the recovery from checkpoints, the pressure that goes into the scheduler and its events,
  and the injected faults. Each function of the code is one step on the record \<open>Server\<close>.
\<close>

section \<open>State\<close>

record SoftwareRealResult =
  swr_DemoID :: string
  swr_TaskID :: string
  swr_Requirement :: string
  swr_EvidenceMode :: string
  swr_FinalStatus :: string
  swr_Agents :: "DemoAgent list"
  swr_DAGNodes :: int
  swr_SyscallCount :: int
  swr_SchedulerDecisionCount :: int
  swr_ContextPages :: int
  swr_SharedPages :: int
  swr_SavedTokens :: int
  swr_IPCMessages :: int
  swr_ToolExecCount :: int
  swr_FaultInjected :: bool
  swr_FaultRecovered :: bool
  swr_CheckpointUsed :: bool
  swr_CheckpointCount :: int
  swr_CheckpointMode :: string
  swr_FirstTestStatus :: string
  swr_SecondTestStatus :: string
  swr_FirstTestOutput :: string
  swr_SecondTestOutput :: string
  swr_StartedAt :: int
  swr_CompletedAt :: int

record 'k Server =
  sv_cfg :: Config
  sv_gateway :: "'k World Gateway"         \<comment> \<open>with the page store, the blackboard and the world\<close>
  sv_demo :: u64                           \<comment> \<open>the counter of the demo runner\<close>
  sv_pressure :: PConfig
  sv_sampler :: string
  sv_checkpoints :: disk
  sv_scheduler :: Scheduler
  sv_supervisor :: Supervisor
  sv_launcher :: Launcher
  sv_started :: "Spec list"                \<comment> \<open>the worker processes started so far\<close>
  sv_heartbeatTimeout :: int               \<comment> \<open>nanoseconds\<close>
  sv_recovery :: RecoveryReport
  sv_softwareReal :: "SoftwareRealResult option"

definition sv_world :: "'k Server \<Rightarrow> 'k World" where
  "sv_world sv = gw_world (sv_gateway sv)"

definition on_sv_world :: "('k World \<Rightarrow> 'k World) \<Rightarrow> 'k Server \<Rightarrow> 'k Server" where
  "on_sv_world f sv = sv\<lparr>sv_gateway := (sv_gateway sv)\<lparr>gw_world := f (sv_world sv)\<rparr>\<rparr>"

definition sv_publish :: "Event list \<Rightarrow> 'k Server \<Rightarrow> 'k Server" where
  "sv_publish ev = on_sv_world (wd_publish ev)"

definition runtime_event :: "clock \<Rightarrow> string \<Rightarrow> string \<Rightarrow> string \<Rightarrow> payload \<Rightarrow> Event" where
  "runtime_event clk eventType taskID agentID p = new_event clk eventType taskID agentID ''runtime'' p"

text \<open>An operation of the page store, which the server shares with the gateway.\<close>

definition sv_cvm :: "(Store \<Rightarrow> 'a result \<times> Store \<times> Event list) \<Rightarrow> 'k Server \<Rightarrow> 'a result \<times> 'k Server" where
  "sv_cvm f sv = (case gw_cvm (sv_gateway sv) of None \<Rightarrow> (Inl (Errorf ''no page store'' []), sv)
     | Some s \<Rightarrow> (case on_cvm f s (sv_gateway sv) of (r, g) \<Rightarrow> (r, sv\<lparr>sv_gateway := g\<rparr>)))"

definition sv_table :: "'k Server \<Rightarrow> string \<Rightarrow> string list" where
  "sv_table sv agentID = (case gw_cvm (sv_gateway sv) of None \<Rightarrow> [] | Some s \<Rightarrow> pt_PageIDs (cvm_PageTable agentID s))"

text \<open>A syscall: the gateway takes the even clocks, the callbacks the odd ones.\<close>

definition sv_Handle :: "'k host \<Rightarrow> (nat \<Rightarrow> clock) \<Rightarrow> int \<Rightarrow> GRequest \<Rightarrow> 'k Server \<Rightarrow> GResponse \<times> 'k Server" where
  "sv_Handle h clks elapsed req sv =
     (case gw_Handle (h_codec h) (server_env h (\<lambda>i. clks (2 * i + 1))) (\<lambda>i. clks (2 * i)) elapsed req (sv_gateway sv) of
        (resp, g) \<Rightarrow> (resp, sv\<lparr>sv_gateway := g\<rparr>))"

section \<open>Demo\<close>

definition page_id :: "Page result \<Rightarrow> string" where     \<comment> \<open>\<open>page.ID\<close> of the zero page after an error\<close>
  "page_id r = (case r of Inl _ \<Rightarrow> [] | Inr p \<Rightarrow> pg_ID p)"

definition KindSystem :: PageKind where "KindSystem = ''system''"
definition KindProject :: PageKind where "KindProject = ''project''"
definition KindTask :: PageKind where "KindTask = ''task''"

fun seed_agents ::
    "codec \<Rightarrow> (nat \<Rightarrow> clock) \<Rightarrow> string \<Rightarrow> string \<Rightarrow> string \<Rightarrow> string \<Rightarrow> DemoAgent list \<Rightarrow> 'k Server \<Rightarrow> 'k Server" where
  "seed_agents cd clks system project task taskID [] sv = sv"
| "seed_agents cd clks system project task taskID (a # as) sv = (let
       mount = (\<lambda>n pageID sv. snd (sv_cvm (MountPage (clks n) (da_ID a) pageID) sv));
       sv1 = mount 2 task (mount 1 project (mount 0 system sv));
       sv2 = snd (sv_cvm (WriteDelta cd (clks 3) (da_ID a)
         (''Agent '' @ da_Role a @ '' private scratch for '' @ taskID @ ''.'' @ [CHR 10])) sv1)
     in seed_agents cd (\<lambda>n. clks (n + 4)) system project task taskID as sv2)"

definition seedContext :: "codec \<Rightarrow> (nat \<Rightarrow> clock) \<Rightarrow> string \<Rightarrow> DemoAgent list \<Rightarrow> 'k Server \<Rightarrow> 'k Server" where
  "seedContext cd clks taskID agents sv = (let
       (system, sv1) = sv_cvm (CreatePage cd (clks 0) KindSystem
         (''You are an AORT-R software engineering agent.'' @ [CHR 10])) sv;
       (project, sv2) = sv_cvm (CreatePage cd (clks 1) KindProject
         (''Project: implement a Todo Web API with create, list, and complete operations.'' @ [CHR 10])) sv1;
       (task, sv3) = sv_cvm (CreatePage cd (clks 2) KindTask
         (''Task: produce code, tests, review feedback, and fixes through runtime syscalls.'' @ [CHR 10])) sv2
     in seed_agents cd (\<lambda>n. clks (n + 3)) (page_id system) (page_id project) (page_id task) taskID agents sv3)"

definition agentIDForRole :: "DemoAgent list \<Rightarrow> string \<Rightarrow> string \<Rightarrow> string" where
  "agentIDForRole agents roleNeedle fallback =
     (case find (\<lambda>a. Contains (ToLower (da_Role a)) roleNeedle) agents of None \<Rightarrow> fallback | Some a \<Rightarrow> da_ID a)"

definition demo_request :: "DemoResult \<Rightarrow> string \<Rightarrow> string \<Rightarrow> string \<Rightarrow> payload \<Rightarrow> GRequest" where
  "demo_request result sfx agentID name args = \<lparr>gq_RequestID = dr_TaskID result @ sfx, gq_AgentID = agentID,
     gq_TaskID = dr_TaskID result, gq_Name = name, gq_Args = Some args\<rparr>"

text \<open>\<open>cs i\<close> are the clocks of the i-th step and \<open>els i\<close> the time its syscall takes.\<close>

definition runDemoRuntimeEvidence ::
    "'k host \<Rightarrow> (nat \<Rightarrow> nat \<Rightarrow> clock) \<Rightarrow> (nat \<Rightarrow> int) \<Rightarrow> DemoResult \<Rightarrow> 'k Server \<Rightarrow> 'k Server" where
  "runDemoRuntimeEvidence h cs els result sv = (let
       plannerID = agentIDForRole (dr_Agents result) ''planner'' ''planner-1'';
       reviewerID = agentIDForRole (dr_Agents result) ''reviewer'' (dr_TaskID result @ ''-reviewer'');
       fixerID = agentIDForRole (dr_Agents result) ''fixer'' (dr_TaskID result @ ''-fixer'');
       sv1 = on_sv_world (on_registry (\<lambda>r. if reg_Get reviewerID r = None
         then snd (CreateAgent (cs 0 0) reviewerID ''Reviewer'' (dr_TaskID result) r) else (r, []))) sv
     in case sv_cvm (WriteDelta (h_codec h) (cs 0 1) reviewerID
          (''Reviewer feedback: go test failed, spawn Fixer and pass review feedback by page reference.'' @ [CHR 10])) sv1 of
       (Inl _, sv2) \<Rightarrow> sv2
     | (Inr reviewPage, sv2) \<Rightarrow> let call = (\<lambda>n req sv. snd (sv_Handle h (cs n) (els n) req sv)) in
         call 5 (demo_request result ''-ipc-poll'' fixerID ''ipc.poll'' [(''topic'', GStr ''review.feedback'')])
         (call 4 (demo_request result ''-agent-spawn'' reviewerID ''agent.spawn'' [(''agent_id'', GStr fixerID),
            (''role'', GStr ''fixer''), (''reason'', GStr ''tester reported a failing go test''),
            (''dependencies'', GList [GStr reviewerID])])
         (call 3 (demo_request result ''-ipc-publish'' reviewerID ''ipc.publish'' [(''topic'', GStr ''review.feedback''),
            (''page_id'', GStr (pg_ID reviewPage)), (''size_bytes'', GInt (pg_Bytes reviewPage))])
         (call 2 (demo_request result ''-tool-exec'' plannerID ''tool.exec'' [(''command'', GStr ''pwd''),
            (''timeout_ms'', GInt 1000)])
         (call 1 (demo_request result ''-llm-call'' plannerID ''llm.call'' [(''role'', GStr ''planner'')]) sv2)))))"

section \<open>Checkpoints\<close>

text \<open>What the file system answers to a save, and the order of the range over the registry.\<close>

record save_io =
  si_mkdir :: "go_error option"
  si_write :: "(go_error \<times> Snapshot result) option"
  si_order :: "string list"

definition demo_to_agent :: "string \<Rightarrow> DemoAgent \<Rightarrow> AVP" where
  "demo_to_agent taskID a = zero_AVP\<lparr>avp_AgentID := da_ID a, avp_TaskID := taskID, avp_Role := da_Role a,
     avp_State := state_of (da_State a), avp_PID := da_PID a, avp_CgroupPath := da_CgroupPath a, avp_LastSeen := da_LastSeen a\<rparr>"

definition checkpoint_agents :: "string list \<Rightarrow> DemoResult \<Rightarrow> 'k Server \<Rightarrow> AVP list" where
  "checkpoint_agents ks result sv = (case wd_registry (sv_world sv) of
       None \<Rightarrow> map (demo_to_agent (dr_TaskID result)) (dr_Agents result)
     | Some r \<Rightarrow> ListByTask ks (dr_TaskID result) r)"

definition snapshot_of :: "AVP list \<Rightarrow> DemoResult \<Rightarrow> int \<Rightarrow> 'k Server \<Rightarrow> Snapshot" where
  "snapshot_of agents result sequence sv = \<lparr>snap_TaskID = dr_TaskID result, snap_Sequence = sequence, snap_Agents = agents,
     snap_PageTables = foldl (\<lambda>m a. m(avp_AgentID a \<mapsto> sv_table sv (avp_AgentID a))) Map.empty agents,
     snap_SchedulerVRuntime = foldl (\<lambda>m a. m(avp_AgentID a \<mapsto> avp_VRuntime a)) Map.empty agents,
     snap_TraceOffset = 0, snap_Mode = ''runtime-state'', snap_CreatedAt = 0\<rparr>"

definition saveCheckpoint :: "'k host \<Rightarrow> (nat \<Rightarrow> clock) \<Rightarrow> save_io \<Rightarrow> DemoResult \<Rightarrow> int \<Rightarrow> 'k Server \<Rightarrow> 'k Server" where
  "saveCheckpoint h clks io result sequence sv = (let
       agents = checkpoint_agents (si_order io) result sv;
       snapshot = snapshot_of agents result sequence sv
     in case Save (clks 0) (si_mkdir io) (si_write io) snapshot (sv_checkpoints sv) of
         (Inl e, d) \<Rightarrow> sv_publish [runtime_event (clks 1) ''checkpoint.failed'' (dr_TaskID result) [] [(''error'', GStr (h_text h e))]]
           (sv\<lparr>sv_checkpoints := d\<rparr>)
       | (Inr _, d) \<Rightarrow> sv_publish [runtime_event (clks 1) ''checkpoint.created'' (dr_TaskID result) []
             [(''sequence'', GInt sequence), (''mode'', GStr (snap_Mode snapshot)),
              (''agent_count'', GInt (int (length (snap_Agents snapshot))))]]
           (sv\<lparr>sv_checkpoints := d\<rparr>))"

section \<open>Pressure\<close>

definition pressurePayload :: "PStatus \<Rightarrow> payload" where
  "pressurePayload s = [(''mode'', GStr (ps_Mode s)), (''degraded'', GBool (ps_Degraded s)), (''reason'', GStr (ps_Reason s)),
     (''throttle'', GBool (ps_Throttle s)), (''throttle_reason'', GStr (ps_ThrottleReason s)),
     (''cpu_avg10'', GFloat (ln_Avg10 (pr_Some (ps_CPU s)))), (''memory_avg10'', GFloat (ln_Avg10 (pr_Some (ps_Memory s)))),
     (''io_avg10'', GFloat (ln_Avg10 (pr_Some (ps_IO s)))), (''sampled_at'', GInt64 (ps_SampledAt s))]"

definition status_payload :: "PStatus \<Rightarrow> payload" where
  "status_payload s = [(''pressure_mode'', GStr (ps_Mode s)), (''pressure_degraded'', GBool (ps_Degraded s)),
     (''pressure_throttle'', GBool (ps_Throttle s)), (''pressure_reason'', GStr (ps_ThrottleReason s)),
     (''pressure_cpu_avg10'', GFloat (ln_Avg10 (pr_Some (ps_CPU s)))),
     (''pressure_memory_avg10'', GFloat (ln_Avg10 (pr_Some (ps_Memory s)))),
     (''pressure_io_avg10'', GFloat (ln_Avg10 (pr_Some (ps_IO s))))]"

definition payload_put :: "payload \<Rightarrow> string \<times> gval \<Rightarrow> payload" where
  "payload_put p kv = filter (\<lambda>q. fst q \<noteq> fst kv) p @ [kv]"

definition sv_sample :: "'k host \<Rightarrow> clock \<Rightarrow> 'k Server \<Rightarrow> PStatus" where
  "sv_sample h clk sv = psi_Sample (h_psi h (clk 0)) clk (sv_pressure sv)"

definition withPressurePayload :: "'k host \<Rightarrow> (nat \<Rightarrow> clock) \<Rightarrow> payload \<Rightarrow> 'k Server \<Rightarrow> payload \<times> 'k Server" where
  "withPressurePayload h clks p sv = (let status = sv_sample h (clks 0) sv in
     (foldl payload_put p (status_payload status),
      sv_publish [runtime_event (clks 1) ''pressure.sampled'' [] [] (pressurePayload status)] sv))"

definition maxResourcePressure :: "ResourcePressure \<Rightarrow> ResourcePressure \<Rightarrow> ResourcePressure" where
  "maxResourcePressure left right = (let up = (\<lambda>f. if f left < f right then f right else (f left :: f64)) in
     \<lparr>rp_MemoryPressure = up rp_MemoryPressure, rp_PidsPressure = up rp_PidsPressure,
      rp_CPUThrottlePressure = up rp_CPUThrottlePressure, rp_PSIPressure = up rp_PSIPressure,
      rp_EvidenceMode = (if rp_EvidenceMode right \<noteq> [] then rp_EvidenceMode right else rp_EvidenceMode left),
      rp_FallbackReason = (if rp_FallbackReason right \<noteq> [] then rp_FallbackReason right else rp_FallbackReason left)\<rparr>)"

definition sampleSchedulerResourcePressure :: "'k host \<Rightarrow> clock \<Rightarrow> 'k Server \<Rightarrow> ResourcePressure \<times> 'k Server" where
  "sampleSchedulerResourcePressure h clk sv = (let
       status = sv_sample h clk sv;
       avg = (\<lambda>r. ln_Avg10 (pr_Some r));
       p0 = avg (ps_CPU status);
       p1 = (if p0 < avg (ps_Memory status) then avg (ps_Memory status) else p0);
       p2 = (if p1 < avg (ps_IO status) then avg (ps_IO status) else p1);
       reason = (if \<not> ps_Degraded status then []
         else if ps_Reason status = [] then ''PSI pressure files unavailable'' else ps_Reason status);
       sched = SetResourcePressure (zero_ResourcePressure\<lparr>rp_PSIPressure := p2 div Fin 100,
         rp_EvidenceMode := (if ps_Degraded status then ModeDegraded else ModeRealCgroupV2), rp_FallbackReason := reason\<rparr>)
         (sv_scheduler sv)
     in (sched_ResourcePressure sched, sv\<lparr>sv_scheduler := sched\<rparr>))"

definition decision_payload :: "DecisionLog \<Rightarrow> PStatus \<Rightarrow> ResourcePressure \<Rightarrow> payload" where
  "decision_payload decision status p = [(''policy'', GStr (dl_Policy decision)), (''decision_id'', GStr (dl_ID decision)),
       (''decision_reason'', GStr (dl_Reason decision)), (''candidates'', GStrs (dl_Candidates decision)),
       (''shared_pages'', GIntMap (dl_SharedPages decision)), (''vruntime_before'', GUintMap (dl_VRuntimeBefore decision))]
     @ status_payload status
     @ [(''memory_pressure'', GFloat (rp_MemoryPressure p)), (''pids_pressure'', GFloat (rp_PidsPressure p)),
        (''cpu_throttle_pressure'', GFloat (rp_CPUThrottlePressure p)), (''psi_pressure'', GFloat (rp_PSIPressure p)),
        (''evidence_mode'', GStr (rp_EvidenceMode p)), (''fallback_reason'', GStr (rp_FallbackReason p))]"

definition publishSchedulerDecision :: "'k host \<Rightarrow> (nat \<Rightarrow> clock) \<Rightarrow> DecisionLog \<Rightarrow> 'k Server \<Rightarrow> 'k Server" where
  "publishSchedulerDecision h clks decision sv = (case sampleSchedulerResourcePressure h (clks 0) sv of (p, sv1) \<Rightarrow>
     let status = sv_sample h (clks 1) sv1; body = decision_payload decision status p;
         event = (\<lambda>clk eventType source p. new_event clk eventType (dl_TaskID decision) (dl_SelectedAgent decision) source p)
     in sv_publish ([event (clks 2) ''pressure.sampled'' ''runtime'' (pressurePayload status)]
          @ (if ps_Throttle status then [event (clks 3) ''scheduler.pressure_throttle'' ''scheduler'' body] else [])
          @ [event (clks 4) ''scheduler.selected'' ''scheduler'' body]) sv1)"

section \<open>Scheduling\<close>

text \<open>The candidates, the maximum of their pressures and whether any was sampled.\<close>

fun candidates_loop ::
    "psi_env \<Rightarrow> string \<Rightarrow> Registry \<Rightarrow> (string \<Rightarrow> string list) \<Rightarrow> Spec list \<Rightarrow> ResourcePressure \<Rightarrow> bool
     \<Rightarrow> AVP list \<times> ResourcePressure \<times> bool" where
  "candidates_loop env rt r pages [] combined sampled = ([], combined, sampled)"
| "candidates_loop env rt r pages (spec # specs) combined sampled = (case reg_Get (spec_AgentID spec) r of
       None \<Rightarrow> candidates_loop env rt r pages specs combined sampled
     | Some agent0 \<Rightarrow> let
           agent1 = agent0\<lparr>avp_State := StateReady, avp_PageTable := pages (spec_AgentID spec)\<rparr>;
           (agent, combined1, sampled1) = (if avp_CgroupPath agent1 = [] then (agent1, combined, sampled)
             else case Enrich env rt agent1 of (enriched, p, err) \<Rightarrow>
               if err = None then (enriched, maxResourcePressure combined p, True) else (agent1, combined, sampled));
           (rest, out) = candidates_loop env rt r pages specs combined1 sampled1
         in (agent # rest, out))"

definition schedulerCandidates :: "'k host \<Rightarrow> clock \<Rightarrow> Spec list \<Rightarrow> 'k Server \<Rightarrow> AVP list \<times> 'k Server" where
  "schedulerCandidates h clk pending sv = (case wd_registry (sv_world sv) of None \<Rightarrow> ([], sv)
     | Some r \<Rightarrow> (case candidates_loop (h_psi h (clk 0)) (sv_sampler sv) r (sv_table sv) pending zero_ResourcePressure False of
         (candidates, combined, sampled) \<Rightarrow>
           (candidates, if sampled then sv\<lparr>sv_scheduler := SetResourcePressure combined (sv_scheduler sv)\<rparr> else sv)))"

text \<open>\<open>popSpec\<close>: the first spec of the agent, or the first spec, and the others.\<close>

fun pop_loop :: "Spec list \<Rightarrow> string \<Rightarrow> (Spec \<times> Spec list) option" where
  "pop_loop [] agentID = None"
| "pop_loop (spec # specs) agentID = (if spec_AgentID spec = agentID then Some (spec, specs)
     else map_option (\<lambda>(x, rest). (x, spec # rest)) (pop_loop specs agentID))"

definition popSpec :: "Spec list \<Rightarrow> string \<Rightarrow> Spec \<times> Spec list" where
  "popSpec specs agentID = (case pop_loop specs agentID of Some p \<Rightarrow> p | None \<Rightarrow> (hd specs, tl specs))"

lemma pop_loop_length: "pop_loop specs agentID = Some (spec, rest) \<Longrightarrow> length specs = Suc (length rest)"
  by (induction specs arbitrary: rest) (auto split: if_splits)

lemma popSpec_length: "specs \<noteq> [] \<Longrightarrow> popSpec specs agentID = (spec, rest) \<Longrightarrow> length rest < length specs"
  by (cases specs) (auto simp: popSpec_def dest: pop_loop_length split: option.splits if_splits)

definition launcher_Start :: "'k host \<Rightarrow> Spec \<Rightarrow> 'k Server \<Rightarrow> go_error option \<times> 'k Server" where
  "launcher_Start h spec sv = (case launcher_argv (sv_launcher sv) spec of
       Inl e \<Rightarrow> (Some e, sv)
     | Inr argv \<Rightarrow> (case h_start h argv (wd_ext (sv_world sv)) of (res, k) \<Rightarrow> let sv1 = on_sv_world (\<lambda>w. w\<lparr>wd_ext := k\<rparr>) sv in
         case res of Inl e \<Rightarrow> (Some e, sv1) | Inr pid \<Rightarrow> (None, sv1\<lparr>sv_started := sv_started sv1 @ [spec]\<rparr>)))"

text \<open>The loop of \<open>runDemo\<close>: one worker is selected and started in every round.\<close>

function demo_loop :: "'k host \<Rightarrow> (nat \<Rightarrow> nat \<Rightarrow> clock) \<Rightarrow> string \<Rightarrow> Spec list \<Rightarrow> 'k Server \<Rightarrow> go_error option \<times> 'k Server" where
  "demo_loop h cs taskID pending sv = (if pending = [] then (None, sv)
     else case schedulerCandidates h (cs 0 0) pending sv of (candidates, sv1) \<Rightarrow>
       (case Select (cs 0 1) taskID candidates (sv_scheduler sv1) of
          (None, _) \<Rightarrow> (Some (Errorf ''scheduler found no ready agents for %s'' [taskID]), sv1)
        | (Some (selected, decision), sched) \<Rightarrow>
            let sv2 = publishSchedulerDecision h (\<lambda>n. cs 0 (n + 2)) decision (sv1\<lparr>sv_scheduler := sched\<rparr>) in
            (case popSpec pending (avp_AgentID selected) of (spec, next) \<Rightarrow>
               (case launcher_Start h spec sv2 of
                  (Some e, sv3) \<Rightarrow> (Some e, sv_publish [runtime_event (cs 0 7) ''agent.worker_start_failed'' taskID (spec_AgentID spec)
                     [(''error'', GStr (h_text h e))]] sv3)
                | (None, sv3) \<Rightarrow> demo_loop h (cs \<circ> Suc) taskID next sv3))))"
  by pat_completeness auto
termination
  by (relation "measure (\<lambda>(h, cs, taskID, pending, sv). length pending)") (auto dest: popSpec_length [OF _ sym])

declare demo_loop.simps [simp del]


text \<open>
  \<open>runDemo\<close>. \<open>cs\<close> are the clocks of its phases, \<open>els i\<close> the times of the syscalls, \<open>ctx\<close> the error of a
  finished context.
\<close>

definition worker_dag :: "DAGNode list" where
  "worker_dag = [\<lparr>dn_ID = ''planner'', dn_Role = ''Planner'', dn_Dependencies = []\<rparr>,
     \<lparr>dn_ID = ''coder'', dn_Role = ''Coder'', dn_Dependencies = [''planner'']\<rparr>,
     \<lparr>dn_ID = ''tester'', dn_Role = ''Tester'', dn_Dependencies = [''coder'']\<rparr>,
     \<lparr>dn_ID = ''reviewer'', dn_Role = ''Reviewer'', dn_Dependencies = [''tester'']\<rparr>]"

definition worker_specs :: "string \<Rightarrow> Spec list" where
  "worker_specs taskID = map (\<lambda>(sfx, role). \<lparr>spec_AgentID = taskID @ sfx, spec_Role = role, spec_TaskID = taskID\<rparr>)
     [(''-planner'', ''Planner''), (''-coder'', ''Coder''), (''-tester'', ''Tester''), (''-reviewer'', ''Reviewer'')]"

definition capsuleEvidenceMode :: "string \<Rightarrow> string \<Rightarrow> string" where
  "capsuleEvidenceMode mode cgroupPath = (
     if mode = cap_ModeReal \<and> HasPrefix cgroupPath ''/sys/fs/cgroup/'' then ''real-cgroup-v2''
     else if mode = cap_ModeReal \<and> cgroupPath \<noteq> [] then ''real-cgroup-v2''
     else if mode = cap_ModeDegraded then ''degraded'' else ModeMissing)"

definition agentToDemo :: "AVP \<Rightarrow> DemoAgent" where
  "agentToDemo a = \<lparr>da_ID = avp_AgentID a, da_Role = avp_Role a, da_State = state_str (avp_State a), da_PID = avp_PID a,
     da_LastSeen = avp_LastSeen a, da_CapsuleMode = avp_CapsuleMode a,
     da_CapsuleEvidenceMode = capsuleEvidenceMode (avp_CapsuleMode a) (avp_CgroupPath a), da_CgroupPath = avp_CgroupPath a\<rparr>"

fun create_agents :: "(nat \<Rightarrow> clock) \<Rightarrow> Spec list \<Rightarrow> Registry \<Rightarrow> DemoAgent list \<times> Registry \<times> Event list" where
  "create_agents clks [] r = ([], r, [])"
| "create_agents clks (spec # specs) r = (case CreateAgent (clks 0) (spec_AgentID spec) (spec_Role spec) (spec_TaskID spec) r of
     (agent, r1, ev) \<Rightarrow> (case create_agents (clks \<circ> Suc) specs r1 of (as, r2, ev') \<Rightarrow> (agentToDemo agent # as, r2, ev @ ev')))"

fun publish_demo :: "'k host \<Rightarrow> (nat \<Rightarrow> nat \<Rightarrow> clock) \<Rightarrow> Event list \<Rightarrow> 'k Server \<Rightarrow> 'k Server" where
  "publish_demo h cs [] sv = sv"
| "publish_demo h cs (e # es) sv = (let
       (event, sv1) = (if ev_Type e = ''scheduler.selected''
         then (case withPressurePayload h (cs 0) (ev_Payload e) sv of (p, sv') \<Rightarrow> (e\<lparr>ev_Payload := p\<rparr>, sv')) else (e, sv))
     in publish_demo h (cs \<circ> Suc) es (sv_publish [event] sv1))"

definition runDemo_mock ::
    "'k host \<Rightarrow> (nat \<Rightarrow> nat \<Rightarrow> nat \<Rightarrow> clock) \<Rightarrow> (nat \<Rightarrow> int) \<Rightarrow> save_io \<Rightarrow> go_error option \<Rightarrow> 'k Server
     \<Rightarrow> DemoResult result \<times> 'k Server" where
  "runDemo_mock h cs els io ctx sv = (case demo_Run ctx (sv_demo sv) of
       (Inl e, n) \<Rightarrow> (Inl e, sv\<lparr>sv_demo := n\<rparr>)
     | (Inr result, n) \<Rightarrow> let
           sv1 = seedContext (h_codec h) (cs 0 0) (dr_TaskID result) (dr_Agents result) (sv\<lparr>sv_demo := n\<rparr>);
           sv2 = runDemoRuntimeEvidence h (cs 1) els result sv1;
           sv3 = saveCheckpoint h (cs 2 0) io result 1 sv2
         in (Inr result, publish_demo h (cs 3) (dr_Events result) sv3))"

definition runDemo_workers ::
    "'k host \<Rightarrow> (nat \<Rightarrow> nat \<Rightarrow> nat \<Rightarrow> clock) \<Rightarrow> (nat \<Rightarrow> int) \<Rightarrow> save_io \<Rightarrow> Registry \<Rightarrow> 'k Server
     \<Rightarrow> DemoResult result \<times> 'k Server" where
  "runDemo_workers h cs els io r sv = (let
       taskID = ''task-'' @ Itoa (unix_nano (cs 0 0 0 0));
       sv1 = sv_publish [runtime_event (cs 0 0 1) ''task.created'' taskID [] [(''mode'', GStr ''worker'')]] sv;
       specs = worker_specs taskID;
       (agents, r1, ev) = create_agents (cs 1 0) specs r;
       result = \<lparr>dr_TaskID = taskID, dr_Status = ''running'', dr_Agents = agents, dr_DAG = worker_dag, dr_Events = []\<rparr>;
       sv2 = sv_publish ev (on_sv_world (\<lambda>w. w\<lparr>wd_registry := Some r1\<rparr>) sv1);
       sv3 = seedContext (h_codec h) (cs 2 0) taskID agents sv2;
       sv4 = runDemoRuntimeEvidence h (cs 3) els result sv3;
       sv5 = saveCheckpoint h (cs 4 0) io result 1 sv4
     in case demo_loop h (cs 5) taskID specs sv5 of
          (Some e, sv6) \<Rightarrow> (Inl e, sv6) | (None, sv6) \<Rightarrow> (Inr result, sv6))"

definition runDemo ::
    "'k host \<Rightarrow> (nat \<Rightarrow> nat \<Rightarrow> nat \<Rightarrow> clock) \<Rightarrow> (nat \<Rightarrow> int) \<Rightarrow> save_io \<Rightarrow> go_error option \<Rightarrow> 'k Server
     \<Rightarrow> DemoResult result \<times> 'k Server" where
  "runDemo h cs els io ctx sv = (case wd_registry (sv_world sv) of
       None \<Rightarrow> runDemo_mock h cs els io ctx sv | Some r \<Rightarrow> runDemo_workers h cs els io r sv)"

section \<open>Recovery\<close>

text \<open>What the two listings of the checkpoint directory find, and the orders of the ranges over maps.\<close>

record recover_io =
  ro_walk1 :: "go_error option"
  ro_files1 :: "(string \<times> Snapshot result) list"
  ro_walk2 :: "go_error option"
  ro_files2 :: "(string \<times> Snapshot result) list"
  ro_ids :: "string list"
  ro_tables :: "Snapshot \<Rightarrow> string list"

definition isRecoveredTerminal :: "AgentState \<Rightarrow> bool" where
  "isRecoveredTerminal st \<longleftrightarrow> st = StateCompleted \<or> st = StateFailed \<or> st = StateKilled"

definition recovered_state :: "AVP \<Rightarrow> AgentState" where
  "recovered_state a = (if isRecoveredTerminal (avp_State a) then avp_State a else StateReady)"

definition latestSnapshotsByTask :: "Snapshot list \<Rightarrow> string \<rightharpoonup> Snapshot" where
  "latestSnapshotsByTask ss = foldl (\<lambda>m s. if snap_TaskID s = [] then m else m(snap_TaskID s \<mapsto> s)) Map.empty ss"

definition taskFromSnapshot :: "clock \<Rightarrow> Snapshot \<Rightarrow> string \<Rightarrow> DemoResult" where
  "taskFromSnapshot clk s status = \<lparr>dr_TaskID = snap_TaskID s, dr_Status = (if status = [] then ''recovered'' else status),
     dr_Agents = map (\<lambda>a. (agentToDemo a)\<lparr>da_State := state_str (recovered_state a)\<rparr>) (snap_Agents s),
     dr_DAG = map (\<lambda>a. \<lparr>dn_ID = avp_AgentID a, dn_Role = avp_Role a, dn_Dependencies = avp_Dependencies a\<rparr>) (snap_Agents s),
     dr_Events = [runtime_event clk ''checkpoint.recovered'' (snap_TaskID s) []
       [(''sequence'', GInt (snap_Sequence s)), (''mode'', GStr (snap_Mode s))]]\<rparr>"

fun restore_agents :: "(nat \<Rightarrow> clock) \<Rightarrow> AVP list \<Rightarrow> Registry \<Rightarrow> Registry \<times> Event list" where
  "restore_agents clks [] r = (r, [])"
| "restore_agents clks (a # as) r = (case RestoreAgent (clks 0) (a\<lparr>avp_State := recovered_state a\<rparr>) r of (r1, ev) \<Rightarrow>
     (case restore_agents (clks \<circ> Suc) as r1 of (r2, ev') \<Rightarrow> (r2, ev @ ev')))"

definition recoverRegistryAgents :: "(nat \<Rightarrow> clock) \<Rightarrow> Snapshot \<Rightarrow> 'k World \<Rightarrow> 'k World" where
  "recoverRegistryAgents clks s w = on_registry (restore_agents clks (snap_Agents s)) w"

fun recover_tasks :: "(nat \<Rightarrow> nat \<Rightarrow> clock) \<Rightarrow> (string \<rightharpoonup> Snapshot) \<Rightarrow> RecoveredTask list \<Rightarrow> 'k World \<Rightarrow> 'k World" where
  "recover_tasks cs latest [] w = w"
| "recover_tasks cs latest (t # ts) w = recover_tasks (cs \<circ> Suc) latest ts (case latest (rt_TaskID t) of
       None \<Rightarrow> w
     | Some s \<Rightarrow> recoverRegistryAgents (cs 0 \<circ> Suc) s
         (w\<lparr>wd_tasks := (wd_tasks w)(rt_TaskID t \<mapsto> taskFromSnapshot (cs 0 0) s (rt_Status t))\<rparr>))"

definition recovered_event :: "clock \<Rightarrow> RecoveryReport \<Rightarrow> RecoveredTask \<Rightarrow> Event" where
  "recovered_event clk rep t = runtime_event clk ''checkpoint.recovered'' (rt_TaskID t) []
     [(''sequence'', GInt (rt_Sequence t)), (''status'', GStr (rt_Status t)), (''agent_count'', GInt (rt_AgentCount t)),
      (''ready_agents'', GStrs (rt_ReadyAgents t)), (''completed_agents'', GStrs (rt_CompletedAgents t)),
      (''page_table_refs'', GInt (rt_PageTableRefs t)), (''mode'', GStr (rr_Mode rep)),
      (''degraded'', GBool (rr_Degraded rep))]"

definition recoverFromCheckpoints :: "'k host \<Rightarrow> (nat \<Rightarrow> nat \<Rightarrow> clock) \<Rightarrow> recover_io \<Rightarrow> 'k Server \<Rightarrow> 'k Server" where
  "recoverFromCheckpoints h cs io sv = (let
       fail = (\<lambda>e sv. sv_publish [runtime_event (cs 1 0) ''runtime.recovery_failed'' [] [] [(''error'', GStr (h_text h e))]] sv)
     in case RecoverAll (cs 0 0) (ro_walk1 io) (ro_files1 io) (ro_ids io) (ro_tables io) of
         Inl e \<Rightarrow> fail e (sv\<lparr>sv_recovery := \<lparr>rr_Mode = ''checkpoint-light'', rr_Degraded = True, rr_Reason = h_text h e,
           rr_TaskCount = 0, rr_RecoveredAt = unix_ms (cs 0 0 1), rr_RecoveredTasks = []\<rparr>\<rparr>)
       | Inr rep \<Rightarrow> let sv1 = sv\<lparr>sv_recovery := rep\<rparr> in
           if rr_TaskCount rep = 0 then sv1
           else case checkpoint_List (ro_walk2 io) (ro_files2 io) of
             Inl e \<Rightarrow> fail e sv1
           | Inr snapshots \<Rightarrow>
               sv_publish (map (\<lambda>(n, t). recovered_event (cs 1 n) rep t) (enumerate 1 (rr_RecoveredTasks rep))
                   @ [runtime_event (cs 1 0) ''runtime.recovered'' [] [] [(''mode'', GStr (rr_Mode rep)),
                        (''degraded'', GBool (rr_Degraded rep)), (''task_count'', GInt (rr_TaskCount rep)),
                        (''reason'', GStr (rr_Reason rep))]])
                 (on_sv_world (recover_tasks (\<lambda>n. cs (n + 2)) (latestSnapshotsByTask snapshots) (rr_RecoveredTasks rep)) sv1))"

section \<open>Injected faults\<close>

definition runToolTimeoutFault ::
    "'k host \<Rightarrow> (nat \<Rightarrow> nat \<Rightarrow> clock) \<Rightarrow> int \<Rightarrow> 'k Server \<Rightarrow> FaultRecord \<times> 'k Server" where
  "runToolTimeoutFault h cs elapsed sv = (let
       taskID = ''fault-'' @ Itoa (unix_nano (cs 0 0 0)); agentID = taskID @ ''-agent'';
       (response, sv1) = sv_Handle h (cs 1) elapsed \<lparr>gq_RequestID = taskID @ ''-tool-timeout'', gq_AgentID = agentID,
         gq_TaskID = taskID, gq_Name = ''tool.exec'', gq_Args = Some [(''command'', GStr ''sleep''),
           (''args'', GList [GStr ''1'']), (''timeout_ms'', GInt 10)]\<rparr> sv;
       (r, sup, ev) = sup_Record (cs 2 0) \<lparr>flt_Type = FaultToolTimeout, flt_TaskID = taskID, flt_AgentID = agentID,
         flt_RecoveryAction = ''tool process killed by timeout context'',
         flt_Details = [(''syscall'', GStr ''tool.exec''), (''syscall_status'', GStr (gr_Status response)),
           (''error'', GStr (gr_Error response))]\<rparr> (sv_supervisor sv1)
     in (r, sv_publish ev (sv1\<lparr>sv_supervisor := sup\<rparr>)))"

definition zero_RollbackResult :: RollbackResult where
  "zero_RollbackResult = \<lparr>rb_TaskID = [], rb_AgentID = [], rb_Mode = [], rb_EvidenceMode = [], rb_FallbackReason = [],
     rb_BasePath = [], rb_WorkspacePath = [], rb_RemovedEntries = 0, rb_RollbackSuccess = False, rb_BaseIntact = False\<rparr>"

text \<open>\<open>fixture\<close>: the two files of the snapshot in the order of the range over their map.\<close>

definition fault_fixture :: "(string \<times> string) list" where
  "fault_fixture = [(''README.md'', ''# AORT-R fault fixture'' @ [CHR 10]),
     (''src/service.go'', ''package src'' @ [CHR 10, CHR 10] @ ''func Stable() string { return '' @ [CHR 34] @ ''base'' @ [CHR 34]
        @ '' }'' @ [CHR 10])]"

definition runWorkspaceRMFault ::
    "'k host \<Rightarrow> (nat \<Rightarrow> nat \<Rightarrow> clock) \<Rightarrow> (string \<times> string) list \<Rightarrow> 'k Server \<Rightarrow> FaultRecord \<times> 'k Server" where
  "runWorkspaceRMFault h cs fixture sv = (let
       taskID = ''fault-'' @ Itoa (unix_nano (cs 0 0 0)); agentID = taskID @ ''-agent'';
       (snap, w1) = on_workspace (CreateBaseSnapshot (h_workspace h) (cs 1 0) taskID fixture) (sv_world sv);
       (rolled, w2) = on_workspace (InjectRMAndRollback (h_workspace h) (cs 2 0) taskID agentID) w1;
       result = (case rolled of Inl _ \<Rightarrow> zero_RollbackResult | Inr r \<Rightarrow> r);
       details = [(''workspace_mode'', GStr (rb_Mode result)), (''rollback_success'', GBool (rb_RollbackSuccess result)),
         (''base_intact'', GBool (rb_BaseIntact result)), (''removed_entries'', GInt (rb_RemovedEntries result)),
         (''workspace_path'', GStr (rb_WorkspacePath result)), (''base_path'', GStr (rb_BasePath result))];
       (action, extra) = (case (snap, rolled) of
           (Inl e, _) \<Rightarrow> ([], [(''snapshot_error'', GStr (h_text h e))])
         | (Inr _, Inl e) \<Rightarrow> ([], [(''rollback_error'', GStr (h_text h e))])
         | (Inr _, Inr _) \<Rightarrow> (''agent workspace removed and restored from base snapshot'', []));
       (r, sup, ev) = sup_Record (cs 3 0) \<lparr>flt_Type = FaultWorkspaceRollback, flt_TaskID = taskID, flt_AgentID = agentID,
         flt_RecoveryAction = action, flt_Details = details @ extra\<rparr> (sv_supervisor sv)
     in (r, sv_publish ev (on_sv_world (\<lambda>_. w2) (sv\<lparr>sv_supervisor := sup\<rparr>))))"

definition zero_RMFaultEvidence :: RMFaultEvidence where
  "zero_RMFaultEvidence = \<lparr>rm_Success = False, rm_FaultType = [], rm_TargetAgent = [], rm_Mode = [], rm_EvidenceMode = [],
     rm_RuntimeRoot = [], rm_LowerDirUnchanged = False, rm_TargetAgentAffected = False, rm_UnaffectedAgents = [],
     rm_CascadeFailure = False, rm_RollbackSuccess = False, rm_MergedIsMountpoint = False, rm_CommitSupported = False,
     rm_DestroySuccess = False, rm_FallbackReason = [], rm_BeforeFiles = [], rm_AfterFaultFiles = [],
     rm_AfterRollbackFiles = [], rm_SafetyChecks = \<lparr>sc_RuntimeRootOnly = False, sc_PathEscapeBlocked = False, sc_RepoDirUntouched = False,
       sc_SymlinkEscapeBlocked = False\<rparr>, rm_Timestamp = [], rm_Error = []\<rparr>"

definition runtimeWorkspaceRoot :: "wenv \<Rightarrow> string \<Rightarrow> string" where
  "runtimeWorkspaceRoot env dataDir = (if dataDir = [] \<or> dataDir = ''.aort-dev'' then DefaultRoot env
     else Join [dataDir, ''runtime'', ''workspaces''])"

definition forceDegradedWorkspace :: "wenv \<Rightarrow> Config \<Rightarrow> bool" where
  "forceDegradedWorkspace env cfg \<longleftrightarrow> cfg_WorkerCommand cfg = [] \<and> cfg_SocketPath cfg = []
     \<and> runtimeWorkspaceRoot env (cfg_DataDir cfg) \<noteq> DefaultRoot env"

text \<open>The demonstration has a manager of its own on the same disk.\<close>

definition runWorkspaceRMFaultEvidence ::
    "'k host \<Rightarrow> (nat \<Rightarrow> nat \<Rightarrow> clock) \<Rightarrow> 'k Server \<Rightarrow> RMFaultEvidence \<times> 'k Server" where
  "runWorkspaceRMFaultEvidence h cs sv = (let env = h_workspace h; w = sv_world sv;
       (res, m) = RunRMFaultDemo env (cs 0) (runtimeWorkspaceRoot env (cfg_DataDir (sv_cfg sv))) True
         (forceDegradedWorkspace env (sv_cfg sv)) (wsm_disk (wd_workspace w));
       result = (case res of Inr e \<Rightarrow> e | Inl e \<Rightarrow> zero_RMFaultEvidence\<lparr>rm_Error := h_text h e\<rparr>);
       action = (if rm_Success result then ''workspace_rmrf isolated to target workspace and rolled back''
         else ''workspace_rmrf evidence generated with errors'');
       (r, sup, ev) = sup_Record (cs 1 0) \<lparr>flt_Type = FaultWorkspaceRollback, flt_TaskID = ''workspace-rmrf'',
         flt_AgentID = rm_TargetAgent result, flt_RecoveryAction = action,
         flt_Details = [(''success'', GBool (rm_Success result)), (''fault_type'', GStr (rm_FaultType result)),
           (''mode'', GStr (rm_Mode result)), (''evidence_mode'', GStr (rm_EvidenceMode result)),
           (''fallback_reason'', GStr (rm_FallbackReason result)), (''lowerdir_unchanged'', GBool (rm_LowerDirUnchanged result)),
           (''target_agent_affected'', GBool (rm_TargetAgentAffected result)),
           (''rollback_success'', GBool (rm_RollbackSuccess result)), (''cascade_failure'', GBool (rm_CascadeFailure result)),
           (''destroy_success'', GBool (rm_DestroySuccess result))]\<rparr> (sv_supervisor sv)
     in (result, sv_publish (wsm_out m @ ev) (on_sv_world (\<lambda>w. w\<lparr>wd_workspace := (wd_workspace w)\<lparr>wsm_disk := wsm_disk m\<rparr>\<rparr>)
          (sv\<lparr>sv_supervisor := sup\<rparr>))))"

section \<open>Start\<close>

definition newLLMRouter :: "(string \<Rightarrow> string) \<Rightarrow> 'g provider \<Rightarrow> (DeepSeek \<Rightarrow> 'g provider) \<Rightarrow> 'g Router" where
  "newLLMRouter getenv mock deepseek = (let orDefault = (\<lambda>v. if v = [] then ''mock'' else v) in
     SetFallback (orDefault (getenv ''AORT_LLM_FALLBACK_PROVIDER'')) (SetDefault (orDefault (getenv ''AORT_LLM_PROVIDER''))
       (router_Register ''deepseek'' (deepseek (NewDeepSeekProvider (getenv ''DEEPSEEK_API_KEY'') (getenv ''DEEPSEEK_BASE_URL'')
          (getenv ''DEEPSEEK_MODEL'')))
       (router_Register ''mock'' mock NewRouter))))"

text \<open>\<open>uds\<close> is the error with which the socket server fails to start.\<close>

definition startWorkerRuntime :: "'k host \<Rightarrow> clock \<Rightarrow> go_error option \<Rightarrow> 'k Server \<Rightarrow> 'k Server" where
  "startWorkerRuntime h clk uds sv = (let cfg = sv_cfg sv in
     if cfg_SocketPath cfg = [] \<or> cfg_WorkerCommand cfg = [] then sv
     else let
       capsules = cap_New \<lparr>cc_Root = cfg_CgroupRoot cfg, cc_ForceReal = False, cc_AllowDegraded = True, cc_MemoryMax = [],
         cc_PidsMax = [], cc_CPUMax = [], cc_SignalGracePeriod = 0\<rparr>;
       ms = (if cfg_HeartbeatTimeoutMS cfg \<le> 0 then 6000 else cfg_HeartbeatTimeoutMS cfg);
       sv1 = on_sv_world (\<lambda>w. w\<lparr>wd_registry := Some (SetOnRegister (NewRegistry True)), wd_capsules := Some capsules\<rparr>)
         (sv\<lparr>sv_launcher := \<lparr>la_Command = cfg_WorkerCommand cfg, la_SocketPath = cfg_SocketPath cfg\<rparr>,
           sv_cfg := cfg\<lparr>cfg_HeartbeatTimeoutMS := ms\<rparr>, sv_heartbeatTimeout := sint (word_of_int (ms * 1000000) :: u64)\<rparr>)
     in case uds of None \<Rightarrow> sv1
       | Some e \<Rightarrow> on_sv_world (\<lambda>w. w\<lparr>wd_registry := None\<rparr>) (sv_publish [runtime_event clk ''runtime.degraded'' [] []
           [(''component'', GStr ''uds''), (''error'', GStr (h_text h e))]] sv1))"

definition zero_RecoveryReport :: RecoveryReport where
  "zero_RecoveryReport = \<lparr>rr_Mode = [], rr_Degraded = False, rr_Reason = [], rr_TaskCount = 0, rr_RecoveredAt = 0,
     rr_RecoveredTasks = []\<rparr>"

text \<open>The server before its routes: \<open>d\<close> is the disk, \<open>snaps\<close> the checkpoint directory, \<open>k\<close> the kernel.\<close>

definition new_server :: "'k host \<Rightarrow> clock \<Rightarrow> 'k World Router \<Rightarrow> Config \<Rightarrow> fs \<Rightarrow> disk \<Rightarrow> 'k \<Rightarrow> 'k Server" where
  "new_server h clk llm cfg d snaps k = (let env = h_workspace h; ws_root = runtimeWorkspaceRoot env (cfg_DataDir cfg);
       psi = h_psi h (clk 0);
       world = \<lparr>wd_registry = None, wd_capsules = None,
         wd_workspace = wsm_New env ws_root True (forceDegradedWorkspace env cfg) d, wd_tasks = Map.empty,
         wd_kernel = NewObserver True [] [], wd_out = [], wd_ext = k\<rparr>
     in \<lparr>sv_cfg = cfg,
         sv_gateway = NewGateway (we_tempdir env) \<lparr>gw_cvm = Some (NewStore True), gw_ipc = Some NewBlackboard, gw_llm = Some llm,
           gw_sink = True, gw_workspaceRoot = ws_root, gw_workspaceRuntime = True, gw_toolTimeout = 0, gw_reporter = True,
           gw_spawner = True, gw_execObserver = True, gw_records = [], gw_out = [], gw_world = world\<rparr>,
         sv_demo = 0, sv_pressure = NewMonitor psi \<lparr>pc_Root = [], pc_CPUPath = [], pc_MemoryPath = [], pc_IOPath = [],
           pc_CPUAvg10Threshold = 0, pc_MemoryAvg10Threshold = 0, pc_IOAvg10Threshold = 0\<rparr>,
         sv_sampler = NewCgroupSampler [], sv_checkpoints = snaps, sv_scheduler = scheduler_New PolicyTokenCFSPrefixAffinity,
         sv_supervisor = supervisor_New True, sv_launcher = \<lparr>la_Command = [], la_SocketPath = []\<rparr>, sv_started = [],
         sv_heartbeatTimeout = 0, sv_recovery = zero_RecoveryReport, sv_softwareReal = None\<rparr>)"

text \<open>\<open>start\<close>: what the kernel observer finds; see \<open>observer_Start\<close>.\<close>

definition NewServerWithEvents ::
    "'k host \<Rightarrow> (nat \<Rightarrow> nat \<Rightarrow> clock) \<Rightarrow> 'k World Router \<Rightarrow> (string \<Rightarrow> bool) \<times> (string \<Rightarrow> bool) \<Rightarrow> go_error option
     \<Rightarrow> recover_io \<Rightarrow> Config \<Rightarrow> fs \<Rightarrow> disk \<Rightarrow> 'k \<Rightarrow> 'k Server" where
  "NewServerWithEvents h cs llm probe uds io cfg0 d snaps k = (let
       cfg = (if cfg_DataDir cfg0 = [] then cfg0\<lparr>cfg_DataDir := ''.aort-dev''\<rparr> else cfg0);
       sv0 = new_server h (cs 0 0) llm cfg d snaps k;
       (err, obs, ev) = observer_Start (cs 0 1) None (we_goos (h_workspace h)) (fst probe) (snd probe) (wd_kernel (sv_world sv0));
       sv1 = sv_publish ev (on_sv_world (\<lambda>w. w\<lparr>wd_kernel := obs\<rparr>) sv0);
       sv2 = startWorkerRuntime h (cs 0 2) uds sv1
     in recoverFromCheckpoints h (\<lambda>n. cs (n + 1)) io sv2)"

text \<open>One tick of \<open>monitorHeartbeats\<close> at \<open>now\<close>.\<close>

definition heartbeat_tick :: "clock \<Rightarrow> string list \<Rightarrow> int \<Rightarrow> 'k Server \<Rightarrow> 'k Server" where
  "heartbeat_tick clk ks now sv = on_sv_world (on_registry (\<lambda>r. snd (MarkHeartbeatLost clk ks now (sv_heartbeatTimeout sv) r))) sv"

end
