(* ===== verification/ServerViews.thy ===== *)
theory ServerViews
  imports ServerRun
begin

text \<open>
  What the server shows of itself (\<open>internal/api/server.go\<close>): the agents with their capsules, the
  agents of a task, and the evidence report. None of these changes the state.
\<close>

section \<open>Agents\<close>

definition capsule_stats :: "'k host \<Rightarrow> 'k World \<Rightarrow> string \<Rightarrow> CapStats" where
  "capsule_stats h w agentID = (case wd_capsules w of
       None \<Rightarrow> zero_CapStats\<lparr>cs_Mode := cap_ModeDegraded, cs_Error := ''capsule runtime is not enabled''\<rparr>
     | Some m \<Rightarrow> cap_Stats (h_capsule h) agentID m (wd_ext w))"

definition enrich_agent :: "'k host \<Rightarrow> CapManager \<Rightarrow> 'k \<Rightarrow> AVP \<Rightarrow> AVP" where
  "enrich_agent h m k agent0 = (let stats = cap_Stats (h_capsule h) (avp_AgentID agent0) m k;
       agent = agent0\<lparr>avp_CapsuleMode := cs_Mode stats, avp_MemoryCurrent := cs_MemoryCurrent stats,
         avp_PidsCurrent := cs_PidsCurrent stats, avp_CPUStat := cs_CPUStat stats\<rparr>
     in case cap_Runtime (avp_AgentID agent0) m of None \<Rightarrow> agent
       | Some rt \<Rightarrow> agent\<lparr>avp_CgroupPath := cr_CgroupPath rt,
           avp_CapsuleMode := (if avp_CapsuleMode agent = [] then cr_Mode rt else avp_CapsuleMode agent)\<rparr>)"

definition enrichedAgents :: "'k host \<Rightarrow> 'k World \<Rightarrow> AVP list \<Rightarrow> AVP list" where
  "enrichedAgents h w agents = (case wd_capsules w of None \<Rightarrow> agents | Some m \<Rightarrow> map (enrich_agent h m (wd_ext w)) agents)"

text \<open>\<open>ks\<close> is the order of the range over the registry; later agents of the same identifier win.\<close>

definition agentsForTask :: "'k host \<Rightarrow> string list \<Rightarrow> 'k World \<Rightarrow> DemoResult \<Rightarrow> DemoAgent list" where
  "agentsForTask h ks w task = (case wd_registry w of None \<Rightarrow> dr_Agents task
     | Some r \<Rightarrow> let agents = ListByTask ks (dr_TaskID task) r in
         if agents = [] then dr_Agents task
         else let byID = foldl (\<lambda>m a. m(avp_AgentID a \<mapsto> a)) Map.empty (enrichedAgents h w agents)
           in map (\<lambda>original. case byID (da_ID original) of Some a \<Rightarrow> agentToDemo a | None \<Rightarrow> original) (dr_Agents task))"

record CapsuleEvidence =
  ce_AgentID :: string
  ce_TaskID :: string
  ce_Role :: string
  ce_PID :: int
  ce_EvidenceMode :: string
  ce_RealCgroupV2 :: bool
  ce_CapsuleMode :: string
  ce_CgroupPath :: string
  ce_MemoryCurrent :: int
  ce_PidsCurrent :: int
  ce_CPUStat :: "(string \<rightharpoonup> u64) option"
  ce_Events :: "(string \<rightharpoonup> u64) option"
  ce_Frozen :: bool
  ce_Error :: string

definition capsuleEvidence :: "'k host \<Rightarrow> 'k World \<Rightarrow> AVP \<Rightarrow> CapsuleEvidence" where
  "capsuleEvidence h w agent = (let stats = capsule_stats h w (avp_AgentID agent);
       path = (case wd_capsules w of None \<Rightarrow> avp_CgroupPath agent
         | Some m \<Rightarrow> (case cap_Runtime (avp_AgentID agent) m of None \<Rightarrow> avp_CgroupPath agent | Some rt \<Rightarrow> cr_CgroupPath rt));
       mode = (if cs_Mode stats = [] then avp_CapsuleMode agent else cs_Mode stats)
     in \<lparr>ce_AgentID = avp_AgentID agent, ce_TaskID = avp_TaskID agent, ce_Role = avp_Role agent, ce_PID = avp_PID agent,
         ce_EvidenceMode = (if mode = cap_ModeReal then ''real-cgroup-v2'' else ''degraded''),
         ce_RealCgroupV2 = (mode = cap_ModeReal), ce_CapsuleMode = mode, ce_CgroupPath = path,
         ce_MemoryCurrent = cs_MemoryCurrent stats, ce_PidsCurrent = cs_PidsCurrent stats, ce_CPUStat = cs_CPUStat stats,
         ce_Events = cs_Events stats, ce_Frozen = cs_Frozen stats, ce_Error = cs_Error stats\<rparr>)"

section \<open>Evidence\<close>

record EvidenceModule =
  em_Name :: string
  em_Status :: string
  em_Mode :: string
  em_EvidenceMode :: Mode
  em_Endpoint :: string
  em_Signals :: "string list"
  em_Reason :: string

definition evidence_module :: "string \<Rightarrow> string \<Rightarrow> string \<Rightarrow> Mode \<Rightarrow> string \<Rightarrow> string list \<Rightarrow> string \<Rightarrow> EvidenceModule" where
  "evidence_module name status mode evidence endpoint signals reason = \<lparr>em_Name = name, em_Status = status, em_Mode = mode,
     em_EvidenceMode = evidence, em_Endpoint = endpoint, em_Signals = signals, em_Reason = reason\<rparr>"

definition fallbackString :: "string \<Rightarrow> string \<Rightarrow> string" where
  "fallbackString v fallback = (if v \<noteq> [] then v else fallback)"

definition llmEvidenceStatus :: "(string \<Rightarrow> string) \<Rightarrow> string" where
  "llmEvidenceStatus getenv = (if getenv ''AORT_LLM_PROVIDER'' = ''deepseek'' \<and> getenv ''DEEPSEEK_API_KEY'' \<noteq> []
     then ''real-api'' else ''mock'')"

definition llmEvidenceMode :: "(string \<Rightarrow> string) \<Rightarrow> string" where
  "llmEvidenceMode getenv = (if getenv ''AORT_LLM_PROVIDER'' = ''deepseek''
     then (if getenv ''DEEPSEEK_API_KEY'' \<noteq> [] then ''real-api'' else ''mock'') else ''mock'')"

definition cgroupEvidenceModule :: "'k host \<Rightarrow> string list \<Rightarrow> 'k World \<Rightarrow> EvidenceModule" where
  "cgroupEvidenceModule h ks w = (let
       base = evidence_module ''Cgroup Capsule'' ''degraded'' ''degraded'' ModeDegraded ''/api/capsules''
         [''capsule_mode'', ''real_cgroup_v2'', ''memory.current'', ''pids.current'', ''cpu.stat'', ''cgroup.events'']
         ''No real cgroup v2 capsule has been observed in this runtime process yet.''
     in case (wd_registry w, wd_capsules w) of
         (Some r, Some m) \<Rightarrow> if \<exists>agent \<in> set (reg_List ks r). ce_RealCgroupV2 (capsuleEvidence h w agent)
              \<and> ce_CapsuleMode (capsuleEvidence h w agent) = cap_ModeReal
           then base\<lparr>em_Status := ''real'', em_Mode := ''cgroup-v2'', em_EvidenceMode := ModeRealCgroupV2,
             em_Reason := ''At least one Agent is attached to a real cgroup v2 capsule.''\<rparr>
           else base
       | _ \<Rightarrow> base\<lparr>em_Reason := ''Worker runtime or capsule manager is not enabled.''\<rparr>)"

definition workerEvidenceModule :: "string list \<Rightarrow> 'k World \<Rightarrow> EvidenceModule" where
  "workerEvidenceModule ks w = (let
       base = evidence_module ''Worker Process'' ''degraded'' ''worker-registry'' ModeDegraded ''/api/agents''
         [''worker_pid'', ''uds_register'', ''heartbeat''] ''No registered worker PID has been observed yet.''
     in case wd_registry w of None \<Rightarrow> base\<lparr>em_Reason := ''Worker runtime is not enabled.''\<rparr>
       | Some r \<Rightarrow> if \<exists>agent \<in> set (reg_List ks r). 0 < avp_PID agent
           then base\<lparr>em_Status := ''real'', em_Mode := ''process'', em_EvidenceMode := ModeRealRuntime,
             em_Reason := ''At least one Agent has a real worker PID.''\<rparr>
           else base)"

definition pressureEvidenceStatus :: "PStatus \<Rightarrow> string" where
  "pressureEvidenceStatus s = (if ps_Mode s = ModePSI \<and> \<not> ps_Degraded s then ''real''
     else if ps_Degraded s then ''unavailable'' else ''degraded'')"

definition pressureEvidenceMode :: "PStatus \<Rightarrow> Mode" where
  "pressureEvidenceMode s = (if ps_Mode s = ModePSI \<and> \<not> ps_Degraded s then ModeRealCgroupV2 else ModeDegraded)"

text \<open>What \<open>ebpf_smoke.json\<close> decodes to, if it can be read.\<close>

record EbpfSmoke =
  bpf_EvidenceMode :: string
  bpf_FallbackReason :: string
  bpf_AttachedTracepoints :: "string list"

definition ebpfEvidenceModule :: "EbpfSmoke option \<Rightarrow> EvidenceModule" where
  "ebpfEvidenceModule smoke = (let
       base = evidence_module ''eBPF Observer'' ''degraded'' ModeDegraded ModeDegraded []
         [''sched_process_exit'', ''worker_pid_observed'', ''cleanup_success'']
         ''eBPF observer experimental path implemented; current submitted evidence is degraded unless openEuler/Linux smoke reports real-ebpf.''
     in case smoke of None \<Rightarrow> base
       | Some s \<Rightarrow> let mode = fallbackString (bpf_EvidenceMode s) ModeDegraded;
           m1 = base\<lparr>em_Mode := mode, em_EvidenceMode := mode, em_Reason := fallbackString (bpf_FallbackReason s) (em_Reason base)\<rparr>;
           m2 = (if bpf_AttachedTracepoints s = [] then m1 else m1\<lparr>em_Signals := bpf_AttachedTracepoints s\<rparr>)
         in if bpf_EvidenceMode s = ModeRealEBPF
            then m2\<lparr>em_Status := ''real'', em_Reason := ''Linux/openEuler smoke loaded and attached the eBPF tracepoint program and observed the worker PID.''\<rparr>
            else m2)"

definition fixed_modules :: "'k Server \<Rightarrow> EvidenceModule list" where
  "fixed_modules sv = [
     evidence_module ''Syscall Gateway'' ''real'' ''uds-json-rpc'' ModeRealRuntime ''/api/syscalls''
       [''context.materialize'', ''llm.call'', ''tool.exec'', ''ipc.publish'', ''agent.spawn''] [],
     evidence_module ''Scheduler'' ''real'' (sched_Policy (sv_scheduler sv)) ModeRealRuntime ''/api/scheduler/decisions''
       [''decision_log'', ''vruntime'', ''prefix_affinity'', ''pressure_payload''] [],
     evidence_module ''CVM'' ''real'' ''real-partial'' ModeRealPartial ''/api/context/stats''
       [''page_store'', ''page_table'', ''saved_bytes'', ''saved_tokens'']
       ''KV cache is represented as context pages and reuse stats, not a model-server KV memory map.'',
     evidence_module ''Page-reference IPC'' ''real'' ''real-partial'' ModeRealPartial ''/api/ipc/metrics''
       [''page_id_publish'', ''subscriber_poll'', ''avoided_copy_bytes'']
       ''IPC passes page references inside the runtime; cross-host transport is not implemented.'',
     evidence_module ''Workspace Isolation'' ''degraded'' ''degraded-copy'' ModeDegradedCopy ''/api/demo/fault/workspace-rmrf''
       [''lowerdir'', ''upperdir'', ''merged'', ''rollback_success'', ''destroy_success'']
       ''overlayfs mount is attempted on Linux/root; unsupported hosts use degraded-copy fallback.'']"

definition evidence_modules :: "'k host \<Rightarrow> clock \<Rightarrow> string list \<Rightarrow> EbpfSmoke option \<Rightarrow> 'k Server \<Rightarrow> EvidenceModule list" where
  "evidence_modules h clk ks smoke sv = (let w = sv_world sv; ks_status = observer_Status (wd_kernel w); ps = sv_sample h clk sv in
     [cgroupEvidenceModule h ks w, workerEvidenceModule ks w] @ fixed_modules sv @
     [evidence_module ''Kernel Observer'' ''degraded'' (ks_Mode ks_status) ModeDegraded ''/api/kernel/status''
        [ks_Probe ks_status, ''kernel.exec''] (ks_Reason ks_status),
      evidence_module ''PSI Monitor'' (pressureEvidenceStatus ps) (ps_Mode ps) (pressureEvidenceMode ps) ''/api/pressure/status''
        [''cpu.some'', ''memory.some'', ''io.some'', ''pressure_throttle''] (ps_Reason ps),
      ebpfEvidenceModule smoke,
      evidence_module ''Software Real Demo'' ''real-runtime'' ''software-real'' ModeRealRuntime ''/api/demo/software-real/run''
        [''POST /api/demo/software-real/run'', ''GET /api/demo/software-real/status'', ''GET /api/demo/software-real/result'',
         ''agent.spawn'', ''scheduler decision'', ''context.materialize'', ''context.write_delta'', ''llm.call'', ''tool.exec'',
         ''ipc.publish'', ''ipc.poll'', ''agent.report'', ''checkpoint'', ''test failure recovery'']
        ''Planner -> Coder -> Tester -> Reviewer -> Fixer -> Reporter demo runs through Runtime syscalls, scheduler, CVM, IPC, checkpoint, and recovery paths.'',
      evidence_module ''LLM Provider'' (llmEvidenceStatus (h_getenv h)) (llmEvidenceMode (h_getenv h)) (llmEvidenceMode (h_getenv h)) []
        [''llm.call'', ''provider'', ''model'', ''duration_ms'', ''tokens'', ''fallback'', ''evidence_mode'']
        ''DeepSeek provider is environment-backed with mock fallback; API keys are read only from environment variables.''])"

text \<open>The report carries the time at which it was made.\<close>

definition evidenceReport ::
    "'k host \<Rightarrow> (nat \<Rightarrow> clock) \<Rightarrow> string list \<Rightarrow> EbpfSmoke option \<Rightarrow> 'k Server \<Rightarrow> int \<times> EvidenceModule list" where
  "evidenceReport h clks ks smoke sv = (unix_ms (clks 1 0), evidence_modules h (clks 0) ks smoke sv)"

end
