(* ===== verification/ServerHttp.thy ===== *)
theory ServerHttp
  imports ServerViews
begin

text \<open>
  The HTTP interface of the server (\<open>internal/api/server.go\<close>): one definition per handler, and the
  table with which \<open>http.ServeMux\<close> finds the handler of a path. A response is its status, the \<open>Allow\<close>
  header and the value handed to the JSON encoder. The mux redirects paths that are not clean, and the
  stream of \<open>/api/events\<close> stays open; both are outside the model.
\<close>

record HttpReq =
  hq_Method :: string
  hq_Path :: string
  hq_policy :: "string result"        \<comment> \<open>the body of a policy request, decoded\<close>

datatype Body =
    BError string
  | BNotFound
  | BStream
  | BExperiments
  | BMap payload
  | BAgents "AVP list"
  | BDemoAgents "DemoAgent list"
  | BTasks "DemoResult list"
  | BDag "DAGNode list"
  | BFault FaultRecord
  | BFaults "FaultRecord list"
  | BRMFault RMFaultEvidence
  | BCapsules "CapsuleEvidence list"
  | BCapsule CapsuleEvidence
  | BEvidence "int \<times> EvidenceModule list"
  | BPages "Page list"
  | BStats Stats
  | BPageTable PageTable
  | BMetric Metric
  | BTopics "string \<rightharpoonup> Message list"
  | BKernelStatus KStatus
  | BKernelEvents "ExecEvent list"
  | BPressure PStatus
  | BSnapshots "Snapshot list"
  | BRecovery RecoveryReport
  | BRecords "GRecord list"
  | BDecisions "DecisionLog list"
  | BWorkspace WorkspaceStatus
  | BWorkspaces payload "WorkspaceStatus list"
  | BRollback payload RollbackResult
  | BSoftwareReal SoftwareRealResult

record HttpResp =
  hs_Status :: int
  hs_Allow :: string
  hs_Body :: Body

definition respond :: "int \<Rightarrow> Body \<Rightarrow> HttpResp" where
  "respond status b = \<lparr>hs_Status = status, hs_Allow = [], hs_Body = b\<rparr>"

definition method_not_allowed :: "string \<Rightarrow> HttpResp" where
  "method_not_allowed allowed = \<lparr>hs_Status = 405, hs_Allow = allowed, hs_Body = BError ''method not allowed''\<rparr>"

definition not_found :: HttpResp where "not_found = respond 404 BNotFound"

text \<open>
  What one request finds in the world: the clocks of its steps, the times of its syscalls, the orders of
  ranges over maps and the contents of files.
\<close>

record http_in =
  hi_clks :: "nat \<Rightarrow> nat \<Rightarrow> nat \<Rightarrow> clock"
  hi_elapsed :: "nat \<Rightarrow> int"
  hi_save :: save_io
  hi_ctx :: "go_error option"
  hi_agents :: "string list"
  hi_tasks :: "string list"
  hi_workspaces :: "string list"
  hi_fixture :: "(string \<times> string) list"
  hi_walk :: "go_error option"
  hi_files :: "(string \<times> Snapshot result) list"
  hi_ebpf :: "EbpfSmoke option"

type_synonym 'k handler = "HttpReq \<Rightarrow> 'k Server \<Rightarrow> HttpResp \<times> 'k Server"

text \<open>The test of the method with which a handler begins.\<close>

definition only_method :: "string \<Rightarrow> 'k handler \<Rightarrow> 'k handler" where
  "only_method meth f req sv = (if hq_Method req \<noteq> meth then (method_not_allowed meth, sv) else f req sv)"

definition read_only :: "('k Server \<Rightarrow> Body) \<Rightarrow> 'k handler" where     \<comment> \<open>a GET that only reads\<close>
  "read_only f = only_method ''GET'' (\<lambda>req sv. (respond 200 (f sv), sv))"

section \<open>Status\<close>

definition handleHealth :: "'k handler" where
  "handleHealth = read_only (\<lambda>sv. BMap [(''status'', GStr ''ok''), (''mode'', GStr (cfg_Mode (sv_cfg sv)))])"

definition handleEvidence :: "'k host \<Rightarrow> http_in \<Rightarrow> 'k handler" where
  "handleEvidence h i = read_only (\<lambda>sv. BEvidence (evidenceReport h (hi_clks i 0 0) (hi_agents i) (hi_ebpf i) sv))"

definition handleEvents :: "'k handler" where
  "handleEvents = read_only (\<lambda>sv. BStream)"

definition handleFaults :: "'k handler" where
  "handleFaults = read_only (\<lambda>sv. BFaults (sup_Records (sv_supervisor sv)))"

definition handleTasks :: "'k host \<Rightarrow> http_in \<Rightarrow> 'k handler" where
  "handleTasks h i = read_only (\<lambda>sv. BTasks (map (\<lambda>t. t\<lparr>dr_Agents := agentsForTask h (hi_agents i) (sv_world sv) t\<rparr>)
     (range_values (wd_tasks (sv_world sv)) (hi_tasks i))))"

definition handleAgents :: "'k host \<Rightarrow> http_in \<Rightarrow> 'k handler" where
  "handleAgents h i = read_only (\<lambda>sv. case wd_registry (sv_world sv) of
       Some r \<Rightarrow> BAgents (enrichedAgents h (sv_world sv) (reg_List (hi_agents i) r))
     | None \<Rightarrow> BDemoAgents (concat (map dr_Agents (range_values (wd_tasks (sv_world sv)) (hi_tasks i)))))"

definition handleContextPages :: "'k host \<Rightarrow> 'k handler" where
  "handleContextPages h = read_only (\<lambda>sv. BPages (case gw_cvm (sv_gateway sv) of None \<Rightarrow> [] | Some s \<Rightarrow> cvm_Pages (h_order h s) s))"

definition handleContextStats :: "'k host \<Rightarrow> 'k handler" where
  "handleContextStats h = read_only (\<lambda>sv. BStats (case gw_cvm (sv_gateway sv) of None \<Rightarrow> cvm_Stats [] (NewStore True)
     | Some s \<Rightarrow> cvm_Stats (h_order h s) s))"

definition handleContextAgent :: "'k handler" where
  "handleContextAgent = only_method ''GET'' (\<lambda>req sv.
     case Cut (TrimPrefix (hq_Path req) ''/api/context/agents/'') (CHR ''/'') of (agentID, subresource, ok) \<Rightarrow>
       (if \<not> ok \<or> subresource \<noteq> ''pagetable'' then not_found
        else respond 200 (BPageTable \<lparr>pt_AgentID = agentID, pt_PageIDs = sv_table sv agentID\<rparr>), sv))"

definition sv_ipc :: "'k Server \<Rightarrow> Blackboard" where
  "sv_ipc sv = (case gw_ipc (sv_gateway sv) of None \<Rightarrow> NewBlackboard | Some b \<Rightarrow> b)"

definition handleIPCMetrics :: "'k handler" where
  "handleIPCMetrics = read_only (\<lambda>sv. BMetric (bb_Metrics (sv_ipc sv)))"

definition handleIPCTopics :: "'k handler" where
  "handleIPCTopics = read_only (\<lambda>sv. BTopics (bb_Topics (sv_ipc sv)))"

definition handleKernelStatus :: "'k handler" where
  "handleKernelStatus = read_only (\<lambda>sv. BKernelStatus (observer_Status (wd_kernel (sv_world sv))))"

definition handleKernelEvents :: "'k handler" where
  "handleKernelEvents = read_only (\<lambda>sv. BKernelEvents (observer_Events (wd_kernel (sv_world sv))))"

definition handlePressureStatus :: "'k host \<Rightarrow> http_in \<Rightarrow> 'k handler" where
  "handlePressureStatus h i = only_method ''GET'' (\<lambda>req sv. let status = sv_sample h (hi_clks i 0 0 0) sv in
     (respond 200 (BPressure status),
      sv_publish [runtime_event (hi_clks i 0 0 1) ''pressure.sampled'' [] [] (pressurePayload status)] sv))"

definition handleCheckpoints :: "'k host \<Rightarrow> http_in \<Rightarrow> 'k handler" where
  "handleCheckpoints h i = only_method ''GET'' (\<lambda>req sv. (case checkpoint_List (hi_walk i) (hi_files i) of
       Inl e \<Rightarrow> respond 500 (BError (h_text h e)) | Inr ss \<Rightarrow> respond 200 (BSnapshots ss), sv))"

definition handleRecoveryStatus :: "'k handler" where
  "handleRecoveryStatus = read_only (\<lambda>sv. BRecovery (sv_recovery sv))"

definition handleSyscalls :: "'k handler" where
  "handleSyscalls = read_only (\<lambda>sv. BRecords (gw_Records (sv_gateway sv)))"

definition handleTaskSubresource :: "'k handler" where
  "handleTaskSubresource = only_method ''GET'' (\<lambda>req sv.
     case Cut (TrimPrefix (hq_Path req) ''/api/tasks/'') (CHR ''/'') of (taskID, subresource, ok) \<Rightarrow>
       (if \<not> ok \<or> subresource \<noteq> ''dag'' then not_found
        else case wd_tasks (sv_world sv) taskID of None \<Rightarrow> not_found | Some task \<Rightarrow> respond 200 (BDag (dr_DAG task)), sv))"

definition handleExperimentResults :: "'k handler" where
  "handleExperimentResults = read_only (\<lambda>sv. BExperiments)"

definition handleSoftwareRealDemoStatus :: "'k handler" where
  "handleSoftwareRealDemoStatus = only_method ''GET'' (\<lambda>req sv. (case sv_softwareReal sv of None \<Rightarrow> not_found
     | Some r \<Rightarrow> respond 200 (BSoftwareReal r), sv))"

section \<open>Scheduler\<close>

definition handleSchedulerDecisions :: "'k handler" where
  "handleSchedulerDecisions = read_only (\<lambda>sv. BDecisions (sched_Decisions (sv_scheduler sv)))"

definition handleSchedulerPolicies :: "'k handler" where
  "handleSchedulerPolicies = read_only (\<lambda>sv. BMap [(''success'', GBool True), (''policies'', GStrs Policies),
     (''current_policy'', GStr (sched_Policy (sv_scheduler sv))), (''evidence_mode'', GStr ModeRealRuntime),
     (''fallback_reason'', GStr [])])"

definition handleSchedulerResourcePressure :: "'k host \<Rightarrow> http_in \<Rightarrow> 'k handler" where
  "handleSchedulerResourcePressure h i = only_method ''GET'' (\<lambda>req sv.
     case sampleSchedulerResourcePressure h (hi_clks i 0 0 0) sv of (p, sv1) \<Rightarrow>
       (respond 200 (BMap [(''success'', GBool True), (''memory_pressure'', GFloat (rp_MemoryPressure p)),
          (''pids_pressure'', GFloat (rp_PidsPressure p)), (''cpu_throttle_pressure'', GFloat (rp_CPUThrottlePressure p)),
          (''psi_pressure'', GFloat (rp_PSIPressure p)), (''evidence_mode'', GStr (rp_EvidenceMode p)),
          (''fallback_reason'', GStr (rp_FallbackReason p))]), sv1))"

definition handleSchedulerPolicy :: "'k host \<Rightarrow> 'k handler" where
  "handleSchedulerPolicy h = only_method ''POST'' (\<lambda>req sv. case hq_policy req of
       Inl e \<Rightarrow> (respond 400 (BError (h_text h e)), sv)
     | Inr policy \<Rightarrow> (case SetPolicy policy (sv_scheduler sv) of
         Inl e \<Rightarrow> (respond 400 (BError (h_text h e)), sv)
       | Inr sched \<Rightarrow> (respond 200 (BMap [(''policy'', GStr (sched_Policy sched))]), sv\<lparr>sv_scheduler := sched\<rparr>)))"

section \<open>Runs and faults\<close>

definition sv_put_task :: "DemoResult \<Rightarrow> 'k Server \<Rightarrow> 'k Server" where
  "sv_put_task result = on_sv_world (\<lambda>w. w\<lparr>wd_tasks := (wd_tasks w)(dr_TaskID result \<mapsto> result)\<rparr>)"

definition handleDemoRun :: "'k host \<Rightarrow> http_in \<Rightarrow> 'k handler" where
  "handleDemoRun h i = only_method ''POST'' (\<lambda>req sv.
     case runDemo h (hi_clks i) (hi_elapsed i) (hi_save i) (hi_ctx i) sv of
       (Inl e, sv1) \<Rightarrow> (respond 500 (BError (h_text h e)), sv1)
     | (Inr result, sv1) \<Rightarrow> (respond 202 (BMap [(''task_id'', GStr (dr_TaskID result))]), sv_put_task result sv1))"

definition handleDemoFault :: "'k host \<Rightarrow> http_in \<Rightarrow> 'k handler" where
  "handleDemoFault h i = only_method ''POST'' (\<lambda>req sv. let kind = TrimPrefix (hq_Path req) ''/api/demo/fault/'' in
     if kind = ''tool-timeout'' \<or> kind = ''timeout''
     then (case runToolTimeoutFault h (hi_clks i 0) (hi_elapsed i 0) sv of (r, sv1) \<Rightarrow> (respond 202 (BFault r), sv1))
     else if kind = ''rmrf''
     then (case runWorkspaceRMFault h (hi_clks i 0) (hi_fixture i) sv of (r, sv1) \<Rightarrow> (respond 202 (BFault r), sv1))
     else if kind = ''workspace-rmrf''
     then (case runWorkspaceRMFaultEvidence h (hi_clks i 0) sv of (r, sv1) \<Rightarrow> (respond 202 (BRMFault r), sv1))
     else (not_found, sv))"

section \<open>Agents and capsules\<close>

definition set_killed :: "clock \<Rightarrow> string \<Rightarrow> 'k World \<Rightarrow> 'k World" where
  "set_killed clk agentID = on_registry (SetState clk agentID StateKilled)"

definition action_payload :: "string \<Rightarrow> payload" where
  "action_payload action = [(''status'', GStr ''ok''), (''action'', GStr action)]"

text \<open>Freeze, unfreeze and kill; \<open>None\<close> is another action.\<close>

definition capsule_action ::
    "'k host \<Rightarrow> clock \<Rightarrow> string \<Rightarrow> string \<Rightarrow> CapManager \<Rightarrow> 'k World \<Rightarrow> (go_error option \<times> payload \<times> 'k World) option" where
  "capsule_action h clk action agentID m w = (let freeze = (\<lambda>(err, k). Some (err, action_payload action, w\<lparr>wd_ext := k\<rparr>)) in
     if action = ''freeze'' then freeze (Freeze (h_capsule h) agentID m (wd_ext w))
     else if action = ''unfreeze'' then freeze (Unfreeze (h_capsule h) agentID m (wd_ext w))
     else if action = ''kill'' then (case Kill (h_capsule h) agentID m (wd_ext w) of ((result, err), k) \<Rightarrow>
       Some (err, action_payload action @ [(''kill_method'', GStr (kr_KillMethod result)),
           (''evidence_mode'', GStr (kr_EvidenceMode result)), (''fallback_reason'', GStr (kr_FallbackReason result))],
         let w1 = w\<lparr>wd_ext := k\<rparr> in if err = None then set_killed clk agentID w1 else w1))
     else None)"

text \<open>The answer of an action: an error, or its payload and an event of the agent.\<close>

definition action_done ::
    "'k host \<Rightarrow> clock \<Rightarrow> string \<Rightarrow> string \<Rightarrow> go_error option \<Rightarrow> payload \<Rightarrow> 'k World \<Rightarrow> HttpResp \<times> 'k World" where
  "action_done h clk eventType agentID err p w = (case err of
       Some e \<Rightarrow> (respond 409 (BMap [(''status'', GStr ''error''), (''error'', GStr (h_text h e))]), w)
     | None \<Rightarrow> (respond 200 (BMap p), case wd_registry w of None \<Rightarrow> w
         | Some r \<Rightarrow> (case reg_Get agentID r of None \<Rightarrow> w
             | Some a \<Rightarrow> wd_publish [runtime_event clk eventType (avp_TaskID a) (avp_AgentID a) p] w)))"

definition on_world_resp :: "('k World \<Rightarrow> HttpResp \<times> 'k World) \<Rightarrow> 'k Server \<Rightarrow> HttpResp \<times> 'k Server" where
  "on_world_resp f sv = (case f (sv_world sv) of (r, w) \<Rightarrow> (r, on_sv_world (\<lambda>_. w) sv))"

definition agent_action :: "'k host \<Rightarrow> http_in \<Rightarrow> string \<Rightarrow> string \<Rightarrow> 'k Server \<Rightarrow> HttpResp \<times> 'k Server" where
  "agent_action h i agentID action sv = (case wd_capsules (sv_world sv) of
       None \<Rightarrow> (respond 503 (BError ''capsule runtime is not enabled''), sv)
     | Some m \<Rightarrow> if action = ''destroy''
         then (case DestroyAgent (server_env h (hi_clks i 0 0)) agentID (sv_gateway sv) of (err, g) \<Rightarrow>
           on_world_resp (\<lambda>w. action_done h (hi_clks i 0 0 3) ''agent.destroy'' agentID err
             (action_payload action @ [(''evidence_mode'', GStr ModeRealRuntime), (''fallback_reason'', GStr [])])
             (if err = None then set_killed (hi_clks i 0 0 2) agentID w else w)) (sv\<lparr>sv_gateway := g\<rparr>))
         else on_world_resp (\<lambda>w. case capsule_action h (hi_clks i 0 0 2) action agentID m w of None \<Rightarrow> (not_found, w)
           | Some (err, p, w1) \<Rightarrow> action_done h (hi_clks i 0 0 3) (''agent.'' @ action) agentID err p w1) sv)"

definition handleAgentAction :: "'k host \<Rightarrow> http_in \<Rightarrow> 'k handler" where
  "handleAgentAction h i = only_method ''POST'' (\<lambda>req sv.
     case Cut (TrimPrefix (hq_Path req) ''/api/agents/'') (CHR ''/'') of (agentID, action, ok) \<Rightarrow>
       if \<not> ok \<or> agentID = [] then (not_found, sv) else agent_action h i agentID action sv)"

definition handleCapsules :: "'k host \<Rightarrow> http_in \<Rightarrow> 'k handler" where
  "handleCapsules h i req sv = (if hq_Path req \<noteq> ''/api/capsules'' then (not_found, sv)
     else only_method ''GET'' (\<lambda>req sv. (case (wd_registry (sv_world sv), wd_capsules (sv_world sv)) of
         (Some r, Some m) \<Rightarrow> respond 200 (BCapsules (map (capsuleEvidence h (sv_world sv)) (reg_List (hi_agents i) r)))
       | _ \<Rightarrow> respond 503 (BError ''capsule runtime is not enabled''), sv)) req sv)"

definition handleCapsuleAction :: "'k host \<Rightarrow> http_in \<Rightarrow> string \<Rightarrow> string \<Rightarrow> 'k World \<Rightarrow> HttpResp \<times> 'k World" where
  "handleCapsuleAction h i agentID action w = (case wd_capsules w of
       None \<Rightarrow> (respond 503 (BError ''capsule runtime is not enabled''), w)
     | Some m \<Rightarrow> (case capsule_action h (hi_clks i 0 0 1) action agentID m w of None \<Rightarrow> (not_found, w)
         | Some (err, p, w1) \<Rightarrow> action_done h (hi_clks i 0 0 2) (''capsule.'' @ action) agentID err p w1))"

definition handleCapsuleSubresource :: "'k host \<Rightarrow> http_in \<Rightarrow> 'k handler" where
  "handleCapsuleSubresource h i req sv =
     (case Cut (TrimPrefix (hq_Path req) ''/api/capsules/'') (CHR ''/'') of (agentID, action, hasAction) \<Rightarrow>
       if agentID = [] then (not_found, sv)
       else if \<not> hasAction then only_method ''GET'' (\<lambda>req sv. (case (wd_registry (sv_world sv), wd_capsules (sv_world sv)) of
           (Some r, Some m) \<Rightarrow> (case reg_Get agentID r of None \<Rightarrow> not_found
             | Some a \<Rightarrow> respond 200 (BCapsule (capsuleEvidence h (sv_world sv) a)))
         | _ \<Rightarrow> respond 503 (BError ''capsule runtime is not enabled''), sv)) req sv
       else only_method ''POST'' (\<lambda>req. on_world_resp (handleCapsuleAction h i agentID action)) req sv)"

section \<open>Workspaces\<close>

definition handleWorkspaces :: "http_in \<Rightarrow> 'k handler" where
  "handleWorkspaces i = read_only (\<lambda>sv. BWorkspaces [(''success'', GBool True), (''mode'', GStr ''workspace-manager''),
     (''evidence_mode'', GStr ModeRealRuntime), (''fallback_reason'', GStr [])]
     (wsm_List (hi_workspaces i) (wd_workspace (sv_world sv))))"

definition workspaceActionResponse :: "'k host \<Rightarrow> bool \<Rightarrow> string \<Rightarrow> string \<Rightarrow> go_error option \<Rightarrow> payload" where
  "workspaceActionResponse h success mode evidenceMode err = [(''success'', GBool success), (''mode'', GStr mode),
     (''evidence_mode'', GStr (if evidenceMode = [] then ModeMissing else evidenceMode)), (''fallback_reason'', GStr [])]
     @ (case err of None \<Rightarrow> [] | Some e \<Rightarrow> [(''error'', GStr (h_text h e))])"

definition workspace_action :: "'k host \<Rightarrow> http_in \<Rightarrow> string \<Rightarrow> string \<Rightarrow> 'k World \<Rightarrow> HttpResp \<times> 'k World" where
  "workspace_action h i agentID action w = (let env = h_workspace h; clk = hi_clks i 0 0 0 in
     if action = ''rollback'' then (case on_workspace (wsm_Rollback env clk agentID) w of
         (Inl e, w1) \<Rightarrow> (respond 400 (BMap (workspaceActionResponse h False [] [] (Some e))), w1)
       | (Inr r, w1) \<Rightarrow> (respond 200 (BRollback [(''success'', GBool (rb_RollbackSuccess r)), (''mode'', GStr (rb_Mode r)),
           (''evidence_mode'', GStr (rb_EvidenceMode r)), (''fallback_reason'', GStr (rb_FallbackReason r))] r), w1))
     else if action = ''commit'' then (case on_workspace (wsm_Commit env clk agentID) w of
         (Inl e, w1) \<Rightarrow> (respond 400 (BMap (workspaceActionResponse h False [] [] (Some e))), w1)
       | (Inr _, w1) \<Rightarrow> let status = fst (wsm_Status env agentID (wd_workspace w1)) in
           (respond 200 (BMap (workspaceActionResponse h True (wst_Mode status) (wst_EvidenceMode status) None)), w1))
     else if action = ''destroy'' then (let status = fst (wsm_Status env agentID (wd_workspace w)) in
       case on_workspace (wsm_Destroy env clk agentID) w of
         (Inl e, w1) \<Rightarrow> (respond 400 (BMap (workspaceActionResponse h False (wst_Mode status) (wst_EvidenceMode status) (Some e))), w1)
       | (Inr _, w1) \<Rightarrow> (respond 200 (BMap (workspaceActionResponse h True (wst_Mode status) (wst_EvidenceMode status) None)), w1))
     else (not_found, w))"

definition handleWorkspaceSubresource :: "'k host \<Rightarrow> http_in \<Rightarrow> 'k handler" where
  "handleWorkspaceSubresource h i req sv =
     (case Cut (TrimPrefix (hq_Path req) ''/api/workspaces/'') (CHR ''/'') of (agentID, action, hasAction) \<Rightarrow>
       if agentID = [] then (not_found, sv)
       else if \<not> hasAction then only_method ''GET'' (\<lambda>req sv.
         (case wsm_Status (h_workspace h) agentID (wd_workspace (sv_world sv)) of
            (status, err) \<Rightarrow> respond (if err = None then 200 else 404) (BWorkspace status), sv)) req sv
       else only_method ''POST'' (\<lambda>req. on_world_resp (workspace_action h i agentID action)) req sv)"

section \<open>Routes\<close>

text \<open>
  \<open>ServeMux\<close>: a pattern that ends in a slash matches the paths that start with it, any other only
  itself; the longest pattern wins. The run of the software demo is a parameter.
\<close>

definition routes :: "'k host \<Rightarrow> http_in \<Rightarrow> 'k handler \<Rightarrow> (string \<times> 'k handler) list" where
  "routes h i softwareReal = [(''/api/health'', handleHealth), (''/api/evidence'', handleEvidence h i), (''/api/events'', handleEvents),
     (''/api/demo/run'', handleDemoRun h i), (''/api/demo/software-real/run'', softwareReal),
     (''/api/demo/software-real/status'', handleSoftwareRealDemoStatus),
     (''/api/demo/software-real/result'', handleSoftwareRealDemoStatus),
     (''/api/demo/fault/'', handleDemoFault h i), (''/api/faults'', handleFaults), (''/api/agents'', handleAgents h i),
     (''/api/agents/'', handleAgentAction h i), (''/api/capsules'', handleCapsules h i),
     (''/api/capsules/'', handleCapsuleSubresource h i), (''/api/context/pages'', handleContextPages h),
     (''/api/context/stats'', handleContextStats h), (''/api/context/agents/'', handleContextAgent),
     (''/api/ipc/metrics'', handleIPCMetrics), (''/api/ipc/topics'', handleIPCTopics),
     (''/api/kernel/status'', handleKernelStatus), (''/api/kernel/events'', handleKernelEvents),
     (''/api/pressure/status'', handlePressureStatus h i), (''/api/checkpoints'', handleCheckpoints h i),
     (''/api/recovery/status'', handleRecoveryStatus), (''/api/syscalls'', handleSyscalls),
     (''/api/scheduler/decisions'', handleSchedulerDecisions), (''/api/scheduler/policies'', handleSchedulerPolicies),
     (''/api/scheduler/resource-pressure'', handleSchedulerResourcePressure h i),
     (''/api/scheduler/policy'', handleSchedulerPolicy h), (''/api/workspaces'', handleWorkspaces i),
     (''/api/workspaces/'', handleWorkspaceSubresource h i), (''/api/experiments/results'', handleExperimentResults),
     (''/api/tasks'', handleTasks h i), (''/api/tasks/'', handleTaskSubresource)]"

definition pattern_matches :: "string \<Rightarrow> string \<Rightarrow> bool" where
  "pattern_matches pat path = (if pat \<noteq> [] \<and> last pat = CHR ''/'' then HasPrefix path pat else path = pat)"

fun mux_find :: "string \<Rightarrow> (string \<times> 'h) list \<Rightarrow> (string \<times> 'h) option" where
  "mux_find path [] = None"
| "mux_find path ((pat, f) # rs) = (case mux_find path rs of
       Some (pat', f') \<Rightarrow> if pattern_matches pat path \<and> length pat' < length pat then Some (pat, f) else Some (pat', f')
     | None \<Rightarrow> if pattern_matches pat path then Some (pat, f) else None)"

definition ServeHTTP :: "'k host \<Rightarrow> http_in \<Rightarrow> 'k handler \<Rightarrow> 'k handler" where
  "ServeHTTP h i softwareReal req sv = (case mux_find (hq_Path req) (routes h i softwareReal) of
     None \<Rightarrow> (not_found, sv) | Some (pat, f) \<Rightarrow> f req sv)"

end
