(* ===== verification/SoftwareReal.thy ===== *)
theory SoftwareReal
  imports ServerHttp
begin

text \<open>
  The software demo on the real runtime (\<open>internal/api/software_real_demo.go\<close>): six agents work on a small
  Go module through syscalls, a tool is made to time out, and the result counts what happened. A step
  is a function on the server that may fail; a failure ends the run and keeps the state reached.
\<close>

section \<open>Syscalls of the demo\<close>

text \<open>\<open>cs n\<close> are the clocks of step \<open>n\<close> and \<open>els n\<close> the time that its syscall takes.\<close>

type_synonym clocks = "nat \<Rightarrow> nat \<Rightarrow> clock"

definition real_request :: "string \<Rightarrow> string \<Rightarrow> string \<Rightarrow> string \<Rightarrow> payload \<Rightarrow> GRequest" where
  "real_request requestID taskID agentID name args = \<lparr>gq_RequestID = requestID, gq_AgentID = agentID, gq_TaskID = taskID,
     gq_Name = name, gq_Args = Some args\<rparr>"

definition timed_id :: "clock \<Rightarrow> string \<Rightarrow> string \<Rightarrow> string" where
  "timed_id clk taskID name = taskID @ ''-'' @ name @ ''-'' @ Itoa (unix_nano (clk 0))"

definition mustSyscallOK ::
    "'k host \<Rightarrow> clocks \<Rightarrow> (nat \<Rightarrow> int) \<Rightarrow> nat \<Rightarrow> string \<Rightarrow> string \<Rightarrow> string \<Rightarrow> payload \<Rightarrow> 'k Server \<Rightarrow> unit result \<times> 'k Server" where
  "mustSyscallOK h cs els n taskID agentID name args sv =
     (case sv_Handle h (cs n \<circ> Suc) (els n) (real_request (timed_id (cs n 0) taskID name) taskID agentID name args) sv of
        (response, sv1) \<Rightarrow>
          (if gr_Status response \<noteq> StatusOK
           then Inl (Errorf ''%s for %s failed: %s %s'' [name, agentID, gr_Status response, gr_Error response]) else Inr (), sv1))"

definition intFromPayload :: "gval \<Rightarrow> int" where
  "intFromPayload v = (case v of GInt n \<Rightarrow> n | GInt64 n \<Rightarrow> n | GFloat x \<Rightarrow> f64_to_int x | _ \<Rightarrow> 0)"

definition payload_string :: "payload option \<Rightarrow> string \<Rightarrow> string" where     \<comment> \<open>\<open>payload[key].(string)\<close>, empty otherwise\<close>
  "payload_string p key = (case p of None \<Rightarrow> [] | Some kvs \<Rightarrow> (case payload_value kvs key of GStr s \<Rightarrow> s | _ \<Rightarrow> []))"

definition writeDeltaPage ::
    "'k host \<Rightarrow> clocks \<Rightarrow> (nat \<Rightarrow> int) \<Rightarrow> nat \<Rightarrow> string \<Rightarrow> string \<Rightarrow> string \<Rightarrow> 'k Server \<Rightarrow> (string \<times> int) result \<times> 'k Server" where
  "writeDeltaPage h cs els n taskID agentID content sv =
     (case sv_Handle h (cs n \<circ> Suc) (els n) (real_request (timed_id (cs n 0) taskID ''context.write_delta'') taskID agentID
         ''context.write_delta'' [(''content'', GStr content)]) sv of (response, sv1) \<Rightarrow>
        (if gr_Status response \<noteq> StatusOK then Inl (Errorf ''context.write_delta for %s failed: %s %s''
             [agentID, gr_Status response, gr_Error response])
         else let pageID = payload_string (gr_Payload response) ''page_id'';
             pageBytes = (case gr_Payload response of None \<Rightarrow> 0 | Some p \<Rightarrow> intFromPayload (payload_value p ''bytes''))
           in if pageID = [] \<or> pageBytes \<le> 0
              then Inl (Errorf ''context.write_delta for %s returned invalid page payload'' [agentID]) else Inr (pageID, pageBytes),
         sv1))"

definition real_event :: "clock \<Rightarrow> string \<Rightarrow> string \<Rightarrow> string \<Rightarrow> payload \<Rightarrow> 'k Server \<Rightarrow> 'k Server" where
  "real_event clk taskID agentID eventType p = sv_publish [runtime_event clk eventType taskID agentID p]"

definition toolOutput :: "GResponse \<Rightarrow> string" where
  "toolOutput resp = (let out = payload_string (gr_Payload resp) ''stdout''; err = payload_string (gr_Payload resp) ''stderr'' in
     if gr_Payload resp = None then gr_Error resp
     else if err \<noteq> [] then out @ err else if out \<noteq> [] then out else gr_Error resp)"

definition countToolExec :: "GRecord list \<Rightarrow> int" where
  "countToolExec records = int (length (filter (\<lambda>r. grec_Name r = ''tool.exec'') records))"

section \<open>Preparation\<close>

definition softwareRealTask :: "string \<Rightarrow> DemoResult" where
  "softwareRealTask taskID = \<lparr>dr_TaskID = taskID, dr_Status = ''running'',
     dr_Agents = map (\<lambda>role. demo_agent (taskID @ ''-'' @ role) role ''COMPLETED'')
       [''planner'', ''coder'', ''tester'', ''reviewer'', ''fixer'', ''reporter''],
     dr_DAG = [\<lparr>dn_ID = ''planner'', dn_Role = ''planner'', dn_Dependencies = []\<rparr>,
       \<lparr>dn_ID = ''coder'', dn_Role = ''coder'', dn_Dependencies = [''planner'']\<rparr>,
       \<lparr>dn_ID = ''tester'', dn_Role = ''tester'', dn_Dependencies = [''coder'']\<rparr>,
       \<lparr>dn_ID = ''reviewer'', dn_Role = ''reviewer'', dn_Dependencies = [''tester'']\<rparr>,
       \<lparr>dn_ID = ''fixer'', dn_Role = ''fixer'', dn_Dependencies = [''reviewer'']\<rparr>,
       \<lparr>dn_ID = ''reporter'', dn_Role = ''reporter'', dn_Dependencies = [''fixer'']\<rparr>],
     dr_Events = []\<rparr>"

definition mount_page :: "clock \<Rightarrow> string \<times> string \<Rightarrow> 'k Server \<Rightarrow> unit result \<times> 'k Server" where
  "mount_page clk ap = sv_cvm (MountPage clk (fst ap) (snd ap))"

definition seedSoftwareRealContext ::
    "codec \<Rightarrow> (nat \<Rightarrow> clock) \<Rightarrow> string \<Rightarrow> DemoAgent list \<Rightarrow> 'k Server \<Rightarrow> unit result \<times> 'k Server" where
  "seedSoftwareRealContext cd clks requirement agents =
     bindE (sv_cvm (CreatePage cd (clks 0) KindSystem (''System: AORT-R software-real demo executes through runtime syscalls, scheduler, CVM, IPC and supervisor.'' @ [CHR 10]))) (\<lambda>p1.
     bindE (sv_cvm (CreatePage cd (clks 1) KindProject (''Project: build a tiny string utility and test artifact in isolated agent workspaces.'' @ [CHR 10]))) (\<lambda>p2.
     bindE (sv_cvm (CreatePage cd (clks 2) KindTask (''Requirement: '' @ requirement @ [CHR 10]))) (\<lambda>p3.
       eachE (\<lambda>(n, ap). mount_page (clks n) ap)
         (enumerate 3 (concat (map (\<lambda>a. map (Pair (da_ID a)) [pg_ID p1, pg_ID p2, pg_ID p3]) agents))))))"

definition attachSoftwareRealCapsule ::
    "'k host \<Rightarrow> (nat \<Rightarrow> clock) \<Rightarrow> string \<Rightarrow> string \<Rightarrow> int \<Rightarrow> 'k Server \<Rightarrow> unit result \<times> 'k Server" where
  "attachSoftwareRealCapsule h clks agentID taskID pid sv = (case wd_capsules (sv_world sv) of None \<Rightarrow> (Inr (), sv)
     | Some m \<Rightarrow> (case cap_Runtime agentID m of
         Some rt \<Rightarrow> (Inr (), on_sv_world (on_registry (SetCapsule (clks 0) agentID (cr_CgroupPath rt) (cr_Mode rt))) sv)
       | None \<Rightarrow> (case Prepare (h_capsule h) agentID pid m (wd_ext (sv_world sv)) of ((res, m'), k) \<Rightarrow>
           let sv1 = on_sv_world (\<lambda>w. w\<lparr>wd_capsules := Some m', wd_ext := k\<rparr>) sv in
           case res of
             Inl e \<Rightarrow> (Inl (Wrapf ''prepare software-real capsule %s: %w'' [agentID] e),
               real_event (clks 0) taskID agentID ''software_real.capsule_failed''
                 [(''error'', GStr (h_text h e)), (''pid'', GInt pid)] sv1)
           | Inr rt \<Rightarrow> (Inr (), real_event (clks 1) taskID agentID ''software_real.capsule_attached''
               [(''pid'', GInt pid), (''capsule_mode'', GStr (cr_Mode rt)), (''cgroup_path'', GStr (cr_CgroupPath rt))]
               (on_sv_world (on_registry (SetCapsule (clks 0) agentID (cr_CgroupPath rt) (cr_Mode rt))) sv1)))))"

text \<open>
  The wait for a worker: before each tick other parts of the runtime may have changed the world
  (\<open>ticks\<close>); \<open>ending\<close> is the error of the context or of the deadline that ends the wait.
\<close>

fun waitForSoftwareRealCapsule ::
    "'k host \<Rightarrow> (nat \<Rightarrow> clock) \<Rightarrow> go_error \<Rightarrow> string \<Rightarrow> ('k World \<Rightarrow> 'k World) list \<Rightarrow> 'k Server \<Rightarrow> unit result \<times> 'k Server" where
  "waitForSoftwareRealCapsule h clks ending agentID [] sv = (Inl ending, sv)"
| "waitForSoftwareRealCapsule h clks ending agentID (tick # ticks) sv = (let sv1 = on_sv_world tick sv in
     case Option.bind (wd_registry (sv_world sv1)) (reg_Get agentID) of
       None \<Rightarrow> waitForSoftwareRealCapsule h clks ending agentID ticks sv1
     | Some agent \<Rightarrow> if avp_PID agent = 0 then waitForSoftwareRealCapsule h clks ending agentID ticks sv1
         else attachSoftwareRealCapsule h clks agentID (avp_TaskID agent) (avp_PID agent) sv1)"

record 'k wait_in =
  wi_ticks :: "string \<Rightarrow> ('k World \<Rightarrow> 'k World) list"
  wi_ending :: go_error

definition prepare_agent :: "'k host \<Rightarrow> 'k wait_in \<Rightarrow> (nat \<Rightarrow> clock) \<Rightarrow> string \<Rightarrow> DemoAgent \<Rightarrow> 'k Server \<Rightarrow> unit result \<times> 'k Server" where
  "prepare_agent h wi clks taskID a sv0 = (let
       sv = on_sv_world (on_registry (\<lambda>r. if reg_Get (da_ID a) r = None
         then snd (CreateAgent (clks 0) (da_ID a) (da_Role a) taskID r) else (r, []))) sv0
     in if la_Command (sv_launcher sv) \<noteq> [] \<and> cfg_SocketPath (sv_cfg sv) \<noteq> []
        then (case launcher_Start h \<lparr>spec_AgentID = da_ID a, spec_Role = da_Role a, spec_TaskID = taskID\<rparr> sv of
            (Some e, sv1) \<Rightarrow> (Inl (Wrapf ''start software-real worker %s: %w'' [da_ID a] e), sv1)
          | (None, sv1) \<Rightarrow> waitForSoftwareRealCapsule h (\<lambda>i. clks (i + 1)) (wi_ending wi) (da_ID a) (wi_ticks wi (da_ID a)) sv1)
        else (case h_start h (''sleep'', [''10'']) (wd_ext (sv_world sv)) of (res, k) \<Rightarrow>
          let sv1 = on_sv_world (\<lambda>w. w\<lparr>wd_ext := k\<rparr>) sv in
          case res of Inl e \<Rightarrow> (Inl (Wrapf ''start software-real fallback worker %s: %w'' [da_ID a] e), sv1)
          | Inr pid \<Rightarrow> attachSoftwareRealCapsule h (\<lambda>i. clks (i + 8)) (da_ID a) taskID pid
              (on_sv_world (world_HandleMessage h (\<lambda>i. clks (i + 1)) \<lparr>wm_Type = MessageRegister, wm_RequestID = [],
                 wm_AgentID = da_ID a, wm_Role = da_Role a, wm_TaskID = taskID, wm_PID = pid, wm_Status = [], wm_Name = [],
                 wm_Args = None, wm_Payload = None\<rparr>) sv1)))"

definition prepareSoftwareRealAgentCapsules ::
    "'k host \<Rightarrow> 'k wait_in \<Rightarrow> clocks \<Rightarrow> DemoResult \<Rightarrow> 'k Server \<Rightarrow> unit result \<times> 'k Server" where
  "prepareSoftwareRealAgentCapsules h wi cs task sv = (if wd_registry (sv_world sv) = None then (Inr (), sv)
     else eachE (\<lambda>(n, a). prepare_agent h wi (cs n) (dr_TaskID task) a) (enumerate 0 (dr_Agents task)) sv)"

definition complete_all :: "(nat \<Rightarrow> clock) \<Rightarrow> (nat \<times> DemoAgent) list \<Rightarrow> 'k World \<Rightarrow> 'k World" where
  "complete_all clks agents = fold (\<lambda>(n, a). on_registry (SetState (clks n) (da_ID a) StateCompleted)) agents"

definition completeSoftwareRealAgents :: "(nat \<Rightarrow> clock) \<Rightarrow> DemoResult \<Rightarrow> 'k Server \<Rightarrow> 'k Server" where
  "completeSoftwareRealAgents clks task = on_sv_world (complete_all clks (enumerate 0 (dr_Agents task)))"

definition softwareRealCheckpointEvidence ::
    "go_error option \<Rightarrow> (string \<times> Snapshot result) list \<Rightarrow> string \<Rightarrow> int \<times> string" where
  "softwareRealCheckpointEvidence wk files taskID = (case checkpoint_List wk files of Inl _ \<Rightarrow> (0, [])
     | Inr ss \<Rightarrow> foldl (\<lambda>(n, mode) s. if snap_TaskID s \<noteq> taskID then (n, mode)
         else (n + 1, if snap_Mode s \<noteq> [] then snap_Mode s else mode)) (0, []) ss)"

section \<open>The steps of the agents\<close>

definition brokenGoModuleScript :: string where
  "brokenGoModuleScript = join_on (CHR 10) [
     ''cat > go.mod <<'' @ [CHR 39] @ ''EOF'' @ [CHR 39],
     ''module example.com/aortstrings'',
     [],
     ''go 1.22'',
     ''EOF'',
     ''cat > strings.go <<'' @ [CHR 39] @ ''EOF'' @ [CHR 39],
     ''package aortstrings'',
     [],
     ''func NormalizeSpace(s string) string {'',
     [CHR 9] @ ''return s'',
     ''}'',
     ''EOF'',
     ''cat > strings_test.go <<'' @ [CHR 39] @ ''EOF'' @ [CHR 39],
     ''package aortstrings'',
     [],
     ''import '' @ [CHR 34] @ ''testing'' @ [CHR 34],
     [],
     ''func TestNormalizeSpace(t *testing.T) {'',
     [CHR 9] @ ''got := NormalizeSpace('' @ [CHR 34] @ '' alpha   beta '' @ [CHR 34] @ '')'',
     [CHR 9] @ ''if got != '' @ [CHR 34] @ ''alpha beta'' @ [CHR 34] @ '' {'',
     [CHR 9] @ [CHR 9] @ ''t.Fatalf('' @ [CHR 34] @ ''NormalizeSpace() = %q'' @ [CHR 34] @ '', got)'',
     [CHR 9] @ ''}'',
     ''}'',
     ''EOF'',
     ''go test ./...'']"

definition fixedGoModuleScript :: string where
  "fixedGoModuleScript = join_on (CHR 10) [
     ''cat > go.mod <<'' @ [CHR 39] @ ''EOF'' @ [CHR 39],
     ''module example.com/aortstrings'',
     [],
     ''go 1.22'',
     ''EOF'',
     ''cat > strings.go <<'' @ [CHR 39] @ ''EOF'' @ [CHR 39],
     ''package aortstrings'',
     [],
     ''import '' @ [CHR 34] @ ''strings'' @ [CHR 34],
     [],
     ''func NormalizeSpace(s string) string {'',
     [CHR 9] @ ''return strings.Join(strings.Fields(s), '' @ [CHR 34] @ '' '' @ [CHR 34] @ '')'',
     ''}'',
     ''EOF'',
     ''cat > strings_test.go <<'' @ [CHR 39] @ ''EOF'' @ [CHR 39],
     ''package aortstrings'',
     [],
     ''import '' @ [CHR 34] @ ''testing'' @ [CHR 34],
     [],
     ''func TestNormalizeSpace(t *testing.T) {'',
     [CHR 9] @ ''got := NormalizeSpace('' @ [CHR 34] @ '' alpha   beta '' @ [CHR 34] @ '')'',
     [CHR 9] @ ''if got != '' @ [CHR 34] @ ''alpha beta'' @ [CHR 34] @ '' {'',
     [CHR 9] @ [CHR 9] @ ''t.Fatalf('' @ [CHR 34] @ ''NormalizeSpace() = %q'' @ [CHR 34] @ '', got)'',
     [CHR 9] @ ''}'',
     ''}'',
     ''EOF'',
     ''go test ./...'']"

record TestEvidence =
  tev_FirstStatus :: string
  tev_SecondStatus :: string
  tev_FirstOutput :: string
  tev_SecondOutput :: string

definition scheduleSoftwareRealAgent ::
    "'k host \<Rightarrow> (nat \<Rightarrow> clock) \<Rightarrow> string \<Rightarrow> DemoAgent \<Rightarrow> nat \<Rightarrow> 'k Server \<Rightarrow> unit result \<times> 'k Server" where
  "scheduleSoftwareRealAgent h clks taskID a index sv = (let
       candidate = zero_AVP\<lparr>avp_AgentID := da_ID a, avp_TaskID := taskID, avp_Role := da_Role a, avp_State := StateReady,
         avp_Weight := 100, avp_VRuntime := of_nat (index * 10), avp_PageTable := sv_table sv (da_ID a),
         avp_CreatedAt := unix_ms (clks 0 0) + int index, avp_UpdatedAt := unix_ms (clks 0 1),
         avp_ContextPages := sv_table sv (da_ID a)\<rparr>
     in case Select (clks 1) taskID [candidate] (sv_scheduler sv) of
          (None, _) \<Rightarrow> (Inl (Errorf ''scheduler found no ready agent for %s/%s'' [taskID, da_ID a]), sv)
        | (Some (selected, decision), sched) \<Rightarrow>
            (Inr (), publishSchedulerDecision h (\<lambda>i. clks (i + 2)) decision (sv\<lparr>sv_scheduler := sched\<rparr>)))"

definition go_test_request :: "string \<Rightarrow> string \<Rightarrow> string \<Rightarrow> string \<Rightarrow> GRequest" where
  "go_test_request requestID taskID agentID script = real_request requestID taskID agentID ''tool.exec''
     [(''command'', GStr ''sh''), (''args'', GStrs [''-c'', script]), (''timeout_ms'', GInt 30000)]"

definition planner_step :: "'k host \<Rightarrow> clocks \<Rightarrow> (nat \<Rightarrow> int) \<Rightarrow> string \<Rightarrow> string \<Rightarrow> TestEvidence \<Rightarrow> 'k Server \<Rightarrow> TestEvidence result \<times> 'k Server" where
  "planner_step h cs els taskID agentID t = bindE (mustSyscallOK h cs els 0 taskID agentID ''context.materialize'' []) (\<lambda>_.
     bindE (mustSyscallOK h cs els 1 taskID agentID ''llm.call'' [(''role'', GStr ''planner''),
       (''prompt'', GStr ''Plan a small Go module with string utility tests.'')]) (\<lambda>_.
     bindE (mustSyscallOK h cs els 2 taskID agentID ''context.write_delta'' [(''content'',
       GStr (''Plan: coder writes strings.NormalizeSpace, tester runs shell-backed checks, reviewer publishes findings, fixer patches, reporter closes.'' @ [CHR 10]))]) (\<lambda>_ sv.
     (Inr t, snd (sv_Handle h (cs 3) (els 3) (real_request (taskID @ ''-reviewer-spawn-fixer'') taskID agentID ''agent.spawn''
       [(''agent_id'', GStr (taskID @ ''-fixer'')), (''role'', GStr ''fixer''),
        (''reason'', GStr ''review feedback may require a follow-up patch''),
        (''dependencies'', GStrs [taskID @ ''-reviewer''])]) sv)))))"

definition coder_step :: "'k host \<Rightarrow> clocks \<Rightarrow> (nat \<Rightarrow> int) \<Rightarrow> string \<Rightarrow> string \<Rightarrow> TestEvidence \<Rightarrow> 'k Server \<Rightarrow> TestEvidence result \<times> 'k Server" where
  "coder_step h cs els taskID agentID t = bindE (mustSyscallOK h cs els 0 taskID agentID ''context.materialize'' []) (\<lambda>_.
     bindE (mustSyscallOK h cs els 1 taskID agentID ''context.write_delta'' [(''content'',
       GStr (''Code artifact: func NormalizeSpace(s string) string { return strings.Join(strings.Fields(s), '' @ [CHR 34]
         @ '' '' @ [CHR 34] @ '') }'' @ [CHR 10]))]) (\<lambda>_. returnE t))"

definition tester_step :: "'k host \<Rightarrow> clocks \<Rightarrow> (nat \<Rightarrow> int) \<Rightarrow> string \<Rightarrow> string \<Rightarrow> TestEvidence \<Rightarrow> 'k Server \<Rightarrow> TestEvidence result \<times> 'k Server" where
  "tester_step h cs els taskID agentID t = bindE (mustSyscallOK h cs els 0 taskID agentID ''context.materialize'' []) (\<lambda>_ sv.
     case sv_Handle h (cs 1) (els 1) (go_test_request (taskID @ ''-tester-go-test-first'') taskID agentID brokenGoModuleScript) sv of
       (first, sv1) \<Rightarrow> if gr_Status first \<noteq> StatusError
         then (Inl (Errorf ''expected first go test to fail, got %s'' [gr_Status first]), sv1)
         else (Inr (t\<lparr>tev_FirstOutput := toolOutput first, tev_FirstStatus := ''failed''\<rparr>),
           real_event (cs 2 0) taskID agentID ''software_real.first_go_test_failed'' [(''command'', GStr ''go test ./...'')] sv1))"

definition reviewer_step :: "'k host \<Rightarrow> clocks \<Rightarrow> (nat \<Rightarrow> int) \<Rightarrow> string \<Rightarrow> string \<Rightarrow> TestEvidence \<Rightarrow> 'k Server \<Rightarrow> TestEvidence result \<times> 'k Server" where
  "reviewer_step h cs els taskID agentID t = bindE (writeDeltaPage h cs els 0 taskID agentID
       (''Review: first go test failed; publish page reference so fixer can avoid copying review text.'' @ [CHR 10])) (\<lambda>(pageID, pageBytes).
     bindE (mustSyscallOK h cs els 1 taskID agentID ''ipc.publish'' [(''topic'', GStr ''software-real.review''),
       (''page_id'', GStr pageID), (''size_bytes'', GInt pageBytes)]) (\<lambda>_. returnE t))"

definition fixer_step :: "'k host \<Rightarrow> clocks \<Rightarrow> (nat \<Rightarrow> int) \<Rightarrow> string \<Rightarrow> string \<Rightarrow> TestEvidence \<Rightarrow> 'k Server \<Rightarrow> TestEvidence result \<times> 'k Server" where
  "fixer_step h cs els taskID agentID t =
     bindE (mustSyscallOK h cs els 0 taskID agentID ''ipc.poll'' [(''topic'', GStr ''software-real.review'')]) (\<lambda>_.
     bindE (mustSyscallOK h cs els 1 taskID agentID ''context.write_delta'' [(''content'',
       GStr (''Fix: preserve Unicode spacing behavior by using Fields before Join; no duplicate context copy needed.'' @ [CHR 10]))]) (\<lambda>_ sv.
     case sv_Handle h (cs 2) (els 2) (go_test_request (taskID @ ''-fixer-go-test-second'') taskID agentID fixedGoModuleScript) sv of
       (second, sv1) \<Rightarrow> if gr_Status second \<noteq> StatusOK
         then (Inl (Errorf ''expected second go test to pass, got %s %s'' [gr_Status second, gr_Error second]), sv1)
         else (Inr (t\<lparr>tev_SecondOutput := toolOutput second, tev_SecondStatus := ''passed''\<rparr>),
           real_event (cs 3 0) taskID agentID ''software_real.second_go_test_passed'' [(''command'', GStr ''go test ./...'')] sv1)))"

definition reporter_step :: "'k host \<Rightarrow> clocks \<Rightarrow> (nat \<Rightarrow> int) \<Rightarrow> string \<Rightarrow> string \<Rightarrow> TestEvidence \<Rightarrow> 'k Server \<Rightarrow> TestEvidence result \<times> 'k Server" where
  "reporter_step h cs els taskID agentID t =
     bindE (mustSyscallOK h cs els 0 taskID agentID ''context.materialize'' []) (\<lambda>_. returnE t)"

definition role_step :: "'k host \<Rightarrow> clocks \<Rightarrow> (nat \<Rightarrow> int) \<Rightarrow> string \<Rightarrow> DemoAgent \<Rightarrow> TestEvidence \<Rightarrow> 'k Server \<Rightarrow> TestEvidence result \<times> 'k Server" where
  "role_step h cs els taskID a = (
     if da_Role a = ''planner'' then planner_step h cs els taskID (da_ID a)
     else if da_Role a = ''coder'' then coder_step h cs els taskID (da_ID a)
     else if da_Role a = ''tester'' then tester_step h cs els taskID (da_ID a)
     else if da_Role a = ''reviewer'' then reviewer_step h cs els taskID (da_ID a)
     else if da_Role a = ''fixer'' then fixer_step h cs els taskID (da_ID a)
     else if da_Role a = ''reporter'' then reporter_step h cs els taskID (da_ID a)
     else returnE)"

text \<open>The agents in turn; step \<open>n\<close> has the clocks \<open>cs n\<close>.\<close>

fun agent_steps ::
    "'k host \<Rightarrow> (nat \<Rightarrow> clocks) \<Rightarrow> (nat \<Rightarrow> nat \<Rightarrow> int) \<Rightarrow> string \<Rightarrow> nat \<Rightarrow> DemoAgent list \<Rightarrow> TestEvidence \<Rightarrow> 'k Server
     \<Rightarrow> TestEvidence result \<times> 'k Server" where
  "agent_steps h cs els taskID index [] t = returnE t"
| "agent_steps h cs els taskID index (a # as) t =
     bindE (scheduleSoftwareRealAgent h (cs index 10) taskID a index) (\<lambda>_ sv.
     bindE (role_step h (cs index) (els index) taskID a t) (agent_steps h cs els taskID (Suc index) as)
       (real_event (cs index 11 0) taskID (da_ID a) (''software_real.'' @ da_Role a @ ''_scheduled'') [(''role'', GStr (da_Role a))] sv))"

definition runSoftwareRealAgentSteps ::
    "'k host \<Rightarrow> (nat \<Rightarrow> clocks) \<Rightarrow> (nat \<Rightarrow> nat \<Rightarrow> int) \<Rightarrow> DemoResult \<Rightarrow> 'k Server \<Rightarrow> TestEvidence result \<times> 'k Server" where
  "runSoftwareRealAgentSteps h cs els task = agent_steps h cs els (dr_TaskID task) 0 (dr_Agents task)
     \<lparr>tev_FirstStatus = [], tev_SecondStatus = [], tev_FirstOutput = [], tev_SecondOutput = []\<rparr>"

definition runSoftwareRealRecoverySteps ::
    "'k host \<Rightarrow> clocks \<Rightarrow> (nat \<Rightarrow> int) \<Rightarrow> string \<Rightarrow> 'k Server \<Rightarrow> unit result \<times> 'k Server" where
  "runSoftwareRealRecoverySteps h cs els taskID sv =
     bindE (mustSyscallOK h cs els 0 taskID (taskID @ ''-fixer'') ''tool.exec'' [(''command'', GStr ''sh''),
       (''args'', GStrs [''-c'', ''printf '' @ [CHR 39] @ ''recovered-and-fixed'' @ [CHR 92] @ ''n'' @ [CHR 39] @ '' > fixer.out'']),
       (''timeout_ms'', GInt 1000)]) (\<lambda>_.
     mustSyscallOK h cs els 1 taskID (taskID @ ''-reporter'') ''agent.report'' [(''status'', GStr ''success''),
       (''summary'', GStr ''software-real demo completed with recovered tool timeout''),
       (''evidence_mode'', GStr ''real-runtime'')])
     (real_event (cs 2 0) taskID (taskID @ ''-fixer'') ''software_real.fault_recovered''
       [(''recovery'', GStr ''resume fixer after tester timeout'')] sv)"

section \<open>The run\<close>

definition default_requirement :: string where     \<comment> \<open>the UTF-8 bytes of the Chinese text of the code\<close>
  "default_requirement = [CHR 0xE5, CHR 0xAE, CHR 0x9E, CHR 0xE7, CHR 0x8E, CHR 0xB0, CHR 0xE4, CHR 0xB8, CHR 0x80,
     CHR 0xE4, CHR 0xB8, CHR 0xAA, CHR 0xE5, CHR 0xB8, CHR 0xA6, CHR 0xE6, CHR 0xB5, CHR 0x8B,
     CHR 0xE8, CHR 0xAF, CHR 0x95, CHR 0xE7, CHR 0x9A, CHR 0x84, CHR 0xE5, CHR 0xAD, CHR 0x97,
     CHR 0xE7, CHR 0xAC, CHR 0xA6, CHR 0xE4, CHR 0xB8, CHR 0xB2, CHR 0xE5, CHR 0xB7, CHR 0xA5,
     CHR 0xE5, CHR 0x85, CHR 0xB7, CHR 0xE5, CHR 0x87, CHR 0xBD, CHR 0xE6, CHR 0x95, CHR 0xB0]"

text \<open>What a run finds around it; the checkpoint directory is listed after the run's own save.\<close>

record 'k real_in =
  ri_clks :: "nat \<Rightarrow> nat \<Rightarrow> clocks"
  ri_elapsed :: "nat \<Rightarrow> nat \<Rightarrow> nat \<Rightarrow> int"
  ri_wait :: "'k wait_in"
  ri_save :: save_io
  ri_agents :: "string list"
  ri_walk :: "go_error option"
  ri_files :: "disk \<Rightarrow> (string \<times> Snapshot result) list"

definition tool_timeout_fault ::
    "'k host \<Rightarrow> clocks \<Rightarrow> int \<Rightarrow> string \<Rightarrow> 'k Server \<Rightarrow> FaultRecord result \<times> 'k Server" where
  "tool_timeout_fault h cs elapsed demoID sv = (let agentID = demoID @ ''-tester'' in
     case sv_Handle h (cs 0) elapsed (real_request (demoID @ ''-tester-tool-timeout'') demoID agentID ''tool.exec''
       [(''command'', GStr ''sh''), (''args'', GStrs [''-c'', ''sleep 1'']), (''timeout_ms'', GInt 10)]) sv of (resp, sv1) \<Rightarrow>
     (case sup_Record (cs 1 0) \<lparr>flt_Type = FaultToolTimeout, flt_TaskID = demoID, flt_AgentID = agentID,
         flt_RecoveryAction = ''kill timed-out tool process and resume tester agent'',
         flt_Details = [(''syscall'', GStr ''tool.exec''), (''syscall_status'', GStr (gr_Status resp)),
           (''error'', GStr (gr_Error resp))]\<rparr> (sv_supervisor sv1) of (fault, svr, ev) \<Rightarrow>
       (if gr_Status resp \<noteq> StatusTimeout then Inl (Errorf ''expected timeout fault, got %s'' [gr_Status resp]) else Inr fault,
        real_event (cs 2 0) demoID agentID ''software_real.tool_exec_timeout'' [(''syscall_status'', GStr (gr_Status resp)),
          (''fault_id'', GStr (frec_ID fault))] (sv_publish ev (sv1\<lparr>sv_supervisor := svr\<rparr>)))))"

definition sv_stats :: "'k host \<Rightarrow> 'k Server \<Rightarrow> Stats" where
  "sv_stats h sv = (case gw_cvm (sv_gateway sv) of None \<Rightarrow> cvm_Stats [] (NewStore True) | Some s \<Rightarrow> cvm_Stats (h_order h s) s)"

text \<open>The end of a run that has come so far: the agents complete, the checkpoint, and the counts.\<close>

definition finish_real ::
    "'k host \<Rightarrow> 'k real_in \<Rightarrow> string \<Rightarrow> DemoResult \<Rightarrow> TestEvidence \<Rightarrow> FaultRecord \<Rightarrow> 'k Server \<Rightarrow> 'k Server
     \<Rightarrow> (SoftwareRealResult \<times> DemoResult) \<times> 'k Server" where
  "finish_real h i requirement task0 tests fault sv0 sv = (let
       demoID = dr_TaskID task0;
       sv1 = completeSoftwareRealAgents (ri_clks i 5 0 0) task0 sv;
       task = task0\<lparr>dr_Status := ''success'', dr_Agents := agentsForTask h (ri_agents i) (sv_world sv1) task0\<rparr>;
       sv2 = saveCheckpoint h (ri_clks i 5 1 0) (ri_save i) task 1 sv1;
       (count, mode) = softwareRealCheckpointEvidence (ri_walk i) (ri_files i (sv_checkpoints sv2)) demoID;
       sv3 = real_event (ri_clks i 5 2 0 0) demoID (demoID @ ''-reporter'') ''software_real.reporter_completed''
         [(''final_status'', GStr ''success'')] sv2;
       records = gw_Records (sv_gateway sv3); before = length (gw_Records (sv_gateway sv0));
       stats = sv_stats h sv3
     in ((\<lparr>swr_DemoID = demoID, swr_TaskID = demoID, swr_Requirement = requirement, swr_EvidenceMode = ''real-runtime'',
         swr_FinalStatus = ''success'', swr_Agents = dr_Agents task, swr_DAGNodes = int (length (dr_DAG task)),
         swr_SyscallCount = int (length records) - int before,
         swr_SchedulerDecisionCount = int (length (sched_Decisions (sv_scheduler sv3)))
           - int (length (sched_Decisions (sv_scheduler sv0))),
         swr_ContextPages = stats_TotalPages stats, swr_SharedPages = stats_SharedPages stats,
         swr_SavedTokens = stats_SavedTokens stats,
         swr_IPCMessages = met_TotalMessages (bb_Metrics (sv_ipc sv3)) - met_TotalMessages (bb_Metrics (sv_ipc sv0)),
         swr_ToolExecCount = countToolExec (drop before records), swr_FaultInjected = True,
         swr_FaultRecovered = (frec_Status fault = StatusRecovered), swr_CheckpointUsed = (0 < count),
         swr_CheckpointCount = count, swr_CheckpointMode = mode, swr_FirstTestStatus = tev_FirstStatus tests,
         swr_SecondTestStatus = tev_SecondStatus tests, swr_FirstTestOutput = tev_FirstOutput tests,
         swr_SecondTestOutput = tev_SecondOutput tests, swr_StartedAt = unix_ms (ri_clks i 0 0 0 0 0),
         swr_CompletedAt = unix_ms (ri_clks i 5 3 0 0 0)\<rparr>, task), sv3))"

definition runSoftwareRealDemo ::
    "'k host \<Rightarrow> 'k real_in \<Rightarrow> string \<Rightarrow> 'k Server \<Rightarrow> (SoftwareRealResult \<times> DemoResult) result \<times> 'k Server" where
  "runSoftwareRealDemo h i req sv0 = (let
       requirement = (if req = [] then default_requirement else req);
       demoID = ''software-real-'' @ Itoa (unix_nano (ri_clks i 0 0 0 0 0));
       task = softwareRealTask demoID
     in bindE (seedSoftwareRealContext (h_codec h) (ri_clks i 1 0 0) requirement (dr_Agents task)) (\<lambda>_.
        bindE (prepareSoftwareRealAgentCapsules h (ri_wait i) (ri_clks i 1 1) task) (\<lambda>_.
        bindE (runSoftwareRealAgentSteps h (ri_clks i 2) (ri_elapsed i 2) task) (\<lambda>tests.
        bindE (tool_timeout_fault h (ri_clks i 3 0) (ri_elapsed i 3 0 0) demoID) (\<lambda>fault.
        bindE (runSoftwareRealRecoverySteps h (ri_clks i 4 0) (ri_elapsed i 4 0) demoID) (\<lambda>_ sv.
          case finish_real h i requirement task tests fault sv0 sv of (out, sv1) \<Rightarrow> (Inr out, sv1)))))) sv0)"

section \<open>The handler\<close>

text \<open>\<open>err\<close> is the first error of making the directory, encoding and writing.\<close>

definition saveSoftwareRealResult :: "'k host \<Rightarrow> clock \<Rightarrow> go_error option \<Rightarrow> SoftwareRealResult \<Rightarrow> 'k Server \<Rightarrow> 'k Server" where
  "saveSoftwareRealResult h clk err result sv = (case err of None \<Rightarrow> sv
     | Some e \<Rightarrow> real_event clk (swr_TaskID result) [] ''software_real.result_save_failed'' [(''error'', GStr (h_text h e))] sv)"

text \<open>\<open>requirement\<close> is the decoded body, empty when there is none.\<close>

definition handleSoftwareRealDemoRun ::
    "'k host \<Rightarrow> 'k real_in \<Rightarrow> clock \<Rightarrow> string result \<Rightarrow> go_error option \<Rightarrow> 'k handler" where
  "handleSoftwareRealDemoRun h i clk requirement save_err = only_method ''POST'' (\<lambda>req sv. case requirement of
       Inl e \<Rightarrow> (respond 400 (BError (h_text h e)), sv)
     | Inr r \<Rightarrow> (case runSoftwareRealDemo h i r sv of
         (Inl e, sv1) \<Rightarrow> (respond 500 (BError (h_text h e)), sv1)
       | (Inr (result, task), sv1) \<Rightarrow> (respond 202 (BSoftwareReal result),
           saveSoftwareRealResult h clk save_err result ((sv_put_task task sv1)\<lparr>sv_softwareReal := Some result\<rparr>))))"

end
