(* ===== verification/ServerFacts.thy ===== *)
theory ServerFacts
  imports SoftwareReal RegistryCorrect GatewayCorrect CapsuleCorrect WorkspaceContract
begin

text \<open>
  What reading a part of the server after an update of another gives, and the server that the examples of
  the theories about it start from.
\<close>

section \<open>Parts of the server\<close>

lemma sv_world_on [simp]: "sv_world (on_sv_world f sv) = f (sv_world sv)"
  by (simp add: sv_world_def on_sv_world_def)

lemma on_sv_world_sel [simp]:
  "sv_launcher (on_sv_world f sv) = sv_launcher sv" "sv_started (on_sv_world f sv) = sv_started sv"
  "sv_scheduler (on_sv_world f sv) = sv_scheduler sv" "sv_supervisor (on_sv_world f sv) = sv_supervisor sv"
  "sv_checkpoints (on_sv_world f sv) = sv_checkpoints sv" "sv_sampler (on_sv_world f sv) = sv_sampler sv"
  "sv_pressure (on_sv_world f sv) = sv_pressure sv"
  by (simp_all add: on_sv_world_def)

lemma sv_world_update [simp]:
  "sv_world (sv\<lparr>sv_scheduler := x\<rparr>) = sv_world sv" "sv_world (sv\<lparr>sv_started := y\<rparr>) = sv_world sv"
  "sv_world (sv\<lparr>sv_checkpoints := d\<rparr>) = sv_world sv" "sv_world (sv\<lparr>sv_supervisor := p\<rparr>) = sv_world sv"
  by (simp_all add: sv_world_def)

lemma wd_publish_sel [simp]: "wd_registry (wd_publish ev w) = wd_registry w" "wd_tasks (wd_publish ev w) = wd_tasks w"
  "wd_capsules (wd_publish ev w) = wd_capsules w" "wd_workspace (wd_publish ev w) = wd_workspace w"
  "wd_out (wd_publish ev w) = wd_out w @ ev" "wd_ext (wd_publish ev w) = wd_ext w"
  by (simp_all add: wd_publish_def)

section \<open>A small server\<close>

text \<open>No pressure files, no overlayfs, a kernel that logs signals, tools that do nothing, workers that start.\<close>

definition small_host :: "(int \<times> int) list host" where
  "small_host = \<lparr>h_capsule = log_kernel, h_workspace = plain_env,
     h_psi = (\<lambda>t. \<lparr>pe_read = (\<lambda>p. Inl (SysError ''no such file'')), pe_exists = (\<lambda>p. False),
       pe_float = (\<lambda>s. Inr 0), pe_text = (\<lambda>e. ''error'')\<rparr>),
     h_codec = some_codec, h_getenv = (\<lambda>n. []), h_marshal = (\<lambda>p. int (length p)), h_text = (\<lambda>e. ''error''),
     h_order = (\<lambda>s. []), h_run = (\<lambda>c as cwd t w. (tool_result (if c = ''false'' then Some (ExitError 1 ''exit status 1'')
       else None), w)),
     h_transfer = (\<lambda>p n k. ((None, zero_SmokeResult), k)), h_start = (\<lambda>argv k. (Inr 41, k))\<rparr>"

definition small_agent :: "string \<Rightarrow> AgentState \<Rightarrow> AVP" where
  "small_agent i st = zero_AVP\<lparr>avp_AgentID := i, avp_TaskID := ''t'', avp_Role := ''Coder'', avp_State := st\<rparr>"

lemma small_agent_sel [simp]: "avp_AgentID (small_agent i st) = i" "avp_State (small_agent i st) = st"
  "avp_TaskID (small_agent i st) = ''t''"
  by (simp_all add: small_agent_def)

definition small_registry :: Registry where
  "small_registry = reg_put ''a'' (small_agent ''a'' StateRunning) (reg_put ''b'' (small_agent ''b'' StateCreated) (NewRegistry True))"

definition small_clks :: "nat \<Rightarrow> nat \<Rightarrow> clock" where "small_clks = (\<lambda>i j n. at_ms 5)"

definition small_server :: "(int \<times> int) list Server" where
  "small_server = (let sv = new_server small_host (small_clks 0 0) NewRouter default_config [] Map.empty []
     in on_sv_world (\<lambda>w. w\<lparr>wd_registry := Some small_registry, wd_capsules := Some log_manager\<rparr>)
          (sv\<lparr>sv_launcher := \<lparr>la_Command = ''worker'', la_SocketPath = ''/s''\<rparr>\<rparr>))"

lemma small_server_sel [simp]:
  "wd_registry (sv_world small_server) = Some small_registry" "wd_capsules (sv_world small_server) = Some log_manager"
  "sv_launcher small_server = \<lparr>la_Command = ''worker'', la_SocketPath = ''/s''\<rparr>" "sv_started small_server = []"
  "wd_ext (sv_world small_server) = []" "wd_tasks (sv_world small_server) = Map.empty"
  by (simp_all add: small_server_def new_server_def NewGateway_def sv_world_def on_sv_world_def Let_def)

lemma small_registry_sel [simp]:
  "reg_Get ''a'' small_registry = Some (small_agent ''a'' StateRunning)"
  "reg_Get ''b'' small_registry = Some (small_agent ''b'' StateCreated)" "reg_Get ''x'' small_registry = None"
  "reg_inv small_registry"
  by (simp_all add: small_registry_def reg_Get_def reg_put_def NewRegistry_def reg_inv_def)

end
