(* ===== verification/ServerDemo.thy ===== *)
theory ServerDemo
  imports ServerFacts SchedulerCorrect PressureCorrect
begin

text \<open>
  The scheduling loop of the demo (\<open>runDemo\<close>): it ends, and it starts every pending worker once, in the
  order of the decisions the scheduler logs. What the decisions report of the pressure is below.
\<close>

section \<open>What the steps of a round leave alone\<close>

text \<open>The parts of the server the loop depends on.\<close>

definition loop_view :: "'k Server \<Rightarrow> Registry option \<times> Launcher \<times> Spec list \<times> DecisionLog list" where
  "loop_view sv = (wd_registry (sv_world sv), sv_launcher sv, sv_started sv, sch_decisions (sv_scheduler sv))"

lemma loop_view_publish [simp]: "loop_view (sv_publish ev sv) = loop_view sv"
  by (simp add: loop_view_def sv_publish_def)

lemma sample_decisions:
  "sampleSchedulerResourcePressure h clk sv = (p, sv1) \<Longrightarrow> loop_view sv1 = loop_view sv"
  by (auto simp: sampleSchedulerResourcePressure_def Let_def loop_view_def SetResourcePressure_def)

lemma loop_view_decision [simp]: "loop_view (publishSchedulerDecision h clks d sv) = loop_view sv"
proof -
  obtain p sv1 where s: "sampleSchedulerResourcePressure h (clks 0) sv = (p, sv1)" by fastforce
  show ?thesis unfolding publishSchedulerDecision_def s by (simp add: Let_def sample_decisions [OF s])
qed

section \<open>Candidates\<close>

lemma Enrich_same:
  assumes "Enrich env rt agent = (agent', p, err)"
  shows "avp_AgentID agent' = avp_AgentID agent \<and> avp_State agent' = avp_State agent"
proof -
  have "agent' = agent\<lparr>avp_MemoryCurrent := avp_MemoryCurrent agent', avp_PidsCurrent := avp_PidsCurrent agent',
      avp_CPUStat := avp_CPUStat agent'\<rparr>"
    using Enrich_labelled [of agent env rt] by (simp add: assms labelled_def)
  then show ?thesis by (metis AVP.select_convs(1) AVP.surjective AVP.simps)
qed

lemma candidates_loop_spec:
  assumes "candidates_loop env rt r pages specs c b = (agents, out)"
    and "\<And>s. s \<in> set specs \<Longrightarrow> reg_Get (spec_AgentID s) r \<noteq> None" and "reg_inv r"
  shows "map avp_AgentID agents = map spec_AgentID specs \<and> (\<forall>a\<in>set agents. avp_State a = StateReady)"
  using assms(1,2)
proof (induction specs arbitrary: c b agents out)
  case (Cons s specs)
  obtain a0 where a0: "reg_Get (spec_AgentID s) r = Some a0" using Cons.prems(2) by fastforce
  define a1 where "a1 = a0\<lparr>avp_State := StateReady, avp_PageTable := pages (spec_AgentID s)\<rparr>"
  have a1: "avp_AgentID a1 = spec_AgentID s" "avp_State a1 = StateReady"
    using assms(3) a0 by (auto simp: a1_def reg_inv_def reg_Get_def)
  obtain a c1 b1 where pick: "(if avp_CgroupPath a1 = [] then (a1, c, b) else case Enrich env rt a1 of (enriched, p, err) \<Rightarrow>
      if err = None then (enriched, maxResourcePressure c p, True) else (a1, c, b)) = (a, c1, b1)" by (rule prod_cases3)
  have a: "avp_AgentID a = spec_AgentID s \<and> avp_State a = StateReady"
  proof (cases "avp_CgroupPath a1 = []")
    case False
    obtain e p err where en: "Enrich env rt a1 = (e, p, err)" by (rule prod_cases3)
    show ?thesis using pick False a1 Enrich_same [OF en] by (cases err) (auto simp: en)
  qed (use pick a1 in auto)
  obtain rest out' where rest: "candidates_loop env rt r pages specs c1 b1 = (rest, out')" by (rule prod.exhaust)
  have "agents = a # rest" using Cons.prems(1) unfolding candidates_loop.simps a0 option.case Let_def
      a1_def [symmetric] pick prod.case rest by simp
  then show ?case using Cons.IH [OF rest] Cons.prems(2) a by simp
qed simp

lemma schedulerCandidates_spec:
  assumes "schedulerCandidates h clk pending sv = (agents, sv1)"
    and "wd_registry (sv_world sv) = Some r" and "reg_inv r"
    and "\<And>s. s \<in> set pending \<Longrightarrow> reg_Get (spec_AgentID s) r \<noteq> None"
  shows "map avp_AgentID agents = map spec_AgentID pending \<and> readyAgents agents = agents \<and> loop_view sv1 = loop_view sv"
proof -
  obtain as c b where run: "candidates_loop (h_psi h (clk 0)) (sv_sampler sv) r (sv_table sv) pending
      zero_ResourcePressure False = (as, c, b)" by (rule prod_cases3)
  have out: "agents = as \<and> sv1 = (if b then sv\<lparr>sv_scheduler := SetResourcePressure c (sv_scheduler sv)\<rparr> else sv)"
    using assms(1) unfolding schedulerCandidates_def assms(2) option.case run prod.case by simp
  then show ?thesis using candidates_loop_spec [OF run assms(4,3)]
    by (auto simp: loop_view_def SetResourcePressure_def readyAgents_def)
qed

lemma pop_loop_mset: "pop_loop specs i = Some (s, rest) \<Longrightarrow> mset specs = add_mset s (mset rest) \<and> spec_AgentID s = i"
  by (induction specs arbitrary: rest) (auto split: if_splits)

lemma pop_loop_None: "pop_loop specs i = None \<longleftrightarrow> i \<notin> spec_AgentID ` set specs"
  by (induction specs) auto

lemma popSpec_spec:
  assumes "popSpec specs i = (s, rest)" "i \<in> spec_AgentID ` set specs"
  shows "mset specs = add_mset s (mset rest) \<and> spec_AgentID s = i"
proof -
  have "pop_loop specs i = Some (s, rest)" using assms by (auto simp: popSpec_def pop_loop_None split: option.splits)
  then show ?thesis by (rule pop_loop_mset)
qed

section \<open>The loop\<close>

text \<open>A launcher whose processes always start.\<close>

definition can_start :: "'k host \<Rightarrow> Launcher \<Rightarrow> bool" where
  "can_start h l \<longleftrightarrow> Fields (la_Command l) \<noteq> [] \<and> (\<forall>argv k. \<exists>pid k'. h_start h argv k = (Inr pid, k'))"

lemma launcher_Start_ok:
  assumes "can_start h (sv_launcher sv)"
  obtains sv1 where "launcher_Start h spec sv = (None, sv1)"
    "loop_view sv1 = (wd_registry (sv_world sv), sv_launcher sv, sv_started sv @ [spec], sch_decisions (sv_scheduler sv))"
proof -
  obtain argv where argv: "launcher_argv (sv_launcher sv) spec = Inr argv"
    using assms by (cases "Fields (la_Command (sv_launcher sv))") (simp_all add: launcher_argv_def can_start_def)
  obtain pid k' where st: "h_start h argv (wd_ext (sv_world sv)) = (Inr pid, k')"
    using assms unfolding can_start_def by blast
  let ?sv1 = "(on_sv_world (\<lambda>w. w\<lparr>wd_ext := k'\<rparr>) sv)\<lparr>sv_started := sv_started sv @ [spec]\<rparr>"
  have "launcher_Start h spec sv = (None, ?sv1)" by (simp add: launcher_Start_def argv st)
  moreover have "loop_view ?sv1 = (wd_registry (sv_world sv), sv_launcher sv, sv_started sv @ [spec], sch_decisions (sv_scheduler sv))"
    by (simp add: loop_view_def)
  ultimately show thesis by (rule that)
qed

lemma demo_round:
  assumes view: "loop_view sv = (Some r, l, st, ds)" and inv: "reg_inv r" "can_start h l" and "pending \<noteq> []"
    and reg: "\<And>s. s \<in> set pending \<Longrightarrow> reg_Get (spec_AgentID s) r \<noteq> None"
  obtains s d rest sv1 where "demo_loop h cs taskID pending sv = demo_loop h (cs \<circ> Suc) taskID rest sv1"
    "mset pending = add_mset s (mset rest)" "dl_SelectedAgent d = spec_AgentID s"
    "loop_view sv1 = (Some r, l, st @ [s], ds @ [d])"
proof -
  obtain agents sv1 where cand: "schedulerCandidates h (cs 0 0) pending sv = (agents, sv1)" by fastforce
  have regs: "wd_registry (sv_world sv) = Some r" using view by (simp add: loop_view_def)
  note ready = schedulerCandidates_spec [OF cand regs inv(1) reg]
  have ne: "readyAgents agents \<noteq> []" using ready assms(4) by auto
  obtain res sched where sel: "Select (cs 0 1) taskID agents (sv_scheduler sv1) = (res, sched)" by fastforce
  obtain a d reason sh sc where picks: "res = Some (a, d)" "selectLocked (readyAgents agents) (sv_scheduler sv1) = (a, reason, sh, sc)"
    "d = makeDecisionLocked (cs 0 1) taskID (readyAgents agents) a reason sh sc (sv_scheduler sv1)"
    "sched = (sv_scheduler sv1)\<lparr>sch_last := Some a, sch_decisions := sch_decisions (sv_scheduler sv1) @ [d]\<rparr>"
    by (rule Select_cases [OF sel]) (use ne in auto)
  define sv2 where "sv2 = publishSchedulerDecision h (\<lambda>n. cs 0 (n + 2)) d (sv1\<lparr>sv_scheduler := sched\<rparr>)"
  have "loop_view sv1 = (Some r, l, st, ds)" using ready view by simp
  then have v2: "loop_view sv2 = (Some r, l, st, ds @ [d])" unfolding sv2_def loop_view_decision
    by (simp add: loop_view_def picks(4))
  obtain s rest where pop: "popSpec pending (avp_AgentID a) = (s, rest)" by fastforce
  have "a \<in> set agents" using selectLocked_mem [OF ne picks(2)] ready by simp
  then have "avp_AgentID a \<in> set (map avp_AgentID agents)" by simp
  then have mem: "avp_AgentID a \<in> spec_AgentID ` set pending" using ready by simp
  note popped = popSpec_spec [OF pop mem]
  obtain sv3 where start: "launcher_Start h s sv2 = (None, sv3)"
    "loop_view sv3 = (wd_registry (sv_world sv2), sv_launcher sv2, sv_started sv2 @ [s], sch_decisions (sv_scheduler sv2))"
    by (rule launcher_Start_ok [of h sv2 s]) (use inv v2 in \<open>simp add: loop_view_def\<close>)
  show thesis
  proof (rule that)
    show "demo_loop h cs taskID pending sv = demo_loop h (cs \<circ> Suc) taskID rest sv3"
      unfolding demo_loop.simps [of h cs taskID pending] cand prod.case sel picks(1) option.case Let_def
        sv2_def [symmetric] pop start(1) using assms(4) by simp
    show "mset pending = add_mset s (mset rest)" using popped by simp
    show "dl_SelectedAgent d = spec_AgentID s" using popped by (simp add: picks(3) makeDecisionLocked_def Let_def)
    show "loop_view sv3 = (Some r, l, st @ [s], ds @ [d])" using start(2) v2 by (simp add: loop_view_def)
  qed
qed

lemma demo_loop_runs:
  assumes "loop_view sv = (Some r, l, st, ds)" and "reg_inv r" "can_start h l"
    and "\<And>s. s \<in> set pending \<Longrightarrow> reg_Get (spec_AgentID s) r \<noteq> None"
  shows "\<exists>sv' started decisions. demo_loop h cs taskID pending sv = (None, sv')
    \<and> loop_view sv' = (Some r, l, st @ started, ds @ decisions)
    \<and> mset started = mset pending \<and> map dl_SelectedAgent decisions = map spec_AgentID started"
  using assms(1,4)
proof (induction "length pending" arbitrary: pending sv cs st ds)
  case 0
  then show ?case by (intro exI [of _ sv] exI [of _ "[]"]) (simp add: demo_loop.simps)
next
  case (Suc n)
  then have ne: "pending \<noteq> []" by auto
  obtain s d rest sv1 where step: "demo_loop h cs taskID pending sv = demo_loop h (cs \<circ> Suc) taskID rest sv1"
    "mset pending = add_mset s (mset rest)" "dl_SelectedAgent d = spec_AgentID s"
    "loop_view sv1 = (Some r, l, st @ [s], ds @ [d])"
    by (rule demo_round [OF Suc.prems(1) assms(2,3) ne Suc.prems(2)])
  have len: "n = length rest" using arg_cong [OF step(2), of size] Suc.hyps(2) by simp
  have "set rest \<subseteq> set pending" using arg_cong [OF step(2), of set_mset] by auto
  then have reg: "reg_Get (spec_AgentID x) r \<noteq> None" if "x \<in> set rest" for x using Suc.prems(2) that by blast
  obtain sv' started decisions where ih: "demo_loop h (cs \<circ> Suc) taskID rest sv1 = (None, sv')"
    "loop_view sv' = (Some r, l, (st @ [s]) @ started, (ds @ [d]) @ decisions)"
    "mset started = mset rest" "map dl_SelectedAgent decisions = map spec_AgentID started"
    using Suc.hyps(1) [OF len step(4) reg] by blast
  show ?case
    by (rule exI [of _ sv'], rule exI [of _ "s # started"], rule exI [of _ "d # decisions"])
      (use ih step in simp)
qed

text \<open>
  C5. The scheduling loop of the demo always ends. When every pending worker is registered and processes
  can be started, it ends without error, has started every pending worker exactly once, and started them
  in the order in which the scheduler's decision log selected them.
\<close>

theorem demo_loop_starts_workers:
  assumes "wd_registry (sv_world sv) = Some r" "reg_inv r" "can_start h (sv_launcher sv)"
    and "\<forall>s\<in>set pending. reg_Get (spec_AgentID s) r \<noteq> None"
  shows "\<exists>sv' started decisions. demo_loop h cs taskID pending sv = (None, sv')
    \<and> sv_started sv' = sv_started sv @ started \<and> mset started = mset pending
    \<and> sched_Decisions (sv_scheduler sv') = sched_Decisions (sv_scheduler sv) @ decisions
    \<and> map dl_SelectedAgent decisions = map spec_AgentID started"
proof -
  have "loop_view sv = (Some r, sv_launcher sv, sv_started sv, sch_decisions (sv_scheduler sv))"
    by (simp add: loop_view_def assms(1))
  then obtain sv' started decisions where run: "demo_loop h cs taskID pending sv = (None, sv')"
    "loop_view sv' = (Some r, sv_launcher sv, sv_started sv @ started, sch_decisions (sv_scheduler sv) @ decisions)"
    "mset started = mset pending" "map dl_SelectedAgent decisions = map spec_AgentID started"
    using demo_loop_runs [of sv r "sv_launcher sv" "sv_started sv" "sch_decisions (sv_scheduler sv)" h pending cs taskID]
      assms(2-4) by blast
  show ?thesis
    by (rule exI [of _ sv'], rule exI [of _ started], rule exI [of _ decisions])
      (use run in \<open>simp add: loop_view_def sched_Decisions_def\<close>)
qed

lemma demo_loop_starts_workers_witness:
  "\<exists>sv' started. demo_loop small_host small_clks ''t'' [\<lparr>spec_AgentID = ''a'', spec_Role = ''Coder'', spec_TaskID = ''t''\<rparr>,
       \<lparr>spec_AgentID = ''b'', spec_Role = ''Tester'', spec_TaskID = ''t''\<rparr>] small_server = (None, sv')
     \<and> sv_started sv' = started \<and> length started = 2"
proof -
  let ?pending = "[\<lparr>spec_AgentID = ''a'', spec_Role = ''Coder'', spec_TaskID = ''t''\<rparr>,
       \<lparr>spec_AgentID = ''b'', spec_Role = ''Tester'', spec_TaskID = ''t''\<rparr>]"
  have "Fields ''worker'' = [''worker'']" by code_simp
  then have can: "can_start small_host (sv_launcher small_server)" by (simp add: can_start_def small_host_def)
  have reg: "\<forall>s\<in>set ?pending. reg_Get (spec_AgentID s) small_registry \<noteq> None" by simp
  obtain sv' started where run: "demo_loop small_host small_clks ''t'' ?pending small_server = (None, sv')"
    "sv_started sv' = sv_started small_server @ started" "mset started = mset ?pending"
    using demo_loop_starts_workers [OF small_server_sel(1) small_registry_sel(4) can reg, of small_clks "''t''"] by blast
  have "length started = 2" using arg_cong [OF run(3), of size] by simp
  with run show ?thesis by auto
qed

section \<open>What a decision reports of the pressure\<close>

lemma round3_clamp_zero: "round3 (clamp 0 0 1) = 0"
proof -
  have zero: "rnd 0 = 0" by (rule rnd_exact) simp
  then have "milli 0 = 0" by (simp add: milli_def floor_eq_iff)
  with zero have "round3 (Fin 0) = Fin 0" using round3_eq [of 0] by simp
  moreover have "clamp 0 0 1 = 0" by (rule clamp_unit_id) (simp add: unit_range_iff zero_f64_def)
  ultimately show ?thesis by (simp add: zero_f64_def)
qed

lemma normalize_zero:
  assumes "rp_MemoryPressure p = 0" "rp_PidsPressure p = 0" "rp_CPUThrottlePressure p = 0"
  shows "rp_MemoryPressure (normalizeResourcePressure p) = 0 \<and> rp_PidsPressure (normalizeResourcePressure p) = 0
    \<and> rp_CPUThrottlePressure (normalizeResourcePressure p) = 0"
  using assms by (simp add: normalizeResourcePressure_def Let_def round3_clamp_zero)

lemma sample_zero:
  assumes "sampleSchedulerResourcePressure h clk sv = (p, sv1)"
  shows "(rp_MemoryPressure p = 0 \<and> rp_PidsPressure p = 0 \<and> rp_CPUThrottlePressure p = 0) \<and> p = sched_ResourcePressure (sv_scheduler sv1)"
proof -
  obtain q where q: "sch_resourcePressure (sv_scheduler sv1) = normalizeResourcePressure q"
    "rp_MemoryPressure q = 0" "rp_PidsPressure q = 0" "rp_CPUThrottlePressure q = 0"
    "p = sched_ResourcePressure (sv_scheduler sv1)"
    using assms by (auto simp: sampleSchedulerResourcePressure_def Let_def SetResourcePressure_def zero_ResourcePressure_def)
  have "rp_MemoryPressure (normalizeResourcePressure q) = 0 \<and> rp_PidsPressure (normalizeResourcePressure q) = 0
      \<and> rp_CPUThrottlePressure (normalizeResourcePressure q) = 0" by (rule normalize_zero [OF q(2-4)])
  then have "rp_MemoryPressure p = 0 \<and> rp_PidsPressure p = 0 \<and> rp_CPUThrottlePressure p = 0"
    unfolding q(5) sched_ResourcePressure_def q(1) by (intro normalize_zero) auto
  with q(5) show ?thesis by simp
qed

text \<open>
  The event \<open>scheduler.selected\<close> that ends the publication of a decision carries the decision's agent,
  policy and reason, but its memory, process and CPU pressures are always zero, whatever was sampled and
  whatever the decision was based on: the sample taken for the event replaces the pressures of the
  capsules by zero in the scheduler itself.
\<close>

theorem decision_event_pressure:
  "let e = List.last (wd_out (sv_world (publishSchedulerDecision h clks d sv)));
       p = sched_ResourcePressure (sv_scheduler (publishSchedulerDecision h clks d sv)) in
     ev_Type e = ''scheduler.selected'' \<and> ev_AgentID e = dl_SelectedAgent d
   \<and> payload_value (ev_Payload e) ''decision_reason'' = GStr (dl_Reason d)
   \<and> payload_value (ev_Payload e) ''memory_pressure'' = GFloat 0 \<and> payload_value (ev_Payload e) ''pids_pressure'' = GFloat 0
   \<and> payload_value (ev_Payload e) ''cpu_throttle_pressure'' = GFloat 0
   \<and> rp_MemoryPressure p = 0 \<and> rp_PidsPressure p = 0 \<and> rp_CPUThrottlePressure p = 0"
proof -
  obtain p sv1 where s: "sampleSchedulerResourcePressure h (clks 0) sv = (p, sv1)" by fastforce
  have zero: "rp_MemoryPressure p = 0" "rp_PidsPressure p = 0" "rp_CPUThrottlePressure p = 0"
    and p: "sched_ResourcePressure (sv_scheduler sv1) = p" using sample_zero [OF s] by auto
  show ?thesis unfolding publishSchedulerDecision_def s
    by (simp add: Let_def sv_publish_def decision_payload_def status_payload_def payload_value_def new_event_def zero p)
qed

end
