(* ===== verification/ServerRecovery.thy ===== *)
theory ServerRecovery
  imports ServerFacts
begin

text \<open>
  Recovery from checkpoints: which agents the registry has afterwards and in which state, and the task
  table. The agents come back from the latest snapshot of each recovered task.
\<close>

section \<open>Restored agents\<close>

text \<open>\<open>a'\<close> is \<open>a\<close> brought back: the same agent, READY unless it had ended.\<close>

definition restored :: "AVP \<Rightarrow> AVP \<Rightarrow> bool" where
  "restored a a' \<longleftrightarrow>
     avp_State a' = (if avp_State a \<in> {StateCompleted, StateFailed, StateKilled} then avp_State a else StateReady)
   \<and> avp_AgentID a' = avp_AgentID a \<and> avp_TaskID a' = avp_TaskID a \<and> avp_Role a' = avp_Role a
   \<and> avp_VRuntime a' = avp_VRuntime a \<and> avp_ConsumedTokens a' = avp_ConsumedTokens a
   \<and> avp_Dependencies a' = avp_Dependencies a \<and> avp_PageTable a' = avp_PageTable a
   \<and> avp_ContextPages a' = avp_ContextPages a \<and> avp_PID a' = avp_PID a \<and> avp_WorkspacePath a' = avp_WorkspacePath a"

lemma RestoreAgent_put:
  assumes "RestoreAgent clk (a\<lparr>avp_State := recovered_state a\<rparr>) r = (r', ev)"
  obtains a' where "restored a a'" "reg_agents r' = (reg_agents r)(avp_AgentID a \<mapsto> a')" "reg_sink r' = reg_sink r"
proof -
  define a1 where "a1 = a\<lparr>avp_State := recovered_state a\<rparr>"
  define a2 where "a2 = (if avp_CreatedAt a1 = 0 then a1\<lparr>avp_CreatedAt := unix_ms (clk 0)\<rparr> else a1)"
  define a3 where "a3 = (if avp_UpdatedAt a2 = 0 then a2\<lparr>avp_UpdatedAt := unix_ms (clk 0)\<rparr> else a2)"
  define a4 where "a4 = (if avp_Priority a3 = 0 then a3\<lparr>avp_Priority := 100\<rparr> else a3)"
  define a5 where "a5 = (if avp_Weight a4 = 0 then a4\<lparr>avp_Weight := 100\<rparr> else a4)"
  note steps = a1_def a2_def a3_def a4_def a5_def
  have r': "r' = reg_put (avp_AgentID a5) a5 r"
    using assms unfolding RestoreAgent_def Let_def a1_def [symmetric] a2_def [symmetric] a3_def [symmetric]
      a4_def [symmetric] a5_def [symmetric] by simp
  show thesis
  proof (rule that)
    show "restored a a5" by (simp add: restored_def steps recovered_state_def isRecoveredTerminal_def)
    show "reg_agents r' = (reg_agents r)(avp_AgentID a \<mapsto> a5)" "reg_sink r' = reg_sink r"
      by (simp_all add: r' reg_put_def) (simp add: steps)
  qed
qed

text \<open>What a list of agents to restore does to the table: the last one of an identifier stays.\<close>

definition table_restored :: "AVP set \<Rightarrow> (string \<rightharpoonup> AVP) \<Rightarrow> (string \<rightharpoonup> AVP) \<Rightarrow> bool" where
  "table_restored A m m' \<longleftrightarrow> (\<forall>i. if i \<in> avp_AgentID ` A
     then \<exists>a\<in>A. \<exists>a'. avp_AgentID a = i \<and> m' i = Some a' \<and> restored a a' else m' i = m i)"

lemma table_restored_empty [simp]: "table_restored {} m m' \<longleftrightarrow> m' = m"
  by (auto simp: table_restored_def)

lemma table_restored_trans:
  assumes "table_restored A m m1" "table_restored B m1 m2"
  shows "table_restored (A \<union> B) m m2"
  unfolding table_restored_def
proof
  fix i
  show "if i \<in> avp_AgentID ` (A \<union> B) then \<exists>a\<in>A \<union> B. \<exists>a'. avp_AgentID a = i \<and> m2 i = Some a' \<and> restored a a' else m2 i = m i"
  proof (cases "i \<in> avp_AgentID ` B")
    case True
    from assms(2) [unfolded table_restored_def, rule_format, of i] True
    have "\<exists>a\<in>B. \<exists>a'. avp_AgentID a = i \<and> m2 i = Some a' \<and> restored a a'" by (simp only: if_True)
    with True show ?thesis by auto
  next
    case False
    with assms(2) have "m2 i = m1 i" by (simp add: table_restored_def)
    moreover have "if i \<in> avp_AgentID ` A then \<exists>a\<in>A. \<exists>a'. avp_AgentID a = i \<and> m1 i = Some a' \<and> restored a a' else m1 i = m i"
      using assms(1) unfolding table_restored_def by (rule spec)
    ultimately show ?thesis using False by (cases "i \<in> avp_AgentID ` A") (simp_all add: image_Un, blast)
  qed
qed

lemma restore_agents_table:
  "restore_agents clks as r = (r', ev) \<Longrightarrow> table_restored (set as) (reg_agents r) (reg_agents r')"
proof (induction as arbitrary: clks r r' ev)
  case (Cons a as)
  obtain r1 ev1 where one: "RestoreAgent (clks 0) (a\<lparr>avp_State := recovered_state a\<rparr>) r = (r1, ev1)" by fastforce
  obtain r2 ev2 where rest: "restore_agents (clks \<circ> Suc) as r1 = (r2, ev2)" by fastforce
  have r': "r' = r2" using Cons.prems by (simp add: one rest)
  obtain a' where a': "restored a a'" "reg_agents r1 = (reg_agents r)(avp_AgentID a \<mapsto> a')"
    by (rule RestoreAgent_put [OF one])
  have "table_restored {a} (reg_agents r) (reg_agents r1)" using a' by (auto simp: table_restored_def)
  from table_restored_trans [OF this Cons.IH [OF rest]] show ?case by (simp add: r')
qed (simp add: table_restored_def)

section \<open>Recovered tasks\<close>

definition recorded :: "(string \<rightharpoonup> Snapshot) \<Rightarrow> RecoveredTask list \<Rightarrow> AVP set" where
  "recorded latest ts = {a. \<exists>t\<in>set ts. \<exists>s. latest (rt_TaskID t) = Some s \<and> a \<in> set (snap_Agents s)}"

lemma recorded_UN: "recorded latest ts
    = (\<Union>k\<in>rt_TaskID ` set ts. case latest k of None \<Rightarrow> {} | Some s \<Rightarrow> set (snap_Agents s))"
  by (fastforce simp: recorded_def split: option.splits)

lemma recover_agents_world:
  assumes "wd_registry w = Some r"
  obtains r' where "wd_registry (recoverRegistryAgents clks s w) = Some r'"
    "table_restored (set (snap_Agents s)) (reg_agents r) (reg_agents r')" "wd_tasks (recoverRegistryAgents clks s w) = wd_tasks w"
proof -
  obtain r' ev where run: "restore_agents clks (snap_Agents s) r = (r', ev)" by fastforce
  show thesis
    by (rule that [OF _ restore_agents_table [OF run]])
      (simp_all add: recoverRegistryAgents_def on_registry_def assms run)
qed

lemma recover_tasks_world:
  assumes "wd_registry w = Some r"
  shows "\<exists>r'. wd_registry (recover_tasks cs latest ts w) = Some r'
    \<and> table_restored (recorded latest ts) (reg_agents r) (reg_agents r')
    \<and> (\<forall>k. k \<notin> rt_TaskID ` set ts \<longrightarrow> wd_tasks (recover_tasks cs latest ts w) k = wd_tasks w k)"
  using assms
proof (induction ts arbitrary: cs w r)
  case (Cons t ts)
  show ?case
  proof (cases "latest (rt_TaskID t)")
    case None
    have "recorded latest (t # ts) = recorded latest ts" by (auto simp: recorded_def None)
    moreover have "recover_tasks cs latest (t # ts) w = recover_tasks (cs \<circ> Suc) latest ts w" by (simp only: recover_tasks.simps None option.case)
    ultimately show ?thesis using Cons.IH [OF Cons.prems, of "cs \<circ> Suc"] by (metis insertCI list.simps(15) image_insert)
  next
    case (Some s)
    define w1 where "w1 = w\<lparr>wd_tasks := (wd_tasks w)(rt_TaskID t \<mapsto> taskFromSnapshot (cs 0 0) s (rt_Status t))\<rparr>"
    obtain r1 where r1: "wd_registry (recoverRegistryAgents (cs 0 \<circ> Suc) s w1) = Some r1"
      "table_restored (set (snap_Agents s)) (reg_agents r) (reg_agents r1)"
      "wd_tasks (recoverRegistryAgents (cs 0 \<circ> Suc) s w1) = wd_tasks w1"
      by (rule recover_agents_world [of w1 r]) (use Cons.prems in \<open>simp_all add: w1_def\<close>)
    have split: "recorded latest (t # ts) = set (snap_Agents s) \<union> recorded latest ts" by (auto simp: recorded_def Some)
    obtain r' where r': "wd_registry (recover_tasks (cs \<circ> Suc) latest ts (recoverRegistryAgents (cs 0 \<circ> Suc) s w1)) = Some r'"
      "table_restored (recorded latest ts) (reg_agents r1) (reg_agents r')"
      "\<forall>k. k \<notin> rt_TaskID ` set ts \<longrightarrow> wd_tasks (recover_tasks (cs \<circ> Suc) latest ts (recoverRegistryAgents (cs 0 \<circ> Suc) s w1)) k
         = wd_tasks (recoverRegistryAgents (cs 0 \<circ> Suc) s w1) k"
      using Cons.IH [OF r1(1)] by blast
    show ?thesis
      by (rule exI [of _ r'])
        (use r' table_restored_trans [OF r1(2) r'(2)] in \<open>simp add: Some w1_def [symmetric] split r1(3)\<close>, simp add: w1_def)
  qed
qed (simp add: recorded_def)

text \<open>
  C8. After a restart the registry holds every agent recorded in the latest snapshot of a recovered task:
  agents that had completed, failed or been killed keep that state, all others are READY, and nothing else
  of what the snapshot says of an agent is lost; agents that no such snapshot names are as before.
\<close>

theorem recovery_restores_agents:
  assumes "RecoverAll (cs 0 0) (ro_walk1 io) (ro_files1 io) (ro_ids io) (ro_tables io) = Inr rep" "rr_TaskCount rep \<noteq> 0"
    and "checkpoint_List (ro_walk2 io) (ro_files2 io) = Inr ss" and "wd_registry (sv_world sv) = Some r"
  shows "\<exists>r'. wd_registry (sv_world (recoverFromCheckpoints h cs io sv)) = Some r'
    \<and> table_restored (recorded (latestSnapshotsByTask ss) (rr_RecoveredTasks rep)) (reg_agents r) (reg_agents r')"
proof -
  let ?rec = "recover_tasks (\<lambda>n. cs (n + 2)) (latestSnapshotsByTask ss) (rr_RecoveredTasks rep)"
  have "wd_registry (sv_world (recoverFromCheckpoints h cs io sv)) = wd_registry (?rec (sv_world (sv\<lparr>sv_recovery := rep\<rparr>)))"
    unfolding recoverFromCheckpoints_def Let_def assms(1,3) sum.case using assms(2) by (simp add: sv_publish_def)
  moreover have "sv_world (sv\<lparr>sv_recovery := rep\<rparr>) = sv_world sv" by (simp add: sv_world_def)
  ultimately show ?thesis using recover_tasks_world [OF assms(4)] by metis
qed

text \<open>A completed agent and a running one, in the snapshot of a task, come back completed and ready.\<close>

definition two_agents :: Snapshot where
  "two_agents = (some_snapshot ''t'' 1)\<lparr>snap_Agents := [small_agent ''a'' StateCompleted, small_agent ''b'' StateRunning]\<rparr>"

definition two_io :: recover_io where
  "two_io = \<lparr>ro_walk1 = None, ro_files1 = [(''000001.json'', Inr two_agents)], ro_walk2 = None,
     ro_files2 = [(''000001.json'', Inr two_agents)], ro_ids = [''t''], ro_tables = (\<lambda>s. [])\<rparr>"

lemma two_list: "checkpoint_List None [(''000001.json'', Inr two_agents)] = Inr [two_agents]"
proof -
  have "Ext ''000001.json'' = ''.json''" by code_simp
  then have "readSnapshots [(''000001.json'', Inr two_agents)] = Inr [two_agents]" by simp
  then show ?thesis by (simp add: checkpoint_List_def sortSnapshots_def)
qed

lemma two_latest: "latestByTask [two_agents] = [''t'' \<mapsto> two_agents]" "latestSnapshotsByTask [two_agents] = [''t'' \<mapsto> two_agents]"
  "snap_TaskID two_agents = ''t''"
  by (simp_all add: latestByTask_def latestSnapshotsByTask_def two_agents_def some_snapshot_def)

lemma two_report:
  obtains rep where "RecoverAll (small_clks 0 0) None [(''000001.json'', Inr two_agents)] [''t''] (\<lambda>s. []) = Inr rep"
    "map rt_TaskID (rr_RecoveredTasks rep) = [''t'']" "rr_TaskCount rep = 1"
proof -
  have "range_values (latestByTask [two_agents]) (sort_strings [''t'']) = [two_agents]"
    by (simp add: two_latest sort_strings_def range_values_def)
  note at = this
  note run = RecoverAll_def [of "small_clks 0 0" None "[(''000001.json'', Inr two_agents)]" "[''t'']" "\<lambda>s. []",
    unfolded two_list sum.case Let_def at]
  show thesis by (rule that [OF run]) (simp_all add: two_latest)
qed

lemma recovery_restores_agents_witness:
  "\<exists>r' a' b'. wd_registry (sv_world (recoverFromCheckpoints small_host small_clks two_io small_server)) = Some r'
     \<and> reg_agents r' ''a'' = Some a' \<and> avp_State a' = StateCompleted
     \<and> reg_agents r' ''b'' = Some b' \<and> avp_State b' = StateReady"
proof -
  obtain rep where rep: "RecoverAll (small_clks 0 0) None [(''000001.json'', Inr two_agents)] [''t''] (\<lambda>s. []) = Inr rep"
    "map rt_TaskID (rr_RecoveredTasks rep) = [''t'']" "rr_TaskCount rep = 1" by (rule two_report)
  have "set (map rt_TaskID (rr_RecoveredTasks rep)) = {''t''}" unfolding rep(2) by simp
  then have rec: "recorded (latestSnapshotsByTask [two_agents]) (rr_RecoveredTasks rep) = set (snap_Agents two_agents)"
    unfolding recorded_UN set_map two_latest(2) by simp
  have io: "ro_walk1 two_io = None" "ro_files1 two_io = [(''000001.json'', Inr two_agents)]" "ro_walk2 two_io = None"
    "ro_files2 two_io = [(''000001.json'', Inr two_agents)]" "ro_ids two_io = [''t'']" "ro_tables two_io = (\<lambda>s. [])"
    by (simp_all add: two_io_def)
  have "rr_TaskCount rep \<noteq> 0" using rep(3) by simp
  note run = recovery_restores_agents [of small_clks two_io rep "[two_agents]" small_server small_registry small_host,
      unfolded io rec, OF rep(1) this two_list small_server_sel(1)]
  obtain r' where r': "wd_registry (sv_world (recoverFromCheckpoints small_host small_clks two_io small_server)) = Some r'"
    "table_restored (set (snap_Agents two_agents)) (reg_agents small_registry) (reg_agents r')"
    using run by blast
  have A: "set (snap_Agents two_agents) = {small_agent ''a'' StateCompleted, small_agent ''b'' StateRunning}"
    by (simp add: two_agents_def)
  note at = r'(2) [unfolded A table_restored_def, THEN spec]
  from at [of "''a''"] obtain a' where "reg_agents r' ''a'' = Some a'" "restored (small_agent ''a'' StateCompleted) a'" by auto
  moreover from at [of "''b''"] obtain b' where "reg_agents r' ''b'' = Some b'" "restored (small_agent ''b'' StateRunning) b'" by auto
  ultimately show ?thesis using r'(1) by (auto simp: restored_def)
qed

end
