(* ===== verification/ServerSpawn.thy ===== *)
theory ServerSpawn
  imports ServerFacts CvmProps
begin

text \<open>
  Spawning an agent: the child starts with the pages of its parent, and nobody else's context changes.
\<close>

lemma mount_one:
  assumes inv: "cvm_inv cd s" and page: "p \<in> dom (st_pages s)" and m: "MountPage clk a p s = (r, s', ev)"
  shows "table s' = (table s)(a := table s a @ (if p \<in> set (table s a) then [] else [p]))
    \<and> page_content cd (st_pages s') = page_content cd (st_pages s) \<and> dom (st_pages s') = dom (st_pages s)"
  using m
proof (cases rule: MountPage_cases)
  case (mounts q q')
  have "page_content cd (st_pages s') = page_content cd (st_pages s)"
    unfolding mounts(4) by (rule ext) (simp add: page_content_def mounts(1) same_data_content [OF mounts(5)])
  with mounts table_upd [OF mounts(7)] show ?thesis by auto
qed (use page in auto)

lemma mount_all_tables:
  assumes "cvm_inv cd s" "set ids \<subseteq> dom (st_pages s)" "distinct ids" "mount_all clks a ids s = (s', ev)"
  shows "table s' = (table s)(a := table s a @ filter (\<lambda>p. p \<notin> set (table s a)) ids)
    \<and> page_content cd (st_pages s') = page_content cd (st_pages s) \<and> cvm_inv cd s'"
  using assms
proof (induction ids arbitrary: clks s s' ev)
  case (Cons p ids)
  obtain r s1 ev1 where one: "MountPage (clks 0) a p s = (r, s1, ev1)" by (rule prod_cases3)
  obtain s2 ev2 where rest: "mount_all (clks \<circ> Suc) a ids s1 = (s2, ev2)" by (rule prod.exhaust)
  have s': "s' = s2" using Cons.prems(4) by (simp add: one rest)
  have p: "p \<in> dom (st_pages s)" using Cons.prems(2) by simp
  note m = mount_one [OF Cons.prems(1) p one]
  note inv1 = cvm_inv_MountPage [OF Cons.prems(1) one]
  have dom: "set ids \<subseteq> dom (st_pages s1)" and dist: "distinct ids" using Cons.prems(2,3) m by auto
  note ih = Cons.IH [OF inv1 dom dist rest]
  have "filter (\<lambda>q. q \<notin> set (table s1 a)) ids = filter (\<lambda>q. q \<notin> set (table s a)) ids"
    by (rule filter_cong) (use m Cons.prems(3) in auto)
  then show ?case using ih m by (auto simp: s')
qed simp

text \<open>The registry part of a spawn: the state is that of a known agent, or \<open>CREATED\<close>.\<close>

definition state_before :: "'k World \<Rightarrow> string \<Rightarrow> AgentState" where
  "state_before w i = (case wd_registry w of None \<Rightarrow> StateCreated
     | Some r \<Rightarrow> (case reg_Get i r of None \<Rightarrow> StateCreated | Some a \<Rightarrow> avp_State a))"

lemma spawn_registry_state: "fst (spawn_registry h clks q i w) = state_str (state_before w i)"
  by (auto simp: spawn_registry_def state_before_def CreateAgent_def new_worker_agent_def Let_def split: option.splits)

lemma spawnAgent_parts:
  assumes "spawnAgent h clks q (Some st) w = (res, s', ev, w')" "sq_AgentID q \<noteq> []" "sq_ParentAgentID q \<noteq> []"
  obtains st' ev' where "s' = Some st'" "mount_all (\<lambda>i. clks (i + 5)) (sq_AgentID q) (table st (sq_ParentAgentID q)) st = (st', ev')"
    "res = Inr \<lparr>sr_AgentID = sq_AgentID q, sr_Role = sq_Role q, sr_TaskID = sq_TaskID q,
       sr_State = state_str (state_before w (sq_AgentID q))\<rparr>"
proof -
  obtain st' ev' where mount: "mount_all (\<lambda>i. clks (i + 5)) (sq_AgentID q) (table st (sq_ParentAgentID q)) st = (st', ev')"
    by (rule prod.exhaust)
  obtain state w1 where reg: "spawn_registry h (clks \<circ> Suc) q (sq_AgentID q) w = (state, w1)" by (rule prod.exhaust)
  have state: "state = state_str (state_before w (sq_AgentID q))"
    using spawn_registry_state [of h "clks \<circ> Suc" q "sq_AgentID q" w] by (simp add: reg)
  have "(res, s', ev, w') = (Inr \<lparr>sr_AgentID = sq_AgentID q, sr_Role = sq_Role q, sr_TaskID = sq_TaskID q, sr_State = state\<rparr>,
      Some st', ev', w1\<lparr>wd_tasks := spawn_task q (sq_AgentID q) state (wd_tasks w1)\<rparr>)"
    unfolding assms(1) [symmetric] spawnAgent_def
    using assms(2,3) by (simp only: Let_def if_False reg option.case cvm_PageTable_def PageTable.simps mount prod.case)
  with mount state show thesis by (intro that) auto
qed

text \<open>
  C7. Spawning an agent that has no pages yet gives it exactly the context of its parent, and changes the
  context of no other agent. The answer names the child, with the state in which the registry already
  knows it, or CREATED.
\<close>

theorem spawn_inherits_context:
  assumes "codec_ok cd" "reachable cvm_init (cvm_step cd) st"
    and "sq_AgentID q \<noteq> []" "sq_ParentAgentID q \<noteq> []" "table st (sq_AgentID q) = []"
    and "spawnAgent h clks q (Some st) w = (res, s', ev, w')"
  shows "\<exists>st' r. s' = Some st' \<and> res = Inr r
    \<and> fst (Materialize cd clk (sq_AgentID q) st') = fst (Materialize cd clk (sq_ParentAgentID q) st)
    \<and> (\<forall>a. a \<noteq> sq_AgentID q \<longrightarrow> fst (Materialize cd clk a st') = fst (Materialize cd clk a st))
    \<and> sr_AgentID r = sq_AgentID q \<and> sr_State r = state_str (state_before w (sq_AgentID q))"
proof -
  let ?c = "sq_AgentID q" and ?p = "sq_ParentAgentID q"
  note inv = cvm_reachable_inv [OF assms(1,2)]
  obtain st' ev' where s': "s' = Some st'"
    and mount: "mount_all (\<lambda>i. clks (i + 5)) ?c (table st ?p) st = (st', ev')"
    and res: "res = Inr \<lparr>sr_AgentID = ?c, sr_Role = sq_Role q, sr_TaskID = sq_TaskID q, sr_State = state_str (state_before w ?c)\<rparr>"
    by (rule spawnAgent_parts [OF assms(6,3,4)])
  have tabs: "table st' = (table st)(?c := table st ?p)" "page_content cd (st_pages st') = page_content cd (st_pages st)"
    using mount_all_tables [OF inv _ _ mount] tables_okD [OF cvm_invD(2) [OF inv], of ?p] by (simp_all add: assms(5))
  have same: "fst (Materialize cd clk a st') = fst (Materialize cd clk b st)" if "table st' a = table st b" for a b
  proof -
    obtain cs where cs: "list_all2 (\<lambda>i c. page_content cd (st_pages st) i = Inr c) (table st b) cs"
      "fst (Materialize cd clk b st) = Inr (concat cs)" using Materialize_contents [OF inv, of b] by metis
    have "fst (Materialize cd clk a st') = Inr (concat cs)"
      by (rule Materialize_result) (use cs(1) in \<open>simp add: tabs(2) that\<close>)
    then show ?thesis by (simp add: cs(2))
  qed
  show ?thesis
    by (rule exI [of _ st'], rule exI [of _ "projr res"]) (use same tabs(1) in \<open>simp add: s' res\<close>)
qed

lemma spawn_inherits_context_witness:
  "\<exists>st' r. fst (snd (spawnAgent small_host (small_clks 0) \<lparr>sq_AgentID = ''c'', sq_TaskID = ''t'', sq_ParentAgentID = ''a'',
        sq_Role = ''Fixer'', sq_Reason = [], sq_Dependencies = []\<rparr> (Some two_pages) (sv_world small_server))) = Some st'
     \<and> fst (Materialize small_codec zero_clock ''c'' st') = fst (Materialize small_codec zero_clock ''a'' two_pages)"
proof -
  let ?q = "\<lparr>sq_AgentID = ''c'', sq_TaskID = ''t'', sq_ParentAgentID = ''a'', sq_Role = ''Fixer'', sq_Reason = [], sq_Dependencies = []\<rparr>"
  obtain res s' ev w' where run: "spawnAgent small_host (small_clks 0) ?q (Some two_pages) (sv_world small_server) = (res, s', ev, w')"
    by (rule prod_cases4)
  have "table two_pages ''c'' = []" by code_simp
  then have "table two_pages (sq_AgentID ?q) = []" by simp
  from spawn_inherits_context [OF small_codec_ok reachable_two_pages _ _ this run, of zero_clock] run show ?thesis by auto
qed

end
