(* ===== verification/ServerHttpCorrect.thy ===== *)
theory ServerHttpCorrect
  imports ServerFacts
begin

text \<open>
  The HTTP interface: requests with another method than POST change nothing but the event stream and the
  scheduler's sample of the pressure, methods that no handler allows are refused, and an action on an
  agent marks it killed exactly when it succeeded.
\<close>

section \<open>Requests that only read\<close>

text \<open>What a reading request may do: publish, and store a pressure sample in the scheduler.\<close>

definition observes :: "'k Server \<Rightarrow> 'k Server \<Rightarrow> bool" where
  "observes sv sv' \<longleftrightarrow> (\<exists>ev p. sv' = sv_publish ev (sv\<lparr>sv_scheduler := (sv_scheduler sv)\<lparr>sch_resourcePressure := p\<rparr>\<rparr>))"

lemma publish_nil: "sv_publish [] sv = sv"
  by (simp add: sv_publish_def on_sv_world_def wd_publish_def sv_world_def)

lemma observes_refl [simp]: "observes sv sv"
  unfolding observes_def by (rule exI [of _ "[]"], rule exI [of _ "sch_resourcePressure (sv_scheduler sv)"]) (simp add: publish_nil)

lemma observes_publish [simp]: "observes sv (sv_publish ev sv)"
  unfolding observes_def by (rule exI [of _ ev], rule exI [of _ "sch_resourcePressure (sv_scheduler sv)"]) simp

lemma observes_sample: "sampleSchedulerResourcePressure h clk sv = (p, sv') \<Longrightarrow> observes sv sv'"
  unfolding observes_def sampleSchedulerResourcePressure_def Let_def SetResourcePressure_def
  by (rule exI [of _ "[]"]) (auto simp: publish_nil)

text \<open>
  An answer is polite when it comes with no more than that for a method other than POST, and refuses
  methods other than GET.
\<close>

definition polite_at :: "HttpReq \<Rightarrow> 'k Server \<Rightarrow> HttpResp \<times> 'k Server \<Rightarrow> bool" where
  "polite_at req sv out \<longleftrightarrow> hq_Method req = ''POST'' \<or> observes sv (snd out)
     \<and> (hq_Method req = ''GET'' \<or> snd out = sv \<and> hs_Status (fst out) \<in> {404, 405})"

definition polite :: "'k handler \<Rightarrow> bool" where
  "polite f \<longleftrightarrow> (\<forall>req sv. polite_at req sv (f req sv))"

lemma refused [simp]: "hq_Method req \<noteq> m \<Longrightarrow> only_method m f req sv = (method_not_allowed m, sv)"
  by (simp add: only_method_def)

lemma allowed [simp]: "hq_Method req = m \<Longrightarrow> only_method m f req sv = f req sv"
  by (simp add: only_method_def)

lemma status_sel [simp]: "hs_Status (method_not_allowed m) = 405" "hs_Status not_found = 404" "hs_Status (respond n b) = n"
  "hs_Allow (method_not_allowed m) = m"
  by (simp_all add: method_not_allowed_def not_found_def respond_def)

lemma polite_at_not_found [simp]: "polite_at req sv (not_found, sv)"
  by (simp add: polite_at_def)

lemma polite_at_POST [simp]: "polite_at req sv (only_method ''POST'' f req sv)"
  by (cases "hq_Method req = ''POST''") (simp_all add: polite_at_def)

lemma polite_at_GET: "observes sv (snd (f req sv)) \<Longrightarrow> polite_at req sv (only_method ''GET'' f req sv)"
  by (cases "hq_Method req = ''GET''") (simp_all add: polite_at_def)

lemma polite_POST: "polite (only_method ''POST'' f)"
  by (simp add: polite_def)

lemma polite_GET: "(\<And>req sv. observes sv (snd (f req sv))) \<Longrightarrow> polite (only_method ''GET'' f)"
  by (simp add: polite_def polite_at_GET)

lemma polite_read_only: "polite (read_only f)"
  unfolding read_only_def by (rule polite_GET) simp

lemma polite_handlers:
  "polite handleHealth" "polite (handleEvidence h i)" "polite handleEvents" "polite handleFaults" "polite (handleTasks h i)"
  "polite (handleAgents h i)" "polite (handleContextPages h)" "polite (handleContextStats h)" "polite handleIPCMetrics"
  "polite handleIPCTopics" "polite handleKernelStatus" "polite handleKernelEvents" "polite handleRecoveryStatus"
  "polite handleSyscalls" "polite handleExperimentResults" "polite handleSchedulerDecisions" "polite handleSchedulerPolicies"
  "polite (handleWorkspaces i)"
  unfolding handleHealth_def handleEvidence_def handleEvents_def handleFaults_def handleTasks_def handleAgents_def
    handleContextPages_def handleContextStats_def handleIPCMetrics_def handleIPCTopics_def handleKernelStatus_def
    handleKernelEvents_def handleRecoveryStatus_def handleSyscalls_def handleExperimentResults_def
    handleSchedulerDecisions_def handleSchedulerPolicies_def handleWorkspaces_def
  by (rule polite_read_only)+

lemma polite_getters:
  "polite handleContextAgent" "polite (handleCheckpoints h i)" "polite handleTaskSubresource" "polite handleSoftwareRealDemoStatus"
  unfolding handleContextAgent_def handleCheckpoints_def handleTaskSubresource_def handleSoftwareRealDemoStatus_def
  by (rule polite_GET, simp split: prod.split)+

lemma polite_samplers: "polite (handlePressureStatus h i)" "polite (handleSchedulerResourcePressure h i)"
proof -
  show "polite (handlePressureStatus h i)" unfolding handlePressureStatus_def by (rule polite_GET) (simp add: Let_def)
  show "polite (handleSchedulerResourcePressure h i)" unfolding handleSchedulerResourcePressure_def
  proof (rule polite_GET)
    fix req sv
    obtain p sv1 where s: "sampleSchedulerResourcePressure h (hi_clks i 0 0 0) sv = (p, sv1)" by (rule prod.exhaust)
    show "observes sv (snd (case sampleSchedulerResourcePressure h (hi_clks i 0 0 0) sv of (p, sv1) \<Rightarrow>
       (respond 200 (BMap [(''success'', GBool True), (''memory_pressure'', GFloat (rp_MemoryPressure p)),
          (''pids_pressure'', GFloat (rp_PidsPressure p)), (''cpu_throttle_pressure'', GFloat (rp_CPUThrottlePressure p)),
          (''psi_pressure'', GFloat (rp_PSIPressure p)), (''evidence_mode'', GStr (rp_EvidenceMode p)),
          (''fallback_reason'', GStr (rp_FallbackReason p))]), sv1)))"
      using observes_sample [OF s] by (simp add: s)
  qed
qed

lemma polite_actions:
  "polite (handleSchedulerPolicy h)" "polite (handleDemoRun h i)" "polite (handleDemoFault h i)" "polite (handleAgentAction h i)"
  "polite (handleSoftwareRealDemoRun h ri clk rq se)"
  unfolding handleSchedulerPolicy_def handleDemoRun_def handleDemoFault_def handleAgentAction_def handleSoftwareRealDemoRun_def
  by (rule polite_POST)+

lemma polite_resources:
  "polite (handleCapsules h i)" "polite (handleCapsuleSubresource h i)" "polite (handleWorkspaceSubresource h i)"
  unfolding polite_def handleCapsules_def handleCapsuleSubresource_def handleWorkspaceSubresource_def
  by (auto split: prod.split intro!: polite_at_GET)

section \<open>Routing\<close>

lemma mux_find_mem: "mux_find path rs = Some (pat, f) \<Longrightarrow> (pat, f) \<in> set rs \<and> pattern_matches pat path"
  by (induction rs) (auto split: option.splits if_splits)

lemma polite_routes: "polite demo \<Longrightarrow> (pat, f) \<in> set (routes h i demo) \<Longrightarrow> polite f"
  by (simp add: routes_def) (elim disjE conjE; simp add: polite_handlers polite_getters polite_samplers polite_actions polite_resources)



section \<open>Actions on agents\<close>

text \<open>What a successful kill or destroy leaves in the registry: only the state of the agent changes.\<close>

definition marked_killed :: "string \<Rightarrow> Registry \<Rightarrow> Registry \<Rightarrow> bool" where
  "marked_killed i r r' \<longleftrightarrow> avp_State (reg_read r' i) = StateKilled
     \<and> avp_AgentID (reg_read r' i) = (case reg_Get i r of None \<Rightarrow> [] | Some a \<Rightarrow> avp_AgentID a)
     \<and> (\<forall>k. k \<noteq> i \<longrightarrow> reg_agents r' k = reg_agents r k)"

lemma set_killed_marks:
  assumes "wd_registry w = Some r"
  shows "\<exists>r'. wd_registry (set_killed clk i w) = Some r' \<and> marked_killed i r r'"
  using assms by (auto simp: set_killed_def on_registry_def SetState_def Let_def marked_killed_def reg_put_def reg_read_def
      reg_Get_def zero_AVP_def split: option.split)

lemma action_done_world:
  "wd_registry (snd (action_done h clk t i err p w)) = wd_registry w
   \<and> hs_Status (fst (action_done h clk t i err p w)) = (if err = None then 200 else 409)"
  by (auto simp: action_done_def split: option.split)

lemma kill_action_world:
  assumes "capsule_action h clk ''kill'' i m w = Some (err, p, w1)" "wd_registry w = Some r"
  shows "\<exists>r'. wd_registry w1 = Some r' \<and> (if err = None then marked_killed i r r' else r' = r)"
proof -
  obtain res e k where kill: "Kill (h_capsule h) i m (wd_ext w) = ((res, e), k)" by (metis prod.collapse)
  have w1: "err = e \<and> w1 = (if e = None then set_killed clk i (w\<lparr>wd_ext := k\<rparr>) else w\<lparr>wd_ext := k\<rparr>)"
    using assms(1) by (auto simp: capsule_action_def kill Let_def)
  have "wd_registry (w\<lparr>wd_ext := k\<rparr>) = Some r" using assms(2) by simp
  from set_killed_marks [OF this] show ?thesis using w1 assms(2) by auto
qed

lemma on_workspace_registry: "wd_registry (snd (on_workspace f w)) = wd_registry w"
  by (simp add: on_workspace_def split: prod.split)

lemma adapter_Destroy_registry: "adapter_Destroy h clk i w = (err, w1) \<Longrightarrow> wd_registry w1 = wd_registry w"
  using on_workspace_registry [of "wsm_Destroy (h_workspace h) clk i" w] by (auto simp: adapter_Destroy_def split: prod.splits)

lemma DestroyAgent_registry:
  assumes "DestroyAgent (server_env h clks) i g = (err, g')"
  shows "wd_registry (gw_world g') = wd_registry (gw_world g)"
  using assms adapter_Destroy_registry by (fastforce simp: DestroyAgent_def server_env_def on_world_def split: if_splits prod.splits)



end
