(* ===== verification/ServerTools.thy ===== *)
theory ServerTools
  imports ServerFacts
begin

text \<open>
  Tools through the whole runtime: \<open>tool.exec\<close> of the gateway on the server's workspace manager. A tool
  that keeps to its working directory cannot touch another agent's workspace, and a failed one is undone.
\<close>

section \<open>Acts of one agent\<close>

abbreviation acts :: "wenv \<Rightarrow> string \<Rightarrow> WManager \<Rightarrow> WManager \<Rightarrow> bool" where
  "acts env a \<equiv> (ws_act env a)\<^sup>*\<^sup>*"

lemma acts_inv:
  assumes "ws_agents r A" "a \<in> A"
  shows "acts env a m m' \<Longrightarrow> ws_inv env r A m \<Longrightarrow> ws_inv env r A m'"
  by (induction rule: rtranclp_induct) (blast intro: ws_frame_inv [OF assms(1) _ assms(2)] act_frame [OF assms(1) _ assms(2)])+

lemma acts_steps: "acts env a m m' \<Longrightarrow> a \<in> B \<Longrightarrow> (ws_step env B)\<^sup>*\<^sup>* m m'"
  by (erule rtranclp_mono [THEN predicate2D, rotated]) (auto simp: ws_step_def)

text \<open>In a manager with its invariant a rollback without error makes the working copy the base.\<close>

lemma rollback_makes_base:
  assumes "ws_inv env r A m" "a \<in> A" "wsm_workspaces m a = Some ws" "wsm_Rollback env clk a m = (Inr res, m')"
  shows "lookup (wsm_disk m') (ws_home r a @ ''merged'' # x) = lookup (wsm_disk m') (ws_home r a @ ''lower'' # x)"
proof -
  have root: "wsm_root m = abs_path r" and shp: "ws_shape (wsm_disk m) r a ws" using assms(1-3) by (simp_all add: ws_inv_def)
  note D = ws_shapeD(3) [OF shp] ws_shapeD(5) [OF shp] ws_shapeD(6) [OF shp]
  obtain r1 d1 where rb: "rollback_copy env (abs_path r) ws (wsm_disk m) = (r1, d1)" by fastforce
  have "is_ok r1" "wsm_disk m' = d1"
    using assms(4) unfolding wsm_Rollback_copy [OF assms(3) ws_shapeD(1) [OF shp]]
    by (auto simp: bindE_def on_disk_def root rb split: sum.splits dest!: rollback_finish_disk)
  then obtain n where n: "r1 = Inr n" by (auto simp: is_ok_iff)
  have low: "lookup d1 (ws_home r a @ ''lower'' # x) = lookup (wsm_disk m) (ws_home r a @ ''lower'' # x)"
    by (rule only_in_lower [OF rollback_copy_state [OF D(1) ws_shapeD(2) [OF shp] D(2,3) rb]]) simp
  from rollback_copy_run [OF D rb [unfolded n]] low show ?thesis by (simp add: \<open>wsm_disk m' = d1\<close>)
qed

section \<open>The steps of a tool on the server\<close>

text \<open>A hypothesis about the programs that are run: they change files below their working directory only.\<close>

definition tools_confined :: "'k host \<Rightarrow> bool" where
  "tools_confined h \<longleftrightarrow> (\<forall>command args cwd t d k. fs_ok d \<longrightarrow> only_in (elems cwd) d (fst (snd (h_run h command args cwd t (d, k)))))"

lemma server_env_sel [simp]:
  "env_WorkspaceDir (server_env h clks) = adapter_WorkspaceDir h (clks 0)" "env_Commit (server_env h clks) = adapter_Commit h (clks 1)"
  "env_Rollback (server_env h clks) = adapter_Rollback h (clks 1)" "env_observer (server_env h clks) = observeKernelExec (clks 2)"
  "env_text (server_env h clks) = h_text h"
  by (simp_all add: server_env_def)

lemma on_workspace_run: "on_workspace f w = (fst (f (wd_workspace w)), w\<lparr>wd_workspace := snd (f (wd_workspace w))\<rparr>)"
  by (simp add: on_workspace_def split: prod.split)

lemma WorkspaceDir_acts:
  assumes A: "ws_agents r A" "a \<in> A" and inv: "ws_inv (h_workspace h) r A (wd_workspace w)"
    and run: "adapter_WorkspaceDir h clk a w = (res, w1)"
  obtains ws where "res = Inr (ws_MergedDir ws)" "wsm_workspaces (wd_workspace w1) a = Some ws"
    "acts (h_workspace h) a (wd_workspace w) (wd_workspace w1)"
proof (cases "wsm_workspaces (wd_workspace w) a")
  case (Some ws)
  then have "res = Inr (ws_MergedDir ws)" "w1 = w"
    using run by (auto simp: adapter_WorkspaceDir_def wsm_Status_def wsm_workspace_def status_of_def)
  then show thesis using Some by (intro that [of ws]) auto
next
  case None
  let ?m = "wd_workspace w" and ?e = "h_workspace h"
  have m: "fs_ok (wsm_disk ?m)" "wsm_root ?m = abs_path r" "\<forall>w \<in> set r. plain_word w" "a \<noteq> []" "plain_word (workspace_safeName a)"
    "clear (wsm_disk ?m) (r @ [workspace_safeName a])" "overlayUnavailableReason ?e (wsm_ForceDegraded ?m) \<noteq> []"
    using inv A by (simp_all add: ws_inv_def ws_agents_def ws_home_def)
  have "seed_ok ?e (wsm_disk ?m) r (r @ [workspace_safeName a]) []" using inv by (simp add: seed_ok_def ws_inv_def)
  then obtain ws m1 where c: "wsm_Create ?e clk a ?m = (Inr ws, m1)" "wsm_workspaces m1 a = Some ws"
    using wsm_create_clear [OF m, of "[]" clk] unfolding wsm_Create_def by (metis fun_upd_same)
  have "w1 = w\<lparr>wd_workspace := m1\<rparr>" "res = Inr (ws_MergedDir ws)"
    using run None by (auto simp: adapter_WorkspaceDir_def wsm_Status_def wsm_workspace_def on_workspace_run c)
  moreover have "ws_act ?e a ?m m1" using act_create [of ?e a ?m clk] by (simp add: c)
  ultimately show thesis using c(2) by (intro that [of ws]) auto
qed

lemma MkdirAll_merged:
  assumes "ws_inv env r A m" "a \<in> A" "wsm_workspaces m a = Some ws"
  obtains d where "MkdirAll (ws_MergedDir ws) (wsm_disk m) = (Inr (), d)" "only_in (elems (ws_MergedDir ws)) (wsm_disk m) d"
proof -
  have shp: "ws_shape (wsm_disk m) r a ws" using assms by (simp add: ws_inv_def)
  have plain: "\<forall>w\<in>set (ws_home r a @ [''merged'']). plain_word w"
    by (rule fs_ok_plain [OF ws_shapeD(11) [OF shp] ws_shapeD(12) [OF shp]])
  have el: "elems (ws_MergedDir ws) = ws_home r a @ [''merged'']"
    unfolding ws_shapeD(6) [OF shp] by (rule elems_abs_path [OF plain])
  have dirs: "lookup (wsm_disk m) q = Some Dir" if "prefix q (ws_home r a @ [''merged''])" for q
    using fs_ok_prefix [OF ws_shapeD(11) [OF shp] ws_shapeD(12) [OF shp], of q] ws_shapeD(12) [OF shp] that
    unfolding strict_prefix_def by (cases "q = ws_home r a @ [''merged'']") auto
  then have "clear (wsm_disk m) (elems (ws_MergedDir ws))" unfolding el clear_def by simp
  then obtain d where d: "MkdirAll (ws_MergedDir ws) (wsm_disk m) = (Inr (), d)" "fs_ok d"
    "\<And>q. lookup d q = (if prefix q (elems (ws_MergedDir ws)) then Some Dir else lookup (wsm_disk m) q)"
    by (rule MkdirAll_clear [OF _ ws_shapeD(11) [OF shp]]) (use plain el in auto)
  show thesis by (rule that [OF d(1)]) (use d dirs el in \<open>simp add: only_in_def\<close>)
qed

lemma tool_acts:
  assumes inv: "ws_inv (h_workspace h) r A (wd_workspace w)" and a: "a \<in> A" and ws: "wsm_workspaces (wd_workspace w) a = Some ws"
    and tools: "tools_confined h"
  obtains w1 out w2 where "env_MkdirAll (server_env h clks) (ws_MergedDir ws) w = (None, w1)"
    "env_run (server_env h clks) command args (ws_MergedDir ws) t w1 = (out, w2)"
    "acts (h_workspace h) a (wd_workspace w) (wd_workspace w2)" "wsm_workspaces (wd_workspace w2) a = Some ws"
proof -
  obtain d where d: "MkdirAll (ws_MergedDir ws) (wsm_disk (wd_workspace w)) = (Inr (), d)"
    "only_in (elems (ws_MergedDir ws)) (wsm_disk (wd_workspace w)) d" by (rule MkdirAll_merged [OF inv a ws])
  obtain out d2 k where run: "h_run h command args (ws_MergedDir ws) t (d, wd_ext w) = (out, d2, k)" by (rule prod_cases3)
  have "fs_ok d" using d(2) by (simp add: only_in_def)
  with tools have "only_in (elems (ws_MergedDir ws)) d d2" unfolding tools_confined_def by (metis run fst_conv snd_conv)
  then have all: "only_in (elems (ws_MergedDir ws)) (wsm_disk (wd_workspace w)) d2" by (rule only_in_trans [OF d(2)])
  define w1 where "w1 = w\<lparr>wd_workspace := (wd_workspace w)\<lparr>wsm_disk := d\<rparr>\<rparr>"
  define w2 where "w2 = w\<lparr>wd_workspace := (wd_workspace w)\<lparr>wsm_disk := d2\<rparr>, wd_ext := k\<rparr>"
  show thesis
  proof (rule that)
    show "env_MkdirAll (server_env h clks) (ws_MergedDir ws) w = (None, w1)"
      by (simp add: server_env_def on_workspace_run on_disk_def d(1) err_of_def w1_def)
    show "env_run (server_env h clks) command args (ws_MergedDir ws) t w1 = (out, w2)"
      by (simp add: server_env_def w1_def w2_def run)
    have "ws_act (h_workspace h) a (wd_workspace w) ((wd_workspace w)\<lparr>wsm_disk := d2\<rparr>)"
      by (intro act_use use_tool [OF ws all])
    then show "acts (h_workspace h) a (wd_workspace w) (wd_workspace w2)" by (simp add: w2_def)
    show "wsm_workspaces (wd_workspace w2) a = Some ws" by (simp add: w2_def ws)
  qed
qed

section \<open>The end of a tool\<close>

lemma observe_workspace:
  assumes "env_observer env = observeKernelExec clk"
  shows "wd_workspace (gw_world (observeExec env req pid c as ws st g)) = wd_workspace (gw_world g)"
  by (simp add: observeExec_def assms observeKernelExec_def Let_def split: prod.split)

text \<open>
  \<open>finished\<close>: after the run a commit or a rollback; a failure with a payload that reports no error of
  the workspace was rolled back without one.
\<close>

definition finished :: "wenv \<Rightarrow> string \<Rightarrow> WManager \<Rightarrow> GResponse \<Rightarrow> WManager \<Rightarrow> bool" where
  "finished env a m resp m' \<longleftrightarrow> ws_act env a m m'
     \<and> (gr_Status resp = StatusOK \<or> ''workspace_error'' \<in> fst ` set (the (gr_Payload resp))
        \<or> (\<exists>clk res. wsm_Rollback env clk a m = (Inr res, m')))"

lemma tool_payload_error: "''workspace_error'' \<in> fst ` set (tool_payload env c as cwd out code err) \<longleftrightarrow> err \<noteq> None"
  by (auto simp: tool_payload_def split: option.split)

lemma rollback_finished:
  assumes "on_world (adapter_Rollback h clk a) g = (err, g1)" "gr_Payload resp = Some (tool_payload env c as cwd out code err)"
  shows "finished (h_workspace h) a (wd_workspace (gw_world g)) resp (wd_workspace (gw_world g1))"
proof -
  obtain r m1 where run: "wsm_Rollback (h_workspace h) clk a (wd_workspace (gw_world g)) = (r, m1)" by (rule prod.exhaust)
  have out: "err = err_of r" "wd_workspace (gw_world g1) = m1"
    using assms(1) by (auto simp: on_world_def adapter_Rollback_def on_workspace_run run)
  have "ws_act (h_workspace h) a (wd_workspace (gw_world g)) m1"
    using act_use [OF use_rollback, of "h_workspace h" a "wd_workspace (gw_world g)" clk] by (simp add: run)
  moreover have "err = None \<Longrightarrow> \<exists>x. r = Inr x" by (simp add: out(1) err_of_def split: sum.splits)
  ultimately show ?thesis using run unfolding finished_def out(2) assms(2) option.sel tool_payload_error by auto
qed

lemma commit_finished:
  assumes "on_world (adapter_Commit h clk a) g = (err, g1)"
    and "case err of None \<Rightarrow> gr_Status resp = StatusOK | Some e \<Rightarrow> gr_Payload resp = Some (tool_payload env c as cwd out code err)"
  shows "finished (h_workspace h) a (wd_workspace (gw_world g)) resp (wd_workspace (gw_world g1))"
proof -
  obtain r m1 where run: "wsm_Commit (h_workspace h) clk a (wd_workspace (gw_world g)) = (r, m1)" by (rule prod.exhaust)
  have out: "wd_workspace (gw_world g1) = m1" using assms(1) by (auto simp: on_world_def adapter_Commit_def on_workspace_run run)
  have "ws_act (h_workspace h) a (wd_workspace (gw_world g)) m1"
    using act_use [OF use_commit, of "h_workspace h" a "wd_workspace (gw_world g)" clk] by (simp add: run)
  then show ?thesis using assms(2) unfolding finished_def out by (cases err) (auto simp: tool_payload_error)
qed

lemma tool_finish_finished:
  assumes "tool_finish (server_env h clks) req c as cwd out g = (resp, g')" and "gw_workspaceRuntime g"
  shows "finished (h_workspace h) (gq_AgentID req) (wd_workspace (gw_world g)) resp (wd_workspace (gw_world g'))"
proof -
  let ?env = "server_env h clks" and ?a = "gq_AgentID req"
  note obs = observe_workspace [OF server_env_sel(4)]
  have roll: "rollbackWorkspace ?env ?a g = on_world (adapter_Rollback h (clks 1) ?a) g" by (simp add: rollbackWorkspace_def assms(2))
  have comm: "commitWorkspace ?env ?a g = on_world (adapter_Commit h (clks 1) ?a) g" by (simp add: commitWorkspace_def assms(2))
  obtain re rg where r: "on_world (adapter_Rollback h (clks 1) ?a) g = (re, rg)" by (rule prod.exhaust)
  obtain ce cg where c: "on_world (adapter_Commit h (clks 1) ?a) g = (ce, cg)" by (rule prod.exhaust)
  note run = assms(1) [unfolded tool_finish_def roll comm r c prod.case]
  show ?thesis
  proof (cases "to_timed_out out")
    case True
    with run have "g' = observeExec ?env req (to_pid out) c as cwd StatusTimeout rg"
      "gr_Payload resp = Some (tool_payload ?env c as cwd out (-1) re)" by auto
    with rollback_finished [OF r this(2)] show ?thesis by (simp add: obs)
  next
    case False
    show ?thesis
    proof (cases "to_err out")
      case (Some e)
      with run False have "g' = observeExec ?env req (to_pid out) c as cwd StatusError rg"
        "gr_Payload resp = Some (tool_payload ?env c as cwd out (exitCode e) re)" by auto
      with rollback_finished [OF r this(2)] show ?thesis by (simp add: obs)
    next
      case None
      show ?thesis
      proof (cases ce)
        case (Some e)
        with run False None have "g' = observeExec ?env req (to_pid out) c as cwd StatusError cg"
          "gr_Payload resp = Some (tool_payload ?env c as cwd out 0 (Some e))" by auto
        with commit_finished [OF c, of resp ?env] show ?thesis by (simp add: obs Some)
      next
        case c0: None
        with run False None have "g' = observeExec ?env req (to_pid out) c as cwd StatusOK cg" "gr_Status resp = StatusOK"
          by (auto simp: ok_resp_def)
        with commit_finished [OF c, of resp ?env] show ?thesis by (simp add: obs c0)
      qed
    qed
  qed
qed

section \<open>A tool call\<close>

lemma toolExec_acts:
  assumes A: "ws_agents r A" and a: "gq_AgentID req \<in> A" and inv: "ws_inv (h_workspace h) r A (wd_workspace (gw_world g))"
    and tools: "tools_confined h" and rt: "gw_workspaceRuntime g" and cwd: "stringArg (gq_Args req) ''cwd'' = ([], ok)"
    and run: "toolExec (server_env h clks) req g = (resp, g')"
  obtains (denied) "gr_Payload resp = None" "g' = g"
  | (ran) m ws where "acts (h_workspace h) (gq_AgentID req) (wd_workspace (gw_world g)) m" "wsm_workspaces m (gq_AgentID req) = Some ws"
      "finished (h_workspace h) (gq_AgentID req) m resp (wd_workspace (gw_world g'))"
proof -
  let ?env = "server_env h clks" and ?a = "gq_AgentID req"
  obtain command cok where c: "stringArg (gq_Args req) ''command'' = (command, cok)" by (rule prod.exhaust)
  show thesis
  proof (cases "\<not> cok \<or> command = []")
    case True
    then show thesis using run by (intro denied) (auto simp: toolExec_def c err_resp_def)
  next
    case False
    obtain res w1 where wd: "adapter_WorkspaceDir h (clks 0) ?a (gw_world g) = (res, w1)" by (rule prod.exhaust)
    obtain ws where ws: "res = Inr (ws_MergedDir ws)" "wsm_workspaces (wd_workspace w1) ?a = Some ws"
      "acts (h_workspace h) ?a (wd_workspace (gw_world g)) (wd_workspace w1)" by (rule WorkspaceDir_acts [OF A a inv wd])
    have inv1: "ws_inv (h_workspace h) r A (wd_workspace w1)" by (rule acts_inv [OF A a ws(3) inv])
    obtain w2 out w3 where tool: "env_MkdirAll ?env (ws_MergedDir ws) w1 = (None, w2)"
      "env_run ?env command (stringSliceArg (gq_Args req) ''args'') (ws_MergedDir ws) (tool_timeout req g) w2 = (out, w3)"
      "acts (h_workspace h) ?a (wd_workspace w1) (wd_workspace w3)" "wsm_workspaces (wd_workspace w3) ?a = Some ws"
      by (rule tool_acts [OF inv1 a ws(2) tools, of clks command "stringSliceArg (gq_Args req) ''args''" "tool_timeout req g"])
    have "?a \<noteq> []" using A a by (simp add: ws_agents_def)
    then have wfa: "workspaceForAgent ?env ?a g = (Inr (ws_MergedDir ws), g\<lparr>gw_world := w1\<rparr>)"
      by (simp add: workspaceForAgent_def rt on_world_def wd ws(1))
    have tc: "tool_cwd ?env req (ws_MergedDir ws) = Inr (ws_MergedDir ws)" by (simp add: tool_cwd_def cwd)
    have mk: "on_world (env_MkdirAll ?env (ws_MergedDir ws)) (g\<lparr>gw_world := w1\<rparr>) = (None, g\<lparr>gw_world := w2\<rparr>)"
      by (simp add: on_world_def tool(1))
    have tt: "tool_timeout req (g\<lparr>gw_world := w2\<rparr>) = tool_timeout req g" by (simp add: tool_timeout_def Let_def)
    have go: "on_world (env_run ?env command (stringSliceArg (gq_Args req) ''args'') (ws_MergedDir ws)
        (tool_timeout req (g\<lparr>gw_world := w2\<rparr>))) (g\<lparr>gw_world := w2\<rparr>) = (out, g\<lparr>gw_world := w3\<rparr>)"
      unfolding tt by (simp add: on_world_def tool(2))
    have fin: "tool_finish ?env req command (stringSliceArg (gq_Args req) ''args'') (ws_MergedDir ws) out (g\<lparr>gw_world := w3\<rparr>) = (resp, g')"
      using run unfolding toolExec_def c prod.case if_not_P [OF False] Let_def wfa sum.case tc mk option.case go .
    have "finished (h_workspace h) ?a (wd_workspace w3) resp (wd_workspace (gw_world g'))"
      using tool_finish_finished [OF fin] rt by simp
    then show thesis using tool(3,4) ws(3) by (intro ran [of "wd_workspace w3" ws]) auto
  qed
qed


text \<open>A failing tool of one agent on a manager in which another has its workspace.\<close>

definition tool_gateway :: "(int \<times> int) list World Gateway" where
  "tool_gateway = (sv_gateway small_server)\<lparr>gw_workspaceRuntime := True, gw_world := (sv_world small_server)\<lparr>wd_workspace := ex_a\<rparr>\<rparr>"


section \<open>A working directory behind a link\<close>

lemma walk_dirs:
  assumes "fs_ok d" "lookup d (base @ ws) = Some Dir" "\<forall>w\<in>set ws. plain_word w"
  shows "walk n d base (ws @ rest) = walk n d (base @ ws) rest"
  using assms(2,3)
proof (induction ws arbitrary: base)
  case (Cons w ws)
  have dir: "lookup d (base @ [w]) = Some Dir"
  proof (cases "ws = []")
    case False
    then have "strict_prefix (base @ [w]) (base @ w # ws)" by (simp add: strict_prefix_def)
    with Cons.prems(1) show ?thesis by (rule fs_ok_prefix [OF assms(1)])
  qed (use Cons.prems in simp)
  have w: "w \<noteq> ''.''" "w \<noteq> ''..''" using Cons.prems(2) by (simp_all add: plain_word_def)
  show ?case using Cons.IH [of "base @ [w]"] Cons.prems dir w by simp
qed simp

lemma walk_link:
  assumes "fs_ok d" "lookup d ms = Some Dir" "lookup d (ms @ [l]) = Some (Link (abs_path ts))" "lookup d ts = Some Dir"
    and "\<forall>w\<in>set (ms @ l # ts). plain_word w"
  shows "walk 40 d [] (ms @ l # rest) = walk 39 d ts rest"
proof -
  have l: "l \<noteq> ''.''" "l \<noteq> ''..''" using assms(5) by (simp_all add: plain_word_def)
  have "walk 40 d [] (ms @ l # rest) = walk 40 d ms (l # rest)"
    using walk_dirs [of d "[]" ms 40 "l # rest"] assms by simp
  also have "\<dots> = walk 39 d [] (ts @ rest)"
    using l assms(3,5) words_abs_path [of ts] by (simp add: eval_nat_numeral)
  also have "\<dots> = walk 39 d ts rest" using walk_dirs [of d "[]" ts 39 rest] assms by simp
  finally show ?thesis .
qed

lemma MkdirAll_link:
  assumes "fs_ok d" "lookup d ms = Some Dir" "lookup d (ms @ [l]) = Some (Link (abs_path ts))" "lookup d ts = Some Dir"
    and "\<forall>w\<in>set (ms @ l # x # ts). plain_word w" and "lookup d (ts @ [x]) = None"
  shows "MkdirAll (abs_path (ms @ [l, x])) d = (Inr (), put d (ts @ [x]) Dir)"
proof -
  have plain: "\<forall>w\<in>set (ms @ l # ts). plain_word w" "\<forall>w\<in>set (ms @ [l, x]). plain_word w" using assms(5) by auto
  note link = walk_link [OF assms(1-4) plain(1)]
  have x: "x \<noteq> ''.''" "x \<noteq> ''..''" using assms(5) by (simp_all add: plain_word_def)
  have "stat d (ms @ [l, x]) = Inl ENOENT" "stat d (ms @ [l]) = Inr Dir"
    using link [of "[x]"] link [of "[]"] x assms(4,6) by (simp_all add: stat_def follow_def)
  moreover have "place d (ms @ [l, x]) = Inr (ts @ [x])"
    using link [of "[]"] assms(4) by (simp add: place_def butlast_append)
  moreover have "rev (elems (abs_path (ms @ [l, x]))) = x # l # rev ms" using elems_abs_path [OF plain(2)] by simp
  ultimately show ?thesis by (simp add: MkdirAll_def assms(6))
qed

text \<open>
  C40. The confinement of the working directory is a test of the path only: when the working copy holds a
  link to a directory outside, a request for a directory below that link is accepted, and the runtime
  itself creates the directory outside and runs the tool there.
\<close>

theorem cwd_follows_link:
  assumes "fs_ok (wsm_disk (wd_workspace w))" "lookup (wsm_disk (wd_workspace w)) ms = Some Dir"
    and "lookup (wsm_disk (wd_workspace w)) (ms @ [l]) = Some (Link (abs_path ts))" "lookup (wsm_disk (wd_workspace w)) ts = Some Dir"
    and "\<forall>u\<in>set (ms @ l # x # ts). plain_word u" "lookup (wsm_disk (wd_workspace w)) (ts @ [x]) = None"
    and "IsAbs (we_cwd (h_workspace h))" "stringArg (gq_Args req) ''cwd'' = (l @ ''/'' @ x, True)"
  shows "\<exists>w'. tool_cwd (server_env h clks) req (abs_path ms) = Inr (abs_path (ms @ [l, x]))
    \<and> env_MkdirAll (server_env h clks) (abs_path (ms @ [l, x])) w = (None, w')
    \<and> lookup (wsm_disk (wd_workspace w')) (ts @ [x]) = Some Dir"
proof -
  have plain: "\<forall>u\<in>set ms. plain_word u" "plain_word l" "plain_word x" using assms(5) by auto
  have mk: "MkdirAll (abs_path (ms @ [l, x])) (wsm_disk (wd_workspace w)) = (Inr (), put (wsm_disk (wd_workspace w)) (ts @ [x]) Dir)"
    by (rule MkdirAll_link [OF assms(1-6)])
  have "gateway_confinedPath (we_cwd (h_workspace h)) (abs_path ms) (l @ ''/'' @ x) = Inr (abs_path (ms @ [l, x]))"
  proof -
    have "words (l @ ''/'' @ x) = [l, x]"
      using words_abs_path [of "[l, x]"] plain by (simp add: abs_path_def words_def)
    then have join: "Join [abs_path ms, l @ ''/'' @ x] = abs_path (ms @ [l, x])"
      using Join_words [OF plain(1), of "l @ ''/'' @ x"] plain(2,3) by simp
    have rel: "\<not> IsAbs (l @ ''/'' @ x)" using plain(2) by (cases l) (auto simp: plain_word_def)
    have abs: "Abs (we_cwd (h_workspace h)) (abs_path ms) = abs_path ms" by (simp add: Abs_def Clean_abs_path [OF plain(1)])
    have "words (abs_path (ms @ [l, x])) = ms @ [l, x]" by (rule words_abs_path) (use plain in auto)
    then show ?thesis
      unfolding gateway_confinedPath_eq [OF assms(7)] abs confined_candidate_def using rel
      by (simp add: join [simplified] words_abs_path [OF plain(1)])
  qed
  moreover have "l \<noteq> []" using plain(2) by (auto simp: plain_word_def)
  ultimately have "tool_cwd (server_env h clks) req (abs_path ms) = Inr (abs_path (ms @ [l, x]))"
    by (simp add: tool_cwd_def assms(8) server_env_def)
  then show ?thesis by (simp add: server_env_def on_workspace_run on_disk_def mk err_of_def)
qed

lemma ex_linked_merged: "lookup ex_linked [''rt'', ''a'', ''merged''] = Some Dir"
  by code_simp

lemma ex_linked_escape: "lookup ex_linked ([''rt'', ''a'', ''merged''] @ [''escape'']) = Some (Link (abs_path [''tmp'']))"
  by code_simp

lemma ex_linked_outside: "lookup ex_linked ([''tmp''] @ [''x'']) = None"
  by code_simp


lemma cwd_follows_link_witness:
  "\<exists>w'. env_MkdirAll (server_env small_host (small_clks 0)) ''/rt/a/merged/escape/x''
       ((sv_world small_server)\<lparr>wd_workspace := ex_link\<rparr>) = (None, w') \<and> lookup (wsm_disk (wd_workspace w')) [''tmp'', ''x''] = Some Dir"
proof -
  let ?w = "(sv_world small_server)\<lparr>wd_workspace := ex_link\<rparr>"
  let ?req = "\<lparr>gq_RequestID = ''1'', gq_AgentID = ''a'', gq_TaskID = ''t'', gq_Name = ''tool.exec'',
    gq_Args = Some [(''cwd'', GStr ''escape/x'')]\<rparr>"
  have disk: "wsm_disk (wd_workspace ?w) = ex_linked" by (simp add: ex_link_def)
  note at = ex_linked_merged ex_linked_escape ex_linked_outside
  have "\<forall>u\<in>set ([''rt'', ''a'', ''merged''] @ ''escape'' # ''x'' # [''tmp'']). plain_word u" by (simp add: plain_word_def)
  moreover have "stringArg (gq_Args ?req) ''cwd'' = (''escape'' @ ''/'' @ ''x'', True)" by (simp add: stringArg_def args_get_def)
  moreover have "IsAbs (we_cwd (h_workspace small_host))" by (simp add: small_host_def plain_env_def)
  ultimately show ?thesis
    using cwd_follows_link [of ?w, unfolded disk, OF ex_linked_ok at(1,2) ex_linked_tmp _ at(3), of small_host ?req "small_clks 0"]
    by (simp add: abs_path_def)
qed

end
