(* ===== verification/ServerReal.thy ===== *)
theory ServerReal
  imports ServerDemo
begin

text \<open>
  The software demo on the real runtime: which syscalls a run makes and how they end, how many decisions
  the scheduler logs, and that the figures of the result are those of the run.
\<close>

section \<open>Steps and their syscalls\<close>

text \<open>
  A script lists names of syscalls with the status they must end in, if there is one. \<open>steps f script n P\<close>:
  when \<open>f\<close> succeeds, its records are the script, the scheduler has logged \<open>n\<close> decisions, and the value
  satisfies \<open>P\<close>; when it fails, it has made no more syscalls than the script has.
\<close>

type_synonym script = "(string \<times> string option) list"

definition obeys :: "script \<Rightarrow> GRecord list \<Rightarrow> bool" where
  "obeys = list_all2 (\<lambda>(name, status) r. grec_Name r = name \<and> (case status of None \<Rightarrow> True | Some st \<Rightarrow> grec_Status r = st))"

definition grew :: "'k Server \<Rightarrow> 'k Server \<Rightarrow> GRecord list \<Rightarrow> nat \<Rightarrow> bool" where
  "grew sv sv' rs n \<longleftrightarrow> gw_records (sv_gateway sv') = gw_records (sv_gateway sv) @ rs
     \<and> (\<exists>ds. sch_decisions (sv_scheduler sv') = sch_decisions (sv_scheduler sv) @ ds \<and> length ds = n)"

definition steps :: "('k Server \<Rightarrow> 'a result \<times> 'k Server) \<Rightarrow> script \<Rightarrow> nat \<Rightarrow> ('a \<Rightarrow> bool) \<Rightarrow> bool" where
  "steps f script n P \<longleftrightarrow> (\<forall>sv. \<exists>rs k. grew sv (snd (f sv)) rs k \<and> (case fst (f sv) of
     Inl _ \<Rightarrow> length rs \<le> length script | Inr x \<Rightarrow> obeys script rs \<and> k = n \<and> P x))"

lemma obeys_append: "obeys a rs \<Longrightarrow> obeys b rs' \<Longrightarrow> obeys (a @ b) (rs @ rs')"
  by (simp add: obeys_def list_all2_appendI)

lemma obeys_length: "obeys a rs \<Longrightarrow> length rs = length a"
  by (auto simp: obeys_def dest: list_all2_lengthD)

lemma obeys_Nil [simp]: "obeys [] rs \<longleftrightarrow> rs = []"
  by (simp add: obeys_def)

lemma grew_trans: "grew a b rs n \<Longrightarrow> grew b c rs' m \<Longrightarrow> grew a c (rs @ rs') (n + m)"
  by (auto simp: grew_def)

lemma grew_refl [simp]: "grew sv sv [] 0"
  by (simp add: grew_def)

lemma stepsI:
  assumes "\<And>sv r sv'. f sv = (r, sv') \<Longrightarrow> \<exists>rs k. grew sv sv' rs k \<and> (case r of
     Inl _ \<Rightarrow> length rs \<le> length script | Inr x \<Rightarrow> obeys script rs \<and> k = n \<and> P x)"
  shows "steps f script n P"
  unfolding steps_def using assms by (metis prod.collapse)

lemma steps_bindE:
  assumes "steps f a n P" "\<And>x. P x \<Longrightarrow> steps (g x) b m Q" "script = a @ b" "k = n + m"
  shows "steps (bindE f g) script k Q"
proof (rule stepsI)
  fix sv r sv'
  assume run: "bindE f g sv = (r, sv')"
  obtain r1 sv1 where f: "f sv = (r1, sv1)" by (rule prod.exhaust)
  obtain rs1 k1 where 1: "grew sv sv1 rs1 k1"
    "case r1 of Inl _ \<Rightarrow> length rs1 \<le> length a | Inr x \<Rightarrow> obeys a rs1 \<and> k1 = n \<and> P x"
    using assms(1) [unfolded steps_def, THEN spec, of sv] by (auto simp: f)
  show "\<exists>rs k'. grew sv sv' rs k' \<and> (case r of Inl _ \<Rightarrow> length rs \<le> length script | Inr x \<Rightarrow> obeys script rs \<and> k' = k \<and> Q x)"
  proof (cases r1)
    case (Inl e)
    with run f have "r = Inl e" "sv' = sv1" by (simp_all add: bindE_def)
    with 1 Inl show ?thesis by (intro exI [of _ rs1] exI [of _ k1]) (simp add: assms(3))
  next
    case (Inr x)
    with 1 have x: "obeys a rs1" "k1 = n" "P x" by simp_all
    have g: "g x sv1 = (r, sv')" using run f Inr by (simp add: bindE_def)
    obtain rs2 k2 where 2: "grew sv1 sv' rs2 k2"
      "case r of Inl _ \<Rightarrow> length rs2 \<le> length b | Inr y \<Rightarrow> obeys b rs2 \<and> k2 = m \<and> Q y"
      using assms(2) [OF x(3), unfolded steps_def, THEN spec, of sv1] by (auto simp: g)
    show ?thesis
      by (rule exI [of _ "rs1 @ rs2"], rule exI [of _ "k1 + k2"])
        (use grew_trans [OF 1(1) 2(1)] x 2(2) obeys_append [OF x(1)] obeys_length [OF x(1)] in
          \<open>auto simp: assms(3,4) split: sum.splits\<close>)
  qed
qed

lemma steps_returnE: "P x \<Longrightarrow> steps (returnE x) [] 0 P"
  by (rule stepsI) (auto simp: returnE_def intro!: exI [of _ "[]"])

text \<open>Steps that make no syscall and log no decision.\<close>

definition silent :: "('k Server \<Rightarrow> 'a result \<times> 'k Server) \<Rightarrow> bool" where
  "silent f \<longleftrightarrow> (\<forall>sv. grew sv (snd (f sv)) [] 0)"

lemma steps_silent: "silent f \<Longrightarrow> steps f [] 0 (\<lambda>_. True)"
  unfolding steps_def silent_def by (intro allI exI [of _ "[]"] exI [of _ "0"]) (simp split: sum.split)

lemma silentI: "(\<And>sv r sv'. f sv = (r, sv') \<Longrightarrow> grew sv sv' [] 0) \<Longrightarrow> silent f"
  unfolding silent_def by (metis prod.collapse)

lemma silentD: "silent f \<Longrightarrow> f sv = (r, sv') \<Longrightarrow> grew sv sv' [] 0"
  unfolding silent_def by (metis snd_conv)

lemma grew0_trans: "grew a b [] 0 \<Longrightarrow> grew b c [] 0 \<Longrightarrow> grew a c [] 0"
  using grew_trans [of a b "[]" 0 c "[]" 0] by simp

lemma silent_bindE: "silent f \<Longrightarrow> (\<And>x. silent (g x)) \<Longrightarrow> silent (bindE f g)"
  unfolding silent_def bindE_def by (auto split: prod.split sum.split intro: grew0_trans)

lemma silent_eachE: "(\<And>x. silent (f x)) \<Longrightarrow> silent (eachE f xs)"
proof (induction xs)
  case (Cons x xs)
  show ?case
  proof (rule silentI)
    fix sv r sv'
    assume run: "eachE f (x # xs) sv = (r, sv')"
    obtain r1 sv1 where f: "f x sv = (r1, sv1)" by (rule prod.exhaust)
    have 1: "grew sv sv1 [] 0" by (rule silentD [OF Cons.prems f])
    show "grew sv sv' [] 0"
    proof (cases r1)
      case (Inl e)
      with run f 1 show ?thesis by simp
    next
      case (Inr y)
      with run f have "eachE f xs sv1 = (r, sv')" by simp
      from silentD [OF Cons.IH [OF Cons.prems] this] 1 show ?thesis by (rule grew0_trans [rotated])
    qed
  qed
qed (simp add: silent_def)

lemma grew_on_world [simp]: "grew sv (on_sv_world f sv) [] 0"
  by (simp add: grew_def on_sv_world_def)

lemma grew_publish [simp]: "grew sv (sv_publish ev sv) [] 0"
  by (simp add: sv_publish_def)

lemma silent_cvm: "silent (sv_cvm f)"
  by (rule silentI) (auto simp: sv_cvm_def on_cvm_def grew_def split: option.splits prod.splits)

section \<open>A syscall\<close>

lemma Handle_record:
  assumes "gw_Handle cd env clks elapsed req g = (resp, g')"
  obtains r where "gw_records g' = gw_records g @ [r]" "grec_Name r = gq_Name req" "grec_Status r = gr_Status resp"
proof -
  define rq where "rq = (if gq_RequestID req = [] then req\<lparr>gq_RequestID := stamp (clks 0 0)\<rparr> else req)"
  have rq: "gq_Name rq = gq_Name req" by (simp add: rq_def)
  let ?g1 = "gw_publish (clks 2) ''syscall.started'' rq [(''name'', GStr (gq_Name rq)),
      (''request_id'', GStr (gq_RequestID rq)), (''input_size'', GInt (jsonSize (env_marshal env) (gq_Args rq)))] g"
  obtain rs g2 where ex: "gw_execute cd env (\<lambda>i. clks (i + 4)) rq ?g1 = (rs, g2)" by (rule prod.exhaust)
  have ans: "frame ?g1 g2"
    using gw_execute_answers [of rq ?g1 cd env "\<lambda>i. clks (i + 4)"] by (simp add: answers_def ex)
  obtain r p where out: "resp = rs"
    "g' = gw_publish (clks 3) ''syscall.finished'' rq p (g2\<lparr>gw_records := gw_records g2 @ [r]\<rparr>)"
    "grec_Name r = gq_Name rq" "grec_Status r = gr_Status rs"
    using assms unfolding gw_Handle_def rq_def [symmetric] Let_def ex prod.case
    by (elim Pair_inject) (rule that, erule sym, erule sym, simp_all)
  show thesis by (rule that [of r]) (use ans in \<open>simp_all add: out rq gw_publish_def frame_def\<close>)
qed

lemma sv_Handle_grew:
  assumes "sv_Handle h clks el req sv = (resp, sv')"
  obtains r where "grew sv sv' [r] 0" "grec_Name r = gq_Name req" "grec_Status r = gr_Status resp"
proof -
  obtain g where g: "gw_Handle (h_codec h) (server_env h (\<lambda>i. clks (2 * i + 1))) (\<lambda>i. clks (2 * i)) el req (sv_gateway sv) = (resp, g)"
    "sv' = sv\<lparr>sv_gateway := g\<rparr>"
    using assms by (auto simp: sv_Handle_def split: prod.splits)
  obtain r where "gw_records g = gw_records (sv_gateway sv) @ [r]" "grec_Name r = gq_Name req" "grec_Status r = gr_Status resp"
    by (rule Handle_record [OF g(1)])
  then show thesis by (intro that [of r]) (simp_all add: grew_def g(2))
qed

lemma real_request_name [simp]: "gq_Name (real_request i t a name args) = name"
  by (simp add: real_request_def)

lemma steps_must: "steps (mustSyscallOK h cs els n taskID agentID name args) [(name, Some StatusOK)] 0 (\<lambda>_. True)"
proof (rule stepsI)
  fix sv r sv'
  assume run: "mustSyscallOK h cs els n taskID agentID name args sv = (r, sv')"
  obtain resp sv1 where s: "sv_Handle h (cs n \<circ> Suc) (els n)
      (real_request (timed_id (cs n 0) taskID name) taskID agentID name args) sv = (resp, sv1)" by (rule prod.exhaust)
  obtain rec where rec: "grew sv sv1 [rec] 0" "grec_Name rec = name" "grec_Status rec = gr_Status resp"
    by (rule sv_Handle_grew [OF s]) simp
  from run have "sv' = sv1" "r = (if gr_Status resp \<noteq> StatusOK
      then Inl (Errorf ''%s for %s failed: %s %s'' [name, agentID, gr_Status resp, gr_Error resp]) else Inr ())"
    by (auto simp: mustSyscallOK_def s)
  then show "\<exists>rs k. grew sv sv' rs k \<and> (case r of Inl _ \<Rightarrow> length rs \<le> length [(name, Some StatusOK)]
      | Inr x \<Rightarrow> obeys [(name, Some StatusOK)] rs \<and> k = 0 \<and> True)"
    by (intro exI [of _ "[rec]"] exI [of _ 0]) (use rec in \<open>auto simp: obeys_def\<close>)
qed

lemma steps_delta: "steps (writeDeltaPage h cs els n taskID agentID content) [(''context.write_delta'', Some StatusOK)] 0 (\<lambda>_. True)"
proof (rule stepsI)
  fix sv r sv'
  assume run: "writeDeltaPage h cs els n taskID agentID content sv = (r, sv')"
  obtain resp sv1 where s: "sv_Handle h (cs n \<circ> Suc) (els n) (real_request (timed_id (cs n 0) taskID ''context.write_delta'')
      taskID agentID ''context.write_delta'' [(''content'', GStr content)]) sv = (resp, sv1)" by (rule prod.exhaust)
  obtain rec where rec: "grew sv sv1 [rec] 0" "grec_Name rec = ''context.write_delta''" "grec_Status rec = gr_Status resp"
    by (rule sv_Handle_grew [OF s]) simp
  from run have sv': "sv' = sv1" and bad: "gr_Status resp \<noteq> StatusOK \<Longrightarrow> \<exists>e. r = Inl e"
    unfolding writeDeltaPage_def s prod.case by auto
  show "\<exists>rs k. grew sv sv' rs k \<and> (case r of Inl _ \<Rightarrow> length rs \<le> length [(''context.write_delta'', Some StatusOK)]
      | Inr x \<Rightarrow> obeys [(''context.write_delta'', Some StatusOK)] rs \<and> k = 0 \<and> True)"
    by (intro exI [of _ "[rec]"] exI [of _ 0], cases r) (use rec bad in \<open>auto simp: sv' obeys_def\<close>)
qed

lemma steps_Handle:
  assumes "\<And>resp sv. grew sv (g resp sv) [] 0" "\<And>resp. P (v resp)" "name = gq_Name req"
  shows "steps (\<lambda>sv. case sv_Handle h clks el req sv of (resp, sv1) \<Rightarrow>
      if gr_Status resp \<noteq> st then (Inl (e resp), sv1) else (Inr (v resp), g resp sv1)) [(name, Some st)] 0 P"
proof (rule stepsI)
  fix sv r sv'
  assume run: "(case sv_Handle h clks el req sv of (resp, sv1) \<Rightarrow>
      if gr_Status resp \<noteq> st then (Inl (e resp), sv1) else (Inr (v resp), g resp sv1)) = (r, sv')"
  obtain resp sv1 where s: "sv_Handle h clks el req sv = (resp, sv1)" by (rule prod.exhaust)
  obtain rec where rec: "grew sv sv1 [rec] 0" "grec_Name rec = gq_Name req" "grec_Status rec = gr_Status resp"
    by (rule sv_Handle_grew [OF s]) simp
  have g: "grew sv (g resp sv1) [rec] 0" using grew_trans [OF rec(1) assms(1)] by simp
  show "\<exists>rs k. grew sv sv' rs k \<and> (case r of Inl _ \<Rightarrow> length rs \<le> length [(name, Some st)]
      | Inr x \<Rightarrow> obeys [(name, Some st)] rs \<and> k = 0 \<and> P x)"
    by (rule exI [of _ "[rec]"], rule exI [of _ 0])
      (use run [unfolded s prod.case] rec g assms(2) in \<open>auto simp: obeys_def assms(3) split: if_splits\<close>)
qed

lemma steps_after: "(\<And>sv. grew sv (g sv) [] 0) \<Longrightarrow> steps f script n P \<Longrightarrow> steps (\<lambda>sv. f (g sv)) script n P"
  unfolding steps_def by (metis append_Nil grew_trans add_0)

lemma grew_event [simp]: "grew sv (real_event clk t a ty p sv) [] 0"
  by (simp add: real_event_def)

section \<open>The steps of the roles\<close>

abbreviation records :: "'k Server \<Rightarrow> GRecord list" where
  "records sv \<equiv> gw_records (sv_gateway sv)"

lemma records_world [simp]: "records (on_sv_world f sv) = records sv"
  by (simp add: on_sv_world_def)

lemma records_publish [simp]: "records (sv_publish ev sv) = records sv"
  by (simp add: sv_publish_def)

lemma records_sample: "sampleSchedulerResourcePressure h clk sv = (p, sv1) \<Longrightarrow> records sv1 = records sv"
  by (auto simp: sampleSchedulerResourcePressure_def Let_def)

lemma records_decision [simp]: "records (publishSchedulerDecision h clks d sv) = records sv"
proof -
  obtain p sv1 where s: "sampleSchedulerResourcePressure h (clks 0) sv = (p, sv1)" by (rule prod.exhaust)
  show ?thesis unfolding publishSchedulerDecision_def s by (simp add: Let_def records_sample [OF s])
qed

lemma decisions_decision [simp]:
  "sch_decisions (sv_scheduler (publishSchedulerDecision h clks d sv)) = sch_decisions (sv_scheduler sv)"
  using loop_view_decision [of h clks d sv] by (simp add: loop_view_def)

lemma steps_schedule: "steps (scheduleSoftwareRealAgent h clks taskID a index) [] 1 (\<lambda>_. True)"
proof (rule stepsI)
  fix sv r sv'
  assume run: "scheduleSoftwareRealAgent h clks taskID a index sv = (r, sv')"
  obtain cand where cand: "scheduleSoftwareRealAgent h clks taskID a index sv = (case Select (clks 1) taskID [cand] (sv_scheduler sv) of
       (None, _) \<Rightarrow> (Inl (Errorf ''scheduler found no ready agent for %s/%s'' [taskID, da_ID a]), sv)
     | (Some (selected, decision), sched) \<Rightarrow>
         (Inr (), publishSchedulerDecision h (\<lambda>i. clks (i + 2)) decision (sv\<lparr>sv_scheduler := sched\<rparr>)))"
    by (rule that, unfold scheduleSoftwareRealAgent_def Let_def, rule refl)
  obtain res sched where sel: "Select (clks 1) taskID [cand] (sv_scheduler sv) = (res, sched)" by (rule prod.exhaust)
  from sel show "\<exists>rs k. grew sv sv' rs k \<and> (case r of Inl _ \<Rightarrow> length rs \<le> length ([] :: script)
      | Inr x \<Rightarrow> obeys [] rs \<and> k = 1 \<and> True)"
  proof (cases rule: Select_cases)
    case idle
    with run [unfolded cand sel] have "sv' = sv" "\<exists>e. r = Inl e" by auto
    then show ?thesis by (intro exI [of _ "[]"] exI [of _ 0]) auto
  next
    case (picks sa d reason shared scores)
    with run [unfolded cand sel] have "r = Inr ()" "grew sv sv' [] 1" by (auto simp: grew_def)
    then show ?thesis by (intro exI [of _ "[]"] exI [of _ 1]) auto
  qed
qed

lemma steps_ignored: "P x \<Longrightarrow> name = gq_Name req \<Longrightarrow>
    steps (\<lambda>sv. (Inr x, snd (sv_Handle h clks el req sv))) [(name, None)] 0 P"
proof (rule stepsI)
  fix sv r sv'
  assume x: "P x" and name: "name = gq_Name req" and run: "(Inr x, snd (sv_Handle h clks el req sv)) = (r, sv')"
  obtain resp sv1 where s: "sv_Handle h clks el req sv = (resp, sv1)" by (rule prod.exhaust)
  obtain rec where "grew sv sv1 [rec] 0" "grec_Name rec = gq_Name req" by (rule sv_Handle_grew [OF s]) simp
  with x name run s show "\<exists>rs k. grew sv sv' rs k \<and> (case r of Inl _ \<Rightarrow> length rs \<le> length [(name, None)]
      | Inr x \<Rightarrow> obeys [(name, None)] rs \<and> k = 0 \<and> P x)"
    by (intro exI [of _ "[rec]"] exI [of _ 0]) (auto simp: obeys_def)
qed

lemma steps_planner: "steps (planner_step h cs els taskID agentID t)
    [(''context.materialize'', Some StatusOK), (''llm.call'', Some StatusOK), (''context.write_delta'', Some StatusOK),
     (''agent.spawn'', None)] 0 (\<lambda>t'. t' = t)"
  unfolding planner_step_def
  by (rule steps_bindE [OF steps_must steps_bindE [OF steps_must steps_bindE [OF steps_must steps_ignored]]]) simp_all

lemma steps_coder: "steps (coder_step h cs els taskID agentID t)
    [(''context.materialize'', Some StatusOK), (''context.write_delta'', Some StatusOK)] 0 (\<lambda>t'. t' = t)"
  unfolding coder_step_def
  by (rule steps_bindE [OF steps_must steps_bindE [OF steps_must steps_returnE]]) simp_all

lemma steps_tester: "steps (tester_step h cs els taskID agentID t)
    [(''context.materialize'', Some StatusOK), (''tool.exec'', Some StatusError)] 0 (\<lambda>t'. tev_FirstStatus t' = ''failed'')"
  unfolding tester_step_def
  by (rule steps_bindE [OF steps_must steps_Handle [where st = StatusError]]) (simp_all add: go_test_request_def)

lemma steps_reviewer: "steps (reviewer_step h cs els taskID agentID t)
    [(''context.write_delta'', Some StatusOK), (''ipc.publish'', Some StatusOK)] 0 (\<lambda>t'. t' = t)"
  unfolding reviewer_step_def
  by (rule steps_bindE [OF steps_delta]) (auto intro: steps_bindE [OF steps_must steps_returnE])

lemma steps_fixer: "steps (fixer_step h cs els taskID agentID t)
    [(''ipc.poll'', Some StatusOK), (''context.write_delta'', Some StatusOK), (''tool.exec'', Some StatusOK)] 0
    (\<lambda>t'. tev_FirstStatus t' = tev_FirstStatus t \<and> tev_SecondStatus t' = ''passed'')"
  unfolding fixer_step_def
  by (rule steps_bindE [OF steps_must steps_bindE [OF steps_must steps_Handle [where st = StatusOK]]])
    (simp_all add: go_test_request_def)

lemma steps_reporter: "steps (reporter_step h cs els taskID agentID t)
    [(''context.materialize'', Some StatusOK)] 0 (\<lambda>t'. t' = t)"
  unfolding reporter_step_def by (rule steps_bindE [OF steps_must steps_returnE]) simp_all

lemma steps_agent:
  assumes "steps (role_step h (cs index) (els index) taskID a t) s 0 P"
    "\<And>t'. P t' \<Longrightarrow> steps (agent_steps h cs els taskID (Suc index) as t') s' n Q"
  shows "steps (agent_steps h cs els taskID index (a # as) t) (s @ s') (Suc n) Q"
  unfolding agent_steps.simps
  by (rule steps_bindE [OF steps_schedule steps_after [OF grew_event steps_bindE [OF assms(1)]]])
    (simp_all add: assms(2))

definition real_script :: script where
  "real_script = [
     (''context.materialize'', Some StatusOK), (''llm.call'', Some StatusOK), (''context.write_delta'', Some StatusOK),
     (''agent.spawn'', None), (''context.materialize'', Some StatusOK), (''context.write_delta'', Some StatusOK),
     (''context.materialize'', Some StatusOK), (''tool.exec'', Some StatusError), (''context.write_delta'', Some StatusOK),
     (''ipc.publish'', Some StatusOK), (''ipc.poll'', Some StatusOK), (''context.write_delta'', Some StatusOK),
     (''tool.exec'', Some StatusOK), (''context.materialize'', Some StatusOK), (''tool.exec'', Some StatusTimeout),
     (''tool.exec'', Some StatusOK), (''agent.report'', Some StatusOK)]"

definition tested :: "TestEvidence \<Rightarrow> bool" where
  "tested t \<longleftrightarrow> tev_FirstStatus t = ''failed'' \<and> tev_SecondStatus t = ''passed''"

lemma role_step_simps [simp]:
  "role_step h cs els taskID (demo_agent i ''planner'' st) = planner_step h cs els taskID i"
  "role_step h cs els taskID (demo_agent i ''coder'' st) = coder_step h cs els taskID i"
  "role_step h cs els taskID (demo_agent i ''tester'' st) = tester_step h cs els taskID i"
  "role_step h cs els taskID (demo_agent i ''reviewer'' st) = reviewer_step h cs els taskID i"
  "role_step h cs els taskID (demo_agent i ''fixer'' st) = fixer_step h cs els taskID i"
  "role_step h cs els taskID (demo_agent i ''reporter'' st) = reporter_step h cs els taskID i"
  by (simp_all add: role_step_def demo_agent_def)

lemma steps_agents: "steps (runSoftwareRealAgentSteps h cs els (softwareRealTask taskID)) (take 14 real_script) 6 tested"
proof -
  have done0: "steps (agent_steps h cs els taskID n [] t) [] 0 tested" if "tested t" for n t
    using steps_returnE [of tested t] that by simp
  have "steps (agent_steps h cs els taskID 0 (dr_Agents (softwareRealTask taskID)) t)
      ([(''context.materialize'', Some StatusOK), (''llm.call'', Some StatusOK), (''context.write_delta'', Some StatusOK),
        (''agent.spawn'', None)] @
       [(''context.materialize'', Some StatusOK), (''context.write_delta'', Some StatusOK)] @
       [(''context.materialize'', Some StatusOK), (''tool.exec'', Some StatusError)] @
       [(''context.write_delta'', Some StatusOK), (''ipc.publish'', Some StatusOK)] @
       [(''ipc.poll'', Some StatusOK), (''context.write_delta'', Some StatusOK), (''tool.exec'', Some StatusOK)] @
       [(''context.materialize'', Some StatusOK)] @ []) (Suc (Suc (Suc (Suc (Suc (Suc 0)))))) tested" for t
    unfolding softwareRealTask_def DemoResult.select_convs list.map
    by (rule steps_agent [OF _ steps_agent [OF _ steps_agent [OF _ steps_agent [OF _ steps_agent [OF _ steps_agent]]]]],
      unfold role_step_simps, rule steps_planner, rule steps_coder, rule steps_tester, rule steps_reviewer,
      rule steps_fixer, rule steps_reporter, rule done0) (simp add: tested_def)
  then show ?thesis
    by (simp add: runSoftwareRealAgentSteps_def softwareRealTask_def real_script_def eval_nat_numeral)
qed

section \<open>Around the steps of the agents\<close>

lemma silent_returnE [simp]: "silent (returnE x)"
  by (simp add: silent_def returnE_def)

lemma silent_seed: "silent (seedSoftwareRealContext cd clks requirement agents)"
  unfolding seedSoftwareRealContext_def
  by (intro silent_bindE silent_eachE silent_cvm) (simp add: mount_page_def silent_cvm split: prod.split)

lemma silent_attach: "silent (attachSoftwareRealCapsule h clks agentID taskID pid)"
  by (rule silentI)
    (auto simp: attachSoftwareRealCapsule_def real_event_def Let_def grew_def on_sv_world_def sv_publish_def
      split: option.splits prod.splits sum.splits)

lemma silent_wait: "silent (waitForSoftwareRealCapsule h clks ending agentID ticks)"
proof (induction ticks)
  case (Cons tick ticks)
  show ?case
  proof (rule silentI)
    fix sv r sv'
    assume run: "waitForSoftwareRealCapsule h clks ending agentID (tick # ticks) sv = (r, sv')"
    let ?sv1 = "on_sv_world tick sv"
    have "grew ?sv1 sv' [] 0"
    proof (cases "Option.bind (wd_registry (sv_world ?sv1)) (reg_Get agentID)")
      case None
      with run have "waitForSoftwareRealCapsule h clks ending agentID ticks ?sv1 = (r, sv')" by (simp add: Let_def)
      then show ?thesis by (rule silentD [OF Cons.IH])
    next
      case (Some agent)
      show ?thesis
      proof (cases "avp_PID agent = 0")
        case True
        with run Some have "waitForSoftwareRealCapsule h clks ending agentID ticks ?sv1 = (r, sv')" by (simp add: Let_def)
        then show ?thesis by (rule silentD [OF Cons.IH])
      next
        case False
        with run Some have "attachSoftwareRealCapsule h clks agentID (avp_TaskID agent) (avp_PID agent) ?sv1 = (r, sv')"
          by (simp add: Let_def)
        then show ?thesis by (rule silentD [OF silent_attach])
      qed
    qed
    then show "grew sv sv' [] 0" by (rule grew0_trans [OF grew_on_world])
  qed
qed (simp add: silent_def)

lemma silent_launcher: "launcher_Start h spec sv = (e, sv') \<Longrightarrow> grew sv sv' [] 0"
  by (auto simp: launcher_Start_def Let_def grew_def on_sv_world_def split: sum.splits prod.splits)

lemma silent_prepare_agent: "silent (prepare_agent (h :: 'k host) wi clks taskID a)"
proof (rule silentI)
  fix sv0 :: "'k Server" and r sv'
  assume run: "prepare_agent h wi clks taskID a sv0 = (r, sv')"
  define f :: "'k World \<Rightarrow> 'k World" where "f = on_registry (\<lambda>r. if reg_Get (da_ID a) r = None
         then snd (CreateAgent (clks 0) (da_ID a) (da_Role a) taskID r) else (r, []))"
  define sv where "sv = on_sv_world f sv0"
  have sv: "grew sv0 sv [] 0" by (simp add: sv_def)
  have "grew sv sv' [] 0"
  proof (cases "la_Command (sv_launcher sv) \<noteq> [] \<and> cfg_SocketPath (sv_cfg sv) \<noteq> []")
    case True
    obtain e sv1 where st: "launcher_Start h \<lparr>spec_AgentID = da_ID a, spec_Role = da_Role a, spec_TaskID = taskID\<rparr> sv = (e, sv1)"
      by (rule prod.exhaust)
    note 1 = silent_launcher [OF st]
    show ?thesis
    proof (cases e)
      case None
      then have "waitForSoftwareRealCapsule h (\<lambda>i. clks (i + 1)) (wi_ending wi) (da_ID a) (wi_ticks wi (da_ID a)) sv1 = (r, sv')"
        using run True st unfolding prepare_agent_def f_def [symmetric] Let_def sv_def [symmetric] by simp
      from silentD [OF silent_wait this] 1 show ?thesis using grew0_trans by blast
    next
      case (Some x)
      then have "sv' = sv1"
        using run True st unfolding prepare_agent_def f_def [symmetric] Let_def sv_def [symmetric] by simp
      with 1 show ?thesis by simp
    qed
  next
    case False
    obtain res k where st: "h_start h (''sleep'', [''10'']) (wd_ext (sv_world sv)) = (res, k)" by (rule prod.exhaust)
    show ?thesis
    proof (cases res)
      case (Inl e)
      then have "sv' = on_sv_world (\<lambda>w. w\<lparr>wd_ext := k\<rparr>) sv"
        using run False st unfolding prepare_agent_def f_def [symmetric] Let_def sv_def [symmetric] by auto
      then show ?thesis by simp
    next
      case (Inr pid)
      then obtain g where "attachSoftwareRealCapsule h (\<lambda>i. clks (i + 8)) (da_ID a) taskID pid
              (on_sv_world g (on_sv_world (\<lambda>w. w\<lparr>wd_ext := k\<rparr>) sv)) = (r, sv')"
        using run False st unfolding prepare_agent_def f_def [symmetric] Let_def sv_def [symmetric] by auto
      from silentD [OF silent_attach this] show ?thesis
        using grew0_trans grew_on_world by blast
    qed
  qed
  with sv show "grew sv0 sv' [] 0" by (rule grew0_trans)
qed

lemma silent_prepare: "silent (prepareSoftwareRealAgentCapsules h wi cs task)"
proof -
  have "silent (eachE (\<lambda>(n, a). prepare_agent h wi (cs n) (dr_TaskID task) a) (enumerate 0 (dr_Agents task)))"
    by (intro silent_eachE) (simp add: silent_prepare_agent split: prod.split)
  then show ?thesis by (auto simp: silent_def prepareSoftwareRealAgentCapsules_def)
qed

section \<open>The run\<close>

lemma decisions_publish [simp]: "sch_decisions (sv_scheduler (sv_publish ev sv)) = sch_decisions (sv_scheduler sv)"
  by (simp add: sv_publish_def on_sv_world_def)

lemma steps_timeout: "steps (tool_timeout_fault h cs elapsed demoID) [(''tool.exec'', Some StatusTimeout)] 0 (\<lambda>_. True)"
proof (rule stepsI)
  fix sv r sv'
  assume run: "tool_timeout_fault h cs elapsed demoID sv = (r, sv')"
  obtain resp sv1 where s: "sv_Handle h (cs 0) elapsed (real_request (demoID @ ''-tester-tool-timeout'') demoID (demoID @ ''-tester'')
      ''tool.exec'' [(''command'', GStr ''sh''), (''args'', GStrs [''-c'', ''sleep 1'']), (''timeout_ms'', GInt 10)]) sv = (resp, sv1)"
    by (rule prod.exhaust)
  obtain rec where rec: "grew sv sv1 [rec] 0" "grec_Name rec = ''tool.exec''" "grec_Status rec = gr_Status resp"
    by (rule sv_Handle_grew [OF s]) simp
  obtain fault where "grew sv sv' [rec] 0" "r = (if gr_Status resp \<noteq> StatusTimeout
      then Inl (Errorf ''expected timeout fault, got %s'' [gr_Status resp]) else Inr fault)"
  proof -
    obtain fault svr ev where f: "sup_Record (cs 1 0) \<lparr>flt_Type = FaultToolTimeout, flt_TaskID = demoID, flt_AgentID = demoID @ ''-tester'',
         flt_RecoveryAction = ''kill timed-out tool process and resume tester agent'',
         flt_Details = [(''syscall'', GStr ''tool.exec''), (''syscall_status'', GStr (gr_Status resp)),
           (''error'', GStr (gr_Error resp))]\<rparr> (sv_supervisor sv1) = (fault, svr, ev)" by (rule prod_cases3)
    show thesis
      by (rule that [of fault])
        (use run [unfolded tool_timeout_fault_def Let_def s f prod.case] rec(1) in \<open>auto simp: grew_def real_event_def\<close>)
  qed
  then show "\<exists>rs k. grew sv sv' rs k \<and> (case r of Inl _ \<Rightarrow> length rs \<le> length [(''tool.exec'', Some StatusTimeout)]
      | Inr x \<Rightarrow> obeys [(''tool.exec'', Some StatusTimeout)] rs \<and> k = 0 \<and> True)"
    by (intro exI [of _ "[rec]"] exI [of _ 0]) (use rec in \<open>auto simp: obeys_def\<close>)
qed

lemma steps_recovery: "steps (runSoftwareRealRecoverySteps h cs els taskID)
    [(''tool.exec'', Some StatusOK), (''agent.report'', Some StatusOK)] 0 (\<lambda>_. True)"
  unfolding runSoftwareRealRecoverySteps_def
  by (rule steps_after [OF grew_event steps_bindE [OF steps_must steps_must]]) simp_all

lemma grew_checkpoint [simp]: "grew sv (saveCheckpoint h clks io task n sv) [] 0"
  by (auto simp: saveCheckpoint_def Let_def grew_def sv_publish_def on_sv_world_def split: prod.split sum.split)

lemma finish_real_counts:
  assumes "finish_real h i requirement task tests fault sv0 sv = ((res, task'), sv')" "grew sv0 sv rs n"
  shows "grew sv0 sv' rs n \<and> swr_SyscallCount res = int (length rs) \<and> swr_SchedulerDecisionCount res = int n
    \<and> swr_ToolExecCount res = countToolExec rs
    \<and> swr_FirstTestStatus res = tev_FirstStatus tests \<and> swr_SecondTestStatus res = tev_SecondStatus tests"
proof -
  let ?sv1 = "completeSoftwareRealAgents (ri_clks i 5 0 0) task sv"
  let ?task = "task\<lparr>dr_Status := ''success'', dr_Agents := agentsForTask h (ri_agents i) (sv_world ?sv1) task\<rparr>"
  let ?sv3 = "real_event (ri_clks i 5 2 0 0) (dr_TaskID task) (dr_TaskID task @ ''-reporter'') ''software_real.reporter_completed''
         [(''final_status'', GStr ''success'')] (saveCheckpoint h (ri_clks i 5 1 0) (ri_save i) ?task 1 ?sv1)"
  have "grew sv ?sv1 [] 0" by (simp add: completeSoftwareRealAgents_def)
  then have "grew sv ?sv3 [] 0" using grew0_trans grew_checkpoint grew_event by blast
  with assms(2) have g: "grew sv0 ?sv3 rs n" using grew_trans by fastforce
  have sv': "sv' = ?sv3" using assms(1) unfolding finish_real_def Let_def by (auto split: prod.splits)
  from g have eq: "gw_Records (sv_gateway sv') = gw_Records (sv_gateway sv0) @ rs"
    "int (length (sched_Decisions (sv_scheduler sv'))) - int (length (sched_Decisions (sv_scheduler sv0))) = int n"
    by (auto simp: sv' grew_def gw_Records_def sched_Decisions_def)
  show ?thesis
    using assms(1) g eq unfolding finish_real_def Let_def sv' by (auto split: prod.splits)
qed

lemma countToolExec_map: "countToolExec rs = int (length (filter (\<lambda>x. x = ''tool.exec'') (map grec_Name rs)))"
  by (simp add: countToolExec_def filter_map comp_def)

lemma obeys_names: "obeys s rs \<Longrightarrow> map grec_Name rs = map fst s"
  unfolding obeys_def by (induction rule: list_all2_induct) auto

definition run_steps :: "'k host \<Rightarrow> 'k real_in \<Rightarrow> string \<Rightarrow> string \<Rightarrow> 'k Server \<Rightarrow> (TestEvidence \<times> FaultRecord) result \<times> 'k Server" where
  "run_steps h i requirement demoID = bindE (seedSoftwareRealContext (h_codec h) (ri_clks i 1 0 0) requirement (dr_Agents (softwareRealTask demoID))) (\<lambda>_.
        bindE (prepareSoftwareRealAgentCapsules h (ri_wait i) (ri_clks i 1 1) (softwareRealTask demoID)) (\<lambda>_.
        bindE (runSoftwareRealAgentSteps h (ri_clks i 2) (ri_elapsed i 2) (softwareRealTask demoID)) (\<lambda>tests.
        bindE (tool_timeout_fault h (ri_clks i 3 0) (ri_elapsed i 3 0 0) demoID) (\<lambda>fault.
        bindE (runSoftwareRealRecoverySteps h (ri_clks i 4 0) (ri_elapsed i 4 0) demoID) (\<lambda>_. returnE (tests, fault))))))"

lemma steps_run: "steps (run_steps h i requirement demoID) real_script 6 (\<lambda>(tests, fault). tested tests)"
proof -
  have "steps (run_steps h i requirement demoID)
     ([] @ [] @ take 14 real_script @ [(''tool.exec'', Some StatusTimeout)] @
      [(''tool.exec'', Some StatusOK), (''agent.report'', Some StatusOK)] @ []) (0 + (0 + (6 + (0 + (0 + 0)))))
     (\<lambda>(tests, fault). tested tests)"
    unfolding run_steps_def
    by (rule steps_bindE [OF steps_silent [OF silent_seed] _ refl refl], rule steps_bindE [OF steps_silent [OF silent_prepare] _ refl refl],
      rule steps_bindE [OF steps_agents _ refl refl], rule steps_bindE [OF steps_timeout _ refl refl],
      rule steps_bindE [OF steps_recovery _ refl refl], rule steps_returnE) simp
  then show ?thesis by (simp add: real_script_def)
qed

lemma bindE_assoc: "bindE (bindE f g) k = bindE f (\<lambda>x. bindE (g x) k)"
  by (auto simp: bindE_def split: prod.splits sum.splits)

lemma bindE_return: "bindE (returnE x) k = k x"
  by (simp add: bindE_def returnE_def fun_eq_iff)

lemma stepsD: "steps f script n P \<Longrightarrow> f sv = (r, sv') \<Longrightarrow> \<exists>rs k. grew sv sv' rs k \<and> (case r of
     Inl _ \<Rightarrow> length rs \<le> length script | Inr x \<Rightarrow> obeys script rs \<and> k = n \<and> P x)"
  unfolding steps_def by (metis prod.sel)

lemma real_script_obeyed:
  assumes "obeys real_script rs"
  shows "map grec_Name rs = [''context.materialize'', ''llm.call'', ''context.write_delta'', ''agent.spawn'',
           ''context.materialize'', ''context.write_delta'', ''context.materialize'', ''tool.exec'', ''context.write_delta'',
           ''ipc.publish'', ''ipc.poll'', ''context.write_delta'', ''tool.exec'', ''context.materialize'', ''tool.exec'',
           ''tool.exec'', ''agent.report'']
    \<and> map grec_Status rs = [StatusOK, StatusOK, StatusOK, grec_Status (rs ! 3), StatusOK, StatusOK, StatusOK, StatusError,
           StatusOK, StatusOK, StatusOK, StatusOK, StatusOK, StatusOK, StatusTimeout, StatusOK, StatusOK]"
  using assms by (auto simp: obeys_def real_script_def list_all2_Cons1 eval_nat_numeral)

lemma runSoftwareRealDemo_steps: "runSoftwareRealDemo h i req sv =
    bindE (run_steps h i (if req = [] then default_requirement else req) (''software-real-'' @ Itoa (unix_nano (ri_clks i 0 0 0 0 0))))
      (\<lambda>(tests, fault) sv1. case finish_real h i (if req = [] then default_requirement else req)
        (softwareRealTask (''software-real-'' @ Itoa (unix_nano (ri_clks i 0 0 0 0 0)))) tests fault sv sv1 of
        (out, sv2) \<Rightarrow> (Inr out, sv2)) sv"
  unfolding runSoftwareRealDemo_def run_steps_def bindE_assoc bindE_return Let_def prod.case by (rule refl)


end
