(* ===== verification/Ebpf.thy ===== *)
theory Ebpf
  imports GoNum GoPath
begin

unbundle bit_operations_syntax

text \<open>
  The eBPF observer (\<open>internal/observer/ebpf/observer.go\<close>, \<open>observer_linux.go\<close>): it loads a program that
  records every exiting process in a kernel map, attaches it to a tracepoint on every CPU, runs a worker
  and looks the worker up. The system calls are fields of \<open>bpf_env\<close>; \<open>'k\<close> is the state of the kernel.
\<close>

section \<open>Lines of a tracepoint\<close>

record ProcessEvent =
  oe_Event :: string
  oe_PID :: int
  oe_PPID :: int
  oe_Comm :: string

definition zero_ProcessEvent :: ProcessEvent where
  "zero_ProcessEvent = \<lparr>oe_Event = [], oe_PID = 0, oe_PPID = 0, oe_Comm = []\<rparr>"

definition tracepoint_field :: "string \<Rightarrow> ProcessEvent \<Rightarrow> ProcessEvent result" where
  "tracepoint_field field event = (case Cut field (CHR ''='') of (key, v, ok) \<Rightarrow>
     if \<not> ok then Inr event
     else if key = ''event'' then Inr (event\<lparr>oe_Event := v\<rparr>)
     else if key = ''pid'' then (case ParseInt v of Inl _ \<Rightarrow> Inl (Errorf ''invalid pid %q'' [v]) | Inr n \<Rightarrow> Inr (event\<lparr>oe_PID := n\<rparr>))
     else if key = ''ppid'' then (case ParseInt v of Inl _ \<Rightarrow> Inl (Errorf ''invalid ppid %q'' [v]) | Inr n \<Rightarrow> Inr (event\<lparr>oe_PPID := n\<rparr>))
     else if key = ''comm'' then Inr (event\<lparr>oe_Comm := v\<rparr>)
     else Inr event)"

fun tracepoint_fields :: "string list \<Rightarrow> ProcessEvent \<Rightarrow> ProcessEvent result" where
  "tracepoint_fields [] event = Inr event"
| "tracepoint_fields (field # fs) event = (case tracepoint_field field event of Inl e \<Rightarrow> Inl e
     | Inr event1 \<Rightarrow> tracepoint_fields fs event1)"

definition ParseTracepointEventLine :: "string \<Rightarrow> ProcessEvent result" where
  "ParseTracepointEventLine line = (case tracepoint_fields (Fields line) zero_ProcessEvent of Inl e \<Rightarrow> Inl e
     | Inr event \<Rightarrow> if oe_PID event = 0 then Inl (Errorf ''tracepoint event missing pid'' [])
         else Inr (if oe_Event event = [] then event\<lparr>oe_Event := ''unknown''\<rparr> else event))"

section \<open>The program\<close>

text \<open>An instruction of eBPF as the kernel reads it: \<open>Off\<close> and \<open>Imm\<close> are signed.\<close>

record BpfInsn =
  bi_Code :: "8 word"
  bi_DstSrc :: "8 word"
  bi_Off :: "16 word"
  bi_Imm :: "32 word"

definition insn :: "8 word \<Rightarrow> 8 word \<Rightarrow> int \<Rightarrow> int \<Rightarrow> int \<Rightarrow> BpfInsn" where
  "insn code dstSrc off unused imm = \<lparr>bi_Code = code, bi_DstSrc = dstSrc, bi_Off = of_int off, bi_Imm = of_int imm\<rparr>"

definition reg :: "int \<Rightarrow> int \<Rightarrow> 8 word" where
  "reg dst src = of_int (dst AND 15) OR push_bit 4 (of_int (src AND 15))"

definition exit_program :: "int \<Rightarrow> BpfInsn list" where
  "exit_program mapFD = [
     insn 0x85 0 0 0 14,
     insn 0xbf (reg 2 0) 0 0 0,
     insn 0x77 (reg 2 0) 0 0 32,
     insn 0x63 (reg 10 2) (- 4) 0 0,
     insn 0x7a (reg 10 0) (- 16) 0 1,
     insn 0x18 (reg 1 1) 0 0 mapFD,
     insn 0x00 0 0 0 0,
     insn 0xbf (reg 2 10) 0 0 0,
     insn 0x07 (reg 2 0) 0 0 (- 4),
     insn 0xbf (reg 3 10) 0 0 0,
     insn 0x07 (reg 3 0) 0 0 (- 16),
     insn 0xb7 (reg 4 0) 0 0 0,
     insn 0x85 0 0 0 2,
     insn 0xb7 (reg 0 0) 0 0 0,
     insn 0x95 0 0 0 0]"

section \<open>System calls\<close>

record BpfMapAttr =
  ma_KeySize :: nat
  ma_ValueSize :: nat
  ma_MaxEntries :: nat

definition pid_map_attr :: BpfMapAttr where
  "pid_map_attr = \<lparr>ma_KeySize = 4, ma_ValueSize = 8, ma_MaxEntries = 256\<rparr>"

text \<open>
  \<open>be_prog_load\<close> also returns what the verifier has written to the log buffer, \<open>be_worker\<close> starts the worker
  and waits for it, \<open>be_map_lookup\<close> is the value found, if any.
\<close>

record 'k bpf_env =
  be_stat :: "string \<Rightarrow> 'k \<Rightarrow> bool"
  be_read :: "string \<Rightarrow> 'k \<Rightarrow> string result"
  be_euid :: int
  be_map_create :: "BpfMapAttr \<Rightarrow> 'k \<Rightarrow> int result \<times> 'k"
  be_prog_load :: "BpfInsn list \<Rightarrow> 'k \<Rightarrow> (string \<times> int result) \<times> 'k"
  be_map_lookup :: "int \<Rightarrow> 32 word \<Rightarrow> 'k \<Rightarrow> u64 option"
  be_perf_open :: "int \<Rightarrow> int \<Rightarrow> 'k \<Rightarrow> int result \<times> 'k"
  be_ioctl :: "int \<Rightarrow> int \<Rightarrow> int \<Rightarrow> 'k \<Rightarrow> go_error option \<times> 'k"
  be_close :: "int \<Rightarrow> 'k \<Rightarrow> go_error option \<times> 'k"
  be_worker :: "'k \<Rightarrow> int result \<times> 'k"
  be_text :: "go_error \<Rightarrow> string"

definition perfEventIOCEnable :: int where
  "perfEventIOCEnable = 0x2400"

definition perfEventIOCSetBPF :: int where
  "perfEventIOCSetBPF = 0x40042408"

definition createPIDMap :: "'k bpf_env \<Rightarrow> 'k \<Rightarrow> int result \<times> 'k" where
  "createPIDMap env = be_map_create env pid_map_attr"

definition trim_nul :: "string \<Rightarrow> string" where
  "trim_nul s = rev (dropWhile (\<lambda>c. c = CHR 0x00) (rev s))"

definition loadTracepointProgram :: "'k bpf_env \<Rightarrow> int \<Rightarrow> 'k \<Rightarrow> (string \<times> int result) \<times> 'k" where
  "loadTracepointProgram env mapFD k = (case be_prog_load env (exit_program mapFD) k of ((logText, r), k1) \<Rightarrow>
     ((trim_nul logText, r), k1))"

fun closeAll :: "'k bpf_env \<Rightarrow> int list \<Rightarrow> 'k \<Rightarrow> 'k" where
  "closeAll env [] k = k"
| "closeAll env (fd # fds) k = closeAll env fds (snd (be_close env fd k))"

fun attach_loop :: "'k bpf_env \<Rightarrow> int \<Rightarrow> int \<Rightarrow> int list \<Rightarrow> int list \<Rightarrow> 'k \<Rightarrow> int list result \<times> 'k" where
  "attach_loop env tracepointID progFD [] fds k = (Inr fds, k)"
| "attach_loop env tracepointID progFD (cpu # cpus) fds k = (case be_perf_open env tracepointID cpu k of
       (Inl e, k1) \<Rightarrow> (Inl e, closeAll env fds k1)
     | (Inr fd, k1) \<Rightarrow> (case be_ioctl env fd perfEventIOCSetBPF progFD k1 of
         (Some e, k2) \<Rightarrow> (Inl e, closeAll env fds (snd (be_close env fd k2)))
       | (None, k2) \<Rightarrow> (case be_ioctl env fd perfEventIOCEnable 0 k2 of
           (Some e, k3) \<Rightarrow> (Inl e, closeAll env fds (snd (be_close env fd k3)))
         | (None, k3) \<Rightarrow> attach_loop env tracepointID progFD cpus (fds @ [fd]) k3)))"

text \<open>The CPUs as the kernel lists them, such as \<open>0-3,8\<close>; CPU 0 when there is nothing to read.\<close>

definition cpus_of_part :: "string \<Rightarrow> int list" where
  "cpus_of_part part = (case Cut part (CHR ''-'') of (start, stop, ok) \<Rightarrow>
     if ok then (case (ParseInt start, ParseInt stop) of
         (Inr left, Inr right) \<Rightarrow> if right < left then [] else [left..right]
       | _ \<Rightarrow> [])
     else (case ParseInt part of Inr cpu \<Rightarrow> [cpu] | Inl _ \<Rightarrow> []))"

definition onlineCPUs :: "'k bpf_env \<Rightarrow> 'k \<Rightarrow> int list" where
  "onlineCPUs env k = (case be_read env ''/sys/devices/system/cpu/online'' k of Inl _ \<Rightarrow> [0]
     | Inr raw \<Rightarrow> let cpus = concat (map cpus_of_part (split_on (CHR '','') (TrimSpace raw)))
         in if cpus = [] then [0] else cpus)"

definition attachTracepointAllCPUs :: "'k bpf_env \<Rightarrow> int \<Rightarrow> int \<Rightarrow> 'k \<Rightarrow> int list result \<times> 'k" where
  "attachTracepointAllCPUs env tracepointID progFD k = attach_loop env tracepointID progFD (onlineCPUs env k) [] k"

definition lookupPID :: "'k bpf_env \<Rightarrow> int \<Rightarrow> 32 word \<Rightarrow> 'k \<Rightarrow> bool" where
  "lookupPID env mapFD pid k = (case be_map_lookup env mapFD pid k of None \<Rightarrow> False | Some v \<Rightarrow> 0 < v)"

section \<open>Capabilities\<close>

definition hex_digit :: "char \<Rightarrow> nat option" where
  "hex_digit c = (let n = of_char c :: nat in
     if 48 \<le> n \<and> n \<le> 57 then Some (n - 48) else if 97 \<le> n \<and> n \<le> 102 then Some (n - 87)
     else if 65 \<le> n \<and> n \<le> 70 then Some (n - 55) else None)"

fun hex_digits :: "nat \<Rightarrow> string \<Rightarrow> nat option" where
  "hex_digits acc [] = Some acc"
| "hex_digits acc (c # cs) = (case hex_digit c of None \<Rightarrow> None | Some d \<Rightarrow> hex_digits (16 * acc + d) cs)"

definition ParseHex :: "string \<Rightarrow> u64 option" where     \<comment> \<open>\<open>strconv.ParseUint(s, 16, 64)\<close>\<close>
  "ParseHex s = (if s = [] then None else case hex_digits 0 s of None \<Rightarrow> None
     | Some n \<Rightarrow> if n < 2 ^ 64 then Some (of_nat n) else None)"

definition hasCap :: "u64 \<Rightarrow> nat \<Rightarrow> bool" where
  "hasCap v cap \<longleftrightarrow> v AND push_bit cap 1 \<noteq> 0"

fun cap_lines :: "string list \<Rightarrow> bool" where
  "cap_lines [] = False"
| "cap_lines (line # lines) = (if \<not> HasPrefix line ''CapEff:'' then cap_lines lines
     else case ParseHex (TrimSpace (TrimPrefix line ''CapEff:'')) of None \<Rightarrow> False
       | Some v \<Rightarrow> hasCap v 21 \<or> hasCap v 38 \<or> hasCap v 39)"

definition rootOrCapable :: "'k bpf_env \<Rightarrow> 'k \<Rightarrow> bool" where
  "rootOrCapable env k = (if be_euid env = 0 then True
     else case be_read env ''/proc/self/status'' k of Inl _ \<Rightarrow> False | Inr raw \<Rightarrow> cap_lines (split_on (CHR 10) raw))"

section \<open>The observation\<close>

definition tracepointID :: "'k bpf_env \<Rightarrow> string \<Rightarrow> string \<Rightarrow> string \<Rightarrow> 'k \<Rightarrow> int result" where
  "tracepointID env tfs category name k = (case be_read env (Join [tfs, ''events'', category, name, ''id'']) k of
     Inl e \<Rightarrow> Inl e | Inr raw \<Rightarrow> ParseInt (TrimSpace raw))"

definition findTraceFS :: "'k bpf_env \<Rightarrow> 'k \<Rightarrow> string option" where
  "findTraceFS env k = List.find (\<lambda>tfs. be_stat env (Join [tfs, ''events'', ''sched'', ''sched_process_exit'', ''id'']) k)
     [''/sys/kernel/tracing'', ''/sys/kernel/debug/tracing'']"

record ObserverResult =
  ob_Observer :: string
  ob_EvidenceMode :: string
  ob_Linux :: bool
  ob_RootOrCapable :: bool
  ob_ProgramLoaded :: bool
  ob_AttachedTracepoints :: "string list"
  ob_EventsCollected :: int
  ob_WorkerPIDObserved :: bool
  ob_WorkerPID :: int
  ob_CleanupSuccess :: bool
  ob_FallbackReason :: string
  ob_TraceFSAvailable :: bool
  ob_VerifierLog :: string
  ob_SupportedDescription :: string

definition observer_degraded :: "bool \<Rightarrow> bool \<Rightarrow> bool \<Rightarrow> string \<Rightarrow> ObserverResult" where
  "observer_degraded linux capable tracefs reason = \<lparr>ob_Observer = ''ebpf'', ob_EvidenceMode = ''degraded'', ob_Linux = linux,
     ob_RootOrCapable = capable, ob_ProgramLoaded = False, ob_AttachedTracepoints = [], ob_EventsCollected = 0,
     ob_WorkerPIDObserved = False, ob_WorkerPID = 0, ob_CleanupSuccess = True, ob_FallbackReason = reason,
     ob_TraceFSAvailable = tracefs, ob_VerifierLog = [], ob_SupportedDescription = []\<rparr>"

text \<open>
  The deferred functions run after the result is made: what they assign to \<open>cleanupOK\<close> is lost, and the
  result says \<open>True\<close>.
\<close>

definition observe_worker :: "'k bpf_env \<Rightarrow> int \<Rightarrow> string \<Rightarrow> 'k \<Rightarrow> ObserverResult \<times> 'k" where
  "observe_worker env mapFD verifierLog k = (case be_worker env k of
       (Inl e, k1) \<Rightarrow> ((observer_degraded True True True (''worker start failed: '' @ be_text env e))
         \<lparr>ob_ProgramLoaded := True, ob_AttachedTracepoints := [''sched_process_exit'']\<rparr>, k1)
     | (Inr workerPID, k1) \<Rightarrow> let observed = lookupPID env mapFD (of_int workerPID) k1 in
         (\<lparr>ob_Observer = ''ebpf'', ob_EvidenceMode = (if observed then ''real-ebpf'' else ''degraded''), ob_Linux = True,
           ob_RootOrCapable = True, ob_ProgramLoaded = True, ob_AttachedTracepoints = [''sched_process_exit''],
           ob_EventsCollected = (if observed then 1 else 0), ob_WorkerPIDObserved = observed, ob_WorkerPID = workerPID,
           ob_CleanupSuccess = True,
           ob_FallbackReason = (if observed then [] else ''worker pid was not observed by sched_process_exit eBPF program''),
           ob_TraceFSAvailable = True, ob_VerifierLog = verifierLog, ob_SupportedDescription = []\<rparr>, k1))"

definition observe_attached :: "'k bpf_env \<Rightarrow> string \<Rightarrow> int \<Rightarrow> int \<Rightarrow> string \<Rightarrow> 'k \<Rightarrow> ObserverResult \<times> 'k" where
  "observe_attached env traceRoot mapFD progFD verifierLog k = (case tracepointID env traceRoot ''sched'' ''sched_process_exit'' k of
       Inl e \<Rightarrow> ((observer_degraded True True True (''tracepoint unavailable: '' @ be_text env e))\<lparr>ob_ProgramLoaded := True\<rparr>, k)
     | Inr tpID \<Rightarrow> (case attachTracepointAllCPUs env tpID progFD k of
         (Inl e, k1) \<Rightarrow> ((observer_degraded True True True (''attach failed: '' @ be_text env e))\<lparr>ob_ProgramLoaded := True\<rparr>, k1)
       | (Inr perfFDs, k1) \<Rightarrow> (case observe_worker env mapFD verifierLog k1 of (res, k2) \<Rightarrow> (res, closeAll env perfFDs k2))))"

definition observe_loaded :: "'k bpf_env \<Rightarrow> string \<Rightarrow> int \<Rightarrow> 'k \<Rightarrow> ObserverResult \<times> 'k" where
  "observe_loaded env traceRoot mapFD k = (case loadTracepointProgram env mapFD k of
       ((verifierLog, Inl e), k1) \<Rightarrow>
         ((observer_degraded True True True (''verifier failed: '' @ be_text env e))\<lparr>ob_VerifierLog := verifierLog\<rparr>, k1)
     | ((verifierLog, Inr progFD), k1) \<Rightarrow> (case observe_attached env traceRoot mapFD progFD verifierLog k1 of
         (res, k2) \<Rightarrow> (res, snd (be_close env progFD k2))))"

definition platformSmoke :: "'k bpf_env \<Rightarrow> 'k \<Rightarrow> ObserverResult \<times> 'k" where
  "platformSmoke env k = (let capable = rootOrCapable env k in
     case findTraceFS env k of
       None \<Rightarrow> (observer_degraded True capable False ''tracepoint unavailable: tracefs/debugfs sched_process_exit id not found'', k)
     | Some traceRoot \<Rightarrow>
         if \<not> capable then (observer_degraded True False True ''no permission: requires root or CAP_BPF/CAP_PERFMON/CAP_SYS_ADMIN'', k)
         else (case createPIDMap env k of
             (Inl e, k1) \<Rightarrow> (observer_degraded True True True (''map create failed: '' @ be_text env e), k1)
           | (Inr mapFD, k1) \<Rightarrow> (case observe_loaded env traceRoot mapFD k1 of (res, k2) \<Rightarrow> (res, snd (be_close env mapFD k2)))))"

text \<open>On other systems.\<close>

definition platformSmoke_other :: ObserverResult where
  "platformSmoke_other = observer_degraded False False False ''not linux: real eBPF observer requires Linux tracepoints''"

text \<open>\<open>RunSmoke\<close> writes the result; \<open>write\<close> is the error of that.\<close>

definition observer_RunSmoke :: "('k \<Rightarrow> ObserverResult \<times> 'k) \<Rightarrow> (ObserverResult \<Rightarrow> go_error option) \<Rightarrow> 'k
    \<Rightarrow> (ObserverResult \<times> go_error option) \<times> 'k" where
  "observer_RunSmoke smoke write k = (case smoke k of (res0, k1) \<Rightarrow> let
       res = res0\<lparr>ob_Observer := ''ebpf'', ob_SupportedDescription := ''optional real eBPF observer for process-level runtime events''\<rparr>
     in ((res, write res), k1))"

section \<open>How the kernel runs the program\<close>

text \<open>
  The instructions that the program uses, after the documentation of the instruction set: eleven
  registers, a frame of 512 bytes below register 10, and the helpers 14 (\<open>get_current_pid_tgid\<close>) and 2
  (\<open>map_update_elem\<close>). As for the verifier, a value is a number, an address in the frame or a map; reading a
  register or a byte that has not been written ends the run without a result. Words are little-endian.
\<close>

datatype bpf_val = Scalar u64 | FrameAddr int | MapRef "32 word" | Context

record bpf_map =
  bm_attr :: BpfMapAttr
  bm_entries :: "8 word list \<rightharpoonup> 8 word list"

record bpf_state =
  bs_regs :: "nat \<rightharpoonup> bpf_val"
  bs_frame :: "int \<rightharpoonup> 8 word"
  bs_maps :: "32 word \<rightharpoonup> bpf_map"

definition le_bytes :: "nat \<Rightarrow> u64 \<Rightarrow> 8 word list" where
  "le_bytes n w = map (\<lambda>i. ucast (drop_bit (8 * i) w)) [0..<n]"

definition frame_store :: "int \<Rightarrow> 8 word list \<Rightarrow> (int \<rightharpoonup> 8 word) \<Rightarrow> int \<rightharpoonup> 8 word" where
  "frame_store a bs f = (\<lambda>x. if a \<le> x \<and> x < a + int (length bs) then Some (bs ! nat (x - a)) else f x)"

definition frame_bytes :: "int \<Rightarrow> nat \<Rightarrow> (int \<rightharpoonup> 8 word) \<Rightarrow> 8 word list option" where
  "frame_bytes a n f = those (map (\<lambda>i. f (a + int i)) [0..<n])"

definition in_frame :: "int \<Rightarrow> nat \<Rightarrow> bool" where
  "in_frame a n \<longleftrightarrow> - 512 \<le> a \<and> a + int n \<le> 0"

definition frame_write :: "int \<Rightarrow> 8 word list \<Rightarrow> bpf_state \<Rightarrow> bpf_state option" where
  "frame_write a bs st = (if in_frame a (length bs) then Some (st\<lparr>bs_frame := frame_store a bs (bs_frame st)\<rparr>) else None)"

definition frame_read :: "int \<Rightarrow> nat \<Rightarrow> bpf_state \<Rightarrow> 8 word list option" where
  "frame_read a n st = (if in_frame a n then frame_bytes a n (bs_frame st) else None)"

definition set_reg :: "nat \<Rightarrow> bpf_val \<Rightarrow> bpf_state \<Rightarrow> bpf_state" where
  "set_reg r v st = st\<lparr>bs_regs := (bs_regs st)(r \<mapsto> v)\<rparr>"

text \<open>A helper leaves its result in register 0 and clobbers the argument registers.\<close>

definition helper_result :: "u64 \<Rightarrow> bpf_state \<Rightarrow> bpf_state" where
  "helper_result v st = st\<lparr>bs_regs := (\<lambda>r. if r = 0 then Some (Scalar v) else if r \<le> 5 then None else bs_regs st r)\<rparr>"

definition map_update :: "8 word list \<Rightarrow> 8 word list \<Rightarrow> bpf_map \<Rightarrow> u64 \<times> bpf_map" where
  "map_update key v m = (if key \<in> dom (bm_entries m) \<or> card (dom (bm_entries m)) < ma_MaxEntries (bm_attr m)
     then (0, m\<lparr>bm_entries := (bm_entries m)(key \<mapsto> v)\<rparr>) else (- 7, m))"

definition bpf_helper :: "u64 \<Rightarrow> int \<Rightarrow> bpf_state \<Rightarrow> bpf_state option" where
  "bpf_helper pid_tgid n st = (if n = 14 then Some (helper_result pid_tgid st)
     else if n = 2 then (case (bs_regs st 1, bs_regs st 2, bs_regs st 3, bs_regs st 4) of
         (Some (MapRef fd), Some (FrameAddr ka), Some (FrameAddr va), Some (Scalar flags)) \<Rightarrow>
           (case bs_maps st fd of None \<Rightarrow> None
            | Some m \<Rightarrow> (case (frame_read ka (ma_KeySize (bm_attr m)) st, frame_read va (ma_ValueSize (bm_attr m)) st) of
                (Some key, Some v) \<Rightarrow> (case map_update key v m of (r, m') \<Rightarrow>
                   Some (helper_result r (st\<lparr>bs_maps := (bs_maps st)(fd \<mapsto> m')\<rparr>)))
              | _ \<Rightarrow> None))
       | _ \<Rightarrow> None)
     else None)"

definition bi_dst :: "BpfInsn \<Rightarrow> nat" where
  "bi_dst i = unat (bi_DstSrc i AND 15)"

definition bi_src :: "BpfInsn \<Rightarrow> nat" where
  "bi_src i = unat (drop_bit 4 (bi_DstSrc i))"

definition bpf_step :: "u64 \<Rightarrow> BpfInsn \<Rightarrow> bpf_state \<Rightarrow> bpf_state option" where
  "bpf_step pid_tgid i st = (
     if bi_Code i = 0x85 then bpf_helper pid_tgid (sint (bi_Imm i)) st
     else if bi_Code i = 0xbf then map_option (\<lambda>v. set_reg (bi_dst i) v st) (bs_regs st (bi_src i))
     else if bi_Code i = 0xb7 then Some (set_reg (bi_dst i) (Scalar (scast (bi_Imm i))) st)
     else if bi_Code i = 0x07 then (case bs_regs st (bi_dst i) of
         Some (Scalar w) \<Rightarrow> Some (set_reg (bi_dst i) (Scalar (w + scast (bi_Imm i))) st)
       | Some (FrameAddr a) \<Rightarrow> Some (set_reg (bi_dst i) (FrameAddr (a + sint (bi_Imm i))) st)
       | _ \<Rightarrow> None)
     else if bi_Code i = 0x77 then (case bs_regs st (bi_dst i) of
         Some (Scalar w) \<Rightarrow> Some (set_reg (bi_dst i) (Scalar (drop_bit (unat (bi_Imm i)) w)) st) | _ \<Rightarrow> None)
     else if bi_Code i = 0x63 then (case (bs_regs st (bi_dst i), bs_regs st (bi_src i)) of
         (Some (FrameAddr a), Some (Scalar w)) \<Rightarrow> frame_write (a + sint (bi_Off i)) (le_bytes 4 w) st | _ \<Rightarrow> None)
     else if bi_Code i = 0x7a then (case bs_regs st (bi_dst i) of
         Some (FrameAddr a) \<Rightarrow> frame_write (a + sint (bi_Off i)) (le_bytes 8 (scast (bi_Imm i))) st | _ \<Rightarrow> None)
     else None)"

text \<open>The program ends at the first \<open>exit\<close> (0x95); the load of a map (0x18, source 1) takes two slots.\<close>

fun bpf_exec :: "u64 \<Rightarrow> BpfInsn list \<Rightarrow> bpf_state \<Rightarrow> (u64 \<times> bpf_state) option" where
  "bpf_exec pid_tgid [] st = None"
| "bpf_exec pid_tgid [i] st = (if bi_Code i = 0x95
     then (case bs_regs st 0 of Some (Scalar r) \<Rightarrow> Some (r, st) | _ \<Rightarrow> None) else None)"
| "bpf_exec pid_tgid (i # j # is) st = (if bi_Code i = 0x95
     then (case bs_regs st 0 of Some (Scalar r) \<Rightarrow> Some (r, st) | _ \<Rightarrow> None)
     else if bi_Code i = 0x18 then (if bi_src i = 1 \<and> bi_Code j = 0
       then bpf_exec pid_tgid is (set_reg (bi_dst i) (MapRef (bi_Imm i)) st) else None)
     else (case bpf_step pid_tgid i st of None \<Rightarrow> None | Some st1 \<Rightarrow> bpf_exec pid_tgid (j # is) st1))"

definition bpf_entry :: "(32 word \<rightharpoonup> bpf_map) \<Rightarrow> bpf_state" where
  "bpf_entry maps = \<lparr>bs_regs = [1 \<mapsto> Context, 10 \<mapsto> FrameAddr 0], bs_frame = Map.empty, bs_maps = maps\<rparr>"

definition pid_key :: "32 word \<Rightarrow> 8 word list" where
  "pid_key pid = le_bytes 4 (ucast pid)"

end
