(* ===== verification/EbpfCorrect.thy ===== *)
theory EbpfCorrect
  imports Ebpf
begin

text \<open>
  Correctness of the eBPF observer: what the loaded program does to the map when a process exits, that a run
  of the observer leaves no file descriptor open, and what its verdict means.
\<close>

unbundle bit_operations_syntax

section \<open>The program\<close>

lemma length_le_bytes [simp]: "length (le_bytes n w) = n"
  by (simp add: le_bytes_def)

lemma those_Some: "(\<And>x. x \<in> set xs \<Longrightarrow> f x = Some (h x)) \<Longrightarrow> those (map f xs) = Some (map h xs)"
  by (induction xs) simp_all

lemma frame_bytes_same: "n = length bs \<Longrightarrow> frame_bytes a n (frame_store a bs f) = Some bs"
  unfolding frame_bytes_def by (subst those_Some [where h = "(!) bs"]) (simp_all add: frame_store_def map_nth)

lemma frame_bytes_other: "a + int n \<le> b \<or> b + int (length bs) \<le> a \<Longrightarrow> frame_bytes a n (frame_store b bs f) = frame_bytes a n f"
  unfolding frame_bytes_def by (intro arg_cong [where f = those] map_cong) (auto simp: frame_store_def)

lemma exit_program_runs:
  assumes "maps (of_int mapFD) = Some m" "bm_attr m = pid_map_attr"
    and "map_update (le_bytes 4 (drop_bit 32 v)) (le_bytes 8 1) m = (r, m')"
  shows "\<exists>st. bpf_exec v (exit_program mapFD) (bpf_entry maps) = Some (0, st) \<and> bs_maps st = maps(of_int mapFD \<mapsto> m')"
  using assms
  by (simp add: exit_program_def insn_def reg_def bpf_step_def bi_dst_def bi_src_def bpf_helper_def helper_result_def
    bpf_entry_def set_reg_def frame_write_def frame_read_def pid_map_attr_def in_frame_def frame_bytes_same frame_bytes_other)


text \<open>
  C14. Run on the exit of a process, the program ends without error and without reading anything that has
  not been written, and enters the process identifier (the upper half of the 64-bit identifier of the
  task) with the value 1 into its map - unless the map is full and has not got it; it changes nothing else.
\<close>

theorem exit_program_records:
  assumes "maps (of_int mapFD) = Some m" "bm_attr m = pid_map_attr" and pid: "pid = ucast (drop_bit 32 pid_tgid)"
  shows "\<exists>st. bpf_exec pid_tgid (exit_program mapFD) (bpf_entry maps) = Some (0, st)
    \<and> bs_maps st = maps(of_int mapFD \<mapsto> if pid_key pid \<in> dom (bm_entries m) \<or> card (dom (bm_entries m)) < 256
        then m\<lparr>bm_entries := (bm_entries m)(pid_key pid \<mapsto> le_bytes 8 1)\<rparr> else m)"
proof -
  have half: "ucast (ucast (drop_bit 32 pid_tgid) :: 32 word) = (drop_bit 32 pid_tgid :: u64)"
    by (rule bit_word_eqI) (auto simp: bit_simps dest: bit_imp_le_length)
  have key: "pid_key pid = le_bytes 4 (drop_bit 32 pid_tgid)" by (simp add: pid_key_def pid half)
  obtain r m' where m': "map_update (le_bytes 4 (drop_bit 32 pid_tgid)) (le_bytes 8 1) m = (r, m')" by (rule prod.exhaust)
  then have "m' = (if pid_key pid \<in> dom (bm_entries m) \<or> card (dom (bm_entries m)) < 256
        then m\<lparr>bm_entries := (bm_entries m)(pid_key pid \<mapsto> le_bytes 8 1)\<rparr> else m)"
    by (auto simp: map_update_def key assms(2) pid_map_attr_def split: if_splits)
  with exit_program_runs [of maps mapFD m pid_tgid r m', OF assms(1,2) m'] show ?thesis by simp
qed

lemma exit_program_records_witness:
  "\<exists>st. bpf_exec 0x0000002a0000002b (exit_program 5) (bpf_entry [5 \<mapsto> \<lparr>bm_attr = pid_map_attr, bm_entries = Map.empty\<rparr>]) = Some (0, st)
    \<and> map_option (\<lambda>m. bm_entries m (pid_key 42)) (bs_maps st 5) = Some (Some (le_bytes 8 1))"
proof -
  have pid: "(42 :: 32 word) = ucast (drop_bit 32 (0x0000002a0000002b :: u64))" by simp
  show ?thesis
    using exit_program_records [of "[5 \<mapsto> \<lparr>bm_attr = pid_map_attr, bm_entries = Map.empty\<rparr>]" 5
        "\<lparr>bm_attr = pid_map_attr, bm_entries = Map.empty\<rparr>", OF _ _ pid]
    by (auto split: if_splits)
qed

section \<open>File descriptors\<close>

text \<open>
  \<open>opens\<close> are the descriptors of the process: a successful call returns one that was not in use, \<open>close\<close>
  always releases its argument (as Linux does, whatever it returns), and nothing else changes them.
\<close>

definition opened :: "('k \<Rightarrow> int set) \<Rightarrow> int result \<Rightarrow> 'k \<Rightarrow> 'k \<Rightarrow> bool" where
  "opened opens r k k' \<longleftrightarrow> (case r of Inl _ \<Rightarrow> opens k' = opens k | Inr fd \<Rightarrow> fd \<notin> opens k \<and> opens k' = insert fd (opens k))"

definition tracks_fds :: "'k bpf_env \<Rightarrow> ('k \<Rightarrow> int set) \<Rightarrow> bool" where
  "tracks_fds env opens \<longleftrightarrow> (\<forall>attr k. opened opens (fst (be_map_create env attr k)) k (snd (be_map_create env attr k)))
     \<and> (\<forall>prog k. opened opens (snd (fst (be_prog_load env prog k))) k (snd (be_prog_load env prog k)))
     \<and> (\<forall>tp cpu k. opened opens (fst (be_perf_open env tp cpu k)) k (snd (be_perf_open env tp cpu k)))
     \<and> (\<forall>fd request arg k. opens (snd (be_ioctl env fd request arg k)) = opens k)
     \<and> (\<forall>k. opens (snd (be_worker env k)) = opens k)
     \<and> (\<forall>fd k. opens (snd (be_close env fd k)) = opens k - {fd})"

lemma tracks_fdsD:
  assumes "tracks_fds env opens"
  shows "be_map_create env attr k = (r, k') \<Longrightarrow> opened opens r k k'"
    "be_prog_load env prog k = ((l, r), k') \<Longrightarrow> opened opens r k k'"
    "be_perf_open env tp cpu k = (r, k') \<Longrightarrow> opened opens r k k'"
    "be_ioctl env fd request arg k = (e, k') \<Longrightarrow> opens k' = opens k"
    "be_worker env k = (w, k') \<Longrightarrow> opens k' = opens k"
    "opens (snd (be_close env fd k)) = opens k - {fd}"
  using assms unfolding tracks_fds_def by (metis fst_conv snd_conv)+

lemma closeAll_opens: "tracks_fds env opens \<Longrightarrow> opens (closeAll env fds k) = opens k - set fds"
  by (induction fds arbitrary: k) (auto simp: tracks_fdsD(6))

lemma attach_loop_opens:
  assumes "tracks_fds env opens" "attach_loop env tp prog cpus fds k = (r, k')" "set fds \<subseteq> opens k"
  shows "case r of Inl _ \<Rightarrow> opens k' = opens k - set fds
    | Inr fds' \<Rightarrow> set fds \<subseteq> set fds' \<and> opens k' - set fds' = opens k - set fds"
  using assms(2,3)
proof (induction cpus arbitrary: fds k)
  case (Cons cpu cpus)
  note close = tracks_fdsD(6) [OF assms(1)] closeAll_opens [OF assms(1)]
  obtain r1 k1 where 1: "be_perf_open env tp cpu k = (r1, k1)" by (rule prod.exhaust)
  note o1 = tracks_fdsD(3) [OF assms(1) 1]
  show ?case
  proof (cases r1)
    case (Inl e)
    with Cons.prems 1 o1 show ?thesis by (auto simp: opened_def close)
  next
    case (Inr fd)
    with o1 have fd: "fd \<notin> opens k" "opens k1 = insert fd (opens k)" by (simp_all add: opened_def)
    obtain e2 k2 where 2: "be_ioctl env fd perfEventIOCSetBPF prog k1 = (e2, k2)" by (rule prod.exhaust)
    obtain e3 k3 where 3: "be_ioctl env fd perfEventIOCEnable 0 k2 = (e3, k3)" by (rule prod.exhaust)
    have same: "opens k2 = opens k1" "opens k3 = opens k1"
      using tracks_fdsD(4) [OF assms(1) 2] tracks_fdsD(4) [OF assms(1) 3] by simp_all
    show ?thesis
    proof (cases "e2 = None \<and> e3 = None")
      case True
      with Cons.prems(1) 1 Inr 2 3 have "attach_loop env tp prog cpus (fds @ [fd]) k3 = (r, k')" by simp
      moreover have sub: "set (fds @ [fd]) \<subseteq> opens k3" using Cons.prems(2) by (auto simp: same fd)
      ultimately show ?thesis using Cons.IH [of "fds @ [fd]" k3] fd by (auto simp: same split: sum.splits)
    next
      case False
      with Cons.prems(1) 1 Inr 2 3 obtain e k4 where "r = Inl e" "k' = closeAll env fds (snd (be_close env fd k4))" "opens k4 = opens k1"
        by (auto simp: same split: option.splits)
      with fd show ?thesis by (auto simp: close)
    qed
  qed
qed (auto split: sum.splits)

lemma observe_worker_opens: "tracks_fds env opens \<Longrightarrow> opens (snd (observe_worker env mapFD lg k)) = opens k"
  using tracks_fdsD(5) [of env opens k] by (auto simp: observe_worker_def Let_def split: prod.splits sum.splits)

lemma observe_attached_opens:
  assumes "tracks_fds env opens"
  shows "opens (snd (observe_attached env tfs mapFD progFD lg k)) = opens k"
proof (cases "tracepointID env tfs ''sched'' ''sched_process_exit'' k")
  case (Inr tp)
  obtain r k1 where r: "attach_loop env tp progFD (onlineCPUs env k) [] k = (r, k1)" by (rule prod.exhaust)
  note o = attach_loop_opens [OF assms r, simplified]
  show ?thesis
  proof (cases r)
    case (Inr fds)
    obtain res k2 where w: "observe_worker env mapFD lg k1 = (res, k2)" by (rule prod.exhaust)
    have "opens k2 = opens k1" using observe_worker_opens [OF assms, of mapFD lg k1] by (simp add: w)
    with o Inr \<open>tracepointID _ _ _ _ _ = _\<close> r w show ?thesis
      by (simp add: observe_attached_def attachTracepointAllCPUs_def closeAll_opens [OF assms])
  qed (use o Inr r in \<open>simp add: observe_attached_def attachTracepointAllCPUs_def\<close>)
qed (simp add: observe_attached_def)

lemma observe_loaded_opens:
  assumes "tracks_fds env opens"
  shows "opens (snd (observe_loaded env tfs mapFD k)) = opens k"
proof -
  obtain l r k1 where r: "be_prog_load env (exit_program mapFD) k = ((l, r), k1)" by (metis prod.exhaust)
  note o = tracks_fdsD(2) [OF assms r]
  have sub: "observe_attached env tfs mapFD fd lg k1 = (res, k2) \<Longrightarrow> opens k2 = opens k1" for fd lg res k2
    using observe_attached_opens [OF assms, of tfs mapFD fd lg k1] by simp
  show ?thesis
    using o tracks_fdsD(6) [OF assms]
    by (cases r) (auto simp: observe_loaded_def loadTracepointProgram_def r opened_def dest!: sub split: prod.splits)
qed

text \<open>C13. A run of the observer closes every file descriptor it has opened, on every path.\<close>

theorem observer_closes_all:
  assumes "tracks_fds env opens"
  shows "opens (snd (platformSmoke env k)) = opens k"
proof -
  obtain r k1 where r: "be_map_create env pid_map_attr k = (r, k1)" by (rule prod.exhaust)
  note o = tracks_fdsD(1) [OF assms r]
  have sub: "observe_loaded env tfs fd k1 = (res, k2) \<Longrightarrow> opens k2 = opens k1" for tfs fd res k2
    using observe_loaded_opens [OF assms, of tfs fd k1] by simp
  show ?thesis
    using o tracks_fdsD(6) [OF assms]
    by (cases r) (auto simp: platformSmoke_def Let_def createPIDMap_def r opened_def dest!: sub split: prod.splits option.splits)
qed

text \<open>A kernel whose state is the list of open descriptors; each call that opens one takes the next free number.\<close>

definition next_fd :: "int list \<Rightarrow> int result \<times> int list" where
  "next_fd fds = (let fd = foldr max fds 2 + 1 in (Inr fd, fd # fds))"

definition small_kernel :: "int list bpf_env" where
  "small_kernel = \<lparr>be_stat = (\<lambda>p k. True), be_read = (\<lambda>p k. Inr ''7''), be_euid = 0, be_map_create = (\<lambda>a. next_fd),
     be_prog_load = (\<lambda>p k. case next_fd k of (r, k') \<Rightarrow> (([], r), k')), be_map_lookup = (\<lambda>fd pid k. if pid = 41 then Some 1 else None),
     be_perf_open = (\<lambda>tp cpu. next_fd), be_ioctl = (\<lambda>fd r a k. (None, k)),
     be_close = (\<lambda>fd k. (None, filter (\<lambda>x. x \<noteq> fd) k)), be_worker = (\<lambda>k. (Inr 41, k)), be_text = (\<lambda>e. ''error'')\<rparr>"

lemma foldr_max: "x \<in> set xs \<Longrightarrow> x < foldr max xs 2 + (1 :: int)"
  by (induction xs) auto

lemma next_fd_opened: "next_fd k = (r, k') \<Longrightarrow> opened set r k k'"
  using foldr_max [of "foldr max k 2 + 1" k] by (auto simp: next_fd_def opened_def Let_def)

lemma small_kernel_tracks: "tracks_fds small_kernel set"
  unfolding tracks_fds_def
  by (auto simp: small_kernel_def split: prod.split dest: next_fd_opened) (use next_fd_opened in \<open>metis prod.collapse\<close>)+

lemma observer_closes_all_witness:
  "set (snd (platformSmoke small_kernel [])) = {}
    \<and> ob_EvidenceMode (fst (platformSmoke small_kernel [])) = ''real-ebpf''"
proof
  show "set (snd (platformSmoke small_kernel [])) = {}"
    using observer_closes_all [OF small_kernel_tracks, of "[]"] by simp
  show "ob_EvidenceMode (fst (platformSmoke small_kernel [])) = ''real-ebpf''"
    by code_simp
qed

section \<open>The verdict\<close>

text \<open>
  What the parts of a run can answer: real evidence with an observed worker, or a reason.
\<close>

definition verdict_ok :: "ObserverResult \<Rightarrow> bool" where
  "verdict_ok res \<longleftrightarrow> (if ob_WorkerPIDObserved res
     then ob_EvidenceMode res = ''real-ebpf'' \<and> ob_FallbackReason res = [] \<and> ob_EventsCollected res = 1 \<and> ob_ProgramLoaded res
       \<and> ob_AttachedTracepoints res = [''sched_process_exit'']
     else ob_EvidenceMode res = ''degraded'' \<and> ob_FallbackReason res \<noteq> [] \<and> ob_EventsCollected res = 0) \<and> ob_CleanupSuccess res"

lemma verdict_degraded: "reason \<noteq> [] \<Longrightarrow> verdict_ok (observer_degraded l c t reason)"
  by (simp add: verdict_ok_def observer_degraded_def)

lemma verdict_worker: "verdict_ok (fst (observe_worker env mapFD lg k))"
  by (auto simp: observe_worker_def Let_def verdict_ok_def observer_degraded_def split: prod.splits sum.splits)

lemma verdict_attached: "verdict_ok (fst (observe_attached env tfs mapFD progFD lg k))"
proof -
  have w: "observe_worker env mapFD lg k1 = (res, k2) \<Longrightarrow> verdict_ok res" for k1 res k2
    using verdict_worker [of env mapFD lg k1] by simp
  show ?thesis
    by (auto simp: observe_attached_def dest: w split: prod.splits sum.splits)
      (simp_all add: verdict_ok_def observer_degraded_def)
qed

text \<open>
  The observer claims real evidence exactly when the worker was found in the map of the loaded and attached
  program; otherwise the result is degraded and has a reason. It claims that cleaning up succeeded,
  whatever the closing calls return.
\<close>

lemma observer_verdict: "verdict_ok (fst (platformSmoke env k))"
proof -
  have a: "observe_attached env tfs mapFD progFD lg k1 = (res, k2) \<Longrightarrow> verdict_ok res" for tfs mapFD progFD lg k1 res k2
    using verdict_attached [of env tfs mapFD progFD lg k1] by simp
  have "verdict_ok (fst (observe_loaded env tfs mapFD k1))" for tfs mapFD k1
    by (auto simp: observe_loaded_def dest: a split: prod.splits sum.splits) (simp_all add: verdict_ok_def observer_degraded_def)
  then have l: "observe_loaded env tfs mapFD k1 = (res, k2) \<Longrightarrow> verdict_ok res" for tfs mapFD k1 res k2
    by (metis fst_conv)
  show ?thesis
    by (auto simp: platformSmoke_def Let_def verdict_degraded dest: l split: prod.splits sum.splits option.splits)
qed

section \<open>Lines\<close>

text \<open>A printed line is parsed back.\<close>

definition tracepoint_line :: "ProcessEvent \<Rightarrow> string" where
  "tracepoint_line e = ''event='' @ oe_Event e @ '' pid='' @ Itoa (oe_PID e) @ '' ppid='' @ Itoa (oe_PPID e) @ '' comm='' @ oe_Comm e"

lemma ParseTracepointEventLine_line:
  assumes "word_like (oe_Event e)" "word_like (oe_Comm e)" "int_in_range (oe_PID e)" "int_in_range (oe_PPID e)" "oe_PID e \<noteq> 0"
  shows "ParseTracepointEventLine (tracepoint_line e) = Inr e"
proof -
  let ?ws = "[''event='' @ oe_Event e, ''pid='' @ Itoa (oe_PID e), ''ppid='' @ Itoa (oe_PPID e), ''comm='' @ oe_Comm e]"
  have line: "tracepoint_line e = join_on (CHR '' '') ?ws" by (simp add: tracepoint_line_def)
  have "\<forall>w \<in> set ?ws. word_like w"
    using assms(1,2) word_like_Itoa [of "oe_PID e"] word_like_Itoa [of "oe_PPID e"] by (auto simp: word_like_def is_space_def)
  then have fields: "Fields (tracepoint_line e) = ?ws" unfolding line by (rule Fields_join)
  have cut: "Cut (''event='' @ s) (CHR ''='') = (''event'', s, True)" "Cut (''pid='' @ s) (CHR ''='') = (''pid'', s, True)"
    "Cut (''ppid='' @ s) (CHR ''='') = (''ppid'', s, True)" "Cut (''comm='' @ s) (CHR ''='') = (''comm'', s, True)" for s
    by simp_all
  show ?thesis
    unfolding ParseTracepointEventLine_def fields
    using assms by (simp add: tracepoint_field_def cut ParseInt_Itoa zero_ProcessEvent_def word_like_def del: append.append_Cons)
qed

end
