(* ===== verification/Shm.thy ===== *)
theory Shm
  imports Gateway
begin

text \<open>
  The shared-memory transfer (\<open>internal/ipc/shm/shm.go\<close>, \<open>shm_linux.go\<close>, \<open>shm_other.go\<close>): a payload is written to an
  anonymous memory file, whose descriptor is passed over a socket to every worker, which maps it and
  compares. The system calls are fields of \<open>shm_env\<close>, with the state \<open>'k\<close> of the kernel; a mapped region is a
  number.
\<close>

record ('k, 'm) shm_env =
  se_memfd :: "string \<Rightarrow> 'k \<Rightarrow> int result \<times> 'k"
  se_ftruncate :: "int \<Rightarrow> int \<Rightarrow> 'k \<Rightarrow> go_error option \<times> 'k"
  se_mmap :: "int \<Rightarrow> int \<Rightarrow> bool \<Rightarrow> 'k \<Rightarrow> nat result \<times> 'k"     \<comment> \<open>descriptor, length, writable\<close>
  se_copy :: "nat \<Rightarrow> string \<Rightarrow> 'k \<Rightarrow> 'k"                          \<comment> \<open>\<open>copy(mapped, payload)\<close>\<close>
  se_bytes :: "nat \<Rightarrow> 'k \<Rightarrow> string"
  se_munmap :: "nat \<Rightarrow> 'k \<Rightarrow> go_error option \<times> 'k"
  se_close :: "int \<Rightarrow> 'k \<Rightarrow> go_error option \<times> 'k"
  se_socketpair :: "'k \<Rightarrow> (int \<times> int) result \<times> 'k"
  se_sendmsg :: "int \<Rightarrow> int \<Rightarrow> 'k \<Rightarrow> go_error option \<times> 'k"         \<comment> \<open>socket, descriptor passed\<close>
  se_recvmsg :: "int \<Rightarrow> 'k \<Rightarrow> string result \<times> 'k"               \<comment> \<open>the control data\<close>
  se_messages :: "string \<Rightarrow> 'm list result"                     \<comment> \<open>\<open>ParseSocketControlMessage\<close>\<close>
  se_rights :: "'m \<Rightarrow> int list result"                         \<comment> \<open>\<open>ParseUnixRights\<close>\<close>

section \<open>A worker\<close>

text \<open>Passing the descriptor: what the worker's end of the socket receives.\<close>

definition pass_fd :: "('k, 'm) shm_env \<Rightarrow> int \<Rightarrow> int \<Rightarrow> int \<Rightarrow> 'k \<Rightarrow> int result \<times> 'k" where
  "pass_fd env a b fd k = (case se_sendmsg env a fd k of
       (Some e, k1) \<Rightarrow> (Inl (Wrapf ''sendmsg fd failed: %w'' [] e), k1)
     | (None, k1) \<Rightarrow> (case se_recvmsg env b k1 of
         (Inl e, k2) \<Rightarrow> (Inl (Wrapf ''recvmsg fd failed: %w'' [] e), k2)
       | (Inr oob, k2) \<Rightarrow> (case se_messages env oob of
           Inl e \<Rightarrow> (Inl (Wrapf ''parse control message failed: %w'' [] e), k2)
         | Inr [] \<Rightarrow> (Inl (Errorf ''no fd received'' []), k2)
         | Inr (m # ms) \<Rightarrow> (case se_rights env m of
             Inl e \<Rightarrow> (Inl (Wrapf ''parse unix rights failed: %w'' [] e), k2)
           | Inr [] \<Rightarrow> (Inl (Errorf ''empty unix rights'' []), k2)
           | Inr (workerFD # fds) \<Rightarrow> (Inr workerFD, k2)))))"

text \<open>The deferred calls run in reverse order: the region, the descriptor, and both ends of the socket.\<close>

definition worker_compare :: "('k, 'm) shm_env \<Rightarrow> int \<Rightarrow> string \<Rightarrow> 'k \<Rightarrow> bool result \<times> 'k" where
  "worker_compare env workerFD want k = (case se_mmap env workerFD (int (length want)) False k of
       (Inl e, k1) \<Rightarrow> (Inl (Wrapf ''worker mmap failed: %w'' [] e), k1)
     | (Inr mapped, k1) \<Rightarrow> (Inr (se_bytes env mapped k1 = want), snd (se_munmap env mapped k1)))"

definition workerReadViaFDPassing :: "('k, 'm) shm_env \<Rightarrow> int \<Rightarrow> string \<Rightarrow> 'k \<Rightarrow> bool result \<times> 'k" where
  "workerReadViaFDPassing env fd want k = (case se_socketpair env k of
       (Inl e, k1) \<Rightarrow> (Inl (Wrapf ''socketpair failed: %w'' [] e), k1)
     | (Inr (a, b), k1) \<Rightarrow>
         (case (case pass_fd env a b fd k1 of
             (Inl e, k2) \<Rightarrow> (Inl e, k2)
           | (Inr workerFD, k2) \<Rightarrow> (case worker_compare env workerFD want k2 of (r, k3) \<Rightarrow> (r, snd (se_close env workerFD k3)))) of
            (r, k4) \<Rightarrow> (r, snd (se_close env a (snd (se_close env b k4))))))"

section \<open>The transfer\<close>

text \<open>
  The loop over \<open>n\<close> workers: it ends with an error, at the first worker that reads something else
  (\<open>False\<close>), or when all have read the payload.
\<close>

fun worker_loop :: "('k, 'm) shm_env \<Rightarrow> int \<Rightarrow> string \<Rightarrow> nat \<Rightarrow> SmokeResult \<Rightarrow> 'k \<Rightarrow> (bool result \<times> SmokeResult) \<times> 'k" where
  "worker_loop env fd payload 0 res k = ((Inr True, res), k)"
| "worker_loop env fd payload (Suc n) res k = (case workerReadViaFDPassing env fd payload k of
       (Inl e, k1) \<Rightarrow> ((Inl e, res), k1)
     | (Inr ok, k1) \<Rightarrow> let res1 = res\<lparr>shm_FDPassingSuccess := True, shm_WorkerMmapSuccess := True\<rparr> in
         if \<not> ok then ((Inr False, res1\<lparr>shm_DataIntegrityOK := False\<rparr>), k1)
         else worker_loop env fd payload n res1 k1)"

definition transport_fd :: "('k, 'm) shm_env \<Rightarrow> string \<Rightarrow> nat \<Rightarrow> int \<Rightarrow> SmokeResult \<Rightarrow> 'k \<Rightarrow> (go_error option \<times> SmokeResult) \<times> 'k" where
  "transport_fd env payload n fd res k = (case se_ftruncate env fd (int (length payload)) k of
       (Some e, k1) \<Rightarrow> ((Some (Wrapf ''ftruncate failed: %w'' [] e), res), k1)
     | (None, k1) \<Rightarrow> (case se_mmap env fd (int (length payload)) True k1 of
         (Inl e, k2) \<Rightarrow> ((Some (Wrapf ''mmap writer failed: %w'' [] e), res), k2)
       | (Inr mapped, k2) \<Rightarrow> (case se_munmap env mapped (se_copy env mapped payload k2) of (err, k3) \<Rightarrow>
           (case worker_loop env fd payload n (res\<lparr>shm_MmapSuccess := True\<rparr>) k3 of
              ((Inl e, res1), k4) \<Rightarrow> ((Some e, res1), k4)
            | ((Inr False, res1), k4) \<Rightarrow> ((None, res1), k4)
            | ((Inr True, res1), k4) \<Rightarrow> ((None, res1\<lparr>shm_DataIntegrityOK := True,
                shm_AvoidedCopyBytes := int (length payload) * max 0 (int n - 1), shm_CleanupSuccess := err = None\<rparr>), k4)))))"

text \<open>
  The deferred close runs after the result is made, so its error does not reach \<open>CleanupSuccess\<close>.
\<close>

definition exerciseMemoryTransport :: "('k, 'm) shm_env \<Rightarrow> string \<Rightarrow> int \<Rightarrow> 'k \<Rightarrow> (go_error option \<times> SmokeResult) \<times> 'k" where
  "exerciseMemoryTransport env payload workerCount0 k = (let
       workerCount = (if workerCount0 \<le> 0 then 1 else workerCount0);
       res = zero_SmokeResult\<lparr>shm_IPCMode := ''memfd-mmap'', shm_EvidenceMode := ''real-shm-ipc'',
         shm_PayloadBytesSent := int (length payload), shm_ReferencedContextBytes := int (length payload) * workerCount,
         shm_SharedPages := 1\<rparr>
     in case se_memfd env ''aort_context_page'' k of
          (Inl e, k1) \<Rightarrow> ((Some (Wrapf ''memfd_create failed: %w'' [] e), res), k1)
        | (Inr fd, k1) \<Rightarrow> (case transport_fd env payload (nat workerCount) fd (res\<lparr>shm_MemfdCreateSuccess := True\<rparr>) k1 of
            (out, k2) \<Rightarrow> (out, snd (se_close env fd k2))))"

definition exerciseMemoryTransport_other :: "go_error option \<times> SmokeResult" where
  "exerciseMemoryTransport_other = (Some (Errorf ''not linux: memfd/mmap shared-memory IPC requires Linux'' []), zero_SmokeResult)"

definition TransferPayload :: "('k, 'm) shm_env \<Rightarrow> string \<Rightarrow> int \<Rightarrow> 'k \<Rightarrow> (go_error option \<times> SmokeResult) \<times> 'k" where
  "TransferPayload env = exerciseMemoryTransport env"

definition shm_RunSmoke :: "('k, 'm) shm_env \<Rightarrow> (go_error \<Rightarrow> string) \<Rightarrow> (SmokeResult \<Rightarrow> go_error option) \<Rightarrow> 'k
    \<Rightarrow> (SmokeResult \<times> go_error option) \<times> 'k" where
  "shm_RunSmoke env text write k = (let payload = ''AORT-R shared context page via memfd/mmap'' in
     case TransferPayload env payload 2 k of ((err, res0), k1) \<Rightarrow>
       let res1 = (case err of None \<Rightarrow> res0 | Some e \<Rightarrow> zero_SmokeResult\<lparr>shm_IPCMode := ''page-reference'',
             shm_EvidenceMode := ''degraded'', shm_CleanupSuccess := True, shm_FallbackReason := text e,
             shm_PayloadBytesSent := int (length payload)\<rparr>);
           res = (if shm_IPCMode res1 = [] then res1\<lparr>shm_IPCMode := ''memfd-mmap''\<rparr> else res1)
       in ((res, write res), k1))"

end
