(* ===== verification/ShmCorrect.thy ===== *)
theory ShmCorrect
  imports Shm
begin

text \<open>
  Correctness of the shared-memory transfer on a kernel that does what its manual pages say: every worker
  reads the payload, and nothing stays open or mapped.
\<close>

section \<open>The kernel\<close>

text \<open>
  What the system calls do to the table of descriptors, the mapped regions and the memory files. A file
  or socket is an object with a number. \<open>pass_fd\<close> hands the worker a new descriptor of the same object.
\<close>

record 'k shm_view =
  kv_fds :: "'k \<Rightarrow> int \<rightharpoonup> nat"
  kv_regions :: "'k \<Rightarrow> nat \<rightharpoonup> nat"
  kv_memory :: "'k \<Rightarrow> nat \<Rightarrow> string"

definition keeps :: "'k shm_view \<Rightarrow> 'k \<Rightarrow> 'k \<Rightarrow> bool" where
  "keeps v k k' \<longleftrightarrow> kv_fds v k' = kv_fds v k \<and> kv_regions v k' = kv_regions v k \<and> kv_memory v k' = kv_memory v k"

text \<open>The calls on descriptors, and those on memory.\<close>

definition fd_laws :: "('k, 'm) shm_env \<Rightarrow> 'k shm_view \<Rightarrow> bool" where
  "fd_laws env v \<longleftrightarrow>
     (\<forall>name k r k'. se_memfd env name k = (r, k') \<longrightarrow> (case r of Inl _ \<Rightarrow> keeps v k k'
        | Inr fd \<Rightarrow> \<exists>ob. kv_fds v k fd = None \<and> ob \<notin> ran (kv_regions v k) \<and> kv_fds v k' = (kv_fds v k)(fd \<mapsto> ob)
            \<and> kv_regions v k' = kv_regions v k))
   \<and> (\<forall>k r k'. se_socketpair env k = (r, k') \<longrightarrow> (case r of Inl _ \<Rightarrow> keeps v k k'
        | Inr (a, b) \<Rightarrow> \<exists>x y. a \<noteq> b \<and> kv_fds v k a = None \<and> kv_fds v k b = None \<and> kv_fds v k' = (kv_fds v k)(a \<mapsto> x, b \<mapsto> y)
            \<and> kv_regions v k' = kv_regions v k \<and> kv_memory v k' = kv_memory v k))
   \<and> (\<forall>a b fd k r k'. pass_fd env a b fd k = (r, k') \<longrightarrow> (case r of Inl _ \<Rightarrow> keeps v k k'
        | Inr w \<Rightarrow> kv_fds v k w = None \<and> kv_fds v k' = (kv_fds v k)(w := kv_fds v k fd)
            \<and> kv_regions v k' = kv_regions v k \<and> kv_memory v k' = kv_memory v k))
   \<and> (\<forall>fd k. kv_fds v (snd (se_close env fd k)) = (kv_fds v k)(fd := None)
        \<and> kv_regions v (snd (se_close env fd k)) = kv_regions v k \<and> kv_memory v (snd (se_close env fd k)) = kv_memory v k)"

definition memory_laws :: "('k, 'm) shm_env \<Rightarrow> 'k shm_view \<Rightarrow> bool" where
  "memory_laws env v \<longleftrightarrow>
     (\<forall>fd n k r k' ob. se_ftruncate env fd n k = (r, k') \<and> kv_fds v k fd = Some ob \<longrightarrow>
        kv_fds v k' = kv_fds v k \<and> kv_regions v k' = kv_regions v k \<and> (r = None \<longrightarrow> int (length (kv_memory v k' ob)) = n))
   \<and> (\<forall>fd n wr k r k' ob. se_mmap env fd n wr k = (r, k') \<and> kv_fds v k fd = Some ob \<and> int (length (kv_memory v k ob)) = n \<longrightarrow> (case r of Inl _ \<Rightarrow> keeps v k k'
        | Inr g \<Rightarrow> kv_regions v k g = None \<and> kv_regions v k' = (kv_regions v k)(g \<mapsto> ob)
            \<and> kv_fds v k' = kv_fds v k \<and> kv_memory v k' = kv_memory v k))
   \<and> (\<forall>g s k ob. kv_regions v k g = Some ob \<and> length (kv_memory v k ob) = length s \<longrightarrow>
        kv_fds v (se_copy env g s k) = kv_fds v k \<and> kv_regions v (se_copy env g s k) = kv_regions v k
        \<and> kv_memory v (se_copy env g s k) = (kv_memory v k)(ob := s))
   \<and> (\<forall>g k ob. kv_regions v k g = Some ob \<longrightarrow> se_bytes env g k = kv_memory v k ob)
   \<and> (\<forall>g k. kv_regions v k g \<noteq> None \<longrightarrow> kv_fds v (snd (se_munmap env g k)) = kv_fds v k
        \<and> kv_regions v (snd (se_munmap env g k)) = (kv_regions v k)(g := None) \<and> kv_memory v (snd (se_munmap env g k)) = kv_memory v k)"

lemma fd_lawsD:
  assumes "fd_laws env v"
  shows "se_memfd env name k = (Inl e, k') \<Longrightarrow> keeps v k k'"
    "se_memfd env name k = (Inr fd, k') \<Longrightarrow> \<exists>ob. kv_fds v k fd = None \<and> ob \<notin> ran (kv_regions v k)
        \<and> kv_fds v k' = (kv_fds v k)(fd \<mapsto> ob) \<and> kv_regions v k' = kv_regions v k"
    "se_socketpair env k = (Inl e, k') \<Longrightarrow> keeps v k k'"
    "se_socketpair env k = (Inr (a, b), k') \<Longrightarrow> \<exists>x y. a \<noteq> b \<and> kv_fds v k a = None \<and> kv_fds v k b = None
        \<and> kv_fds v k' = (kv_fds v k)(a \<mapsto> x, b \<mapsto> y) \<and> kv_regions v k' = kv_regions v k \<and> kv_memory v k' = kv_memory v k"
    "pass_fd env a b fd k = (Inl e, k') \<Longrightarrow> keeps v k k'"
    "pass_fd env a b fd k = (Inr w, k') \<Longrightarrow> kv_fds v k w = None \<and> kv_fds v k' = (kv_fds v k)(w := kv_fds v k fd)
        \<and> kv_regions v k' = kv_regions v k \<and> kv_memory v k' = kv_memory v k"
    "kv_fds v (snd (se_close env fd k)) = (kv_fds v k)(fd := None)"
    "kv_regions v (snd (se_close env fd k)) = kv_regions v k"
    "kv_memory v (snd (se_close env fd k)) = kv_memory v k"
  using assms unfolding fd_laws_def by fastforce+

lemma memory_lawsD:
  assumes "memory_laws env v"
  shows "se_ftruncate env fd n k = (r, k') \<Longrightarrow> kv_fds v k fd = Some ob \<Longrightarrow>
      kv_fds v k' = kv_fds v k \<and> kv_regions v k' = kv_regions v k \<and> (r = None \<longrightarrow> int (length (kv_memory v k' ob)) = n)"
    "se_mmap env fd n wr k = (Inl e, k') \<Longrightarrow> kv_fds v k fd = Some ob \<Longrightarrow> int (length (kv_memory v k ob)) = n \<Longrightarrow> keeps v k k'"
    "se_mmap env fd n wr k = (Inr g, k') \<Longrightarrow> kv_fds v k fd = Some ob \<Longrightarrow> int (length (kv_memory v k ob)) = n \<Longrightarrow>
      kv_regions v k g = None \<and> kv_regions v k' = (kv_regions v k)(g \<mapsto> ob) \<and> kv_fds v k' = kv_fds v k \<and> kv_memory v k' = kv_memory v k"
    "kv_regions v k g = Some ob \<Longrightarrow> length (kv_memory v k ob) = length s \<Longrightarrow>
      kv_fds v (se_copy env g s k) = kv_fds v k \<and> kv_regions v (se_copy env g s k) = kv_regions v k
      \<and> kv_memory v (se_copy env g s k) = (kv_memory v k)(ob := s)"
    "kv_regions v k g = Some ob \<Longrightarrow> se_bytes env g k = kv_memory v k ob"
    "kv_regions v k g = Some ob \<Longrightarrow> kv_fds v (snd (se_munmap env g k)) = kv_fds v k
      \<and> kv_regions v (snd (se_munmap env g k)) = (kv_regions v k)(g := None) \<and> kv_memory v (snd (se_munmap env g k)) = kv_memory v k"
  using assms unfolding memory_laws_def by fastforce+

section \<open>Workers\<close>

lemma keeps_trans: "keeps v k k1 \<Longrightarrow> keeps v k1 k2 \<Longrightarrow> keeps v k k2"
  by (simp add: keeps_def)

lemma fun_upd_back: "f x = None \<Longrightarrow> f(x := None) = f"
  by (rule fun_upd_idem)

lemma worker_compare_reads:
  assumes laws: "fd_laws env v" "memory_laws env v" and ob: "kv_fds v k w = Some ob" "kv_memory v k ob = want"
    and run: "worker_compare env w want k = (r, k')"
  shows "keeps v k k' \<and> (\<forall>ok. r = Inr ok \<longrightarrow> ok)"
proof -
  obtain m k1 where m: "se_mmap env w (int (length want)) False k = (m, k1)" by (rule prod.exhaust)
  have len: "int (length (kv_memory v k ob)) = int (length want)" by (simp add: ob(2))
  show ?thesis
  proof (cases m)
    case (Inl e)
    with run m memory_lawsD(2) [OF laws(2) _ ob(1) len] show ?thesis by (auto simp: worker_compare_def)
  next
    case (Inr g)
    note M = memory_lawsD(3) [OF laws(2) m [unfolded Inr] ob(1) len]
    then have g: "kv_regions v k1 g = Some ob" by simp
    from run m Inr have r: "r = Inr (se_bytes env g k1 = want)" "k' = snd (se_munmap env g k1)"
      by (simp_all add: worker_compare_def)
    show ?thesis
      using M memory_lawsD(5) [OF laws(2) g] memory_lawsD(6) [OF laws(2) g] ob(2) by (simp add: r keeps_def fun_upd_back)
  qed
qed

lemma worker_reads:
  assumes laws: "fd_laws env v" "memory_laws env v" and ob: "kv_fds v k fd = Some ob" "kv_memory v k ob = want"
    and run: "workerReadViaFDPassing env fd want k = (r, k')"
  shows "keeps v k k' \<and> (\<forall>ok. r = Inr ok \<longrightarrow> ok)"
proof -
  note close = fd_lawsD(7-9) [OF laws(1)]
  obtain p k1 where p: "se_socketpair env k = (p, k1)" by (rule prod.exhaust)
  show ?thesis
  proof (cases p)
    case (Inl e)
    with run p fd_lawsD(3) [OF laws(1)] show ?thesis by (auto simp: workerReadViaFDPassing_def)
  next
    case (Inr ab)
    obtain a b where ab: "ab = (a, b)" by (rule prod.exhaust)
    obtain x y where P: "a \<noteq> b" "kv_fds v k a = None" "kv_fds v k b = None" "kv_fds v k1 = (kv_fds v k)(a \<mapsto> x, b \<mapsto> y)"
        "kv_regions v k1 = kv_regions v k" "kv_memory v k1 = kv_memory v k"
      using fd_lawsD(4) [OF laws(1)] p Inr ab by blast
    have fd: "kv_fds v k1 fd = Some ob" using P ob by auto
    obtain q k2 where q: "pass_fd env a b fd k1 = (q, k2)" by (rule prod.exhaust)
    have closed: "keeps v k (snd (se_close env a (snd (se_close env b k4))))" if "keeps v k1 k4" for k4
      using that P(1-3) by (auto simp: keeps_def close P(4-6))
    show ?thesis
    proof (cases q)
      case (Inl e)
      with run p \<open>p = _\<close> ab q have "r = Inl e" "k' = snd (se_close env a (snd (se_close env b k2)))"
        by (simp_all add: workerReadViaFDPassing_def)
      with closed fd_lawsD(5) [OF laws(1)] q Inl show ?thesis by blast
    next
      case (Inr w)
      note W = fd_lawsD(6) [OF laws(1) q [unfolded Inr]]
      obtain c k3 where c: "worker_compare env w want k2 = (c, k3)" by (rule prod.exhaust)
      have "keeps v k2 k3 \<and> (\<forall>ok. c = Inr ok \<longrightarrow> ok)"
        by (rule worker_compare_reads [OF laws _ _ c]) (use W fd P(6) ob(2) in simp_all)
      moreover from run p \<open>p = _\<close> ab q Inr c have "r = c" "k' = snd (se_close env a (snd (se_close env b (snd (se_close env w k3)))))"
        by (simp_all add: workerReadViaFDPassing_def)
      moreover have "keeps v k1 (snd (se_close env w k3))" if "keeps v k2 k3"
        using that W by (simp add: keeps_def close fun_upd_back)
      ultimately show ?thesis using closed by blast
    qed
  qed
qed

lemma worker_loop_reads:
  assumes laws: "fd_laws env v" "memory_laws env v"
  shows "kv_fds v k fd = Some ob \<Longrightarrow> kv_memory v k ob = want \<Longrightarrow> worker_loop env fd want n res k = ((r, res'), k') \<Longrightarrow>
    keeps v k k' \<and> (\<forall>ok. r = Inr ok \<longrightarrow> ok \<and> res' = (if n = 0 then res else res\<lparr>shm_FDPassingSuccess := True, shm_WorkerMmapSuccess := True\<rparr>))"
proof (induction n arbitrary: k res)
  case (Suc n)
  obtain q k1 where q: "workerReadViaFDPassing env fd want k = (q, k1)" by (rule prod.exhaust)
  note W = worker_reads [OF laws Suc.prems(1,2) q]
  show ?case
  proof (cases q)
    case (Inl e)
    with Suc.prems(3) q W show ?thesis by auto
  next
    case (Inr ok)
    with W Suc.prems(3) q have "worker_loop env fd want n (res\<lparr>shm_FDPassingSuccess := True, shm_WorkerMmapSuccess := True\<rparr>) k1 = ((r, res'), k')"
      by (simp add: Let_def)
    from Suc.IH [OF _ _ this] W Suc.prems(1,2) show ?thesis by (auto simp: keeps_def split: if_splits)
  qed
qed (auto simp: keeps_def)

lemma transport_shares:
  assumes laws: "fd_laws env v" "memory_laws env v" and ob: "kv_fds v k fd = Some ob" and n: "0 < n"
    and run: "transport_fd env payload n fd res k = ((err, res'), k')"
  shows "kv_fds v k' = kv_fds v k \<and> kv_regions v k' = kv_regions v k
    \<and> (err = None \<longrightarrow> (\<exists>c. res' = res\<lparr>shm_MmapSuccess := True, shm_FDPassingSuccess := True, shm_WorkerMmapSuccess := True,
        shm_DataIntegrityOK := True, shm_AvoidedCopyBytes := int (length payload) * (int n - 1), shm_CleanupSuccess := c\<rparr>))"
proof -
  obtain e1 k1 where 1: "se_ftruncate env fd (int (length payload)) k = (e1, k1)" by (rule prod.exhaust)
  note T = memory_lawsD(1) [OF laws(2) 1 ob]
  obtain m k2 where 2: "se_mmap env fd (int (length payload)) True k1 = (m, k2)" by (rule prod.exhaust)
  show ?thesis
  proof (cases e1)
    case (Some e)
    with run 1 T show ?thesis by (auto simp: transport_fd_def)
  next
    case None
    with T ob have fd1: "kv_fds v k1 fd = Some ob" and len: "int (length (kv_memory v k1 ob)) = int (length payload)" by simp_all
    show ?thesis
    proof (cases m)
      case (Inl e)
      with run 1 2 None T memory_lawsD(2) [OF laws(2) _ fd1 len] show ?thesis by (auto simp: transport_fd_def keeps_def)
    next
      case (Inr g)
      note M = memory_lawsD(3) [OF laws(2) 2 [unfolded Inr] fd1 len]
      let ?k = "se_copy env g payload k2"
      have "kv_regions v k2 g = Some ob" "length (kv_memory v k2 ob) = length payload" using M len by simp_all
      note C = memory_lawsD(4) [OF laws(2) this]
      obtain e3 k3 where 3: "se_munmap env g ?k = (e3, k3)" by (rule prod.exhaust)
      have "kv_regions v ?k g = Some ob" using C M by simp
      from memory_lawsD(6) [OF laws(2) this] 3 C M T
      have U: "kv_fds v k3 = kv_fds v k" "kv_regions v k3 = kv_regions v k" "kv_memory v k3 ob = payload"
        by (simp_all add: fun_upd_back)
      obtain r res1 k4 where 4: "worker_loop env fd payload n (res\<lparr>shm_MmapSuccess := True\<rparr>) k3 = ((r, res1), k4)"
        by (metis prod.exhaust)
      have "kv_fds v k3 fd = Some ob" using U ob by simp
      note W = worker_loop_reads [OF laws this U(3) 4]
      show ?thesis
      proof (cases r)
        case (Inl e)
        with run 1 None 2 \<open>m = _\<close> 3 4 W U show ?thesis by (auto simp: transport_fd_def keeps_def)
      next
        case (Inr ok)
        with W n have "r = Inr True" "res1 = res\<lparr>shm_MmapSuccess := True, shm_FDPassingSuccess := True, shm_WorkerMmapSuccess := True\<rparr>"
          by simp_all
        with run 1 None 2 \<open>m = _\<close> 3 4 W U n show ?thesis by (auto simp: transport_fd_def keeps_def)
      qed
    qed
  qed
qed


text \<open>
  A kernel with tables as lists: every new descriptor, region and memory file gets the next free number,
  and the object of the descriptor that was sent last is in flight.
\<close>

record table_kernel =
  tk_fds :: "(int \<times> nat) list"
  tk_regions :: "(nat \<times> nat) list"
  tk_memory :: "nat \<Rightarrow> string"
  tk_flight :: "nat option"

definition next_int :: "int list \<Rightarrow> int" where
  "next_int xs = foldr max xs 2 + 1"

definition next_nat :: "nat list \<Rightarrow> nat" where
  "next_nat xs = foldr max xs 0 + 1"

definition add_fd :: "nat \<Rightarrow> table_kernel \<Rightarrow> int \<times> table_kernel" where
  "add_fd ob k = (let fd = next_int (map fst (tk_fds k)) in (fd, k\<lparr>tk_fds := (fd, ob) # tk_fds k\<rparr>))"

definition table_env :: "(table_kernel, string) shm_env" where
  "table_env = \<lparr>
     se_memfd = (\<lambda>name k. case add_fd (next_nat (map snd (tk_regions k))) k of (fd, k1) \<Rightarrow> (Inr fd, k1)),
     se_ftruncate = (\<lambda>fd n k. case map_of (tk_fds k) fd of
       Some ob \<Rightarrow> if n < 0 then (Some (SysError ''invalid''), k)
         else (None, k\<lparr>tk_memory := (tk_memory k)(ob := replicate (nat n) (CHR 0x00))\<rparr>)
       | None \<Rightarrow> (Some (SysError ''bad descriptor''), k)),
     se_mmap = (\<lambda>fd n wr k. case map_of (tk_fds k) fd of None \<Rightarrow> (Inl (SysError ''bad descriptor''), k)
       | Some ob \<Rightarrow> let g = next_nat (map fst (tk_regions k)) in (Inr g, k\<lparr>tk_regions := (g, ob) # tk_regions k\<rparr>)),
     se_copy = (\<lambda>g s k. case map_of (tk_regions k) g of None \<Rightarrow> k | Some ob \<Rightarrow> k\<lparr>tk_memory := (tk_memory k)(ob := s)\<rparr>),
     se_bytes = (\<lambda>g k. case map_of (tk_regions k) g of None \<Rightarrow> [] | Some ob \<Rightarrow> tk_memory k ob),
     se_munmap = (\<lambda>g k. (None, k\<lparr>tk_regions := filter (\<lambda>x. fst x \<noteq> g) (tk_regions k)\<rparr>)),
     se_close = (\<lambda>fd k. (None, k\<lparr>tk_fds := filter (\<lambda>x. fst x \<noteq> fd) (tk_fds k)\<rparr>)),
     se_socketpair = (\<lambda>k. case add_fd 0 k of (a, k1) \<Rightarrow> case add_fd 0 k1 of (b, k2) \<Rightarrow> (Inr (a, b), k2)),
     se_sendmsg = (\<lambda>a fd k. (None, k\<lparr>tk_flight := map_of (tk_fds k) fd\<rparr>)),
     se_recvmsg = (\<lambda>b k. case tk_flight k of None \<Rightarrow> (Inl (SysError ''empty''), k)
       | Some ob \<Rightarrow> case add_fd ob k of (fd, k1) \<Rightarrow> (Inr (replicate (nat fd) (CHR ''x'')), k1)),
     se_messages = (\<lambda>oob. Inr [oob]), se_rights = (\<lambda>m. Inr [int (length m)])\<rparr>"

definition table_view :: "table_kernel shm_view" where
  "table_view = \<lparr>kv_fds = (\<lambda>k. map_of (tk_fds k)), kv_regions = (\<lambda>k. map_of (tk_regions k)), kv_memory = tk_memory\<rparr>"

lemma next_int_fresh: "x \<in> set xs \<Longrightarrow> x < next_int xs" "2 < next_int xs"
  unfolding next_int_def by (induction xs) auto

lemma next_nat_fresh: "x \<in> set xs \<Longrightarrow> x < next_nat xs"
  unfolding next_nat_def by (induction xs) auto

lemma map_of_next: "map_of xs (next_int (map fst xs)) = None" "map_of ys (next_nat (map fst ys)) = None"
  "next_nat (map snd ys) \<notin> ran (map_of ys)"
proof -
  show "map_of xs (next_int (map fst xs)) = None" using next_int_fresh by (metis less_irrefl list.set_map map_of_eq_None_iff)
  show "map_of ys (next_nat (map fst ys)) = None" using next_nat_fresh by (metis less_irrefl list.set_map map_of_eq_None_iff)
  show "next_nat (map snd ys) \<notin> ran (map_of ys)"
    using next_nat_fresh [of _ "map snd ys"] by (force simp: ran_def dest: map_of_SomeD)
qed

lemma map_of_filter_ne: "map_of (filter (\<lambda>x. fst x \<noteq> a) xs) = (map_of xs)(a := None)"
  by (induction xs) auto

lemma table_pass: "pass_fd table_env a b fd k = (r, k') \<Longrightarrow> (case r of Inl _ \<Rightarrow> keeps table_view k k'
   | Inr w \<Rightarrow> kv_fds table_view k w = None \<and> kv_fds table_view k' = (kv_fds table_view k)(w := kv_fds table_view k fd)
       \<and> kv_regions table_view k' = kv_regions table_view k \<and> kv_memory table_view k' = kv_memory table_view k)"
  using map_of_next(1) [of "tk_fds k"] next_int_fresh(2) [of "map fst (tk_fds k)"]
  by (cases "map_of (tk_fds k) fd")
    (auto simp: pass_fd_def table_env_def table_view_def keeps_def add_fd_def Let_def)

lemma table_memfd: "se_memfd table_env name k = (r, k') \<Longrightarrow> (case r of Inl _ \<Rightarrow> keeps table_view k k'
   | Inr fd \<Rightarrow> \<exists>ob. kv_fds table_view k fd = None \<and> ob \<notin> ran (kv_regions table_view k) \<and> kv_fds table_view k' = (kv_fds table_view k)(fd \<mapsto> ob)
       \<and> kv_regions table_view k' = kv_regions table_view k)"
  using map_of_next(1) [of "tk_fds k"] map_of_next(3) [of "tk_regions k"]
  by (auto simp: table_env_def table_view_def add_fd_def Let_def)

lemma table_socketpair: "se_socketpair table_env k = (r, k') \<Longrightarrow> (case r of Inl _ \<Rightarrow> keeps table_view k k'
   | Inr (a, b) \<Rightarrow> \<exists>x y. a \<noteq> b \<and> kv_fds table_view k a = None \<and> kv_fds table_view k b = None
       \<and> kv_fds table_view k' = (kv_fds table_view k)(a \<mapsto> x, b \<mapsto> y)
       \<and> kv_regions table_view k' = kv_regions table_view k \<and> kv_memory table_view k' = kv_memory table_view k)"
proof -
  let ?a = "next_int (map fst (tk_fds k))" and ?b = "next_int (next_int (map fst (tk_fds k)) # map fst (tk_fds k))"
  assume "se_socketpair table_env k = (r, k')"
  then have out: "r = Inr (?a, ?b)" "k' = k\<lparr>tk_fds := (?b, 0) # (?a, 0) # tk_fds k\<rparr>"
    by (auto simp: table_env_def add_fd_def Let_def)
  have "?a < ?b" by (rule next_int_fresh) simp
  moreover have "map_of (tk_fds k) ?b = None"
    using next_int_fresh(1) [of ?b "?a # map fst (tk_fds k)"] by (auto simp: map_of_eq_None_iff)
  ultimately show ?thesis
    using map_of_next(1) [of "tk_fds k"] unfolding out sum.case prod.case
    by (intro exI [of _ 0]) (simp add: table_view_def)
qed

lemma table_close: "kv_fds table_view (snd (se_close table_env fd k)) = (kv_fds table_view k)(fd := None)
   \<and> kv_regions table_view (snd (se_close table_env fd k)) = kv_regions table_view k
   \<and> kv_memory table_view (snd (se_close table_env fd k)) = kv_memory table_view k"
  by (simp add: table_env_def table_view_def map_of_filter_ne)

lemma table_fd_laws: "fd_laws table_env table_view"
  unfolding fd_laws_def
  by (intro conjI allI impI table_memfd table_socketpair table_pass table_close [THEN conjunct1]
      table_close [THEN conjunct2, THEN conjunct1] table_close [THEN conjunct2, THEN conjunct2])

lemma table_memory_laws: "memory_laws table_env table_view"
  using map_of_next(2)
  by (auto simp: memory_laws_def table_env_def table_view_def Let_def map_of_filter_ne split: if_splits)


end
