(* ===== verification/FinalEvidence.thy ===== *)
theory FinalEvidence
  imports Evidence GoPath GoNum Checkpoint
begin

text \<open>
  The evidence index (\<open>internal/experiment/all_final.go\<close>): the result files of the experiments are read back,
  each is judged, and the verdicts are put together into the final index. The run of an experiment is a
  function on the outside world \<open>'k\<close>; what reading files finds is in \<open>final_env\<close>.
\<close>

section \<open>Decoded JSON\<close>

text \<open>
  A value that \<open>json.Unmarshal\<close> returns. A map is the list of its entries, with distinct keys, in the
  order in which Go happens to visit them.
\<close>

datatype Json = JNull | JBool bool | JNum f64 | JStr string | JArr "Json list" | JObj "(string \<times> Json) list"

type_synonym jmap = "(string \<times> Json) list"

record final_env =
  fe_exists :: "string \<Rightarrow> bool"
  fe_json :: "string \<Rightarrow> Json option"               \<comment> \<open>\<open>None\<close> when the file cannot be read or decoded\<close>
  fe_text :: "string \<Rightarrow> string option"
  fe_sprint :: "Json \<Rightarrow> string"                    \<comment> \<open>\<open>fmt.Sprint\<close>\<close>
  fe_output :: "string \<Rightarrow> string \<Rightarrow> string list \<Rightarrow> string option"     \<comment> \<open>output of a command, \<open>None\<close> when it fails\<close>
  fe_getwd :: "string result"
  fe_getenv :: "string \<Rightarrow> string"
  fe_goos :: string
  fe_goarch :: string
  fe_goversion :: string

definition fallbackOr :: "string \<Rightarrow> string \<Rightarrow> string" where
  "fallbackOr v fallback = (if v \<noteq> [] then v else fallback)"

definition boolField :: "jmap \<Rightarrow> string \<Rightarrow> bool" where
  "boolField m key = (case map_of m key of Some (JBool b) \<Rightarrow> b | Some (JStr s) \<Rightarrow> s = ''true'' | _ \<Rightarrow> False)"

definition stringField :: "final_env \<Rightarrow> jmap \<Rightarrow> string \<Rightarrow> string" where
  "stringField env m key = (case map_of m key of None \<Rightarrow> [] | Some (JStr s) \<Rightarrow> s | Some v \<Rightarrow> fe_sprint env v)"

definition numberField :: "jmap \<Rightarrow> string \<Rightarrow> int" where
  "numberField m key = (case map_of m key of Some (JNum x) \<Rightarrow> f64_to_int x | _ \<Rightarrow> 0)"

text \<open>A JSON \<open>null\<close> decodes into the nil map.\<close>

definition readJSONMap :: "final_env \<Rightarrow> string \<Rightarrow> jmap option" where
  "readJSONMap env path = (case fe_json env path of Some (JObj m) \<Rightarrow> Some m | Some JNull \<Rightarrow> Some [] | _ \<Rightarrow> None)"

section \<open>Degraded and skipped evidence\<close>

definition degradedEvidenceMode :: "string \<Rightarrow> bool" where
  "degradedEvidenceMode mode \<longleftrightarrow> mode = ModeMissing \<or> Contains mode ''degraded''"

definition str_of :: "jmap \<Rightarrow> string \<Rightarrow> string" where     \<comment> \<open>\<open>raw, ok := typed[key].(string)\<close>, empty otherwise\<close>
  "str_of m key = (case map_of m key of Some (JStr s) \<Rightarrow> s | _ \<Rightarrow> [])"

definition first_fallback :: "jmap \<Rightarrow> string" where
  "first_fallback m = fallbackOr (fallbackOr (str_of m ''fallback_reason'') (str_of m ''failure_reason'')) (str_of m ''error'')"

text \<open>
  The loop over the children of a map returns the fallback, and whether it ended early. The children
  are visited through their results.
\<close>

fun map_loop :: "string \<Rightarrow> bool \<Rightarrow> (bool \<times> string) list \<Rightarrow> string \<Rightarrow> bool \<times> string" where
  "map_loop mode modeDegraded [] fallback = (False, fallback)"
| "map_loop mode modeDegraded ((degraded, reason) # rs) fallback = (if \<not> degraded then map_loop mode modeDegraded rs fallback
     else let fallback1 = (if fallback = [] \<or> fallback = mode then reason else fallback) in
       if \<not> modeDegraded then (True, fallback1) else map_loop mode modeDegraded rs fallback1)"

definition map_verdict :: "jmap \<Rightarrow> (bool \<times> string) list \<Rightarrow> bool \<times> string" where
  "map_verdict m rs = (let mode = str_of m ''evidence_mode''; modeDegraded = degradedEvidenceMode mode in
     case map_loop mode modeDegraded rs (first_fallback m) of
       (True, fallback) \<Rightarrow> (True, fallback)
     | (False, fallback) \<Rightarrow> if modeDegraded then (True, fallbackOr fallback mode)
         else if fallback \<noteq> [] then (True, fallback) else (False, []))"

fun first_true :: "(bool \<times> string) list \<Rightarrow> bool \<times> string" where
  "first_true [] = (False, [])"
| "first_true ((True, reason) # rs) = (True, reason)"
| "first_true ((False, _) # rs) = first_true rs"

fun inspectEvidenceValue :: "Json \<Rightarrow> bool \<times> string" where
  "inspectEvidenceValue (JObj m) = map_verdict m (map (\<lambda>kv. inspectEvidenceValue (snd kv)) m)"
| "inspectEvidenceValue (JArr vs) = first_true (map inspectEvidenceValue vs)"
| "inspectEvidenceValue _ = (False, [])"

fun inspectSkippedValue :: "final_env \<Rightarrow> Json \<Rightarrow> bool \<times> string" where
  "inspectSkippedValue env (JObj m) = (if stringField env m ''status'' = ''skipped''
     then (True, fallbackOr (stringField env m ''failure_reason'') ''step skipped'')
     else first_true (map (\<lambda>kv. inspectSkippedValue env (snd kv)) m))"
| "inspectSkippedValue env (JArr vs) = first_true (map (inspectSkippedValue env) vs)"
| "inspectSkippedValue env _ = (False, [])"

definition inspectEvidenceFiles :: "final_env \<Rightarrow> string list \<Rightarrow> bool \<times> string" where
  "inspectEvidenceFiles env paths = first_true (map (\<lambda>p. case fe_json env p of None \<Rightarrow> (False, []) | Some v \<Rightarrow> inspectEvidenceValue v) paths)"

definition inspectSkippedEvidence :: "final_env \<Rightarrow> string list \<Rightarrow> bool \<times> string" where
  "inspectSkippedEvidence env paths = first_true (map (\<lambda>p. case fe_json env p of None \<Rightarrow> (False, []) | Some v \<Rightarrow> inspectSkippedValue env v) paths)"

section \<open>All experiments\<close>

definition existingFiles :: "final_env \<Rightarrow> string list \<Rightarrow> string list" where
  "existingFiles env = filter (fe_exists env)"

definition quoteCommand :: "string list \<Rightarrow> string" where
  "quoteCommand = join_on (CHR '' '')"

text \<open>\<open>text\<close> is the text of the error.\<close>

definition isOrdinaryAllDegraded :: "string \<Rightarrow> string \<Rightarrow> bool" where
  "isOrdinaryAllDegraded name txt \<longleftrightarrow> HasPrefix name ''real-'' \<or> HasPrefix name ''workspace'' \<or> name = ''tool-workspace''
     \<or> list_ex (Contains txt) [''not openEuler'', ''cgroup fs is not cgroup2fs'', ''requires linux'', ''no root permission'', ''overlayfs'']"

record AllStep =
  as_Name :: string
  as_Command :: string
  as_Status :: string
  as_GeneratedFiles :: "string list"
  as_Error :: string
  as_FallbackReason :: string

definition classify_step :: "final_env \<Rightarrow> string \<Rightarrow> string list \<Rightarrow> string list \<Rightarrow> string option \<Rightarrow> AllStep" where
  "classify_step env name command expected err = (let
       files = existingFiles env expected;
       step = \<lparr>as_Name = name, as_Command = quoteCommand command, as_Status = [], as_GeneratedFiles = files, as_Error = [],
         as_FallbackReason = []\<rparr>;
       (skipped, skipReason) = inspectSkippedEvidence env files;
       (degraded, fallback) = inspectEvidenceFiles env files;
       step1 = (if skipped then step\<lparr>as_Status := ''skipped'', as_FallbackReason := skipReason\<rparr>
         else if files = [] then step\<lparr>as_Status := ''missing'', as_Error := ''expected output files were not generated''\<rparr>
         else case err of
           Some txt \<Rightarrow> if isOrdinaryAllDegraded name txt
             then step\<lparr>as_Status := ''degraded'', as_Error := txt, as_FallbackReason := fallbackOr fallback txt\<rparr>
             else step\<lparr>as_Status := ''failed'', as_Error := txt\<rparr>
         | None \<Rightarrow> if degraded then step\<lparr>as_Status := ''degraded'', as_FallbackReason := fallbackOr fallback ''step produced degraded evidence''\<rparr>
             else step\<lparr>as_Status := ''passed''\<rparr>)
     in if as_Status step1 = ''degraded'' \<and> as_FallbackReason step1 = []
        then step1\<lparr>as_FallbackReason := fallbackOr (as_Error step1) ''step produced degraded evidence''\<rparr> else step1)"

record AllSummary =
  al_Runs :: int
  al_EvidenceMode :: string
  al_Steps :: "AllStep list"
  al_Passed :: "string list"
  al_Failed :: "string list"
  al_Degraded :: "string list"
  al_Skipped :: "string list"
  al_Missing :: "string list"
  al_GeneratedFiles :: "string list"
  al_AllRequiredPassed :: bool

definition add_step :: "AllSummary \<Rightarrow> AllStep \<Rightarrow> AllSummary" where
  "add_step s step = (let
       s1 = s\<lparr>al_Steps := al_Steps s @ [step], al_GeneratedFiles := al_GeneratedFiles s @ as_GeneratedFiles step\<rparr>;
       st = as_Status step; name = as_Name step
     in if st = ''passed'' then s1\<lparr>al_Passed := al_Passed s1 @ [name]\<rparr>
        else if st = ''failed'' then s1\<lparr>al_Failed := al_Failed s1 @ [name]\<rparr>
        else if st = ''degraded'' then s1\<lparr>al_Degraded := al_Degraded s1 @ [name]\<rparr>
        else if st = ''skipped'' then s1\<lparr>al_Skipped := al_Skipped s1 @ [name]\<rparr>
        else if st = ''missing'' then s1\<lparr>al_Missing := al_Missing s1 @ [name]\<rparr>
        else s1)"

record AllSpec =
  sp_name :: string
  sp_command :: "string list"
  sp_expected :: "string list"

definition out_file :: "string \<Rightarrow> string \<Rightarrow> string \<Rightarrow> string" where
  "out_file outDir dir file = Join [outDir, dir, file]"

definition aortctl :: "string list \<Rightarrow> string list" where
  "aortctl args = [''go'', ''run'', ''./cmd/aortctl''] @ args"

definition all_specs :: "int \<Rightarrow> string \<Rightarrow> AllSpec list" where
  "all_specs runs outDir = (let runText = Itoa runs; f = out_file outDir; d = (\<lambda>x. Join [outDir, x]) in [
     \<lparr>sp_name = ''e1'', sp_command = aortctl [''experiment'', ''e1'', ''--policy'', ''resource-aware'', ''--runs'', runText, ''--out'', d ''e1''],
       sp_expected = [f ''e1'' ''e1_resource_aware.json'', f ''e1'' ''e1_resource_aware.csv'', f ''e1'' ''e1_resource_aware_decisions.json'',
         f ''e1'' ''e1_resource_aware_summary.md'']\<rparr>,
     \<lparr>sp_name = ''e1-pressure'', sp_command = aortctl [''experiment'', ''e1-pressure'', ''--runs'', runText, ''--out'', d ''e1_pressure''],
       sp_expected = [f ''e1_pressure'' ''e1_pressure.json'']\<rparr>,
     \<lparr>sp_name = ''e2'', sp_command = aortctl [''experiment'', ''e2'', ''--runs'', runText, ''--out'', d ''e2''],
       sp_expected = [f ''e2'' ''e2-real-fault.json'', f ''e2'' ''e2-real-fault.csv'']\<rparr>,
     \<lparr>sp_name = ''e2-pressure-fault'', sp_command = aortctl [''experiment'', ''e2-pressure-fault'', ''--runs'', runText, ''--out'', d ''e2_pressure_fault''],
       sp_expected = [f ''e2_pressure_fault'' ''e2_pressure_fault.json'']\<rparr>,
     \<lparr>sp_name = ''software-real'', sp_command = aortctl [''demo'', ''software-real'', ''--out'', d ''software_real''],
       sp_expected = [Join [outDir, ''software_real'', ''software_real_demo'', ''result.json'']]\<rparr>,
     \<lparr>sp_name = ''workspace probe'', sp_command = aortctl [''workspace'', ''probe'', ''--out'', d ''workspace_probe.json''],
       sp_expected = [d ''workspace_probe.json'']\<rparr>,
     \<lparr>sp_name = ''workspace-rmrf'', sp_command = aortctl [''demo'', ''fault'', ''workspace-rmrf'', ''--out'', d ''workspace_rmrf'', ''--root'', d ''workspace_rmrf_runtime''],
       sp_expected = [f ''workspace_rmrf'' ''workspace_isolation_evidence.json'']\<rparr>,
     \<lparr>sp_name = ''tool-workspace'', sp_command = aortctl [''demo'', ''tool-workspace'', ''--out'', d ''tool_workspace''],
       sp_expected = [f ''tool_workspace'' ''tool_workspace_evidence.json'']\<rparr>,
     \<lparr>sp_name = ''real-cgroup-smoke'', sp_command = aortctl [''experiment'', ''real-cgroup-smoke'', ''--out'', d ''real_cgroup_smoke''],
       sp_expected = [f ''real_cgroup_smoke'' ''real_cgroup_smoke.json'']\<rparr>,
     \<lparr>sp_name = ''real-pressure-smoke'', sp_command = aortctl [''experiment'', ''real-pressure-smoke'', ''--runs'', runText, ''--out'', d ''real_pressure_smoke''],
       sp_expected = [f ''real_pressure_smoke'' ''real_pressure_smoke.json'']\<rparr>,
     \<lparr>sp_name = ''deepseek-real-smoke'', sp_command = aortctl [''experiment'', ''deepseek-real-smoke'', ''--out'', d ''deepseek_real''],
       sp_expected = [f ''deepseek_real'' ''deepseek_real_smoke.json'']\<rparr>,
     \<lparr>sp_name = ''ebpf-smoke'', sp_command = aortctl [''observer'', ''ebpf-smoke'', ''--out'', d ''ebpf_smoke''],
       sp_expected = [f ''ebpf_smoke'' ''ebpf_smoke.json'']\<rparr>,
     \<lparr>sp_name = ''ipc shm-smoke'', sp_command = aortctl [''ipc'', ''shm-smoke'', ''--out'', d ''ipc_shm''],
       sp_expected = [f ''ipc_shm'' ''ipc_shm_smoke.json'']\<rparr>,
     \<lparr>sp_name = ''cvm memory-smoke'', sp_command = aortctl [''cvm'', ''memory-smoke'', ''--out'', d ''cvm_memory''],
       sp_expected = [f ''cvm_memory'' ''cvm_memory_smoke.json'']\<rparr>,
     \<lparr>sp_name = ''real-all'', sp_command = aortctl [''experiment'', ''real-all'', ''--runs'', runText, ''--out'', d ''real_all''],
       sp_expected = [f ''real_all'' ''REAL_EVIDENCE_INDEX.json'']\<rparr>])"

text \<open>
  \<open>run name\<close> is the experiment of that name: it changes the world and may fail with the text of an error;
  \<open>view\<close> reads the world.
\<close>

fun run_specs :: "('k \<Rightarrow> final_env) \<Rightarrow> (string \<Rightarrow> 'k \<Rightarrow> string option \<times> 'k) \<Rightarrow> AllSpec list \<Rightarrow> AllSummary \<Rightarrow> 'k \<Rightarrow> AllSummary \<times> 'k" where
  "run_specs view run [] s k = (s, k)"
| "run_specs view run (spec # specs) s k = (case run (sp_name spec) k of (err, k1) \<Rightarrow>
     run_specs view run specs (add_step s (classify_step (view k1) (sp_name spec) (sp_command spec) (sp_expected spec) err)) k1)"

definition empty_summary :: "int \<Rightarrow> AllSummary" where
  "empty_summary runs = \<lparr>al_Runs = runs, al_EvidenceMode = ''real-runtime'', al_Steps = [], al_Passed = [], al_Failed = [], al_Degraded = [],
     al_Skipped = [], al_Missing = [], al_GeneratedFiles = [], al_AllRequiredPassed = False\<rparr>"

text \<open>\<open>write\<close> stores the summary at a path; the error is that of the write, or that of the run.\<close>

definition RunAllExperiments ::
    "('k \<Rightarrow> final_env) \<Rightarrow> (string \<Rightarrow> 'k \<Rightarrow> string option \<times> 'k) \<Rightarrow> (string \<Rightarrow> AllSummary \<Rightarrow> 'k \<Rightarrow> go_error option \<times> 'k)
     \<Rightarrow> int \<Rightarrow> string \<Rightarrow> 'k \<Rightarrow> (AllSummary \<times> go_error option) \<times> 'k" where
  "RunAllExperiments view run write runs0 outDir0 k = (let
       runs = (if runs0 \<le> 0 then 1 else runs0);
       outDir = (if outDir0 = [] then Join [''experiments'', ''results'', ''all''] else outDir0)
     in case run_specs view run (all_specs runs outDir) (empty_summary runs) k of (s, k1) \<Rightarrow>
       let s1 = (if al_Degraded s \<noteq> [] then s\<lparr>al_EvidenceMode := ''degraded''\<rparr> else s);
           path = Join [outDir, ''all_experiments_summary.json''];
           s2 = s1\<lparr>al_AllRequiredPassed := al_Failed s1 = [] \<and> al_Missing s1 = [], al_GeneratedFiles := al_GeneratedFiles s1 @ [path]\<rparr>
       in case write path s2 k1 of
            (Some e, k2) \<Rightarrow> ((s2, Some e), k2)
          | (None, k2) \<Rightarrow> ((s2, if \<not> al_AllRequiredPassed s2
              then Some (Errorf ''experiment all had failed or missing steps: failed=%v missing=%v'' (al_Failed s2 @ al_Missing s2))
              else None), k2))"

end
