(* ===== verification/FinalIndex.thy ===== *)
theory FinalIndex
  imports FinalEvidence "HOL-Library.AList"
begin

text \<open>
  The final evidence index (\<open>WriteFinalEvidence\<close> of \<open>internal/experiment/all_final.go\<close>): the status of every
  piece of evidence is read from the status table and from the result files, and summarised. A Go map that
  is built here is the list of its entries, which is printed in the order of the keys.
\<close>

section \<open>Statuses\<close>

type_synonym status_map = "(string \<times> string) list"

definition entry :: "(string \<times> 'a list) list \<Rightarrow> string \<Rightarrow> 'a list" where     \<comment> \<open>\<open>m[key]\<close>\<close>
  "entry m key = (case map_of m key of None \<Rightarrow> [] | Some v \<Rightarrow> v)"

definition set_entry :: "string \<Rightarrow> string \<Rightarrow> status_map \<Rightarrow> status_map" where     \<comment> \<open>\<open>m[key] = v\<close>\<close>
  "set_entry key v m = AList.update key v m"

definition experiment_repoRoot :: "final_env \<Rightarrow> string" where
  "experiment_repoRoot env = repoRoot (fe_exists env) (fe_getwd env)"

definition status_line :: "string \<Rightarrow> status_map \<Rightarrow> status_map" where
  "status_line line statuses = (case split_on (CHR 9) line of
       f0 # f1 # fs \<Rightarrow> if f0 \<noteq> [] then set_entry f0 f1 statuses else statuses
     | _ \<Rightarrow> statuses)"

definition readStepStatuses :: "final_env \<Rightarrow> string \<Rightarrow> status_map" where
  "readStepStatuses env path = (case fe_text env path of None \<Rightarrow> [] | Some data \<Rightarrow> fold status_line (split_on (CHR 10) data) [])"

definition results_dir :: "string \<Rightarrow> string" where
  "results_dir r = Join [r, ''experiments'', ''results'']"

definition finalRequiredFiles :: "string \<Rightarrow> (string \<times> string list) list" where
  "finalRequiredFiles r = (let results = results_dir r in [
     (''e1_scheduler'', [Join [results, ''e1'', ''e1_resource_aware.json''], Join [results, ''e1'', ''e1_resource_aware.csv''],
        Join [results, ''e1'', ''e1_resource_aware_decisions.json''], Join [results, ''e1'', ''e1_resource_aware_summary.md'']]),
     (''e1_pressure'', [Join [results, ''e1_pressure'', ''e1_pressure.json'']]),
     (''e2_fault_isolation'', [Join [results, ''e2-real-fault.json''], Join [results, ''e2-real-fault.csv'']]),
     (''e2_pressure_fault'', [Join [results, ''e2_pressure_fault'', ''e2_pressure_fault.json'']]),
     (''software_real_demo'', [Join [results, ''software_real_demo'', ''result.json'']]),
     (''workspace_probe'', [Join [results, ''workspace_probe.json'']]),
     (''workspace_rmrf'', [Join [results, ''workspace_isolation_evidence.json'']]),
     (''ebpf_observer'', [Join [results, ''ebpf_smoke'', ''ebpf_smoke.json'']]),
     (''ipc_shm'', [Join [results, ''ipc_shm'', ''ipc_shm_smoke.json'']]),
     (''cvm_memory'', [Join [results, ''cvm_memory'', ''cvm_memory_smoke.json'']]),
     (''deepseek_real_smoke'', [Join [results, ''deepseek_real'', ''deepseek_real_smoke.json'']]),
     (''replay'', [Join [results, ''replay'', ''replay_result.json'']])])"

definition realOnlyFiles :: "string \<Rightarrow> string list" where
  "realOnlyFiles r = (let results = results_dir r in [
     Join [results, ''real_env'', ''real_openeuler_env.json''],
     Join [results, ''real_cgroup_smoke'', ''real_cgroup_smoke.json''],
     Join [results, ''real_pressure_smoke'', ''real_pressure_smoke.json''],
     Join [results, ''deepseek_real'', ''deepseek_real_smoke.json''],
     Join [results, ''workspace_probe.json''],
     Join [results, ''workspace_isolation_evidence.json''],
     Join [results, ''tool_workspace_evidence.json''],
     Join [results, ''ebpf_smoke'', ''ebpf_smoke.json''],
     Join [results, ''ipc_shm'', ''ipc_shm_smoke.json''],
     Join [results, ''cvm_memory'', ''cvm_memory_smoke.json''],
     Join [results, ''replay'', ''replay_result.json''],
     Join [results, ''real_all'', ''REAL_EVIDENCE_INDEX.json'']])"

definition anyMissing :: "final_env \<Rightarrow> string list \<Rightarrow> bool" where
  "anyMissing env paths = list_ex (\<lambda>p. \<not> fe_exists env p) paths"

definition statusFromStepOrFiles :: "final_env \<Rightarrow> status_map \<Rightarrow> string \<Rightarrow> string list \<Rightarrow> bool \<Rightarrow> string" where
  "statusFromStepOrFiles env statuses step paths allowDegraded = (let status = entry statuses step in
     if status \<noteq> [] then (if status = ''passed'' \<and> anyMissing env paths then ''missing'' else status)
     else if paths = [] then ''missing''
     else if anyMissing env paths then ''missing''
     else if allowDegraded \<and> fst (inspectEvidenceFiles env paths) then ''degraded''
     else ''passed'')"

definition statusFromJSON :: "final_env \<Rightarrow> string \<Rightarrow> (jmap \<Rightarrow> bool) \<Rightarrow> string" where
  "statusFromJSON env path passed = (case readJSONMap env path of None \<Rightarrow> ''missing''
     | Some data \<Rightarrow> if passed data then ''passed'' else ''failed'')"

section \<open>When evidence counts as real\<close>

definition realEnvPassed :: "final_env \<Rightarrow> jmap \<Rightarrow> bool" where
  "realEnvPassed env data \<longleftrightarrow> list_all (boolField data) [''openEuler'', ''cgroup2fs'', ''root'', ''cgroup_writable'',
       ''memory_current_readable'', ''pids_current_readable'', ''cpu_stat_readable'', ''cgroup_kill_supported'',
       ''overlayfs_mount_success'']
     \<and> stringField env data ''evidence_mode'' = ''real-openeuler''"

definition realCgroupSmokePassed :: "final_env \<Rightarrow> jmap \<Rightarrow> bool" where
  "realCgroupSmokePassed env data \<longleftrightarrow> stringField env data ''evidence_mode'' = ModeRealCgroupV2
     \<and> boolField data ''worker_pid_attached'' \<and> boolField data ''memory_current_readable'' \<and> boolField data ''pids_current_readable''
     \<and> boolField data ''cpu_stat_readable'' \<and> boolField data ''freeze_success'' \<and> boolField data ''unfreeze_success''
     \<and> boolField data ''cgroup_kill_success'' \<and> boolField data ''destroy_success''"

definition realPressureSmokePassed :: "final_env \<Rightarrow> jmap \<Rightarrow> bool" where
  "realPressureSmokePassed env data \<longleftrightarrow> stringField env data ''evidence_mode'' = ModeRealCgroupV2
     \<and> stringField env data ''resource_sampler_mode'' = ModeRealCgroupV2 \<and> boolField data ''memory_hog_detected''
     \<and> boolField data ''pids_hog_detected'' \<and> boolField data ''cpu_pressure_detected''
     \<and> boolField data ''resource_aware_avoided_high_pressure_agent'' \<and> numberField data ''selected_high_pressure_agent_count'' = 0
     \<and> \<not> boolField data ''cascade_failure'' \<and> boolField data ''cleanup_success''"

definition workspaceProbePassed :: "final_env \<Rightarrow> jmap \<Rightarrow> bool" where
  "workspaceProbePassed env data \<longleftrightarrow> stringField env data ''evidence_mode'' = ModeRealOverlayFS \<and> boolField data ''linux''
     \<and> boolField data ''overlay_in_proc_filesystems'' \<and> boolField data ''mount_test_success'' \<and> boolField data ''merged_is_mountpoint''
     \<and> stringField env data ''selected_mode'' = ''overlayfs''"

definition workspaceRMFaultPassed :: "final_env \<Rightarrow> jmap \<Rightarrow> bool" where
  "workspaceRMFaultPassed env data \<longleftrightarrow> stringField env data ''evidence_mode'' = ModeRealOverlayFS
     \<and> stringField env data ''mode'' = ''overlayfs'' \<and> boolField data ''lowerdir_unchanged'' \<and> boolField data ''target_agent_affected''
     \<and> \<not> boolField data ''cascade_failure'' \<and> boolField data ''rollback_success'' \<and> boolField data ''merged_is_mountpoint''"

definition toolWorkspacePassed :: "final_env \<Rightarrow> jmap \<Rightarrow> bool" where
  "toolWorkspacePassed env data \<longleftrightarrow> stringField env data ''evidence_mode'' = ModeRealOverlayFS
     \<and> boolField data ''tool_exec_uses_workspace'' \<and> boolField data ''cwd_is_merged'' \<and> boolField data ''commit_on_success''
     \<and> boolField data ''rollback_on_failure'' \<and> boolField data ''repo_dir_untouched'' \<and> boolField data ''path_escape_blocked''
     \<and> boolField data ''symlink_escape_blocked''"

definition realAllPassed :: "final_env \<Rightarrow> jmap \<Rightarrow> bool" where
  "realAllPassed env data \<longleftrightarrow> stringField env data ''evidence_mode'' = ''real-openeuler'' \<and> boolField data ''all_passed''"

definition deepSeekRealSmokePassed :: "final_env \<Rightarrow> jmap \<Rightarrow> bool" where
  "deepSeekRealSmokePassed env data \<longleftrightarrow> stringField env data ''experiment'' = ''deepseek_real_smoke''
     \<and> stringField env data ''status'' = ''passed'' \<and> stringField env data ''evidence_mode'' = ModeRealAPI
     \<and> stringField env data ''provider'' = ''deepseek'' \<and> \<not> boolField data ''llm_mock'' \<and> boolField data ''request_success''
     \<and> boolField data ''response_non_empty'' \<and> numberField data ''status_code'' = 200 \<and> 0 < numberField data ''latency_ms''
     \<and> stringField env data ''api_key_source'' = ''env'' \<and> boolField data ''api_key_present'' \<and> boolField data ''api_key_redacted''
     \<and> boolField data ''cleanup_success''"

definition statusFromDeepSeekRealSmoke :: "final_env \<Rightarrow> string \<Rightarrow> bool \<Rightarrow> string" where
  "statusFromDeepSeekRealSmoke env path required = (case readJSONMap env path of
       None \<Rightarrow> if required then ''missing'' else ''skipped''
     | Some data \<Rightarrow> if deepSeekRealSmokePassed env data then ''passed''
         else if stringField env data ''status'' = ''skipped'' \<and> \<not> required then ''skipped'' else ''failed'')"

definition allRealOnlyRequiredPassed :: "status_map \<Rightarrow> bool \<Rightarrow> bool \<Rightarrow> bool" where
  "allRealOnlyRequiredPassed realOnly allPassed deepSeekRequired = (if \<not> allPassed then False
     else let required = [''real_env'', ''real_cgroup_smoke'', ''real_pressure_smoke'', ''workspace_probe'', ''workspace_rmrf'',
            ''tool_workspace'', ''real_all''];
            required1 = (if deepSeekRequired then required @ [''deepseek_real_smoke''] else required)
       in list_all (\<lambda>key. entry realOnly key = ''passed'') required1)"

section \<open>Summaries\<close>

definition evidenceModeFromPath :: "final_env \<Rightarrow> string \<Rightarrow> string \<Rightarrow> string" where
  "evidenceModeFromPath env path fallback = (case readJSONMap env path of None \<Rightarrow> fallback
     | Some data \<Rightarrow> fallbackOr (stringField env data ''evidence_mode'') fallback)"

definition buildEvidenceModeSummary :: "final_env \<Rightarrow> string \<Rightarrow> status_map \<Rightarrow> status_map" where
  "buildEvidenceModeSummary env r realOnly = (let
       results = results_dir r;
       workspaceMode = evidenceModeFromPath env (Join [results, ''workspace_probe.json'']) ''missing'';
       toolMode = evidenceModeFromPath env (Join [results, ''tool_workspace_evidence.json'']) ''missing'';
       cgroupMode = (if entry realOnly ''real_cgroup_smoke'' = ''passed'' then ModeRealCgroupV2 else ''degraded'');
       samplerMode = (if entry realOnly ''real_pressure_smoke'' = ''passed'' then ModeRealCgroupV2 else ''degraded'');
       ds = entry realOnly ''deepseek_real_smoke'';
       llmMode = (if ds = ''passed'' then ModeRealAPI else if ds = ''failed'' then ''failed'' else ModeMock)
     in [(''cgroup_capsule'', cgroupMode), (''worker_process'', ModeRealRuntime), (''resource_sampler'', samplerMode),
         (''workspace_overlayfs'', workspaceMode), (''tool_workspace'', toolMode), (''scheduler'', ModeRealRuntime),
         (''cvm'', evidenceModeFromPath env (Join [results, ''cvm_memory'', ''cvm_memory_smoke.json'']) ''real-partial''),
         (''ipc'', ''real-partial + '' @ evidenceModeFromPath env (Join [results, ''ipc_shm'', ''ipc_shm_smoke.json'']) ''real-shm-ipc optional''),
         (''llm'', llmMode),
         (''ebpf'', evidenceModeFromPath env (Join [results, ''ebpf_smoke'', ''ebpf_smoke.json'']) ModeDegraded),
         (''replay'', evidenceModeFromPath env (Join [results, ''replay'', ''replay_result.json'']) ModeRealRuntime)])"

definition allowedDegradedEvidence :: "final_env \<Rightarrow> string \<Rightarrow> status_map \<Rightarrow> status_map" where
  "allowedDegradedEvidence env r generic = (if entry generic ''ebpf_observer'' \<noteq> ''degraded'' then []
     else case readJSONMap env (Join [results_dir r, ''ebpf_smoke'', ''ebpf_smoke.json'']) of None \<Rightarrow> []
       | Some data \<Rightarrow> if stringField env data ''evidence_mode'' \<noteq> ModeDegraded then []
           else [(''ebpf_observer'', fallbackOr (stringField env data ''fallback_reason'') ''eBPF observer did not attach'')])"

text \<open>\<open>appendUnique\<close> drops empty strings and those seen before.\<close>

fun append_unique_loop :: "string list \<Rightarrow> string list \<Rightarrow> string list" where
  "append_unique_loop seen [] = []"
| "append_unique_loop seen (v # vs) = (if v = [] \<or> v \<in> set seen then append_unique_loop seen vs else v # append_unique_loop (v # seen) vs)"

definition appendUnique :: "string list \<Rightarrow> string list" where
  "appendUnique = append_unique_loop []"

definition buildKnownLimits :: "final_env \<Rightarrow> string \<Rightarrow> status_map \<Rightarrow> status_map \<Rightarrow> string list" where
  "buildKnownLimits env r realOnly generic = appendUnique (
     (if entry generic ''workspace_probe'' = ''degraded'' \<or> entry generic ''workspace_isolation'' = ''degraded''
      then [''Portable workspace checks may use degraded-copy fallback when overlayfs is unavailable.''] else [])
     @ [''Portable E1 benchmark may use degraded pressure fallback; real-pressure-smoke proves real-cgroup-v2 ResourceSampler on openEuler.'']
     @ (if entry realOnly ''real_pressure_smoke'' \<noteq> ''passed''
        then [''Current local final evidence does not prove real-pressure-smoke; run scripts/competition_verify_real.sh on root openEuler.'']
        else [])
     @ (if readJSONMap env (Join [results_dir r, ''real_all'', ''REAL_EVIDENCE_INDEX.json'']) = None
        then [''real-all evidence is missing.''] else [])
     @ (if evidenceModeFromPath env (Join [results_dir r, ''ebpf_smoke'', ''ebpf_smoke.json'']) ModeDegraded \<noteq> ''real-ebpf''
        then [''eBPF observer experimental path implemented; current submitted evidence is degraded unless openEuler/Linux smoke reports real-ebpf.'']
        else []))"

definition flattenRequired :: "(string \<times> string list) list \<Rightarrow> string list \<Rightarrow> string list" where
  "flattenRequired groups extra = appendUnique (extra @ concat (map (entry groups) (sort_strings (map fst groups))))"

definition evidenceDisplayPath :: "final_env \<Rightarrow> string \<Rightarrow> string" where
  "evidenceDisplayPath env path = (if \<not> IsAbs path then path
     else case Rel (experiment_repoRoot env) path of Inl _ \<Rightarrow> path
       | Inr rel \<Rightarrow> if HasPrefix rel ''..'' then path else rel)"

definition splitExistingFiles :: "final_env \<Rightarrow> string list \<Rightarrow> string list \<times> string list" where
  "splitExistingFiles env paths = (let ps = appendUnique paths in
     (map (evidenceDisplayPath env) (filter (fe_exists env) ps),
      map (evidenceDisplayPath env) (filter (\<lambda>p. \<not> fe_exists env p) ps)))"

section \<open>Where the evidence comes from\<close>

record FinalGitInfo =
  fg_Commit :: string
  fg_Branch :: string
  fg_Dirty :: bool

record FinalSystemInfo =
  fy_OSRelease :: string
  fy_Kernel :: string
  fy_CgroupFSType :: string
  fy_GoVersion :: string

definition commandOutput :: "final_env \<Rightarrow> string \<Rightarrow> string \<Rightarrow> string list \<Rightarrow> string" where
  "commandOutput env dir name args = (case fe_output env dir name args of None \<Rightarrow> [] | Some out \<Rightarrow> TrimSpace out)"

definition readTextFile :: "final_env \<Rightarrow> string \<Rightarrow> string" where
  "readTextFile env path = (case fe_text env path of None \<Rightarrow> [] | Some data \<Rightarrow> TrimSpace data)"

fun cut_arrow :: "string \<Rightarrow> (string \<times> string) option" where     \<comment> \<open>\<open>strings.Cut(s, " -> ")\<close>\<close>
  "cut_arrow [] = None"
| "cut_arrow (c # cs) = (if HasPrefix (c # cs) '' -> '' then Some ([], drop 3 cs)
     else map_option (\<lambda>(l, r). (c # l, r)) (cut_arrow cs))"

definition gitDirtyPathIsGeneratedEvidence :: "string \<Rightarrow> bool" where
  "gitDirtyPathIsGeneratedEvidence line = (if length line < 4 then False
     else let path = TrimSpace (drop 3 line);
              path1 = (case cut_arrow path of Some (renamed, _) \<Rightarrow> TrimSpace renamed | None \<Rightarrow> path)
       in HasPrefix path1 ''experiments/results/'')"

definition gitDirtyFromPorcelain :: "string \<Rightarrow> bool" where
  "gitDirtyFromPorcelain status = list_ex (\<lambda>line. \<not> (TrimSpace line = [] \<or> HasPrefix line ''??'')
     \<and> \<not> gitDirtyPathIsGeneratedEvidence line) (split_on (CHR 10) status)"

definition collectGitInfo :: "final_env \<Rightarrow> string \<Rightarrow> FinalGitInfo" where
  "collectGitInfo env r = \<lparr>fg_Commit = fallbackOr (commandOutput env r ''git'' [''rev-parse'', ''HEAD'']) ''missing'',
     fg_Branch = fallbackOr (commandOutput env r ''git'' [''branch'', ''--show-current'']) ''missing'',
     fg_Dirty = gitDirtyFromPorcelain (commandOutput env r ''git'' [''status'', ''--porcelain'', ''--untracked-files=no'', ''--'', ''.'',
       '':(exclude)experiments/results/**''])\<rparr>"

definition collectSystemInfo :: "final_env \<Rightarrow> FinalSystemInfo" where
  "collectSystemInfo env = \<lparr>fy_OSRelease = fallbackOr (readTextFile env ''/etc/os-release'') (fe_goos env),
     fy_Kernel = fallbackOr (commandOutput env [] ''uname'' [''-a'']) (fe_goos env @ ''/'' @ fe_goarch env),
     fy_CgroupFSType = fallbackOr (commandOutput env [] ''stat'' [''-fc'', ''%T'', ''/sys/fs/cgroup'']) ''missing'',
     fy_GoVersion = fe_goversion env\<rparr>"

section \<open>The index\<close>

record FinalEvidenceIndex =
  fx_Timestamp :: string
  fx_Git :: FinalGitInfo
  fx_System :: FinalSystemInfo
  fx_GitCommit :: string
  fx_GitBranch :: string
  fx_GitDirty :: bool
  fx_OSRelease :: string
  fx_Kernel :: string
  fx_CgroupFSType :: string
  fx_GoVersion :: string
  fx_GenericCompetitionVerify :: status_map
  fx_RealOnlyOpenEuler :: status_map
  fx_EvidenceModeSummary :: status_map
  fx_RealOnlySummary :: "(string \<times> bool) list"
  fx_EBPFObserver :: string
  fx_IPCShm :: string
  fx_CVMMemory :: string
  fx_Replay :: string
  fx_DeepSeekRealSmoke :: string
  fx_AllowedDegraded :: status_map
  fx_GeneratedFiles :: "string list"
  fx_MissingFiles :: "string list"
  fx_KnownLimits :: "string list"

definition generic_statuses :: "final_env \<Rightarrow> status_map \<Rightarrow> (string \<times> string list) list \<Rightarrow> status_map" where
  "generic_statuses env statuses required = (let status = statusFromStepOrFiles env statuses; files = entry required in [
     (''go_test'', status ''go_test'' [] False),
     (''smoke'', status ''smoke'' [] True),
     (''e1_scheduler'', status ''e1_scheduler'' (files ''e1_scheduler'') False),
     (''e1_pressure'', status ''e1_pressure'' (files ''e1_pressure'') False),
     (''e2_fault_isolation'', status ''e2_fault_isolation'' (files ''e2_fault_isolation'') False),
     (''e2_pressure_fault'', status ''e2_pressure_fault'' (files ''e2_pressure_fault'') False),
     (''software_real_demo'', status ''software_real_demo'' (files ''software_real_demo'') False),
     (''workspace_probe'', status ''workspace_probe'' (files ''workspace_probe'') True),
     (''workspace_isolation'', status ''workspace_isolation'' (files ''workspace_rmrf'') True),
     (''ebpf_observer'', status ''ebpf_observer'' (files ''ebpf_observer'') True),
     (''ipc_shm'', status ''ipc_shm'' (files ''ipc_shm'') True),
     (''cvm_memory'', status ''cvm_memory'' (files ''cvm_memory'') False),
     (''replay'', status ''replay'' (files ''replay'') False)])"

definition allow_degraded :: "status_map \<Rightarrow> status_map \<Rightarrow> status_map" where
  "allow_degraded allowed generic = fold (\<lambda>(key, _) g. if entry g key = ''degraded'' then set_entry key ''allowed_degraded'' g else g)
     allowed generic"

definition real_only_statuses :: "final_env \<Rightarrow> string \<Rightarrow> bool \<Rightarrow> status_map" where
  "real_only_statuses env r deepSeekRequired = (let results = results_dir r in [
     (''real_env'', statusFromJSON env (Join [results, ''real_env'', ''real_openeuler_env.json'']) (realEnvPassed env)),
     (''real_cgroup_smoke'', statusFromJSON env (Join [results, ''real_cgroup_smoke'', ''real_cgroup_smoke.json'']) (realCgroupSmokePassed env)),
     (''real_pressure_smoke'',
       statusFromJSON env (Join [results, ''real_pressure_smoke'', ''real_pressure_smoke.json'']) (realPressureSmokePassed env)),
     (''deepseek_real_smoke'',
       statusFromDeepSeekRealSmoke env (Join [results, ''deepseek_real'', ''deepseek_real_smoke.json'']) deepSeekRequired),
     (''workspace_probe'', statusFromJSON env (Join [results, ''workspace_probe.json'']) (workspaceProbePassed env)),
     (''workspace_rmrf'', statusFromJSON env (Join [results, ''workspace_isolation_evidence.json'']) (workspaceRMFaultPassed env)),
     (''tool_workspace'', statusFromJSON env (Join [results, ''tool_workspace_evidence.json'']) (toolWorkspacePassed env)),
     (''real_all'', statusFromJSON env (Join [results, ''real_all'', ''REAL_EVIDENCE_INDEX.json'']) (realAllPassed env))])"

definition or_empty :: "jmap option \<Rightarrow> jmap" where     \<comment> \<open>the map when the read fails\<close>
  "or_empty m = (case m of None \<Rightarrow> [] | Some data \<Rightarrow> data)"

definition real_only_summary :: "final_env \<Rightarrow> jmap \<Rightarrow> status_map \<Rightarrow> bool \<Rightarrow> (string \<times> bool) list" where
  "real_only_summary env realEnv realOnly allPassed = [
     (''openEuler'', boolField realEnv ''openEuler''),
     (''cgroup2fs'', boolField realEnv ''cgroup2fs''),
     (''root'', boolField realEnv ''root''),
     (''cgroup_kill_supported'', boolField realEnv ''cgroup_kill_supported''),
     (''overlayfs_mount_success'', boolField realEnv ''overlayfs_mount_success''),
     (''real_cgroup_v2'', entry realOnly ''real_cgroup_smoke'' = ''passed''),
     (''real_resource_sampler'', entry realOnly ''real_pressure_smoke'' = ''passed''),
     (''deepseek_real_api'', entry realOnly ''deepseek_real_smoke'' = ''passed''),
     (''real_overlayfs'', entry realOnly ''workspace_probe'' = ''passed'' \<and> entry realOnly ''workspace_rmrf'' = ''passed''),
     (''real_workspace_tool_exec'', entry realOnly ''tool_workspace'' = ''passed''),
     (''all_passed'', allPassed)]"

definition final_index :: "final_env \<Rightarrow> string \<Rightarrow> string \<Rightarrow> FinalEvidenceIndex" where
  "final_index env timestamp outDir = (let
       r = experiment_repoRoot env;
       results = results_dir r;
       statuses = readStepStatuses env (Join [results, ''final'', ''step_status.tsv'']);
       required = finalRequiredFiles r;
       git = collectGitInfo env r;
       sys = collectSystemInfo env;
       generic0 = generic_statuses env statuses required;
       allowedDegraded = allowedDegradedEvidence env r generic0;
       generic = allow_degraded allowedDegraded generic0;
       deepSeekRequired = fe_getenv env ''AORT_ENABLE_REAL_LLM'' = ''1'';
       realOnly = real_only_statuses env r deepSeekRequired;
       realEnv = or_empty (readJSONMap env (Join [results, ''real_env'', ''real_openeuler_env.json'']));
       realAll = or_empty (readJSONMap env (Join [results, ''real_all'', ''REAL_EVIDENCE_INDEX.json'']));
       (generated, missing) = splitExistingFiles env (flattenRequired required (realOnlyFiles r));
       realOnlyAllPassed = allRealOnlyRequiredPassed realOnly (boolField realAll ''all_passed'') deepSeekRequired
     in \<lparr>fx_Timestamp = timestamp, fx_Git = git, fx_System = sys, fx_GitCommit = fg_Commit git, fx_GitBranch = fg_Branch git,
         fx_GitDirty = fg_Dirty git, fx_OSRelease = fy_OSRelease sys, fx_Kernel = fy_Kernel sys,
         fx_CgroupFSType = fy_CgroupFSType sys, fx_GoVersion = fy_GoVersion sys, fx_GenericCompetitionVerify = generic,
         fx_RealOnlyOpenEuler = realOnly, fx_EvidenceModeSummary = buildEvidenceModeSummary env r realOnly,
         fx_RealOnlySummary = real_only_summary env realEnv realOnly realOnlyAllPassed,
         fx_EBPFObserver = evidenceModeFromPath env (Join [results, ''ebpf_smoke'', ''ebpf_smoke.json'']) ModeDegraded,
         fx_IPCShm = evidenceModeFromPath env (Join [results, ''ipc_shm'', ''ipc_shm_smoke.json'']) ''missing'',
         fx_CVMMemory = evidenceModeFromPath env (Join [results, ''cvm_memory'', ''cvm_memory_smoke.json'']) ''missing'',
         fx_Replay = evidenceModeFromPath env (Join [results, ''replay'', ''replay_result.json'']) ''missing'',
         fx_DeepSeekRealSmoke = entry realOnly ''deepseek_real_smoke'', fx_AllowedDegraded = allowedDegraded,
         fx_GeneratedFiles = appendUnique (generated
           @ [Join [outDir, ''FINAL_EVIDENCE_INDEX.json''], Join [outDir, ''FINAL_SUMMARY.md'']]),
         fx_MissingFiles = missing, fx_KnownLimits = buildKnownLimits env r realOnly generic\<rparr>)"

section \<open>The printed summary\<close>

definition line :: "string \<Rightarrow> string" where
  "line s = s @ [CHR 10]"

definition quoted :: "string \<Rightarrow> string" where
  "quoted s = CHR 0x60 # s @ [CHR 0x60]"

definition writeStatusTable :: "string \<Rightarrow> status_map \<Rightarrow> string" where
  "writeStatusTable title values = line (''## '' @ title) @ line ''| evidence | status |'' @ line ''| --- | --- |''
     @ concat (map (\<lambda>key. line (''| '' @ key @ '' | '' @ entry values key @ '' |'')) (sort_strings (map fst values))) @ line []"

definition writeKeyValueList :: "status_map \<Rightarrow> string" where
  "writeKeyValueList values = concat (map (\<lambda>key. line (''- '' @ key @ '': '' @ entry values key)) (sort_strings (map fst values)))"

definition renderFinalSummary :: "FinalEvidenceIndex \<Rightarrow> string" where
  "renderFinalSummary index =
     line ''# AORT-R Final Evidence Summary'' @ line [] @ line ''## Overall conclusion''
     @ line (if map_of (fx_RealOnlySummary index) ''all_passed'' = Some True
         then ''- Real-only openEuler evidence is present and all required real checks passed.''
         else ''- Final index was generated from existing evidence; missing or failed real-only checks are listed below.'')
     @ line (''- Git commit: '' @ quoted (fx_GitCommit index))
     @ line (''- Git branch: '' @ quoted (fx_GitBranch index))
     @ line (''- git_dirty: '' @ quoted (if fx_GitDirty index then ''true'' else ''false'')) @ line []
     @ writeStatusTable ''generic evidence'' (fx_GenericCompetitionVerify index)
     @ writeStatusTable ''real-only openEuler evidence'' (fx_RealOnlyOpenEuler index)
     @ line ''## evidence_mode_summary'' @ writeKeyValueList (fx_EvidenceModeSummary index)
     @ line [] @ line ''## known_limits''
     @ (if fx_KnownLimits index = [] then line ''- none'' else concat (map (\<lambda>item. line (''- '' @ item)) (fx_KnownLimits index)))
     @ line [] @ line ''## allowed_degraded''
     @ (if fx_AllowedDegraded index = [] then line ''- none'' else writeKeyValueList (fx_AllowedDegraded index))
     @ line [] @ line ''## Key file paths''
     @ line (''- '' @ quoted ''experiments/results/final/FINAL_EVIDENCE_INDEX.json'')
     @ line (''- '' @ quoted ''experiments/results/final/FINAL_SUMMARY.md'')
     @ line (''- '' @ quoted ''experiments/results/real_all/REAL_EVIDENCE_INDEX.json'')
     @ line (''- '' @ quoted ''experiments/results/real_all/REAL_VERIFY_SUMMARY.json'')
     @ line [] @ line ''## fresh clone verification'' @ line ([CHR 0x60, CHR 0x60, CHR 0x60] @ ''bash'')
     @ line ''git clone git@github.com:yxyyyyyyyy/os_complete.git'' @ line ''cd os_complete''
     @ line ''bash scripts/competition_verify_real.sh'' @ line [CHR 0x60, CHR 0x60, CHR 0x60]"

text \<open>\<open>write_json\<close> and \<open>write_text\<close> are the errors of writing the two files.\<close>

definition WriteFinalEvidence ::
    "final_env \<Rightarrow> (string \<Rightarrow> FinalEvidenceIndex \<Rightarrow> go_error option) \<Rightarrow> (string \<Rightarrow> string \<Rightarrow> go_error option) \<Rightarrow> string \<Rightarrow> string
     \<Rightarrow> FinalEvidenceIndex \<times> go_error option" where
  "WriteFinalEvidence env write_json write_text timestamp outDir0 = (let
       outDir = (if outDir0 = [] then Join [''experiments'', ''results'', ''final''] else outDir0);
       index = final_index env timestamp outDir
     in case write_json (Join [outDir, ''FINAL_EVIDENCE_INDEX.json'']) index of
          Some e \<Rightarrow> (index, Some e)
        | None \<Rightarrow> (index, write_text (Join [outDir, ''FINAL_SUMMARY.md'']) (renderFinalSummary index)))"

end
