(* ===== verification/FinalCorrect.thy ===== *)
theory FinalCorrect
  imports FinalIndex
begin

text \<open>
  Correctness of the evidence index: what counts as degraded does not depend on the order in which a map is
  visited, a run of all experiments sorts every step into exactly one list, and the index says that all
  real checks have passed exactly when every result file says so.
\<close>

section \<open>Degraded evidence\<close>

text \<open>All objects inside a decoded value.\<close>

fun objects :: "Json \<Rightarrow> jmap list" where
  "objects (JObj m) = m # concat (map (\<lambda>kv. objects (snd kv)) m)"
| "objects (JArr vs) = concat (map objects vs)"
| "objects _ = []"

definition says :: "jmap \<Rightarrow> string \<Rightarrow> string \<Rightarrow> bool" where
  "says m key s \<longleftrightarrow> map_of m key = Some (JStr s)"

definition flagged :: "jmap \<Rightarrow> bool" where
  "flagged m \<longleftrightarrow> (\<exists>mode. says m ''evidence_mode'' mode \<and> (mode = ''missing'' \<or> Contains mode ''degraded''))
     \<or> (\<exists>key \<in> {''fallback_reason'', ''failure_reason'', ''error''}. \<exists>reason. says m key reason \<and> reason \<noteq> [])"

lemma str_of_says: "str_of m key \<noteq> [] \<longleftrightarrow> (\<exists>s. says m key s \<and> s \<noteq> [])"
  by (auto simp: str_of_def says_def split: option.splits Json.splits)

lemma degradedEvidenceMode_nonempty: "degradedEvidenceMode mode \<Longrightarrow> mode \<noteq> []"
  by (auto simp: degradedEvidenceMode_def ModeMissing_def)

lemma flagged_code: "flagged m \<longleftrightarrow> degradedEvidenceMode (str_of m ''evidence_mode'') \<or> first_fallback m \<noteq> []"
proof -
  have "degradedEvidenceMode (str_of m ''evidence_mode'')
      \<longleftrightarrow> (\<exists>mode. says m ''evidence_mode'' mode \<and> (mode = ''missing'' \<or> Contains mode ''degraded''))"
    by (auto simp: str_of_def says_def degradedEvidenceMode_def ModeMissing_def split: option.splits Json.splits)
  moreover have "first_fallback m \<noteq> []
      \<longleftrightarrow> (\<exists>key \<in> {''fallback_reason'', ''failure_reason'', ''error''}. \<exists>reason. says m key reason \<and> reason \<noteq> [])"
    using str_of_says [of m "''fallback_reason''"] str_of_says [of m "''failure_reason''"] str_of_says [of m "''error''"]
    by (auto simp: first_fallback_def fallbackOr_def)
  ultimately show ?thesis by (simp add: flagged_def)
qed

lemma map_loop_result:
  assumes "\<forall>r \<in> set rs. fst r \<longrightarrow> snd r \<noteq> []" and "map_loop mode modeDegraded rs fallback = (b, out)"
  shows "b \<longleftrightarrow> \<not> modeDegraded \<and> (\<exists>r \<in> set rs. fst r)" and "b \<Longrightarrow> out \<noteq> []" and "\<not> b \<Longrightarrow> \<not> modeDegraded \<Longrightarrow> out = fallback"
  using assms
  by (induction mode modeDegraded rs fallback rule: map_loop.induct) (auto simp: Let_def split: if_splits)

lemma map_verdict_result:
  assumes "\<forall>r \<in> set rs. fst r \<longrightarrow> snd r \<noteq> []"
  shows "fst (map_verdict m rs) \<longleftrightarrow> flagged m \<or> (\<exists>r \<in> set rs. fst r)" and "fst (map_verdict m rs) \<longleftrightarrow> snd (map_verdict m rs) \<noteq> []"
proof -
  let ?mode = "str_of m ''evidence_mode''"
  obtain b out where l: "map_loop ?mode (degradedEvidenceMode ?mode) rs (first_fallback m) = (b, out)" by (rule prod.exhaust)
  note r = map_loop_result [OF assms l]
  note m = degradedEvidenceMode_nonempty [of ?mode]
  show "fst (map_verdict m rs) \<longleftrightarrow> flagged m \<or> (\<exists>r \<in> set rs. fst r)"
    using r m l by (cases b; cases "degradedEvidenceMode ?mode") (auto simp: map_verdict_def Let_def flagged_code fallbackOr_def)
  show "fst (map_verdict m rs) \<longleftrightarrow> snd (map_verdict m rs) \<noteq> []"
    using r m l by (cases b; cases "degradedEvidenceMode ?mode") (auto simp: map_verdict_def Let_def fallbackOr_def)
qed

lemma first_true_result:
  "fst (first_true rs) \<longleftrightarrow> (\<exists>r \<in> set rs. fst r)" "(\<forall>r \<in> set rs. fst r \<longrightarrow> snd r \<noteq> []) \<Longrightarrow> fst (first_true rs) \<longleftrightarrow> snd (first_true rs) \<noteq> []"
  by (induction rs rule: first_true.induct) auto

lemma inspectEvidenceValue_result:
  "(fst (inspectEvidenceValue v) \<longleftrightarrow> (\<exists>m \<in> set (objects v). flagged m))
   \<and> (fst (inspectEvidenceValue v) \<longleftrightarrow> snd (inspectEvidenceValue v) \<noteq> [])"
proof (induction v rule: inspectEvidenceValue.induct)
  case (1 m)
  let ?rs = "map (\<lambda>kv. inspectEvidenceValue (snd kv)) m"
  have "\<forall>r \<in> set ?rs. fst r \<longrightarrow> snd r \<noteq> []" using 1 by auto
  from map_verdict_result [OF this, of m] 1 show ?case by auto
next
  case (2 vs)
  then show ?case using first_true_result [of "map inspectEvidenceValue vs"] by auto
qed simp_all

text \<open>
  C10. A result file counts as degraded exactly when some object inside it names a missing or degraded
  evidence mode, or a fallback reason, a failure reason or an error; the reason that is reported is then
  not empty. In particular the verdict does not depend on the order in which Go visits a map.
\<close>

theorem degraded_evidence_found:
  "fst (inspectEvidenceValue v) = (\<exists>m \<in> set (objects v). flagged m)
   \<and> fst (inspectEvidenceValue v) = (snd (inspectEvidenceValue v) \<noteq> [])"
  using inspectEvidenceValue_result [of v] by blast

section \<open>A run of all experiments\<close>

text \<open>Whether a result file contains degraded evidence.\<close>

definition file_flagged :: "final_env \<Rightarrow> string \<Rightarrow> bool" where
  "file_flagged env p \<longleftrightarrow> (\<exists>v m. fe_json env p = Some v \<and> m \<in> set (objects v) \<and> flagged m)"

lemma inspectEvidenceFiles_flagged: "fst (inspectEvidenceFiles env ps) \<longleftrightarrow> (\<exists>p \<in> set ps. file_flagged env p)"
  using inspectEvidenceValue_result
  by (fastforce simp: inspectEvidenceFiles_def first_true_result file_flagged_def split: option.splits)

definition step_statuses :: "string list" where
  "step_statuses = [''passed'', ''failed'', ''degraded'', ''skipped'', ''missing'']"

text \<open>What a step records of a run that ended with \<open>err\<close> and left the world as \<open>env\<close> shows it.\<close>

lemma classify_step_result:
  assumes "st = classify_step env name command expected err"
  shows "as_Name st = name" "as_Status st \<in> set step_statuses" "as_GeneratedFiles st = filter (fe_exists env) expected"
    "as_Status st = ''degraded'' \<Longrightarrow> as_FallbackReason st \<noteq> []"
    "as_Status st = ''missing'' \<Longrightarrow> as_GeneratedFiles st = []"
    "as_Status st = ''passed'' \<Longrightarrow> err = None \<and> as_GeneratedFiles st \<noteq> [] \<and> \<not> fst (inspectEvidenceFiles env (as_GeneratedFiles st))"
    "as_Status st = ''failed'' \<Longrightarrow> err \<noteq> None"
proof -
  let ?files = "filter (fe_exists env) expected"
  obtain skipped skipReason where 1: "inspectSkippedEvidence env ?files = (skipped, skipReason)" by (rule prod.exhaust)
  obtain degraded fallback where 2: "inspectEvidenceFiles env ?files = (degraded, fallback)" by (rule prod.exhaust)
  note st = assms [unfolded classify_step_def Let_def existingFiles_def 1 2 prod.case]
  show "as_Name st = name" "as_Status st \<in> set step_statuses" "as_GeneratedFiles st = ?files"
    "as_Status st = ''degraded'' \<Longrightarrow> as_FallbackReason st \<noteq> []" "as_Status st = ''missing'' \<Longrightarrow> as_GeneratedFiles st = []"
    "as_Status st = ''passed'' \<Longrightarrow> err = None \<and> as_GeneratedFiles st \<noteq> [] \<and> \<not> fst (inspectEvidenceFiles env (as_GeneratedFiles st))"
    "as_Status st = ''failed'' \<Longrightarrow> err \<noteq> None"
    by (cases skipped; cases "?files = []"; cases err; cases degraded;
        simp add: st step_statuses_def fallbackOr_def 2 split: if_splits)+
qed

definition step_of :: "('k \<Rightarrow> final_env) \<Rightarrow> (string \<Rightarrow> 'k \<Rightarrow> string option \<times> 'k) \<Rightarrow> AllStep \<Rightarrow> bool" where
  "step_of view run st \<longleftrightarrow> (\<exists>k0 k1 (spec :: AllSpec) err. run (sp_name spec) k0 = (err, k1)
     \<and> st = classify_step (view k1) (sp_name spec) (sp_command spec) (sp_expected spec) err)"

lemma step_of_status: "step_of view run st \<Longrightarrow> as_Status st \<in> set step_statuses"
  unfolding step_of_def using classify_step_result(2) by blast

lemma run_specs_append:
  assumes "run_specs view run specs s k = (s', k')"
  shows "\<exists>steps. s' = foldl add_step s steps \<and> map as_Name steps = map sp_name specs \<and> (\<forall>st \<in> set steps. step_of view run st)"
  using assms
proof (induction specs arbitrary: s k)
  case (Cons spec specs)
  obtain err k1 where r: "run (sp_name spec) k = (err, k1)" by (rule prod.exhaust)
  let ?st = "classify_step (view k1) (sp_name spec) (sp_command spec) (sp_expected spec) err"
  have "run_specs view run specs (add_step s ?st) k1 = (s', k')" using Cons.prems by (simp add: r)
  from Cons.IH [OF this] obtain steps where steps: "s' = foldl add_step (add_step s ?st) steps"
    "map as_Name steps = map sp_name specs" "\<forall>st \<in> set steps. step_of view run st" by blast
  have "step_of view run ?st" using r by (auto simp: step_of_def)
  with steps classify_step_result(1) [OF refl, of "view k1"] show ?case by (intro exI [of _ "?st # steps"]) simp
qed simp

abbreviation with_status :: "string \<Rightarrow> AllStep list \<Rightarrow> string list" where
  "with_status x steps \<equiv> map as_Name (filter (\<lambda>st. as_Status st = x) steps)"

lemma foldl_add_step:
  "\<forall>st \<in> set steps. as_Status st \<in> set step_statuses \<Longrightarrow> s' = foldl add_step s steps \<Longrightarrow>
     al_Steps s' = al_Steps s @ steps \<and> al_Passed s' = al_Passed s @ with_status ''passed'' steps
     \<and> al_Failed s' = al_Failed s @ with_status ''failed'' steps \<and> al_Degraded s' = al_Degraded s @ with_status ''degraded'' steps
     \<and> al_Skipped s' = al_Skipped s @ with_status ''skipped'' steps \<and> al_Missing s' = al_Missing s @ with_status ''missing'' steps"
  by (induction steps arbitrary: s) (auto simp: add_step_def Let_def step_statuses_def)


text \<open>A world in which every result file exists and holds an empty object, and no experiment fails.\<close>

definition calm_env :: final_env where
  "calm_env = \<lparr>fe_exists = (\<lambda>_. True), fe_json = (\<lambda>_. Some (JObj [])), fe_text = (\<lambda>_. None), fe_sprint = (\<lambda>_. []),
     fe_output = (\<lambda>_ _ _. None), fe_getwd = Inr ''/repo'', fe_getenv = (\<lambda>_. []), fe_goos = ''linux'', fe_goarch = ''amd64'',
     fe_goversion = ''go1.22''\<rparr>"


text \<open>A step passes when only one of its four files has been written.\<close>

lemma one_file_passes:
  "as_Status (classify_step (calm_env\<lparr>fe_exists := (\<lambda>p. p = ''e1.json'')\<rparr>) ''e1'' [] [''e1.json'', ''e1.csv'', ''d.json'', ''s.md''] None)
     = ''passed''"
  by code_simp

section \<open>The final index\<close>

lemma statusFromJSON_passed:
  "statusFromJSON env path passed = ''passed'' \<longleftrightarrow> (case readJSONMap env path of None \<Rightarrow> False | Some data \<Rightarrow> passed data)"
  by (simp add: statusFromJSON_def split: option.split)

lemma statusFromDeepSeek_passed:
  "statusFromDeepSeekRealSmoke env path required = ''passed''
     \<longleftrightarrow> (case readJSONMap env path of None \<Rightarrow> False | Some data \<Rightarrow> deepSeekRealSmokePassed env data)"
  by (simp add: statusFromDeepSeekRealSmoke_def split: option.split)

lemma final_index_all_passed:
  "map_of (fx_RealOnlySummary (final_index env ts out)) ''all_passed''
     = Some (allRealOnlyRequiredPassed (real_only_statuses env (experiment_repoRoot env) (fe_getenv env ''AORT_ENABLE_REAL_LLM'' = ''1''))
         (boolField (or_empty (readJSONMap env (Join [results_dir (experiment_repoRoot env), ''real_all'', ''REAL_EVIDENCE_INDEX.json''])))
            ''all_passed'') (fe_getenv env ''AORT_ENABLE_REAL_LLM'' = ''1''))"
  by (simp add: final_index_def Let_def real_only_summary_def split: prod.split)

lemma allRealOnlyRequiredPassed_all:
  "allRealOnlyRequiredPassed m allPassed required \<longleftrightarrow> allPassed \<and> (\<forall>key \<in> {''real_env'', ''real_cgroup_smoke'', ''real_pressure_smoke'',
      ''workspace_probe'', ''workspace_rmrf'', ''tool_workspace'', ''real_all''}. entry m key = ''passed'')
    \<and> (required \<longrightarrow> entry m ''deepseek_real_smoke'' = ''passed'')"
  by (simp add: allRealOnlyRequiredPassed_def Let_def)

text \<open>
  C11. The final index says that all real checks have passed exactly when each of the seven result files, and
  that of the language model when it is required, can be read and records success.
\<close>

theorem final_all_passed:
  "(map_of (fx_RealOnlySummary (fst (WriteFinalEvidence env write_json write_text timestamp outDir))) ''all_passed'' = Some True)
   = list_all (\<lambda>(path, passed). case readJSONMap env (Join (results_dir (experiment_repoRoot env) # path)) of
         None \<Rightarrow> False | Some data \<Rightarrow> passed data)
       ([([''real_env'', ''real_openeuler_env.json''], realEnvPassed env),
         ([''real_cgroup_smoke'', ''real_cgroup_smoke.json''], realCgroupSmokePassed env),
         ([''real_pressure_smoke'', ''real_pressure_smoke.json''], realPressureSmokePassed env),
         ([''workspace_probe.json''], workspaceProbePassed env),
         ([''workspace_isolation_evidence.json''], workspaceRMFaultPassed env),
         ([''tool_workspace_evidence.json''], toolWorkspacePassed env),
         ([''real_all'', ''REAL_EVIDENCE_INDEX.json''], realAllPassed env)]
        @ (if fe_getenv env ''AORT_ENABLE_REAL_LLM'' = ''1''
           then [([''deepseek_real'', ''deepseek_real_smoke.json''], deepSeekRealSmokePassed env)] else []))"
proof -
  define r where "r = experiment_repoRoot env"
  define req where "req \<longleftrightarrow> fe_getenv env ''AORT_ENABLE_REAL_LLM'' = ''1''"
  define real where "real = readJSONMap env (Join [results_dir r, ''real_all'', ''REAL_EVIDENCE_INDEX.json''])"
  have w: "\<exists>out. fst (WriteFinalEvidence env write_json write_text timestamp outDir) = final_index env timestamp out"
    by (auto simp: WriteFinalEvidence_def Let_def split: option.split)
  have all: "(case real of None \<Rightarrow> False | Some data \<Rightarrow> realAllPassed env data) \<Longrightarrow> boolField (or_empty real) ''all_passed''"
    by (simp add: or_empty_def realAllPassed_def split: option.splits)
  from w all show ?thesis
    unfolding r_def [symmetric] req_def [symmetric]
    by (cases req) (auto simp: final_index_all_passed r_def [symmetric] req_def [symmetric] real_def [symmetric]
        allRealOnlyRequiredPassed_all entry_def real_only_statuses_def Let_def statusFromJSON_passed statusFromDeepSeek_passed)
qed

section \<open>Uncommitted changes\<close>

text \<open>
  \<open>commandOutput\<close> trims the output, so the first line of the status loses the blank in its first column and
  its path the first letter: a changed result file that git lists first counts as a change of the source.
\<close>

lemma first_status_line_misread:
  "gitDirtyFromPorcelain (TrimSpace ('' M experiments/results/e1.json''))" "\<not> gitDirtyFromPorcelain '' M experiments/results/e1.json''"
  by code_simp+

section \<open>Lists of files\<close>

lemma append_unique_loop_set: "set (append_unique_loop seen vs) = set vs - set seen - {[]}"
  by (induction seen vs rule: append_unique_loop.induct) auto

lemma append_unique_loop_distinct: "distinct (append_unique_loop seen vs)"
  by (induction seen vs rule: append_unique_loop.induct) (auto simp: append_unique_loop_set)

lemma appendUnique_result: "distinct (appendUnique vs)" "set (appendUnique vs) = set vs - {[]}"
  by (simp_all add: appendUnique_def append_unique_loop_distinct append_unique_loop_set)

text \<open>Every file of the list is reported once, as generated or as missing.\<close>

lemma splitExistingFiles_partition:
  assumes "splitExistingFiles env paths = (generated, missing)"
  shows "length generated + length missing = length (appendUnique paths)"
    and "set generated \<union> set missing = evidenceDisplayPath env ` (set paths - {[]})"
proof -
  let ?ps = "appendUnique paths"
  have g: "generated = map (evidenceDisplayPath env) (filter (fe_exists env) ?ps)"
    "missing = map (evidenceDisplayPath env) (filter (\<lambda>p. \<not> fe_exists env p) ?ps)"
    using assms by (auto simp: splitExistingFiles_def Let_def)
  show "length generated + length missing = length ?ps" by (simp add: g sum_length_filter_compl)
  have "set generated \<union> set missing = evidenceDisplayPath env ` set ?ps" by (auto simp: g)
  then show "set generated \<union> set missing = evidenceDisplayPath env ` (set paths - {[]})" by (simp add: appendUnique_result)
qed

end
