(* ===== verification/CgroupSmoke.thy ===== *)
theory CgroupSmoke
  imports FinalEvidence Capsule Sampler
begin

text \<open>
  The real-only checks of cgroups (\<open>internal/experiment/real_os_evidence.go\<close>): a worker is put into a cgroup,
  frozen, thawed and killed; two processes put pressure on their cgroups and the resource-aware scheduler
  has to avoid the one under pressure. Both use the capsule manager, the sampler and the scheduler.
  \<open>re_cap\<close> are the files and signals of the capsule manager, \<open>re_psi\<close> what the sampler reads at the moment;
  \<open>re_start\<close> starts a process with a time limit, \<open>re_exited\<close> waits up to two seconds for it, \<open>re_cancel\<close> kills
  it and \<open>re_reap\<close> waits for its end; \<open>re_fstype\<close> is the output of \<open>stat\<close> with its error.
\<close>

record 'k real_env =
  re_cap :: "'k cap_env"
  re_psi :: "'k \<Rightarrow> psi_env"
  re_exists :: "string \<Rightarrow> 'k \<Rightarrow> bool"
  re_fstype :: "string \<Rightarrow> 'k \<Rightarrow> string \<times> go_error option"
  re_start :: "string \<Rightarrow> string list \<Rightarrow> int \<Rightarrow> 'k \<Rightarrow> int result \<times> 'k"
  re_exited :: "int \<Rightarrow> 'k \<Rightarrow> bool \<times> 'k"
  re_cancel :: "int \<Rightarrow> 'k \<Rightarrow> 'k"
  re_reap :: "int \<Rightarrow> 'k \<Rightarrow> 'k"
  re_sleep :: "int \<Rightarrow> 'k \<Rightarrow> 'k"
  re_executable :: "string result"

abbreviation re_text :: "'k real_env \<Rightarrow> go_error \<Rightarrow> string" where
  "re_text env \<equiv> ce_text (re_cap env)"

section \<open>The root of the cgroups\<close>

function existing_ancestor :: "(string \<Rightarrow> bool) \<Rightarrow> string \<Rightarrow> string option" where
  "existing_ancestor exists_at p = (if exists_at p then Some p
     else if filepath_Dir p = p then None else existing_ancestor exists_at (filepath_Dir p))"
  by pat_completeness auto
termination
  by (relation "measure (\<lambda>(e, p). dir_rank p)") (simp_all add: dir_rank_Dir)

declare existing_ancestor.simps [simp del]

definition ensureRealCgroupRoot :: "'k real_env \<Rightarrow> string \<Rightarrow> 'k \<Rightarrow> go_error option \<times> 'k" where
  "ensureRealCgroupRoot env rt k = (if ce_goos (re_cap env) \<noteq> ''linux''
     then (Some (Errorf ''cgroup fs is not cgroup2fs: requires linux, got %s'' [ce_goos (re_cap env)]), k)
     else case existing_ancestor (\<lambda>p. re_exists env p k) rt of
       None \<Rightarrow> (Some (Errorf ''cgroup fs is not cgroup2fs: %s does not exist'' [rt]), k)
     | Some existing \<Rightarrow> (case re_fstype env existing k of
         (output, Some e) \<Rightarrow> (Some (Wrapf ''cgroup fs is not cgroup2fs: stat failed: %w: %s'' [TrimSpace output] e), k)
       | (output, None) \<Rightarrow> if TrimSpace output \<noteq> ''cgroup2fs''
           then (Some (Errorf ''cgroup fs is not cgroup2fs: %s'' [TrimSpace output]), k)
           else (case ce_mkdir (re_cap env) rt k of
               (Some e, k1) \<Rightarrow> (Some (Wrapf ''cgroup path is not writable: %w'' [] e), k1) | (None, k1) \<Rightarrow> (None, k1))))"

definition readableFile :: "'k real_env \<Rightarrow> string \<Rightarrow> 'k \<Rightarrow> bool" where
  "readableFile env path k = is_ok (ce_read (re_cap env) path k)"

definition fileContains :: "'k real_env \<Rightarrow> string \<Rightarrow> string \<Rightarrow> 'k \<Rightarrow> bool" where
  "fileContains env path want k = (case ce_read (re_cap env) path k of Inl _ \<Rightarrow> False | Inr data \<Rightarrow> Contains data want)"

section \<open>A worker in a cgroup\<close>

definition defaultRealCgroupRoot :: string where
  "defaultRealCgroupRoot = ''/sys/fs/cgroup/aort.slice''"

definition defaultMemoryHogBytes :: int where
  "defaultMemoryHogBytes = 64 * 1024 * 1024"

record SmokeConfig =
  sc_CgroupRoot :: string
  sc_OutDir :: string
  sc_MemoryMax :: string
  sc_PidsMax :: string
  sc_CPUMax :: string
  sc_Timeout :: int

definition smoke_defaults :: "SmokeConfig \<Rightarrow> SmokeConfig" where
  "smoke_defaults cfg = cfg\<lparr>
     sc_CgroupRoot := fallbackOr (sc_CgroupRoot cfg) defaultRealCgroupRoot,
     sc_OutDir := fallbackOr (sc_OutDir cfg) (Join [''experiments'', ''results'', ''real_cgroup_smoke'']),
     sc_MemoryMax := fallbackOr (sc_MemoryMax cfg) (Itoa defaultMemoryHogBytes),
     sc_PidsMax := fallbackOr (sc_PidsMax cfg) ''8'',
     sc_CPUMax := fallbackOr (sc_CPUMax cfg) ''100000 100000'',
     sc_Timeout := (if sc_Timeout cfg = 0 then 10000000000 else sc_Timeout cfg)\<rparr>"

record CgroupSmoke =
  sm_EvidenceMode :: string
  sm_CgroupPath :: string
  sm_WorkerPID :: int
  sm_WorkerPIDAttached :: bool
  sm_MemoryMaxWritten :: bool
  sm_PidsMaxWritten :: bool
  sm_MemoryCurrentReadable :: bool
  sm_PidsCurrentReadable :: bool
  sm_CPUStatReadable :: bool
  sm_FreezeSuccess :: bool
  sm_UnfreezeSuccess :: bool
  sm_CgroupKillSuccess :: bool
  sm_DestroySuccess :: bool
  sm_FailureReason :: string

definition zero_CgroupSmoke :: CgroupSmoke where
  "zero_CgroupSmoke = \<lparr>sm_EvidenceMode = ModeMissing, sm_CgroupPath = [], sm_WorkerPID = 0, sm_WorkerPIDAttached = False,
     sm_MemoryMaxWritten = False, sm_PidsMaxWritten = False, sm_MemoryCurrentReadable = False, sm_PidsCurrentReadable = False,
     sm_CPUStatReadable = False, sm_FreezeSuccess = False, sm_UnfreezeSuccess = False, sm_CgroupKillSuccess = False,
     sm_DestroySuccess = False, sm_FailureReason = []\<rparr>"

text \<open>The result as \<open>WriteJSON\<close> encodes it.\<close>

definition cgroup_smoke_json :: "CgroupSmoke \<Rightarrow> jmap" where
  "cgroup_smoke_json r = [(''experiment'', JStr ''real_cgroup_smoke''), (''evidence_mode'', JStr (sm_EvidenceMode r))]
     @ (if sm_CgroupPath r = [] then [] else [(''cgroup_path'', JStr (sm_CgroupPath r))])
     @ (if sm_WorkerPID r = 0 then [] else [(''worker_pid'', JNum (f64_of_int (sm_WorkerPID r)))])
     @ [(''worker_pid_attached'', JBool (sm_WorkerPIDAttached r)), (''memory_max_written'', JBool (sm_MemoryMaxWritten r)),
        (''pids_max_written'', JBool (sm_PidsMaxWritten r)), (''memory_current_readable'', JBool (sm_MemoryCurrentReadable r)),
        (''pids_current_readable'', JBool (sm_PidsCurrentReadable r)), (''cpu_stat_readable'', JBool (sm_CPUStatReadable r)),
        (''freeze_success'', JBool (sm_FreezeSuccess r)), (''unfreeze_success'', JBool (sm_UnfreezeSuccess r)),
        (''cgroup_kill_success'', JBool (sm_CgroupKillSuccess r)), (''destroy_success'', JBool (sm_DestroySuccess r))]
     @ (if sm_FailureReason r = [] then [] else [(''failure_reason'', JStr (sm_FailureReason r))])"

definition TrimSuffix_newline :: "string \<Rightarrow> string" where     \<comment> \<open>\<open>strings.TrimSuffix(s, "\n")\<close>\<close>
  "TrimSuffix_newline s = (if s \<noteq> [] \<and> List.last s = CHR 10 then butlast s else s)"

text \<open>\<open>write\<close> stores the result; on a failure its error is ignored.\<close>

definition smoke_fail :: "('r \<Rightarrow> 'k \<Rightarrow> go_error option \<times> 'k) \<Rightarrow> string \<Rightarrow> 'r \<Rightarrow> 'k \<Rightarrow> ('r \<times> go_error option) \<times> 'k" where
  "smoke_fail write reason res k = ((res, Some (Errorf reason [])), snd (write res k))"

abbreviation cg_fail where
  "cg_fail write reason res k \<equiv> smoke_fail write reason (res\<lparr>sm_FailureReason := reason\<rparr>) k"

definition worker_agent :: string where
  "worker_agent = ''real-cgroup-smoke-worker''"

definition probe_cgroup :: "'k real_env \<Rightarrow> SmokeConfig \<Rightarrow> int \<Rightarrow> CapRuntime \<Rightarrow> 'k \<Rightarrow> CgroupSmoke \<Rightarrow> CgroupSmoke" where
  "probe_cgroup env cfg pid rt k res = (let path = (\<lambda>name. Join [cr_CgroupPath rt, name]) in res\<lparr>
     sm_CgroupPath := cr_CgroupPath rt, sm_WorkerPID := pid,
     sm_WorkerPIDAttached := fileContains env (path ''cgroup.procs'') (Itoa pid) k,
     sm_MemoryMaxWritten := fileContains env (path ''memory.max'') (TrimSuffix_newline (sc_MemoryMax cfg)) k,
     sm_PidsMaxWritten := fileContains env (path ''pids.max'') (TrimSuffix_newline (sc_PidsMax cfg)) k,
     sm_MemoryCurrentReadable := readableFile env (path ''memory.current'') k,
     sm_PidsCurrentReadable := readableFile env (path ''pids.current'') k,
     sm_CPUStatReadable := readableFile env (path ''cpu.stat'') k\<rparr>)"

text \<open>After the kill; the flag is \<open>workerDone\<close>.\<close>

definition smoke_end ::
    "'k real_env \<Rightarrow> (CgroupSmoke \<Rightarrow> 'k \<Rightarrow> go_error option \<times> 'k) \<Rightarrow> int \<Rightarrow> CapManager \<Rightarrow> CgroupSmoke \<Rightarrow> 'k
     \<Rightarrow> ((CgroupSmoke \<times> go_error option) \<times> 'k) \<times> bool" where
  "smoke_end env write pid m res k = (case re_exited env pid k of
       (False, k1) \<Rightarrow> (cg_fail write ''worker did not exit after cgroup.kill'' res k1, False)
     | (True, k1) \<Rightarrow> (case cap_Destroy (re_cap env) worker_agent m k1 of
         ((Some e, m1), k2) \<Rightarrow> (cg_fail write (''destroy cgroup failed: '' @ re_text env e) res k2, True)
       | ((None, m1), k2) \<Rightarrow> let res1 = res\<lparr>sm_DestroySuccess := True, sm_EvidenceMode := ModeRealCgroupV2\<rparr> in
           (case write res1 k2 of (err, k3) \<Rightarrow> (((res1, err), k3), True))))"

definition smoke_control ::
    "'k real_env \<Rightarrow> (CgroupSmoke \<Rightarrow> 'k \<Rightarrow> go_error option \<times> 'k) \<Rightarrow> int \<Rightarrow> CapManager \<Rightarrow> CgroupSmoke \<Rightarrow> 'k
     \<Rightarrow> ((CgroupSmoke \<times> go_error option) \<times> 'k) \<times> bool" where
  "smoke_control env write pid m res k = (case Freeze (re_cap env) worker_agent m k of
       (Some e, k1) \<Rightarrow> (cg_fail write (''cgroup freeze failed: '' @ re_text env e) res k1, False)
     | (None, k1) \<Rightarrow> let res1 = res\<lparr>sm_FreezeSuccess := True\<rparr> in (case Unfreeze (re_cap env) worker_agent m k1 of
         (Some e, k2) \<Rightarrow> (cg_fail write (''cgroup unfreeze failed: '' @ re_text env e) res1 k2, False)
       | (None, k2) \<Rightarrow> let res2 = res1\<lparr>sm_UnfreezeSuccess := True\<rparr> in (case Kill (re_cap env) worker_agent m k2 of
           ((kr, Some e), k3) \<Rightarrow> (cg_fail write (''cgroup.kill failed: '' @ re_text env e) res2 k3, False)
         | ((kr, None), k3) \<Rightarrow> let
             ok = (kr_KillMethod kr = KillMethodCgroupKill \<and> kr_EvidenceMode kr = ModeRealCgroupV2);
             res3 = res2\<lparr>sm_CgroupKillSuccess := ok\<rparr>
           in if \<not> ok then (cg_fail write (fallbackOr (kr_FallbackReason kr) ''cgroup.kill unsupported'') res3 k3, False)
              else smoke_end env write pid m res3 k3)))"

definition smoke_worker ::
    "'k real_env \<Rightarrow> (CgroupSmoke \<Rightarrow> 'k \<Rightarrow> go_error option \<times> 'k) \<Rightarrow> SmokeConfig \<Rightarrow> int \<Rightarrow> CgroupSmoke \<Rightarrow> 'k
     \<Rightarrow> ((CgroupSmoke \<times> go_error option) \<times> 'k) \<times> bool" where
  "smoke_worker env write cfg pid res k = (let m0 = cap_New \<lparr>cc_Root = sc_CgroupRoot cfg, cc_ForceReal = False,
       cc_AllowDegraded = False, cc_MemoryMax = sc_MemoryMax cfg, cc_PidsMax = sc_PidsMax cfg, cc_CPUMax = sc_CPUMax cfg,
       cc_SignalGracePeriod = 0\<rparr>
     in case Prepare (re_cap env) worker_agent pid m0 k of
       ((Inl e, m), k1) \<Rightarrow> (cg_fail write (''real cgroup prepare failed: '' @ re_text env e) res k1, False)
     | ((Inr rt, m), k1) \<Rightarrow> let res1 = probe_cgroup env cfg pid rt k1 res in
         if \<not> sm_WorkerPIDAttached res1 then (cg_fail write ''worker PID was not attached to cgroup'' res1 k1, False)
         else if \<not> sm_MemoryMaxWritten res1 \<or> \<not> sm_PidsMaxWritten res1 \<or> \<not> sm_MemoryCurrentReadable res1
             \<or> \<not> sm_PidsCurrentReadable res1 \<or> \<not> sm_CPUStatReadable res1
           then (cg_fail write ''required cgroup v2 files were not writable/readable'' res1 k1, False)
         else smoke_control env write pid m res1 k1)"

definition RunRealCgroupSmoke ::
    "'k real_env \<Rightarrow> (CgroupSmoke \<Rightarrow> 'k \<Rightarrow> go_error option \<times> 'k) \<Rightarrow> SmokeConfig \<Rightarrow> 'k \<Rightarrow> (CgroupSmoke \<times> go_error option) \<times> 'k" where
  "RunRealCgroupSmoke env write cfg0 k = (let cfg = smoke_defaults cfg0; res = zero_CgroupSmoke in
     case ensureRealCgroupRoot env (sc_CgroupRoot cfg) k of
       (Some e, k1) \<Rightarrow> cg_fail write (re_text env e) res k1
     | (None, k1) \<Rightarrow> (case re_start env ''sleep'' [''30''] (sc_Timeout cfg) k1 of
         (Inl e, k2) \<Rightarrow> cg_fail write (''worker process start failed: '' @ re_text env e) res k2
       | (Inr pid, k2) \<Rightarrow> (case smoke_worker env write cfg pid res k2 of
           ((out, k3), workerDone) \<Rightarrow> (out, if workerDone then k3 else re_reap env pid (re_cancel env pid k3)))))"

section \<open>Processes under pressure\<close>

record PressureConfig =
  pg_Runs :: int
  pg_OutDir :: string
  pg_CgroupRoot :: string
  pg_RequireReal :: bool
  pg_MemoryHogBytes :: int
  pg_PidsHogCount :: int
  pg_CPUHogDuration :: int     \<comment> \<open>nanoseconds\<close>
  pg_HogCommand :: string
  pg_HogCommandExtraArgs :: "string list"

definition pressure_defaults :: "PressureConfig \<Rightarrow> PressureConfig" where
  "pressure_defaults cfg = cfg\<lparr>
     pg_Runs := (if pg_Runs cfg \<le> 0 then 3 else pg_Runs cfg),
     pg_OutDir := fallbackOr (pg_OutDir cfg) (Join [''experiments'', ''results'', ''real_pressure_smoke'']),
     pg_CgroupRoot := fallbackOr (pg_CgroupRoot cfg) defaultRealCgroupRoot,
     pg_MemoryHogBytes := (if pg_MemoryHogBytes cfg \<le> 0 then defaultMemoryHogBytes else pg_MemoryHogBytes cfg),
     pg_PidsHogCount := (if pg_PidsHogCount cfg \<le> 0 then 8 else pg_PidsHogCount cfg),
     pg_CPUHogDuration := (if pg_CPUHogDuration cfg \<le> 0 then 2000000000 else pg_CPUHogDuration cfg)\<rparr>"

record PressureSmoke =
  pm_EvidenceMode :: string
  pm_Runs :: int
  pm_MemoryHogDetected :: bool
  pm_PidsHogDetected :: bool
  pm_CPUPressureDetected :: bool
  pm_ResourceSamplerMode :: string
  pm_Avoided :: bool     \<comment> \<open>\<open>ResourceAwareAvoidedHighPressureAgent\<close>\<close>
  pm_SelectedHigh :: int     \<comment> \<open>\<open>SelectedHighPressureAgentCount\<close>\<close>
  pm_CascadeFailure :: bool
  pm_CleanupSuccess :: bool
  pm_MemoryHogLimitBytes :: int
  pm_PidsHogLimit :: int
  pm_CPUHogTimeoutMS :: int
  pm_FailureReason :: string

definition pressure_smoke_json :: "PressureSmoke \<Rightarrow> jmap" where
  "pressure_smoke_json r = [(''experiment'', JStr ''real_pressure_smoke''), (''evidence_mode'', JStr (pm_EvidenceMode r)),
     (''runs'', JNum (f64_of_int (pm_Runs r))), (''memory_hog_detected'', JBool (pm_MemoryHogDetected r)),
     (''pids_hog_detected'', JBool (pm_PidsHogDetected r)), (''cpu_pressure_detected'', JBool (pm_CPUPressureDetected r)),
     (''resource_sampler_mode'', JStr (pm_ResourceSamplerMode r)),
     (''resource_aware_avoided_high_pressure_agent'', JBool (pm_Avoided r)),
     (''selected_high_pressure_agent_count'', JNum (f64_of_int (pm_SelectedHigh r))),
     (''cascade_failure'', JBool (pm_CascadeFailure r)), (''cleanup_success'', JBool (pm_CleanupSuccess r)),
     (''memory_hog_limit_bytes'', JNum (f64_of_int (pm_MemoryHogLimitBytes r))),
     (''pids_hog_limit'', JNum (f64_of_int (pm_PidsHogLimit r))), (''cpu_hog_timeout_ms'', JNum (f64_of_int (pm_CPUHogTimeoutMS r)))]
     @ (if pm_FailureReason r = [] then [] else [(''failure_reason'', JStr (pm_FailureReason r))])"

record PressureHog =
  hog_pid :: int
  hog_agentID :: string
  hog_runtime :: CapRuntime

definition hog_args :: "PressureConfig \<Rightarrow> bool \<Rightarrow> string list" where
  "hog_args cfg high = pg_HogCommandExtraArgs cfg @ (if high
     then [''_hog'', ''pressure'', ''--memory-bytes'', Itoa (pg_MemoryHogBytes cfg), ''--pids'', Itoa (pg_PidsHogCount cfg),
       ''--duration-ms'', Itoa (pg_CPUHogDuration cfg div 1000000)]
     else [''_hog'', ''sleep'', ''--duration-ms'', Itoa ((pg_CPUHogDuration cfg + 1000000000) div 1000000)])"

text \<open>Both contexts end with the parent, whose time limit is \<open>CPUHogDuration\<close> and five seconds.\<close>

definition startPressureHog ::
    "'k real_env \<Rightarrow> PressureConfig \<Rightarrow> string \<Rightarrow> bool \<Rightarrow> CapManager \<Rightarrow> 'k \<Rightarrow> (PressureHog result \<times> CapManager) \<times> 'k" where
  "startPressureHog env cfg agentID high m k = (case (if pg_HogCommand cfg = [] then re_executable env else Inr (pg_HogCommand cfg)) of
       Inl e \<Rightarrow> ((Inl e, m), k)
     | Inr command \<Rightarrow> (case re_start env command (hog_args cfg high) (pg_CPUHogDuration cfg + 5000000000) k of
         (Inl e, k1) \<Rightarrow> ((Inl e, m), k1)
       | (Inr pid, k1) \<Rightarrow> (case Prepare (re_cap env) agentID pid m k1 of
           ((Inl e, m1), k2) \<Rightarrow> ((Inl e, m1), re_reap env pid (re_cancel env pid k2))
         | ((Inr rt, m1), k2) \<Rightarrow> ((Inr \<lparr>hog_pid = pid, hog_agentID = agentID, hog_runtime = rt\<rparr>, m1), k2))))"

definition hog_cleanup :: "'k real_env \<Rightarrow> PressureHog \<Rightarrow> CapManager \<Rightarrow> 'k \<Rightarrow> (go_error option \<times> CapManager) \<times> 'k" where
  "hog_cleanup env h m k = (let k1 = re_cancel env (hog_pid h) k; k2 = snd (Kill (re_cap env) (hog_agentID h) m k1);
       k3 = re_reap env (hog_pid h) k2
     in cap_Destroy (re_cap env) (hog_agentID h) m k3)"

definition cleanup_both :: "'k real_env \<Rightarrow> PressureHog \<Rightarrow> PressureHog \<Rightarrow> CapManager \<Rightarrow> 'k \<Rightarrow> bool \<times> 'k" where
  "cleanup_both env high low m k = (case hog_cleanup env high m k of ((e1, m1), k1) \<Rightarrow>
     case hog_cleanup env low m1 k1 of ((e2, m2), k2) \<Rightarrow> (e1 = None \<and> e2 = None, k2))"

definition pressure_select :: "clock \<Rightarrow> int \<Rightarrow> f64 \<Rightarrow> AVP \<Rightarrow> AVP \<Rightarrow> (AVP \<times> DecisionLog) option" where
  "pressure_select clk run psi high low = fst (Select clk (''real-pressure-smoke-'' @ Itoa run) [high, low]
     (SetResourcePressure (zero_ResourcePressure\<lparr>rp_PSIPressure := psi, rp_EvidenceMode := ModeRealCgroupV2\<rparr>)
       (scheduler_New PolicyTokenCFSPrefixAffinityResourceAware)))"

text \<open>How often the agent under pressure was selected in \<open>n\<close> rounds from round \<open>i\<close>; none when a round has no selection.\<close>

fun pressure_rounds :: "(nat \<Rightarrow> clock) \<Rightarrow> f64 \<Rightarrow> AVP \<Rightarrow> AVP \<Rightarrow> nat \<Rightarrow> nat \<Rightarrow> int \<Rightarrow> int option" where
  "pressure_rounds clks psi high low i 0 selectedHigh = Some selectedHigh"
| "pressure_rounds clks psi high low i (Suc n) selectedHigh = (case pressure_select (clks i) (int i) psi high low of
       None \<Rightarrow> None
     | Some (selected, _) \<Rightarrow> pressure_rounds clks psi high low (Suc i) n
         (if avp_AgentID selected = avp_AgentID high then selectedHigh + 1 else selectedHigh))"

definition hog_avp :: "string \<Rightarrow> u64 \<Rightarrow> string \<Rightarrow> int \<Rightarrow> AVP" where
  "hog_avp agentID vruntime path created = zero_AVP\<lparr>avp_AgentID := agentID, avp_TaskID := ''real-pressure-smoke'',
     avp_State := StateReady, avp_VRuntime := vruntime, avp_CgroupPath := path, avp_CreatedAt := created\<rparr>"

definition stat_value :: "AVP \<Rightarrow> string \<Rightarrow> u64" where
  "stat_value agent key = (case avp_CPUStat agent of None \<Rightarrow> 0 | Some m \<Rightarrow> (case m key of None \<Rightarrow> 0 | Some v \<Rightarrow> v))"

text \<open>What is measured of the two agents; the error is the reason of \<open>failRunning\<close>.\<close>

definition pressure_measure ::
    "'k real_env \<Rightarrow> (nat \<Rightarrow> clock) \<Rightarrow> PressureConfig \<Rightarrow> PressureHog \<Rightarrow> PressureHog \<Rightarrow> 'k \<Rightarrow> PressureSmoke \<Rightarrow> string option \<times> PressureSmoke" where
  "pressure_measure env clks cfg high low k res = (
     case Enrich (re_psi env k) (NewCgroupSampler []) (hog_avp ''high-pressure-agent'' 5 (cr_CgroupPath (hog_runtime high)) 1) of
       (_, _, Some e) \<Rightarrow> (Some (''real resource sampler failed for high pressure agent: '' @ re_text env e), res)
     | (highAgent, highPressure, None) \<Rightarrow>
     (case Enrich (re_psi env k) (NewCgroupSampler []) (hog_avp ''low-pressure-agent'' 6 (cr_CgroupPath (hog_runtime low)) 2) of
       (_, _, Some e) \<Rightarrow> (Some (''real resource sampler failed for low pressure agent: '' @ re_text env e), res)
     | (lowAgent, _, None) \<Rightarrow> let
         res1 = res\<lparr>
           pm_MemoryHogDetected := pg_MemoryHogBytes cfg div 2 \<le> avp_MemoryCurrent highAgent,
           pm_PidsHogDetected := max 2 (pg_PidsHogCount cfg div 2) \<le> avp_PidsCurrent highAgent,
           pm_CPUPressureDetected := (0 < stat_value highAgent ''usage_usec'' \<or> 0 < stat_value highAgent ''nr_throttled''
             \<or> 0 < stat_value highAgent ''throttled_usec''),
           pm_ResourceSamplerMode := rp_EvidenceMode highPressure, pm_EvidenceMode := rp_EvidenceMode highPressure\<rparr>
       in case pressure_rounds clks (rp_PSIPressure highPressure) highAgent lowAgent 0 (nat (pg_Runs cfg)) 0 of
            None \<Rightarrow> (Some ''resource-aware scheduler did not select an agent'', res1)
          | Some selectedHigh \<Rightarrow> let
              res2 = res1\<lparr>pm_SelectedHigh := selectedHigh, pm_Avoided := (selectedHigh = 0), pm_CascadeFailure := 0 < selectedHigh\<rparr>
            in if \<not> pg_RequireReal cfg then (None, res2)
               else if pm_EvidenceMode res2 \<noteq> ModeRealCgroupV2 then (Some ''resource sampler mode is not real-cgroup-v2'', res2)
               else if \<not> pm_MemoryHogDetected res2 then (Some ''memory hog was not detected from memory.current'', res2)
               else if \<not> pm_PidsHogDetected res2 then (Some ''pids hog was not detected from pids.current'', res2)
               else if \<not> pm_CPUPressureDetected res2 then (Some ''cpu hog was not detected from cpu.stat'', res2)
               else if \<not> pm_Avoided res2 then (Some ''resource-aware scheduler selected high-pressure agent'', res2)
               else (None, res2)))"

abbreviation pm_fail where
  "pm_fail write reason res k \<equiv> smoke_fail write reason (res\<lparr>pm_FailureReason := reason\<rparr>) k"

definition pressure_running ::
    "'k real_env \<Rightarrow> (PressureSmoke \<Rightarrow> 'k \<Rightarrow> go_error option \<times> 'k) \<Rightarrow> (nat \<Rightarrow> clock) \<Rightarrow> PressureConfig \<Rightarrow> PressureHog \<Rightarrow> PressureHog
     \<Rightarrow> CapManager \<Rightarrow> PressureSmoke \<Rightarrow> 'k \<Rightarrow> (PressureSmoke \<times> go_error option) \<times> 'k" where
  "pressure_running env write clks cfg high low m res k0 = (let
       k = re_sleep env (min 900000000 (pg_CPUHogDuration cfg)) k0
     in case pressure_measure env clks cfg high low k res of (failed, res1) \<Rightarrow>
        (case cleanup_both env high low m k of (cleaned, k1) \<Rightarrow> let res2 = res1\<lparr>pm_CleanupSuccess := cleaned\<rparr> in
           (case failed of
              Some reason \<Rightarrow> pm_fail write reason res2 k1
            | None \<Rightarrow> if pg_RequireReal cfg \<and> \<not> cleaned then pm_fail write ''cleanup failed'' res2 k1
                else (case write res2 k1 of (err, k2) \<Rightarrow> ((res2, err), k2)))))"

definition start_pressure :: "PressureConfig \<Rightarrow> PressureSmoke" where
  "start_pressure cfg = \<lparr>pm_EvidenceMode = ModeMissing, pm_Runs = pg_Runs cfg, pm_MemoryHogDetected = False, pm_PidsHogDetected = False,
     pm_CPUPressureDetected = False, pm_ResourceSamplerMode = ModeMissing, pm_Avoided = False, pm_SelectedHigh = 0,
     pm_CascadeFailure = False, pm_CleanupSuccess = True, pm_MemoryHogLimitBytes = pg_MemoryHogBytes cfg,
     pm_PidsHogLimit = pg_PidsHogCount cfg, pm_CPUHogTimeoutMS = pg_CPUHogDuration cfg div 1000000, pm_FailureReason = []\<rparr>"

definition RunRealPressureSmoke ::
    "'k real_env \<Rightarrow> (PressureSmoke \<Rightarrow> 'k \<Rightarrow> go_error option \<times> 'k) \<Rightarrow> (nat \<Rightarrow> clock) \<Rightarrow> PressureConfig \<Rightarrow> 'k
     \<Rightarrow> (PressureSmoke \<times> go_error option) \<times> 'k" where
  "RunRealPressureSmoke env write clks cfg0 k = (let cfg = pressure_defaults cfg0; res = start_pressure cfg in
     case ensureRealCgroupRoot env (pg_CgroupRoot cfg) k of
       (Some e, k1) \<Rightarrow> if pg_RequireReal cfg then pm_fail write (re_text env e) res k1
         else let res1 = res\<lparr>pm_FailureReason := re_text env e\<rparr> in ((res1, None), snd (write res1 k1))
     | (None, k1) \<Rightarrow> let m0 = cap_New \<lparr>cc_Root = pg_CgroupRoot cfg, cc_ForceReal = False, cc_AllowDegraded = False,
           cc_MemoryMax = Itoa (defaultMemoryHogBytes * 2), cc_PidsMax = ''16'', cc_CPUMax = ''50000 100000'', cc_SignalGracePeriod = 0\<rparr>
         in (case startPressureHog env cfg ''high-pressure-agent'' True m0 k1 of
              ((Inl e, m1), k2) \<Rightarrow> pm_fail write (''start high pressure hog failed: '' @ re_text env e) res k2
            | ((Inr high, m1), k2) \<Rightarrow> (case startPressureHog env cfg ''low-pressure-agent'' False m1 k2 of
                ((Inl e, m2), k3) \<Rightarrow> pm_fail write (''start low pressure hog failed: '' @ re_text env e) res
                  (snd (hog_cleanup env high m2 k3))
              | ((Inr low, m2), k3) \<Rightarrow> pressure_running env write clks cfg high low m2 res k3)))"

end
