(* ===== verification/CgroupSmokeCorrect.thy ===== *)
theory CgroupSmokeCorrect
  imports CgroupSmoke FinalIndex SchedulerCorrect
begin

text \<open>
  The real-only checks agree with the final index: what a check writes counts as passed there exactly when the
  check found no failure. The scheduler's choice in the pressure check is the same in every round.
\<close>

section \<open>The cgroup check\<close>

lemma cgroup_json_passed:
  "realCgroupSmokePassed fenv (cgroup_smoke_json r) \<longleftrightarrow> sm_EvidenceMode r = ModeRealCgroupV2 \<and> sm_WorkerPIDAttached r
     \<and> sm_MemoryCurrentReadable r \<and> sm_PidsCurrentReadable r \<and> sm_CPUStatReadable r \<and> sm_FreezeSuccess r \<and> sm_UnfreezeSuccess r
     \<and> sm_CgroupKillSuccess r \<and> sm_DestroySuccess r"
  by (simp add: realCgroupSmokePassed_def cgroup_smoke_json_def stringField_def boolField_def)

definition all_checked :: "CgroupSmoke \<Rightarrow> bool" where
  "all_checked r \<longleftrightarrow> sm_FailureReason r = [] \<and> sm_WorkerPIDAttached r \<and> sm_MemoryMaxWritten r \<and> sm_PidsMaxWritten r
     \<and> sm_MemoryCurrentReadable r \<and> sm_PidsCurrentReadable r \<and> sm_CPUStatReadable r"

definition all_done :: "CgroupSmoke \<Rightarrow> bool" where
  "all_done r \<longleftrightarrow> all_checked r \<and> sm_EvidenceMode r = ModeRealCgroupV2 \<and> sm_FreezeSuccess r \<and> sm_UnfreezeSuccess r
     \<and> sm_CgroupKillSuccess r \<and> sm_DestroySuccess r"

text \<open>A run ends with a reason, or with everything done, the worker gone and the result written.\<close>

definition cgroup_outcome ::
    "(CgroupSmoke \<Rightarrow> 'k \<Rightarrow> go_error option \<times> 'k) \<Rightarrow> ((CgroupSmoke \<times> go_error option) \<times> 'k) \<times> bool \<Rightarrow> bool" where
  "cgroup_outcome write x \<longleftrightarrow> (case x of (((r, err), k'), gone) \<Rightarrow>
     sm_EvidenceMode r = ModeMissing \<and> err = Some (Errorf (sm_FailureReason r) [])
     \<or> all_done r \<and> gone \<and> (\<exists>k1. write r k1 = (err, k')))"

lemma cg_fail_outcome: "sm_EvidenceMode r = ModeMissing \<Longrightarrow> cgroup_outcome write (cg_fail write reason r k, gone)"
  by (simp add: cgroup_outcome_def smoke_fail_def)

lemma smoke_end_outcome:
  assumes "all_checked r" "sm_EvidenceMode r = ModeMissing" "sm_FreezeSuccess r" "sm_UnfreezeSuccess r" "sm_CgroupKillSuccess r"
  shows "cgroup_outcome write (smoke_end env write pid m r k)"
proof -
  have written: "cgroup_outcome write (((r\<lparr>sm_DestroySuccess := True, sm_EvidenceMode := ModeRealCgroupV2\<rparr>, err), k3), True)"
    if "write (r\<lparr>sm_DestroySuccess := True, sm_EvidenceMode := ModeRealCgroupV2\<rparr>) k2 = (err, k3)" for err k2 k3
    using that assms by (auto simp: cgroup_outcome_def all_done_def all_checked_def)
  show ?thesis
    unfolding smoke_end_def Let_def
    by (auto simp: cg_fail_outcome [OF assms(2)] written split: prod.split option.split bool.split)
qed

lemma smoke_control_outcome:
  assumes "all_checked r" "sm_EvidenceMode r = ModeMissing"
  shows "cgroup_outcome write (smoke_control env write pid m r k)"
proof -
  let ?f = "r\<lparr>sm_FreezeSuccess := True\<rparr>"
  let ?u = "?f\<lparr>sm_UnfreezeSuccess := True\<rparr>"
  have "cgroup_outcome write (smoke_end env write pid m (?u\<lparr>sm_CgroupKillSuccess := True\<rparr>) k)" for k
    by (rule smoke_end_outcome) (use assms in \<open>simp_all add: all_checked_def\<close>)
  then show ?thesis
    unfolding smoke_control_def Let_def
    by (auto simp: cg_fail_outcome assms(2) split: prod.split option.split if_splits)
qed

lemma smoke_worker_outcome:
  "cgroup_outcome write (smoke_worker env write cfg pid zero_CgroupSmoke k)"
proof -
  have z: "sm_EvidenceMode zero_CgroupSmoke = ModeMissing" "sm_FailureReason zero_CgroupSmoke = []" by (simp_all add: zero_CgroupSmoke_def)
  have p: "sm_EvidenceMode (probe_cgroup env cfg pid rt k1 zero_CgroupSmoke) = ModeMissing"
    "sm_FailureReason (probe_cgroup env cfg pid rt k1 zero_CgroupSmoke) = []" for rt k1
    by (simp_all add: probe_cgroup_def Let_def z)
  have c: "cgroup_outcome write (smoke_control env write pid m r k)"
    if "sm_EvidenceMode r = ModeMissing" "sm_FailureReason r = []" "sm_WorkerPIDAttached r" "sm_MemoryMaxWritten r" "sm_PidsMaxWritten r"
      "sm_MemoryCurrentReadable r" "sm_PidsCurrentReadable r" "sm_CPUStatReadable r" for m r k
    by (rule smoke_control_outcome) (use that in \<open>simp_all add: all_checked_def\<close>)
  show ?thesis
    unfolding smoke_worker_def Let_def
    by (auto simp: cg_fail_outcome z p intro!: c split: prod.split sum.split)
qed

lemma cgroup_check_run:
  assumes "RunRealCgroupSmoke env write cfg k = ((res, err), k')"
  shows "if realCgroupSmokePassed fenv (cgroup_smoke_json res)
    then sm_FailureReason res = [] \<and> sm_MemoryMaxWritten res \<and> sm_PidsMaxWritten res \<and> (\<exists>k1. write res k1 = (err, k'))
    else err = Some (Errorf (sm_FailureReason res) [])"
proof -
  let ?cfg = "smoke_defaults cfg"
  obtain e k1 where 1: "ensureRealCgroupRoot env (sc_CgroupRoot ?cfg) k = (e, k1)" by (rule prod.exhaust)
  have missing: ?thesis if "sm_EvidenceMode res = ModeMissing" "err = Some (Errorf (sm_FailureReason res) [])"
    using that by (simp add: cgroup_json_passed ModeMissing_def ModeRealCgroupV2_def)
  show ?thesis
  proof (cases e)
    case (Some x)
    with assms 1 show ?thesis by (intro missing) (auto simp: RunRealCgroupSmoke_def Let_def smoke_fail_def zero_CgroupSmoke_def)
  next
    case None
    obtain p k2 where 2: "re_start env ''sleep'' [''30''] (sc_Timeout ?cfg) k1 = (p, k2)" by (rule prod.exhaust)
    show ?thesis
    proof (cases p)
      case (Inl x)
      with assms 1 2 None show ?thesis
        by (intro missing) (auto simp: RunRealCgroupSmoke_def Let_def smoke_fail_def zero_CgroupSmoke_def)
    next
      case (Inr pid)
      obtain r er k3 gone where 3: "smoke_worker env write ?cfg pid zero_CgroupSmoke k2 = (((r, er), k3), gone)" by (metis prod.exhaust)
      with assms 1 2 None Inr have eq: "res = r" "err = er" "gone \<Longrightarrow> k' = k3"
        by (auto simp: RunRealCgroupSmoke_def Let_def split: if_splits)
      from smoke_worker_outcome [of "write" env ?cfg pid k2] show ?thesis
        unfolding 3 cgroup_outcome_def prod.case
      proof (elim disjE conjE)
        assume "all_done r" gone "\<exists>k1. write r k1 = (er, k3)"
        then show ?thesis using eq by (simp add: cgroup_json_passed all_done_def all_checked_def)
      qed (use eq missing in simp_all)
    qed
  qed
qed

text \<open>
  C1. The cgroup check and the final index agree. Either the written result counts as passed there, and
  then the limits were written and the worker was frozen, thawed, killed through its cgroup and is gone with
  it; or the check ends with the recorded reason as its error.
\<close>

theorem cgroup_check_judged:
  "case RunRealCgroupSmoke env write cfg k of ((res, err), k') \<Rightarrow>
     if realCgroupSmokePassed fenv (cgroup_smoke_json res)
     then sm_FailureReason res = [] \<and> sm_MemoryMaxWritten res \<and> sm_PidsMaxWritten res \<and> (\<exists>k1. write res k1 = (err, k'))
     else err = Some (Errorf (sm_FailureReason res) [])"
proof -
  obtain res err k' where run: "RunRealCgroupSmoke env write cfg k = ((res, err), k')" by (metis prod.exhaust)
  have "if realCgroupSmokePassed fenv (cgroup_smoke_json res)
    then sm_FailureReason res = [] \<and> sm_MemoryMaxWritten res \<and> sm_PidsMaxWritten res \<and> (\<exists>k1. write res k1 = (err, k'))
    else err = Some (Errorf (sm_FailureReason res) [])" by (rule cgroup_check_run [OF run])
  then show ?thesis by (simp only: run prod.case)
qed


section \<open>The pressure check\<close>

lemma pressure_select_same:
  "map_option fst (pressure_select clk i psi high low) = map_option fst (pressure_select clk' j psi high low)"
  by (simp add: pressure_select_def Select_def Let_def split: prod.split)

lemma pressure_rounds_same:
  assumes "\<forall>i. map_option fst (pressure_select (clks i) (int i) psi high low) = x"
  shows "pressure_rounds clks psi high low i n c = (if n = 0 then Some c else case x of None \<Rightarrow> None
     | Some s \<Rightarrow> Some (c + (if avp_AgentID s = avp_AgentID high then int n else 0)))"
proof (induction n arbitrary: i c)
  case (Suc n)
  from assms have "map_option fst (pressure_select (clks i) (int i) psi high low) = x" by blast
  then show ?case by (cases x) (auto simp: Suc)
qed simp

text \<open>The agent under pressure is selected in every round or in none.\<close>

lemma pressure_rounds_all: "pressure_rounds clks psi high low 0 n 0 = Some c \<Longrightarrow> c = 0 \<or> c = int n"
proof -
  assume c: "pressure_rounds clks psi high low 0 n 0 = Some c"
  have "\<forall>i. map_option fst (pressure_select (clks i) (int i) psi high low) = map_option fst (pressure_select (clks 0) 0 psi high low)"
    using pressure_select_same by blast
  from c [unfolded pressure_rounds_same [OF this]] show ?thesis by (auto split: if_splits option.splits)
qed

definition hog_found :: "PressureSmoke \<Rightarrow> bool" where
  "hog_found r \<longleftrightarrow> pm_EvidenceMode r = ModeRealCgroupV2 \<and> pm_MemoryHogDetected r \<and> pm_PidsHogDetected r
     \<and> pm_CPUPressureDetected r \<and> pm_Avoided r"

text \<open>What holds of the result at every time.\<close>

definition counted :: "PressureSmoke \<Rightarrow> bool" where
  "counted r \<longleftrightarrow> pm_FailureReason r = [] \<and> pm_ResourceSamplerMode r = pm_EvidenceMode r
     \<and> (pm_SelectedHigh r = 0 \<or> pm_SelectedHigh r = pm_Runs r) \<and> 0 < pm_Runs r
     \<and> (pm_Avoided r \<longrightarrow> pm_SelectedHigh r = 0 \<and> \<not> pm_CascadeFailure r)"

lemma pressure_json_passed:
  "counted r \<Longrightarrow> realPressureSmokePassed fenv (pressure_smoke_json (r\<lparr>pm_CleanupSuccess := c\<rparr>)) \<longleftrightarrow> hog_found r \<and> c"
proof -
  have "f64_to_int (f64_of_int 0) = 0" by code_simp
  then show "counted r \<Longrightarrow> ?thesis"
    by (auto simp: realPressureSmokePassed_def pressure_smoke_json_def stringField_def boolField_def numberField_def counted_def hog_found_def)
qed

lemma start_counted: "0 < pg_Runs cfg \<Longrightarrow> counted (start_pressure cfg)" "\<not> hog_found (start_pressure cfg)"
  "pm_Runs (start_pressure cfg) = pg_Runs cfg"
  by (simp_all add: counted_def start_pressure_def hog_found_def)

lemma pressure_measure_result:
  assumes "0 < pg_Runs cfg" "pressure_measure env clks cfg high low k (start_pressure cfg) = (failed, r)"
  shows "counted r" "pm_Runs r = pg_Runs cfg" "pg_RequireReal cfg \<Longrightarrow> hog_found r \<longleftrightarrow> failed = None"
proof -
  obtain ha hp he where 1: "Enrich (re_psi env k) (NewCgroupSampler []) (hog_avp ''high-pressure-agent'' 5 (cr_CgroupPath (hog_runtime high)) 1)
    = (ha, hp, he)" by (metis prod.exhaust)
  obtain la lp le where 2: "Enrich (re_psi env k) (NewCgroupSampler []) (hog_avp ''low-pressure-agent'' 6 (cr_CgroupPath (hog_runtime low)) 2)
    = (la, lp, le)" by (metis prod.exhaust)
  note m = assms(2) [unfolded pressure_measure_def 1 2 prod.case Let_def]
  have "counted r \<and> pm_Runs r = pg_Runs cfg \<and> (pg_RequireReal cfg \<longrightarrow> (hog_found r \<longleftrightarrow> failed = None))"
  proof (cases "he = None \<and> le = None")
    case False
    with m assms(1) show ?thesis by (auto simp: start_counted split: option.splits)
  next
    case True
    show ?thesis
    proof (cases "pressure_rounds clks (rp_PSIPressure hp) ha la 0 (nat (pg_Runs cfg)) 0")
      case None
      with m True assms(1) show ?thesis by (auto simp: counted_def hog_found_def start_pressure_def)
    next
      case (Some c)
      from pressure_rounds_all [OF Some] assms(1) have c: "c = 0 \<or> c = pg_Runs cfg" by simp
      from m True Some c assms(1) show ?thesis
        by (cases "pg_RequireReal cfg") (auto simp: counted_def hog_found_def start_pressure_def split: if_splits)
    qed
  qed
  then show "counted r" "pm_Runs r = pg_Runs cfg" "pg_RequireReal cfg \<Longrightarrow> hog_found r \<longleftrightarrow> failed = None" by simp_all
qed

lemma passed_same: "realPressureSmokePassed fenv (pressure_smoke_json (r\<lparr>pm_FailureReason := x\<rparr>))
    \<longleftrightarrow> realPressureSmokePassed fenv (pressure_smoke_json r)"
  by (simp add: realPressureSmokePassed_def pressure_smoke_json_def stringField_def boolField_def numberField_def)

lemma start_not_passed: "\<not> realPressureSmokePassed fenv (pressure_smoke_json (start_pressure cfg))"
  by (simp add: realPressureSmokePassed_def pressure_smoke_json_def stringField_def start_pressure_def ModeMissing_def ModeRealCgroupV2_def)

definition pressure_outcome ::
    "final_env \<Rightarrow> (PressureSmoke \<Rightarrow> 'k \<Rightarrow> go_error option \<times> 'k) \<Rightarrow> (PressureSmoke \<times> go_error option) \<times> 'k \<Rightarrow> bool" where
  "pressure_outcome fenv write x \<longleftrightarrow> (case x of ((res, err), k') \<Rightarrow>
     (if realPressureSmokePassed fenv (pressure_smoke_json res)
      then pm_FailureReason res = [] \<and> pm_SelectedHigh res = 0 \<and> (\<exists>k1. write res k1 = (err, k'))
      else err = Some (Errorf (pm_FailureReason res) []))
     \<and> pm_SelectedHigh res \<in> {0, pm_Runs res})"

lemma pm_fail_outcome:
  "\<not> realPressureSmokePassed fenv (pressure_smoke_json r) \<Longrightarrow> pm_SelectedHigh r \<in> {0, pm_Runs r}
     \<Longrightarrow> pressure_outcome fenv write (pm_fail write reason r k)"
  by (simp add: pressure_outcome_def smoke_fail_def passed_same)

lemma start_fail_outcome: "pressure_outcome fenv write (pm_fail write reason (start_pressure cfg) k)"
  by (rule pm_fail_outcome) (simp_all add: start_not_passed, simp add: start_pressure_def)

lemma pressure_running_outcome:
  assumes "0 < pg_Runs cfg" "pg_RequireReal cfg"
  shows "pressure_outcome fenv write (pressure_running env write clks cfg high low m (start_pressure cfg) k)"
proof -
  let ?k = "re_sleep env (min 900000000 (pg_CPUHogDuration cfg)) k"
  obtain failed r where 1: "pressure_measure env clks cfg high low ?k (start_pressure cfg) = (failed, r)" by (rule prod.exhaust)
  obtain cleaned k1 where 2: "cleanup_both env high low m ?k = (cleaned, k1)" by (rule prod.exhaust)
  note r = pressure_measure_result [OF assms(1) 1]
  note j = pressure_json_passed [OF r(1), of fenv cleaned]
  have n: "pm_SelectedHigh r \<in> {0, pm_Runs r}" using r(1) by (simp add: counted_def)
  show ?thesis
  proof (cases "failed = None \<and> cleaned")
    case False
    with r(3) [OF assms(2)] j have "\<not> realPressureSmokePassed fenv (pressure_smoke_json (r\<lparr>pm_CleanupSuccess := cleaned\<rparr>))" by auto
    note pm_fail_outcome [OF this]
    with n False assms(2) show ?thesis by (auto simp: pressure_running_def Let_def 1 2 split: option.split)
  next
    case True
    with r(3) [OF assms(2)] j have p: "realPressureSmokePassed fenv (pressure_smoke_json (r\<lparr>pm_CleanupSuccess := True\<rparr>))" by simp
    obtain err k2 where 3: "write (r\<lparr>pm_CleanupSuccess := True\<rparr>) k1 = (err, k2)" by (rule prod.exhaust)
    from True r(1) r(3) [OF assms(2)] have "pm_SelectedHigh r = 0" "pm_FailureReason r = []" by (auto simp: counted_def hog_found_def)
    with p 3 True show ?thesis by (auto simp: pressure_running_def Let_def 1 2 pressure_outcome_def)
  qed
qed

lemma pressure_check_outcome: "pressure_outcome fenv write (RunRealPressureSmoke env write clks (cfg\<lparr>pg_RequireReal := True\<rparr>) k)"
proof -
  let ?cfg = "pressure_defaults (cfg\<lparr>pg_RequireReal := True\<rparr>)"
  have c: "0 < pg_Runs ?cfg" "pg_RequireReal ?cfg" by (simp_all add: pressure_defaults_def)
  show ?thesis
    unfolding RunRealPressureSmoke_def Let_def
    by (auto simp: c(2) start_fail_outcome pressure_running_outcome [OF c] split: prod.split option.split sum.split)
qed

text \<open>
  C2. The pressure check, when real evidence is required, and the final index agree: either the written
  result counts as passed there, and then the agent under pressure was never selected, or the check ends
  with the recorded reason as its error. In any case that agent is selected in every round or in none.
\<close>

theorem pressure_check_judged:
  "case RunRealPressureSmoke env write clks (cfg\<lparr>pg_RequireReal := True\<rparr>) k of ((res, err), k') \<Rightarrow>
     (if realPressureSmokePassed fenv (pressure_smoke_json res)
      then pm_FailureReason res = [] \<and> pm_SelectedHigh res = 0 \<and> (\<exists>k1. write res k1 = (err, k'))
      else err = Some (Errorf (pm_FailureReason res) []))
     \<and> pm_SelectedHigh res \<in> {0, pm_Runs res}"
proof -
  obtain res err k' where run: "RunRealPressureSmoke env write clks (cfg\<lparr>pg_RequireReal := True\<rparr>) k = ((res, err), k')"
    by (metis prod.exhaust)
  from pressure_check_outcome [of fenv "write" env clks cfg k] show ?thesis unfolding run prod.case pressure_outcome_def .
qed

end
