(* ===== verification/Spec2Isabelle.thy ===== *)
theory Spec2Isabelle
  imports Prelude Float64 GoStrings GoPath Confinement Events Evidence Avp Dag CvmProps Blackboard SchedulerCorrect Supervisor RegistryCorrect Checkpoint Replay Llm Setup GatewayCorrect WorkspaceContract CapsuleCorrect PressureCorrect SoftwareReal ServerFacts ServerDemo ServerRecovery ServerSpawn ServerHttpCorrect ServerTools ServerReal EbpfCorrect ShmCorrect FinalCorrect CgroupSmokeCorrect
begin

text \<open>
  Verification of the AORT-R agent runtime.

  \<^bold>\<open>The program.\<close> One Go process runs language-model agents as if they were operating-system processes.
  An agent makes syscalls, which the gateway (\<open>syscall/gateway.go\<close>) answers, records and reports as events. Its
  context is a page table of the context virtual memory (\<open>cvm/store.go\<close>), whose pages are shared by content.
  Agents exchange page references over a blackboard (\<open>ipc/blackboard.go\<close>), call a model through a router
  (\<open>llm/router.go\<close>) and run tools in a workspace of their own (\<open>workspace/manager.go\<close>), which is committed
  after a success and rolled back after a failure. A scheduler (\<open>scheduler/scheduler.go\<close>) picks the next agent,
  a registry (\<open>worker/registry.go\<close>) keeps the agents' states from the messages of their worker processes and
  from heartbeats, capsules (\<open>capsule/manager.go\<close>) limit and kill them through cgroups. Checkpoints
  (\<open>checkpoint/checkpoint.go\<close>) bring tasks back after a restart. The server (\<open>api/server.go\<close>) owns all of
  these, wires them together, and offers them over HTTP; \<open>api/software_real_demo.go\<close> drives the whole runtime
  through one task. All paths are below \<open>src/internal\<close>.

  \<^bold>\<open>Which theory models which part.\<close>
  \<^item> \<open>Prelude\<close>: results (\<open>'a result\<close>, the error as \<open>Inl\<close>), the clock, a map with the order in which Go
    happens to iterate over it, reachability and invariants (locale \<open>invariant_system\<close>), strict weak orders
    and sorting by them (locale \<open>strict_weak\<close>).
  \<^item> \<open>Float64\<close>: \<open>float64\<close> as correctly rounded rationals with infinities and NaN (locale \<open>rounding\<close>).
    \<open>GoStrings\<close>, \<open>GoNum\<close>, \<open>GoPath\<close>, \<open>GoFS\<close>: what the code uses of \<open>strings\<close>, \<open>strconv\<close>, \<open>path/filepath\<close> and \<open>os\<close>,
    the last on an explicit tree of directories, files and symbolic links.
  \<^item> \<open>Confinement\<close>: the path guards of gateway and workspace manager.
  \<^item> \<open>Events\<close> (\<open>events/hub.go\<close>; locale \<open>event_sink\<close>), \<open>Evidence\<close>, \<open>Avp\<close> (\<open>avp/manager.go\<close>), \<open>Dag\<close>, \<open>Supervisor\<close>,
    \<open>Replay\<close> (\<open>trace\<close>, \<open>replay\<close>), \<open>Setup\<close> (\<open>config\<close>, \<open>demo\<close>, \<open>kernel\<close>), \<open>Llm\<close>, \<open>Checkpoint\<close>: one component each.
  \<^item> \<open>Cvm\<close>, with \<open>CvmCorrect\<close>, \<open>CvmEvict\<close>, \<open>CvmProps\<close>: the page store, its invariant, eviction, its properties.
  \<^item> \<open>Blackboard\<close>; \<open>Scheduler\<close> and \<open>SchedulerCorrect\<close>; \<open>Registry\<close> and \<open>RegistryCorrect\<close> (\<open>worker/*.go\<close>).
  \<^item> \<open>Gateway\<close> and \<open>GatewayExec\<close> (all handlers, \<open>Handle\<close>), with \<open>GatewayCorrect\<close>.
  \<^item> \<open>Workspace\<close> and \<open>WorkspaceOps\<close> (every operation of the manager), with \<open>WorkspaceCorrect\<close> (copying and
    removing trees), \<open>WorkspaceProps\<close>, \<open>WorkspaceFrame\<close> (what an operation leaves alone), \<open>WorkspaceIsolation\<close>
    (several agents as a step relation) and \<open>WorkspaceContract\<close> (what the manager promises).
  \<^item> \<open>Capsule\<close> and \<open>CapsuleCorrect\<close>; \<open>Pressure\<close> (\<open>pressure/monitor.go\<close>), \<open>Sampler\<close> (\<open>resource/sampler.go\<close>)
    and \<open>PressureCorrect\<close>.
  \<^item> \<open>ServerState\<close> (the state the gateway's callbacks share: adapters, spawning, reporting), \<open>ServerRun\<close> (demo,
    scheduling loop, checkpoints, recovery, faults, start), \<open>ServerViews\<close> (evidence), \<open>ServerHttp\<close> (every
    handler, the routes), \<open>SoftwareReal\<close> (the software demo).
  \<^item> \<open>ServerFacts\<close>, \<open>ServerDemo\<close>, \<open>ServerRecovery\<close>, \<open>ServerSpawn\<close>, \<open>ServerHttpCorrect\<close>, \<open>ServerTools\<close>, \<open>ServerReal\<close>: the
    composition of the components.

  \<^bold>\<open>How code and model correspond.\<close> A struct is a record whose fields carry a short prefix, a method a function
  that takes the receiver last and returns it updated; it keeps its Go name, with a prefix where the name
  clashes. A method that locks a mutex is one step. Published events are returned, in order, and the server
  collects them. \<open>time.Now\<close> is the clock argument: \<open>clk i\<close> is the \<open>i\<close>-th reading of an operation and \<open>clks n\<close>
  the clock of its \<open>n\<close>-th part. Iteration over a map takes its order as an argument that is only known to list
  the keys (\<open>range_order\<close>). Go's panics do not occur on the paths modelled: a missing map entry is the zero
  value, written out. Integers that can wrap (virtual runtimes, PSI totals) are \<open>64 word\<close>; counters that cannot
  reach the limit of 63 bits in a run are \<open>int\<close> or \<open>nat\<close>.

  What lies outside is a parameter, gathered in records: \<open>codec\<close> (SHA-256, gzip), \<open>env\<close> (the gateway's world),
  \<open>wenv\<close> (mount, \<open>/proc\<close>, error texts), \<open>cap_env\<close> (cgroup files, signals), \<open>psi_env\<close>, \<open>host\<close> (process start, tool
  runs, the encoders). Theorems that need something of them name it: \<open>codec_ok\<close> (decompression inverts
  compression), \<open>tools_confined\<close> (a tool writes only below its working
  directory), \<open>logs_signals\<close>, \<open>can_start\<close>.

  \<^bold>\<open>What the lemmas show.\<close> Per component: an invariant, its preservation by every operation (\<open>go_inv\<close>), what an
  operation leaves unchanged (\<open>go_frame\<close>), and then the properties, which are claims of the manifest:
  \<^item> Gateway: one record and one answer per request; the working directory of a tool is confined (lexically,
    with the exception that a link makes); a tool's outcome decides between commit and rollback.
  \<^item> Page store: materializing always succeeds, compression is invisible, eviction frees what it says and the
    coldest pages first.
  \<^item> Workspaces: agents cannot touch each other's files, rollback restores the base after any use, commit
    publishes exactly the working copy. \<open>ServerTools\<close> carries this through the gateway and the adapters.
  \<^item> Blackboard, hub, agent table, task graph: each message once and in order, the newest 256 events, fresh
    identifiers, final states, the ready nodes.
  \<^item> Scheduler: what each policy selects, with floating-point scores that are always finite. \<open>ServerDemo\<close>: the
    scheduling loop ends and starts every worker once, in the order of its decisions.
  \<^item> Registry, checkpoints, server: the heartbeat sweep, recovery of the latest snapshots into the registry,
    spawning with the parent's context, requests that only read, killing an agent.
  \<^item> \<open>ServerReal\<close>: a Hoare logic of scripts (\<open>steps\<close>) over the failing steps of the server, and with it the exact
    sequence of syscalls of the software demo.

  \<^bold>\<open>Bounds and fuel.\<close> All definitions are total. Loops over a budget have it from the code: 256 retained events,
  the buffer of a subscriber, eight attempts to remove a cgroup. Following symbolic links has Linux's limit of
  40 links and the depth limit of 255 of Go's evaluation as fuel, after which the error of the system is the
  result, as in the code. The scheduling loop terminates because every round removes a pending worker
  (\<open>pop_loop_length\<close>), the search for the repository root because a path gets shorter.

  \<^bold>\<open>Not modelled.\<close> The JSON coding, sockets and HTTP transport, writing of result files, and the streaming of
  events to a connected client are input and output: the model has the values before and after. The
  interleaving of operations inside a handler with those of other goroutines is not modelled; each locked
  operation is atomic and theorems about \<open>reachable\<close> states hold for every order of them. The shared-memory
  transfer (\<open>ipc/shm\<close>) and the kernel probes (\<open>observer/ebpf\<close>) are system calls, and parameters of the gateway
  and the evidence report. The experiments (\<open>experiment/*.go\<close>) are benchmark drivers that time the components
  above and write tables, and the commands under \<open>cmd\<close> parse flags and call the server.
\<close>

end
